(* ===== verification/Prelude.thy ===== *)
theory Prelude
  imports Main "HOL-Library.Sublist" "HOL-Library.AList"
begin

text \<open>
  Shared foundations: Go strings as byte lists with the functions of the Go package
  \<open>strings\<close> the code calls, slices that distinguish nil from empty, 64-bit integers with
  their wrap-around, and effectful calls as functions that thread a world and return an
  error or a value. The collection \<open>go_defs\<close> holds the definitions a witness unfolds.
\<close>

named_theorems go_defs \<open>definitions to unfold when a closed term is evaluated\<close>
named_theorems yields_intros \<open>what every successful run of a call returns\<close>
named_theorems keeps_intros \<open>preservation rules for effectful calls\<close>

section \<open>Bytes and strings\<close>

text \<open>
  A Go string is a sequence of bytes; a \<open>char\<close> of HOL is a byte, so a Go string is a HOL
  \<open>string\<close> and \<open>len\<close> is \<open>length\<close>.
\<close>

abbreviation byte :: "char \<Rightarrow> int" where
  "byte c \<equiv> of_char c"

definition in_range :: "int \<Rightarrow> int \<Rightarrow> char \<Rightarrow> bool" where
  "in_range lo hi c \<longleftrightarrow> lo \<le> byte c \<and> byte c \<le> hi"

definition is_digit :: "char \<Rightarrow> bool" where
  "is_digit c \<longleftrightarrow> in_range 48 57 c"

definition is_lower :: "char \<Rightarrow> bool" where
  "is_lower c \<longleftrightarrow> in_range 97 122 c"

definition is_upper :: "char \<Rightarrow> bool" where
  "is_upper c \<longleftrightarrow> in_range 65 90 c"

definition is_hex :: "char \<Rightarrow> bool" where
  "is_hex c \<longleftrightarrow> is_digit c \<or> in_range 97 102 c \<or> in_range 65 70 c"

definition digit_val :: "char \<Rightarrow> int" where
  "digit_val c = byte c - 48"

lemmas byte_class_defs [go_defs] =
  in_range_def is_digit_def is_lower_def is_upper_def is_hex_def digit_val_def

text \<open>\<open>strings.HasPrefix\<close>, \<open>HasSuffix\<close>, \<open>TrimPrefix\<close>, \<open>TrimSuffix\<close>, \<open>Contains\<close>.\<close>

definition has_prefix :: "string \<Rightarrow> string \<Rightarrow> bool" where
  "has_prefix s p \<longleftrightarrow> take (length p) s = p"

definition has_suffix :: "string \<Rightarrow> string \<Rightarrow> bool" where
  "has_suffix s p \<longleftrightarrow> length p \<le> length s \<and> drop (length s - length p) s = p"

definition trim_prefix :: "string \<Rightarrow> string \<Rightarrow> string" where
  "trim_prefix s p = (if has_prefix s p then drop (length p) s else s)"

definition trim_suffix :: "string \<Rightarrow> string \<Rightarrow> string" where
  "trim_suffix s p = (if has_suffix s p then take (length s - length p) s else s)"

fun contains_str :: "string \<Rightarrow> string \<Rightarrow> bool" where
  "contains_str [] p \<longleftrightarrow> p = []"
| "contains_str (c # s) p \<longleftrightarrow> has_prefix (c # s) p \<or> contains_str s p"

lemmas affix_defs [go_defs] = has_prefix_def has_suffix_def trim_prefix_def trim_suffix_def

lemma has_prefix_Nil [simp]: "has_prefix s []"
  by (simp add: has_prefix_def)

lemma has_prefix_Cons [simp]: "has_prefix (c # s) (d # p) \<longleftrightarrow> c = d \<and> has_prefix s p"
  by (auto simp: has_prefix_def)

lemma has_prefix_Nil_Cons [simp]: "\<not> has_prefix [] (d # p)"
  by (simp add: has_prefix_def)

lemma has_prefix_append: "has_prefix s p \<longleftrightarrow> (\<exists>t. s = p @ t)"
  unfolding has_prefix_def by (metis append_eq_conv_conj append_take_drop_id)

lemma has_suffix_append: "has_suffix s p \<longleftrightarrow> (\<exists>t. s = t @ p)"
proof
  assume "has_suffix s p"
  then have "s = take (length s - length p) s @ p"
    unfolding has_suffix_def by (metis append_take_drop_id)
  then show "\<exists>t. s = t @ p" ..
next
  assume "\<exists>t. s = t @ p"
  then show "has_suffix s p" by (auto simp: has_suffix_def)
qed

lemma contains_str_single: "contains_str s [c] \<longleftrightarrow> c \<in> set s"
  by (induction s) auto

text \<open>\<open>strings.Split\<close> with a one-byte separator, and \<open>strings.Join\<close>.\<close>

fun split_on :: "char \<Rightarrow> string \<Rightarrow> string list" where
  "split_on c [] = [[]]"
| "split_on c (x # xs) =
     (if x = c then [] # split_on c xs
      else case split_on c xs of [] \<Rightarrow> [[x]] | p # ps \<Rightarrow> (x # p) # ps)"

fun join_with :: "string \<Rightarrow> string list \<Rightarrow> string" where
  "join_with sep [] = []"
| "join_with sep [p] = p"
| "join_with sep (p # q # ps) = p @ sep @ join_with sep (q # ps)"

lemma split_on_not_Nil [simp]: "split_on c s \<noteq> []"
  by (cases s) (auto split: list.splits)

lemma length_split_on_pos [simp]: "0 < length (split_on c s)"
  by simp

lemma join_split_on: "join_with [c] (split_on c s) = s"
proof (induction s)
  case Nil
  then show ?case by simp
next
  case (Cons x xs)
  obtain p ps where sp: "split_on c xs = p # ps"
    by (cases "split_on c xs") auto
  have "join_with [c] ((x # p) # ps) = x # join_with [c] (p # ps)"
    by (cases ps) auto
  moreover have "join_with [c] ([] # p # ps) = c # join_with [c] (p # ps)"
    by simp
  ultimately show ?case using Cons.IH sp by auto
qed

lemma split_on_free: "p \<in> set (split_on c s) \<Longrightarrow> c \<notin> set p"
  by (induction s arbitrary: p) (auto split: if_splits list.splits)

lemma split_on_subset: "p \<in> set (split_on c s) \<Longrightarrow> set p \<subseteq> set s"
  by (induction s arbitrary: p) (fastforce split: if_splits list.splits)+

lemma split_on_free_single: "c \<notin> set p \<Longrightarrow> split_on c p = [p]"
  by (induction p) auto

lemma split_on_append:
  assumes "c \<notin> set p"
  shows "split_on c (p @ c # s) = p # split_on c s"
  using assms by (induction p) auto

lemma split_on_join:
  assumes "ps \<noteq> []" and "\<forall>p \<in> set ps. c \<notin> set p"
  shows "split_on c (join_with [c] ps) = ps"
  using assms
proof (induction ps rule: induct_list012)
  case (3 p q ps)
  then have "split_on c (p @ c # join_with [c] (q # ps)) = p # split_on c (join_with [c] (q # ps))"
    by (intro split_on_append) auto
  with 3 show ?case by auto
qed (auto simp: split_on_free_single)

text \<open>
  \<open>strings.SplitN(s, sep, n)\<close> for a positive \<open>n\<close>: at most \<open>n\<close> pieces, the last one
  unsplit; and \<open>strings.Cut\<close>.
\<close>

fun split_n :: "char \<Rightarrow> nat \<Rightarrow> string \<Rightarrow> string list" where
  "split_n c 0 s = []"
| "split_n c (Suc 0) s = [s]"
| "split_n c (Suc (Suc n)) s =
     (if c \<in> set s
      then takeWhile (\<lambda>x. x \<noteq> c) s # split_n c (Suc n) (drop 1 (dropWhile (\<lambda>x. x \<noteq> c) s))
      else [s])"

definition cut_at :: "char \<Rightarrow> string \<Rightarrow> string \<times> string \<times> bool" where
  "cut_at c s =
     (if c \<in> set s
      then (takeWhile (\<lambda>x. x \<noteq> c) s, drop 1 (dropWhile (\<lambda>x. x \<noteq> c) s), True)
      else (s, [], False))"

abbreviation before :: "char \<Rightarrow> string \<Rightarrow> string" where
  "before c s \<equiv> fst (cut_at c s)"

lemma takeWhile_free: "c \<notin> set s \<Longrightarrow> takeWhile (\<lambda>x. x \<noteq> c) s = s"
  by (induction s) auto

lemma before_takeWhile: "before c s = takeWhile (\<lambda>x. x \<noteq> c) s"
  by (simp add: cut_at_def takeWhile_free)

lemmas [go_defs] = cut_at_def

text \<open>\<open>strings.IndexByte\<close>, \<open>LastIndexByte\<close>, \<open>IndexAny\<close>: an index, or -1.\<close>

definition index_where :: "(char \<Rightarrow> bool) \<Rightarrow> string \<Rightarrow> int" where
  "index_where P s = (if \<exists>x \<in> set s. P x then int (length (takeWhile (\<lambda>x. \<not> P x) s)) else -1)"

definition index_byte :: "char \<Rightarrow> string \<Rightarrow> int" where
  "index_byte c = index_where (\<lambda>x. x = c)"

definition last_index_byte :: "char \<Rightarrow> string \<Rightarrow> int" where
  "last_index_byte c s =
     (if c \<in> set s then int (length s) - 1 - int (length (takeWhile (\<lambda>x. x \<noteq> c) (rev s))) else -1)"

lemmas [go_defs] = index_where_def index_byte_def last_index_byte_def

lemma length_takeWhile_found:
  "\<exists>x \<in> set s. P x \<Longrightarrow> length (takeWhile (\<lambda>x. \<not> P x) s) < length s"
  by (induction s) auto

lemma index_where_found:
  assumes "0 \<le> index_where P s"
  shows "nat (index_where P s) < length s" "P (s ! nat (index_where P s))"
    "s = take (nat (index_where P s)) s @ s ! nat (index_where P s) # drop (Suc (nat (index_where P s))) s"
proof -
  have ex: "\<exists>x \<in> set s. P x" using assms by (auto simp: index_where_def split: if_splits)
  then have n: "nat (index_where P s) = length (takeWhile (\<lambda>x. \<not> P x) s)" by (simp add: index_where_def)
  show lt: "nat (index_where P s) < length s" using length_takeWhile_found [OF ex] n by simp
  show "P (s ! nat (index_where P s))"
    using nth_length_takeWhile [of "\<lambda>x. \<not> P x" s] lt n by simp
  show "s = take (nat (index_where P s)) s @ s ! nat (index_where P s) # drop (Suc (nat (index_where P s))) s"
    using lt by (rule id_take_nth_drop)
qed

text \<open>\<open>strings.TrimLeft\<close> and \<open>TrimRight\<close> with a set of ASCII bytes, \<open>Trim\<close> and \<open>ReplaceAll\<close>.\<close>

definition trim_left :: "(char \<Rightarrow> bool) \<Rightarrow> string \<Rightarrow> string" where
  "trim_left P s = dropWhile P s"

definition trim_right :: "(char \<Rightarrow> bool) \<Rightarrow> string \<Rightarrow> string" where
  "trim_right P s = rev (dropWhile P (rev s))"

definition trim_both :: "(char \<Rightarrow> bool) \<Rightarrow> string \<Rightarrow> string" where
  "trim_both P s = trim_right P (trim_left P s)"

definition replace_byte :: "char \<Rightarrow> string \<Rightarrow> string \<Rightarrow> string" where
  "replace_byte c t s = concat (map (\<lambda>x. if x = c then t else [x]) s)"

lemmas [go_defs] = trim_left_def trim_right_def trim_both_def replace_byte_def

text \<open>
  Case folding. \<open>strings.ToLower\<close> and \<open>strings.EqualFold\<close> work on Unicode; a comparison with an
  ASCII constant sees, beside the ASCII letters, the three code points whose simple mapping is an
  ASCII letter: the Kelvin sign (E2 84 AA), the dotted capital I (C4 B0, lower case only) and the
  long s (C5 BF, folding only). Every other byte is left as it is: such a letter maps to a non-ASCII
  letter and never equals an ASCII constant.
\<close>

definition lower_ascii :: "char \<Rightarrow> char" where
  "lower_ascii c = (if is_upper c then char_of (byte c + 32) else c)"

definition upper_ascii :: "char \<Rightarrow> char" where
  "upper_ascii c = (if is_lower c then char_of (byte c - 32) else c)"

fun to_lower :: "string \<Rightarrow> string" where
  "to_lower [] = []"
| "to_lower (a # s) =
     (if has_prefix (a # s) [CHR 0xE2, CHR 0x84, CHR 0xAA] then CHR ''k'' # to_lower (drop 2 s)
      else if has_prefix (a # s) [CHR 0xC4, CHR 0xB0] then CHR ''i'' # to_lower (drop 1 s)
      else lower_ascii a # to_lower s)"

fun fold_case :: "string \<Rightarrow> string" where
  "fold_case [] = []"
| "fold_case (a # s) =
     (if has_prefix (a # s) [CHR 0xE2, CHR 0x84, CHR 0xAA] then CHR ''K'' # fold_case (drop 2 s)
      else if has_prefix (a # s) [CHR 0xC5, CHR 0xBF] then CHR ''S'' # fold_case (drop 1 s)
      else upper_ascii a # fold_case s)"

definition equal_fold :: "string \<Rightarrow> string \<Rightarrow> bool" where
  "equal_fold s t \<longleftrightarrow> fold_case s = fold_case t"

definition to_upper :: "string \<Rightarrow> string" where
  "to_upper s = map upper_ascii s"

lemmas [go_defs] = lower_ascii_def upper_ascii_def equal_fold_def to_upper_def

lemma equal_fold_refl [simp]: "equal_fold s s"
  by (simp add: equal_fold_def)

lemma equal_fold_sym: "equal_fold s t \<longleftrightarrow> equal_fold t s"
  by (auto simp: equal_fold_def)

text \<open>\<open>strings.TrimSpace\<close>: the white space of Unicode, in UTF-8.\<close>

definition space_seqs :: "string list" where
  "space_seqs =
     map (\<lambda>n. [char_of n]) [9, 10, 11, 12, 13, 32 :: int] @
     [[CHR 0xC2, CHR 0x85], [CHR 0xC2, CHR 0xA0], [CHR 0xE1, CHR 0x9A, CHR 0x80]] @
     map (\<lambda>n. [CHR 0xE2, CHR 0x80, char_of n])
       [128, 129, 130, 131, 132, 133, 134, 135, 136, 137, 138, 168, 169, 175 :: int] @
     [[CHR 0xE2, CHR 0x81, CHR 0x9F], [CHR 0xE3, CHR 0x80, CHR 0x80]]"

fun leading_space :: "string list \<Rightarrow> string \<Rightarrow> nat" where
  "leading_space [] s = 0"
| "leading_space (p # ps) s = (if has_prefix s p then length p else leading_space ps s)"

fun trim_space_left :: "string list \<Rightarrow> nat \<Rightarrow> string \<Rightarrow> string" where
  "trim_space_left seqs 0 s = s"
| "trim_space_left seqs (Suc fuel) s =
     (let n = leading_space seqs s in
      if n = 0 then s else trim_space_left seqs fuel (drop n s))"

definition trim_space :: "string \<Rightarrow> string" where
  "trim_space s =
     (let l = trim_space_left space_seqs (length s) s
      in rev (trim_space_left (map rev space_seqs) (length l) (rev l)))"

lemmas [go_defs] = space_seqs_def trim_space_def Let_def

text \<open>UTF-8: the length of the valid sequence a string starts with (0 when it starts with none).\<close>

definition is_cont :: "char \<Rightarrow> bool" where
  "is_cont c \<longleftrightarrow> in_range 128 191 c"

fun utf8_len :: "string \<Rightarrow> nat" where
  "utf8_len [] = 0"
| "utf8_len (a # s) =
     (if byte a < 128 then 1
      else if in_range 194 223 a then
        (case s of b # _ \<Rightarrow> if is_cont b then 2 else 0 | _ \<Rightarrow> 0)
      else if in_range 224 239 a then
        (case s of b # c # _ \<Rightarrow>
           if is_cont c \<and> is_cont b \<and> (byte a = 224 \<longrightarrow> 160 \<le> byte b) \<and> (byte a = 237 \<longrightarrow> byte b \<le> 159)
           then 3 else 0 | _ \<Rightarrow> 0)
      else if in_range 240 244 a then
        (case s of b # c # d # _ \<Rightarrow>
           if is_cont d \<and> is_cont c \<and> is_cont b \<and> (byte a = 240 \<longrightarrow> 144 \<le> byte b) \<and>
              (byte a = 244 \<longrightarrow> byte b \<le> 143)
           then 4 else 0 | _ \<Rightarrow> 0)
      else 0)"

fun utf8_runes :: "nat \<Rightarrow> string \<Rightarrow> nat \<times> bool" where
  "utf8_runes 0 s = (0, True)"
| "utf8_runes (Suc fuel) s =
     (if s = [] then (0, True)
      else let n = utf8_len s; (k, v) = utf8_runes fuel (drop (max 1 n) s)
           in (Suc k, v \<and> 0 < n))"

text \<open>\<open>utf8.RuneCountInString\<close> (an invalid byte counts as one rune) and \<open>utf8.ValidString\<close>.\<close>

definition rune_count :: "string \<Rightarrow> nat" where
  "rune_count s = fst (utf8_runes (length s) s)"

definition valid_utf8 :: "string \<Rightarrow> bool" where
  "valid_utf8 s \<longleftrightarrow> snd (utf8_runes (length s) s)"

lemmas [go_defs] = is_cont_def rune_count_def valid_utf8_def

lemma utf8_runes_le: "fst (utf8_runes fuel s) \<le> length s"
proof (induction fuel arbitrary: s)
  case (Suc fuel)
  show ?case
  proof (cases "s = []")
    case False
    let ?r = "utf8_runes fuel (drop (max 1 (utf8_len s)) s)"
    have "fst ?r \<le> length s - max 1 (utf8_len s)"
      using Suc.IH [of "drop (max 1 (utf8_len s)) s"] by simp
    moreover have "0 < length s" using False by simp
    ultimately have "Suc (fst ?r) \<le> length s" by linarith
    then show ?thesis using False by (simp add: Let_def case_prod_unfold)
  qed simp
qed simp

lemma rune_count_le_length: "rune_count s \<le> length s"
  unfolding rune_count_def by (rule utf8_runes_le)

section \<open>Slices, maps and integers\<close>

text \<open>
  A slice is \<open>None\<close> for nil and \<open>Some xs\<close> otherwise, where the code tells the two apart; ranging
  over a nil slice visits nothing. \<open>append([]T(nil), xs...)\<close> yields nil when \<open>xs\<close> is empty.
\<close>

type_synonym 'a slice = "'a list option"

definition elems :: "'a slice \<Rightarrow> 'a list" where
  "elems s = (case s of None \<Rightarrow> [] | Some xs \<Rightarrow> xs)"

definition append_nil :: "'a list \<Rightarrow> 'a slice" where
  "append_nil xs = (if xs = [] then None else Some xs)"

lemma elems_simps [simp]: "elems None = []" "elems (Some xs) = xs"
  by (simp_all add: elems_def)

lemma elems_append_nil [simp]: "elems (append_nil xs) = xs"
  by (simp add: append_nil_def)

lemma append_nil_neq_empty [simp]: "append_nil xs \<noteq> Some []"
  by (simp add: append_nil_def)

text \<open>Signed 64-bit integers as integers with the wrap-around written out.\<close>

definition i64 :: "int \<Rightarrow> int" where
  "i64 x = (x + 2 ^ 63) mod 2 ^ 64 - 2 ^ 63"

definition max_i64 :: int where
  "max_i64 = 9223372036854775807"

definition min_i64 :: int where
  "min_i64 = - 9223372036854775808"

definition in_i64 :: "int \<Rightarrow> bool" where
  "in_i64 x \<longleftrightarrow> min_i64 \<le> x \<and> x \<le> max_i64"

lemmas i64_limits = max_i64_def min_i64_def
lemmas [go_defs] = i64_def max_i64_def min_i64_def in_i64_def

lemma i64_id [simp]: "in_i64 x \<Longrightarrow> i64 x = x"
  by (simp add: i64_def in_i64_def i64_limits)

lemma in_i64_i64 [simp]: "in_i64 (i64 x)"
proof -
  have "0 \<le> (x + 2 ^ 63) mod 2 ^ 64" "(x + 2 ^ 63) mod 2 ^ 64 < (2 ^ 64 :: int)"
    by simp_all
  then show ?thesis unfolding i64_def in_i64_def i64_limits by simp
qed

text \<open>Integer division truncates towards zero, and the remainder has the dividend's sign.\<close>

definition go_div :: "int \<Rightarrow> int \<Rightarrow> int" where
  "go_div a b = sgn a * sgn b * (\<bar>a\<bar> div \<bar>b\<bar>)"

definition go_rem :: "int \<Rightarrow> int \<Rightarrow> int" where
  "go_rem a b = a - b * go_div a b"

lemmas [go_defs] = go_div_def go_rem_def

lemma go_div_nonneg: "0 \<le> a \<Longrightarrow> 0 < b \<Longrightarrow> go_div a b = a div b"
  by (cases "a = 0") (simp_all add: go_div_def)

lemma go_rem_zero: "0 \<le> a \<Longrightarrow> 0 < b \<Longrightarrow> go_rem a b = 0 \<longleftrightarrow> b dvd a"
  by (simp add: go_rem_def go_div_nonneg minus_mult_div_eq_mod dvd_eq_mod_eq_0)

text \<open>A duplicate in a list, as the loops over a \<open>seen\<close> map find it.\<close>

fun has_duplicates :: "'a list \<Rightarrow> 'a list \<Rightarrow> bool" where
  "has_duplicates seen [] \<longleftrightarrow> False"
| "has_duplicates seen (x # xs) \<longleftrightarrow> x \<in> set seen \<or> has_duplicates (x # seen) xs"

lemma has_duplicates_iff:
  "has_duplicates seen xs \<longleftrightarrow> \<not> distinct xs \<or> set xs \<inter> set seen \<noteq> {}"
  by (induction xs arbitrary: seen) auto

section \<open>Association lists as stores\<close>

text \<open>
  A Go map is an association list with distinct keys. Its order stands for the unspecified
  iteration order, so a result that depends on it is one the code does not determine.
\<close>

abbreviation keys_distinct :: "('k \<times> 'v) list \<Rightarrow> bool" where
  "keys_distinct m \<equiv> distinct (map fst m)"

lemma keys_distinct_update [simp]: "keys_distinct m \<Longrightarrow> keys_distinct (AList.update k v m)"
  by (rule distinct_update)

lemma keys_distinct_delete [simp]: "keys_distinct m \<Longrightarrow> keys_distinct (AList.delete k m)"
  by (rule distinct_delete)

lemma keys_distinct_filter [simp]: "keys_distinct m \<Longrightarrow> keys_distinct (filter P m)"
  by (induction m) (auto simp: image_iff)

lemma map_of_update [simp]: "map_of (AList.update k v m) = (map_of m)(k \<mapsto> v)"
  by (rule update_conv')

lemma map_of_delete [simp]: "map_of (AList.delete k m) = (map_of m)(k := None)"
  by (rule delete_conv')

lemma map_of_filter_distinct:
  assumes "keys_distinct m"
  shows "map_of (filter (\<lambda>(k, v). P k v) m) k =
           (case map_of m k of None \<Rightarrow> None | Some v \<Rightarrow> if P k v then Some v else None)"
  using assms
proof (induction m)
  case (Cons kv m)
  obtain k' v' where kv: "kv = (k', v')" by (cases kv)
  have none: "k' \<notin> fst ` set m" using Cons.prems kv by simp
  then have "map_of m k' = None" by (simp add: map_of_eq_None_iff)
  with Cons kv show ?case by (cases "k = k'") (auto split: option.splits)
qed simp

lemma keys_distinct_map_values [simp]:
  "keys_distinct (map (\<lambda>(k, v). (k, f k v)) m) \<longleftrightarrow> keys_distinct m"
  by (simp add: comp_def case_prod_unfold)

lemma map_of_map_values:
  "map_of (map (\<lambda>(k, v). (k, f k v)) m) k = map_option (f k) (map_of m k)"
  by (induction m) auto

section \<open>Effectful calls\<close>

text \<open>
  A call that reads or changes the outside (a store, a clock, a caller's callback) takes the
  world and returns an error or a value with the new world. \<open>and_then\<close> is the
  \<open>if err != nil \<lbrace> return err \<rbrace>\<close> chain; \<open>attempt\<close> hands the error to the caller as a value.
\<close>

type_synonym ('e, 'w, 'a) act = "'w \<Rightarrow> ('e + 'a) \<times> 'w"

definition ok :: "'a \<Rightarrow> ('e, 'w, 'a) act" where
  "ok x w = (Inr x, w)"

definition fail :: "'e \<Rightarrow> ('e, 'w, 'a) act" where
  "fail e w = (Inl e, w)"

definition and_then :: "('e, 'w, 'a) act \<Rightarrow> ('a \<Rightarrow> ('e, 'w, 'b) act) \<Rightarrow> ('e, 'w, 'b) act" where
  "and_then m f w = (case m w of (Inl e, w') \<Rightarrow> (Inl e, w') | (Inr x, w') \<Rightarrow> f x w')"

definition attempt :: "('e, 'w, 'a) act \<Rightarrow> ('e, 'w, 'e + 'a) act" where
  "attempt m w = (case m w of (r, w') \<Rightarrow> (Inr r, w'))"

definition of_result :: "'e + 'a \<Rightarrow> ('e, 'w, 'a) act" where
  "of_result r w = (r, w)"

definition observe :: "('w \<Rightarrow> 'a) \<Rightarrow> ('e, 'w, 'a) act" where
  "observe f w = (Inr (f w), w)"

text \<open>A call that cannot fail: a clock, a source of identifiers.\<close>

definition call :: "('w \<Rightarrow> 'a \<times> 'w) \<Rightarrow> ('e, 'w, 'a) act" where
  "call f w = (case f w of (x, w') \<Rightarrow> (Inr x, w'))"

text \<open>A call on one component of the world, given how to read and replace the component.\<close>

definition on_part ::
  "('w \<Rightarrow> 's) \<Rightarrow> ('s \<Rightarrow> 'w \<Rightarrow> 'w) \<Rightarrow> ('e, 's, 'a) act \<Rightarrow> ('e, 'w, 'a) act" where
  "on_part get put m w = (case m (get w) of (r, s) \<Rightarrow> (r, put s w))"

lemmas act_defs [go_defs] =
  ok_def fail_def and_then_def attempt_def of_result_def observe_def call_def on_part_def

lemma and_then_Inr:
  "and_then m f w = (Inr y, w') \<longleftrightarrow> (\<exists>x w1. m w = (Inr x, w1) \<and> f x w1 = (Inr y, w'))"
  by (auto simp: and_then_def split: prod.splits sum.splits)

lemma and_then_Inl:
  "and_then m f w = (Inl e, w') \<longleftrightarrow>
     m w = (Inl e, w') \<or> (\<exists>x w1. m w = (Inr x, w1) \<and> f x w1 = (Inl e, w'))"
  by (auto simp: and_then_def split: prod.splits sum.splits)

lemma and_then_ok [simp]: "and_then (ok x) f = f x"
  by (rule ext) (simp add: and_then_def ok_def)

lemma and_then_fail [simp]: "and_then (fail e) f = fail e"
  by (rule ext) (simp add: and_then_def fail_def)

lemma ok_eq [simp]: "ok x w = (r, w') \<longleftrightarrow> r = Inr x \<and> w' = w"
  by (auto simp: ok_def)

lemma fail_eq [simp]: "fail e w = (r, w') \<longleftrightarrow> r = Inl e \<and> w' = w"
  by (auto simp: fail_def)

lemma of_result_eq [simp]: "of_result r w = (r', w') \<longleftrightarrow> r' = r \<and> w' = w"
  by (auto simp: of_result_def)

lemma observe_eq [simp]: "observe f w = (r, w') \<longleftrightarrow> r = Inr (f w) \<and> w' = w"
  by (auto simp: observe_def)

lemma call_eq: "call f w = (r, w') \<longleftrightarrow> (\<exists>x. r = Inr x \<and> f w = (x, w'))"
  by (auto simp: call_def split: prod.splits)

lemma attempt_eq: "attempt m w = (r, w') \<longleftrightarrow> (\<exists>x. r = Inr x \<and> m w = (x, w'))"
  by (auto simp: attempt_def split: prod.splits)

lemma attempt_then: "and_then (attempt m) f w = (\<lambda>(x, w1). f x w1) (m w)"
  by (simp add: and_then_def attempt_def split: prod.splits)

text \<open>What a run that succeeds says of each early return; \<open>run_simps\<close> walks back through a handler.\<close>

lemma fail_neq_Inr [simp]: "fail e w \<noteq> (Inr y, w')"
  by (simp add: fail_def)

lemma case_sum_fail:
  "(case x of Inl e \<Rightarrow> fail (g e) | Inr k \<Rightarrow> f k) w = (Inr y, w') \<longleftrightarrow> (\<exists>k. x = Inr k \<and> f k w = (Inr y, w'))"
  by (cases x) auto

lemma case_option_fail:
  "(case x of None \<Rightarrow> fail e | Some k \<Rightarrow> f k) w = (Inr y, w') \<longleftrightarrow> (\<exists>k. x = Some k \<and> f k w = (Inr y, w'))"
  by (cases x) auto

lemma case_error_fail:
  "(case x of None \<Rightarrow> f | Some e \<Rightarrow> fail (g e)) w = (Inr y, w') \<longleftrightarrow> x = None \<and> f w = (Inr y, w')"
  by (cases x) auto

lemma if_fail:
  "(if b then fail e else f) w = (Inr y, w') \<longleftrightarrow> \<not> b \<and> f w = (Inr y, w')"
  "(if b then f else fail e) w = (Inr y, w') \<longleftrightarrow> b \<and> f w = (Inr y, w')"
  by auto

lemma attempt_Inr: "attempt m w = (Inr y, w') \<longleftrightarrow> m w = (y, w')"
  by (auto simp: attempt_eq)

lemma if_error_None: "(if b then Some e else r) = None \<longleftrightarrow> \<not> b \<and> r = None"
  by simp

lemma case_error_None: "(case x of None \<Rightarrow> r | Some e \<Rightarrow> Some (g e)) = None \<longleftrightarrow> x = None \<and> r = None"
  by (cases x) auto

lemmas run_simps = and_then_Inr case_sum_fail case_option_fail case_error_fail if_fail attempt_Inr
  ok_eq fail_neq_Inr of_result_eq observe_eq call_eq

text \<open>The same for results without effects.\<close>

lemma case_sum_Inl: "(case x of Inl e \<Rightarrow> Inl (g e) | Inr k \<Rightarrow> f k) = Inr y \<longleftrightarrow> (\<exists>k. x = Inr k \<and> f k = Inr y)"
  by (cases x) auto

lemma case_option_Inl: "(case x of None \<Rightarrow> Inl e | Some k \<Rightarrow> f k) = Inr y \<longleftrightarrow> (\<exists>k. x = Some k \<and> f k = Inr y)"
  by (cases x) auto

lemma case_error_Inl: "(case x of None \<Rightarrow> f | Some e \<Rightarrow> Inl (g e)) = Inr y \<longleftrightarrow> x = None \<and> f = Inr y"
  by (cases x) auto

lemma if_Inl: "(if b then Inl e else f) = Inr y \<longleftrightarrow> \<not> b \<and> f = Inr y"
  by simp

lemmas result_simps = case_sum_Inl case_option_Inl case_error_Inl if_Inl

text \<open>A computation that evaluates to a success has a result.\<close>

lemma result_ok: "(case r of Inl e \<Rightarrow> False | Inr x \<Rightarrow> True) \<Longrightarrow> \<exists>x. r = Inr x"
  by (cases r) auto

lemma run_ok: "(case r of (Inl e, w) \<Rightarrow> False | (Inr x, w) \<Rightarrow> True) \<Longrightarrow> \<exists>x w. r = (Inr x, w)"
  by (cases r) (auto split: sum.splits)

text \<open>\<open>keeps R m\<close>: every run of \<open>m\<close> relates its first world to its last one by \<open>R\<close>.\<close>

definition keeps :: "('w \<Rightarrow> 'w \<Rightarrow> bool) \<Rightarrow> ('e, 'w, 'a) act \<Rightarrow> bool" where
  "keeps R m \<longleftrightarrow> (\<forall>w. R w (snd (m w)))"

lemma keepsD: "keeps R m \<Longrightarrow> m w = (r, w') \<Longrightarrow> R w w'"
  unfolding keeps_def by (metis snd_conv)

lemma keepsI: "(\<And>w r w'. m w = (r, w') \<Longrightarrow> R w w') \<Longrightarrow> keeps R m"
  unfolding keeps_def by (metis prod.collapse)

lemma keeps_ok [keeps_intros]: "reflp R \<Longrightarrow> keeps R (ok x)"
  by (simp add: keeps_def ok_def reflp_def)

lemma keeps_fail [keeps_intros]: "reflp R \<Longrightarrow> keeps R (fail e)"
  by (simp add: keeps_def fail_def reflp_def)

lemma keeps_of_result [keeps_intros]: "reflp R \<Longrightarrow> keeps R (of_result r)"
  by (simp add: keeps_def of_result_def reflp_def)

lemma keeps_observe [keeps_intros]: "reflp R \<Longrightarrow> keeps R (observe f)"
  by (simp add: keeps_def observe_def reflp_def)

lemma keeps_attempt [keeps_intros]: "keeps R m \<Longrightarrow> keeps R (attempt m)"
  by (simp add: keeps_def attempt_def case_prod_unfold)

lemma keeps_and_then [keeps_intros]:
  assumes "transp R" and "keeps R m" and "\<And>x. keeps R (f x)"
  shows "keeps R (and_then m f)"
  unfolding keeps_def
proof
  fix w
  have m: "R w (snd (m w))" using assms(2) by (simp add: keeps_def)
  show "R w (snd (and_then m f w))"
  proof (cases "fst (m w)")
    case (Inl e)
    then show ?thesis using m by (simp add: and_then_def case_prod_unfold)
  next
    case (Inr x)
    have "R (snd (m w)) (snd (f x (snd (m w))))" using assms(3) by (simp add: keeps_def)
    with Inr m show ?thesis
      using transpD [OF assms(1)] by (auto simp: and_then_def case_prod_unfold)
  qed
qed

lemma keeps_if [keeps_intros]:
  "(b \<Longrightarrow> keeps R f) \<Longrightarrow> (\<not> b \<Longrightarrow> keeps R g) \<Longrightarrow> keeps R (if b then f else g)"
  by simp

lemma keeps_case_sum [keeps_intros]:
  "(\<And>e. x = Inl e \<Longrightarrow> keeps R (f e)) \<Longrightarrow> (\<And>y. x = Inr y \<Longrightarrow> keeps R (g y)) \<Longrightarrow> keeps R (case x of Inl e \<Rightarrow> f e | Inr y \<Rightarrow> g y)"
  by (cases x) simp_all

lemma keeps_case_option [keeps_intros]:
  "(x = None \<Longrightarrow> keeps R f) \<Longrightarrow> (\<And>y. x = Some y \<Longrightarrow> keeps R (g y)) \<Longrightarrow> keeps R (case x of None \<Rightarrow> f | Some y \<Rightarrow> g y)"
  by (cases x) simp_all

lemma keeps_case_prod [keeps_intros]:
  "(\<And>a b. x = (a, b) \<Longrightarrow> keeps R (f a b)) \<Longrightarrow> keeps R (case x of (a, b) \<Rightarrow> f a b)"
  by (cases x) simp

lemma keeps_case_list [keeps_intros]:
  "(x = [] \<Longrightarrow> keeps R f) \<Longrightarrow> (\<And>y ys. x = y # ys \<Longrightarrow> keeps R (g y ys)) \<Longrightarrow> keeps R (case x of [] \<Rightarrow> f | y # ys \<Rightarrow> g y ys)"
  by (cases x) simp_all

text \<open>\<open>yields P m\<close>: every value a run of \<open>m\<close> succeeds with satisfies \<open>P\<close>.\<close>

definition yields :: "('a \<Rightarrow> bool) \<Rightarrow> ('e, 'w, 'a) act \<Rightarrow> bool" where
  "yields P m \<longleftrightarrow> (\<forall>w x w'. m w = (Inr x, w') \<longrightarrow> P x)"

lemma yieldsD: "yields P m \<Longrightarrow> m w = (Inr x, w') \<Longrightarrow> P x"
  unfolding yields_def by blast

lemma yields_ok [yields_intros]: "P x \<Longrightarrow> yields P (ok x)"
  by (simp add: yields_def)

lemma yields_fail [yields_intros]: "yields P (fail e)"
  by (simp add: yields_def)

lemma yields_of_result [yields_intros]: "(\<And>x. r = Inr x \<Longrightarrow> P x) \<Longrightarrow> yields P (of_result r)"
  by (auto simp: yields_def)

lemma yields_and_then [yields_intros]: "(\<And>x. yields P (f x)) \<Longrightarrow> yields P (and_then m f)"
  by (auto simp: yields_def and_then_Inr)

lemma yields_then: "yields Q m \<Longrightarrow> (\<And>x. Q x \<Longrightarrow> yields P (f x)) \<Longrightarrow> yields P (and_then m f)"
  unfolding yields_def and_then_Inr by blast

lemma yields_if [yields_intros]:
  "(b \<Longrightarrow> yields P f) \<Longrightarrow> (\<not> b \<Longrightarrow> yields P g) \<Longrightarrow> yields P (if b then f else g)"
  by simp

lemma yields_case_sum [yields_intros]:
  "(\<And>e. x = Inl e \<Longrightarrow> yields P (f e)) \<Longrightarrow> (\<And>y. x = Inr y \<Longrightarrow> yields P (g y)) \<Longrightarrow>
     yields P (case x of Inl e \<Rightarrow> f e | Inr y \<Rightarrow> g y)"
  by (cases x) simp_all

lemma yields_case_option [yields_intros]:
  "(x = None \<Longrightarrow> yields P f) \<Longrightarrow> (\<And>y. x = Some y \<Longrightarrow> yields P (g y)) \<Longrightarrow>
     yields P (case x of None \<Rightarrow> f | Some y \<Rightarrow> g y)"
  by (cases x) simp_all

lemma yields_case_prod [yields_intros]:
  "(\<And>a b. x = (a, b) \<Longrightarrow> yields P (f a b)) \<Longrightarrow> yields P (case x of (a, b) \<Rightarrow> f a b)"
  by (cases x) simp

end
