(* ===== verification/Wire_Types.thy ===== *)
theory Wire_Types
  imports Prelude
begin

text \<open>
  The protocol's data as \<open>constants.go\<close>, \<open>types.go\<close>, \<open>errors.go\<close> and the descriptors of
  \<open>service_documents.go\<close> declare it. A named Go string type is a \<open>string\<close> with its constants as
  abbreviations; a pointer is an option; a slice is a \<open>slice\<close>, so nil and empty stay apart; a raw
  JSON message keeps its bytes; a map is an association list whose order is the iteration order.
\<close>

section \<open>Constants\<close>

type_synonym Command = string
type_synonym AssertionOperation = string
type_synonym SigningAlgorithm = string
type_synonym GrantType = string
type_synonym ClaimName = string
type_synonym AuthenticationMethod = string
type_synonym Binding = string
type_synonym IdentityMethod = string
type_synonym EnrollmentStatus = string
type_synonym AgentStatus = string
type_synonym ErrorCode = string
type_synonym ProtectedResourceCarrier = string
type_synonym CredentialScheme = string

abbreviation Version :: string where "Version \<equiv> ''1.0''"
abbreviation MediaType :: string where "MediaType \<equiv> ''application/aep+json''"
abbreviation ProblemMediaType :: string where "ProblemMediaType \<equiv> ''application/problem+json''"
abbreviation AuthorizationHeader :: string where "AuthorizationHeader \<equiv> ''AEP-Authorization''"
abbreviation WellKnownPath :: string where "WellKnownPath \<equiv> ''/.well-known/aep''"
abbreviation DefaultHTTPEndpointBase :: string where "DefaultHTTPEndpointBase \<equiv> ''/aep/''"
abbreviation MaxAuthenticationMethods :: nat where "MaxAuthenticationMethods \<equiv> 16"

text \<open>Durations are nanoseconds.\<close>

abbreviation Second :: int where "Second \<equiv> 1000000000"
abbreviation MaxAssertionLifetime :: int where "MaxAssertionLifetime \<equiv> 300000000000"
abbreviation RecommendedClockSkew :: int where "RecommendedClockSkew \<equiv> 30000000000"
abbreviation DefaultInspectFreshness :: int where "DefaultInspectFreshness \<equiv> 300000000000"
abbreviation MinimumIdempotencyTTL :: int where "MinimumIdempotencyTTL \<equiv> 3600000000000"

abbreviation CommandEnroll :: Command where "CommandEnroll \<equiv> ''enroll''"
abbreviation CommandGrant :: Command where "CommandGrant \<equiv> ''grant''"
abbreviation CommandInspect :: Command where "CommandInspect \<equiv> ''inspect''"
abbreviation CommandRevoke :: Command where "CommandRevoke \<equiv> ''revoke''"
abbreviation CommandStatus :: Command where "CommandStatus \<equiv> ''status''"

abbreviation AssertionEnroll :: AssertionOperation where "AssertionEnroll \<equiv> ''enroll''"
abbreviation AssertionGrant :: AssertionOperation where "AssertionGrant \<equiv> ''grant''"
abbreviation AssertionRevoke :: AssertionOperation where "AssertionRevoke \<equiv> ''revoke''"
abbreviation AssertionStatus :: AssertionOperation where "AssertionStatus \<equiv> ''status''"
abbreviation AssertionAuthenticate :: AssertionOperation where
  "AssertionAuthenticate \<equiv> ''authenticate''"

abbreviation SigningAlgorithmEdDSA :: SigningAlgorithm where "SigningAlgorithmEdDSA \<equiv> ''EdDSA''"
abbreviation SigningAlgorithmES256 :: SigningAlgorithm where "SigningAlgorithmES256 \<equiv> ''ES256''"

abbreviation GrantTypeOAuthBearer :: GrantType where "GrantTypeOAuthBearer \<equiv> ''oauth-bearer''"
abbreviation GrantTypeAPIKey :: GrantType where "GrantTypeAPIKey \<equiv> ''api-key''"
abbreviation GrantTypeBasic :: GrantType where "GrantTypeBasic \<equiv> ''basic''"

abbreviation ClaimContactAddressPrimary :: ClaimName where
  "ClaimContactAddressPrimary \<equiv> ''contact.address.primary''"
abbreviation ClaimContactEmail :: ClaimName where "ClaimContactEmail \<equiv> ''contact.email''"
abbreviation ClaimContactMobile :: ClaimName where "ClaimContactMobile \<equiv> ''contact.mobile''"
abbreviation ClaimPersonBirthdate :: ClaimName where "ClaimPersonBirthdate \<equiv> ''person.birthdate''"
abbreviation ClaimPersonFirstName :: ClaimName where "ClaimPersonFirstName \<equiv> ''person.first_name''"
abbreviation ClaimPersonLastName :: ClaimName where "ClaimPersonLastName \<equiv> ''person.last_name''"
abbreviation ClaimPersonUsername :: ClaimName where "ClaimPersonUsername \<equiv> ''person.username''"

definition registeredClaimNames :: "ClaimName list" where
  "registeredClaimNames =
     [ClaimContactAddressPrimary, ClaimContactEmail, ClaimContactMobile, ClaimPersonBirthdate,
      ClaimPersonFirstName, ClaimPersonLastName, ClaimPersonUsername]"

definition RegisteredClaims :: "ClaimName slice" where
  "RegisteredClaims = append_nil registeredClaimNames"

abbreviation AuthenticationMethodJWT :: AuthenticationMethod where
  "AuthenticationMethodJWT \<equiv> ''aep-jwt''"
abbreviation BindingHTTP :: Binding where "BindingHTTP \<equiv> ''http''"
abbreviation IdentityMethodDIDWeb :: IdentityMethod where "IdentityMethodDIDWeb \<equiv> ''did:web''"

abbreviation EnrollmentActive :: EnrollmentStatus where "EnrollmentActive \<equiv> ''active''"
abbreviation EnrollmentPending :: EnrollmentStatus where "EnrollmentPending \<equiv> ''pending''"
abbreviation EnrollmentRejected :: EnrollmentStatus where "EnrollmentRejected \<equiv> ''rejected''"

abbreviation AgentActive :: AgentStatus where "AgentActive \<equiv> ''active''"
abbreviation AgentPending :: AgentStatus where "AgentPending \<equiv> ''pending''"
abbreviation AgentRejected :: AgentStatus where "AgentRejected \<equiv> ''rejected''"
abbreviation AgentSuspended :: AgentStatus where "AgentSuspended \<equiv> ''suspended''"
abbreviation AgentTerminated :: AgentStatus where "AgentTerminated \<equiv> ''terminated''"
abbreviation AgentUnavailable :: AgentStatus where "AgentUnavailable \<equiv> ''unavailable''"

abbreviation ErrorEnrollmentFailed :: ErrorCode where
  "ErrorEnrollmentFailed \<equiv> ''enrollment_failed''"
abbreviation ErrorInvalidRequest :: ErrorCode where "ErrorInvalidRequest \<equiv> ''invalid_request''"
abbreviation ErrorNotRecognized :: ErrorCode where "ErrorNotRecognized \<equiv> ''not_recognized''"
abbreviation ErrorIdentitySuspended :: ErrorCode where
  "ErrorIdentitySuspended \<equiv> ''identity_suspended''"
abbreviation ErrorIdentityTerminated :: ErrorCode where
  "ErrorIdentityTerminated \<equiv> ''identity_terminated''"
abbreviation ErrorIdentityUnavailable :: ErrorCode where
  "ErrorIdentityUnavailable \<equiv> ''identity_unavailable''"
abbreviation ErrorVerificationPending :: ErrorCode where
  "ErrorVerificationPending \<equiv> ''verification_pending''"
abbreviation ErrorRequirementsUnmet :: ErrorCode where
  "ErrorRequirementsUnmet \<equiv> ''requirements_unmet''"
abbreviation ErrorUnsupportedGrantType :: ErrorCode where
  "ErrorUnsupportedGrantType \<equiv> ''unsupported_grant_type''"
abbreviation ErrorIdempotencyConflict :: ErrorCode where
  "ErrorIdempotencyConflict \<equiv> ''idempotency_conflict''"
abbreviation ErrorAuthenticationRequired :: ErrorCode where
  "ErrorAuthenticationRequired \<equiv> ''authentication_required''"
abbreviation ErrorUnsupportedAuthenticationMethod :: ErrorCode where
  "ErrorUnsupportedAuthenticationMethod \<equiv> ''unsupported_authentication_method''"

abbreviation ProtectedResourceStandard :: ProtectedResourceCarrier where
  "ProtectedResourceStandard \<equiv> ''Authorization''"
abbreviation ProtectedResourceDedicated :: ProtectedResourceCarrier where
  "ProtectedResourceDedicated \<equiv> ''AEP-Authorization''"

abbreviation CredentialSchemeAEP :: CredentialScheme where "CredentialSchemeAEP \<equiv> ''AEP''"
abbreviation CredentialSchemeBearer :: CredentialScheme where "CredentialSchemeBearer \<equiv> ''Bearer''"
abbreviation CredentialSchemeBasic :: CredentialScheme where "CredentialSchemeBasic \<equiv> ''Basic''"

section \<open>Wire data\<close>

type_synonym RawMessage = string
type_synonym AdditionalMembers = "(string \<times> RawMessage) list"

record Authentication =
  auth_Methods :: "AuthenticationMethod slice"
  auth_Additional :: AdditionalMembers

record Bindings =
  bind_Supported :: "Binding slice"

record InspectClaims =
  ic_Required :: "ClaimName slice"
  ic_Preferred :: "ClaimName slice"
  ic_Optional :: "ClaimName slice"

record GrantTypeConfig =
  gtc_SupportsPerCredentialRevoke :: string
  gtc_Additional :: AdditionalMembers

record Commands =
  cmds_Supported :: "Command slice"
  cmds_GrantTypes :: "GrantType slice"
  cmds_GrantTypesConfig :: "(string \<times> GrantTypeConfig) list"

record Core =
  core_SigningAlgorithms :: "SigningAlgorithm slice"

record Extensions =
  ext_Supported :: "string slice"

record OpenAPIPathMatching =
  opm_TrailingSlash :: string
  opm_Additional :: AdditionalMembers

record OpenAPIReference =
  oar_URL :: string
  oar_PathMatching :: OpenAPIPathMatching
  oar_Additional :: AdditionalMembers

record HTTPConfiguration =
  http_EndpointBase :: string
  http_OpenAPI :: "OpenAPIReference option"

record Identity =
  idy_Methods :: "IdentityMethod slice"

record ServiceIdentity =
  si_DID :: string

record DocumentRepresentation =
  rep_MediaType :: string
  rep_URL :: string

record ServiceDocument =
  sd_ID :: string
  sd_Type :: string
  sd_Title :: string
  sd_Enrollment :: string
  sd_Representations :: "DocumentRepresentation slice"

record InspectDocument =
  insp_AEPVersion :: string
  insp_Authentication :: "Authentication option"
  insp_Bindings :: Bindings
  insp_Claims :: "InspectClaims option"
  insp_Commands :: Commands
  insp_Core :: Core
  insp_Extensions :: "Extensions option"
  insp_HTTP :: HTTPConfiguration
  insp_Identity :: Identity
  insp_Service :: ServiceIdentity
  insp_ServiceDocuments :: "ServiceDocument slice"
  insp_Additional :: AdditionalMembers

record ContactAddressPrimary =
  addr_City :: "string option"
  addr_Country :: string
  addr_FirstName :: string
  addr_LastName :: string
  addr_Line1 :: string
  addr_Line2 :: string
  addr_Line3 :: string
  addr_Postcode :: string
  addr_Region :: string
  addr_Additional :: AdditionalMembers

record ClaimValues =
  cv_ContactAddressPrimary :: "ContactAddressPrimary option"
  cv_ContactEmail :: "string option"
  cv_ContactMobile :: "string option"
  cv_PersonBirthdate :: "string option"
  cv_PersonFirstName :: "string option"
  cv_PersonLastName :: "string option"
  cv_PersonUsername :: "string option"
  cv_Additional :: AdditionalMembers

record EnrollRequest =
  erq_AcknowledgedDocumentIDs :: "string slice"
  erq_AgentDID :: string
  erq_Claims :: "ClaimValues option"
  erq_IdempotencyKey :: string
  erq_Additional :: AdditionalMembers

record EnrollResponse =
  ers_AcknowledgedDocumentIDs :: "string slice"
  ers_Status :: AgentStatus
  ers_OwnerActionRequired :: "string option"
  ers_VerificationPending :: "string slice"
  ers_RequirementsPending :: "string slice"
  ers_Additional :: AdditionalMembers

record StatusResponse =
  srs_Status :: AgentStatus
  srs_OwnerActionRequired :: "string option"
  srs_VerificationPending :: "string slice"
  srs_RequirementsPending :: "string slice"
  srs_Since :: string
  srs_Additional :: AdditionalMembers

record GrantRequest =
  grq_GrantType :: GrantType
  grq_RequestedScopes :: "string slice"
  grq_Additional :: AdditionalMembers

record RevokeRequest =
  rrq_GrantType :: GrantType
  rrq_CredentialID :: string
  rrq_AllGrantTypes :: string
  rrq_Additional :: AdditionalMembers

type_synonym RevokeResponse = unit

record IdempotencyMetadata =
  im_AgentDID :: "string option"
  im_IdempotencyKey :: string
  im_FirstBodyHash :: "string option"
  im_SecondBodyHash :: "string option"
  im_Additional :: AdditionalMembers

record OpenAPIAEPSecurityScheme =
  oss_AuthenticationMethod :: AuthenticationMethod
  oss_Additional :: AdditionalMembers

record ClientAssertionClaims =
  cac_Audience :: string
  cac_ExpiresAt :: int
  cac_IssuedAt :: int
  cac_Issuer :: string
  cac_JWTID :: string
  cac_Operation :: AssertionOperation
  cac_Resource :: string
  cac_Subject :: string
  cac_Additional :: AdditionalMembers

record ProblemDetails =
  pd_RequiredDocumentIDs :: "string slice"
  pd_Type :: string
  pd_Title :: string
  pd_Status :: int
  pd_Detail :: string
  pd_Instance :: string
  pd_Code :: ErrorCode
  pd_OwnerActionRequired :: "string option"
  pd_RequirementsPending :: "string slice"
  pd_VerificationPending :: "string slice"
  pd_Additional :: AdditionalMembers

record OAuthBearerGrantResponse =
  oauth_AccessToken :: string
  oauth_CredentialID :: string
  oauth_ExpiresAt :: string
  oauth_Scopes :: "string slice"
  oauth_TokenType :: string

record APIKeyGrantResponse =
  key_APIKey :: string
  key_CredentialID :: string
  key_ExpiresAt :: string
  key_Header :: string
  key_Scopes :: "string slice"

record BasicGrantResponse =
  basic_CredentialID :: string
  basic_ExpiresAt :: string
  basic_Password :: string
  basic_Realm :: "string option"
  basic_Scopes :: "string slice"
  basic_Username :: string

text \<open>
  The interface \<open>BuiltInGrantResponse\<close>: the three values that implement it, and the three
  pointer types, whose nil is a value of the interface too.
\<close>

datatype BuiltInGrantResponse =
  OAuthBearer OAuthBearerGrantResponse
| APIKey APIKeyGrantResponse
| Basic BasicGrantResponse
| OAuthBearerPtr "OAuthBearerGrantResponse option"
| APIKeyPtr "APIKeyGrantResponse option"
| BasicPtr "BasicGrantResponse option"

fun GrantType_of :: "BuiltInGrantResponse \<Rightarrow> GrantType" where
  "GrantType_of (OAuthBearer _) = GrantTypeOAuthBearer"
| "GrantType_of (APIKey _) = GrantTypeAPIKey"
| "GrantType_of (Basic _) = GrantTypeBasic"
| "GrantType_of (OAuthBearerPtr _) = GrantTypeOAuthBearer"
| "GrantType_of (APIKeyPtr _) = GrantTypeAPIKey"
| "GrantType_of (BasicPtr _) = GrantTypeBasic"

record ProtectedResourceAuthorization =
  pra_Carrier :: ProtectedResourceCarrier
  pra_Scheme :: CredentialScheme
  pra_Credentials :: string

section \<open>Errors\<close>

record ValidationIssue =
  issue_Path :: string
  issue_Message :: string

text \<open>
  Errors as values. \<open>Validation\<close> and \<open>Carrier\<close> are the structured errors of \<open>errors.go\<close>;
  \<open>Wrapped\<close> is \<open>fmt.Errorf\<close> with \<open>%w\<close>, which a type assertion does not see through but
  \<open>errors.As\<close> does; \<open>Library\<close> is an error the standard library made, whose text is not modelled;
  \<open>External\<close> is one that came from a caller's implementation of an interface.
\<close>

datatype go_error =
  Text string
| Validation string "ValidationIssue list"
| Carrier ErrorCode string
| Wrapped string go_error
| UnsupportedServiceDocument
| RequirementsUnmet "ClaimName slice" "string slice"
| ContextDone
| Library string
| External string

type_synonym 'a result = "go_error + 'a"

definition invalid :: "string \<Rightarrow> string \<Rightarrow> string \<Rightarrow> go_error" where
  "invalid documentType path message =
     Validation documentType [\<lparr>issue_Path = path, issue_Message = message\<rparr>]"

text \<open>The message ends with the decoder's own error, which is not modelled.\<close>

definition wrapDecodeError :: "string \<Rightarrow> go_error \<Rightarrow> go_error" where
  "wrapDecodeError documentType err = invalid documentType ''$'' ''Invalid JSON: ''"

lemmas [go_defs] = registeredClaimNames_def RegisteredClaims_def invalid_def wrapDecodeError_def

abbreviation issue :: "string \<Rightarrow> string \<Rightarrow> ValidationIssue" where
  "issue path message \<equiv> \<lparr>issue_Path = path, issue_Message = message\<rparr>"

end
