(* ===== verification/Regexp.thy ===== *)
theory Regexp
  imports Wire_Types
begin

text \<open>
  The regular expressions the code compiles with \<open>regexp.MustCompile\<close>. Every pattern is anchored
  at both ends and only names ASCII characters, so matching a Go string is language membership of
  its bytes. \<open>full_match\<close> decides it with derivatives; \<open>full_match_lang\<close> relates it to the
  language of the pattern.
\<close>

datatype rx =
  Never
| Done
| Class "char \<Rightarrow> bool"
| Seq rx rx
| Either rx rx
| Many rx

fun accepts_empty :: "rx \<Rightarrow> bool" where
  "accepts_empty Never \<longleftrightarrow> False"
| "accepts_empty Done \<longleftrightarrow> True"
| "accepts_empty (Class P) \<longleftrightarrow> False"
| "accepts_empty (Seq r s) \<longleftrightarrow> accepts_empty r \<and> accepts_empty s"
| "accepts_empty (Either r s) \<longleftrightarrow> accepts_empty r \<or> accepts_empty s"
| "accepts_empty (Many r) \<longleftrightarrow> True"

text \<open>The derivative, with the dead branches dropped as it is built.\<close>

fun seq_rx :: "rx \<Rightarrow> rx \<Rightarrow> rx" where
  "seq_rx Never s = Never"
| "seq_rx Done s = s"
| "seq_rx r s = Seq r s"

fun either_rx :: "rx \<Rightarrow> rx \<Rightarrow> rx" where
  "either_rx Never s = s"
| "either_rx r Never = r"
| "either_rx r s = Either r s"

fun derive :: "char \<Rightarrow> rx \<Rightarrow> rx" where
  "derive c Never = Never"
| "derive c Done = Never"
| "derive c (Class P) = (if P c then Done else Never)"
| "derive c (Seq r s) =
     (if accepts_empty r then either_rx (seq_rx (derive c r) s) (derive c s)
      else seq_rx (derive c r) s)"
| "derive c (Either r s) = either_rx (derive c r) (derive c s)"
| "derive c (Many r) = seq_rx (derive c r) (Many r)"

fun full_match :: "rx \<Rightarrow> string \<Rightarrow> bool" where
  "full_match r [] \<longleftrightarrow> accepts_empty r"
| "full_match r (c # s) \<longleftrightarrow> full_match (derive c r) s"

section \<open>The language of a pattern\<close>

inductive_set star_lang :: "string set \<Rightarrow> string set" for A where
  star_empty: "[] \<in> star_lang A"
| star_step: "u \<in> A \<Longrightarrow> u \<noteq> [] \<Longrightarrow> v \<in> star_lang A \<Longrightarrow> u @ v \<in> star_lang A"

fun lang :: "rx \<Rightarrow> string set" where
  "lang Never = {}"
| "lang Done = {[]}"
| "lang (Class P) = {[c] | c. P c}"
| "lang (Seq r s) = {u @ v | u v. u \<in> lang r \<and> v \<in> lang s}"
| "lang (Either r s) = lang r \<union> lang s"
| "lang (Many r) = star_lang (lang r)"

lemma lang_seq_rx [simp]: "lang (seq_rx r s) = lang (Seq r s)"
  by (cases r) auto

lemma lang_either_rx [simp]: "lang (either_rx r s) = lang r \<union> lang s"
  by (cases r; cases s) auto

lemma accepts_empty_lang: "accepts_empty r \<longleftrightarrow> [] \<in> lang r"
  by (induction r) (auto intro: star_lang.intros)

inductive_cases star_consE: "c # w \<in> star_lang A"

lemma star_cons_iff:
  "c # w \<in> star_lang A \<longleftrightarrow> (\<exists>u v. w = u @ v \<and> c # u \<in> A \<and> v \<in> star_lang A)"
proof
  assume "c # w \<in> star_lang A"
  then show "\<exists>u v. w = u @ v \<and> c # u \<in> A \<and> v \<in> star_lang A"
    by (rule star_consE) (metis append_eq_Cons_conv)
next
  assume "\<exists>u v. w = u @ v \<and> c # u \<in> A \<and> v \<in> star_lang A"
  then obtain u v where "w = u @ v" "c # u \<in> A" "v \<in> star_lang A" by blast
  then show "c # w \<in> star_lang A"
    using star_step [of "c # u" A v] by simp
qed

lemma derive_lang: "w \<in> lang (derive c r) \<longleftrightarrow> c # w \<in> lang r"
proof (induction r arbitrary: w)
  case (Seq r s)
  have split: "c # w \<in> lang (Seq r s) \<longleftrightarrow>
      (\<exists>u v. w = u @ v \<and> c # u \<in> lang r \<and> v \<in> lang s) \<or> ([] \<in> lang r \<and> c # w \<in> lang s)"
    by (auto simp: Cons_eq_append_conv)
  show ?case unfolding split
    by (auto simp: Seq.IH accepts_empty_lang)
next
  case (Many r)
  then show ?case by (auto simp: star_cons_iff)
qed auto

lemma full_match_lang: "full_match r s \<longleftrightarrow> s \<in> lang r"
  by (induction s arbitrary: r) (simp_all add: accepts_empty_lang derive_lang)

text \<open>A pattern whose classes all satisfy \<open>P\<close> only matches strings of such characters.\<close>

fun classes_in :: "(char \<Rightarrow> bool) \<Rightarrow> rx \<Rightarrow> bool" where
  "classes_in P (Class Q) \<longleftrightarrow> (\<forall>c. Q c \<longrightarrow> P c)"
| "classes_in P (Seq r s) \<longleftrightarrow> classes_in P r \<and> classes_in P s"
| "classes_in P (Either r s) \<longleftrightarrow> classes_in P r \<and> classes_in P s"
| "classes_in P (Many r) \<longleftrightarrow> classes_in P r"
| "classes_in P r \<longleftrightarrow> True"

lemma star_chars: "s \<in> star_lang A \<Longrightarrow> (\<forall>t \<in> A. \<forall>c \<in> set t. P c) \<Longrightarrow> \<forall>c \<in> set s. P c"
  by (induction rule: star_lang.induct) auto

lemma lang_chars: "s \<in> lang r \<Longrightarrow> classes_in P r \<Longrightarrow> \<forall>c \<in> set s. P c"
proof (induction r arbitrary: s)
  case (Many r)
  from Many.prems(1) have "s \<in> star_lang (lang r)" by simp
  then show ?case by (rule star_chars) (use Many in auto)
next
  case (Seq r1 r2)
  then show ?case by fastforce
qed auto

section \<open>Pattern building blocks\<close>

definition lit :: "string \<Rightarrow> rx" where
  "lit s = foldr (\<lambda>c r. Seq (Class (\<lambda>x. x = c)) r) s Done"

definition plus_rx :: "rx \<Rightarrow> rx" where
  "plus_rx r = Seq r (Many r)"

definition optional :: "rx \<Rightarrow> rx" where
  "optional r = Either Done r"

fun times_rx :: "nat \<Rightarrow> rx \<Rightarrow> rx" where
  "times_rx 0 r = Done"
| "times_rx (Suc n) r = Seq r (times_rx n r)"

fun upto_rx :: "nat \<Rightarrow> rx \<Rightarrow> rx" where
  "upto_rx 0 r = Done"
| "upto_rx (Suc n) r = Either Done (Seq r (upto_rx n r))"

definition one_of :: "string \<Rightarrow> rx" where
  "one_of cs = Class (\<lambda>c. c \<in> set cs)"

lemmas rx_defs [go_defs] = lit_def plus_rx_def optional_def one_of_def

lemma classes_in_lit [simp]: "classes_in P (lit s) \<longleftrightarrow> (\<forall>c \<in> set s. P c)"
  unfolding lit_def by (induction s) auto

lemma classes_in_times [simp]: "classes_in P r \<Longrightarrow> classes_in P (times_rx n r)"
  by (induction n) auto

lemma classes_in_upto [simp]: "classes_in P r \<Longrightarrow> classes_in P (upto_rx n r)"
  by (induction n) auto

lemma length_upto_class: "s \<in> lang (upto_rx n (Class P)) \<Longrightarrow> length s \<le> n"
  by (induction n arbitrary: s) auto

lemma length_times_class: "s \<in> lang (times_rx n (Class P)) \<Longrightarrow> length s = n"
  by (induction n arbitrary: s) auto

section \<open>The patterns of the code\<close>

text \<open>\<open>claims.go\<close>.\<close>

definition e164Pattern :: rx where
  "e164Pattern =
     Seq (lit ''+'') (Seq (Class (in_range 49 57)) (Seq (Class is_digit) (upto_rx 13 (Class is_digit))))"

definition countryPattern :: rx where
  "countryPattern = Seq (Class is_upper) (Class is_upper)"

definition is_alnum :: "char \<Rightarrow> bool" where
  "is_alnum c \<longleftrightarrow> is_lower c \<or> is_upper c \<or> is_digit c"

definition atom_char :: "char \<Rightarrow> bool" where
  "atom_char c \<longleftrightarrow> is_alnum c \<or> c \<in> set ''!#$%&*+-/=?^_{|}~'' \<or> c = CHR 0x27 \<or> c = CHR 0x60"

definition atomPattern :: rx where
  "atomPattern = plus_rx (Class atom_char)"

definition alnum_dash :: "char \<Rightarrow> bool" where
  "alnum_dash c \<longleftrightarrow> is_alnum c \<or> c = CHR ''-''"

definition domainLabelPattern :: rx where
  "domainLabelPattern =
     Seq (Class is_alnum) (optional (Seq (Many (Class alnum_dash)) (Class is_alnum)))"

definition addressTagPattern :: rx where
  "addressTagPattern = Seq (Many (Class alnum_dash)) (Class is_alnum)"

text \<open>\<open>inspect.go\<close>.\<close>

definition number_rx :: rx where
  "number_rx = Either (lit ''0'') (Seq (Class (in_range 49 57)) (Many (Class is_digit)))"

definition versionPattern :: rx where
  "versionPattern = Seq number_rx (Seq (lit ''.'') number_rx)"

definition lower_digit :: "char \<Rightarrow> bool" where
  "lower_digit c \<longleftrightarrow> is_lower c \<or> is_digit c"

definition advertisementPattern :: rx where
  "advertisementPattern =
     Seq (plus_rx (Class lower_digit)) (Many (Seq (lit ''-'') (plus_rx (Class lower_digit))))"

definition identityPattern :: rx where
  "identityPattern =
     Seq (plus_rx (Class lower_digit))
       (Seq (Many (Seq (lit '':'') (plus_rx (Class lower_digit))))
            (Many (Seq (lit ''-'') (plus_rx (Class lower_digit)))))"

definition lower_digit_us :: "char \<Rightarrow> bool" where
  "lower_digit_us c \<longleftrightarrow> lower_digit c \<or> c = CHR ''_''"

definition claimNamePattern :: rx where
  "claimNamePattern =
     Seq (Seq (Class is_lower) (Many (Class lower_digit_us)))
       (Many (Seq (lit ''.'') (Seq (Class is_lower) (Many (Class lower_digit_us)))))"

text \<open>\<open>protocol.go\<close>.\<close>

definition bodyHashPattern :: rx where
  "bodyHashPattern =
     Seq (lit ''sha256:'') (times_rx 64 (Class (\<lambda>c. is_digit c \<or> in_range 97 102 c)))"

text \<open>\<open>service_documents.go\<close>.\<close>

definition documentIDPattern :: rx where
  "documentIDPattern =
     Seq (Class is_alnum) (upto_rx 31 (Class (\<lambda>c. is_alnum c \<or> c \<in> set ''._-'')))"

definition documentTypePattern :: rx where
  "documentTypePattern = Seq (Class is_lower) (upto_rx 63 (Class lower_digit_us))"

definition media_char :: "char \<Rightarrow> bool" where
  "media_char c \<longleftrightarrow> lower_digit c \<or> c \<in> set ''!#$&^_.+-''"

definition documentMediaPattern :: rx where
  "documentMediaPattern =
     Seq (plus_rx (Class media_char)) (Seq (lit ''/'') (plus_rx (Class media_char)))"

lemmas pattern_defs [go_defs] =
  e164Pattern_def countryPattern_def is_alnum_def atom_char_def atomPattern_def alnum_dash_def
  domainLabelPattern_def addressTagPattern_def number_rx_def versionPattern_def lower_digit_def
  advertisementPattern_def identityPattern_def lower_digit_us_def claimNamePattern_def
  bodyHashPattern_def documentIDPattern_def documentTypePattern_def media_char_def
  documentMediaPattern_def

end
