(* ===== verification/Validation.thy ===== *)
theory Validation
  imports Regexp
begin

text \<open>
  The helpers of \<open>validation.go\<close> and the end of \<open>protocol.go\<close>. A Go validator appends to a
  slice of issues it is given; here each helper returns the issues it appends, and a validator
  concatenates them in the order of the code.
\<close>

definition validationResult :: "string \<Rightarrow> ValidationIssue list \<Rightarrow> go_error option" where
  "validationResult documentType issues =
     (if issues = [] then None else Some (Validation documentType issues))"

definition requireNonEmpty :: "string \<Rightarrow> string \<Rightarrow> ValidationIssue list" where
  "requireNonEmpty val path = (if val = [] then [issue path ''Expected a non-empty string.''] else [])"

fun requireUniqueFrom :: "string list \<Rightarrow> string list \<Rightarrow> string \<Rightarrow> ValidationIssue list" where
  "requireUniqueFrom seen [] path = []"
| "requireUniqueFrom seen (v # vs) path =
     (if v \<in> set seen then [issue path ''Expected unique items.'']
      else requireUniqueFrom (v # seen) vs path)"

definition requireUniqueStrings :: "string list \<Rightarrow> string \<Rightarrow> ValidationIssue list" where
  "requireUniqueStrings vals path = requireUniqueFrom [] vals path"

fun containsValue :: "'a list \<Rightarrow> 'a \<Rightarrow> bool" where
  "containsValue [] expected \<longleftrightarrow> False"
| "containsValue (v # vs) expected \<longleftrightarrow> v = expected \<or> containsValue vs expected"

definition appendValidationIssues :: "go_error option \<Rightarrow> ValidationIssue list" where
  "appendValidationIssues err = (case err of Some (Validation _ issues) \<Rightarrow> issues | _ \<Rightarrow> [])"

text \<open>\<open>strconv.Itoa\<close> of a slice index.\<close>

fun digits_of :: "int \<Rightarrow> string" where
  "digits_of n =
     (if n < 10 then [char_of (48 + n)] else digits_of (n div 10) @ [char_of (48 + n mod 10)])"

declare digits_of.simps [simp del]

definition index_path :: "string \<Rightarrow> nat \<Rightarrow> string" where
  "index_path path i = path @ ''['' @ digits_of (int i) @ '']''"

text \<open>The issues a loop over a slice with its index appends.\<close>

fun issues_from :: "nat \<Rightarrow> (nat \<Rightarrow> 'a \<Rightarrow> ValidationIssue list) \<Rightarrow> 'a list \<Rightarrow> ValidationIssue list" where
  "issues_from i f [] = []"
| "issues_from i f (x # xs) = f i x @ issues_from (Suc i) f xs"

abbreviation each_index :: "(nat \<Rightarrow> 'a \<Rightarrow> ValidationIssue list) \<Rightarrow> 'a list \<Rightarrow> ValidationIssue list" where
  "each_index \<equiv> issues_from 0"

definition validateOwnerActionRequired :: "string option \<Rightarrow> ValidationIssue list" where
  "validateOwnerActionRequired val =
     (case val of
        Some v \<Rightarrow> if v \<noteq> ''true'' \<and> v \<noteq> ''false''
                  then [issue ''$.owner_action_required'' ''Expected true or false.''] else []
      | None \<Rightarrow> [])"

definition validateNonEmptyStrings :: "string slice \<Rightarrow> string \<Rightarrow> ValidationIssue list" where
  "validateNonEmptyStrings vals path =
     (if vals = Some [] then [issue path ''Expected at least one item.''] else []) @
     each_index (\<lambda>i v. if v = [] then [issue (index_path path i) ''Expected a non-empty string.''] else [])
       (elems vals) @
     requireUniqueStrings (elems vals) path"

definition validateStrings :: "string list \<Rightarrow> string \<Rightarrow> ValidationIssue list" where
  "validateStrings vals path =
     each_index (\<lambda>i v. if v = [] then [issue (index_path path i) ''Expected a string.''] else []) vals"

definition validateOptionalString ::
  "string option \<Rightarrow> string \<Rightarrow> (string \<Rightarrow> bool) \<Rightarrow> string \<Rightarrow> ValidationIssue list" where
  "validateOptionalString val path valid message =
     (case val of Some v \<Rightarrow> if \<not> valid v then [issue path message] else [] | None \<Rightarrow> [])"

definition validateOptionalNonEmpty :: "string option \<Rightarrow> string \<Rightarrow> ValidationIssue list" where
  "validateOptionalNonEmpty val path =
     validateOptionalString val path (\<lambda>input. input \<noteq> []) ''Expected a non-empty string.''"

definition validateBodyHash :: "string option \<Rightarrow> string \<Rightarrow> ValidationIssue list" where
  "validateBodyHash val path =
     (case val of
        Some v \<Rightarrow> if \<not> full_match bodyHashPattern v
                  then [issue path ''Expected a lowercase SHA-256 body hash.''] else []
      | None \<Rightarrow> [])"

lemmas validation_defs [go_defs] =
  validationResult_def requireNonEmpty_def requireUniqueStrings_def appendValidationIssues_def
  index_path_def validateOwnerActionRequired_def validateNonEmptyStrings_def validateStrings_def
  validateOptionalString_def validateOptionalNonEmpty_def validateBodyHash_def

section \<open>When a helper reports nothing\<close>

text \<open>
  \<open>no_issues\<close> rewrites "this helper appended no issue" to the condition it checks, so that a
  validator's acceptance becomes the conjunction of the conditions its code states.
\<close>

named_theorems no_issues \<open>when a validation helper appends no issue\<close>

lemma validationResult_None [no_issues]: "validationResult t issues = None \<longleftrightarrow> issues = []"
  by (simp add: validationResult_def)

lemma requireNonEmpty_Nil [no_issues]: "requireNonEmpty v p = [] \<longleftrightarrow> v \<noteq> []"
  by (simp add: requireNonEmpty_def)

lemma requireUniqueFrom_Nil: "requireUniqueFrom seen vs p = [] \<longleftrightarrow> distinct vs \<and> set vs \<inter> set seen = {}"
  by (induction vs arbitrary: seen) auto

lemma requireUniqueStrings_Nil [no_issues]: "requireUniqueStrings vs p = [] \<longleftrightarrow> distinct vs"
  by (simp add: requireUniqueStrings_def requireUniqueFrom_Nil)

lemma containsValue_iff [simp]: "containsValue vs v \<longleftrightarrow> v \<in> set vs"
  by (induction vs) auto

lemma issues_from_Nil:
  "issues_from i f xs = [] \<longleftrightarrow> (\<forall>j < length xs. f (i + j) (xs ! j) = [])"
proof (induction xs arbitrary: i)
  case (Cons x xs)
  show ?case by (auto simp: Cons.IH less_Suc_eq_0_disj)
qed simp

lemma issues_from_if_Nil [no_issues]:
  "issues_from i (\<lambda>i v. if P v then [g i v] else []) xs = [] \<longleftrightarrow> (\<forall>x \<in> set xs. \<not> P x)"
  by (induction xs arbitrary: i) auto

lemma appendValidationIssues_result [simp]:
  "appendValidationIssues (validationResult t issues) = issues"
  by (simp add: appendValidationIssues_def validationResult_def)

lemma appendValidationIssues_None [simp]: "appendValidationIssues None = []"
  by (simp add: appendValidationIssues_def)

lemma validateOwnerActionRequired_Nil [no_issues]:
  "validateOwnerActionRequired v = [] \<longleftrightarrow> v \<in> {None, Some ''true'', Some ''false''}"
  by (auto simp: validateOwnerActionRequired_def split: option.splits if_splits)

lemma validateNonEmptyStrings_Nil [no_issues]:
  "validateNonEmptyStrings v p = [] \<longleftrightarrow> v \<noteq> Some [] \<and> [] \<notin> set (elems v) \<and> distinct (elems v)"
  by (auto simp: validateNonEmptyStrings_def no_issues)

lemma validateStrings_Nil [no_issues]: "validateStrings vs p = [] \<longleftrightarrow> [] \<notin> set vs"
  by (auto simp: validateStrings_def no_issues)

lemma validateOptionalString_Nil [no_issues]:
  "validateOptionalString v p valid m = [] \<longleftrightarrow> (case v of Some x \<Rightarrow> valid x | None \<Rightarrow> True)"
  by (auto simp: validateOptionalString_def split: option.splits)

lemma validateOptionalNonEmpty_Nil [no_issues]: "validateOptionalNonEmpty v p = [] \<longleftrightarrow> v \<noteq> Some []"
  by (auto simp: validateOptionalNonEmpty_def no_issues split: option.splits)

lemma validateBodyHash_Nil [no_issues]:
  "validateBodyHash v p = [] \<longleftrightarrow> (case v of Some x \<Rightarrow> full_match bodyHashPattern x | None \<Rightarrow> True)"
  by (auto simp: validateBodyHash_def split: option.splits)

lemma issue_if_Nil [no_issues]: "(if P then [x] else []) = [] \<longleftrightarrow> \<not> P"
  by simp

end
