(* ===== verification/Http_Auth.thy ===== *)
theory Http_Auth
  imports Validation
begin

text \<open>
  \<open>http.go\<close>: endpoint paths and the authorization field of a protected resource. The lemmas
  characterise what \<open>ParseProtectedResourceAuthorization\<close> accepts and relate it to rendering.
\<close>

section \<open>Endpoint paths\<close>

definition commandPaths :: "(Command \<times> string) list" where
  "commandPaths =
     [(CommandEnroll, ''enroll''), (CommandGrant, ''grant''), (CommandRevoke, ''revoke''),
      (CommandStatus, ''status'')]"

definition NormalizeEndpointBase :: "string \<Rightarrow> string result" where
  "NormalizeEndpointBase endpointBase0 =
     (let endpointBase = (if endpointBase0 = [] then DefaultHTTPEndpointBase else endpointBase0) in
      if \<not> has_prefix endpointBase ''/'' \<or> has_prefix endpointBase ''//''
      then Inl (Text ''AEP endpoint_base must be an origin-relative absolute path'')
      else Inr (if \<not> has_suffix endpointBase ''/'' then endpointBase @ ''/'' else endpointBase))"

definition CommandPath :: "Command \<Rightarrow> string \<Rightarrow> string result" where
  "CommandPath command endpointBase =
     (case map_of commandPaths command of
        None \<Rightarrow> Inl (Text ''AEP command has no HTTP endpoint path'')
      | Some path \<Rightarrow>
          (case NormalizeEndpointBase endpointBase of
             Inl err \<Rightarrow> Inl err
           | Inr base \<Rightarrow> Inr (base @ path)))"

definition CommandPathFromInspect :: "InspectDocument \<Rightarrow> Command \<Rightarrow> string result" where
  "CommandPathFromInspect document command =
     CommandPath command (http_EndpointBase (insp_HTTP document))"

section \<open>The authorization field\<close>

definition ProtectedResourceAuthorizationHeader :: "ProtectedResourceCarrier \<Rightarrow> string result" where
  "ProtectedResourceAuthorizationHeader carrier =
     (if carrier = [] \<or> carrier = ProtectedResourceStandard then Inr ''Authorization''
      else if carrier = ProtectedResourceDedicated then Inr AuthorizationHeader
      else Inl (Text ''unsupported AEP authorization carrier''))"

definition isCredentialToken :: "string \<Rightarrow> bool" where
  "isCredentialToken val \<longleftrightarrow>
     (if val = [] then False else list_all (\<lambda>c. \<not> (byte c < 0x21 \<or> 0x7e < byte c)) val)"

definition canonicalCredentialScheme :: "string \<Rightarrow> CredentialScheme" where
  "canonicalCredentialScheme val =
     (let lowered = to_lower val in
      if lowered = ''aep'' then CredentialSchemeAEP
      else if lowered = ''bearer'' then CredentialSchemeBearer
      else if lowered = ''basic'' then CredentialSchemeBasic
      else [])"

definition isCredentialScheme :: "CredentialScheme \<Rightarrow> bool" where
  "isCredentialScheme val \<longleftrightarrow>
     val = CredentialSchemeAEP \<or> val = CredentialSchemeBearer \<or> val = CredentialSchemeBasic"

definition ValidateProtectedResourceAuthorization ::
  "ProtectedResourceAuthorization \<Rightarrow> go_error option" where
  "ValidateProtectedResourceAuthorization val =
     (if pra_Credentials val = [] then
        Some (Carrier ErrorInvalidRequest ''authorization credentials must not be empty'')
      else if \<not> isCredentialToken (pra_Credentials val) then
        Some (Carrier ErrorInvalidRequest ''authorization credentials must be visible US-ASCII'')
      else if \<not> isCredentialScheme (pra_Scheme val) then
        Some (Carrier ErrorInvalidRequest ''unsupported authorization scheme'')
      else (case ProtectedResourceAuthorizationHeader (pra_Carrier val) of
              Inl err \<Rightarrow> Some err | Inr _ \<Rightarrow> None))"

text \<open>The header name and the field value.\<close>

definition RenderProtectedResourceAuthorization ::
  "ProtectedResourceAuthorization \<Rightarrow> (string \<times> string) result" where
  "RenderProtectedResourceAuthorization val =
     (case ValidateProtectedResourceAuthorization val of
        Some err \<Rightarrow> Inl err
      | None \<Rightarrow>
          Inr (case ProtectedResourceAuthorizationHeader (pra_Carrier val) of Inr h \<Rightarrow> h | Inl _ \<Rightarrow> [],
               pra_Scheme val @ '' '' @ pra_Credentials val))"

definition is_blank :: "char \<Rightarrow> bool" where
  "is_blank c \<longleftrightarrow> byte c = 32 \<or> byte c = 9"

definition unrecognized :: go_error where
  "unrecognized = Carrier ErrorNotRecognized ''the authorization presentation was not recognized''"

definition ParseProtectedResourceAuthorization ::
  "string \<Rightarrow> ProtectedResourceCarrier \<Rightarrow> ProtectedResourceAuthorization result" where
  "ParseProtectedResourceAuthorization fieldValue carrier0 =
     (let carrier = (if carrier0 = [] then ProtectedResourceStandard else carrier0) in
      case ProtectedResourceAuthorizationHeader carrier of
        Inl err \<Rightarrow> Inl err
      | Inr _ \<Rightarrow>
          if carrier = ProtectedResourceDedicated \<and> contains_str fieldValue '','' then
            Inl (Carrier ErrorNotRecognized ''the dedicated authorization field is ambiguous'')
          else
            let separator = index_where is_blank fieldValue in
            if separator < 1 then Inl unrecognized
            else
              let scheme = canonicalCredentialScheme (take (nat separator) fieldValue) in
              if scheme = [] then Inl unrecognized
              else
                let credentials = trim_right is_blank (trim_left is_blank (drop (nat separator) fieldValue)) in
                if \<not> isCredentialToken credentials then Inl unrecognized
                else Inr \<lparr>pra_Carrier = carrier, pra_Scheme = scheme, pra_Credentials = credentials\<rparr>)"

lemmas http_auth_defs [go_defs] =
  commandPaths_def NormalizeEndpointBase_def CommandPath_def CommandPathFromInspect_def
  ProtectedResourceAuthorizationHeader_def isCredentialToken_def canonicalCredentialScheme_def
  isCredentialScheme_def ValidateProtectedResourceAuthorization_def
  RenderProtectedResourceAuthorization_def is_blank_def unrecognized_def
  ParseProtectedResourceAuthorization_def

section \<open>Lemmas\<close>

lemma NormalizeEndpointBase_shape:
  assumes "NormalizeEndpointBase b = Inr base"
  shows "has_prefix base ''/'' \<and> \<not> has_prefix base ''//'' \<and> has_suffix base ''/''"
proof -
  let ?b = "if b = [] then DefaultHTTPEndpointBase else b"
  have p: "has_prefix ?b ''/''" "\<not> has_prefix ?b ''//''"
    and base: "base = (if \<not> has_suffix ?b ''/'' then ?b @ ''/'' else ?b)"
    using assms by (auto simp: NormalizeEndpointBase_def Let_def split: if_splits)
  obtain t where t: "?b = CHR ''/'' # t" using p(1) by (cases ?b) auto
  have "t \<noteq> []" if "\<not> has_suffix ?b ''/''" using that t by (auto simp: has_suffix_def)
  then show ?thesis using p t unfolding base
    by (cases t) (auto simp: has_suffix_append)
qed

lemma isCredentialToken_iff:
  "isCredentialToken v \<longleftrightarrow> v \<noteq> [] \<and> (\<forall>c \<in> set v. 0x21 \<le> byte c \<and> byte c \<le> 0x7e)"
  by (auto simp: isCredentialToken_def list_all_iff not_less)

lemma token_not_blank: "isCredentialToken v \<Longrightarrow> c \<in> set v \<Longrightarrow> \<not> is_blank c"
  by (auto simp: isCredentialToken_iff is_blank_def)

lemma canonicalCredentialScheme_fixed [simp]:
  assumes "isCredentialScheme s"
  shows "canonicalCredentialScheme s = s"
proof -
  have "canonicalCredentialScheme CredentialSchemeAEP = CredentialSchemeAEP"
    "canonicalCredentialScheme CredentialSchemeBearer = CredentialSchemeBearer"
    "canonicalCredentialScheme CredentialSchemeBasic = CredentialSchemeBasic"
    by code_simp+
  then show ?thesis using assms by (auto simp: isCredentialScheme_def)
qed

lemma canonicalCredentialScheme_scheme:
  "canonicalCredentialScheme s \<noteq> [] \<Longrightarrow> isCredentialScheme (canonicalCredentialScheme s)"
  by (simp add: canonicalCredentialScheme_def isCredentialScheme_def Let_def split: if_splits)

lemma scheme_no_blank: "isCredentialScheme s \<Longrightarrow> s \<noteq> [] \<and> (\<forall>c \<in> set s. \<not> is_blank c)"
  by (auto simp: isCredentialScheme_def is_blank_def)

text \<open>The split of a field at its first blank.\<close>

lemma takeWhile_separator:
  assumes "\<forall>c \<in> set s. \<not> P c" and "P b"
  shows "index_where P (s @ b # t) = int (length s)"
proof -
  have "takeWhile (\<lambda>x. \<not> P x) (s @ b # t) = s"
    using assms by (simp add: takeWhile_append2)
  then show ?thesis using assms by (auto simp: index_where_def)
qed

lemma trim_token:
  assumes "isCredentialToken v"
  shows "trim_right is_blank (trim_left is_blank (CHR '' '' # v)) = v"
proof -
  obtain a w where v: "v = a # w" and a: "\<not> is_blank a"
    using assms token_not_blank [OF assms]
    by (metis isCredentialToken_iff list.set_intros(1) neq_Nil_conv)
  have l: "trim_left is_blank (CHR '' '' # v) = v"
    using v a by (simp add: trim_left_def is_blank_def)
  obtain u z where z: "v = u @ [z]" using v by (metis list.distinct(1) rev_exhaust)
  have "\<not> is_blank z" using token_not_blank [OF assms] z by simp
  then have "trim_right is_blank v = v" using z by (simp add: trim_right_def)
  with l show ?thesis by simp
qed

lemma ValidateProtectedResourceAuthorization_None:
  "ValidateProtectedResourceAuthorization v = None \<longleftrightarrow>
     isCredentialToken (pra_Credentials v) \<and> isCredentialScheme (pra_Scheme v) \<and>
     pra_Carrier v \<in> {[], ProtectedResourceStandard, ProtectedResourceDedicated}"
  by (auto simp: ValidateProtectedResourceAuthorization_def isCredentialToken_iff
      ProtectedResourceAuthorizationHeader_def split: if_splits)

abbreviation resolved_carrier :: "ProtectedResourceCarrier \<Rightarrow> ProtectedResourceCarrier" where
  "resolved_carrier c \<equiv> (if c = [] then ProtectedResourceStandard else c)"

lemma Parse_valid:
  assumes "ParseProtectedResourceAuthorization f c = Inr v"
  shows "ValidateProtectedResourceAuthorization v = None \<and> pra_Carrier v = resolved_carrier c"
  using assms
  by (auto simp: ParseProtectedResourceAuthorization_def ValidateProtectedResourceAuthorization_None
      ProtectedResourceAuthorizationHeader_def Let_def canonicalCredentialScheme_scheme
      split: if_splits)

lemma Parse_rendered:
  assumes "ValidateProtectedResourceAuthorization v = None"
  shows "ParseProtectedResourceAuthorization (pra_Scheme v @ '' '' @ pra_Credentials v) (pra_Carrier v) =
    (if pra_Carrier v = ProtectedResourceDedicated \<and> CHR '','' \<in> set (pra_Credentials v)
     then Inl (Carrier ErrorNotRecognized ''the dedicated authorization field is ambiguous'')
     else Inr (v\<lparr>pra_Carrier := resolved_carrier (pra_Carrier v)\<rparr>))"
proof -
  obtain c s t where v: "v = \<lparr>pra_Carrier = c, pra_Scheme = s, pra_Credentials = t\<rparr>" by (cases v)
  have tok: "isCredentialToken t" and sch: "isCredentialScheme s"
    and car: "c \<in> {[], ProtectedResourceStandard, ProtectedResourceDedicated}"
    using assms by (auto simp: ValidateProtectedResourceAuthorization_None v)
  have sep: "index_where is_blank (s @ '' '' @ t) = int (length s)"
    using takeWhile_separator [of s is_blank "CHR '' ''" t] scheme_no_blank [OF sch]
    by (simp add: is_blank_def)
  have "s \<noteq> []" using scheme_no_blank [OF sch] by simp
  then have pos: "\<not> int (length s) < 1" by (cases s) auto
  have comma: "contains_str (s @ '' '' @ t) '','' \<longleftrightarrow> CHR '','' \<in> set t"
    using sch by (auto simp: contains_str_single isCredentialScheme_def)
  have sep_parts: "take (nat (int (length s))) (s @ '' '' @ t) = s"
    "drop (nat (int (length s))) (s @ '' '' @ t) = CHR '' '' # t"
    by simp_all
  have hdr: "\<exists>h. ProtectedResourceAuthorizationHeader (resolved_carrier c) = Inr h"
    using car by (auto simp: ProtectedResourceAuthorizationHeader_def)
  then obtain h where hdr: "ProtectedResourceAuthorizationHeader (resolved_carrier c) = Inr h" ..
  have ded: "resolved_carrier c = ProtectedResourceDedicated \<longleftrightarrow> c = ProtectedResourceDedicated"
    by auto
  show ?thesis
    unfolding ParseProtectedResourceAuthorization_def v
    by (simp only: Let_def hdr sum.case comma ded sep sep_parts pos if_False select_convs
        canonicalCredentialScheme_fixed [OF sch] trim_token [OF tok] tok \<open>s \<noteq> []\<close> update_convs
        ProtectedResourceAuthorization.simps simp_thms)
qed

section \<open>Properties\<close>

text \<open>
  C21. Rendering a valid authorization and parsing the field value under the same carrier gives the
  authorization back, its carrier resolved, except that the dedicated carrier refuses a credential
  with a comma, which rendering accepts.
\<close>

theorem parse_render_authorization:
  assumes "RenderProtectedResourceAuthorization v = Inr (header, field)"
  shows "ParseProtectedResourceAuthorization field (pra_Carrier v) =
    (if pra_Carrier v = ProtectedResourceDedicated \<and> CHR '','' \<in> set (pra_Credentials v)
     then Inl (Carrier ErrorNotRecognized ''the dedicated authorization field is ambiguous'')
     else Inr (v\<lparr>pra_Carrier := resolved_carrier (pra_Carrier v)\<rparr>))"
proof -
  have "ValidateProtectedResourceAuthorization v = None"
    and "field = pra_Scheme v @ '' '' @ pra_Credentials v"
    using assms by (auto simp: RenderProtectedResourceAuthorization_def split: option.splits)
  then show ?thesis using Parse_rendered by blast
qed

theorem parse_render_authorization_witness:
  "RenderProtectedResourceAuthorization
     \<lparr>pra_Carrier = [], pra_Scheme = ''Bearer'', pra_Credentials = ''a.b''\<rparr> =
     Inr (''Authorization'', ''Bearer a.b'') \<and>
   ParseProtectedResourceAuthorization ''Bearer a.b'' [] =
     Inr \<lparr>pra_Carrier = ''Authorization'', pra_Scheme = ''Bearer'', pra_Credentials = ''a.b''\<rparr>"
proof -
  let ?v = "\<lparr>pra_Carrier = [], pra_Scheme = ''Bearer'', pra_Credentials = ''a.b''\<rparr>"
  have r: "RenderProtectedResourceAuthorization ?v = Inr (''Authorization'', ''Bearer a.b'')"
    by code_simp
  show ?thesis using parse_render_authorization [OF r] r by simp
qed

text \<open>
  A field value that parses gives an authorization that validates, so it renders again; what it
  renders to holds only visible ASCII characters and one space, so no control character of the
  presented field can reach a header written from it.
\<close>

theorem parsed_authorization_renders_clean:
  assumes "ParseProtectedResourceAuthorization f c = Inr v"
  shows "\<exists>header field. RenderProtectedResourceAuthorization v = Inr (header, field) \<and>
    header \<in> {''Authorization'', ''AEP-Authorization''} \<and>
    (\<forall>x \<in> set field. 0x20 \<le> byte x \<and> byte x \<le> 0x7e)"
proof -
  have val: "ValidateProtectedResourceAuthorization v = None" using Parse_valid [OF assms] by simp
  then have tok: "isCredentialToken (pra_Credentials v)" and sch: "isCredentialScheme (pra_Scheme v)"
    and car: "pra_Carrier v \<in> {[], ProtectedResourceStandard, ProtectedResourceDedicated}"
    by (auto simp: ValidateProtectedResourceAuthorization_None)
  have "\<forall>x \<in> set (pra_Scheme v @ '' '' @ pra_Credentials v). 0x20 \<le> byte x \<and> byte x \<le> 0x7e"
    using tok sch by (auto simp: isCredentialToken_iff isCredentialScheme_def)
  then show ?thesis using val car
    by (auto simp: RenderProtectedResourceAuthorization_def ProtectedResourceAuthorizationHeader_def)
qed

theorem parsed_authorization_renders_clean_witness:
  "\<exists>header field. RenderProtectedResourceAuthorization
      \<lparr>pra_Carrier = ''AEP-Authorization'', pra_Scheme = ''AEP'', pra_Credentials = ''x.y.z''\<rparr> =
        Inr (header, field) \<and>
    header \<in> {''Authorization'', ''AEP-Authorization''} \<and>
    (\<forall>x \<in> set field. 0x20 \<le> byte x \<and> byte x \<le> 0x7e)"
proof -
  have "ParseProtectedResourceAuthorization ''aeP   x.y.z '' ''AEP-Authorization'' =
      Inr \<lparr>pra_Carrier = ''AEP-Authorization'', pra_Scheme = ''AEP'', pra_Credentials = ''x.y.z''\<rparr>"
    by code_simp
  then show ?thesis by (rule parsed_authorization_renders_clean)
qed

end
