(* ===== verification/Urls.thy ===== *)
theory Urls
  imports Validation
begin

text \<open>
  What the code uses of the Go packages \<open>net/url\<close> and \<open>net/netip\<close> (Go 1.26): \<open>Parse\<close>,
  \<open>PathUnescape\<close>, \<open>String\<close>, \<open>ResolveReference\<close>, \<open>Hostname\<close> and address parsing, as total
  functions on bytes. A failed parse is \<open>None\<close>; the text of the library's errors is not modelled.
\<close>

section \<open>IP addresses\<close>

definition decimal_val :: "string \<Rightarrow> int" where
  "decimal_val s = foldl (\<lambda>acc c. acc * 10 + (byte c - 48)) 0 s"

definition ipv4_octet :: "string \<Rightarrow> bool" where
  "ipv4_octet s \<longleftrightarrow>
     s \<noteq> [] \<and> length s \<le> 3 \<and> list_all is_digit s \<and> (hd s = CHR ''0'' \<longrightarrow> length s = 1) \<and>
     decimal_val s \<le> 255"

definition valid_ipv4 :: "string \<Rightarrow> bool" where
  "valid_ipv4 s \<longleftrightarrow> (let parts = split_on CHR ''.'' s in length parts = 4 \<and> list_all ipv4_octet parts)"

text \<open>
  The loop of \<open>parseIPv6\<close> over the groups: \<open>i\<close> groups are filled and \<open>ell\<close> tells whether an
  ellipsis was seen. It returns the number of groups filled at the end of the string.
\<close>

fun ipv6_groups :: "nat \<Rightarrow> nat \<Rightarrow> bool \<Rightarrow> string \<Rightarrow> (nat \<times> bool) option" where
  "ipv6_groups 0 i ell s = (if s = [] then Some (i, ell) else None)"
| "ipv6_groups (Suc room) i ell s =
     (let hex = takeWhile is_hex s; rest = dropWhile is_hex s in
      if hex = [] \<or> 4 < length hex then None
      else case rest of
        [] \<Rightarrow> Some (Suc i, ell)
      | c # t \<Rightarrow>
          if c = CHR ''.'' then
            (if (\<not> ell \<and> i \<noteq> 6) \<or> 8 < i + 2 \<or> \<not> valid_ipv4 s then None else Some (i + 2, ell))
          else if c \<noteq> CHR '':'' \<or> t = [] then None
          else if hd t = CHR '':'' then
            (if ell then None
             else if tl t = [] then Some (Suc i, True)
             else ipv6_groups room (Suc i) True (tl t))
          else ipv6_groups room (Suc i) ell t)"

definition valid_ipv6_groups :: "string \<Rightarrow> bool" where
  "valid_ipv6_groups s \<longleftrightarrow>
     (let lead = has_prefix s ''::''; t = (if lead then drop 2 s else s) in
      if lead \<and> t = [] then True
      else case ipv6_groups 8 0 lead t of
        None \<Rightarrow> False
      | Some (n, ell) \<Rightarrow> (if n < 8 then ell else \<not> ell))"

text \<open>\<open>netip.ParseAddr\<close>: IPv4, IPv6 without a zone, IPv6 with a zone, or no address.\<close>

datatype ip_kind = IPv4 | IPv6 | IPv6Zone

definition parse_addr :: "string \<Rightarrow> ip_kind option" where
  "parse_addr s =
     (case dropWhile (\<lambda>c. c \<notin> set ''.:%'') s of
        [] \<Rightarrow> None
      | c # _ \<Rightarrow>
          if c = CHR ''.'' then (if valid_ipv4 s then Some IPv4 else None)
          else if c = CHR '':'' then
            (case cut_at CHR ''%'' s of (addr, zone, found) \<Rightarrow>
               if (found \<and> zone = []) \<or> \<not> valid_ipv6_groups addr then None
               else Some (if found then IPv6Zone else IPv6))
          else None)"

text \<open>\<open>net.ParseIP\<close> as a predicate: an address without a zone.\<close>

definition is_ip :: "string \<Rightarrow> bool" where
  "is_ip s \<longleftrightarrow> parse_addr s \<in> {Some IPv4, Some IPv6}"

lemmas ip_defs [go_defs] =
  decimal_val_def ipv4_octet_def valid_ipv4_def valid_ipv6_groups_def parse_addr_def is_ip_def

section \<open>Percent encoding\<close>

datatype encoding_mode =
  encodePath | encodePathSegment | encodeHost | encodeZone | encodeUserPassword
| encodeQueryComponent | encodeFragment

definition should_escape :: "char \<Rightarrow> encoding_mode \<Rightarrow> bool" where
  "should_escape c m =
     (if is_alnum c then False
      else if m \<in> {encodeHost, encodeZone} \<and> (c \<in> set ''!$&()*+,;=:[]<>'' \<or> byte c = 0x27 \<or> byte c = 0x22)
      then False
      else if c \<in> set ''-_.~'' then False
      else if c \<in> set ''$&+,/:;=?@'' then
        (case m of
           encodePath \<Rightarrow> c = CHR ''?''
         | encodePathSegment \<Rightarrow> c \<in> set ''/;,?''
         | encodeUserPassword \<Rightarrow> c \<in> set ''@/?:''
         | encodeQueryComponent \<Rightarrow> True
         | encodeFragment \<Rightarrow> False
         | _ \<Rightarrow> True)
      else if m = encodeFragment \<and> c \<in> set ''!()*'' then False
      else True)"

definition hex_val :: "char \<Rightarrow> int" where
  "hex_val c = (if is_digit c then byte c - 48 else if in_range 97 102 c then byte c - 87 else byte c - 55)"

definition hex_digit :: "int \<Rightarrow> char" where
  "hex_digit n = char_of (if n < 10 then 48 + n else 55 + n)"

fun unescape :: "encoding_mode \<Rightarrow> string \<Rightarrow> string option" where
  "unescape m [] = Some []"
| "unescape m (c # s) =
     (if c = CHR ''%'' then
        (case s of
           a # b # t \<Rightarrow>
             if \<not> is_hex a \<or> \<not> is_hex b then None
             else
               let v = char_of (hex_val a * 16 + hex_val b) in
               if m = encodeHost \<and> hex_val a < 8 \<and> [a, b] \<noteq> ''25'' then None
               else if m = encodeZone \<and> [a, b] \<noteq> ''25'' \<and> v \<noteq> CHR '' '' \<and> should_escape v encodeHost then None
               else map_option (Cons v) (unescape m t)
         | _ \<Rightarrow> None)
      else if m \<in> {encodeHost, encodeZone} \<and> byte c < 128 \<and> should_escape c m then None
      else map_option (Cons (if c = CHR ''+'' \<and> m = encodeQueryComponent then CHR '' '' else c)) (unescape m s))"

fun escape :: "encoding_mode \<Rightarrow> string \<Rightarrow> string" where
  "escape m [] = []"
| "escape m (c # s) =
     (if c = CHR '' '' \<and> m = encodeQueryComponent then CHR ''+'' # escape m s
      else if should_escape c m
      then CHR ''%'' # hex_digit (byte c div 16) # hex_digit (byte c mod 16) # escape m s
      else c # escape m s)"

definition PathUnescape :: "string \<Rightarrow> string option" where
  "PathUnescape s = unescape encodePathSegment s"

definition QueryEscape :: "string \<Rightarrow> string" where
  "QueryEscape s = escape encodeQueryComponent s"

fun valid_encoded :: "encoding_mode \<Rightarrow> string \<Rightarrow> bool" where
  "valid_encoded m [] \<longleftrightarrow> True"
| "valid_encoded m (c # s) \<longleftrightarrow>
     (c \<in> set ''!$&()*+,;=:@[]%'' \<or> byte c = 0x27 \<or> \<not> should_escape c m) \<and> valid_encoded m s"

lemmas encoding_defs [go_defs] =
  should_escape_def hex_val_def hex_digit_def PathUnescape_def QueryEscape_def

section \<open>URLs\<close>

record URL =
  url_Scheme :: string
  url_Opaque :: string
  url_User :: "(string \<times> string option) option"
  url_Host :: string
  url_Path :: string
  url_RawPath :: string
  url_OmitHost :: bool
  url_ForceQuery :: bool
  url_RawQuery :: string
  url_Fragment :: string
  url_RawFragment :: string

definition empty_url :: URL where
  "empty_url = \<lparr>url_Scheme = [], url_Opaque = [], url_User = None, url_Host = [], url_Path = [],
     url_RawPath = [], url_OmitHost = False, url_ForceQuery = False, url_RawQuery = [],
     url_Fragment = [], url_RawFragment = []\<rparr>"

definition has_ctl_byte :: "string \<Rightarrow> bool" where
  "has_ctl_byte s \<longleftrightarrow> list_ex (\<lambda>c. byte c < 32 \<or> byte c = 127) s"

definition scheme_char :: "char \<Rightarrow> bool" where
  "scheme_char c \<longleftrightarrow> is_lower c \<or> is_upper c \<or> is_digit c \<or> c \<in> set ''+-.''"

text \<open>\<open>getScheme\<close>: the scheme and the rest, or \<open>None\<close> for a missing protocol scheme.\<close>

definition get_scheme :: "string \<Rightarrow> (string \<times> string) option" where
  "get_scheme s =
     (let pre = takeWhile scheme_char s; rest = dropWhile scheme_char s in
      if s \<noteq> [] \<and> (is_digit (hd s) \<or> hd s \<in> set ''+-.'') then Some ([], s)
      else case rest of
        [] \<Rightarrow> Some ([], s)
      | c # t \<Rightarrow>
          if c \<noteq> CHR '':'' then Some ([], s)
          else if pre = [] then None
          else Some (pre, t))"

definition valid_optional_port :: "string \<Rightarrow> bool" where
  "valid_optional_port p \<longleftrightarrow> (case p of [] \<Rightarrow> True | c # t \<Rightarrow> c = CHR '':'' \<and> list_all is_digit t)"

definition last_index :: "char \<Rightarrow> string \<Rightarrow> nat option" where
  "last_index c s =
     (if c \<in> set s then Some (length s - 1 - length (takeWhile (\<lambda>x. x \<noteq> c) (rev s))) else None)"

fun find_sub :: "string \<Rightarrow> string \<Rightarrow> nat option" where
  "find_sub p [] = (if p = [] then Some 0 else None)"
| "find_sub p (c # s) = (if has_prefix (c # s) p then Some 0 else map_option Suc (find_sub p s))"

definition unescape_zoned :: "string \<Rightarrow> string option" where
  "unescape_zoned hostname =
     (case find_sub ''%25'' hostname of
        Some i \<Rightarrow>
          (case (unescape encodeHost (take i hostname), unescape encodeZone (drop i hostname)) of
             (Some h, Some z) \<Rightarrow> Some (h @ z)
           | _ \<Rightarrow> None)
      | None \<Rightarrow> unescape encodeHost hostname)"

text \<open>\<open>parseHost\<close>; a bracket that is not the first character is refused.\<close>

definition parse_host :: "string \<Rightarrow> string option" where
  "parse_host host =
     (case last_index CHR ''['' host of
        Some j \<Rightarrow>
          if j \<noteq> 0 then None
          else (case last_index CHR '']'' host of
            None \<Rightarrow> None
          | Some k \<Rightarrow>
              let colonPort = drop (Suc k) host in
              if \<not> valid_optional_port colonPort then None
              else (case (unescape encodeHost colonPort, unescape_zoned (drop 1 (take k host))) of
                (Some port, Some name) \<Rightarrow>
                  (case parse_addr name of
                     None \<Rightarrow> None
                   | Some IPv4 \<Rightarrow> None
                   | Some _ \<Rightarrow> Some (''['' @ name @ '']'' @ port))
              | _ \<Rightarrow> None))
      | None \<Rightarrow>
          if \<not> valid_optional_port (dropWhile (\<lambda>c. c \<noteq> CHR '':'') host) then None
          else unescape encodeHost host)"

definition valid_userinfo :: "string \<Rightarrow> bool" where
  "valid_userinfo s \<longleftrightarrow> list_all (\<lambda>c. is_alnum c \<or> c \<in> set ''-._:~!$&()*+,;=%@'' \<or> byte c = 0x27) s"

definition parse_authority :: "string \<Rightarrow> ((string \<times> string option) option \<times> string) option" where
  "parse_authority authority =
     (case last_index CHR ''@'' authority of
        None \<Rightarrow> map_option (Pair None) (parse_host authority)
      | Some i \<Rightarrow>
          (case parse_host (drop (Suc i) authority) of
             None \<Rightarrow> None
           | Some host \<Rightarrow>
               let userinfo = take i authority in
               if \<not> valid_userinfo userinfo then None
               else case cut_at CHR '':'' userinfo of (username, password, found) \<Rightarrow>
                 (case (unescape encodeUserPassword username, unescape encodeUserPassword password) of
                    (Some u, Some p) \<Rightarrow> Some (Some (u, if found then Some p else None), host)
                  | _ \<Rightarrow> None)))"

definition set_path :: "string \<Rightarrow> URL \<Rightarrow> URL option" where
  "set_path p u =
     (case unescape encodePath p of
        None \<Rightarrow> None
      | Some path \<Rightarrow>
          Some (u\<lparr>url_Path := path, url_RawPath := (if p = escape encodePath path then [] else p)\<rparr>))"

definition set_fragment :: "string \<Rightarrow> URL \<Rightarrow> URL option" where
  "set_fragment f u =
     (case unescape encodeFragment f of
        None \<Rightarrow> None
      | Some frag \<Rightarrow>
          Some (u\<lparr>url_Fragment := frag,
                   url_RawFragment := (if f = escape encodeFragment frag then [] else f)\<rparr>))"

definition count_char :: "char \<Rightarrow> string \<Rightarrow> nat" where
  "count_char c s = length (filter (\<lambda>x. x = c) s)"

text \<open>The part of \<open>parse\<close> after the scheme and the query are split off.\<close>

definition parse_rest :: "string \<Rightarrow> URL \<Rightarrow> URL option" where
  "parse_rest rest u =
     (if \<not> has_prefix rest ''/'' \<and> url_Scheme u \<noteq> [] then Some (u\<lparr>url_Opaque := rest\<rparr>)
      else if \<not> has_prefix rest ''/'' \<and> CHR '':'' \<in> set (before CHR ''/'' rest) then None
      else if (url_Scheme u \<noteq> [] \<or> \<not> has_prefix rest ''///'') \<and> has_prefix rest ''//'' then
        (let authority = takeWhile (\<lambda>c. c \<noteq> CHR ''/'') (drop 2 rest);
             path = dropWhile (\<lambda>c. c \<noteq> CHR ''/'') (drop 2 rest) in
         case parse_authority authority of
           None \<Rightarrow> None
         | Some (user, host) \<Rightarrow> set_path path (u\<lparr>url_User := user, url_Host := host\<rparr>))
      else set_path rest (u\<lparr>url_OmitHost := url_Scheme u \<noteq> [] \<and> has_prefix rest ''/''\<rparr>))"

definition parse_no_fragment :: "string \<Rightarrow> URL option" where
  "parse_no_fragment raw =
     (if has_ctl_byte raw then None
      else if raw = ''*'' then Some (empty_url\<lparr>url_Path := ''*''\<rparr>)
      else case get_scheme raw of
        None \<Rightarrow> None
      | Some (scheme, rest) \<Rightarrow>
          if has_suffix rest ''?'' \<and> count_char CHR ''?'' rest = 1
          then parse_rest (butlast rest) (empty_url\<lparr>url_Scheme := to_lower scheme, url_ForceQuery := True\<rparr>)
          else case cut_at CHR ''?'' rest of (path, query, _) \<Rightarrow>
            parse_rest path (empty_url\<lparr>url_Scheme := to_lower scheme, url_RawQuery := query\<rparr>))"

definition url_Parse :: "string \<Rightarrow> URL option" where
  "url_Parse raw =
     (case cut_at CHR ''#'' raw of (u, frag, _) \<Rightarrow>
        (case parse_no_fragment u of
           None \<Rightarrow> None
         | Some url \<Rightarrow> if frag = [] then Some url else set_fragment frag url))"

definition url_IsAbs :: "URL \<Rightarrow> bool" where
  "url_IsAbs u \<longleftrightarrow> url_Scheme u \<noteq> []"

definition url_Hostname :: "URL \<Rightarrow> string" where
  "url_Hostname u =
     (let hostPort = url_Host u;
          host = (case last_index CHR '':'' hostPort of
                    Some i \<Rightarrow> if valid_optional_port (drop i hostPort) then take i hostPort else hostPort
                  | None \<Rightarrow> hostPort) in
      if has_prefix host ''['' \<and> has_suffix host '']'' then take (length host - 2) (drop 1 host) else host)"

section \<open>Writing and resolving\<close>

definition url_EscapedPath :: "URL \<Rightarrow> string" where
  "url_EscapedPath u =
     (if url_RawPath u \<noteq> [] \<and> valid_encoded encodePath (url_RawPath u) \<and>
         unescape encodePath (url_RawPath u) = Some (url_Path u)
      then url_RawPath u
      else if url_Path u = ''*'' then ''*'' else escape encodePath (url_Path u))"

definition url_EscapedFragment :: "URL \<Rightarrow> string" where
  "url_EscapedFragment u =
     (if url_RawFragment u \<noteq> [] \<and> valid_encoded encodeFragment (url_RawFragment u) \<and>
         unescape encodeFragment (url_RawFragment u) = Some (url_Fragment u)
      then url_RawFragment u else escape encodeFragment (url_Fragment u))"

definition url_String :: "URL \<Rightarrow> string" where
  "url_String u =
     (let scheme = (if url_Scheme u \<noteq> [] then url_Scheme u @ '':'' else []);
          path = url_EscapedPath u;
          authority =
            (if (url_Scheme u \<noteq> [] \<or> url_Host u \<noteq> [] \<or> url_User u \<noteq> None) \<and>
                \<not> (url_OmitHost u \<and> url_Host u = [] \<and> url_User u = None)
             then (if url_Host u \<noteq> [] \<or> url_Path u \<noteq> [] \<or> url_User u \<noteq> None then ''//'' else []) @
                  (case url_User u of
                     None \<Rightarrow> []
                   | Some (name, pw) \<Rightarrow>
                       escape encodeUserPassword name @
                       (case pw of None \<Rightarrow> [] | Some p \<Rightarrow> '':'' @ escape encodeUserPassword p) @ ''@'') @
                  escape encodeHost (url_Host u)
             else []);
          slash = (if path \<noteq> [] \<and> hd path \<noteq> CHR ''/'' \<and> url_Host u \<noteq> [] then ''/'' else []);
          dot = (if scheme @ authority @ slash = [] \<and> CHR '':'' \<in> set (before CHR ''/'' path) then ''./'' else []);
          body = (if url_Opaque u \<noteq> [] then scheme @ url_Opaque u
                  else scheme @ authority @ slash @ dot @ path);
          query = (if url_ForceQuery u \<or> url_RawQuery u \<noteq> [] then ''?'' @ url_RawQuery u else []);
          frag = (if url_Fragment u \<noteq> [] then ''#'' @ url_EscapedFragment u else [])
      in body @ query @ frag)"

text \<open>
  The segment loop of \<open>resolvePath\<close>: the output after its leading slash, whether the next element
  is the first, and the elements left.
\<close>

fun resolve_elems :: "string \<Rightarrow> bool \<Rightarrow> string list \<Rightarrow> string" where
  "resolve_elems dst first [] = CHR ''/'' # dst"
| "resolve_elems dst first (elem # es) =
     (if elem = ''.'' then resolve_elems dst False es
      else if elem = ''..'' then
        (case last_index CHR ''/'' dst of
           None \<Rightarrow> resolve_elems [] True es
         | Some i \<Rightarrow> resolve_elems (take i dst) first es)
      else resolve_elems (dst @ (if first then [] else ''/'') @ elem) False es)"

definition resolve_path :: "string \<Rightarrow> string \<Rightarrow> string" where
  "resolve_path base ref =
     (let full = (if ref = [] then base
                  else if hd ref \<noteq> CHR ''/'' then
                    (case last_index CHR ''/'' base of None \<Rightarrow> [] | Some i \<Rightarrow> take (Suc i) base) @ ref
                  else ref) in
      if full = [] then []
      else
        let elems = split_on CHR ''/'' full;
            out = resolve_elems [] True elems;
            r = (if last elems \<in> {''.'', ''..''} then out @ ''/'' else out)
        in if has_prefix r ''//'' then drop 1 r else r)"

text \<open>\<open>setPath\<close> with its error ignored, as \<open>ResolveReference\<close> calls it: a failure leaves the URL.\<close>

definition set_path_ignore :: "string \<Rightarrow> URL \<Rightarrow> URL" where
  "set_path_ignore p u = (case set_path p u of Some u' \<Rightarrow> u' | None \<Rightarrow> u)"

definition url_ResolveReference :: "URL \<Rightarrow> URL \<Rightarrow> URL" where
  "url_ResolveReference u ref =
     (let url = ref\<lparr>url_Scheme := (if url_Scheme ref = [] then url_Scheme u else url_Scheme ref)\<rparr> in
      if url_Scheme ref \<noteq> [] \<or> url_Host ref \<noteq> [] \<or> url_User ref \<noteq> None then
        set_path_ignore (resolve_path (url_EscapedPath ref) []) url
      else if url_Opaque ref \<noteq> [] then url\<lparr>url_User := None, url_Host := [], url_Path := []\<rparr>
      else
        let same = url_Path ref = [] \<and> \<not> url_ForceQuery ref \<and> url_RawQuery ref = [];
            url1 = (if same then url\<lparr>url_RawQuery := url_RawQuery u\<rparr> else url);
            url2 = (if same \<and> url_Fragment ref = []
                    then url1\<lparr>url_Fragment := url_Fragment u, url_RawFragment := url_RawFragment u\<rparr>
                    else url1) in
        if url_Path ref = [] \<and> url_Opaque u \<noteq> [] then
          url2\<lparr>url_Opaque := url_Opaque u, url_User := None, url_Host := [], url_Path := []\<rparr>
        else
          set_path_ignore (resolve_path (url_EscapedPath u) (url_EscapedPath ref))
            (url2\<lparr>url_Host := url_Host u, url_User := url_User u\<rparr>))"

lemmas url_defs [go_defs] =
  empty_url_def has_ctl_byte_def scheme_char_def get_scheme_def valid_optional_port_def last_index_def
  unescape_zoned_def parse_host_def valid_userinfo_def parse_authority_def set_path_def
  set_fragment_def count_char_def parse_rest_def parse_no_fragment_def url_Parse_def url_IsAbs_def
  url_Hostname_def url_EscapedPath_def url_EscapedFragment_def url_String_def resolve_path_def
  set_path_ignore_def url_ResolveReference_def

end
