(* ===== verification/Openapi.thy ===== *)
theory Openapi
  imports Urls "HOL-Library.Char_ord" "HOL-Library.List_Lexorder"
begin

text \<open>
  \<open>openapi.go\<close>: choosing the documented path template of a request, and resolving the OpenAPI URL
  of an Inspect document. Go compares strings bytewise, which is the order of lists of characters
  here. \<open>MatchOpenAPIPath\<close> upper-cases an ASCII method.
\<close>

record OpenAPIPathMatchOptions =
  opmo_Method :: string
  opmo_Path :: string
  opmo_TrailingSlash :: string

record OpenAPIPathMatch =
  opm_Method :: string
  opm_Template :: string

definition openAPIPathSegments :: "string \<Rightarrow> string \<Rightarrow> string list" where
  "openAPIPathSegments path trailingSlash =
     (let path = (if trailingSlash = ''equivalent'' \<and> path \<noteq> ''/'' then trim_suffix path ''/'' else path)
      in split_on CHR ''/'' (trim_prefix path ''/''))"

definition isTemplateSegment :: "string \<Rightarrow> bool" where
  "isTemplateSegment segment \<longleftrightarrow>
     has_prefix segment ''{'' \<and> has_suffix segment ''}'' \<and> 2 < length segment"

text \<open>The inner loop: the specificity of a template that matches the request's segments.\<close>

fun matchSegments :: "string list \<Rightarrow> string list \<Rightarrow> string option" where
  "matchSegments [] [] = Some []"
| "matchSegments (segment # ts) (requested # rs) =
     (if isTemplateSegment segment then
        (if requested = [] then None else map_option (Cons CHR ''0'') (matchSegments ts rs))
      else if segment \<noteq> requested then None
      else map_option (Cons CHR ''1'') (matchSegments ts rs))"
| "matchSegments _ _ = None"

text \<open>The outer loop keeps the best template, its specificity and whether it is ambiguous.\<close>

definition matchStep ::
  "string \<Rightarrow> string list \<Rightarrow> string \<times> string \<times> bool \<Rightarrow> string \<Rightarrow> string \<times> string \<times> bool" where
  "matchStep trailingSlash requestSegments st template =
     (case st of (best, bestSpecificity, ambiguous) \<Rightarrow>
        (case matchSegments (openAPIPathSegments template trailingSlash) requestSegments of
           None \<Rightarrow> (best, bestSpecificity, ambiguous)
         | Some score \<Rightarrow>
             if best = [] \<or> bestSpecificity < score then (template, score, False)
             else if score = bestSpecificity then (best, bestSpecificity, True)
             else (best, bestSpecificity, ambiguous)))"

definition MatchOpenAPIPath :: "string list \<Rightarrow> OpenAPIPathMatchOptions \<Rightarrow> OpenAPIPathMatch result" where
  "MatchOpenAPIPath templates options =
     (let mthd = to_upper (opmo_Method options) in
      if mthd = [] \<or> opmo_Path options = [] \<or> contains_str (opmo_Path options) ''?'' then
        Inl (Text ''invalid OpenAPI operation target'')
      else if opmo_TrailingSlash options \<noteq> ''strict'' \<and> opmo_TrailingSlash options \<noteq> ''equivalent'' then
        Inl (Text ''invalid OpenAPI trailing-slash policy'')
      else
        let requestSegments = openAPIPathSegments (opmo_Path options) (opmo_TrailingSlash options) in
        case foldl (matchStep (opmo_TrailingSlash options) requestSegments) ([], [], False) templates of
          (best, bestSpecificity, ambiguous) \<Rightarrow>
            if best = [] then Inl (Text ''OpenAPI operation is not documented'')
            else if ambiguous then Inl (Text ''ambiguous OpenAPI path templates'')
            else Inr \<lparr>opm_Method = mthd, opm_Template = best\<rparr>)"

definition openAPILoopbackHost :: "string \<Rightarrow> bool" where
  "openAPILoopbackHost host \<longleftrightarrow> host = ''localhost'' \<or> host = ''127.0.0.1'' \<or> host = ''::1''"

definition ResolveOpenAPIURL :: "string \<Rightarrow> string \<Rightarrow> bool \<Rightarrow> URL result" where
  "ResolveOpenAPIURL finalInspectURL reference allowInsecureLoopback =
     (case url_Parse finalInspectURL of
        None \<Rightarrow> Inl (Text ''invalid final AEP Inspect URL'')
      | Some base \<Rightarrow>
          if url_Host base = [] \<or> url_User base \<noteq> None \<or>
             (url_Scheme base \<noteq> ''https'' \<and>
              \<not> (allowInsecureLoopback \<and> url_Scheme base = ''http'' \<and> openAPILoopbackHost (url_Hostname base)))
          then Inl (Text ''invalid final AEP Inspect URL'')
          else
            (case url_Parse reference of
               None \<Rightarrow> Inl (Text ''invalid AEP OpenAPI URL'')
             | Some referenceURL \<Rightarrow>
                 let resolved = url_ResolveReference base referenceURL in
                 if url_User resolved \<noteq> None \<or> url_Fragment resolved \<noteq> [] \<or> url_Host resolved = [] then
                   Inl (Text ''invalid AEP OpenAPI URL'')
                 else if url_Scheme resolved \<noteq> ''https'' \<and>
                   \<not> (allowInsecureLoopback \<and> url_Scheme resolved = ''http'' \<and>
                       openAPILoopbackHost (url_Hostname resolved)) then
                   Inl (Text ''AEP OpenAPI URL requires HTTPS'')
                 else Inr resolved))"

lemmas openapi_defs [go_defs] =
  openAPIPathSegments_def isTemplateSegment_def matchStep_def MatchOpenAPIPath_def
  openAPILoopbackHost_def ResolveOpenAPIURL_def

section \<open>The most specific template\<close>

text \<open>The templates that match, in order, each with its specificity; and the best of them.\<close>

fun scored :: "string \<Rightarrow> string list \<Rightarrow> string list \<Rightarrow> (string \<times> string) list" where
  "scored slash rs [] = []"
| "scored slash rs (t # ts) =
     (case matchSegments (openAPIPathSegments t slash) rs of
        None \<Rightarrow> scored slash rs ts | Some s \<Rightarrow> (t, s) # scored slash rs ts)"

definition best_of :: "(string \<times> string) list \<Rightarrow> (string \<times> string) list" where
  "best_of ms = filter (\<lambda>(t, s). \<forall>(t', s') \<in> set ms. s' \<le> s) ms"

definition loop_state :: "(string \<times> string) list \<Rightarrow> string \<times> string \<times> bool" where
  "loop_state ms =
     (case best_of ms of [] \<Rightarrow> ([], [], False) | (t, s) # others \<Rightarrow> (t, s, others \<noteq> []))"

lemma scored_append: "scored slash rs (ts @ us) = scored slash rs ts @ scored slash rs us"
  by (induction ts) (auto split: option.splits)

lemma scored_template: "(t, s) \<in> set (scored slash rs ts) \<Longrightarrow> t \<in> set ts"
  by (induction ts) (auto split: option.splits)

lemma best_of_subset: "set (best_of ms) \<subseteq> set ms"
  by (auto simp: best_of_def)

lemma best_of_scores: "(t, s) \<in> set (best_of ms) \<Longrightarrow> (t', s') \<in> set ms \<Longrightarrow> s' \<le> s"
  by (auto simp: best_of_def)

lemma best_of_Nil: "best_of ms = [] \<longleftrightarrow> ms = []"
proof
  assume empty: "best_of ms = []"
  show "ms = []"
  proof (rule ccontr)
    assume "ms \<noteq> []"
    then have "finite (snd ` set ms)" "snd ` set ms \<noteq> {}" by auto
    then have "Max (snd ` set ms) \<in> snd ` set ms" by (rule Max_in)
    then obtain t where "(t, Max (snd ` set ms)) \<in> set ms" by auto
    then have "(t, Max (snd ` set ms)) \<in> set (best_of ms)"
      unfolding best_of_def by (force intro: Max_ge)
    with empty show False by simp
  qed
qed (simp add: best_of_def)

lemma best_of_snoc:
  assumes "best_of ms = (t, s) # others"
  shows "best_of (ms @ [(t', s')]) =
    (if s < s' then [(t', s')] else if s' = s then (t, s) # others @ [(t', s')] else (t, s) # others)"
proof -
  have in_ms: "(t, s) \<in> set (best_of ms)" using assms by simp
  have le: "\<forall>(u, v) \<in> set ms. v \<le> s" using best_of_scores [OF in_ms] by auto
  have mem: "(t, s) \<in> set ms" using in_ms best_of_subset by blast
  show ?thesis
  proof (cases "s < s'")
    case True
    have "filter (\<lambda>(u, v). \<forall>(u', v') \<in> set (ms @ [(t', s')]). v' \<le> v) ms = []"
      using le True by (force simp: filter_empty_conv)
    moreover have "\<forall>(u', v') \<in> set (ms @ [(t', s')]). v' \<le> s'" using le True by force
    ultimately show ?thesis using True by (simp add: best_of_def)
  next
    case False
    have "filter (\<lambda>(u, v). \<forall>(u', v') \<in> set (ms @ [(t', s')]). v' \<le> v) ms = best_of ms"
      unfolding best_of_def using le mem False by (intro filter_cong) force+
    moreover have "(\<forall>(u', v') \<in> set (ms @ [(t', s')]). v' \<le> s') \<longleftrightarrow> s' = s"
      using le mem False by force
    ultimately show ?thesis using assms False by (simp add: best_of_def)
  qed
qed

lemma matchStep_apply:
  "matchStep slash rs (best, spec, ambiguous) t =
     (case matchSegments (openAPIPathSegments t slash) rs of
        None \<Rightarrow> (best, spec, ambiguous)
      | Some score \<Rightarrow>
          if best = [] \<or> spec < score then (t, score, False)
          else if score = spec then (best, spec, True)
          else (best, spec, ambiguous))"
  by (simp add: matchStep_def)

lemma match_loop:
  assumes "[] \<notin> set templates"
  shows "foldl (matchStep slash rs) ([], [], False) templates = loop_state (scored slash rs templates)"
  using assms
proof (induction templates rule: rev_induct)
  case Nil
  then show ?case by (simp add: loop_state_def best_of_def)
next
  case (snoc x xs)
  let ?ms = "scored slash rs xs"
  have IH: "foldl (matchStep slash rs) ([], [], False) xs = loop_state ?ms" using snoc by simp
  show ?case
  proof (cases "matchSegments (openAPIPathSegments x slash) rs")
    case None
    then have "matchStep slash rs st x = st" for st
      by (cases st) (simp add: matchStep_def)
    with None show ?thesis by (simp add: IH scored_append)
  next
    case (Some score)
    show ?thesis
    proof (cases "best_of ?ms")
      case Nil
      then have "?ms = []" by (simp add: best_of_Nil)
      then show ?thesis using Some
        by (simp add: IH scored_append matchStep_apply loop_state_def best_of_def)
    next
      case (Cons ts others)
      obtain t s where ts: "ts = (t, s)" by (cases ts)
      have "(t, s) \<in> set ?ms" using Cons ts best_of_subset [of ?ms] by auto
      then have "t \<noteq> []" using scored_template snoc.prems by fastforce
      then show ?thesis using Some Cons ts best_of_snoc [of ?ms t s others x score]
        by (auto simp: IH scored_append matchStep_apply loop_state_def)
    qed
  qed
qed

section \<open>Properties\<close>

text \<open>
  C20. With valid options and no empty template, matching returns the documented template that is
  strictly the most specific of those that match: an error when none matches, an ambiguity when
  two share the highest specificity, and otherwise the one.
\<close>

theorem match_most_specific:
  assumes "[] \<notin> set templates" and "opmo_Method options \<noteq> []"
    and "opmo_Path options \<noteq> []" and "CHR ''?'' \<notin> set (opmo_Path options)"
    and "opmo_TrailingSlash options \<in> {''strict'', ''equivalent''}"
  shows "MatchOpenAPIPath templates options =
    (let slash = opmo_TrailingSlash options;
         ms = scored slash (openAPIPathSegments (opmo_Path options) slash) templates in
     case best_of ms of
       [] \<Rightarrow> Inl (Text ''OpenAPI operation is not documented'')
     | [(t, s)] \<Rightarrow> Inr \<lparr>opm_Method = to_upper (opmo_Method options), opm_Template = t\<rparr>
     | _ \<Rightarrow> Inl (Text ''ambiguous OpenAPI path templates''))"
proof -
  let ?slash = "opmo_TrailingSlash options"
  let ?rs = "openAPIPathSegments (opmo_Path options) ?slash"
  let ?ms = "scored ?slash ?rs templates"
  have valid: "\<not> (to_upper (opmo_Method options) = [] \<or> opmo_Path options = [] \<or>
      contains_str (opmo_Path options) ''?'')"
    using assms(2-4) by (simp add: to_upper_def contains_str_single)
  have slash: "\<not> (?slash \<noteq> ''strict'' \<and> ?slash \<noteq> ''equivalent'')" using assms(5) by auto
  have empty: "t \<noteq> []" if "(t, s) \<in> set (best_of ?ms)" for t s
    using that best_of_subset scored_template assms(1) by (metis subsetD)
  have "MatchOpenAPIPath templates options =
      (case loop_state ?ms of (best, bestSpecificity, ambiguous) \<Rightarrow>
        if best = [] then Inl (Text ''OpenAPI operation is not documented'')
        else if ambiguous then Inl (Text ''ambiguous OpenAPI path templates'')
        else Inr \<lparr>opm_Method = to_upper (opmo_Method options), opm_Template = best\<rparr>)"
    unfolding MatchOpenAPIPath_def Let_def if_not_P [OF valid] if_not_P [OF slash]
      match_loop [OF assms(1)] by (rule refl)
  also have "\<dots> = (case best_of ?ms of
       [] \<Rightarrow> Inl (Text ''OpenAPI operation is not documented'')
     | [(t, s)] \<Rightarrow> Inr \<lparr>opm_Method = to_upper (opmo_Method options), opm_Template = t\<rparr>
     | _ \<Rightarrow> Inl (Text ''ambiguous OpenAPI path templates''))"
  proof (cases "best_of ?ms")
    case (Cons p ps)
    obtain t s where p: "p = (t, s)" by (cases p)
    have "t \<noteq> []" using empty [of t s] Cons p by simp
    then show ?thesis using Cons p by (cases ps) (auto simp: loop_state_def)
  qed (simp add: loop_state_def)
  finally show ?thesis by (simp add: Let_def)
qed

theorem match_most_specific_witness:
  "MatchOpenAPIPath [''/a/{id}'', ''/{x}/b'', ''/c'']
     \<lparr>opmo_Method = ''get'', opmo_Path = ''/a/b'', opmo_TrailingSlash = ''strict''\<rparr> =
   Inr \<lparr>opm_Method = ''GET'', opm_Template = ''/a/{id}''\<rparr>"
proof -
  let ?o = "\<lparr>opmo_Method = ''get'', opmo_Path = ''/a/b'', opmo_TrailingSlash = ''strict''\<rparr>"
  have b: "best_of (scored ''strict'' (openAPIPathSegments ''/a/b'' ''strict'') [''/a/{id}'', ''/{x}/b'', ''/c'']) =
      [(''/a/{id}'', ''10'')]" by code_simp
  have u: "to_upper ''get'' = ''GET''" by code_simp
  show ?thesis
    using match_most_specific [of "[''/a/{id}'', ''/{x}/b'', ''/c'']" ?o]
    by (simp add: Let_def b u del: scored.simps)
qed

text \<open>
  A resolved OpenAPI URL is https with a host, no user information and no fragment; http is
  only accepted to a loopback host, and only when the caller allowed it.
\<close>

theorem resolved_openapi_url_is_safe:
  assumes "ResolveOpenAPIURL inspect ref allow = Inr u"
  shows "url_Host u \<noteq> [] \<and> url_User u = None \<and> url_Fragment u = [] \<and>
    (url_Scheme u = ''https'' \<or>
     (allow \<and> url_Scheme u = ''http'' \<and> url_Hostname u \<in> {''localhost'', ''127.0.0.1'', ''::1''}))"
proof -
  obtain base r where "u = url_ResolveReference base r"
    and "\<not> (url_User u \<noteq> None \<or> url_Fragment u \<noteq> [] \<or> url_Host u = [])"
    and "\<not> (url_Scheme u \<noteq> ''https'' \<and>
      \<not> (allow \<and> url_Scheme u = ''http'' \<and> openAPILoopbackHost (url_Hostname u)))"
    using assms unfolding ResolveOpenAPIURL_def Let_def
    by (simp only: split: option.split_asm if_split_asm sum.split_asm) (simp_all, blast?)
  then show ?thesis unfolding openAPILoopbackHost_def by blast
qed

theorem resolved_openapi_url_is_safe_witness:
  "\<exists>u. ResolveOpenAPIURL ''https://s.example/.well-known/aep'' ''/openapi.json'' False = Inr u \<and>
    url_Host u \<noteq> [] \<and> url_User u = None \<and> url_Fragment u = [] \<and>
    (url_Scheme u = ''https'' \<or>
     (False \<and> url_Scheme u = ''http'' \<and> url_Hostname u \<in> {''localhost'', ''127.0.0.1'', ''::1''}))"
proof -
  have "case ResolveOpenAPIURL ''https://s.example/.well-known/aep'' ''/openapi.json'' False of
      Inr _ \<Rightarrow> True | Inl _ \<Rightarrow> False"
    by code_simp
  then have "\<exists>u. ResolveOpenAPIURL ''https://s.example/.well-known/aep'' ''/openapi.json'' False = Inr u"
    by (simp split: sum.splits)
  then show ?thesis using resolved_openapi_url_is_safe by blast
qed

end
