(* ===== verification/Json.thy ===== *)
theory Json
  imports Validation "HOL-Library.Char_ord" "HOL-Library.List_Lexorder"
begin

text \<open>
  What the code uses of \<open>encoding/json\<close>: the grammar with Go's nesting limit, raw messages as the
  exact text of a value, decoding into Go types (null leaves a value as it is or sets a pointer,
  slice or map to nil; a member is matched to a field by name, ignoring case; a later duplicate
  overrides), and the encoder with its HTML escapes and sorted map keys. The text of the library's
  errors is not modelled. A repeated array member with null elements may show stale elements of
  the slice's spare capacity in Go; here they start from the elements still in the slice.
\<close>

datatype json =
  JNull
| JBool bool
| JNum string
| JStr string
| JArr "json list"
| JObj "(string \<times> json) list"

section \<open>Scanning\<close>

definition is_ws :: "char \<Rightarrow> bool" where
  "is_ws c \<longleftrightarrow> byte c = 32 \<or> byte c = 9 \<or> byte c = 10 \<or> byte c = 13"

definition skip_ws :: "string \<Rightarrow> string" where
  "skip_ws s = dropWhile is_ws s"

definition hex_nat :: "char \<Rightarrow> int" where
  "hex_nat c = (if is_digit c then byte c - 48 else if in_range 97 102 c then byte c - 87 else byte c - 55)"

definition hex4 :: "char \<Rightarrow> char \<Rightarrow> char \<Rightarrow> char \<Rightarrow> int" where
  "hex4 a b c d = ((hex_nat a * 16 + hex_nat b) * 16 + hex_nat c) * 16 + hex_nat d"

text \<open>UTF-8 of a code point, and the replacement character.\<close>

definition utf8_encode :: "int \<Rightarrow> string" where
  "utf8_encode r =
     (if r < 0x80 then [char_of r]
      else if r < 0x800 then [char_of (192 + r div 64), char_of (128 + r mod 64)]
      else if r < 0x10000 then
        [char_of (224 + r div 4096), char_of (128 + r div 64 mod 64), char_of (128 + r mod 64)]
      else [char_of (240 + r div 262144), char_of (128 + r div 4096 mod 64),
            char_of (128 + r div 64 mod 64), char_of (128 + r mod 64)])"

definition replacement :: string where
  "replacement = [CHR 0xEF, CHR 0xBF, CHR 0xBD]"

definition surrogate :: "int \<Rightarrow> bool" where
  "surrogate r \<longleftrightarrow> 0xD800 \<le> r \<and> r < 0xE000"

definition simple_escape :: "char \<Rightarrow> char option" where
  "simple_escape e =
     (if byte e = 0x22 \<or> byte e = 0x5C \<or> e = CHR ''/'' then Some e
      else if e = CHR ''b'' then Some (CHR 0x08)
      else if e = CHR ''f'' then Some (CHR 0x0C)
      else if e = CHR ''n'' then Some (CHR 0x0A)
      else if e = CHR ''r'' then Some (CHR 0x0D)
      else if e = CHR ''t'' then Some (CHR 0x09)
      else None)"

text \<open>
  A string literal after its opening quote: its decoded bytes and the rest. The first argument
  counts the continuation bytes still to copy of a valid multi-byte sequence.
\<close>

fun p_string :: "nat \<Rightarrow> string \<Rightarrow> (string \<times> string) option" where
  "p_string k [] = None"
| "p_string (Suc k) (c # s) = map_option (apfst (Cons c)) (p_string k s)"
| "p_string 0 (c # s) =
     (if byte c = 0x22 then Some ([], s)
      else if byte c < 32 then None
      else if byte c = 0x5C then
        (case s of
           [] \<Rightarrow> None
         | e # t \<Rightarrow>
             if e = CHR ''u'' then
               (case t of
                  h1 # h2 # h3 # h4 # t' \<Rightarrow>
                    if \<not> (is_hex h1 \<and> is_hex h2 \<and> is_hex h3 \<and> is_hex h4) then None
                    else
                      let r = hex4 h1 h2 h3 h4 in
                      if \<not> surrogate r then map_option (apfst ((@) (utf8_encode r))) (p_string 0 t')
                      else
                        (case t' of
                           b # u # g1 # g2 # g3 # g4 # t'' \<Rightarrow>
                             if byte b = 0x5C \<and> u = CHR ''u'' \<and> is_hex g1 \<and> is_hex g2 \<and> is_hex g3 \<and>
                                is_hex g4 \<and> r < 0xDC00 \<and> 0xDC00 \<le> hex4 g1 g2 g3 g4 \<and> hex4 g1 g2 g3 g4 < 0xE000
                             then map_option
                               (apfst ((@) (utf8_encode (0x10000 + (r - 0xD800) * 1024 + (hex4 g1 g2 g3 g4 - 0xDC00)))))
                               (p_string 0 t'')
                             else map_option (apfst ((@) replacement)) (p_string 0 t')
                         | _ \<Rightarrow> map_option (apfst ((@) replacement)) (p_string 0 t'))
                | _ \<Rightarrow> None)
             else
               (case simple_escape e of
                  None \<Rightarrow> None
                | Some x \<Rightarrow> map_option (apfst (Cons x)) (p_string 0 t)))
      else
        (case utf8_len (c # s) of
           0 \<Rightarrow> map_option (apfst ((@) replacement)) (p_string 0 s)
         | Suc k \<Rightarrow> map_option (apfst (Cons c)) (p_string k s)))"

text \<open>A number literal and the rest.\<close>

definition p_digits :: "string \<Rightarrow> (string \<times> string) option" where
  "p_digits s = (case takeWhile is_digit s of [] \<Rightarrow> None | ds \<Rightarrow> Some (ds, dropWhile is_digit s))"

definition p_number :: "string \<Rightarrow> (string \<times> string) option" where
  "p_number s =
     (let neg = has_prefix s ''-''; s1 = (if neg then drop 1 s else s) in
      case (if has_prefix s1 ''0'' then Some (''0'', drop 1 s1) else p_digits s1) of
        None \<Rightarrow> None
      | Some (whole, s2) \<Rightarrow>
          (case (if has_prefix s2 ''.'' then map_option (apfst (Cons CHR ''.'')) (p_digits (drop 1 s2))
                 else Some ([], s2)) of
             None \<Rightarrow> None
           | Some (frac, s3) \<Rightarrow>
               (case (if has_prefix s3 ''e'' \<or> has_prefix s3 ''E'' then
                        (let s4 = drop 1 s3;
                             sign = (if has_prefix s4 ''+'' \<or> has_prefix s4 ''-'' then take 1 s4 else []) in
                         map_option (apfst ((@) (take 1 s3 @ sign))) (p_digits (drop (length sign) s4)))
                      else Some ([], s3)) of
                  None \<Rightarrow> None
                | Some (expo, s5) \<Rightarrow> Some ((if neg then ''-'' else []) @ whole @ frac @ expo, s5))))"

text \<open>
  A value, the elements of an array after its bracket, and the members of an object after its
  brace. The first argument is fuel, the second the containers that may still be opened. An element
  and a member come with their exact text.
\<close>

abbreviation span :: "string \<Rightarrow> string \<Rightarrow> string" where
  "span s rest \<equiv> take (length s - length rest) s"

fun p_value :: "nat \<Rightarrow> int \<Rightarrow> string \<Rightarrow> (json \<times> string) option"
  and p_elems :: "nat \<Rightarrow> int \<Rightarrow> string \<Rightarrow> ((json \<times> string) list \<times> string) option"
  and p_members :: "nat \<Rightarrow> int \<Rightarrow> string \<Rightarrow> ((string \<times> json \<times> string) list \<times> string) option"
where
  "p_value 0 d s = None"
| "p_value (Suc n) d [] = None"
| "p_value (Suc n) d (c # s) =
     (if byte c = 0x22 then map_option (apfst JStr) (p_string 0 s)
      else if c = CHR ''{'' then
        (if d \<le> 0 then None
         else if has_prefix (skip_ws s) ''}'' then Some (JObj [], drop 1 (skip_ws s))
         else map_option (apfst (\<lambda>ms. JObj (map (\<lambda>(k, v, raw). (k, v)) ms))) (p_members n (d - 1) (skip_ws s)))
      else if c = CHR ''['' then
        (if d \<le> 0 then None
         else if has_prefix (skip_ws s) '']'' then Some (JArr [], drop 1 (skip_ws s))
         else map_option (apfst (\<lambda>es. JArr (map fst es))) (p_elems n (d - 1) (skip_ws s)))
      else if c = CHR ''-'' \<or> is_digit c then map_option (apfst JNum) (p_number (c # s))
      else if has_prefix (c # s) ''true'' then Some (JBool True, drop 3 s)
      else if has_prefix (c # s) ''false'' then Some (JBool False, drop 4 s)
      else if has_prefix (c # s) ''null'' then Some (JNull, drop 3 s)
      else None)"
| "p_elems 0 d s = None"
| "p_elems (Suc n) d s =
     (case p_value n d s of
        None \<Rightarrow> None
      | Some (v, rest) \<Rightarrow>
          (case skip_ws rest of
             [] \<Rightarrow> None
           | c # t \<Rightarrow>
               if c = CHR '']'' then Some ([(v, span s rest)], t)
               else if c = CHR '','' then
                 map_option (apfst (Cons (v, span s rest))) (p_elems n d (skip_ws t))
               else None))"
| "p_members 0 d s = None"
| "p_members (Suc n) d s =
     (case s of
        [] \<Rightarrow> None
      | q # s1 \<Rightarrow>
          if byte q \<noteq> 0x22 then None
          else
            (case p_string 0 s1 of
               None \<Rightarrow> None
             | Some (key, s2) \<Rightarrow>
                 (case skip_ws s2 of
                    [] \<Rightarrow> None
                  | colon # s3 \<Rightarrow>
                      if colon \<noteq> CHR '':'' then None
                      else
                        (let s4 = skip_ws s3 in
                         case p_value n d s4 of
                           None \<Rightarrow> None
                         | Some (v, rest) \<Rightarrow>
                             (case skip_ws rest of
                                [] \<Rightarrow> None
                              | c # t \<Rightarrow>
                                  if c = CHR ''}'' then Some ([(key, v, span s4 rest)], t)
                                  else if c = CHR '','' then
                                    map_option (apfst (Cons (key, v, span s4 rest)))
                                      (p_members n d (skip_ws t))
                                  else None)))))"

definition max_nesting :: int where
  "max_nesting = 10000"

abbreviation parse_fuel :: "string \<Rightarrow> nat" where
  "parse_fuel s \<equiv> Suc (2 * length s)"

text \<open>A whole text: the value, or \<open>None\<close> for a syntax error.\<close>

definition json_parse :: "string \<Rightarrow> json option" where
  "json_parse s =
     (let s0 = skip_ws s in
      case p_value (parse_fuel s0) max_nesting s0 of
        Some (v, rest) \<Rightarrow> if skip_ws rest = [] then Some v else None
      | None \<Rightarrow> None)"

text \<open>The elements or members of a text that is an array or an object, with their raw text.\<close>

definition raw_elems :: "string \<Rightarrow> string list" where
  "raw_elems s =
     (let s0 = skip_ws (drop 1 (skip_ws s)) in
      case p_elems (Suc (parse_fuel s0)) max_nesting s0 of Some (es, _) \<Rightarrow> map snd es | None \<Rightarrow> [])"

definition raw_members :: "string \<Rightarrow> (string \<times> RawMessage) list" where
  "raw_members s =
     (let s0 = skip_ws (drop 1 (skip_ws s)) in
      case p_members (Suc (parse_fuel s0)) max_nesting s0 of
        Some (ms, _) \<Rightarrow> map (\<lambda>(k, v, raw). (k, raw)) ms
      | None \<Rightarrow> [])"

lemmas scan_defs [go_defs] =
  is_ws_def skip_ws_def hex_nat_def hex4_def utf8_encode_def replacement_def surrogate_def
  simple_escape_def p_digits_def p_number_def max_nesting_def json_parse_def raw_elems_def
  raw_members_def

section \<open>Decoding\<close>

text \<open>A decoder gets the raw text of the value and the value the target holds.\<close>

type_synonym 'a decoder = "RawMessage \<Rightarrow> 'a \<Rightarrow> 'a option"

fun update_all :: "(string \<times> 'a) list \<Rightarrow> (string \<times> 'a) list \<Rightarrow> (string \<times> 'a) list" where
  "update_all m [] = m"
| "update_all m ((k, v) # kvs) = update_all (AList.update k v m) kvs"

text \<open>Basic kinds: string, pointer to string, 64-bit integer, raw message.\<close>

definition dec_string :: "string decoder" where
  "dec_string raw old =
     (case json_parse raw of Some JNull \<Rightarrow> Some old | Some (JStr s) \<Rightarrow> Some s | _ \<Rightarrow> None)"

definition dec_ptr :: "'a decoder \<Rightarrow> 'a \<Rightarrow> 'a option decoder" where
  "dec_ptr f zero raw old =
     (case json_parse raw of
        None \<Rightarrow> None
      | Some JNull \<Rightarrow> Some None
      | Some _ \<Rightarrow> map_option Some (f raw (case old of Some v \<Rightarrow> v | None \<Rightarrow> zero)))"

definition int_literal :: "string \<Rightarrow> int option" where
  "int_literal s =
     (let neg = has_prefix s ''-''; ds = (if neg then drop 1 s else s) in
      if ds = [] \<or> \<not> list_all is_digit ds then None
      else let v = foldl (\<lambda>acc c. acc * 10 + digit_val c) 0 ds; r = (if neg then - v else v) in
           if in_i64 r then Some r else None)"

definition dec_int :: "int decoder" where
  "dec_int raw old =
     (case json_parse raw of
        Some JNull \<Rightarrow> Some old
      | Some (JNum s) \<Rightarrow> int_literal s
      | _ \<Rightarrow> None)"

definition dec_raw :: "RawMessage decoder" where
  "dec_raw raw old = (case json_parse raw of None \<Rightarrow> None | Some _ \<Rightarrow> Some raw)"

text \<open>Slices and maps.\<close>

fun dec_all :: "'a decoder \<Rightarrow> 'a \<Rightarrow> string list \<Rightarrow> 'a list \<Rightarrow> 'a list option" where
  "dec_all f zero [] old = Some []"
| "dec_all f zero (r # rs) old =
     (case f r (case old of [] \<Rightarrow> zero | v # _ \<Rightarrow> v) of
        None \<Rightarrow> None
      | Some x \<Rightarrow> map_option (Cons x) (dec_all f zero rs (drop 1 old)))"

definition dec_slice :: "'a decoder \<Rightarrow> 'a \<Rightarrow> 'a slice decoder" where
  "dec_slice f zero raw old =
     (case json_parse raw of
        Some JNull \<Rightarrow> Some None
      | Some (JArr _) \<Rightarrow> map_option Some (dec_all f zero (raw_elems raw) (elems old))
      | _ \<Rightarrow> None)"

fun dec_entries :: "'a decoder \<Rightarrow> 'a \<Rightarrow> (string \<times> RawMessage) list \<Rightarrow> (string \<times> 'a) list \<Rightarrow> (string \<times> 'a) list option" where
  "dec_entries f zero [] m = Some m"
| "dec_entries f zero ((k, r) # rs) m =
     (case f r zero of None \<Rightarrow> None | Some v \<Rightarrow> dec_entries f zero rs (AList.update k v m))"

text \<open>A map; nil is \<open>None\<close>, and a member is added to what the map holds.\<close>

definition dec_map :: "'a decoder \<Rightarrow> 'a \<Rightarrow> (string \<times> 'a) slice decoder" where
  "dec_map f zero raw old =
     (case json_parse raw of
        Some JNull \<Rightarrow> Some None
      | Some (JObj _) \<Rightarrow> map_option Some (dec_entries f zero (raw_members raw) (elems old))
      | _ \<Rightarrow> None)"

text \<open>\<open>json.Unmarshal\<close> into a nil \<open>map[string]json.RawMessage\<close>.\<close>

abbreviation dec_object :: "RawMessage \<Rightarrow> (string \<times> RawMessage) slice option" where
  "dec_object raw \<equiv> dec_map dec_raw [] raw None"

text \<open>A struct: its fields by name, each with the decoder that updates the record.\<close>

type_synonym 'r fields = "(string \<times> 'r decoder) list"

definition field_named :: "'r fields \<Rightarrow> string \<Rightarrow> 'r decoder option" where
  "field_named fs key = map_option snd (find (\<lambda>(n, _). equal_fold n key) fs)"

fun dec_members :: "'r fields \<Rightarrow> (string \<times> RawMessage) list \<Rightarrow> 'r \<Rightarrow> 'r option" where
  "dec_members fs [] r = Some r"
| "dec_members fs ((k, raw) # ms) r =
     (case field_named fs k of
        None \<Rightarrow> dec_members fs ms r
      | Some d \<Rightarrow> (case d raw r of None \<Rightarrow> None | Some r' \<Rightarrow> dec_members fs ms r'))"

definition dec_struct :: "'r fields \<Rightarrow> 'r decoder" where
  "dec_struct fs raw old =
     (case json_parse raw of
        Some JNull \<Rightarrow> Some old
      | Some (JObj _) \<Rightarrow> dec_members fs (raw_members raw) old
      | _ \<Rightarrow> None)"

text \<open>The decoder of one field of a record, from a getter and a setter.\<close>

definition on_field :: "'a decoder \<Rightarrow> ('r \<Rightarrow> 'a) \<Rightarrow> ('a \<Rightarrow> 'r \<Rightarrow> 'r) \<Rightarrow> 'r decoder" where
  "on_field d get put raw r = map_option (\<lambda>x. put x r) (d raw (get r))"

lemmas decode_defs [go_defs] =
  dec_string_def dec_ptr_def int_literal_def dec_int_def dec_raw_def dec_slice_def dec_map_def
  field_named_def dec_struct_def on_field_def

section \<open>Encoding\<close>

definition hex_lower :: "int \<Rightarrow> char" where
  "hex_lower n = char_of (if n < 10 then 48 + n else 87 + n)"

definition u00 :: "char \<Rightarrow> string" where
  "u00 c = [CHR 0x5C, CHR ''u'', CHR ''0'', CHR ''0'', hex_lower (byte c div 16), hex_lower (byte c mod 16)]"

definition enc_ascii :: "char \<Rightarrow> string" where
  "enc_ascii c =
     (if byte c = 0x22 \<or> byte c = 0x5C then [CHR 0x5C, c]
      else if byte c = 8 then [CHR 0x5C, CHR ''b'']
      else if byte c = 12 then [CHR 0x5C, CHR ''f'']
      else if byte c = 10 then [CHR 0x5C, CHR ''n'']
      else if byte c = 13 then [CHR 0x5C, CHR ''r'']
      else if byte c = 9 then [CHR 0x5C, CHR ''t'']
      else if byte c < 32 \<or> c \<in> set ''<>&'' then u00 c
      else [c])"

text \<open>The body of a string literal; the first argument counts continuation bytes to copy.\<close>

fun enc_body :: "nat \<Rightarrow> string \<Rightarrow> string" where
  "enc_body k [] = []"
| "enc_body (Suc k) (c # s) = c # enc_body k s"
| "enc_body 0 (c # s) =
     (if byte c < 128 then enc_ascii c @ enc_body 0 s
      else if has_prefix (c # s) [CHR 0xE2, CHR 0x80, CHR 0xA8] then
        [CHR 0x5C] @ ''u2028'' @ enc_body 0 (drop 2 s)
      else if has_prefix (c # s) [CHR 0xE2, CHR 0x80, CHR 0xA9] then
        [CHR 0x5C] @ ''u2029'' @ enc_body 0 (drop 2 s)
      else case utf8_len (c # s) of
             0 \<Rightarrow> [CHR 0x5C] @ ''ufffd'' @ enc_body 0 s
           | Suc k \<Rightarrow> c # enc_body k s)"

definition enc_string :: "string \<Rightarrow> string" where
  "enc_string s = CHR 0x22 # enc_body 0 s @ [CHR 0x22]"

definition enc_int :: "int \<Rightarrow> string" where
  "enc_int i = (if i < 0 then ''-'' @ digits_of (- i) else digits_of i)"

definition enc_bool :: "bool \<Rightarrow> string" where
  "enc_bool b = (if b then ''true'' else ''false'')"

definition enc_array :: "string list \<Rightarrow> string" where
  "enc_array es = ''['' @ join_with '','' es @ '']''"

definition enc_object :: "(string \<times> string) list \<Rightarrow> string" where
  "enc_object ms = ''{'' @ join_with '','' (map (\<lambda>(k, t). enc_string k @ '':'' @ t) ms) @ ''}''"

definition enc_slice :: "('a \<Rightarrow> string) \<Rightarrow> 'a slice \<Rightarrow> string" where
  "enc_slice f s = (case s of None \<Rightarrow> ''null'' | Some xs \<Rightarrow> enc_array (map f xs))"

definition sorted_map :: "(string \<times> 'a) list \<Rightarrow> (string \<times> 'a) list" where
  "sorted_map m = sort_key fst m"

text \<open>The generic value of \<open>decoder.UseNumber\<close> and \<open>any\<close>, written again: numbers keep their text.\<close>

fun enc_json :: "json \<Rightarrow> string" where
  "enc_json JNull = ''null''"
| "enc_json (JBool b) = enc_bool b"
| "enc_json (JNum s) = s"
| "enc_json (JStr s) = enc_string s"
| "enc_json (JArr xs) = enc_array (map enc_json xs)"
| "enc_json (JObj ms) = enc_object (sorted_map (update_all [] (map (\<lambda>(k, v). (k, enc_json v)) ms)))"

text \<open>
  \<open>compact\<close> of a valid text: white space outside strings goes, and inside them the characters the
  encoder escapes are escaped.
\<close>

fun compact_text :: "bool \<Rightarrow> bool \<Rightarrow> string \<Rightarrow> string" where
  "compact_text in_str esc [] = []"
| "compact_text in_str esc (c # s) =
     (if c \<in> set ''<>&'' then u00 c @ compact_text in_str False s
      else if has_prefix (c # s) [CHR 0xE2, CHR 0x80, CHR 0xA8] then
        [CHR 0x5C] @ ''u2028'' @ compact_text in_str False (drop 2 s)
      else if has_prefix (c # s) [CHR 0xE2, CHR 0x80, CHR 0xA9] then
        [CHR 0x5C] @ ''u2029'' @ compact_text in_str False (drop 2 s)
      else if \<not> in_str \<and> is_ws c then compact_text in_str False s
      else c # compact_text (if byte c = 0x22 \<and> \<not> esc then \<not> in_str else in_str)
                 (in_str \<and> byte c = 0x5C \<and> \<not> esc) s)"

definition enc_raw :: "RawMessage \<Rightarrow> string option" where
  "enc_raw raw = (case json_parse raw of None \<Rightarrow> None | Some _ \<Rightarrow> Some (compact_text False False raw))"

fun all_some :: "'a option list \<Rightarrow> 'a list option" where
  "all_some [] = Some []"
| "all_some (None # xs) = None"
| "all_some (Some x # xs) = map_option (Cons x) (all_some xs)"

text \<open>\<open>json.Marshal\<close> of a \<open>map[string]json.RawMessage\<close>.\<close>

definition enc_raw_map :: "(string \<times> RawMessage) list \<Rightarrow> string option" where
  "enc_raw_map m =
     map_option enc_object
       (all_some (map (\<lambda>(k, raw). map_option (Pair k) (enc_raw raw)) (sorted_map m)))"

text \<open>Members left out when empty.\<close>

definition omit_empty :: "string \<Rightarrow> string \<Rightarrow> (string \<times> string) list" where
  "omit_empty name s = (if s = [] then [] else [(name, enc_string s)])"

definition omit_nil :: "string \<Rightarrow> ('a \<Rightarrow> string) \<Rightarrow> 'a option \<Rightarrow> (string \<times> string) list" where
  "omit_nil name f v = (case v of None \<Rightarrow> [] | Some x \<Rightarrow> [(name, f x)])"

definition omit_empty_slice :: "string \<Rightarrow> ('a \<Rightarrow> string) \<Rightarrow> 'a slice \<Rightarrow> (string \<times> string) list" where
  "omit_empty_slice name f v = (if elems v = [] then [] else [(name, enc_slice f v)])"

lemmas encode_defs [go_defs] =
  hex_lower_def u00_def enc_ascii_def enc_string_def enc_int_def enc_bool_def enc_array_def
  enc_object_def enc_slice_def sorted_map_def enc_raw_def enc_raw_map_def omit_empty_def
  omit_nil_def omit_empty_slice_def

text \<open>Example texts are written with a tilde for the quote.\<close>

definition quote_tildes :: "string \<Rightarrow> string" where
  "quote_tildes s = map (\<lambda>c. if c = CHR 0x7E then CHR 0x22 else c) s"

section \<open>Decimal digits\<close>

definition decimal :: "string \<Rightarrow> int" where
  "decimal s = foldl (\<lambda>acc c. acc * 10 + digit_val c) 0 s"

lemma decimal_simps [simp]: "decimal [] = 0" "decimal (s @ [c]) = decimal s * 10 + digit_val c"
  by (simp_all add: decimal_def)

lemma digit_val_range: "is_digit c \<Longrightarrow> 0 \<le> digit_val c \<and> digit_val c \<le> 9"
  by (simp add: byte_class_defs)

lemma digit_char: "is_digit c \<Longrightarrow> char_of (48 + digit_val c) = c"
  by (simp add: digit_val_def)

lemma char_digit: "0 \<le> n \<Longrightarrow> n \<le> 9 \<Longrightarrow> byte (char_of (48 + n :: int)) = 48 + n"
  by (simp add: of_char_of)

lemma decimal_nonneg: "list_all is_digit s \<Longrightarrow> 0 \<le> decimal s"
  by (induction s rule: rev_induct) (auto dest: digit_val_range)

lemma digits_of_decimal:
  "list_all is_digit s \<Longrightarrow> s \<noteq> [] \<Longrightarrow> in_range 49 57 (hd s) \<Longrightarrow> digits_of (decimal s) = s \<and> 1 \<le> decimal s"
proof (induction s rule: rev_induct)
  case (snoc c s)
  have c: "0 \<le> digit_val c" "digit_val c \<le> 9" "char_of (48 + digit_val c) = c"
    using snoc.prems(1) digit_val_range digit_char by simp_all
  show ?case
  proof (cases "s = []")
    case True
    then have "1 \<le> digit_val c" using snoc.prems(3) by (simp add: in_range_def digit_val_def)
    then show ?thesis using True c by (simp add: decimal_def digits_of.simps)
  next
    case False
    then have s: "digits_of (decimal s) = s" "1 \<le> decimal s" using snoc by simp_all
    then have "\<not> decimal s * 10 + digit_val c < 10" "(decimal s * 10 + digit_val c) div 10 = decimal s"
      "(decimal s * 10 + digit_val c) mod 10 = digit_val c" using c by auto
    then show ?thesis using s c by (simp add: digits_of.simps [of "decimal s * 10 + digit_val c"])
  qed
qed simp

lemma decimal_digits_of:
  "0 \<le> n \<Longrightarrow> decimal (digits_of n) = n \<and> list_all is_digit (digits_of n) \<and> digits_of n \<noteq> [] \<and>
     (1 \<le> n \<longrightarrow> in_range 49 57 (hd (digits_of n)))"
proof (induction n rule: digits_of.induct)
  case (1 n)
  show ?case
  proof (cases "n < 10")
    case True
    then show ?thesis
      using "1.prems" char_digit [of n]
      by (simp add: digits_of.simps decimal_def digit_val_def is_digit_def in_range_def)
  next
    case False
    let ?d = "digits_of (n div 10)"
    have d: "decimal ?d = n div 10" "list_all is_digit ?d" "?d \<noteq> []" "in_range 49 57 (hd ?d)"
      using "1.IH" [OF False] False by (simp_all add: pos_imp_zdiv_nonneg_iff)
    have "0 \<le> n mod 10" "n mod 10 \<le> 9" using pos_mod_bound [of 10 n] by simp_all
    then have "byte (char_of (48 + n mod 10)) = 48 + n mod 10" by (rule char_digit)
    then show ?thesis
      using d False \<open>0 \<le> n mod 10\<close> \<open>n mod 10 \<le> 9\<close>
      by (simp add: digits_of.simps [of n] digit_val_def is_digit_def [of "char_of (48 + n mod 10)"] in_range_def)
  qed
qed

lemma int_literal_decimal:
  "s \<noteq> [] \<Longrightarrow> list_all is_digit s \<Longrightarrow> int_literal s = (if in_i64 (decimal s) then Some (decimal s) else None)"
  by (cases s) (auto simp: int_literal_def decimal_def Let_def byte_class_defs)

end
