(* ===== verification/Decoding.thy ===== *)
theory Decoding
  imports Json
begin

text \<open>
  The decoding helpers of \<open>validation.go\<close> and the additional members of \<open>additional.go\<close>: members
  a struct does not name are kept with their raw text and written back.
\<close>

section \<open>Documents\<close>

text \<open>
  \<open>decodeOne\<close> decodes a value and refuses anything after it but white space, which is when a whole
  text parses.
\<close>

definition decodeOne :: "'a decoder \<Rightarrow> 'a \<Rightarrow> string \<Rightarrow> 'a result" where
  "decodeOne target zero data =
     (case target data zero of None \<Rightarrow> Inl (Library ''encoding/json'') | Some v \<Rightarrow> Inr v)"

text \<open>The member of a decoded object; a repeated name has its last value.\<close>

definition json_member :: "json \<Rightarrow> string \<Rightarrow> json option" where
  "json_member j name = (case j of JObj ms \<Rightarrow> map_of (rev ms) name | _ \<Rightarrow> None)"

fun json_walk :: "json \<Rightarrow> string list \<Rightarrow> json option" where
  "json_walk j [] = Some j"
| "json_walk j (part # parts) =
     (case json_member j part of None \<Rightarrow> None | Some j' \<Rightarrow> json_walk j' parts)"

definition rejectNullPaths :: "string \<Rightarrow> string \<Rightarrow> string list \<Rightarrow> go_error option" where
  "rejectNullPaths data documentType paths =
     (case json_parse data of
        None \<Rightarrow> None
      | Some root \<Rightarrow>
          validationResult documentType
            (concat (map (\<lambda>path.
               if json_walk root (split_on CHR ''/'' (trim_prefix path ''/'')) = Some JNull
               then [issue (''$'' @ replace_byte CHR ''/'' ''.'' path) ''Expected a non-null value.'']
               else []) paths)))"

definition rejectEmptyStringPaths :: "string \<Rightarrow> string \<Rightarrow> string list \<Rightarrow> go_error option" where
  "rejectEmptyStringPaths data documentType paths =
     (case dec_object data of
        None \<Rightarrow> None
      | Some object \<Rightarrow>
          validationResult documentType
            (concat (map (\<lambda>path.
               let name = trim_prefix path ''/'' in
               case map_of (elems object) name of
                 None \<Rightarrow> []
               | Some raw \<Rightarrow>
                   if dec_string raw [] = Some []
                   then [issue (''$.'' @ name) ''Expected a non-empty string.''] else []) paths)))"

definition parseAndValidate ::
  "string \<Rightarrow> string \<Rightarrow> 'a decoder \<Rightarrow> 'a \<Rightarrow> ('a \<Rightarrow> go_error option) \<Rightarrow> string list \<Rightarrow> 'a result" where
  "parseAndValidate data documentType target zero validate nonNullPaths =
     (case decodeOne target zero data of
        Inl err \<Rightarrow> Inl (wrapDecodeError documentType err)
      | Inr v \<Rightarrow>
          (case rejectNullPaths data documentType nonNullPaths of
             Some err \<Rightarrow> Inl err
           | None \<Rightarrow> (case validate v of Some err \<Rightarrow> Inl err | None \<Rightarrow> Inr v)))"

section \<open>Additional members\<close>

definition jsonFieldNames :: "'r fields \<Rightarrow> string list" where
  "jsonFieldNames fs = map fst fs"

definition decodeAdditional :: "'r fields \<Rightarrow> 'r \<Rightarrow> RawMessage \<Rightarrow> ('r \<times> AdditionalMembers) option" where
  "decodeAdditional fs zero data =
     (case dec_object data of
        None \<Rightarrow> None
      | Some object \<Rightarrow>
          (case dec_struct fs data zero of
             None \<Rightarrow> None
           | Some known \<Rightarrow>
               Some (known, filter (\<lambda>(name, _). name \<notin> set (jsonFieldNames fs)) (elems object))))"

text \<open>A decoder for a type whose \<open>UnmarshalJSON\<close> keeps the additional members.\<close>

definition unmarshalAdditional ::
  "'r fields \<Rightarrow> 'r \<Rightarrow> (AdditionalMembers \<Rightarrow> 'r \<Rightarrow> 'r) \<Rightarrow> 'r decoder" where
  "unmarshalAdditional fs zero put data old =
     (case decodeAdditional fs zero data of
        None \<Rightarrow> None
      | Some (decoded, additional) \<Rightarrow> Some (put additional decoded))"

text \<open>
  \<open>known\<close> are the members \<open>json.Marshal\<close> writes for the struct, in field order, and \<open>names\<close> the
  names of its fields. An additional member never replaces a field of the struct.
\<close>

fun add_unknown :: "string list \<Rightarrow> (string \<times> RawMessage) list \<Rightarrow> AdditionalMembers \<Rightarrow> (string \<times> RawMessage) list" where
  "add_unknown names object [] = object"
| "add_unknown names object ((name, raw) # additional) =
     add_unknown names (if name \<in> set names then object else AList.update name raw object) additional"

definition encodeAdditional ::
  "(string \<times> string) list \<Rightarrow> string list \<Rightarrow> AdditionalMembers \<Rightarrow> string option" where
  "encodeAdditional known names additional =
     (let data = enc_object known in
      if additional = [] then Some data
      else case dec_object data of
             None \<Rightarrow> None
           | Some object \<Rightarrow> enc_raw_map (add_unknown names (elems object) additional))"

definition encodeCanonicalOwnerAction ::
  "(string \<times> string) list \<Rightarrow> string list \<Rightarrow> AdditionalMembers \<Rightarrow> string option \<Rightarrow> string option" where
  "encodeCanonicalOwnerAction known names additional ownerAction =
     (case encodeAdditional known names additional of
        None \<Rightarrow> None
      | Some data \<Rightarrow>
          if ownerAction = None \<or> ownerAction = Some ''true'' then Some data
          else case dec_object data of
                 None \<Rightarrow> None
               | Some object \<Rightarrow> enc_raw_map (AList.delete ''owner_action_required'' (elems object)))"

lemmas decoding_defs [go_defs] =
  decodeOne_def json_member_def rejectNullPaths_def rejectEmptyStringPaths_def parseAndValidate_def
  jsonFieldNames_def decodeAdditional_def unmarshalAdditional_def encodeAdditional_def
  encodeCanonicalOwnerAction_def

section \<open>Lemmas\<close>

lemma parseAndValidate_valid:
  assumes "parseAndValidate data t target zero validate paths = Inr v"
  shows "validate v = None"
  using assms by (auto simp: parseAndValidate_def split: sum.splits option.splits)

lemma decodeAdditional_names:
  assumes "decodeAdditional fs zero data = Some (known, additional)"
  shows "\<forall>(name, raw) \<in> set additional. name \<notin> set (jsonFieldNames fs)"
  using assms by (auto simp: decodeAdditional_def split: option.splits)

lemma add_unknown_known:
  "name \<in> set names \<Longrightarrow> map_of (add_unknown names object additional) name = map_of object name"
  by (induction names object additional rule: add_unknown.induct) auto

lemma add_unknown_other:
  assumes "name \<notin> set names" "keys_distinct additional"
  shows "map_of (add_unknown names object additional) name =
    (case map_of additional name of Some raw \<Rightarrow> Some raw | None \<Rightarrow> map_of object name)"
  using assms
proof (induction names object additional rule: add_unknown.induct)
  case (2 names object nm raw additional)
  then have "nm \<notin> fst ` set additional" by simp
  then have "map_of additional nm = None" by (simp add: map_of_eq_None_iff)
  with 2 show ?case by (auto split: option.splits)
qed simp

lemma add_unknown_distinct: "keys_distinct object \<Longrightarrow> keys_distinct (add_unknown names object additional)"
  by (induction names object additional rule: add_unknown.induct) auto

end
