(* ===== verification/Documents.thy ===== *)
theory Documents
  imports Decoding Urls
begin

text \<open>
  \<open>service_documents.go\<close>: the descriptors of a Service's documents, and the portable document with
  its nested blocks. Ranging over a Go string yields runes; a rune above 127 is a byte above 127.
\<close>

abbreviation ServiceDocumentsExtension :: string where
  "ServiceDocumentsExtension \<equiv> ''urn:aep:ext:aep-foundation:service-documents#v=1.0.0''"

definition MaxServiceDocumentBytes :: int where
  "MaxServiceDocumentBytes = 1048576"

definition PreferredServiceDocumentTypes :: "string list" where
  "PreferredServiceDocumentTypes =
     [''acceptable_use_policy'', ''age_or_parental_consent'', ''ai_data_use_policy'',
      ''community_guidelines'', ''cookie_policy'', ''data_processing_agreement'',
      ''data_retention_notice'', ''electronic_signature_consent'', ''privacy_policy'',
      ''security_policy'', ''subscription_terms'', ''supplemental_terms'', ''terms_of_service'']"

datatype DocumentBlock =
  DocumentBlock (block_Type: string) (block_Text: string) (block_Title: string)
    (block_Blocks: "DocumentBlock list option") (block_Items: "string slice")

record PortableServiceDocument =
  psd_Format :: string
  psd_Version :: string
  psd_ID :: string
  psd_Summary :: "DocumentBlock slice"
  psd_Content :: "DocumentBlock slice"

section \<open>Descriptors\<close>

definition isLoopbackHost :: "string \<Rightarrow> bool" where
  "isLoopbackHost hostname \<longleftrightarrow> hostname = ''localhost'' \<or> hostname = ''127.0.0.1'' \<or> hostname = ''::1''"

definition ValidateDocumentIDs :: "string list \<Rightarrow> go_error option" where
  "ValidateDocumentIDs ids =
     validationResult ''Document identifiers''
       ((if 7 < length ids then [issue ''$'' ''At most seven document identifiers are allowed.''] else []) @
        requireUniqueStrings ids ''$'' @
        each_index (\<lambda>index id.
          if \<not> full_match documentIDPattern id
          then [issue (index_path ''$'' index) ''Invalid document identifier.''] else []) ids)"

definition documentText :: "string \<Rightarrow> int \<Rightarrow> bool" where
  "documentText val maximum \<longleftrightarrow> val \<noteq> [] \<and> valid_utf8 val \<and> int (rune_count val) \<le> maximum"

definition ValidateDocumentURL :: "string \<Rightarrow> go_error option" where
  "ValidateDocumentURL val =
     (if (case url_Parse val of
            None \<Rightarrow> True
          | Some parsed \<Rightarrow>
              (url_Scheme parsed \<noteq> ''https'' \<and>
               \<not> (url_Scheme parsed = ''http'' \<and> isLoopbackHost (url_Hostname parsed))) \<or>
              url_Hostname parsed = [] \<or> url_User parsed \<noteq> None \<or> url_Opaque parsed \<noteq> [] \<or>
              2048 < int (length val))
      then Some (invalid ''Service document'' ''$.url'' ''Expected HTTPS or loopback HTTP without user information.'')
      else if list_ex (\<lambda>c. 127 < byte c \<or> byte c \<le> 32) val
      then Some (invalid ''Service document'' ''$.url'' ''Expected an ASCII URI serialization.'')
      else None)"

text \<open>The loop over the representations: the media types seen, or the first error.\<close>

fun validateRepresentations :: "string list \<Rightarrow> DocumentRepresentation list \<Rightarrow> go_error + string list" where
  "validateRepresentations seen [] = Inr seen"
| "validateRepresentations seen (r # rs) =
     (if rep_MediaType r \<in> set seen \<or> \<not> full_match documentMediaPattern (rep_MediaType r)
      then Inl (invalid ''Service document'' ''$.representations''
                  ''Expected unique lowercase media types without parameters.'')
      else (case ValidateDocumentURL (rep_URL r) of
              Some err \<Rightarrow> Inl err
            | None \<Rightarrow> validateRepresentations (rep_MediaType r # seen) rs))"

definition ValidateServiceDocument :: "ServiceDocument \<Rightarrow> go_error option" where
  "ValidateServiceDocument document =
     (case ValidateDocumentIDs [sd_ID document] of
        Some err \<Rightarrow> Some err
      | None \<Rightarrow>
          if \<not> full_match documentTypePattern (sd_Type document) \<or> \<not> documentText (sd_Title document) 256
          then Some (invalid ''Service document'' ''$'' ''Invalid document type or title.'')
          else if sd_Enrollment document \<noteq> ''required'' \<and> sd_Enrollment document \<noteq> ''not-required''
          then Some (invalid ''Service document'' ''$.enrollment'' ''Expected required or not-required.'')
          else if length (elems (sd_Representations document)) < 1 \<or> 8 < length (elems (sd_Representations document))
          then Some (invalid ''Service document'' ''$.representations'' ''Expected one through eight representations.'')
          else (case validateRepresentations [] (elems (sd_Representations document)) of
                  Inl err \<Rightarrow> Some err
                | Inr seen \<Rightarrow>
                    if ''text/html'' \<notin> set seen
                    then Some (invalid ''Service document'' ''$.representations'' ''An HTML representation is required.'')
                    else None))"

text \<open>An invalid descriptor is reported with its index, wrapped by \<open>fmt.Errorf\<close>.\<close>

fun validateEachDocument :: "nat \<Rightarrow> ServiceDocument list \<Rightarrow> go_error option" where
  "validateEachDocument i [] = None"
| "validateEachDocument i (d # ds) =
     (case ValidateServiceDocument d of
        Some err \<Rightarrow> Some (Wrapped (''Service document '' @ digits_of (int i)) err)
      | None \<Rightarrow> validateEachDocument (Suc i) ds)"

definition ValidateServiceDocuments :: "ServiceDocument list \<Rightarrow> go_error option" where
  "ValidateServiceDocuments documents =
     (if length documents = 0 \<or> 7 < length documents
      then Some (invalid ''Service documents'' ''$'' ''Expected one through seven documents.'')
      else (case validateEachDocument 0 documents of
              Some err \<Rightarrow> Some err
            | None \<Rightarrow> ValidateDocumentIDs (map sd_ID documents)))"

section \<open>Portable documents\<close>

text \<open>
  The count of blocks is threaded through the loop and its recursion; a result is the count after
  the blocks, or the first error.
\<close>

fun validateDocumentBlock :: "DocumentBlock \<Rightarrow> int \<Rightarrow> int \<Rightarrow> int result"
  and validateDocumentBlocks :: "DocumentBlock list \<Rightarrow> int \<Rightarrow> int \<Rightarrow> int result"
where
  "validateDocumentBlock (DocumentBlock type text title blocks items) depth count0 =
     (let count = count0 + 1 in
      if 1024 < count then Inl (invalid ''Portable document'' ''$'' ''Document exceeds 1024 blocks.'')
      else if type = ''paragraph'' then
        (if \<not> documentText text 16384
         then Inl (invalid ''Portable document'' ''$.text'' ''Invalid paragraph text.'') else Inr count)
      else if type = ''section'' then
        (case blocks of
           Some (b # bs) \<Rightarrow>
             if 8 \<le> depth \<or> \<not> documentText title 256
             then Inl (invalid ''Portable document'' ''$.blocks'' ''Invalid section or section depth.'')
             else validateDocumentBlocks (b # bs) (depth + 1) count
         | _ \<Rightarrow> Inl (invalid ''Portable document'' ''$.blocks'' ''Invalid section or section depth.''))
      else if type = ''bulleted_list'' \<or> type = ''numbered_list'' then
        (if length (elems items) = 0 \<or> 128 < length (elems items)
         then Inl (invalid ''Portable document'' ''$.items'' ''Expected one through 128 items.'')
         else if \<not> list_all (\<lambda>item. documentText item 16384) (elems items)
         then Inl (invalid ''Portable document'' ''$.items'' ''Invalid list text.'')
         else Inr count)
      else Inl UnsupportedServiceDocument)"
| "validateDocumentBlocks [] depth count = Inr count"
| "validateDocumentBlocks (b # bs) depth count =
     (case validateDocumentBlock b depth count of
        Inl err \<Rightarrow> Inl err
      | Inr count' \<Rightarrow> validateDocumentBlocks bs depth count')"

text \<open>Decoding; the fuel bounds the nesting, which the length of the text does.\<close>

definition zero_block :: DocumentBlock where
  "zero_block = DocumentBlock [] [] [] None None"

fun dec_block :: "nat \<Rightarrow> DocumentBlock decoder" where
  "dec_block 0 raw old = None"
| "dec_block (Suc n) raw old =
     dec_struct
       [(''type'', \<lambda>raw b. map_option (\<lambda>x. case b of DocumentBlock _ t ti bl it \<Rightarrow> DocumentBlock x t ti bl it)
            (dec_string raw (block_Type b))),
        (''text'', \<lambda>raw b. map_option (\<lambda>x. case b of DocumentBlock ty _ ti bl it \<Rightarrow> DocumentBlock ty x ti bl it)
            (dec_string raw (block_Text b))),
        (''title'', \<lambda>raw b. map_option (\<lambda>x. case b of DocumentBlock ty t _ bl it \<Rightarrow> DocumentBlock ty t x bl it)
            (dec_string raw (block_Title b))),
        (''blocks'', \<lambda>raw b. map_option (\<lambda>x. case b of DocumentBlock ty t ti _ it \<Rightarrow> DocumentBlock ty t ti x it)
            (dec_slice (dec_block n) zero_block raw (block_Blocks b))),
        (''items'', \<lambda>raw b. map_option (\<lambda>x. case b of DocumentBlock ty t ti bl _ \<Rightarrow> DocumentBlock ty t ti bl x)
            (dec_slice dec_string [] raw (block_Items b)))]
       raw old"

definition zero_portable :: PortableServiceDocument where
  "zero_portable = \<lparr>psd_Format = [], psd_Version = [], psd_ID = [], psd_Summary = None, psd_Content = None\<rparr>"

definition fields_portable :: "nat \<Rightarrow> PortableServiceDocument fields" where
  "fields_portable n =
     [(''format'', on_field dec_string psd_Format (\<lambda>x. psd_Format_update (\<lambda>_. x))),
      (''version'', on_field dec_string psd_Version (\<lambda>x. psd_Version_update (\<lambda>_. x))),
      (''id'', on_field dec_string psd_ID (\<lambda>x. psd_ID_update (\<lambda>_. x))),
      (''summary'', on_field (dec_slice (dec_block n) zero_block) psd_Summary (\<lambda>x. psd_Summary_update (\<lambda>_. x))),
      (''content'', on_field (dec_slice (dec_block n) zero_block) psd_Content (\<lambda>x. psd_Content_update (\<lambda>_. x)))]"

definition ParsePortableServiceDocument :: "string \<Rightarrow> string \<Rightarrow> PortableServiceDocument result" where
  "ParsePortableServiceDocument data expectedID =
     (if MaxServiceDocumentBytes < int (length data)
      then Inl (invalid ''Portable document'' ''$'' ''Document exceeds one MiB.'')
      else (case decodeOne (dec_struct (fields_portable (length data))) zero_portable data of
              Inl err \<Rightarrow> Inl (wrapDecodeError ''Portable document'' err)
            | Inr document \<Rightarrow>
                (case rejectNullPaths data ''Portable document'' [''/summary''] of
                   Some err \<Rightarrow> Inl err
                 | None \<Rightarrow>
                     if psd_Format document \<noteq> ''aep-service-document'' \<or> psd_Version document \<noteq> ''1.0''
                     then Inl UnsupportedServiceDocument
                     else (case ValidateDocumentIDs [psd_ID document] of
                             Some err \<Rightarrow> Inl err
                           | None \<Rightarrow>
                               if psd_ID document \<noteq> expectedID
                               then Inl (invalid ''Portable document'' ''$.id'' ''Document ID does not match its descriptor.'')
                               else if elems (psd_Content document) = [] \<or> psd_Summary document = Some []
                               then Inl (invalid ''Portable document'' ''$'' ''Content and any supplied summary must be nonempty.'')
                               else (case validateDocumentBlocks (elems (psd_Summary document)) 0 0 of
                                       Inl err \<Rightarrow> Inl err
                                     | Inr count \<Rightarrow>
                                         (case validateDocumentBlocks (elems (psd_Content document)) 0 count of
                                            Inl err \<Rightarrow> Inl err
                                          | Inr _ \<Rightarrow> Inr document))))))"

text \<open>\<open>ServiceDocument.UnmarshalJSON\<close> validates what it decoded.\<close>

definition fields_representation :: "DocumentRepresentation fields" where
  "fields_representation =
     [(''media_type'', on_field dec_string rep_MediaType (\<lambda>x. rep_MediaType_update (\<lambda>_. x))),
      (''url'', on_field dec_string rep_URL (\<lambda>x. rep_URL_update (\<lambda>_. x)))]"

definition zero_representation :: DocumentRepresentation where
  "zero_representation = \<lparr>rep_MediaType = [], rep_URL = []\<rparr>"

definition fields_service_document :: "ServiceDocument fields" where
  "fields_service_document =
     [(''id'', on_field dec_string sd_ID (\<lambda>x. sd_ID_update (\<lambda>_. x))),
      (''type'', on_field dec_string sd_Type (\<lambda>x. sd_Type_update (\<lambda>_. x))),
      (''title'', on_field dec_string sd_Title (\<lambda>x. sd_Title_update (\<lambda>_. x))),
      (''enrollment'', on_field dec_string sd_Enrollment (\<lambda>x. sd_Enrollment_update (\<lambda>_. x))),
      (''representations'',
        on_field (dec_slice (dec_struct fields_representation) zero_representation)
          sd_Representations (\<lambda>x. sd_Representations_update (\<lambda>_. x)))]"

definition zero_service_document :: ServiceDocument where
  "zero_service_document = \<lparr>sd_ID = [], sd_Type = [], sd_Title = [], sd_Enrollment = [], sd_Representations = None\<rparr>"

definition ServiceDocument_UnmarshalJSON :: "ServiceDocument decoder" where
  "ServiceDocument_UnmarshalJSON data old =
     (case decodeOne (dec_struct fields_service_document) zero_service_document data of
        Inl err \<Rightarrow> None
      | Inr decoded \<Rightarrow> if ValidateServiceDocument decoded = None then Some decoded else None)"

lemmas document_defs [go_defs] =
  MaxServiceDocumentBytes_def PreferredServiceDocumentTypes_def isLoopbackHost_def
  ValidateDocumentIDs_def documentText_def ValidateDocumentURL_def ValidateServiceDocument_def
  ValidateServiceDocuments_def zero_block_def zero_portable_def fields_portable_def
  ParsePortableServiceDocument_def fields_representation_def zero_representation_def
  fields_service_document_def zero_service_document_def ServiceDocument_UnmarshalJSON_def

section \<open>Lemmas\<close>

lemma ValidateDocumentIDs_None:
  "ValidateDocumentIDs ids = None \<longleftrightarrow>
     length ids \<le> 7 \<and> distinct ids \<and> (\<forall>id \<in> set ids. full_match documentIDPattern id)"
  by (auto simp: ValidateDocumentIDs_def no_issues)

lemma documentID_length: "full_match documentIDPattern s \<Longrightarrow> 1 \<le> length s \<and> length s \<le> 32"
  by (auto simp: full_match_lang documentIDPattern_def dest: length_upto_class)

lemma validateRepresentations_Inr:
  assumes "validateRepresentations seen rs = Inr seen'"
  shows "set seen' = set seen \<union> rep_MediaType ` set rs \<and> distinct (map rep_MediaType rs) \<and>
    set seen \<inter> rep_MediaType ` set rs = {} \<and>
    (\<forall>r \<in> set rs. full_match documentMediaPattern (rep_MediaType r) \<and> ValidateDocumentURL (rep_URL r) = None)"
  using assms
proof (induction seen rs rule: validateRepresentations.induct)
  case (2 seen r rs)
  then have fresh: "rep_MediaType r \<notin> set seen" "full_match documentMediaPattern (rep_MediaType r)"
    and url: "ValidateDocumentURL (rep_URL r) = None"
    and rest: "validateRepresentations (rep_MediaType r # seen) rs = Inr seen'"
    by (auto split: if_splits option.splits)
  from 2(1) [OF _ url rest] fresh
  have "set seen' = set (rep_MediaType r # seen) \<union> rep_MediaType ` set rs \<and> distinct (map rep_MediaType rs) \<and>
    set (rep_MediaType r # seen) \<inter> rep_MediaType ` set rs = {} \<and>
    (\<forall>r \<in> set rs. full_match documentMediaPattern (rep_MediaType r) \<and> ValidateDocumentURL (rep_URL r) = None)"
    by simp
  then show ?case using fresh url by auto
qed simp

lemma validateEachDocument_None:
  "validateEachDocument i ds = None \<longleftrightarrow> (\<forall>d \<in> set ds. ValidateServiceDocument d = None)"
  by (induction i ds rule: validateEachDocument.induct) (auto split: option.splits)

lemma validateEachDocument_Some:
  "validateEachDocument i ds = Some err \<Longrightarrow> \<exists>m e. err = Wrapped m e"
  by (induction i ds rule: validateEachDocument.induct) (auto split: option.splits)

lemma ValidateServiceDocument_ID:
  "ValidateServiceDocument d = None \<Longrightarrow> full_match documentIDPattern (sd_ID d)"
  using ValidateDocumentIDs_None [of "[sd_ID d]"]
  by (auto simp: ValidateServiceDocument_def split: option.splits)

text \<open>The size of a document, and the depth of its sections.\<close>

fun block_count :: "DocumentBlock \<Rightarrow> int" and blocks_count :: "DocumentBlock list \<Rightarrow> int" where
  "block_count (DocumentBlock type text title blocks items) =
     1 + (if type = ''section'' then (case blocks of Some bs \<Rightarrow> blocks_count bs | None \<Rightarrow> 0) else 0)"
| "blocks_count [] = 0"
| "blocks_count (b # bs) = block_count b + blocks_count bs"

fun block_depth :: "DocumentBlock \<Rightarrow> int" and blocks_depth :: "DocumentBlock list \<Rightarrow> int" where
  "block_depth (DocumentBlock type text title blocks items) =
     (if type = ''section'' then 1 + (case blocks of Some bs \<Rightarrow> blocks_depth bs | None \<Rightarrow> 0) else 0)"
| "blocks_depth [] = 0"
| "blocks_depth (b # bs) = max (block_depth b) (blocks_depth bs)"

text \<open>What a block must look like, without the limits on depth and count.\<close>

fun block_ok :: "DocumentBlock \<Rightarrow> bool" and blocks_ok :: "DocumentBlock list \<Rightarrow> bool" where
  "block_ok (DocumentBlock type text title blocks items) \<longleftrightarrow>
     (if type = ''paragraph'' then documentText text 16384
      else if type = ''section'' then
        documentText title 256 \<and> (case blocks of Some (b # bs) \<Rightarrow> blocks_ok (b # bs) | _ \<Rightarrow> False)
      else (type = ''bulleted_list'' \<or> type = ''numbered_list'') \<and>
        1 \<le> length (elems items) \<and> length (elems items) \<le> 128 \<and>
        (\<forall>item \<in> set (elems items). documentText item 16384))"
| "blocks_ok [] \<longleftrightarrow> True"
| "blocks_ok (b # bs) \<longleftrightarrow> block_ok b \<and> blocks_ok bs"

lemma block_count_pos: "1 \<le> block_count b" and blocks_count_pos: "0 \<le> blocks_count bs"
  by (induction b and bs rule: block_count_blocks_count.induct) (auto split: option.splits)

lemma block_depth_pos: "0 \<le> block_depth b" and blocks_depth_pos: "0 \<le> blocks_depth bs"
  by (induction b and bs rule: block_depth_blocks_depth.induct) (auto split: option.splits)

lemma validateDocumentBlocks_Inr:
  "depth \<le> 8 \<Longrightarrow> validateDocumentBlock b depth count = Inr n \<longleftrightarrow>
     block_ok b \<and> n = count + block_count b \<and> n \<le> 1024 \<and> depth + block_depth b \<le> 8"
  "depth \<le> 8 \<Longrightarrow> count \<le> 1024 \<Longrightarrow> validateDocumentBlocks bs depth count = Inr n \<longleftrightarrow>
     blocks_ok bs \<and> n = count + blocks_count bs \<and> n \<le> 1024 \<and> depth + blocks_depth bs \<le> 8"
proof (induction b depth count and bs depth count arbitrary: n and n
    rule: validateDocumentBlock_validateDocumentBlocks.induct)
  case (1 ty tx ti blocks items depth count0)
  show ?case
  proof (cases "ty = ''section''")
    case True
    show ?thesis
    proof (cases "(\<exists>b bs. blocks = Some (b # bs)) \<and> \<not> 1024 < count0 + 1 \<and> \<not> (8 \<le> depth \<or> \<not> documentText ti 256)")
      case inner: True
      then obtain b bs where bs: "blocks = Some (b # bs)" by blast
      have "validateDocumentBlocks (b # bs) (depth + 1) (count0 + 1) = Inr n \<longleftrightarrow>
          blocks_ok (b # bs) \<and> n = count0 + 1 + blocks_count (b # bs) \<and> n \<le> 1024 \<and>
          depth + 1 + blocks_depth (b # bs) \<le> 8"
        by (rule 1(1)) (use True inner bs in simp_all)
      then show ?thesis using True inner bs
        by (simp add: Let_def del: validateDocumentBlocks.simps blocks_ok.simps blocks_count.simps blocks_depth.simps)
          linarith
    next
      case inner: False
      show ?thesis
      proof (cases "\<exists>b bs. blocks = Some (b # bs)")
        case some: True
        then obtain b bs where bs: "blocks = Some (b # bs)" by blast
        have pos: "0 \<le> blocks_count (b # bs)" "0 \<le> blocks_depth (b # bs)"
          by (rule blocks_count_pos, rule blocks_depth_pos)
        show ?thesis using True inner bs pos
          by (auto simp: Let_def simp del: validateDocumentBlocks.simps blocks_ok.simps blocks_count.simps
              blocks_depth.simps)
      next
        case none: False
        then show ?thesis using True by (auto simp: Let_def split: option.split list.split)
      qed
    qed
  next
    case False
    have d: "depth \<le> 8" by fact
    show ?thesis
    proof (cases "ty = ''paragraph''")
      case True
      then show ?thesis using d by (simp add: Let_def) linarith
    next
      case para: False
      show ?thesis
      proof (cases "ty = ''bulleted_list'' \<or> ty = ''numbered_list''")
        case True
        then show ?thesis using d False para by (simp add: Let_def list_all_iff not_less Suc_le_eq) linarith
      next
        case none: False
        then show ?thesis using False para by (simp add: Let_def)
      qed
    qed
  qed
next
  case (3 b bs depth count)
  show ?case
  proof (cases "validateDocumentBlock b depth count")
    case (Inl e)
    then have "\<not> (block_ok b \<and> count + block_count b \<le> 1024 \<and> depth + block_depth b \<le> 8)"
      using 3(1) [OF 3(3), of "count + block_count b"] by simp
    with Inl blocks_count_pos [of bs] show ?thesis by auto
  next
    case (Inr m)
    then have m: "block_ok b \<and> m = count + block_count b \<and> m \<le> 1024 \<and> depth + block_depth b \<le> 8"
      using 3(1) [OF 3(3)] by simp
    then show ?thesis using 3(2) [OF Inr 3(3), of n] Inr by auto
  qed
qed auto

lemma service_documents_accept:
  "ValidateServiceDocuments ds = None \<longleftrightarrow>
     1 \<le> length ds \<and> length ds \<le> 7 \<and> distinct (map sd_ID ds) \<and>
     (\<forall>d \<in> set ds. ValidateServiceDocument d = None)"
proof -
  have "full_match documentIDPattern (sd_ID d)" if "ValidateServiceDocument d = None" for d
    using that ValidateDocumentIDs_None [of "[sd_ID d]"]
    by (auto simp: ValidateServiceDocument_def split: option.splits)
  then have ids: "validateEachDocument 0 ds = None \<Longrightarrow> \<forall>i \<in> set (map sd_ID ds). full_match documentIDPattern i"
    by (auto simp: validateEachDocument_None)
  have len: "\<not> (length ds = 0 \<or> 7 < length ds) \<longleftrightarrow> 1 \<le> length ds \<and> length ds \<le> 7" by linarith
  show ?thesis
  proof (cases "validateEachDocument 0 ds")
    case None
    then have "\<forall>d \<in> set ds. ValidateServiceDocument d = None"
      by (simp add: validateEachDocument_None)
    then show ?thesis using None ids [OF None] len
      by (auto simp: ValidateServiceDocuments_def ValidateDocumentIDs_None)
  next
    case (Some err)
    then have "\<not> (\<forall>d \<in> set ds. ValidateServiceDocument d = None)"
      using validateEachDocument_None [of 0 ds] by simp
    then show ?thesis using Some by (simp add: ValidateServiceDocuments_def)
  qed
qed

section \<open>Properties\<close>

text \<open>
  A descriptor list is valid exactly when it has one through seven valid descriptors with
  distinct identifiers.
\<close>

theorem service_documents_valid_iff:
  "ValidateServiceDocuments ds = None \<longleftrightarrow>
     1 \<le> length ds \<and> length ds \<le> 7 \<and> distinct (map sd_ID ds) \<and>
     (\<forall>d \<in> set ds. ValidateServiceDocument d = None)"
  by (rule service_documents_accept)

definition example_document :: ServiceDocument where
  "example_document = \<lparr>sd_ID = ''tos'', sd_Type = ''terms_of_service'', sd_Title = ''Terms'',
     sd_Enrollment = ''required'',
     sd_Representations = Some [\<lparr>rep_MediaType = ''text/html'', rep_URL = ''https://s.example/tos''\<rparr>]\<rparr>"

theorem service_documents_valid_iff_witness:
  "ValidateServiceDocuments [example_document] = None"
proof -
  have "ValidateServiceDocument example_document = None" by code_simp
  then show ?thesis by (subst service_documents_valid_iff) simp
qed

text \<open>
  A portable document that parses is the expected one, came from at most one MiB, has content,
  at most 1024 blocks in all, sections nested at most eight deep, and only well-formed blocks.
\<close>

theorem portable_document_limits:
  assumes "ParsePortableServiceDocument data expected = Inr d"
  shows "psd_ID d = expected \<and> full_match documentIDPattern expected \<and> int (length data) \<le> 1048576 \<and>
    elems (psd_Content d) \<noteq> [] \<and> psd_Summary d \<noteq> Some [] \<and>
    blocks_ok (elems (psd_Summary d)) \<and> blocks_ok (elems (psd_Content d)) \<and>
    blocks_count (elems (psd_Summary d)) + blocks_count (elems (psd_Content d)) \<le> 1024 \<and>
    blocks_depth (elems (psd_Summary d)) \<le> 8 \<and> blocks_depth (elems (psd_Content d)) \<le> 8"
proof -
  let ?s = "elems (psd_Summary d)" and ?c = "elems (psd_Content d)"
  obtain n m where sum: "validateDocumentBlocks ?s 0 0 = Inr n"
    and con: "validateDocumentBlocks ?c 0 n = Inr m"
    and rest: "psd_ID d = expected" "ValidateDocumentIDs [psd_ID d] = None" "int (length data) \<le> 1048576"
      "?c \<noteq> []" "psd_Summary d \<noteq> Some []"
    using assms
    by (auto simp: ParsePortableServiceDocument_def MaxServiceDocumentBytes_def
        split: if_splits sum.splits option.splits)
  have n: "blocks_ok ?s \<and> n = blocks_count ?s \<and> n \<le> 1024 \<and> blocks_depth ?s \<le> 8"
    using sum validateDocumentBlocks_Inr(2) [of 0 0 ?s n] by simp
  moreover have "blocks_ok ?c \<and> m = n + blocks_count ?c \<and> m \<le> 1024 \<and> blocks_depth ?c \<le> 8"
    using con n validateDocumentBlocks_Inr(2) [of 0 n ?c m] by simp
  ultimately show ?thesis using rest by (auto simp: ValidateDocumentIDs_None)
qed

definition example_portable :: string where
  "example_portable = quote_tildes
     ''{~format~:~aep-service-document~,~version~:~1.0~,~id~:~a~,~content~:[{~type~:~paragraph~,~text~:~t~}]}''"

theorem portable_document_limits_witness:
  "\<exists>d. ParsePortableServiceDocument example_portable ''a'' = Inr d \<and>
     psd_ID d = ''a'' \<and> full_match documentIDPattern ''a'' \<and> int (length example_portable) \<le> 1048576 \<and>
     elems (psd_Content d) \<noteq> [] \<and> psd_Summary d \<noteq> Some [] \<and>
     blocks_ok (elems (psd_Summary d)) \<and> blocks_ok (elems (psd_Content d)) \<and>
     blocks_count (elems (psd_Summary d)) + blocks_count (elems (psd_Content d)) \<le> 1024 \<and>
     blocks_depth (elems (psd_Summary d)) \<le> 8 \<and> blocks_depth (elems (psd_Content d)) \<le> 8"
proof -
  have "case ParsePortableServiceDocument example_portable ''a'' of Inr _ \<Rightarrow> True | Inl _ \<Rightarrow> False"
    by code_simp
  then obtain d where "ParsePortableServiceDocument example_portable ''a'' = Inr d"
    by (auto split: sum.splits)
  then show ?thesis using portable_document_limits by blast
qed

end
