(* ===== verification/Times.thy ===== *)
theory Times
  imports Validation
begin

text \<open>
  What the code uses of the package \<open>time\<close>: an instant is the nanoseconds since the Unix epoch, so
  \<open>After\<close>, \<open>Equal\<close> and \<open>Add\<close> are comparison and addition, and \<open>Unix\<close> rounds down to seconds.
  \<open>time.Parse\<close> is modelled for the layouts of a date and of RFC 3339, with what Go tolerates there
  (a one-digit hour, a fraction after a comma, an offset of up to 24 hours).
\<close>

type_synonym time = int
type_synonym duration = int

text \<open>The zero \<open>time.Time\<close>: midnight of January 1, year 1.\<close>

definition zero_time :: time where
  "zero_time = - 62135596800000000000"

definition time_IsZero :: "time \<Rightarrow> bool" where
  "time_IsZero t \<longleftrightarrow> t = zero_time"

definition time_Unix :: "time \<Rightarrow> int" where
  "time_Unix t = t div Second"

section \<open>The calendar\<close>

definition is_leap :: "int \<Rightarrow> bool" where
  "is_leap y \<longleftrightarrow> y mod 4 = 0 \<and> (y mod 100 \<noteq> 0 \<or> y mod 400 = 0)"

definition days_in :: "int \<Rightarrow> int \<Rightarrow> int" where
  "days_in m y =
     (if m = 2 then if is_leap y then 29 else 28
      else if m \<in> {4, 6, 9, 11} then 30 else 31)"

text \<open>Days since 1970-01-01; years are counted from March so that the leap day comes last.\<close>

definition days_from_civil :: "int \<Rightarrow> int \<Rightarrow> int \<Rightarrow> int" where
  "days_from_civil y m d =
     (let y' = (if m \<le> 2 then y - 1 else y);
          m' = (if m \<le> 2 then m + 9 else m - 3)
      in 365 * y' + y' div 4 - y' div 100 + y' div 400 + (153 * m' + 2) div 5 + d - 1 - 719468)"

definition civil_from_days :: "int \<Rightarrow> int \<times> int \<times> int" where
  "civil_from_days z0 =
     (let z = z0 + 719468;
          era = z div 146097;
          doe = z - era * 146097;
          yoe = (doe - doe div 1460 + doe div 36524 - doe div 146096) div 365;
          doy = doe - (365 * yoe + yoe div 4 - yoe div 100);
          mp = (5 * doy + 2) div 153;
          d = doy - (153 * mp + 2) div 5 + 1;
          m = (if mp < 10 then mp + 3 else mp - 9);
          y = yoe + era * 400 + (if m \<le> 2 then 1 else 0)
      in (y, m, d))"

section \<open>Parsing\<close>

definition get2 :: "string \<Rightarrow> (int \<times> string) option" where
  "get2 s =
     (case s of
        a # b # t \<Rightarrow> if is_digit a \<and> is_digit b then Some (digit_val a * 10 + digit_val b, t) else None
      | _ \<Rightarrow> None)"

definition get12 :: "string \<Rightarrow> (int \<times> string) option" where
  "get12 s =
     (case get2 s of
        Some r \<Rightarrow> Some r
      | None \<Rightarrow>
          (case s of a # t \<Rightarrow> if is_digit a then Some (digit_val a, t) else None | [] \<Rightarrow> None))"

definition get4 :: "string \<Rightarrow> (int \<times> string) option" where
  "get4 s =
     (case get2 s of
        None \<Rightarrow> None
      | Some (a, t) \<Rightarrow> (case get2 t of None \<Rightarrow> None | Some (b, u) \<Rightarrow> Some (a * 100 + b, u)))"

definition skip_char :: "char \<Rightarrow> string \<Rightarrow> string option" where
  "skip_char c s = (case s of x # t \<Rightarrow> if x = c then Some t else None | [] \<Rightarrow> None)"

abbreviation opt_bind :: "'a option \<Rightarrow> ('a \<Rightarrow> 'b option) \<Rightarrow> 'b option" where
  "opt_bind m f \<equiv> (case m of None \<Rightarrow> None | Some x \<Rightarrow> f x)"

text \<open>The date, checked for its month and, as at the end of Go's parser, for its day.\<close>

definition parse_ymd :: "string \<Rightarrow> ((int \<times> int \<times> int) \<times> string) option" where
  "parse_ymd s =
     opt_bind (get4 s) (\<lambda>(y, s1).
     opt_bind (skip_char CHR ''-'' s1) (\<lambda>s2.
     opt_bind (get2 s2) (\<lambda>(m, s3).
     if m < 1 \<or> 12 < m then None else
     opt_bind (skip_char CHR ''-'' s3) (\<lambda>s4.
     opt_bind (get2 s4) (\<lambda>(d, s5).
     if d < 1 \<or> days_in m y < d then None else Some ((y, m, d), s5))))))"

definition parse_date :: "string \<Rightarrow> time option" where
  "parse_date s =
     (case parse_ymd s of
        Some ((y, m, d), []) \<Rightarrow> Some (days_from_civil y m d * 86400 * Second)
      | _ \<Rightarrow> None)"

text \<open>A fraction of a second, cut to nine digits.\<close>

definition parse_fraction :: "string \<Rightarrow> int \<times> string" where
  "parse_fraction s =
     (case s of
        c # d # _ \<Rightarrow>
          if (c = CHR ''.'' \<or> c = CHR '','') \<and> is_digit d then
            (let ds = take 9 (takeWhile is_digit (drop 1 s)) in
             (foldl (\<lambda>acc x. acc * 10 + digit_val x) 0 ds * 10 ^ (9 - length ds),
              dropWhile is_digit (drop 1 s)))
          else (0, s)
      | _ \<Rightarrow> (0, s))"

definition parse_zone :: "string \<Rightarrow> (int \<times> string) option" where
  "parse_zone s =
     (case s of
        [] \<Rightarrow> None
      | c # t \<Rightarrow>
          if c = CHR ''Z'' then Some (0, t)
          else if c \<noteq> CHR ''+'' \<and> c \<noteq> CHR ''-'' then None
          else
            opt_bind (get2 t) (\<lambda>(hr, t1).
            opt_bind (skip_char CHR '':'' t1) (\<lambda>t2.
            opt_bind (get2 t2) (\<lambda>(mm, t3).
            if 24 < hr \<or> 60 < mm then None
            else Some ((if c = CHR ''+'' then 1 else -1) * (hr * 60 + mm) * 60, t3)))))"

definition parse_clock :: "string \<Rightarrow> (int \<times> string) option" where
  "parse_clock s =
     opt_bind (get12 s) (\<lambda>(h, s1).
     if 24 \<le> h then None else
     opt_bind (skip_char CHR '':'' s1) (\<lambda>s2.
     opt_bind (get2 s2) (\<lambda>(m, s3).
     if 60 \<le> m then None else
     opt_bind (skip_char CHR '':'' s3) (\<lambda>s4.
     opt_bind (get2 s4) (\<lambda>(sec, s5).
     if 60 \<le> sec then None else Some ((h * 60 + m) * 60 + sec, s5))))))"

definition parse_rfc3339 :: "string \<Rightarrow> time option" where
  "parse_rfc3339 s =
     opt_bind (parse_ymd s) (\<lambda>((y, m, d), s1).
     opt_bind (skip_char CHR ''T'' s1) (\<lambda>s2.
     opt_bind (parse_clock s2) (\<lambda>(sec, s3).
     case parse_fraction s3 of (ns, s4) \<Rightarrow>
     opt_bind (parse_zone s4) (\<lambda>(off, s5).
     if s5 \<noteq> [] then None
     else Some ((days_from_civil y m d * 86400 + sec - off) * Second + ns)))))"

section \<open>Formatting\<close>

definition pad :: "nat \<Rightarrow> int \<Rightarrow> string" where
  "pad w i =
     (let ds = digits_of \<bar>i\<bar> in
      (if i < 0 then ''-'' else []) @ replicate (w - length ds) CHR ''0'' @ ds)"

text \<open>\<open>t.UTC().Format(time.RFC3339)\<close>.\<close>

definition format_rfc3339 :: "time \<Rightarrow> string" where
  "format_rfc3339 t =
     (let secs = time_Unix t; sod = secs mod 86400 in
      case civil_from_days (secs div 86400) of (y, m, d) \<Rightarrow>
        pad 4 y @ ''-'' @ pad 2 m @ ''-'' @ pad 2 d @ ''T'' @
        pad 2 (sod div 3600) @ '':'' @ pad 2 (sod div 60 mod 60) @ '':'' @ pad 2 (sod mod 60) @ ''Z'')"

lemmas time_defs [go_defs] =
  zero_time_def time_IsZero_def time_Unix_def is_leap_def days_in_def days_from_civil_def
  civil_from_days_def get2_def get12_def get4_def skip_char_def parse_ymd_def parse_date_def
  parse_fraction_def parse_zone_def parse_clock_def parse_rfc3339_def pad_def format_rfc3339_def

end
