(* ===== verification/Claims.thy ===== *)
theory Claims
  imports Documents Times
begin

text \<open>
  \<open>claims.go\<close> and the claim codecs of \<open>additional.go\<close>: Claim Values, their validation (mailboxes,
  telephone numbers, dates), and which requested claims an Agent can satisfy.
\<close>

section \<open>Codecs\<close>

definition zero_address :: ContactAddressPrimary where
  "zero_address = \<lparr>addr_City = None, addr_Country = [], addr_FirstName = [], addr_LastName = [],
     addr_Line1 = [], addr_Line2 = [], addr_Line3 = [], addr_Postcode = [], addr_Region = [],
     addr_Additional = []\<rparr>"

definition fields_address :: "ContactAddressPrimary fields" where
  "fields_address =
     [(''city'', on_field (dec_ptr dec_string []) addr_City (\<lambda>x. addr_City_update (\<lambda>_. x))),
      (''country'', on_field dec_string addr_Country (\<lambda>x. addr_Country_update (\<lambda>_. x))),
      (''first_name'', on_field dec_string addr_FirstName (\<lambda>x. addr_FirstName_update (\<lambda>_. x))),
      (''last_name'', on_field dec_string addr_LastName (\<lambda>x. addr_LastName_update (\<lambda>_. x))),
      (''line1'', on_field dec_string addr_Line1 (\<lambda>x. addr_Line1_update (\<lambda>_. x))),
      (''line2'', on_field dec_string addr_Line2 (\<lambda>x. addr_Line2_update (\<lambda>_. x))),
      (''line3'', on_field dec_string addr_Line3 (\<lambda>x. addr_Line3_update (\<lambda>_. x))),
      (''postcode'', on_field dec_string addr_Postcode (\<lambda>x. addr_Postcode_update (\<lambda>_. x))),
      (''region'', on_field dec_string addr_Region (\<lambda>x. addr_Region_update (\<lambda>_. x)))]"

definition ContactAddressPrimary_UnmarshalJSON :: "ContactAddressPrimary decoder" where
  "ContactAddressPrimary_UnmarshalJSON =
     unmarshalAdditional fields_address zero_address (\<lambda>x. addr_Additional_update (\<lambda>_. x))"

definition ContactAddressPrimary_MarshalJSON :: "ContactAddressPrimary \<Rightarrow> string option" where
  "ContactAddressPrimary_MarshalJSON v =
     encodeAdditional
       (omit_nil ''city'' enc_string (addr_City v) @
        [(''country'', enc_string (addr_Country v)), (''first_name'', enc_string (addr_FirstName v)),
         (''last_name'', enc_string (addr_LastName v)), (''line1'', enc_string (addr_Line1 v))] @
        omit_empty ''line2'' (addr_Line2 v) @ omit_empty ''line3'' (addr_Line3 v) @
        omit_empty ''postcode'' (addr_Postcode v) @ omit_empty ''region'' (addr_Region v))
       (jsonFieldNames fields_address) (addr_Additional v)"

definition zero_claims :: ClaimValues where
  "zero_claims = \<lparr>cv_ContactAddressPrimary = None, cv_ContactEmail = None, cv_ContactMobile = None,
     cv_PersonBirthdate = None, cv_PersonFirstName = None, cv_PersonLastName = None,
     cv_PersonUsername = None, cv_Additional = []\<rparr>"

definition claim_fields :: "ClaimValues fields" where
  "claim_fields =
     [(ClaimContactEmail, on_field (dec_ptr dec_string []) cv_ContactEmail (\<lambda>x. cv_ContactEmail_update (\<lambda>_. x))),
      (ClaimContactMobile, on_field (dec_ptr dec_string []) cv_ContactMobile (\<lambda>x. cv_ContactMobile_update (\<lambda>_. x))),
      (ClaimPersonBirthdate, on_field (dec_ptr dec_string []) cv_PersonBirthdate (\<lambda>x. cv_PersonBirthdate_update (\<lambda>_. x))),
      (ClaimPersonFirstName, on_field (dec_ptr dec_string []) cv_PersonFirstName (\<lambda>x. cv_PersonFirstName_update (\<lambda>_. x))),
      (ClaimPersonLastName, on_field (dec_ptr dec_string []) cv_PersonLastName (\<lambda>x. cv_PersonLastName_update (\<lambda>_. x))),
      (ClaimPersonUsername, on_field (dec_ptr dec_string []) cv_PersonUsername (\<lambda>x. cv_PersonUsername_update (\<lambda>_. x)))]"

text \<open>The switch of \<open>ClaimValues.UnmarshalJSON\<close> on one member, whose name must match exactly.\<close>

definition dec_claim :: "string \<Rightarrow> RawMessage \<Rightarrow> ClaimValues \<Rightarrow> ClaimValues option" where
  "dec_claim name raw v =
     (if name = ClaimContactAddressPrimary then
        map_option (\<lambda>address. v\<lparr>cv_ContactAddressPrimary := Some address\<rparr>)
          (ContactAddressPrimary_UnmarshalJSON raw zero_address)
      else case map_of claim_fields name of
             Some d \<Rightarrow> d raw v
           | None \<Rightarrow> Some (v\<lparr>cv_Additional := AList.update name raw (cv_Additional v)\<rparr>))"

fun dec_claims :: "(string \<times> RawMessage) list \<Rightarrow> ClaimValues \<Rightarrow> ClaimValues option" where
  "dec_claims [] v = Some v"
| "dec_claims ((name, raw) # claims) v =
     (case dec_claim name raw v of None \<Rightarrow> None | Some v' \<Rightarrow> dec_claims claims v')"

definition ClaimValues_UnmarshalJSON :: "ClaimValues decoder" where
  "ClaimValues_UnmarshalJSON data old =
     (case dec_object data of
        None \<Rightarrow> None
      | Some None \<Rightarrow> None
      | Some (Some claims) \<Rightarrow> dec_claims claims (old\<lparr>cv_Additional := []\<rparr>))"

text \<open>The members \<open>ClaimValues.MarshalJSON\<close> puts over the additional ones.\<close>

definition known_claims :: "ClaimValues \<Rightarrow> (string \<times> string) list option" where
  "known_claims v =
     (let strings =
        omit_nil ClaimContactEmail enc_string (cv_ContactEmail v) @
        omit_nil ClaimContactMobile enc_string (cv_ContactMobile v) @
        omit_nil ClaimPersonBirthdate enc_string (cv_PersonBirthdate v) @
        omit_nil ClaimPersonFirstName enc_string (cv_PersonFirstName v) @
        omit_nil ClaimPersonLastName enc_string (cv_PersonLastName v) @
        omit_nil ClaimPersonUsername enc_string (cv_PersonUsername v) in
      case cv_ContactAddressPrimary v of
        None \<Rightarrow> Some strings
      | Some address \<Rightarrow>
          map_option (\<lambda>t. (ClaimContactAddressPrimary, t) # strings) (ContactAddressPrimary_MarshalJSON address))"

definition ClaimValues_MarshalJSON :: "ClaimValues \<Rightarrow> string option" where
  "ClaimValues_MarshalJSON v =
     (case known_claims v of
        None \<Rightarrow> None
      | Some known \<Rightarrow> enc_raw_map (update_all (cv_Additional v) known))"

lemmas claim_codec_defs [go_defs] =
  zero_address_def fields_address_def ContactAddressPrimary_UnmarshalJSON_def
  ContactAddressPrimary_MarshalJSON_def zero_claims_def claim_fields_def dec_claim_def
  ClaimValues_UnmarshalJSON_def known_claims_def ClaimValues_MarshalJSON_def

section \<open>Mailboxes\<close>

text \<open>The scan of a quoted local part for the quote an at sign follows.\<close>

fun quotedSeparator :: "bool \<Rightarrow> int \<Rightarrow> string \<Rightarrow> int" where
  "quotedSeparator escaped index [] = -1"
| "quotedSeparator escaped index (c # s) =
     (if escaped then quotedSeparator False (index + 1) s
      else if c = CHR 0x5C then quotedSeparator True (index + 1) s
      else if c = CHR 0x22 then
        (case s of d # _ \<Rightarrow> if d = CHR ''@'' then index + 1 else -1 | [] \<Rightarrow> -1)
      else quotedSeparator False (index + 1) s)"

definition mailboxSeparator :: "string \<Rightarrow> int" where
  "mailboxSeparator val =
     (if \<not> has_prefix val [CHR 0x22] then
        (let separator = index_byte CHR ''@'' val in
         if separator \<noteq> last_index_byte CHR ''@'' val then -1 else separator)
      else quotedSeparator False 1 (drop 1 val))"

fun quotedContent :: "string \<Rightarrow> bool" where
  "quotedContent [] \<longleftrightarrow> True"
| "quotedContent (c # s) \<longleftrightarrow>
     (if c = CHR 0x5C then
        (case s of [] \<Rightarrow> False | x # t \<Rightarrow> \<not> (byte x < 32 \<or> 126 < byte x) \<and> quotedContent t)
      else (in_range 32 33 c \<or> in_range 35 91 c \<or> in_range 93 126 c) \<and> quotedContent s)"

definition isQuotedLocalPart :: "string \<Rightarrow> bool" where
  "isQuotedLocalPart val \<longleftrightarrow>
     \<not> (length val < 2 \<or> \<not> has_suffix val [CHR 0x22]) \<and> quotedContent (butlast (drop 1 val))"

definition isLocalPart :: "string \<Rightarrow> bool" where
  "isLocalPart val \<longleftrightarrow>
     (if has_prefix val [CHR 0x22] then isQuotedLocalPart val
      else list_all (full_match atomPattern) (split_on CHR ''.'' val))"

definition isAddressLiteral :: "string \<Rightarrow> bool" where
  "isAddressLiteral val \<longleftrightarrow>
     (if length val < 2 \<or> hd val \<noteq> CHR ''['' \<or> last val \<noteq> CHR '']'' then False
      else
        let content = butlast (drop 1 val) in
        if contains_str content ''.'' \<and> is_ip content then True
        else if has_prefix content ''IPv6:'' then is_ip (drop 5 content)
        else
          let separator = index_byte CHR '':'' content in
          if separator < 1 \<or> separator = int (length content) - 1 then False
          else full_match addressTagPattern (take (nat separator) content) \<and>
               list_all (\<lambda>c. in_range 33 90 c \<or> in_range 94 126 c) (drop (nat (separator + 1)) content))"

definition isMailboxDomain :: "string \<Rightarrow> bool" where
  "isMailboxDomain val \<longleftrightarrow>
     (if has_prefix val ''['' \<or> has_suffix val '']'' then isAddressLiteral val
      else list_all (\<lambda>label. \<not> (63 < length label \<or> \<not> full_match domainLabelPattern label))
             (split_on CHR ''.'' val))"

definition isEmailMailbox :: "string \<Rightarrow> bool" where
  "isEmailMailbox val \<longleftrightarrow>
     (let separator = mailboxSeparator val in
      if separator < 1 \<or> separator = int (length val) - 1 then False
      else
        let local = take (nat separator) val; domain = drop (nat (separator + 1)) val in
        int (length local) \<le> 64 \<and> int (length domain) \<le> 255 \<and> isLocalPart local \<and> isMailboxDomain domain)"

definition isFullDate :: "string \<Rightarrow> bool" where
  "isFullDate val \<longleftrightarrow>
     \<not> (length val \<noteq> 10 \<or> val ! 4 \<noteq> CHR ''-'' \<or> val ! 7 \<noteq> CHR ''-'') \<and> parse_date val \<noteq> None"

section \<open>Validation\<close>

definition validateAddress :: "ContactAddressPrimary \<Rightarrow> ValidationIssue list" where
  "validateAddress address =
     (let path = ''$.contact.address.primary'' in
      requireNonEmpty (addr_Country address) (path @ ''.country'') @
      (if addr_Country address \<noteq> [] \<and> \<not> full_match countryPattern (addr_Country address)
       then [issue (path @ ''.country'') ''Expected a two-letter uppercase country code.''] else []) @
      requireNonEmpty (addr_FirstName address) (path @ ''.first_name'') @
      requireNonEmpty (addr_LastName address) (path @ ''.last_name'') @
      requireNonEmpty (addr_Line1 address) (path @ ''.line1'') @
      (if addr_City address = Some []
       then [issue (path @ ''.city'') ''Expected a non-empty string.''] else []) @
      (if map_of (addr_Additional address) ''postal_code'' \<noteq> None
       then [issue (path @ ''.postal_code'') ''Expected the postcode member.''] else []))"

definition ValidateClaimValues :: "ClaimValues \<Rightarrow> go_error option" where
  "ValidateClaimValues val =
     validationResult ''Claim Values''
       ((case cv_ContactAddressPrimary val of Some address \<Rightarrow> validateAddress address | None \<Rightarrow> []) @
        validateOptionalString (cv_ContactEmail val) ''$.contact.email''
          (\<lambda>input. 3 \<le> length input \<and> isEmailMailbox input) ''Expected an RFC 5321 Mailbox.'' @
        validateOptionalString (cv_ContactMobile val) ''$.contact.mobile'' (full_match e164Pattern)
          ''Expected an E.164 telephone number.'' @
        validateOptionalString (cv_PersonBirthdate val) ''$.person.birthdate'' isFullDate
          ''Expected an RFC 3339 full-date.'' @
        validateOptionalNonEmpty (cv_PersonFirstName val) ''$.person.first_name'' @
        validateOptionalNonEmpty (cv_PersonLastName val) ''$.person.last_name'' @
        validateOptionalNonEmpty (cv_PersonUsername val) ''$.person.username'')"

definition claim_null_paths :: "string list" where
  "claim_null_paths =
     [''/contact.address.primary'', ''/contact.address.primary/city'', ''/contact.address.primary/country'',
      ''/contact.address.primary/first_name'', ''/contact.address.primary/last_name'',
      ''/contact.address.primary/line1'', ''/contact.address.primary/line2'',
      ''/contact.address.primary/line3'', ''/contact.address.primary/postcode'',
      ''/contact.address.primary/region'', ''/contact.email'', ''/contact.mobile'',
      ''/person.birthdate'', ''/person.first_name'', ''/person.last_name'', ''/person.username'']"

definition ParseClaimValues :: "string \<Rightarrow> ClaimValues result" where
  "ParseClaimValues data =
     (case decodeOne ClaimValues_UnmarshalJSON zero_claims data of
        Inl err \<Rightarrow> Inl (wrapDecodeError ''Claim Values'' err)
      | Inr val \<Rightarrow>
          (case rejectNullPaths data ''Claim Values'' claim_null_paths of
             Some err \<Rightarrow> Inl err
           | None \<Rightarrow> (case ValidateClaimValues val of Some err \<Rightarrow> Inl err | None \<Rightarrow> Inr val)))"

section \<open>Requested claims\<close>

record ClaimSupportEvaluation =
  cse_CanSatisfyRequired :: bool
  cse_SupportedOptional :: "ClaimName slice"
  cse_SupportedPreferred :: "ClaimName slice"
  cse_UnsupportedRequired :: "ClaimName slice"

definition EvaluateClaimSupport :: "InspectClaims option \<Rightarrow> ClaimName list \<Rightarrow> ClaimSupportEvaluation" where
  "EvaluateClaimSupport requested supported =
     (case requested of
        None \<Rightarrow> \<lparr>cse_CanSatisfyRequired = True, cse_SupportedOptional = None,
                  cse_SupportedPreferred = None, cse_UnsupportedRequired = None\<rparr>
      | Some r \<Rightarrow>
          (let unsupported = filter (\<lambda>name. name \<notin> set supported) (elems (ic_Required r)) in
           \<lparr>cse_CanSatisfyRequired = (unsupported = []),
            cse_SupportedOptional = append_nil (filter (\<lambda>name. name \<in> set supported) (elems (ic_Optional r))),
            cse_SupportedPreferred = append_nil (filter (\<lambda>name. name \<in> set supported) (elems (ic_Preferred r))),
            cse_UnsupportedRequired = append_nil unsupported\<rparr>))"

definition ClaimValues_has :: "ClaimValues \<Rightarrow> ClaimName \<Rightarrow> bool" where
  "ClaimValues_has val name \<longleftrightarrow>
     (if name = ClaimContactAddressPrimary then cv_ContactAddressPrimary val \<noteq> None
      else if name = ClaimContactEmail then cv_ContactEmail val \<noteq> None
      else if name = ClaimContactMobile then cv_ContactMobile val \<noteq> None
      else if name = ClaimPersonBirthdate then cv_PersonBirthdate val \<noteq> None
      else if name = ClaimPersonFirstName then cv_PersonFirstName val \<noteq> None
      else if name = ClaimPersonLastName then cv_PersonLastName val \<noteq> None
      else if name = ClaimPersonUsername then cv_PersonUsername val \<noteq> None
      else map_of (cv_Additional val) name \<noteq> None)"

definition MissingRequiredClaimNames :: "ClaimName list \<Rightarrow> ClaimValues option \<Rightarrow> ClaimName list" where
  "MissingRequiredClaimNames required vals =
     filter (\<lambda>name. case vals of None \<Rightarrow> True | Some v \<Rightarrow> \<not> ClaimValues_has v name) required"

lemmas claims_defs [go_defs] =
  mailboxSeparator_def isQuotedLocalPart_def isLocalPart_def isAddressLiteral_def isMailboxDomain_def
  isEmailMailbox_def isFullDate_def validateAddress_def ValidateClaimValues_def claim_null_paths_def
  ParseClaimValues_def EvaluateClaimSupport_def ClaimValues_has_def MissingRequiredClaimNames_def

section \<open>Lemmas\<close>

abbreviation printable :: "char \<Rightarrow> bool" where
  "printable c \<equiv> 32 \<le> byte c \<and> byte c \<le> 126"

lemma quotedContent_printable: "quotedContent s \<Longrightarrow> \<forall>c \<in> set s. printable c"
proof (induction s rule: quotedContent.induct)
  case (2 c s)
  show ?case
  proof (cases "c = CHR 0x5C")
    case True
    then obtain x t where s: "s = x # t" and x: "printable x" and t: "quotedContent t"
      using 2(3) by (auto split: list.splits)
    have "\<forall>c \<in> set t. printable c" using 2(1) [OF True s] t x by simp
    then show ?thesis using True s x by simp
  next
    case False
    then have "quotedContent s" "printable c" using 2(3) by (auto simp: in_range_def)
    then show ?thesis using 2(2) [OF False] by simp
  qed
qed simp

lemma atom_char_printable: "atom_char c \<Longrightarrow> printable c"
  by (auto simp: atom_char_def is_alnum_def is_lower_def is_upper_def is_digit_def in_range_def)

lemma alnum_dash_printable: "alnum_dash c \<Longrightarrow> printable c"
  by (auto simp: alnum_dash_def is_alnum_def is_lower_def is_upper_def is_digit_def in_range_def)

lemma pattern_chars:
  assumes "full_match r s" "classes_in P r"
  shows "\<forall>c \<in> set s. P c"
  using assms lang_chars by (auto simp: full_match_lang)

lemma set_join_with: "set (join_with sep ps) \<subseteq> set sep \<union> (\<Union>p \<in> set ps. set p)"
  by (induction sep ps rule: join_with.induct) auto

lemma split_chars:
  assumes "\<forall>p \<in> set (split_on c s). \<forall>x \<in> set p. P x" and "P c"
  shows "\<forall>x \<in> set s. P x"
  using set_join_with [of "[c]" "split_on c s"] assms unfolding join_split_on by auto

lemma isLocalPart_printable:
  assumes "isLocalPart v"
  shows "\<forall>c \<in> set v. printable c"
proof (cases "has_prefix v [CHR 0x22]")
  case True
  then have q: "isQuotedLocalPart v" using assms by (simp add: isLocalPart_def)
  then have len: "2 \<le> length v" and suf: "has_suffix v [CHR 0x22]"
    and inner: "quotedContent (butlast (drop 1 v))" by (auto simp: isQuotedLocalPart_def)
  obtain a w where v: "v = a # w" using len by (cases v) auto
  with len obtain u z where w: "w = u @ [z]" by (cases w rule: rev_cases) auto
  have "a = CHR 0x22" using True v by simp
  moreover have "z = CHR 0x22" using suf v w by (auto simp: has_suffix_append)
  moreover have "\<forall>c \<in> set u. printable c" using quotedContent_printable inner v w by simp
  ultimately show ?thesis using v w by auto
next
  case False
  then have "\<forall>p \<in> set (split_on CHR ''.'' v). full_match atomPattern p"
    using assms by (simp add: isLocalPart_def list_all_iff)
  then have "\<forall>p \<in> set (split_on CHR ''.'' v). \<forall>c \<in> set p. printable c"
    using pattern_chars [of atomPattern _ printable] atom_char_printable
    by (auto simp: atomPattern_def plus_rx_def)
  then show ?thesis by (rule split_chars) simp
qed

abbreviation ip_char :: "char \<Rightarrow> bool" where
  "ip_char c \<equiv> is_hex c \<or> c = CHR ''.'' \<or> c = CHR '':''"

lemma ip_char_printable: "ip_char c \<Longrightarrow> printable c"
  by (auto simp: is_hex_def is_digit_def in_range_def)

lemma valid_ipv4_chars: "valid_ipv4 s \<Longrightarrow> \<forall>c \<in> set s. ip_char c"
  unfolding valid_ipv4_def Let_def
  by (rule split_chars [where c = "CHR ''.''"]) (auto simp: list_all_iff ipv4_octet_def is_hex_def)

lemma ipv6_groups_chars: "ipv6_groups n i ell s = Some r \<Longrightarrow> \<forall>c \<in> set s. ip_char c"
proof (induction n i ell s rule: ipv6_groups.induct)
  case (2 room i ell s)
  let ?rest = "dropWhile is_hex s"
  have s: "s = takeWhile is_hex s @ ?rest" by simp
  have hex: "\<forall>c \<in> set (takeWhile is_hex s). ip_char c" by (auto dest: set_takeWhileD)
  have "\<forall>c \<in> set ?rest. ip_char c"
  proof (cases ?rest)
    case (Cons c t)
    show ?thesis
    proof (cases "c = CHR ''.''")
      case True
      then have "valid_ipv4 s" using 2(3) Cons by (auto simp: Let_def split: if_splits)
      then have "\<forall>c \<in> set s. ip_char c" by (rule valid_ipv4_chars)
      then show ?thesis by (metis set_dropWhileD)
    next
      case False
      then have c: "c = CHR '':''" and t: "t \<noteq> []" using 2(3) Cons by (auto simp: Let_def split: if_splits)
      have "\<forall>c \<in> set t. ip_char c"
      proof (cases "hd t = CHR '':''")
        case True
        show ?thesis
        proof (cases "tl t = []")
          case True
          then show ?thesis using \<open>hd t = _\<close> t by (cases t) auto
        next
          case rest: False
          then have "\<forall>c \<in> set (tl t). ip_char c"
            using 2(1) [OF refl refl _ Cons False] 2(3) Cons False c t True
            by (auto simp: Let_def split: if_splits)
          then show ?thesis using True t by (cases t) auto
        qed
      next
        case no: False
        then show ?thesis
          using 2(2) [OF refl refl _ Cons False] 2(3) Cons False c t
          by (auto simp: Let_def split: if_splits)
      qed
      then show ?thesis using Cons c by simp
    qed
  next
    case Nil
    then show ?thesis by (simp only: list.set ball_empty)
  qed
  with hex show ?case using s by (metis Un_iff set_append)
qed (auto split: if_splits)

lemma is_ip_chars:
  assumes "is_ip s"
  shows "\<forall>c \<in> set s. ip_char c"
proof -
  have "valid_ipv4 s \<or> valid_ipv6_groups s"
    using assms by (auto simp: is_ip_def parse_addr_def cut_at_def split: list.splits if_splits prod.splits)
  then show ?thesis
  proof
    assume g: "valid_ipv6_groups s"
    let ?lead = "has_prefix s ''::''"
    show ?thesis
    proof (cases ?lead)
      case True
      then obtain t where t: "s = CHR '':'' # CHR '':'' # t" by (auto simp: has_prefix_append)
      show ?thesis
      proof (cases t)
        case (Cons a u)
        then obtain r where "ipv6_groups 8 0 True t = Some r"
          using g t by (auto simp: valid_ipv6_groups_def Let_def split: option.splits)
        then show ?thesis using ipv6_groups_chars t by fastforce
      qed (use t in simp)
    next
      case False
      then obtain r where "ipv6_groups 8 0 False s = Some r"
        using g by (auto simp: valid_ipv6_groups_def Let_def split: option.splits)
      then show ?thesis using ipv6_groups_chars by blast
    qed
  qed (rule valid_ipv4_chars)
qed

lemma isMailboxDomain_printable:
  assumes "isMailboxDomain v"
  shows "\<forall>c \<in> set v. printable c"
proof (cases "has_prefix v ''['' \<or> has_suffix v '']''")
  case True
  then have lit: "isAddressLiteral v" using assms by (simp add: isMailboxDomain_def)
  let ?content = "butlast (drop 1 v)"
  have len: "2 \<le> length v" and a: "hd v = CHR ''[''" and z: "last v = CHR '']''"
    using lit by (auto simp: isAddressLiteral_def split: if_splits)
  obtain w where w: "v = CHR ''['' # w" using len a by (cases v) auto
  with len obtain u y where u: "w = u @ [y]" by (cases w rule: rev_cases) auto
  have y: "y = CHR '']''" using z w u by simp
  have content: "?content = u" using w u by simp
  have "\<forall>c \<in> set u. printable c"
  proof (cases "is_ip u")
    case True
    then show ?thesis using is_ip_chars ip_char_printable by blast
  next
    case noip: False
    show ?thesis
    proof (cases "has_prefix u ''IPv6:''")
      case True
      then have "is_ip (drop 5 u)" using lit noip content len a z by (simp add: isAddressLiteral_def Let_def)
      then have "\<forall>c \<in> set (drop 5 u). printable c" using is_ip_chars ip_char_printable by blast
      moreover obtain t where "u = ''IPv6:'' @ t" using True by (auto simp: has_prefix_append)
      ultimately show ?thesis by auto
    next
      case False
      let ?sep = "index_byte CHR '':'' u"
      have sep: "\<not> ?sep < 1" and tag: "full_match addressTagPattern (take (nat ?sep) u)"
        and rest: "list_all (\<lambda>c. in_range 33 90 c \<or> in_range 94 126 c) (drop (nat (?sep + 1)) u)"
        using lit noip False content len a z by (auto simp: isAddressLiteral_def Let_def split: if_splits)
      have k: "0 \<le> index_where (\<lambda>x. x = CHR '':'') u" using sep by (simp add: index_byte_def)
      define t where "t = drop (Suc (nat ?sep)) u"
      have split: "u = take (nat ?sep) u @ CHR '':'' # t"
        using index_where_found [OF k] unfolding index_byte_def t_def by simp
      have "nat (?sep + 1) = Suc (nat ?sep)" using sep by linarith
      then have "drop (nat (?sep + 1)) u = t" by (simp add: t_def)
      then have "\<forall>c \<in> set t. printable c" using rest by (auto simp: list_all_iff in_range_def)
      moreover have "\<forall>c \<in> set (take (nat ?sep) u). printable c"
        using pattern_chars [OF tag, of printable] alnum_dash_printable
        by (auto simp: addressTagPattern_def alnum_dash_def)
      moreover have "set u = set (take (nat ?sep) u) \<union> {CHR '':''} \<union> set t" by (subst split) auto
      ultimately show ?thesis by auto
    qed
  qed
  then show ?thesis using w u y by auto
next
  case False
  then have "\<forall>p \<in> set (split_on CHR ''.'' v). full_match domainLabelPattern p"
    using assms by (auto simp: isMailboxDomain_def list_all_iff)
  then have "\<forall>p \<in> set (split_on CHR ''.'' v). \<forall>c \<in> set p. printable c"
    using pattern_chars [of domainLabelPattern _ printable] alnum_dash_printable
    by (auto simp: domainLabelPattern_def optional_def alnum_dash_def)
  then show ?thesis by (rule split_chars) simp
qed

text \<open>A separator that is found is the position of an at sign.\<close>

lemma quotedSeparator_at:
  assumes "quotedSeparator e i s = k" and "0 \<le> i" and "k \<noteq> -1"
  shows "i \<le> k \<and> nat (k - i) < length s \<and> s ! nat (k - i) = CHR ''@''"
  using assms
proof (induction e i s rule: quotedSeparator.induct)
  case (2 e i c s)
  show ?case
  proof (cases "\<not> e \<and> c = CHR 0x22")
    case True
    then show ?thesis using 2(4-6) by (auto split: list.splits if_splits)
  next
    case False
    then have "i + 1 \<le> k \<and> nat (k - (i + 1)) < length s \<and> s ! nat (k - (i + 1)) = CHR ''@''"
      using 2 by (auto split: if_splits)
    moreover from this have "nat (k - i) = Suc (nat (k - (i + 1)))" by linarith
    ultimately show ?thesis by auto
  qed
qed simp

lemma mailboxSeparator_at:
  assumes "\<not> mailboxSeparator v < 1"
  shows "v = take (nat (mailboxSeparator v)) v @ CHR ''@'' # drop (nat (mailboxSeparator v + 1)) v"
proof -
  let ?k = "mailboxSeparator v"
  have "nat ?k < length v \<and> v ! nat ?k = CHR ''@''"
  proof (cases "has_prefix v [CHR 0x22]")
    case True
    then obtain t where v: "v = CHR 0x22 # t" by (auto simp: has_prefix_append)
    then have "quotedSeparator False 1 t = ?k" by (simp add: mailboxSeparator_def)
    then have "1 \<le> ?k \<and> nat (?k - 1) < length t \<and> t ! nat (?k - 1) = CHR ''@''"
      using quotedSeparator_at [of False 1 t ?k] assms by simp
    moreover have "nat ?k = Suc (nat (?k - 1))" using assms by linarith
    ultimately show ?thesis using v by simp
  next
    case False
    then have k: "?k = index_where (\<lambda>x. x = CHR ''@'') v"
      using assms by (auto simp: mailboxSeparator_def index_byte_def Let_def split: if_splits)
    then show ?thesis using index_where_found [of "\<lambda>x. x = CHR ''@''" v] assms by simp
  qed
  moreover have "nat (?k + 1) = Suc (nat ?k)" using assms by linarith
  ultimately show ?thesis by (metis id_take_nth_drop)
qed

section \<open>Properties\<close>

text \<open>
  A value accepted as a mailbox is a local part of 1 through 64 bytes, an at sign and a domain
  of 1 through 255 bytes, every byte of it printable ASCII: a mailbox never carries a control
  character or a line break.
\<close>

theorem mailbox_shape:
  assumes "isEmailMailbox v"
  shows "\<exists>local domain. v = local @ ''@'' @ domain \<and> isLocalPart local \<and> isMailboxDomain domain \<and>
    1 \<le> length local \<and> length local \<le> 64 \<and> 1 \<le> length domain \<and> length domain \<le> 255 \<and>
    (\<forall>c \<in> set v. 32 \<le> byte c \<and> byte c \<le> 126)"
proof -
  let ?k = "mailboxSeparator v"
  let ?local = "take (nat ?k) v" and ?domain = "drop (nat (?k + 1)) v"
  have k: "\<not> ?k < 1" "?k \<noteq> int (length v) - 1" and len: "length ?local \<le> 64" "length ?domain \<le> 255"
    and parts: "isLocalPart ?local" "isMailboxDomain ?domain"
    using assms by (auto simp: isEmailMailbox_def Let_def split: if_splits)
  note v = mailboxSeparator_at [OF k(1)]
  have "nat ?k < length v" using arg_cong [OF v, of length] k by auto
  then have "1 \<le> length ?local" "1 \<le> length ?domain" using k by auto
  moreover have "\<forall>c \<in> set v. printable c"
    using isLocalPart_printable [OF parts(1)] isMailboxDomain_printable [OF parts(2)]
    by (subst v) auto
  ultimately show ?thesis using v parts len by (metis append_Cons append_Nil)
qed

theorem mailbox_shape_witness:
  "\<exists>local domain. ''ada@calc.example'' = local @ ''@'' @ domain \<and> isLocalPart local \<and> isMailboxDomain domain \<and>
    1 \<le> length local \<and> length local \<le> 64 \<and> 1 \<le> length domain \<and> length domain \<le> 255 \<and>
    (\<forall>c \<in> set ''ada@calc.example''. 32 \<le> byte c \<and> byte c \<le> 126)"
proof -
  have "isEmailMailbox ''ada@calc.example''" by code_simp
  then show ?thesis by (rule mailbox_shape)
qed

text \<open>
  The evaluation of requested claims partitions them: a required claim is reported unsupported
  exactly when the Agent does not support it, a preferred or optional one is kept exactly when it
  does, and the required claims can be satisfied exactly when every one is supported.
\<close>

theorem claim_support_partition:
  "(cse_CanSatisfyRequired (EvaluateClaimSupport (Some r) supported) \<longleftrightarrow>
     set (elems (ic_Required r)) \<subseteq> set supported) \<and>
   set (elems (cse_UnsupportedRequired (EvaluateClaimSupport (Some r) supported))) =
     set (elems (ic_Required r)) - set supported \<and>
   set (elems (cse_SupportedPreferred (EvaluateClaimSupport (Some r) supported))) =
     set (elems (ic_Preferred r)) \<inter> set supported \<and>
   set (elems (cse_SupportedOptional (EvaluateClaimSupport (Some r) supported))) =
     set (elems (ic_Optional r)) \<inter> set supported"
  by (auto simp: EvaluateClaimSupport_def Let_def filter_empty_conv)

end
