(* ===== verification/Inspect.thy ===== *)
theory Inspect
  imports Claims
begin

text \<open>
  \<open>inspect.go\<close> and the codecs of the Inspect document in \<open>additional.go\<close>. The lemmas say when the
  validator accepts a document and when two versions are compatible.
\<close>

section \<open>Codecs\<close>

abbreviation dec_strings :: "string slice decoder" where
  "dec_strings \<equiv> dec_slice dec_string []"

abbreviation enc_strings :: "string slice \<Rightarrow> string" where
  "enc_strings \<equiv> enc_slice enc_string"

definition zero_authentication :: Authentication where
  "zero_authentication = \<lparr>auth_Methods = None, auth_Additional = []\<rparr>"

definition fields_authentication :: "Authentication fields" where
  "fields_authentication = [(''methods'', on_field dec_strings auth_Methods (\<lambda>x. auth_Methods_update (\<lambda>_. x)))]"

definition Authentication_UnmarshalJSON :: "Authentication decoder" where
  "Authentication_UnmarshalJSON =
     unmarshalAdditional fields_authentication zero_authentication (\<lambda>x. auth_Additional_update (\<lambda>_. x))"

definition Authentication_MarshalJSON :: "Authentication \<Rightarrow> string option" where
  "Authentication_MarshalJSON v =
     encodeAdditional [(''methods'', enc_strings (auth_Methods v))]
       (jsonFieldNames fields_authentication) (auth_Additional v)"

definition zero_grant_type_config :: GrantTypeConfig where
  "zero_grant_type_config = \<lparr>gtc_SupportsPerCredentialRevoke = [], gtc_Additional = []\<rparr>"

definition fields_grant_type_config :: "GrantTypeConfig fields" where
  "fields_grant_type_config =
     [(''supports_per_credential_revoke'',
       on_field dec_string gtc_SupportsPerCredentialRevoke (\<lambda>x. gtc_SupportsPerCredentialRevoke_update (\<lambda>_. x)))]"

definition GrantTypeConfig_UnmarshalJSON :: "GrantTypeConfig decoder" where
  "GrantTypeConfig_UnmarshalJSON data old =
     (if trim_space data = ''null'' then None
      else if rejectNullPaths data ''AEP Grant Type configuration'' [''/supports_per_credential_revoke''] \<noteq> None
      then None
      else if rejectEmptyStringPaths data ''AEP Grant Type configuration'' [''/supports_per_credential_revoke''] \<noteq> None
      then None
      else unmarshalAdditional fields_grant_type_config zero_grant_type_config
             (\<lambda>x. gtc_Additional_update (\<lambda>_. x)) data old)"

definition GrantTypeConfig_MarshalJSON :: "GrantTypeConfig \<Rightarrow> string option" where
  "GrantTypeConfig_MarshalJSON v =
     encodeAdditional (omit_empty ''supports_per_credential_revoke'' (gtc_SupportsPerCredentialRevoke v))
       (jsonFieldNames fields_grant_type_config) (gtc_Additional v)"

definition zero_path_matching :: OpenAPIPathMatching where
  "zero_path_matching = \<lparr>opm_TrailingSlash = [], opm_Additional = []\<rparr>"

definition fields_path_matching :: "OpenAPIPathMatching fields" where
  "fields_path_matching =
     [(''trailing_slash'', on_field dec_string opm_TrailingSlash (\<lambda>x. opm_TrailingSlash_update (\<lambda>_. x)))]"

definition OpenAPIPathMatching_UnmarshalJSON :: "OpenAPIPathMatching decoder" where
  "OpenAPIPathMatching_UnmarshalJSON =
     unmarshalAdditional fields_path_matching zero_path_matching (\<lambda>x. opm_Additional_update (\<lambda>_. x))"

definition OpenAPIPathMatching_MarshalJSON :: "OpenAPIPathMatching \<Rightarrow> string option" where
  "OpenAPIPathMatching_MarshalJSON v =
     encodeAdditional [(''trailing_slash'', enc_string (opm_TrailingSlash v))]
       (jsonFieldNames fields_path_matching) (opm_Additional v)"

definition zero_openapi :: OpenAPIReference where
  "zero_openapi = \<lparr>oar_URL = [], oar_PathMatching = zero_path_matching, oar_Additional = []\<rparr>"

definition fields_openapi :: "OpenAPIReference fields" where
  "fields_openapi =
     [(''url'', on_field dec_string oar_URL (\<lambda>x. oar_URL_update (\<lambda>_. x))),
      (''path_matching'', on_field OpenAPIPathMatching_UnmarshalJSON oar_PathMatching
         (\<lambda>x. oar_PathMatching_update (\<lambda>_. x)))]"

definition OpenAPIReference_UnmarshalJSON :: "OpenAPIReference decoder" where
  "OpenAPIReference_UnmarshalJSON =
     unmarshalAdditional fields_openapi zero_openapi (\<lambda>x. oar_Additional_update (\<lambda>_. x))"

definition OpenAPIReference_MarshalJSON :: "OpenAPIReference \<Rightarrow> string option" where
  "OpenAPIReference_MarshalJSON v =
     (case OpenAPIPathMatching_MarshalJSON (oar_PathMatching v) of
        None \<Rightarrow> None
      | Some matching \<Rightarrow>
          encodeAdditional [(''url'', enc_string (oar_URL v)), (''path_matching'', matching)]
            (jsonFieldNames fields_openapi) (oar_Additional v))"

definition fields_bindings :: "Bindings fields" where
  "fields_bindings = [(''supported'', on_field dec_strings bind_Supported (\<lambda>x. bind_Supported_update (\<lambda>_. x)))]"

definition fields_claims :: "InspectClaims fields" where
  "fields_claims =
     [(''required'', on_field dec_strings ic_Required (\<lambda>x. ic_Required_update (\<lambda>_. x))),
      (''preferred'', on_field dec_strings ic_Preferred (\<lambda>x. ic_Preferred_update (\<lambda>_. x))),
      (''optional'', on_field dec_strings ic_Optional (\<lambda>x. ic_Optional_update (\<lambda>_. x)))]"

definition zero_inspect_claims :: InspectClaims where
  "zero_inspect_claims = \<lparr>ic_Required = None, ic_Preferred = None, ic_Optional = None\<rparr>"

text \<open>A nil map of configurations is the empty one.\<close>

definition fields_commands :: "Commands fields" where
  "fields_commands =
     [(''supported'', on_field dec_strings cmds_Supported (\<lambda>x. cmds_Supported_update (\<lambda>_. x))),
      (''grant_types'', on_field dec_strings cmds_GrantTypes (\<lambda>x. cmds_GrantTypes_update (\<lambda>_. x))),
      (''grant_types_config'',
        \<lambda>raw r. map_option (\<lambda>m. r\<lparr>cmds_GrantTypesConfig := elems m\<rparr>)
          (dec_map GrantTypeConfig_UnmarshalJSON zero_grant_type_config raw (Some (cmds_GrantTypesConfig r))))]"

definition fields_core :: "Core fields" where
  "fields_core =
     [(''signing_algorithms'', on_field dec_strings core_SigningAlgorithms (\<lambda>x. core_SigningAlgorithms_update (\<lambda>_. x)))]"

definition fields_extensions :: "Extensions fields" where
  "fields_extensions = [(''supported'', on_field dec_strings ext_Supported (\<lambda>x. ext_Supported_update (\<lambda>_. x)))]"

definition fields_http :: "HTTPConfiguration fields" where
  "fields_http =
     [(''endpoint_base'', on_field dec_string http_EndpointBase (\<lambda>x. http_EndpointBase_update (\<lambda>_. x))),
      (''openapi'', on_field (dec_ptr OpenAPIReference_UnmarshalJSON zero_openapi) http_OpenAPI
         (\<lambda>x. http_OpenAPI_update (\<lambda>_. x)))]"

definition fields_identity :: "Identity fields" where
  "fields_identity = [(''methods'', on_field dec_strings idy_Methods (\<lambda>x. idy_Methods_update (\<lambda>_. x)))]"

definition fields_service :: "ServiceIdentity fields" where
  "fields_service = [(''did'', on_field dec_string si_DID (\<lambda>x. si_DID_update (\<lambda>_. x)))]"

definition zero_inspect :: InspectDocument where
  "zero_inspect = \<lparr>insp_AEPVersion = [], insp_Authentication = None,
     insp_Bindings = \<lparr>bind_Supported = None\<rparr>, insp_Claims = None,
     insp_Commands = \<lparr>cmds_Supported = None, cmds_GrantTypes = None, cmds_GrantTypesConfig = []\<rparr>,
     insp_Core = \<lparr>core_SigningAlgorithms = None\<rparr>, insp_Extensions = None,
     insp_HTTP = \<lparr>http_EndpointBase = [], http_OpenAPI = None\<rparr>,
     insp_Identity = \<lparr>idy_Methods = None\<rparr>, insp_Service = \<lparr>si_DID = []\<rparr>,
     insp_ServiceDocuments = None, insp_Additional = []\<rparr>"

definition fields_inspect :: "InspectDocument fields" where
  "fields_inspect =
     [(''aep_version'', on_field dec_string insp_AEPVersion (\<lambda>x. insp_AEPVersion_update (\<lambda>_. x))),
      (''authentication'', on_field (dec_ptr Authentication_UnmarshalJSON zero_authentication)
         insp_Authentication (\<lambda>x. insp_Authentication_update (\<lambda>_. x))),
      (''bindings'', on_field (dec_struct fields_bindings) insp_Bindings (\<lambda>x. insp_Bindings_update (\<lambda>_. x))),
      (''claims'', on_field (dec_ptr (dec_struct fields_claims) zero_inspect_claims) insp_Claims
         (\<lambda>x. insp_Claims_update (\<lambda>_. x))),
      (''commands'', on_field (dec_struct fields_commands) insp_Commands (\<lambda>x. insp_Commands_update (\<lambda>_. x))),
      (''core'', on_field (dec_struct fields_core) insp_Core (\<lambda>x. insp_Core_update (\<lambda>_. x))),
      (''extensions'', on_field (dec_ptr (dec_struct fields_extensions) \<lparr>ext_Supported = None\<rparr>) insp_Extensions
         (\<lambda>x. insp_Extensions_update (\<lambda>_. x))),
      (''http'', on_field (dec_struct fields_http) insp_HTTP (\<lambda>x. insp_HTTP_update (\<lambda>_. x))),
      (''identity'', on_field (dec_struct fields_identity) insp_Identity (\<lambda>x. insp_Identity_update (\<lambda>_. x))),
      (''service'', on_field (dec_struct fields_service) insp_Service (\<lambda>x. insp_Service_update (\<lambda>_. x))),
      (''service_documents'', on_field (dec_slice ServiceDocument_UnmarshalJSON zero_service_document)
         insp_ServiceDocuments (\<lambda>x. insp_ServiceDocuments_update (\<lambda>_. x)))]"

definition InspectDocument_UnmarshalJSON :: "InspectDocument decoder" where
  "InspectDocument_UnmarshalJSON =
     unmarshalAdditional fields_inspect zero_inspect (\<lambda>x. insp_Additional_update (\<lambda>_. x))"

text \<open>The encoder writes the members in the order of the fields.\<close>

definition enc_representation :: "DocumentRepresentation \<Rightarrow> string" where
  "enc_representation r =
     enc_object [(''media_type'', enc_string (rep_MediaType r)), (''url'', enc_string (rep_URL r))]"

definition enc_service_document :: "ServiceDocument \<Rightarrow> string" where
  "enc_service_document d =
     enc_object [(''id'', enc_string (sd_ID d)), (''type'', enc_string (sd_Type d)),
       (''title'', enc_string (sd_Title d)), (''enrollment'', enc_string (sd_Enrollment d)),
       (''representations'', enc_slice enc_representation (sd_Representations d))]"

definition enc_inspect_claims :: "InspectClaims \<Rightarrow> string" where
  "enc_inspect_claims c =
     enc_object
       (omit_empty_slice ''required'' enc_string (ic_Required c) @
        omit_empty_slice ''preferred'' enc_string (ic_Preferred c) @
        omit_empty_slice ''optional'' enc_string (ic_Optional c))"

definition enc_commands :: "Commands \<Rightarrow> string option" where
  "enc_commands c =
     map_option
       (\<lambda>configs. enc_object
          ([(''supported'', enc_strings (cmds_Supported c))] @
           omit_empty_slice ''grant_types'' enc_string (cmds_GrantTypes c) @
           (if configs = [] then [] else [(''grant_types_config'', enc_object configs)])))
       (all_some (map (\<lambda>(k, v). map_option (Pair k) (GrantTypeConfig_MarshalJSON v))
          (sorted_map (cmds_GrantTypesConfig c))))"

definition enc_http :: "HTTPConfiguration \<Rightarrow> string option" where
  "enc_http h =
     (case http_OpenAPI h of
        None \<Rightarrow> Some (enc_object (omit_empty ''endpoint_base'' (http_EndpointBase h)))
      | Some api \<Rightarrow>
          map_option (\<lambda>t. enc_object (omit_empty ''endpoint_base'' (http_EndpointBase h) @ [(''openapi'', t)]))
            (OpenAPIReference_MarshalJSON api))"

definition InspectDocument_MarshalJSON :: "InspectDocument \<Rightarrow> string option" where
  "InspectDocument_MarshalJSON v =
     (case (case insp_Authentication v of
              None \<Rightarrow> Some []
            | Some a \<Rightarrow> map_option (\<lambda>t. [(''authentication'', t)]) (Authentication_MarshalJSON a)) of
        None \<Rightarrow> None
      | Some authentication \<Rightarrow>
          (case (enc_commands (insp_Commands v), enc_http (insp_HTTP v)) of
             (Some commands, Some http) \<Rightarrow>
               encodeAdditional
                 ([(''aep_version'', enc_string (insp_AEPVersion v))] @ authentication @
                  [(''bindings'', enc_object [(''supported'', enc_strings (bind_Supported (insp_Bindings v)))])] @
                  omit_nil ''claims'' enc_inspect_claims (insp_Claims v) @
                  [(''commands'', commands),
                   (''core'', enc_object
                      [(''signing_algorithms'', enc_strings (core_SigningAlgorithms (insp_Core v)))])] @
                  omit_nil ''extensions''
                    (\<lambda>e. enc_object (omit_empty_slice ''supported'' enc_string (ext_Supported e))) (insp_Extensions v) @
                  [(''http'', http),
                   (''identity'', enc_object [(''methods'', enc_strings (idy_Methods (insp_Identity v)))]),
                   (''service'', enc_object [(''did'', enc_string (si_DID (insp_Service v)))])] @
                  omit_nil ''service_documents'' (enc_array \<circ> map enc_service_document) (insp_ServiceDocuments v))
                 (jsonFieldNames fields_inspect) (insp_Additional v)
           | _ \<Rightarrow> None))"

lemmas inspect_codec_defs [go_defs] =
  zero_authentication_def fields_authentication_def Authentication_UnmarshalJSON_def
  Authentication_MarshalJSON_def zero_grant_type_config_def fields_grant_type_config_def
  GrantTypeConfig_UnmarshalJSON_def GrantTypeConfig_MarshalJSON_def zero_path_matching_def
  fields_path_matching_def OpenAPIPathMatching_UnmarshalJSON_def OpenAPIPathMatching_MarshalJSON_def
  zero_openapi_def fields_openapi_def OpenAPIReference_UnmarshalJSON_def OpenAPIReference_MarshalJSON_def
  fields_bindings_def fields_claims_def zero_inspect_claims_def fields_commands_def fields_core_def
  fields_extensions_def fields_http_def fields_identity_def fields_service_def zero_inspect_def
  fields_inspect_def InspectDocument_UnmarshalJSON_def enc_representation_def enc_service_document_def
  enc_inspect_claims_def enc_commands_def enc_http_def InspectDocument_MarshalJSON_def

section \<open>Validation\<close>

definition advertisement_issues :: "string \<Rightarrow> string list \<Rightarrow> ValidationIssue list" where
  "advertisement_issues path vals =
     each_index (\<lambda>index v. if \<not> full_match advertisementPattern v
        then [issue (index_path path index) ''Expected a lowercase advertisement identifier.''] else []) vals"

definition validateAdvertisements :: "string list \<Rightarrow> string \<Rightarrow> bool \<Rightarrow> ValidationIssue list" where
  "validateAdvertisements vals path requireItem =
     (if requireItem \<and> vals = [] then [issue path ''Expected at least one item.''] else []) @
     advertisement_issues path vals"

definition validateGrantTypeConfigs :: "(string \<times> GrantTypeConfig) list \<Rightarrow> string list \<Rightarrow> ValidationIssue list" where
  "validateGrantTypeConfigs configs grantTypes =
     concat (map (\<lambda>(name, config).
       let path = ''$.commands.grant_types_config.'' @ name; v = gtc_SupportsPerCredentialRevoke config in
       (if \<not> full_match advertisementPattern name
        then [issue path ''Expected a lowercase grant-type identifier.''] else []) @
       (if \<not> containsValue grantTypes name
        then [issue path ''Expected configuration for an advertised grant type.''] else []) @
       (if v \<noteq> [] \<and> v \<noteq> ''false'' \<and> v \<noteq> ''true''
        then [issue (path @ ''.supports_per_credential_revoke'') ''Expected false or true.''] else [])) configs)"

text \<open>\<open>strconv.Atoi\<close> of digits, with its error ignored: an overflow gives the largest integer.\<close>

definition atoi_saturated :: "string \<Rightarrow> int" where
  "atoi_saturated s = min (foldl (\<lambda>acc c. acc * 10 + digit_val c) 0 s) max_i64"

definition major_version :: "string \<Rightarrow> int" where
  "major_version v = atoi_saturated (hd (split_n CHR ''.'' 2 v))"

definition IsVersionCompatible :: "string \<Rightarrow> string \<Rightarrow> bool" where
  "IsVersionCompatible received supported \<longleftrightarrow>
     (if \<not> full_match versionPattern received \<or> \<not> full_match versionPattern supported then False
      else major_version received = major_version supported)"

definition additional_issues :: "string \<Rightarrow> AdditionalMembers \<Rightarrow> ValidationIssue list" where
  "additional_issues path additional =
     map (\<lambda>(name, _). issue (path @ name) ''Expected no additional property.'') additional"

definition validateAuthentication :: "Authentication option \<Rightarrow> ValidationIssue list" where
  "validateAuthentication authentication =
     (case authentication of
        None \<Rightarrow> []
      | Some a \<Rightarrow>
          additional_issues ''$.authentication.'' (auth_Additional a) @
          (if elems (auth_Methods a) = []
           then [issue ''$.authentication.methods'' ''Expected at least one item.''] else []) @
          (if MaxAuthenticationMethods < length (elems (auth_Methods a))
           then [issue ''$.authentication.methods'' ''Expected at most 16 items.''] else []) @
          validateAdvertisements (elems (auth_Methods a)) ''$.authentication.methods'' False @
          requireUniqueStrings (elems (auth_Methods a)) ''$.authentication.methods'')"

definition claim_group_issues :: "string \<Rightarrow> ClaimName list \<Rightarrow> ValidationIssue list" where
  "claim_group_issues name vals =
     each_index (\<lambda>index v. if \<not> full_match claimNamePattern v
       then [issue (index_path (''$.claims.'' @ name) index) ''Expected a registered claim-name shape.''] else []) vals"

definition validateClaims :: "InspectClaims option \<Rightarrow> ValidationIssue list" where
  "validateClaims claims =
     (case claims of
        None \<Rightarrow> []
      | Some c \<Rightarrow>
          claim_group_issues ''required'' (elems (ic_Required c)) @
          claim_group_issues ''preferred'' (elems (ic_Preferred c)) @
          claim_group_issues ''optional'' (elems (ic_Optional c)))"

definition validateExtensions :: "Extensions option \<Rightarrow> ValidationIssue list" where
  "validateExtensions extensions =
     (case extensions of
        None \<Rightarrow> []
      | Some e \<Rightarrow>
          each_index (\<lambda>index v.
            if (case url_Parse v of None \<Rightarrow> True | Some parsed \<Rightarrow> \<not> url_IsAbs parsed)
            then [issue (index_path ''$.extensions.supported'' index) ''Expected an absolute URI.''] else [])
            (elems (ext_Supported e)))"

definition validateHTTP :: "HTTPConfiguration \<Rightarrow> ValidationIssue list" where
  "validateHTTP http =
     (if http_EndpointBase http \<noteq> [] \<and>
         (\<not> has_prefix (http_EndpointBase http) ''/'' \<or> has_prefix (http_EndpointBase http) ''//'')
      then [issue ''$.http.endpoint_base'' ''Expected an origin-relative absolute path.''] else []) @
     (case http_OpenAPI http of
        None \<Rightarrow> []
      | Some api \<Rightarrow>
          additional_issues ''$.http.openapi.'' (oar_Additional api) @
          (if oar_URL api = []
           then [issue ''$.http.openapi.url'' ''Expected a non-empty URI reference.'']
           else if url_Parse (oar_URL api) = None \<or>
                   list_ex (\<lambda>c. byte c = 32 \<or> byte c = 9 \<or> byte c = 13 \<or> byte c = 10) (oar_URL api)
           then [issue ''$.http.openapi.url'' ''Expected a URI reference.''] else []) @
          additional_issues ''$.http.openapi.path_matching.'' (opm_Additional (oar_PathMatching api)) @
          (if opm_TrailingSlash (oar_PathMatching api) \<noteq> ''strict'' \<and>
              opm_TrailingSlash (oar_PathMatching api) \<noteq> ''equivalent''
           then [issue ''$.http.openapi.path_matching.trailing_slash'' ''Expected strict or equivalent.''] else []))"

definition validateIdentity :: "Identity \<Rightarrow> string list \<Rightarrow> ValidationIssue list" where
  "validateIdentity identity commands =
     each_index (\<lambda>index v. if \<not> full_match identityPattern v
       then [issue (index_path ''$.identity.methods'' index) ''Expected an identity-method identifier.''] else [])
       (elems (idy_Methods identity)) @
     (if (containsValue commands CommandEnroll \<or> containsValue commands CommandGrant \<or>
          containsValue commands CommandRevoke \<or> containsValue commands CommandStatus) \<and>
         elems (idy_Methods identity) = []
      then [issue ''$.identity.methods'' ''Expected at least one identity method for authenticated commands.'']
      else [])"

definition service_document_issues :: "InspectDocument \<Rightarrow> ValidationIssue list" where
  "service_document_issues document =
     (case insp_ServiceDocuments document of
        None \<Rightarrow> []
      | Some ds \<Rightarrow>
          appendValidationIssues (ValidateServiceDocuments ds) @
          (if (case insp_Extensions document of
                 None \<Rightarrow> True
               | Some e \<Rightarrow> \<not> containsValue (elems (ext_Supported e)) ServiceDocumentsExtension)
           then [issue ''$.service_documents'' ''Service Documents extension must be advertised.''] else []))"

definition ValidateInspectDocument :: "InspectDocument \<Rightarrow> go_error option" where
  "ValidateInspectDocument document =
     (let supported = elems (cmds_Supported (insp_Commands document));
          grantTypes = elems (cmds_GrantTypes (insp_Commands document));
          algorithms = elems (core_SigningAlgorithms (insp_Core document));
          bindings = elems (bind_Supported (insp_Bindings document)) in
      validationResult ''Inspect document''
        (service_document_issues document @
         (if \<not> full_match versionPattern (insp_AEPVersion document)
          then [issue ''$.aep_version'' ''Expected major.minor version syntax.'']
          else if \<not> IsVersionCompatible (insp_AEPVersion document) Version
          then [issue ''$.aep_version'' (''Unsupported AEP major version: '' @ insp_AEPVersion document @ ''.'')]
          else []) @
         validateAuthentication (insp_Authentication document) @
         validateAdvertisements bindings ''$.bindings.supported'' True @
         (if \<not> containsValue bindings BindingHTTP
          then [issue ''$.bindings.supported'' ''Expected http to be advertised.''] else []) @
         validateClaims (insp_Claims document) @
         validateAdvertisements supported ''$.commands.supported'' True @
         (if \<not> containsValue supported CommandInspect
          then [issue ''$.commands.supported'' ''Expected inspect to be advertised.''] else []) @
         (if containsValue supported AssertionAuthenticate
          then [issue ''$.commands.supported'' ''authenticate is an assertion operation, not a command.''] else []) @
         validateAdvertisements grantTypes ''$.commands.grant_types'' False @
         validateGrantTypeConfigs (cmds_GrantTypesConfig (insp_Commands document)) grantTypes @
         (if (containsValue supported CommandGrant \<or> containsValue supported CommandRevoke) \<and> grantTypes = []
          then [issue ''$.commands.grant_types'' ''Expected at least one grant type when Grant or Revoke is advertised.'']
          else []) @
         (if algorithms = []
          then [issue ''$.core.signing_algorithms'' ''Expected at least one signing algorithm.''] else []) @
         (if \<not> containsValue algorithms SigningAlgorithmEdDSA
          then [issue ''$.core.signing_algorithms'' ''Expected EdDSA to be advertised.''] else []) @
         (if \<not> containsValue algorithms SigningAlgorithmES256
          then [issue ''$.core.signing_algorithms'' ''Expected ES256 to be advertised.''] else []) @
         validateExtensions (insp_Extensions document) @
         validateHTTP (insp_HTTP document) @
         validateIdentity (insp_Identity document) supported @
         (if \<not> has_prefix (si_DID (insp_Service document)) ''did:''
          then [issue ''$.service.did'' ''Expected a DID.''] else [])))"

definition inspect_null_paths :: "string list" where
  "inspect_null_paths =
     [''/authentication'', ''/claims'', ''/commands/grant_types_config'', ''/extensions'',
      ''/http/openapi'', ''/service_documents'']"

definition ParseInspectDocument :: "string \<Rightarrow> InspectDocument result" where
  "ParseInspectDocument data =
     parseAndValidate data ''Inspect document'' InspectDocument_UnmarshalJSON zero_inspect
       ValidateInspectDocument inspect_null_paths"

lemmas inspect_defs [go_defs] =
  advertisement_issues_def validateAdvertisements_def validateGrantTypeConfigs_def atoi_saturated_def
  major_version_def IsVersionCompatible_def additional_issues_def validateAuthentication_def
  claim_group_issues_def validateClaims_def validateExtensions_def validateHTTP_def
  validateIdentity_def service_document_issues_def ValidateInspectDocument_def
  inspect_null_paths_def ParseInspectDocument_def

section \<open>Lemmas\<close>

lemma concat_map_Nil [no_issues]: "concat (map f xs) = [] \<longleftrightarrow> (\<forall>x \<in> set xs. f x = [])"
  by auto

lemma advertisement_issues_Nil [no_issues]:
  "advertisement_issues path vals = [] \<longleftrightarrow> (\<forall>v \<in> set vals. full_match advertisementPattern v)"
  by (simp add: advertisement_issues_def no_issues)

lemma validateAdvertisements_Nil [no_issues]:
  "validateAdvertisements vals path req = [] \<longleftrightarrow>
     (req \<longrightarrow> vals \<noteq> []) \<and> (\<forall>v \<in> set vals. full_match advertisementPattern v)"
  by (auto simp: validateAdvertisements_def no_issues)

definition config_ok :: "string list \<Rightarrow> string \<times> GrantTypeConfig \<Rightarrow> bool" where
  "config_ok grantTypes nc \<longleftrightarrow>
     full_match advertisementPattern (fst nc) \<and> fst nc \<in> set grantTypes \<and>
     gtc_SupportsPerCredentialRevoke (snd nc) \<in> {[], ''false'', ''true''}"

lemma validateGrantTypeConfigs_Nil [no_issues]:
  "validateGrantTypeConfigs configs gts = [] \<longleftrightarrow> (\<forall>nc \<in> set configs. config_ok gts nc)"
  by (auto simp: validateGrantTypeConfigs_def Let_def config_ok_def split: if_splits)

lemma additional_issues_Nil [no_issues]: "additional_issues path additional = [] \<longleftrightarrow> additional = []"
  by (simp add: additional_issues_def)

definition authentication_ok :: "Authentication \<Rightarrow> bool" where
  "authentication_ok a \<longleftrightarrow>
     auth_Additional a = [] \<and> 1 \<le> length (elems (auth_Methods a)) \<and> length (elems (auth_Methods a)) \<le> 16 \<and>
     distinct (elems (auth_Methods a)) \<and> (\<forall>m \<in> set (elems (auth_Methods a)). full_match advertisementPattern m)"

lemma validateAuthentication_Nil [no_issues]:
  "validateAuthentication oa = [] \<longleftrightarrow> (case oa of None \<Rightarrow> True | Some a \<Rightarrow> authentication_ok a)"
  by (auto simp: validateAuthentication_def authentication_ok_def no_issues Suc_le_eq split: option.splits)

lemma validateClaims_Nil [no_issues]:
  "validateClaims oc = [] \<longleftrightarrow>
     (case oc of None \<Rightarrow> True | Some c \<Rightarrow>
        \<forall>v \<in> set (elems (ic_Required c)) \<union> set (elems (ic_Preferred c)) \<union> set (elems (ic_Optional c)).
          full_match claimNamePattern v)"
  by (auto simp: validateClaims_def claim_group_issues_def no_issues split: option.splits)

definition absolute_uri :: "string \<Rightarrow> bool" where
  "absolute_uri v \<longleftrightarrow> (case url_Parse v of None \<Rightarrow> False | Some u \<Rightarrow> url_IsAbs u)"

lemma validateExtensions_Nil [no_issues]:
  "validateExtensions oe = [] \<longleftrightarrow>
     (case oe of None \<Rightarrow> True | Some e \<Rightarrow> \<forall>v \<in> set (elems (ext_Supported e)). absolute_uri v)"
  by (auto simp: validateExtensions_def absolute_uri_def no_issues split: option.splits)

definition openapi_ok :: "OpenAPIReference \<Rightarrow> bool" where
  "openapi_ok api \<longleftrightarrow>
     oar_Additional api = [] \<and> oar_URL api \<noteq> [] \<and> url_Parse (oar_URL api) \<noteq> None \<and>
     (\<forall>c \<in> set (oar_URL api). byte c \<notin> {32, 9, 13, 10}) \<and>
     opm_Additional (oar_PathMatching api) = [] \<and>
     opm_TrailingSlash (oar_PathMatching api) \<in> {''strict'', ''equivalent''}"

lemma validateHTTP_Nil [no_issues]:
  "validateHTTP h = [] \<longleftrightarrow>
     (http_EndpointBase h = [] \<or>
      (has_prefix (http_EndpointBase h) ''/'' \<and> \<not> has_prefix (http_EndpointBase h) ''//'')) \<and>
     (case http_OpenAPI h of None \<Rightarrow> True | Some api \<Rightarrow> openapi_ok api)"
  by (auto simp: validateHTTP_def openapi_ok_def no_issues list_ex_iff split: option.splits)

lemma validateIdentity_Nil [no_issues]:
  "validateIdentity i commands = [] \<longleftrightarrow>
     (\<forall>v \<in> set (elems (idy_Methods i)). full_match identityPattern v) \<and>
     (set commands \<inter> {CommandEnroll, CommandGrant, CommandRevoke, CommandStatus} \<noteq> {} \<longrightarrow>
      elems (idy_Methods i) \<noteq> [])"
  by (auto simp: validateIdentity_def no_issues)

text \<open>
  What the validator makes of the descriptors: the wrapped error of an invalid one is no
  \<open>ValidationError\<close>, so its issues are dropped, and the check of the identifiers is not reached.
\<close>

lemma service_document_issues_Nil [no_issues]:
  "service_document_issues d = [] \<longleftrightarrow>
     (case insp_ServiceDocuments d of
        None \<Rightarrow> True
      | Some ds \<Rightarrow>
          1 \<le> length ds \<and> length ds \<le> 7 \<and>
          ((\<forall>x \<in> set ds. ValidateServiceDocument x = None) \<longrightarrow> distinct (map sd_ID ds)) \<and>
          (\<exists>e. insp_Extensions d = Some e \<and> ServiceDocumentsExtension \<in> set (elems (ext_Supported e))))"
proof (cases "insp_ServiceDocuments d")
  case (Some ds)
  have "appendValidationIssues (ValidateServiceDocuments ds) = [] \<longleftrightarrow>
      1 \<le> length ds \<and> length ds \<le> 7 \<and>
      ((\<forall>x \<in> set ds. ValidateServiceDocument x = None) \<longrightarrow> distinct (map sd_ID ds))"
  proof (cases "validateEachDocument 0 ds")
    case None
    then have all: "\<forall>x \<in> set ds. ValidateServiceDocument x = None" by (simp add: validateEachDocument_None)
    then have "\<forall>i \<in> set (map sd_ID ds). full_match documentIDPattern i"
      using ValidateServiceDocument_ID by auto
    moreover have "appendValidationIssues (ValidateDocumentIDs (map sd_ID ds)) = [] \<longleftrightarrow>
        ValidateDocumentIDs (map sd_ID ds) = None"
      unfolding ValidateDocumentIDs_def by (simp add: no_issues)
    ultimately show ?thesis using None all
      by (auto simp: ValidateServiceDocuments_def ValidateDocumentIDs_None appendValidationIssues_def invalid_def
          Suc_le_eq)
  next
    case (Some err)
    then obtain m e where "err = Wrapped m e" using validateEachDocument_Some by blast
    moreover have "\<not> (\<forall>x \<in> set ds. ValidateServiceDocument x = None)"
      using Some validateEachDocument_None [of 0 ds] by simp
    ultimately show ?thesis using Some
      by (auto simp: ValidateServiceDocuments_def appendValidationIssues_def invalid_def Suc_le_eq)
  qed
  then show ?thesis using Some
    by (auto simp: service_document_issues_def no_issues split: option.splits)
qed (simp add: service_document_issues_def)

text \<open>An invariant of every field decoder is an invariant of decoding a struct.\<close>

lemma dec_members_inv:
  assumes "\<And>n d raw r r'. (n, d) \<in> set fs \<Longrightarrow> d raw r = Some r' \<Longrightarrow> P r \<Longrightarrow> P r'"
  shows "dec_members fs ms r = Some r' \<Longrightarrow> P r \<Longrightarrow> P r'"
proof (induction ms arbitrary: r)
  case (Cons m ms)
  obtain k raw where m: "m = (k, raw)" by (cases m)
  show ?case
  proof (cases "field_named fs k")
    case None
    then show ?thesis using Cons m by simp
  next
    case (Some d)
    then obtain n where "(n, d) \<in> set fs"
      by (auto simp: field_named_def find_Some_iff in_set_conv_nth) (metis nth_mem surjective_pairing)
    moreover obtain r1 where "d raw r = Some r1" "dec_members fs ms r1 = Some r'"
      using Cons.prems m Some by (auto split: option.splits)
    ultimately show ?thesis using assms Cons by blast
  qed
qed simp

lemma unmarshalAdditional_inv:
  assumes "\<And>n d raw r r'. (n, d) \<in> set fs \<Longrightarrow> d raw r = Some r' \<Longrightarrow> P r \<Longrightarrow> P r'"
    and "P zero" and "\<And>x r. P r \<Longrightarrow> P (put x r)"
  shows "unmarshalAdditional fs zero put raw old = Some r \<Longrightarrow> P r"
  using dec_members_inv [of fs P, OF assms(1)] assms(2,3)
  by (auto simp: unmarshalAdditional_def decodeAdditional_def dec_struct_def split: option.splits json.splits)

lemma dec_all_inv:
  assumes "\<And>raw old x. f raw old = Some x \<Longrightarrow> P x"
  shows "dec_all f zero rs old = Some xs \<Longrightarrow> \<forall>x \<in> set xs. P x"
  by (induction rs arbitrary: old xs) (auto split: option.splits dest: assms)

lemma dec_slice_inv:
  assumes "\<And>raw old x. f raw old = Some x \<Longrightarrow> P x" and "dec_slice f zero raw old = Some s"
  shows "\<forall>x \<in> set (elems s). P x"
  using assms(2) dec_all_inv [of f P, OF assms(1)]
  by (auto simp: dec_slice_def split: option.splits json.splits)

lemma ServiceDocument_UnmarshalJSON_valid:
  "ServiceDocument_UnmarshalJSON raw old = Some x \<Longrightarrow> ValidateServiceDocument x = None"
  by (auto simp: ServiceDocument_UnmarshalJSON_def split: sum.splits if_splits)

lemma parsed_documents_valid:
  assumes "InspectDocument_UnmarshalJSON raw old = Some d" and "insp_ServiceDocuments d = Some ds"
  shows "\<forall>x \<in> set ds. ValidateServiceDocument x = None"
proof -
  let ?P = "\<lambda>d. \<forall>x \<in> set (elems (insp_ServiceDocuments d)). ValidateServiceDocument x = None"
  have "?P d"
  proof (rule unmarshalAdditional_inv [OF _ _ _ assms(1) [unfolded InspectDocument_UnmarshalJSON_def], where P = ?P])
    fix n f raw r r'
    assume nf: "(n, f) \<in> set fields_inspect" and dec: "f raw r = Some r'" and P: "?P r"
    show "?P r'"
    proof (cases "n = ''service_documents''")
      case True
      then have "dec_slice ServiceDocument_UnmarshalJSON zero_service_document raw (insp_ServiceDocuments r)
          = Some (insp_ServiceDocuments r')"
        using nf dec by (auto simp: fields_inspect_def on_field_def)
      then show ?thesis
        by (rule dec_slice_inv [where P = "\<lambda>x. ValidateServiceDocument x = None", rotated])
          (rule ServiceDocument_UnmarshalJSON_valid)
    next
      case False
      then have "insp_ServiceDocuments r' = insp_ServiceDocuments r"
        using nf dec by (auto simp: fields_inspect_def on_field_def)
      then show ?thesis using P by simp
    qed
  qed (simp_all add: zero_inspect_def)
  then show ?thesis using assms(2) by simp
qed

section \<open>Versions\<close>

lemma number_value:
  assumes "s \<in> lang number_rx"
  shows "s \<noteq> [] \<and> CHR ''.'' \<notin> set s \<and> (atoi_saturated s = 1 \<longleftrightarrow> s = ''1'')"
proof -
  have ge: "k \<le> foldl (\<lambda>acc c. acc * 10 + digit_val c) k t" if "\<forall>c \<in> set t. is_digit c" "0 \<le> k" for k t
    using that
  proof (induction t arbitrary: k)
    case (Cons c t)
    then have "0 \<le> digit_val c" by (simp add: is_digit_def in_range_def digit_val_def)
    moreover from this have "k * 10 + digit_val c \<le> foldl (\<lambda>acc c. acc * 10 + digit_val c) (k * 10 + digit_val c) t"
      using Cons by simp
    ultimately show ?case using Cons.prems by simp
  qed simp
  consider "s = ''0''" | d t where "s = d # t" "in_range 49 57 d" "\<forall>c \<in> set t. is_digit c"
    using assms by (auto simp: number_rx_def lit_def dest!: star_chars [where P = is_digit])
  then show ?thesis
  proof cases
    case 1
    then show ?thesis by (simp add: atoi_saturated_def digit_val_def i64_limits)
  next
    case 2
    have d: "1 \<le> digit_val d" "digit_val d \<le> 9" "d \<noteq> CHR ''.''"
      using 2(2) by (auto simp: in_range_def digit_val_def)
    have nodot: "CHR ''.'' \<notin> set t" using 2(3) by (auto simp: is_digit_def in_range_def)
    show ?thesis
    proof (cases t)
      case Nil
      have "digit_val d = 1 \<longleftrightarrow> d = CHR ''1''"
        using of_char_eq_iff [where ?'a = int, of d "CHR ''1''"] by (simp add: digit_val_def)
      then show ?thesis using 2 d Nil by (simp add: atoi_saturated_def i64_limits)
    next
      case (Cons e u)
      have "0 \<le> digit_val e" using 2(3) Cons by (simp add: is_digit_def in_range_def digit_val_def)
      then have "10 \<le> digit_val d * 10 + digit_val e" using d by linarith
      also have "\<dots> \<le> foldl (\<lambda>acc c. acc * 10 + digit_val c) (digit_val d * 10 + digit_val e) u"
        using 2(3) Cons d \<open>0 \<le> digit_val e\<close> by (intro ge) auto
      finally have "10 \<le> foldl (\<lambda>acc c. acc * 10 + digit_val c) 0 s" using 2(1) Cons by simp
      then have "atoi_saturated s \<noteq> 1" by (simp add: atoi_saturated_def i64_limits)
      then show ?thesis using 2(1) d nodot Cons by auto
    qed
  qed
qed

lemma version_split:
  "full_match versionPattern v \<longleftrightarrow> (\<exists>a b. v = a @ ''.'' @ b \<and> a \<in> lang number_rx \<and> b \<in> lang number_rx)"
  by (auto simp: full_match_lang versionPattern_def lit_def)

lemma major_version_split:
  assumes "CHR ''.'' \<notin> set a"
  shows "major_version (a @ CHR ''.'' # b) = atoi_saturated a"
proof -
  have "takeWhile (\<lambda>x. x \<noteq> CHR ''.'') (a @ CHR ''.'' # b) = a" using assms by (subst takeWhile_append2) auto
  then show ?thesis by (simp add: major_version_def numeral_2_eq_2)
qed

section \<open>Properties\<close>

text \<open>
  A version is compatible with this library exactly when it is \<open>1.\<close> followed by a minor
  version number: no leading zero, no other major version, however large.
\<close>

theorem compatible_with_version_1:
  "IsVersionCompatible received Version \<longleftrightarrow> (\<exists>minor. received = ''1.'' @ minor \<and> minor \<in> lang number_rx)"
proof
  assume c: "IsVersionCompatible received Version"
  then have "full_match versionPattern received" by (simp add: IsVersionCompatible_def split: if_splits)
  then obtain a b where ab: "received = a @ ''.'' @ b" "a \<in> lang number_rx" "b \<in> lang number_rx"
    unfolding version_split by blast
  have "major_version received = 1"
  proof -
    have "major_version Version = 1" by code_simp
    then show ?thesis using c by (simp add: IsVersionCompatible_def split: if_splits)
  qed
  then have "a = ''1''" using major_version_split [of a b] number_value [OF ab(2)] ab(1) by simp
  then show "\<exists>minor. received = ''1.'' @ minor \<and> minor \<in> lang number_rx" using ab by auto
next
  assume "\<exists>minor. received = ''1.'' @ minor \<and> minor \<in> lang number_rx"
  then obtain b where b: "received = ''1'' @ ''.'' @ b" "b \<in> lang number_rx" by auto
  have one: "''1'' \<in> lang number_rx" by (simp add: full_match_lang [symmetric]) code_simp
  have "full_match versionPattern received" unfolding version_split using b one by blast
  moreover have "full_match versionPattern Version" by code_simp
  moreover have "major_version received = 1" "major_version Version = 1"
    using major_version_split [of "''1''" b] b number_value [OF one] by simp code_simp
  ultimately show "IsVersionCompatible received Version" by (simp add: IsVersionCompatible_def)
qed

text \<open>
  A document that \<open>ParseInspectDocument\<close> returns is valid: its version is compatible, it
  advertises http, inspect, EdDSA and ES256 and not authenticate, grant types wherever Grant or
  Revoke is advertised and identity methods wherever an authenticated command is, only
  well-formed identifiers, at most 16 distinct authentication methods, and valid descriptors with
  distinct identifiers together with the extension that announces them.
\<close>

theorem parsed_inspect_document_valid:
  assumes "ParseInspectDocument data = Inr d"
  shows "IsVersionCompatible (insp_AEPVersion d) Version \<and>
    BindingHTTP \<in> set (elems (bind_Supported (insp_Bindings d))) \<and>
    (let commands = set (elems (cmds_Supported (insp_Commands d)));
         grants = elems (cmds_GrantTypes (insp_Commands d)) in
     CommandInspect \<in> commands \<and> AssertionAuthenticate \<notin> commands \<and>
     (commands \<inter> {CommandGrant, CommandRevoke} \<noteq> {} \<longrightarrow> grants \<noteq> []) \<and>
     (commands \<inter> {CommandEnroll, CommandGrant, CommandRevoke, CommandStatus} \<noteq> {} \<longrightarrow>
        elems (idy_Methods (insp_Identity d)) \<noteq> []) \<and>
     (\<forall>v \<in> commands \<union> set grants. full_match advertisementPattern v) \<and>
     (\<forall>nc \<in> set (cmds_GrantTypesConfig (insp_Commands d)). config_ok grants nc)) \<and>
    {SigningAlgorithmEdDSA, SigningAlgorithmES256} \<subseteq> set (elems (core_SigningAlgorithms (insp_Core d))) \<and>
    (\<forall>a. insp_Authentication d = Some a \<longrightarrow> authentication_ok a) \<and>
    has_prefix (si_DID (insp_Service d)) ''did:'' \<and>
    (\<forall>ds. insp_ServiceDocuments d = Some ds \<longrightarrow> ValidateServiceDocuments ds = None \<and>
       (\<exists>e. insp_Extensions d = Some e \<and> ServiceDocumentsExtension \<in> set (elems (ext_Supported e))))"
proof -
  have v: "ValidateInspectDocument d = None"
    using assms unfolding ParseInspectDocument_def by (rule parseAndValidate_valid)
  have dec: "\<exists>raw old. InspectDocument_UnmarshalJSON raw old = Some d"
    using assms
    by (auto simp: ParseInspectDocument_def parseAndValidate_def decodeOne_def split: sum.splits option.splits)
  let ?commands = "elems (cmds_Supported (insp_Commands d))" and ?grants = "elems (cmds_GrantTypes (insp_Commands d))"
  note issues = v [unfolded ValidateInspectDocument_def Let_def validationResult_None append_is_Nil_conv
      issue_if_Nil containsValue_iff not_not]
  have nil: "service_document_issues d = []" "validateAuthentication (insp_Authentication d) = []"
    "validateIdentity (insp_Identity d) ?commands = []"
    "validateAdvertisements ?commands ''$.commands.supported'' True = []"
    "validateAdvertisements ?grants ''$.commands.grant_types'' False = []"
    "validateGrantTypeConfigs (cmds_GrantTypesConfig (insp_Commands d)) ?grants = []"
    using issues by (simp_all only: simp_thms)
  have version: "IsVersionCompatible (insp_AEPVersion d) Version"
    using issues by (simp split: if_splits)
  have docs: "ValidateServiceDocuments ds = None \<and>
       (\<exists>e. insp_Extensions d = Some e \<and> ServiceDocumentsExtension \<in> set (elems (ext_Supported e)))"
    if ds: "insp_ServiceDocuments d = Some ds" for ds
  proof -
    have "\<forall>x \<in> set ds. ValidateServiceDocument x = None" using dec parsed_documents_valid ds by blast
    then show ?thesis using nil(1) ds unfolding service_document_issues_Nil service_documents_accept by simp
  qed
  have ok: "\<forall>a. insp_Authentication d = Some a \<longrightarrow> authentication_ok a"
    "set ?commands \<inter> {CommandEnroll, CommandGrant, CommandRevoke, CommandStatus} \<noteq> {} \<longrightarrow>
        elems (idy_Methods (insp_Identity d)) \<noteq> []"
    "\<forall>v \<in> set ?commands \<union> set ?grants. full_match advertisementPattern v"
    "\<forall>nc \<in> set (cmds_GrantTypesConfig (insp_Commands d)). config_ok ?grants nc"
    using nil(2-6) by (auto simp: no_issues)
  have rest: "BindingHTTP \<in> set (elems (bind_Supported (insp_Bindings d)))"
    "CommandInspect \<in> set ?commands" "AssertionAuthenticate \<notin> set ?commands"
    "(CommandGrant \<in> set ?commands \<or> CommandRevoke \<in> set ?commands) \<longrightarrow> ?grants \<noteq> []"
    "SigningAlgorithmEdDSA \<in> set (elems (core_SigningAlgorithms (insp_Core d)))"
    "SigningAlgorithmES256 \<in> set (elems (core_SigningAlgorithms (insp_Core d)))"
    "has_prefix (si_DID (insp_Service d)) ''did:''"
    using issues by (simp_all only: de_Morgan_conj not_not simp_thms imp_conv_disj)
  show ?thesis
    unfolding Let_def
    using version rest ok docs by (intro conjI) (blast | simp)+
qed

definition example_inspect :: string where
  "example_inspect = quote_tildes
     ''{~aep_version~:~1.0~,~bindings~:{~supported~:[~http~]},~commands~:{~supported~:[~inspect~]},~core~:{~signing_algorithms~:[~EdDSA~,~ES256~]},~http~:{},~identity~:{~methods~:[~did:web~]},~service~:{~did~:~did:web:s.example~}}''"

theorem parsed_inspect_document_valid_witness:
  "\<exists>d. ParseInspectDocument example_inspect = Inr d \<and>
    IsVersionCompatible (insp_AEPVersion d) Version \<and>
    {SigningAlgorithmEdDSA, SigningAlgorithmES256} \<subseteq> set (elems (core_SigningAlgorithms (insp_Core d)))"
proof -
  have "case ParseInspectDocument example_inspect of Inr _ \<Rightarrow> True | Inl _ \<Rightarrow> False" by code_simp
  then obtain d where "ParseInspectDocument example_inspect = Inr d" by (auto split: sum.splits)
  with parsed_inspect_document_valid show ?thesis by blast
qed

definition example_invalid_descriptor :: InspectDocument where
  "example_invalid_descriptor = \<lparr>insp_AEPVersion = ''1.0'', insp_Authentication = None,
     insp_Bindings = \<lparr>bind_Supported = Some [''http'']\<rparr>, insp_Claims = None,
     insp_Commands = \<lparr>cmds_Supported = Some [''inspect''], cmds_GrantTypes = None, cmds_GrantTypesConfig = []\<rparr>,
     insp_Core = \<lparr>core_SigningAlgorithms = Some [''EdDSA'', ''ES256'']\<rparr>,
     insp_Extensions = Some \<lparr>ext_Supported = Some [ServiceDocumentsExtension]\<rparr>,
     insp_HTTP = \<lparr>http_EndpointBase = [], http_OpenAPI = None\<rparr>,
     insp_Identity = \<lparr>idy_Methods = None\<rparr>, insp_Service = \<lparr>si_DID = ''did:web:s.example''\<rparr>,
     insp_ServiceDocuments = Some [\<lparr>sd_ID = ''tos'', sd_Type = ''terms_of_service'', sd_Title = ''Terms'',
       sd_Enrollment = ''sometimes'', sd_Representations = None\<rparr>], insp_Additional = []\<rparr>"

text \<open>The error of the first invalid descriptor, wrapped with its index.\<close>

lemma validateEachDocument_first:
  assumes "x \<in> set ds" and "ValidateServiceDocument x \<noteq> None"
  shows "\<exists>n cause. n < length ds \<and> ValidateServiceDocument (ds ! n) = Some cause \<and>
    (\<forall>m < n. ValidateServiceDocument (ds ! m) = None) \<and>
    validateEachDocument i ds = Some (Wrapped (''Service document '' @ digits_of (int (i + n))) cause)"
  using assms(1)
proof (induction ds arbitrary: i)
  case (Cons d ds)
  show ?case
  proof (cases "ValidateServiceDocument d")
    case None
    then have "x \<in> set ds" using Cons.prems assms(2) by auto
    from Cons.IH [OF this, of "Suc i"] obtain n cause where n: "n < length ds" "ValidateServiceDocument (ds ! n) = Some cause"
      "\<forall>m < n. ValidateServiceDocument (ds ! m) = None"
      "validateEachDocument (Suc i) ds = Some (Wrapped (''Service document '' @ digits_of (int (Suc i + n))) cause)"
      by blast
    have "\<forall>m < Suc n. ValidateServiceDocument ((d # ds) ! m) = None" using n(3) None by (auto simp: less_Suc_eq_0_disj)
    then show ?thesis using n None by (intro exI [of _ "Suc n"] exI [of _ cause]) simp
  next
    case (Some cause)
    then show ?thesis by (intro exI [of _ 0] exI [of _ cause]) simp
  qed
qed simp

text \<open>
  C22. The validator is blind to invalid descriptors. Of one through seven descriptors with an invalid
  one among them, \<open>ValidateServiceDocuments\<close> wraps the error of the first invalid one; a wrapped error
  has no issues to collect; so a document that advertises the extension is validated as if it had no
  descriptors. Only decoding, which validates every descriptor, never yields such a document.
\<close>

theorem validator_misses_invalid_descriptor:
  assumes "1 \<le> length ds" and "length ds \<le> 7" and "x \<in> set ds" and "ValidateServiceDocument x \<noteq> None"
    and "insp_Extensions d = Some e" and "ServiceDocumentsExtension \<in> set (elems (ext_Supported e))"
  shows "(\<exists>n cause. n < length ds \<and> ValidateServiceDocument (ds ! n) = Some cause \<and>
       (\<forall>m < n. ValidateServiceDocument (ds ! m) = None) \<and>
       ValidateServiceDocuments ds = Some (Wrapped (''Service document '' @ digits_of (int n)) cause)) \<and>
    appendValidationIssues (ValidateServiceDocuments ds) = [] \<and>
    ValidateInspectDocument (d\<lparr>insp_ServiceDocuments := Some ds\<rparr>) =
      ValidateInspectDocument (d\<lparr>insp_ServiceDocuments := None\<rparr>) \<and>
    (\<forall>raw old. InspectDocument_UnmarshalJSON raw old \<noteq> Some (d\<lparr>insp_ServiceDocuments := Some ds\<rparr>))"
proof -
  obtain n cause where n: "n < length ds" "ValidateServiceDocument (ds ! n) = Some cause"
      "\<forall>m < n. ValidateServiceDocument (ds ! m) = None"
      "validateEachDocument 0 ds = Some (Wrapped (''Service document '' @ digits_of (int n)) cause)"
    using validateEachDocument_first [OF assms(3,4), of 0] by auto
  then have wrapped: "ValidateServiceDocuments ds = Some (Wrapped (''Service document '' @ digits_of (int n)) cause)"
    using assms(1,2) by (auto simp: ValidateServiceDocuments_def)
  then have "appendValidationIssues (ValidateServiceDocuments ds) = []" by (simp add: appendValidationIssues_def)
  moreover have "ValidateInspectDocument (d\<lparr>insp_ServiceDocuments := Some ds\<rparr>) =
      ValidateInspectDocument (d\<lparr>insp_ServiceDocuments := None\<rparr>)"
    using calculation assms(5,6)
    by (simp add: ValidateInspectDocument_def service_document_issues_def containsValue_iff)
  moreover have "InspectDocument_UnmarshalJSON raw old \<noteq> Some (d\<lparr>insp_ServiceDocuments := Some ds\<rparr>)" for raw old
    using parsed_documents_valid [of raw old _ ds] assms(3,4) by auto
  ultimately show ?thesis using n wrapped by blast
qed

theorem validator_misses_invalid_descriptor_witness:
  "ValidateInspectDocument example_invalid_descriptor = None \<and>
   ValidateServiceDocuments (elems (insp_ServiceDocuments example_invalid_descriptor)) \<noteq> None"
proof -
  let ?ds = "elems (insp_ServiceDocuments example_invalid_descriptor)"
  have "ValidateInspectDocument (example_invalid_descriptor\<lparr>insp_ServiceDocuments := None\<rparr>) = None" by code_simp
  moreover have "hd ?ds \<in> set ?ds" "ValidateServiceDocument (hd ?ds) \<noteq> None" by code_simp+
  moreover have "example_invalid_descriptor\<lparr>insp_ServiceDocuments := Some ?ds\<rparr> = example_invalid_descriptor"
    by (simp add: example_invalid_descriptor_def)
  ultimately show ?thesis
    using validator_misses_invalid_descriptor [of ?ds "hd ?ds" example_invalid_descriptor
        "\<lparr>ext_Supported = Some [ServiceDocumentsExtension]\<rparr>"]
    by (auto simp: example_invalid_descriptor_def)
qed

end
