(* ===== verification/Protocol.thy ===== *)
theory Protocol
  imports Inspect
begin

text \<open>
  \<open>protocol.go\<close>: the requests and responses of the commands, their validation and parsing, the
  claims of a client assertion and problem details, with their codecs from \<open>additional.go\<close>.
\<close>

section \<open>Enroll\<close>

definition zero_enroll_request :: EnrollRequest where
  "zero_enroll_request = \<lparr>erq_AcknowledgedDocumentIDs = None, erq_AgentDID = [], erq_Claims = None,
     erq_IdempotencyKey = [], erq_Additional = []\<rparr>"

definition fields_enroll_request :: "EnrollRequest fields" where
  "fields_enroll_request =
     [(''acknowledged_document_ids'', on_field dec_strings erq_AcknowledgedDocumentIDs
         (\<lambda>x. erq_AcknowledgedDocumentIDs_update (\<lambda>_. x))),
      (''agent_did'', on_field dec_string erq_AgentDID (\<lambda>x. erq_AgentDID_update (\<lambda>_. x))),
      (''claims'', on_field (dec_ptr ClaimValues_UnmarshalJSON zero_claims) erq_Claims (\<lambda>x. erq_Claims_update (\<lambda>_. x))),
      (''idempotency_key'', on_field dec_string erq_IdempotencyKey (\<lambda>x. erq_IdempotencyKey_update (\<lambda>_. x)))]"

definition EnrollRequest_UnmarshalJSON :: "EnrollRequest decoder" where
  "EnrollRequest_UnmarshalJSON =
     unmarshalAdditional fields_enroll_request zero_enroll_request (\<lambda>x. erq_Additional_update (\<lambda>_. x))"

definition EnrollRequest_MarshalJSON :: "EnrollRequest \<Rightarrow> string option" where
  "EnrollRequest_MarshalJSON v =
     (case (case erq_Claims v of
              None \<Rightarrow> Some []
            | Some c \<Rightarrow> map_option (\<lambda>t. [(''claims'', t)]) (ClaimValues_MarshalJSON c)) of
        None \<Rightarrow> None
      | Some claims \<Rightarrow>
          encodeAdditional
            (omit_nil ''acknowledged_document_ids'' (enc_array \<circ> map enc_string) (erq_AcknowledgedDocumentIDs v) @
             [(''agent_did'', enc_string (erq_AgentDID v))] @ claims @
             omit_empty ''idempotency_key'' (erq_IdempotencyKey v))
            (jsonFieldNames fields_enroll_request) (erq_Additional v))"

definition ValidateEnrollRequest :: "EnrollRequest \<Rightarrow> go_error option" where
  "ValidateEnrollRequest val =
     validationResult ''Enroll request''
       (appendValidationIssues (ValidateDocumentIDs (elems (erq_AcknowledgedDocumentIDs val))) @
        requireNonEmpty (erq_AgentDID val) ''$.agent_did'' @
        (case erq_Claims val of
           Some claims \<Rightarrow> appendValidationIssues (ValidateClaimValues claims) | None \<Rightarrow> []))"

definition ParseEnrollRequest :: "string \<Rightarrow> EnrollRequest result" where
  "ParseEnrollRequest data =
     (case parseAndValidate data ''Enroll request'' EnrollRequest_UnmarshalJSON zero_enroll_request
             ValidateEnrollRequest [''/claims'', ''/idempotency_key'', ''/acknowledged_document_ids''] of
        Inl err \<Rightarrow> Inl err
      | Inr val \<Rightarrow>
          (case rejectEmptyStringPaths data ''Enroll request'' [''/idempotency_key''] of
             Some err \<Rightarrow> Inl err
           | None \<Rightarrow>
               if erq_Claims val = None then Inr val
               else
                 (case dec_object data of
                    None \<Rightarrow> Inl (Library ''encoding/json'')
                  | Some fs \<Rightarrow>
                      (case ParseClaimValues
                              (case map_of (elems fs) ''claims'' of Some raw \<Rightarrow> raw | None \<Rightarrow> []) of
                         Inl err \<Rightarrow> Inl err | Inr _ \<Rightarrow> Inr val))))"

definition zero_enroll_response :: EnrollResponse where
  "zero_enroll_response = \<lparr>ers_AcknowledgedDocumentIDs = None, ers_Status = [], ers_OwnerActionRequired = None,
     ers_VerificationPending = None, ers_RequirementsPending = None, ers_Additional = []\<rparr>"

definition fields_enroll_response :: "EnrollResponse fields" where
  "fields_enroll_response =
     [(''acknowledged_document_ids'', on_field dec_strings ers_AcknowledgedDocumentIDs
         (\<lambda>x. ers_AcknowledgedDocumentIDs_update (\<lambda>_. x))),
      (''status'', on_field dec_string ers_Status (\<lambda>x. ers_Status_update (\<lambda>_. x))),
      (''owner_action_required'', on_field (dec_ptr dec_string []) ers_OwnerActionRequired
         (\<lambda>x. ers_OwnerActionRequired_update (\<lambda>_. x))),
      (''verification_pending'', on_field dec_strings ers_VerificationPending
         (\<lambda>x. ers_VerificationPending_update (\<lambda>_. x))),
      (''requirements_pending'', on_field dec_strings ers_RequirementsPending
         (\<lambda>x. ers_RequirementsPending_update (\<lambda>_. x)))]"

definition EnrollResponse_UnmarshalJSON :: "EnrollResponse decoder" where
  "EnrollResponse_UnmarshalJSON =
     unmarshalAdditional fields_enroll_response zero_enroll_response (\<lambda>x. ers_Additional_update (\<lambda>_. x))"

definition EnrollResponse_MarshalJSON :: "EnrollResponse \<Rightarrow> string option" where
  "EnrollResponse_MarshalJSON v =
     encodeCanonicalOwnerAction
       (omit_nil ''acknowledged_document_ids'' (enc_array \<circ> map enc_string) (ers_AcknowledgedDocumentIDs v) @
        [(''status'', enc_string (ers_Status v))] @
        omit_nil ''owner_action_required'' enc_string (ers_OwnerActionRequired v) @
        omit_empty_slice ''verification_pending'' enc_string (ers_VerificationPending v) @
        omit_empty_slice ''requirements_pending'' enc_string (ers_RequirementsPending v))
       (jsonFieldNames fields_enroll_response) (ers_Additional v) (ers_OwnerActionRequired v)"

definition registered_statuses :: "AgentStatus list" where
  "registered_statuses =
     [AgentActive, AgentPending, AgentRejected, AgentSuspended, AgentTerminated, AgentUnavailable]"

definition status_issues :: "AgentStatus \<Rightarrow> ValidationIssue list" where
  "status_issues status =
     (if status \<notin> set registered_statuses
      then [issue ''$.status'' ''Expected a registered Agent status.''] else [])"

definition ValidateEnrollResponse :: "EnrollResponse \<Rightarrow> go_error option" where
  "ValidateEnrollResponse val =
     validationResult ''Enroll response''
       (appendValidationIssues (ValidateDocumentIDs (elems (ers_AcknowledgedDocumentIDs val))) @
        status_issues (ers_Status val) @
        validateOwnerActionRequired (ers_OwnerActionRequired val) @
        validateNonEmptyStrings (ers_VerificationPending val) ''$.verification_pending'' @
        validateNonEmptyStrings (ers_RequirementsPending val) ''$.requirements_pending'')"

definition ParseEnrollResponse :: "string \<Rightarrow> EnrollResponse result" where
  "ParseEnrollResponse data =
     parseAndValidate data ''Enroll response'' EnrollResponse_UnmarshalJSON zero_enroll_response
       ValidateEnrollResponse
       [''/owner_action_required'', ''/verification_pending'', ''/requirements_pending'',
        ''/acknowledged_document_ids'']"

section \<open>Status\<close>

definition zero_status_response :: StatusResponse where
  "zero_status_response = \<lparr>srs_Status = [], srs_OwnerActionRequired = None, srs_VerificationPending = None,
     srs_RequirementsPending = None, srs_Since = [], srs_Additional = []\<rparr>"

definition fields_status_response :: "StatusResponse fields" where
  "fields_status_response =
     [(''status'', on_field dec_string srs_Status (\<lambda>x. srs_Status_update (\<lambda>_. x))),
      (''owner_action_required'', on_field (dec_ptr dec_string []) srs_OwnerActionRequired
         (\<lambda>x. srs_OwnerActionRequired_update (\<lambda>_. x))),
      (''verification_pending'', on_field dec_strings srs_VerificationPending
         (\<lambda>x. srs_VerificationPending_update (\<lambda>_. x))),
      (''requirements_pending'', on_field dec_strings srs_RequirementsPending
         (\<lambda>x. srs_RequirementsPending_update (\<lambda>_. x))),
      (''since'', on_field dec_string srs_Since (\<lambda>x. srs_Since_update (\<lambda>_. x)))]"

definition StatusResponse_UnmarshalJSON :: "StatusResponse decoder" where
  "StatusResponse_UnmarshalJSON =
     unmarshalAdditional fields_status_response zero_status_response (\<lambda>x. srs_Additional_update (\<lambda>_. x))"

definition StatusResponse_MarshalJSON :: "StatusResponse \<Rightarrow> string option" where
  "StatusResponse_MarshalJSON v =
     encodeCanonicalOwnerAction
       ([(''status'', enc_string (srs_Status v))] @
        omit_nil ''owner_action_required'' enc_string (srs_OwnerActionRequired v) @
        omit_empty_slice ''verification_pending'' enc_string (srs_VerificationPending v) @
        omit_empty_slice ''requirements_pending'' enc_string (srs_RequirementsPending v) @
        omit_empty ''since'' (srs_Since v))
       (jsonFieldNames fields_status_response) (srs_Additional v) (srs_OwnerActionRequired v)"

definition ValidateStatusResponse :: "StatusResponse \<Rightarrow> go_error option" where
  "ValidateStatusResponse val =
     validationResult ''Status response''
       (status_issues (srs_Status val) @
        validateOwnerActionRequired (srs_OwnerActionRequired val) @
        validateNonEmptyStrings (srs_VerificationPending val) ''$.verification_pending'' @
        validateNonEmptyStrings (srs_RequirementsPending val) ''$.requirements_pending'' @
        (if srs_Since val \<noteq> [] \<and> parse_rfc3339 (srs_Since val) = None
         then [issue ''$.since'' ''Expected an RFC 3339 date-time.''] else []))"

definition ParseStatusResponse :: "string \<Rightarrow> StatusResponse result" where
  "ParseStatusResponse data =
     parseAndValidate data ''Status response'' StatusResponse_UnmarshalJSON zero_status_response
       ValidateStatusResponse
       [''/owner_action_required'', ''/verification_pending'', ''/requirements_pending'', ''/since'']"

section \<open>Grant and Revoke\<close>

definition zero_grant_request :: GrantRequest where
  "zero_grant_request = \<lparr>grq_GrantType = [], grq_RequestedScopes = None, grq_Additional = []\<rparr>"

definition fields_grant_request :: "GrantRequest fields" where
  "fields_grant_request =
     [(''grant_type'', on_field dec_string grq_GrantType (\<lambda>x. grq_GrantType_update (\<lambda>_. x))),
      (''requested_scopes'', on_field dec_strings grq_RequestedScopes (\<lambda>x. grq_RequestedScopes_update (\<lambda>_. x)))]"

definition GrantRequest_UnmarshalJSON :: "GrantRequest decoder" where
  "GrantRequest_UnmarshalJSON =
     unmarshalAdditional fields_grant_request zero_grant_request (\<lambda>x. grq_Additional_update (\<lambda>_. x))"

definition GrantRequest_MarshalJSON :: "GrantRequest \<Rightarrow> string option" where
  "GrantRequest_MarshalJSON v =
     encodeAdditional
       ([(''grant_type'', enc_string (grq_GrantType v))] @
        omit_empty_slice ''requested_scopes'' enc_string (grq_RequestedScopes v))
       (jsonFieldNames fields_grant_request) (grq_Additional v)"

definition ValidateGrantRequest :: "GrantRequest \<Rightarrow> go_error option" where
  "ValidateGrantRequest val =
     validationResult ''Grant request''
       (requireNonEmpty (grq_GrantType val) ''$.grant_type'' @
        validateStrings (elems (grq_RequestedScopes val)) ''$.requested_scopes'')"

definition ParseGrantRequest :: "string \<Rightarrow> GrantRequest result" where
  "ParseGrantRequest data =
     parseAndValidate data ''Grant request'' GrantRequest_UnmarshalJSON zero_grant_request
       ValidateGrantRequest [''/requested_scopes'']"

definition zero_revoke_request :: RevokeRequest where
  "zero_revoke_request = \<lparr>rrq_GrantType = [], rrq_CredentialID = [], rrq_AllGrantTypes = [], rrq_Additional = []\<rparr>"

definition fields_revoke_request :: "RevokeRequest fields" where
  "fields_revoke_request =
     [(''grant_type'', on_field dec_string rrq_GrantType (\<lambda>x. rrq_GrantType_update (\<lambda>_. x))),
      (''credential_id'', on_field dec_string rrq_CredentialID (\<lambda>x. rrq_CredentialID_update (\<lambda>_. x))),
      (''all_grant_types'', on_field dec_string rrq_AllGrantTypes (\<lambda>x. rrq_AllGrantTypes_update (\<lambda>_. x)))]"

definition RevokeRequest_UnmarshalJSON :: "RevokeRequest decoder" where
  "RevokeRequest_UnmarshalJSON =
     unmarshalAdditional fields_revoke_request zero_revoke_request (\<lambda>x. rrq_Additional_update (\<lambda>_. x))"

definition RevokeRequest_MarshalJSON :: "RevokeRequest \<Rightarrow> string option" where
  "RevokeRequest_MarshalJSON v =
     encodeAdditional
       (omit_empty ''grant_type'' (rrq_GrantType v) @ omit_empty ''credential_id'' (rrq_CredentialID v) @
        omit_empty ''all_grant_types'' (rrq_AllGrantTypes v))
       (jsonFieldNames fields_revoke_request) (rrq_Additional v)"

definition ValidateRevokeRequest :: "RevokeRequest \<Rightarrow> go_error option" where
  "ValidateRevokeRequest val =
     (let hasAllGrantTypes = rrq_AllGrantTypes val \<noteq> [];
          hasCredentialID = rrq_CredentialID val \<noteq> [];
          hasGrantType = rrq_GrantType val \<noteq> [] in
      validationResult ''Revoke request''
        ((if hasAllGrantTypes \<and> rrq_AllGrantTypes val \<noteq> ''true''
          then [issue ''$.all_grant_types'' ''Expected true.''] else []) @
         (if (\<not> hasAllGrantTypes \<and> \<not> hasGrantType) \<or>
             (hasAllGrantTypes \<and> (hasCredentialID \<or> hasGrantType)) \<or>
             (hasCredentialID \<and> \<not> hasGrantType)
          then [issue ''$'' ''Expected grant_type, grant_type with credential_id, or all_grant_types.'']
          else [])))"

definition ParseRevokeRequest :: "string \<Rightarrow> RevokeRequest result" where
  "ParseRevokeRequest data =
     (case parseAndValidate data ''Revoke request'' RevokeRequest_UnmarshalJSON zero_revoke_request
             ValidateRevokeRequest [''/grant_type'', ''/credential_id'', ''/all_grant_types''] of
        Inl err \<Rightarrow> Inl err
      | Inr val \<Rightarrow>
          (case rejectEmptyStringPaths data ''Revoke request''
                  [''/grant_type'', ''/credential_id'', ''/all_grant_types''] of
             Some err \<Rightarrow> Inl err | None \<Rightarrow> Inr val))"

definition ParseRevokeResponse :: "string \<Rightarrow> RevokeResponse result" where
  "ParseRevokeResponse data =
     (case decodeOne (dec_map dec_raw []) None data of
        Inl err \<Rightarrow> Inl (wrapDecodeError ''Revoke response'' err)
      | Inr val \<Rightarrow>
          if val = None \<or> elems val \<noteq> []
          then Inl (invalid ''Revoke response'' ''$'' ''Expected an empty object.'') else Inr ())"

definition ValidateRevokeResponse :: "RevokeResponse \<Rightarrow> go_error option" where
  "ValidateRevokeResponse val = None"

section \<open>Metadata\<close>

definition zero_idempotency_metadata :: IdempotencyMetadata where
  "zero_idempotency_metadata = \<lparr>im_AgentDID = None, im_IdempotencyKey = [], im_FirstBodyHash = None,
     im_SecondBodyHash = None, im_Additional = []\<rparr>"

definition fields_idempotency_metadata :: "IdempotencyMetadata fields" where
  "fields_idempotency_metadata =
     [(''agent_did'', on_field (dec_ptr dec_string []) im_AgentDID (\<lambda>x. im_AgentDID_update (\<lambda>_. x))),
      (''idempotency_key'', on_field dec_string im_IdempotencyKey (\<lambda>x. im_IdempotencyKey_update (\<lambda>_. x))),
      (''first_body_hash'', on_field (dec_ptr dec_string []) im_FirstBodyHash (\<lambda>x. im_FirstBodyHash_update (\<lambda>_. x))),
      (''second_body_hash'', on_field (dec_ptr dec_string []) im_SecondBodyHash (\<lambda>x. im_SecondBodyHash_update (\<lambda>_. x)))]"

definition IdempotencyMetadata_UnmarshalJSON :: "IdempotencyMetadata decoder" where
  "IdempotencyMetadata_UnmarshalJSON =
     unmarshalAdditional fields_idempotency_metadata zero_idempotency_metadata (\<lambda>x. im_Additional_update (\<lambda>_. x))"

definition IdempotencyMetadata_MarshalJSON :: "IdempotencyMetadata \<Rightarrow> string option" where
  "IdempotencyMetadata_MarshalJSON v =
     encodeAdditional
       (omit_nil ''agent_did'' enc_string (im_AgentDID v) @
        [(''idempotency_key'', enc_string (im_IdempotencyKey v))] @
        omit_nil ''first_body_hash'' enc_string (im_FirstBodyHash v) @
        omit_nil ''second_body_hash'' enc_string (im_SecondBodyHash v))
       (jsonFieldNames fields_idempotency_metadata) (im_Additional v)"

definition ValidateIdempotencyMetadata :: "IdempotencyMetadata \<Rightarrow> go_error option" where
  "ValidateIdempotencyMetadata val =
     validationResult ''Idempotency metadata''
       (requireNonEmpty (im_IdempotencyKey val) ''$.idempotency_key'' @
        (if im_AgentDID val = Some [] then [issue ''$.agent_did'' ''Expected a non-empty string.''] else []) @
        validateBodyHash (im_FirstBodyHash val) ''$.first_body_hash'' @
        validateBodyHash (im_SecondBodyHash val) ''$.second_body_hash'')"

definition ParseIdempotencyMetadata :: "string \<Rightarrow> IdempotencyMetadata result" where
  "ParseIdempotencyMetadata data =
     parseAndValidate data ''Idempotency metadata'' IdempotencyMetadata_UnmarshalJSON zero_idempotency_metadata
       ValidateIdempotencyMetadata [''/agent_did'', ''/first_body_hash'', ''/second_body_hash'']"

definition zero_security_scheme :: OpenAPIAEPSecurityScheme where
  "zero_security_scheme = \<lparr>oss_AuthenticationMethod = [], oss_Additional = []\<rparr>"

definition fields_security_scheme :: "OpenAPIAEPSecurityScheme fields" where
  "fields_security_scheme =
     [(''x-aep-authentication-method'', on_field dec_string oss_AuthenticationMethod
         (\<lambda>x. oss_AuthenticationMethod_update (\<lambda>_. x)))]"

definition OpenAPIAEPSecurityScheme_UnmarshalJSON :: "OpenAPIAEPSecurityScheme decoder" where
  "OpenAPIAEPSecurityScheme_UnmarshalJSON =
     unmarshalAdditional fields_security_scheme zero_security_scheme (\<lambda>x. oss_Additional_update (\<lambda>_. x))"

definition OpenAPIAEPSecurityScheme_MarshalJSON :: "OpenAPIAEPSecurityScheme \<Rightarrow> string option" where
  "OpenAPIAEPSecurityScheme_MarshalJSON v =
     encodeAdditional [(''x-aep-authentication-method'', enc_string (oss_AuthenticationMethod v))]
       (jsonFieldNames fields_security_scheme) (oss_Additional v)"

definition ValidateOpenAPIAEPSecurityScheme :: "OpenAPIAEPSecurityScheme \<Rightarrow> go_error option" where
  "ValidateOpenAPIAEPSecurityScheme val =
     validationResult ''OpenAPI AEP security scheme''
       (if \<not> full_match advertisementPattern (oss_AuthenticationMethod val)
        then [issue ''$.x-aep-authentication-method'' ''Expected a lowercase authentication-method identifier.'']
        else [])"

definition ParseOpenAPIAEPSecurityScheme :: "string \<Rightarrow> OpenAPIAEPSecurityScheme result" where
  "ParseOpenAPIAEPSecurityScheme data =
     parseAndValidate data ''OpenAPI AEP security scheme'' OpenAPIAEPSecurityScheme_UnmarshalJSON
       zero_security_scheme ValidateOpenAPIAEPSecurityScheme []"

section \<open>Client assertions\<close>

text \<open>Ranging over a string yields its runes; a control character is one ASCII byte.\<close>

definition containsControlCharacter :: "string \<Rightarrow> bool" where
  "containsControlCharacter val \<longleftrightarrow> list_ex (\<lambda>c. byte c \<le> 0x1f \<or> byte c = 0x7f) val"

definition isProtectedResourceURI :: "string \<Rightarrow> bool \<Rightarrow> bool" where
  "isProtectedResourceURI val allowInsecureLoopback \<longleftrightarrow>
     (if CHR ''#'' \<in> set val \<or> containsControlCharacter val then False
      else case url_Parse val of
             None \<Rightarrow> False
           | Some parsed \<Rightarrow>
               if url_Host parsed = [] \<or> url_User parsed \<noteq> None \<or> url_Opaque parsed \<noteq> [] then False
               else if url_Scheme parsed = ''https'' then True
               else allowInsecureLoopback \<and> url_Scheme parsed = ''http'' \<and> isLoopbackHost (url_Hostname parsed))"

text \<open>The addition is on 64-bit integers and wraps.\<close>

definition exceedsAssertionLifetime :: "int \<Rightarrow> int \<Rightarrow> bool" where
  "exceedsAssertionLifetime issuedAt expiresAt \<longleftrightarrow>
     (let maxLifetimeSeconds = go_div MaxAssertionLifetime Second in
      issuedAt \<le> max_i64 - maxLifetimeSeconds \<and> i64 (issuedAt + maxLifetimeSeconds) < expiresAt)"

definition assertion_operations :: "AssertionOperation list" where
  "assertion_operations =
     [AssertionEnroll, AssertionGrant, AssertionRevoke, AssertionStatus, AssertionAuthenticate]"

definition ValidateClientAssertionClaimsWithOptions :: "ClientAssertionClaims \<Rightarrow> bool \<Rightarrow> go_error option" where
  "ValidateClientAssertionClaimsWithOptions val allowInsecureLoopback =
     validationResult ''client assertion claims''
       (requireNonEmpty (cac_Issuer val) ''$.iss'' @
        requireNonEmpty (cac_Subject val) ''$.sub'' @
        (if cac_Issuer val \<noteq> [] \<and> cac_Subject val \<noteq> [] \<and> cac_Issuer val \<noteq> cac_Subject val
         then [issue ''$.sub'' ''Expected sub to equal iss.''] else []) @
        requireNonEmpty (cac_Audience val) ''$.aud'' @
        requireNonEmpty (cac_JWTID val) ''$.jti'' @
        (if cac_Operation val \<notin> set assertion_operations
         then [issue ''$.op'' ''Expected a registered assertion operation.''] else []) @
        (if cac_Operation val = AssertionAuthenticate
         then (if \<not> isProtectedResourceURI (cac_Resource val) allowInsecureLoopback
               then [issue ''$.resource'' ''Expected an HTTPS protected-resource URI without a fragment.''] else [])
         else if cac_Resource val \<noteq> []
         then [issue ''$.resource'' ''resource is only valid for authenticate.''] else []) @
        (if cac_ExpiresAt val \<le> cac_IssuedAt val
         then [issue ''$.exp'' ''Expected exp after iat.'']
         else if exceedsAssertionLifetime (cac_IssuedAt val) (cac_ExpiresAt val)
         then [issue ''$.exp'' ''Expected an assertion lifetime no greater than 300 seconds.''] else []))"

definition ValidateClientAssertionClaims :: "ClientAssertionClaims \<Rightarrow> go_error option" where
  "ValidateClientAssertionClaims val = ValidateClientAssertionClaimsWithOptions val False"

definition zero_assertion_claims :: ClientAssertionClaims where
  "zero_assertion_claims = \<lparr>cac_Audience = [], cac_ExpiresAt = 0, cac_IssuedAt = 0, cac_Issuer = [],
     cac_JWTID = [], cac_Operation = [], cac_Resource = [], cac_Subject = [], cac_Additional = []\<rparr>"

definition fields_assertion_claims :: "ClientAssertionClaims fields" where
  "fields_assertion_claims =
     [(''aud'', on_field dec_string cac_Audience (\<lambda>x. cac_Audience_update (\<lambda>_. x))),
      (''exp'', on_field dec_int cac_ExpiresAt (\<lambda>x. cac_ExpiresAt_update (\<lambda>_. x))),
      (''iat'', on_field dec_int cac_IssuedAt (\<lambda>x. cac_IssuedAt_update (\<lambda>_. x))),
      (''iss'', on_field dec_string cac_Issuer (\<lambda>x. cac_Issuer_update (\<lambda>_. x))),
      (''jti'', on_field dec_string cac_JWTID (\<lambda>x. cac_JWTID_update (\<lambda>_. x))),
      (''op'', on_field dec_string cac_Operation (\<lambda>x. cac_Operation_update (\<lambda>_. x))),
      (''resource'', on_field dec_string cac_Resource (\<lambda>x. cac_Resource_update (\<lambda>_. x))),
      (''sub'', on_field dec_string cac_Subject (\<lambda>x. cac_Subject_update (\<lambda>_. x)))]"

definition ClientAssertionClaims_UnmarshalJSON :: "ClientAssertionClaims decoder" where
  "ClientAssertionClaims_UnmarshalJSON =
     unmarshalAdditional fields_assertion_claims zero_assertion_claims (\<lambda>x. cac_Additional_update (\<lambda>_. x))"

definition ClientAssertionClaims_MarshalJSON :: "ClientAssertionClaims \<Rightarrow> string option" where
  "ClientAssertionClaims_MarshalJSON v =
     encodeAdditional
       ([(''aud'', enc_string (cac_Audience v)), (''exp'', enc_int (cac_ExpiresAt v)),
         (''iat'', enc_int (cac_IssuedAt v)), (''iss'', enc_string (cac_Issuer v)),
         (''jti'', enc_string (cac_JWTID v)), (''op'', enc_string (cac_Operation v))] @
        omit_empty ''resource'' (cac_Resource v) @ [(''sub'', enc_string (cac_Subject v))])
       (jsonFieldNames fields_assertion_claims) (cac_Additional v)"

definition ParseClientAssertionClaimsWithOptions :: "string \<Rightarrow> bool \<Rightarrow> ClientAssertionClaims result" where
  "ParseClientAssertionClaimsWithOptions data allowInsecureLoopback =
     parseAndValidate data ''client assertion claims'' ClientAssertionClaims_UnmarshalJSON zero_assertion_claims
       (\<lambda>v. ValidateClientAssertionClaimsWithOptions v allowInsecureLoopback) []"

definition ParseClientAssertionClaims :: "string \<Rightarrow> ClientAssertionClaims result" where
  "ParseClientAssertionClaims data = ParseClientAssertionClaimsWithOptions data False"

end
