(* ===== verification/Grants.thy ===== *)
theory Grants
  imports Protocol
begin

text \<open>
  The rest of \<open>protocol.go\<close>: problem details and the three built-in Grant responses, with their
  codecs and validation.
\<close>

section \<open>Problem details\<close>

definition NewProblemDetails :: "ErrorCode \<Rightarrow> string \<Rightarrow> int \<Rightarrow> ProblemDetails" where
  "NewProblemDetails code title status = \<lparr>pd_RequiredDocumentIDs = None,
     pd_Type = ''urn:aep:error:'' @ code, pd_Title = title, pd_Status = status, pd_Detail = [],
     pd_Instance = [], pd_Code = code, pd_OwnerActionRequired = None, pd_RequirementsPending = None,
     pd_VerificationPending = None, pd_Additional = []\<rparr>"

definition zero_problem :: ProblemDetails where
  "zero_problem = \<lparr>pd_RequiredDocumentIDs = None, pd_Type = [], pd_Title = [], pd_Status = 0,
     pd_Detail = [], pd_Instance = [], pd_Code = [], pd_OwnerActionRequired = None,
     pd_RequirementsPending = None, pd_VerificationPending = None, pd_Additional = []\<rparr>"

definition fields_problem :: "ProblemDetails fields" where
  "fields_problem =
     [(''required_document_ids'', on_field dec_strings pd_RequiredDocumentIDs
         (\<lambda>x. pd_RequiredDocumentIDs_update (\<lambda>_. x))),
      (''type'', on_field dec_string pd_Type (\<lambda>x. pd_Type_update (\<lambda>_. x))),
      (''title'', on_field dec_string pd_Title (\<lambda>x. pd_Title_update (\<lambda>_. x))),
      (''status'', on_field dec_int pd_Status (\<lambda>x. pd_Status_update (\<lambda>_. x))),
      (''detail'', on_field dec_string pd_Detail (\<lambda>x. pd_Detail_update (\<lambda>_. x))),
      (''instance'', on_field dec_string pd_Instance (\<lambda>x. pd_Instance_update (\<lambda>_. x))),
      (''code'', on_field dec_string pd_Code (\<lambda>x. pd_Code_update (\<lambda>_. x))),
      (''owner_action_required'', on_field (dec_ptr dec_string []) pd_OwnerActionRequired
         (\<lambda>x. pd_OwnerActionRequired_update (\<lambda>_. x))),
      (''requirements_pending'', on_field dec_strings pd_RequirementsPending
         (\<lambda>x. pd_RequirementsPending_update (\<lambda>_. x))),
      (''verification_pending'', on_field dec_strings pd_VerificationPending
         (\<lambda>x. pd_VerificationPending_update (\<lambda>_. x)))]"

definition ProblemDetails_UnmarshalJSON :: "ProblemDetails decoder" where
  "ProblemDetails_UnmarshalJSON =
     unmarshalAdditional fields_problem zero_problem (\<lambda>x. pd_Additional_update (\<lambda>_. x))"

definition ProblemDetails_MarshalJSON :: "ProblemDetails \<Rightarrow> string option" where
  "ProblemDetails_MarshalJSON v =
     encodeCanonicalOwnerAction
       (omit_nil ''required_document_ids'' (enc_array \<circ> map enc_string) (pd_RequiredDocumentIDs v) @
        [(''type'', enc_string (pd_Type v)), (''title'', enc_string (pd_Title v)),
         (''status'', enc_int (pd_Status v))] @
        omit_empty ''detail'' (pd_Detail v) @ omit_empty ''instance'' (pd_Instance v) @
        [(''code'', enc_string (pd_Code v))] @
        omit_nil ''owner_action_required'' enc_string (pd_OwnerActionRequired v) @
        omit_empty_slice ''requirements_pending'' enc_string (pd_RequirementsPending v) @
        omit_empty_slice ''verification_pending'' enc_string (pd_VerificationPending v))
       (jsonFieldNames fields_problem) (pd_Additional v) (pd_OwnerActionRequired v)"

definition ValidateProblemDetails :: "ProblemDetails \<Rightarrow> go_error option" where
  "ValidateProblemDetails val =
     (let requirements = elems (pd_RequirementsPending val) in
      validationResult ''Problem Details''
        ((if pd_RequiredDocumentIDs val \<noteq> None \<or> containsValue requirements ''service_documents''
          then appendValidationIssues (ValidateDocumentIDs (elems (pd_RequiredDocumentIDs val))) @
            (if elems (pd_RequiredDocumentIDs val) = [] \<or> pd_Code val \<noteq> ErrorRequirementsUnmet \<or>
                pd_Status val \<noteq> 422 \<or> \<not> containsValue requirements ''service_documents''
             then [issue ''$.required_document_ids''
                    ''Document requirements require requirements_unmet, status 422, and service_documents.'']
             else [])
          else []) @
         (if pd_Type val \<noteq> ''urn:aep:error:'' @ pd_Code val
          then [issue ''$.type'' ''Expected an AEP error URN matching code.''] else []) @
         requireNonEmpty (pd_Title val) ''$.title'' @
         (if pd_Status val = 0 then [issue ''$.status'' ''Expected an integer HTTP status.''] else []) @
         requireNonEmpty (pd_Code val) ''$.code'' @
         (if pd_OwnerActionRequired val \<noteq> None \<and> pd_OwnerActionRequired val \<noteq> Some ''true''
          then [issue ''$.owner_action_required'' ''Expected true.''] else []) @
         validateNonEmptyStrings (pd_VerificationPending val) ''$.verification_pending'' @
         validateNonEmptyStrings (pd_RequirementsPending val) ''$.requirements_pending'' @
         (if pd_Code val = ErrorNotRecognized \<and>
             (pd_OwnerActionRequired val \<noteq> None \<or> pd_RequirementsPending val \<noteq> None \<or>
              pd_VerificationPending val \<noteq> None)
          then [issue ''$'' ''not_recognized must not expose pending or owner-action metadata.''] else [])))"

definition ParseProblemDetails :: "string \<Rightarrow> ProblemDetails result" where
  "ParseProblemDetails data =
     parseAndValidate data ''Problem Details'' ProblemDetails_UnmarshalJSON zero_problem
       ValidateProblemDetails
       [''/detail'', ''/instance'', ''/owner_action_required'', ''/requirements_pending'',
        ''/verification_pending'', ''/required_document_ids'']"

section \<open>Built-in Grant responses\<close>

definition validAPIKeyValue :: "string \<Rightarrow> bool" where
  "validAPIKeyValue val \<longleftrightarrow>
     (if list_ex (\<lambda>c. byte c < 0x21 \<or> 0x7e < byte c \<or> byte c = 0x22 \<or> byte c = 0x2c \<or>
                      byte c = 0x3b \<or> byte c = 0x5c) val
      then False else val \<noteq> [])"

definition field_name_char :: "char \<Rightarrow> bool" where
  "field_name_char c \<longleftrightarrow> is_alnum c \<or> c \<in> set ''!#$%&*+-.^_|~'' \<or> byte c = 0x27 \<or> byte c = 0x60"

text \<open>A byte above 127 starts or is a rune that the list of allowed runes does not contain.\<close>

definition IsHTTPFieldName :: "string \<Rightarrow> bool" where
  "IsHTTPFieldName val \<longleftrightarrow> (if list_ex (\<lambda>c. \<not> field_name_char c) val then False else val \<noteq> [])"

definition requireCredentialFields :: "string \<Rightarrow> string \<Rightarrow> string list \<Rightarrow> ValidationIssue list" where
  "requireCredentialFields credentialID expiresAt scopes =
     requireNonEmpty credentialID ''$.credential_id'' @
     requireNonEmpty expiresAt ''$.expires_at'' @
     (if expiresAt \<noteq> [] \<and> parse_rfc3339 expiresAt = None
      then [issue ''$.expires_at'' ''Expected an RFC 3339 date-time.''] else []) @
     validateStrings scopes ''$.scopes''"

definition ValidateOAuthBearerGrantResponse :: "OAuthBearerGrantResponse \<Rightarrow> go_error option" where
  "ValidateOAuthBearerGrantResponse val =
     validationResult ''OAuth Bearer Grant response''
       (requireNonEmpty (oauth_AccessToken val) ''$.access_token'' @
        requireCredentialFields (oauth_CredentialID val) (oauth_ExpiresAt val) (elems (oauth_Scopes val)) @
        (if oauth_TokenType val \<noteq> ''Bearer'' then [issue ''$.token_type'' ''Expected Bearer.''] else []))"

definition ValidateAPIKeyGrantResponse :: "APIKeyGrantResponse \<Rightarrow> go_error option" where
  "ValidateAPIKeyGrantResponse val =
     validationResult ''API-key Grant response''
       (requireNonEmpty (key_APIKey val) ''$.api_key'' @
        requireNonEmpty (key_Header val) ''$.header'' @
        (if key_APIKey val \<noteq> [] \<and> \<not> validAPIKeyValue (key_APIKey val)
         then [issue ''$.api_key'' ''Expected an unambiguous HTTP field value.''] else []) @
        (if key_Header val \<noteq> [] \<and> \<not> IsHTTPFieldName (key_Header val)
         then [issue ''$.header'' ''Expected an HTTP field name.''] else []) @
        requireCredentialFields (key_CredentialID val) (key_ExpiresAt val) (elems (key_Scopes val)))"

definition ValidateBasicGrantResponse :: "BasicGrantResponse \<Rightarrow> go_error option" where
  "ValidateBasicGrantResponse val =
     validationResult ''Basic Grant response''
       (requireNonEmpty (basic_Password val) ''$.password'' @
        requireNonEmpty (basic_Username val) ''$.username'' @
        (if basic_Username val \<noteq> [] \<and>
            (CHR '':'' \<in> set (basic_Username val) \<or> containsControlCharacter (basic_Username val))
         then [issue ''$.username'' ''Expected an RFC 7617 username without a colon or control character.''] else []) @
        (if basic_Password val \<noteq> [] \<and> containsControlCharacter (basic_Password val)
         then [issue ''$.password'' ''Expected a value without control characters.''] else []) @
        (if basic_Realm val = Some [] then [issue ''$.realm'' ''Expected a non-empty string.''] else []) @
        requireCredentialFields (basic_CredentialID val) (basic_ExpiresAt val) (elems (basic_Scopes val)))"

text \<open>The plain structs have no codec of their own.\<close>

definition zero_oauth :: OAuthBearerGrantResponse where
  "zero_oauth = \<lparr>oauth_AccessToken = [], oauth_CredentialID = [], oauth_ExpiresAt = [], oauth_Scopes = None,
     oauth_TokenType = []\<rparr>"

definition fields_oauth :: "OAuthBearerGrantResponse fields" where
  "fields_oauth =
     [(''access_token'', on_field dec_string oauth_AccessToken (\<lambda>x. oauth_AccessToken_update (\<lambda>_. x))),
      (''credential_id'', on_field dec_string oauth_CredentialID (\<lambda>x. oauth_CredentialID_update (\<lambda>_. x))),
      (''expires_at'', on_field dec_string oauth_ExpiresAt (\<lambda>x. oauth_ExpiresAt_update (\<lambda>_. x))),
      (''scopes'', on_field dec_strings oauth_Scopes (\<lambda>x. oauth_Scopes_update (\<lambda>_. x))),
      (''token_type'', on_field dec_string oauth_TokenType (\<lambda>x. oauth_TokenType_update (\<lambda>_. x)))]"

definition zero_key :: APIKeyGrantResponse where
  "zero_key = \<lparr>key_APIKey = [], key_CredentialID = [], key_ExpiresAt = [], key_Header = [], key_Scopes = None\<rparr>"

definition fields_key :: "APIKeyGrantResponse fields" where
  "fields_key =
     [(''api_key'', on_field dec_string key_APIKey (\<lambda>x. key_APIKey_update (\<lambda>_. x))),
      (''credential_id'', on_field dec_string key_CredentialID (\<lambda>x. key_CredentialID_update (\<lambda>_. x))),
      (''expires_at'', on_field dec_string key_ExpiresAt (\<lambda>x. key_ExpiresAt_update (\<lambda>_. x))),
      (''header'', on_field dec_string key_Header (\<lambda>x. key_Header_update (\<lambda>_. x))),
      (''scopes'', on_field dec_strings key_Scopes (\<lambda>x. key_Scopes_update (\<lambda>_. x)))]"

definition zero_basic :: BasicGrantResponse where
  "zero_basic = \<lparr>basic_CredentialID = [], basic_ExpiresAt = [], basic_Password = [], basic_Realm = None,
     basic_Scopes = None, basic_Username = []\<rparr>"

definition fields_basic :: "BasicGrantResponse fields" where
  "fields_basic =
     [(''credential_id'', on_field dec_string basic_CredentialID (\<lambda>x. basic_CredentialID_update (\<lambda>_. x))),
      (''expires_at'', on_field dec_string basic_ExpiresAt (\<lambda>x. basic_ExpiresAt_update (\<lambda>_. x))),
      (''password'', on_field dec_string basic_Password (\<lambda>x. basic_Password_update (\<lambda>_. x))),
      (''realm'', on_field (dec_ptr dec_string []) basic_Realm (\<lambda>x. basic_Realm_update (\<lambda>_. x))),
      (''scopes'', on_field dec_strings basic_Scopes (\<lambda>x. basic_Scopes_update (\<lambda>_. x))),
      (''username'', on_field dec_string basic_Username (\<lambda>x. basic_Username_update (\<lambda>_. x)))]"

definition ParseOAuthBearerGrantResponse :: "string \<Rightarrow> OAuthBearerGrantResponse result" where
  "ParseOAuthBearerGrantResponse data =
     parseAndValidate data ''OAuth Bearer Grant response'' (dec_struct fields_oauth) zero_oauth
       ValidateOAuthBearerGrantResponse []"

definition ParseAPIKeyGrantResponse :: "string \<Rightarrow> APIKeyGrantResponse result" where
  "ParseAPIKeyGrantResponse data =
     parseAndValidate data ''API-key Grant response'' (dec_struct fields_key) zero_key
       ValidateAPIKeyGrantResponse []"

definition ParseBasicGrantResponse :: "string \<Rightarrow> BasicGrantResponse result" where
  "ParseBasicGrantResponse data =
     parseAndValidate data ''Basic Grant response'' (dec_struct fields_basic) zero_basic
       ValidateBasicGrantResponse [''/realm'']"

definition ParseBuiltInGrantResponse :: "GrantType \<Rightarrow> string \<Rightarrow> BuiltInGrantResponse result" where
  "ParseBuiltInGrantResponse grantType data =
     (if grantType = GrantTypeOAuthBearer then
        (case ParseOAuthBearerGrantResponse data of Inl err \<Rightarrow> Inl err | Inr v \<Rightarrow> Inr (OAuthBearer v))
      else if grantType = GrantTypeAPIKey then
        (case ParseAPIKeyGrantResponse data of Inl err \<Rightarrow> Inl err | Inr v \<Rightarrow> Inr (APIKey v))
      else if grantType = GrantTypeBasic then
        (case ParseBasicGrantResponse data of Inl err \<Rightarrow> Inl err | Inr v \<Rightarrow> Inr (Basic v))
      else Inl (invalid ''Grant response'' ''$.grant_type'' ''Expected a built-in AEP grant type.''))"

definition wrong_grant_response :: go_error where
  "wrong_grant_response =
     invalid ''Grant response'' ''$.grant_type'' ''Expected the selected built-in AEP grant type.''"

text \<open>A nil interface is \<open>None\<close>.\<close>

fun ValidateBuiltInGrantResponse :: "GrantType \<Rightarrow> BuiltInGrantResponse option \<Rightarrow> go_error option" where
  "ValidateBuiltInGrantResponse grantType None = Some wrong_grant_response"
| "ValidateBuiltInGrantResponse grantType (Some (OAuthBearer response)) =
     (if grantType \<noteq> GrantTypeOAuthBearer then Some wrong_grant_response
      else ValidateOAuthBearerGrantResponse response)"
| "ValidateBuiltInGrantResponse grantType (Some (OAuthBearerPtr p)) =
     (case p of
        None \<Rightarrow> Some wrong_grant_response
      | Some response \<Rightarrow>
          if grantType \<noteq> GrantTypeOAuthBearer then Some wrong_grant_response
          else ValidateOAuthBearerGrantResponse response)"
| "ValidateBuiltInGrantResponse grantType (Some (APIKey response)) =
     (if grantType \<noteq> GrantTypeAPIKey then Some wrong_grant_response
      else ValidateAPIKeyGrantResponse response)"
| "ValidateBuiltInGrantResponse grantType (Some (APIKeyPtr p)) =
     (case p of
        None \<Rightarrow> Some wrong_grant_response
      | Some response \<Rightarrow>
          if grantType \<noteq> GrantTypeAPIKey then Some wrong_grant_response
          else ValidateAPIKeyGrantResponse response)"
| "ValidateBuiltInGrantResponse grantType (Some (Basic response)) =
     (if grantType \<noteq> GrantTypeBasic then Some wrong_grant_response
      else ValidateBasicGrantResponse response)"
| "ValidateBuiltInGrantResponse grantType (Some (BasicPtr p)) =
     (case p of
        None \<Rightarrow> Some wrong_grant_response
      | Some response \<Rightarrow>
          if grantType \<noteq> GrantTypeBasic then Some wrong_grant_response
          else ValidateBasicGrantResponse response)"

text \<open>\<open>json.Marshal\<close> of the interface; a nil pointer is null.\<close>

definition enc_oauth :: "OAuthBearerGrantResponse \<Rightarrow> string" where
  "enc_oauth v = enc_object [(''access_token'', enc_string (oauth_AccessToken v)),
     (''credential_id'', enc_string (oauth_CredentialID v)), (''expires_at'', enc_string (oauth_ExpiresAt v)),
     (''scopes'', enc_strings (oauth_Scopes v)), (''token_type'', enc_string (oauth_TokenType v))]"

definition enc_key :: "APIKeyGrantResponse \<Rightarrow> string" where
  "enc_key v = enc_object [(''api_key'', enc_string (key_APIKey v)),
     (''credential_id'', enc_string (key_CredentialID v)), (''expires_at'', enc_string (key_ExpiresAt v)),
     (''header'', enc_string (key_Header v)), (''scopes'', enc_strings (key_Scopes v))]"

definition enc_basic :: "BasicGrantResponse \<Rightarrow> string" where
  "enc_basic v = enc_object
     ([(''credential_id'', enc_string (basic_CredentialID v)), (''expires_at'', enc_string (basic_ExpiresAt v)),
       (''password'', enc_string (basic_Password v))] @
      omit_nil ''realm'' enc_string (basic_Realm v) @
      [(''scopes'', enc_strings (basic_Scopes v)), (''username'', enc_string (basic_Username v))])"

fun enc_grant_response :: "BuiltInGrantResponse \<Rightarrow> string" where
  "enc_grant_response (OAuthBearer v) = enc_oauth v"
| "enc_grant_response (APIKey v) = enc_key v"
| "enc_grant_response (Basic v) = enc_basic v"
| "enc_grant_response (OAuthBearerPtr p) = (case p of None \<Rightarrow> ''null'' | Some v \<Rightarrow> enc_oauth v)"
| "enc_grant_response (APIKeyPtr p) = (case p of None \<Rightarrow> ''null'' | Some v \<Rightarrow> enc_key v)"
| "enc_grant_response (BasicPtr p) = (case p of None \<Rightarrow> ''null'' | Some v \<Rightarrow> enc_basic v)"

lemmas grant_defs [go_defs] =
  NewProblemDetails_def zero_problem_def fields_problem_def ProblemDetails_UnmarshalJSON_def
  ProblemDetails_MarshalJSON_def ValidateProblemDetails_def ParseProblemDetails_def validAPIKeyValue_def
  field_name_char_def IsHTTPFieldName_def requireCredentialFields_def
  ValidateOAuthBearerGrantResponse_def ValidateAPIKeyGrantResponse_def ValidateBasicGrantResponse_def
  zero_oauth_def fields_oauth_def zero_key_def fields_key_def zero_basic_def fields_basic_def
  ParseOAuthBearerGrantResponse_def ParseAPIKeyGrantResponse_def ParseBasicGrantResponse_def
  ParseBuiltInGrantResponse_def wrong_grant_response_def enc_oauth_def enc_key_def enc_basic_def

section \<open>Lemmas\<close>

definition credential_fields_ok :: "string \<Rightarrow> string \<Rightarrow> string list \<Rightarrow> bool" where
  "credential_fields_ok credentialID expiresAt scopes \<longleftrightarrow>
     credentialID \<noteq> [] \<and> expiresAt \<noteq> [] \<and> parse_rfc3339 expiresAt \<noteq> None \<and> [] \<notin> set scopes"

lemma requireCredentialFields_Nil [no_issues]:
  "requireCredentialFields i e s = [] \<longleftrightarrow> credential_fields_ok i e s"
  by (auto simp: requireCredentialFields_def credential_fields_ok_def no_issues)

lemma ValidateOAuth_None:
  "ValidateOAuthBearerGrantResponse v = None \<longleftrightarrow>
     oauth_AccessToken v \<noteq> [] \<and> oauth_TokenType v = ''Bearer'' \<and>
     credential_fields_ok (oauth_CredentialID v) (oauth_ExpiresAt v) (elems (oauth_Scopes v))"
  by (auto simp: ValidateOAuthBearerGrantResponse_def no_issues)

lemma ValidateAPIKey_None:
  "ValidateAPIKeyGrantResponse v = None \<longleftrightarrow>
     validAPIKeyValue (key_APIKey v) \<and> IsHTTPFieldName (key_Header v) \<and>
     credential_fields_ok (key_CredentialID v) (key_ExpiresAt v) (elems (key_Scopes v))"
  by (auto simp: ValidateAPIKeyGrantResponse_def validAPIKeyValue_def IsHTTPFieldName_def no_issues)

lemma ValidateBasic_None:
  "ValidateBasicGrantResponse v = None \<longleftrightarrow>
     basic_Password v \<noteq> [] \<and> basic_Username v \<noteq> [] \<and> CHR '':'' \<notin> set (basic_Username v) \<and>
     \<not> containsControlCharacter (basic_Username v) \<and> \<not> containsControlCharacter (basic_Password v) \<and>
     basic_Realm v \<noteq> Some [] \<and>
     credential_fields_ok (basic_CredentialID v) (basic_ExpiresAt v) (elems (basic_Scopes v))"
  by (auto simp: ValidateBasicGrantResponse_def no_issues)

text \<open>Problem details built by \<open>NewProblemDetails\<close> are valid when there is a code, a title and a status.\<close>

lemma NewProblemDetails_valid:
  assumes "code \<noteq> []" "title \<noteq> []" "status \<noteq> 0"
  shows "ValidateProblemDetails (NewProblemDetails code title status) = None"
  using assms by (simp add: ValidateProblemDetails_def NewProblemDetails_def no_issues)

lemma lifetime_exact:
  assumes "in_i64 iat" and "in_i64 exp"
  shows "exceedsAssertionLifetime iat exp \<longleftrightarrow> 300 < exp - iat"
proof (cases "iat \<le> max_i64 - 300")
  case True
  then have "in_i64 (iat + 300)" using assms(1) by (simp add: in_i64_def)
  then show ?thesis using True by (auto simp: exceedsAssertionLifetime_def go_div_def)
next
  case False
  then show ?thesis using assms(2) by (auto simp: exceedsAssertionLifetime_def go_div_def in_i64_def)
qed

section \<open>Properties\<close>

text \<open>
  An API-key credential that validates can be sent: its header is a non-empty HTTP token and its
  key is visible ASCII without quotes, comma, semicolon or backslash, so neither can split a header
  or be read as a list; and a Basic credential that validates has a user name without a colon, so
  the pair it encodes splits back into the same user name and password.
\<close>

theorem issued_credentials_unambiguous:
  assumes "ValidateBuiltInGrantResponse t (Some r) = None"
  shows "case r of
      APIKey k \<Rightarrow> key_Header k \<noteq> [] \<and> (\<forall>c \<in> set (key_Header k). field_name_char c) \<and> key_APIKey k \<noteq> [] \<and>
        (\<forall>c \<in> set (key_APIKey k). 0x21 \<le> byte c \<and> byte c \<le> 0x7e \<and> byte c \<notin> {0x22, 0x2c, 0x3b, 0x5c})
    | Basic b \<Rightarrow> cut_at CHR '':'' (basic_Username b @ '':'' @ basic_Password b) =
        (basic_Username b, basic_Password b, True)
    | OAuthBearer o1 \<Rightarrow> oauth_AccessToken o1 \<noteq> [] \<and> oauth_TokenType o1 = ''Bearer''
    | _ \<Rightarrow> True"
proof (cases r)
  case (Basic b)
  then have "CHR '':'' \<notin> set (basic_Username b)"
    using assms by (auto simp: ValidateBasic_None split: if_splits)
  then have "takeWhile (\<lambda>x. x \<noteq> CHR '':'') (basic_Username b @ CHR '':'' # basic_Password b) = basic_Username b"
    "dropWhile (\<lambda>x. x \<noteq> CHR '':'') (basic_Username b @ CHR '':'' # basic_Password b) = CHR '':'' # basic_Password b"
    by (subst takeWhile_append2 dropWhile_append2; auto)+
  then show ?thesis using Basic by (simp add: cut_at_def)
next
  case (APIKey k)
  then show ?thesis using assms
    by (auto simp: ValidateAPIKey_None validAPIKeyValue_def IsHTTPFieldName_def list_ex_iff not_less not_le
        split: if_splits)
qed (use assms in \<open>auto simp: ValidateOAuth_None split: if_splits\<close>)

definition example_key :: APIKeyGrantResponse where
  "example_key = \<lparr>key_APIKey = ''k3y'', key_CredentialID = ''c1'', key_ExpiresAt = ''2030-01-01T00:00:00Z'',
     key_Header = ''X-API-Key'', key_Scopes = Some []\<rparr>"

theorem issued_credentials_unambiguous_witness:
  "key_Header example_key \<noteq> [] \<and> list_all field_name_char (key_Header example_key) \<and>
   key_APIKey example_key \<noteq> []"
proof -
  have "ValidateBuiltInGrantResponse GrantTypeAPIKey (Some (APIKey example_key)) = None" by code_simp
  from issued_credentials_unambiguous [OF this] show ?thesis by (simp add: list_all_iff)
qed

text \<open>
  A Revoke request is valid exactly in three shapes: one grant type, one credential of a grant
  type, or all grant types with the literal \<open>true\<close>.
\<close>

theorem revoke_request_shapes:
  "ValidateRevokeRequest r = None \<longleftrightarrow>
     (rrq_AllGrantTypes r = [] \<and> rrq_GrantType r \<noteq> []) \<or>
     (rrq_AllGrantTypes r = ''true'' \<and> rrq_GrantType r = [] \<and> rrq_CredentialID r = [])"
  by (auto simp: ValidateRevokeRequest_def Let_def validationResult_def)

text \<open>
  On 64-bit timestamps the lifetime check rejects an assertion exactly when it lives longer than
  300 seconds: the guard keeps the addition from wrapping, and the cases it skips cannot exceed.
\<close>

theorem assertion_lifetime_exact:
  assumes "in_i64 iat" and "in_i64 exp"
  shows "exceedsAssertionLifetime iat exp \<longleftrightarrow> 300 < exp - iat"
  using assms by (rule lifetime_exact)

theorem assertion_lifetime_exact_witness:
  "exceedsAssertionLifetime 9223372036854775500 9223372036854775801 \<longleftrightarrow>
     300 < (9223372036854775801 :: int) - 9223372036854775500"
  by (rule assertion_lifetime_exact) (simp_all add: in_i64_def i64_limits)

text \<open>
  Assertion claims validate exactly when issuer and subject are the same non-empty DID, audience
  and token identifier are present, the operation is registered, a protected-resource URI is given
  for authenticate and only there, and the lifetime is positive and at most 300 seconds.
\<close>

theorem assertion_claims_valid_iff:
  assumes "in_i64 (cac_IssuedAt c)" and "in_i64 (cac_ExpiresAt c)"
  shows "ValidateClientAssertionClaimsWithOptions c loopback = None \<longleftrightarrow>
     cac_Issuer c \<noteq> [] \<and> cac_Issuer c = cac_Subject c \<and> cac_Audience c \<noteq> [] \<and> cac_JWTID c \<noteq> [] \<and>
     cac_Operation c \<in> set assertion_operations \<and>
     (if cac_Operation c = AssertionAuthenticate then isProtectedResourceURI (cac_Resource c) loopback
      else cac_Resource c = []) \<and>
     1 \<le> cac_ExpiresAt c - cac_IssuedAt c \<and> cac_ExpiresAt c - cac_IssuedAt c \<le> 300"
proof -
  have lifetime: "exceedsAssertionLifetime (cac_IssuedAt c) (cac_ExpiresAt c) \<longleftrightarrow>
      300 < cac_ExpiresAt c - cac_IssuedAt c"
    using lifetime_exact assms by blast
  show ?thesis
    unfolding ValidateClientAssertionClaimsWithOptions_def validationResult_None append_is_Nil_conv lifetime
    by (auto simp: requireNonEmpty_Nil)
qed

definition example_assertion :: ClientAssertionClaims where
  "example_assertion = \<lparr>cac_Audience = ''did:web:s.example'', cac_ExpiresAt = 1300, cac_IssuedAt = 1000,
     cac_Issuer = ''did:web:a.example'', cac_JWTID = ''j1'', cac_Operation = ''enroll'', cac_Resource = [],
     cac_Subject = ''did:web:a.example'', cac_Additional = []\<rparr>"

theorem assertion_claims_valid_iff_witness:
  "ValidateClientAssertionClaimsWithOptions example_assertion False = None"
  by (subst assertion_claims_valid_iff)
    (simp_all add: example_assertion_def in_i64_def i64_limits assertion_operations_def)

end
