(* ===== verification/Did_Web.thy ===== *)
theory Did_Web
  imports Documents
begin

text \<open>
  \<open>did_web.go\<close>: the URL of a did:web document and the resolution of a verification key from it. The
  HTTP client and the JSON Web Key codec of go-jose are parameters. The client is the one the
  code uses, which does not follow redirects; a response reports the URL of its last request.
\<close>

definition isDIDWebPathSegment :: "string \<Rightarrow> bool" where
  "isDIDWebPathSegment component \<longleftrightarrow>
     (if component = [] \<or> component = ''.'' \<or> component = ''..'' then False
      else list_all (\<lambda>c. \<not> (c = CHR ''/'' \<or> c = CHR 0x5C \<or> c = CHR ''?'' \<or> c = CHR ''#'' \<or>
                            byte c < 0x21 \<or> byte c = 0x7f)) component)"

text \<open>The loop over the components after the host.\<close>

fun decodeComponents :: "string list \<Rightarrow> string list result" where
  "decodeComponents [] = Inr []"
| "decodeComponents (part # parts) =
     (case PathUnescape part of
        None \<Rightarrow> Inl (Wrapped ''decode did:web path'' (Library ''net/url''))
      | Some component \<Rightarrow>
          if \<not> isDIDWebPathSegment component
          then Inl (Text (''invalid did:web path component: '' @ part))
          else (case decodeComponents parts of
                  Inl err \<Rightarrow> Inl err | Inr decoded \<Rightarrow> Inr (component # decoded)))"

definition didWebDocumentURL :: "string \<Rightarrow> bool \<Rightarrow> URL result" where
  "didWebDocumentURL did allowInsecureLoopback =
     (if \<not> has_prefix did ''did:web:'' then Inl (Text (''unsupported DID method: '' @ did))
      else
        let parts = split_on CHR '':'' (trim_prefix did ''did:web:'') in
        if hd parts = [] then Inl (Text (''invalid did:web identifier: '' @ did))
        else case PathUnescape (hd parts) of
          None \<Rightarrow> Inl (Wrapped ''decode did:web host'' (Library ''net/url''))
        | Some host \<Rightarrow>
            (case url_Parse (''https://'' @ host) of
               None \<Rightarrow> Inl (Text (''invalid did:web host: '' @ host))
             | Some parsedHost \<Rightarrow>
                 if url_Host parsedHost \<noteq> host \<or> url_Hostname parsedHost = [] \<or>
                    url_User parsedHost \<noteq> None \<or> url_Path parsedHost \<noteq> []
                 then Inl (Text (''invalid did:web host: '' @ host))
                 else
                   let scheme = (if allowInsecureLoopback \<and> isLoopbackHost (url_Hostname parsedHost)
                                 then ''http'' else ''https'') in
                   if length parts \<le> 1
                   then Inr (empty_url\<lparr>url_Scheme := scheme, url_Host := host, url_Path := ''/.well-known/did.json''\<rparr>)
                   else (case decodeComponents (tl parts) of
                           Inl err \<Rightarrow> Inl err
                         | Inr decoded \<Rightarrow>
                             Inr (empty_url\<lparr>url_Scheme := scheme, url_Host := host,
                                   url_Path := ''/'' @ join_with ''/'' decoded @ ''/did.json''\<rparr>))))"

definition DIDWebDocumentURL :: "string \<Rightarrow> URL result" where
  "DIDWebDocumentURL did = didWebDocumentURL did False"

definition DIDWebDocumentURLWithOptions :: "string \<Rightarrow> bool \<Rightarrow> URL result" where
  "DIDWebDocumentURLWithOptions did allowInsecureLoopback = didWebDocumentURL did allowInsecureLoopback"

section \<open>Resolution\<close>

text \<open>A response: the URL of its request when it has one, the status, and the body or a read error.\<close>

record http_response =
  rsp_URL :: "string option"
  rsp_StatusCode :: int
  rsp_Body :: "string result"

record VerificationMethod =
  vm_ID :: string
  vm_PublicKeyJWK :: RawMessage

record DIDDocument =
  did_ID :: string
  did_VerificationMethods :: "VerificationMethod slice"

definition fields_method :: "VerificationMethod fields" where
  "fields_method =
     [(''id'', on_field dec_string vm_ID (\<lambda>x. vm_ID_update (\<lambda>_. x))),
      (''publicKeyJwk'', on_field dec_raw vm_PublicKeyJWK (\<lambda>x. vm_PublicKeyJWK_update (\<lambda>_. x)))]"

definition fields_did_document :: "DIDDocument fields" where
  "fields_did_document =
     [(''id'', on_field dec_string did_ID (\<lambda>x. did_ID_update (\<lambda>_. x))),
      (''verificationMethod'', on_field (dec_slice (dec_struct fields_method) \<lparr>vm_ID = [], vm_PublicKeyJWK = []\<rparr>)
         did_VerificationMethods (\<lambda>x. did_VerificationMethods_update (\<lambda>_. x)))]"

definition maxDIDDocumentBytes :: int where
  "maxDIDDocumentBytes = 1048576"

text \<open>The loop over the verification methods; \<open>jwk\<close> decodes a key and \<open>valid\<close> is go-jose's check.\<close>

fun selectMethod ::
  "(RawMessage \<Rightarrow> 'key option) \<Rightarrow> ('key \<Rightarrow> bool) \<Rightarrow> string \<Rightarrow> string \<Rightarrow> VerificationMethod list \<Rightarrow> 'key result" where
  "selectMethod jwk valid keyID relativeKeyID [] = Inl (Text (''no public JWK found for '' @ keyID))"
| "selectMethod jwk valid keyID relativeKeyID (m # ms) =
     (if vm_ID m \<noteq> keyID \<and> (relativeKeyID = [] \<or> vm_ID m \<noteq> relativeKeyID)
      then selectMethod jwk valid keyID relativeKeyID ms
      else if vm_PublicKeyJWK m = [] then selectMethod jwk valid keyID relativeKeyID ms
      else case jwk (vm_PublicKeyJWK m) of
             None \<Rightarrow> Inl (Wrapped ''decode did:web public JWK'' (Library ''go-jose''))
           | Some key \<Rightarrow> if \<not> valid key then Inl (Text ''did:web public JWK is invalid'') else Inr key)"

definition readDIDDocument :: "string \<Rightarrow> http_response \<Rightarrow> DIDDocument result" where
  "readDIDDocument documentURL response =
     (if rsp_URL response \<noteq> Some documentURL then Inl (Text ''did:web document redirects are not allowed'')
      else if rsp_StatusCode response < 200 \<or> 300 \<le> rsp_StatusCode response
      then Inl (Text (''fetch did:web document: HTTP '' @ enc_int (rsp_StatusCode response)))
      else case rsp_Body response of
             Inl err \<Rightarrow> Inl (Wrapped ''read did:web document'' err)
           | Inr body \<Rightarrow>
               if maxDIDDocumentBytes < int (length body)
               then Inl (Text ''did:web document exceeds the 1 MiB limit'')
               else (case decodeOne (dec_struct fields_did_document)
                            \<lparr>did_ID = [], did_VerificationMethods = None\<rparr> body of
                       Inl err \<Rightarrow> Inl (Wrapped ''decode did:web document'' err)
                     | Inr document \<Rightarrow> Inr document))"

definition ResolveDIDWebPublicKey ::
  "(string \<Rightarrow> (go_error, 'w, http_response) act) \<Rightarrow> (RawMessage \<Rightarrow> 'key option) \<Rightarrow> ('key \<Rightarrow> bool) \<Rightarrow>
   bool \<Rightarrow> string \<Rightarrow> string \<Rightarrow> (go_error, 'w, 'key) act" where
  "ResolveDIDWebPublicKey do_get jwk valid allowInsecureLoopback did keyID =
     (if keyID = [] then fail (Text ''AEP did:web key ID is required'')
      else if before CHR ''#'' keyID \<noteq> did
      then fail (Text ''AEP did:web key ID does not identify the assertion issuer'')
      else case didWebDocumentURL did allowInsecureLoopback of
             Inl err \<Rightarrow> fail err
           | Inr documentURL \<Rightarrow>
               if url_Parse (url_String documentURL) = None
               then fail (Wrapped ''create did:web request'' (Library ''net/http''))
               else
               and_then (attempt (do_get (url_String documentURL))) (\<lambda>fetched.
               case fetched of
                 Inl err \<Rightarrow> fail (Wrapped ''fetch did:web document'' err)
               | Inr response \<Rightarrow>
                   (case readDIDDocument (url_String documentURL) response of
                      Inl err \<Rightarrow> fail err
                    | Inr document \<Rightarrow>
                        if did_ID document \<noteq> did
                        then fail (Text (''did:web document does not identify '' @ did))
                        else
                          (case cut_at CHR ''#'' keyID of (_, fragment, hasFragment) \<Rightarrow>
                             of_result (selectMethod jwk valid keyID
                               (if hasFragment then ''#'' @ fragment else [])
                               (elems (did_VerificationMethods document)))))))"

lemmas did_web_defs [go_defs] =
  isDIDWebPathSegment_def didWebDocumentURL_def DIDWebDocumentURL_def DIDWebDocumentURLWithOptions_def
  fields_method_def fields_did_document_def maxDIDDocumentBytes_def readDIDDocument_def
  ResolveDIDWebPublicKey_def

section \<open>Lemmas\<close>

lemma decodeComponents_ok:
  "decodeComponents parts = Inr segs \<Longrightarrow> length segs = length parts \<and> (\<forall>s \<in> set segs. isDIDWebPathSegment s)"
  by (induction parts arbitrary: segs) (auto split: option.splits if_splits sum.splits)

lemma segment_no_slash: "isDIDWebPathSegment s \<Longrightarrow> s \<noteq> [] \<and> CHR ''/'' \<notin> set s \<and> s \<notin> {''.'', ''..''}"
  by (auto simp: isDIDWebPathSegment_def list_all_iff split: if_splits)

lemma join_with_append:
  "ps \<noteq> [] \<Longrightarrow> join_with sep (ps @ [q]) = join_with sep ps @ sep @ q"
  by (induction sep ps rule: join_with.induct) auto

lemma split_segments:
  assumes "\<forall>s \<in> set segs. isDIDWebPathSegment s" and "segs \<noteq> []"
  shows "split_on CHR ''/'' (''/'' @ join_with ''/'' segs @ ''/did.json'') = [] # segs @ [''did.json'']"
proof -
  have "''/'' @ join_with ''/'' segs @ ''/did.json'' = CHR ''/'' # join_with ''/'' (segs @ [''did.json''])"
    using assms(2) by (simp add: join_with_append)
  moreover have "split_on CHR ''/'' (join_with ''/'' (segs @ [''did.json''])) = segs @ [''did.json'']"
    using assms segment_no_slash by (intro split_on_join) auto
  ultimately show ?thesis by simp
qed

lemma length_unescape: "unescape m s = Some t \<Longrightarrow> length t \<le> length s"
proof (induction m s arbitrary: t rule: unescape.induct)
  case (2 m c s)
  show ?case
  proof (cases "c = CHR ''%''")
    case True
    then obtain a b u where s: "s = a # b # u" using 2(3) by (auto split: list.splits)
    then obtain t' where "unescape m u = Some t'" "length t = Suc (length t')"
      using 2(3) True by (auto simp: Let_def split: if_splits)
    then have "length t' \<le> length u" using 2(1) [OF True s] 2(3) True s by (auto simp: Let_def split: if_splits)
    then show ?thesis using \<open>length t = _\<close> s by simp
  next
    case False
    then obtain t' where "unescape m s = Some t'" "length t = Suc (length t')"
      using 2(3) by (auto split: if_splits)
    then show ?thesis using 2(2) [OF False] 2(3) False by (auto split: if_splits)
  qed
qed simp

text \<open>The host a URL without user information names is no longer than its authority.\<close>

lemma length_takeWhile_eq: "length s \<le> length (takeWhile P s) \<Longrightarrow> takeWhile P s = s"
  by (metis length_takeWhile_le le_antisym takeWhile_eq_take take_all order_refl)

lemma last_index_nth:
  assumes "last_index c s = Some i"
  shows "i < length s" "s ! i = c"
proof -
  let ?n = "length (takeWhile (\<lambda>x. x \<noteq> c) (rev s))"
  have c: "c \<in> set s" and i: "i = length s - 1 - ?n" using assms by (auto simp: last_index_def split: if_splits)
  have lt: "?n < length (rev s)" using length_takeWhile_found [of "rev s" "\<lambda>x. x = c"] c by simp
  then show "i < length s" using i by simp
  have "rev s ! ?n = c" using nth_length_takeWhile [OF lt] by simp
  then show "s ! i = c" using i lt by (simp add: rev_nth)
qed

lemma length_unescape_zoned:
  assumes "unescape_zoned s = Some t"
  shows "length t \<le> length s"
proof (cases "find_sub ''%25'' s")
  case (Some i)
  then obtain h z where "unescape encodeHost (take i s) = Some h" "unescape encodeZone (drop i s) = Some z" "t = h @ z"
    using assms by (auto simp: unescape_zoned_def split: option.splits)
  then have "length t \<le> length (take i s) + length (drop i s)"
    using length_unescape [of encodeHost "take i s" h] length_unescape [of encodeZone "drop i s" z]
    by (simp only: length_append add_mono)
  then show ?thesis by (metis append_take_drop_id length_append)
qed (use assms length_unescape in \<open>auto simp: unescape_zoned_def\<close>)

lemma length_parse_host:
  assumes "parse_host s = Some h"
  shows "length h \<le> length s"
proof (cases "last_index CHR ''['' s")
  case None
  then show ?thesis using assms length_unescape by (auto simp: parse_host_def split: if_splits)
next
  case (Some j)
  then obtain k name port where k: "last_index CHR '']'' s = Some k" and j: "j = 0"
    and name: "unescape_zoned (drop 1 (take k s)) = Some name"
    and port: "unescape encodeHost (drop (Suc k) s) = Some port" and h: "h = ''['' @ name @ '']'' @ port"
    using assms by (auto simp: parse_host_def Let_def split: option.splits if_splits ip_kind.splits)
  have "s ! 0 \<noteq> s ! k" using last_index_nth(2) [OF Some] last_index_nth(2) [OF k] j by simp
  then have "k \<noteq> 0" by metis
  then show ?thesis
    using length_unescape_zoned [OF name] length_unescape [OF port] last_index_nth(1) [OF k] h by simp
qed

lemma parse_authority_host:
  assumes "parse_authority a = Some (user, h)" and "length a \<le> length h"
  shows "CHR ''@'' \<notin> set a"
proof
  assume at: "CHR ''@'' \<in> set a"
  then obtain i where i: "last_index CHR ''@'' a = Some i" by (simp add: last_index_def)
  then have "parse_host (drop (Suc i) a) = Some h"
    using assms(1) by (auto simp: parse_authority_def Let_def split: option.splits if_splits prod.splits)
  then have "length h \<le> length a - Suc i" using length_parse_host by fastforce
  then show False using assms(2) last_index_nth(1) [OF i] by simp
qed

lemma parse_authority_length:
  assumes "parse_authority a = Some (user, h)"
  shows "length h \<le> length a"
proof (cases "last_index CHR ''@'' a")
  case None
  then show ?thesis using assms length_parse_host by (auto simp: parse_authority_def)
next
  case (Some i)
  then have "parse_host (drop (Suc i) a) = Some h"
    using assms by (auto simp: parse_authority_def Let_def split: option.splits if_splits prod.splits)
  then show ?thesis using length_parse_host by fastforce
qed

lemma get_scheme_https: "get_scheme (''https://'' @ x) = Some (''https'', ''//'' @ x)"
  by (simp add: get_scheme_def scheme_char_def is_lower_def is_upper_def is_digit_def in_range_def)

lemma to_lower_https: "to_lower ''https'' = ''https''"
  by code_simp

lemma set_path_host: "set_path p u = Some u' \<Longrightarrow> url_Host u' = url_Host u"
  by (auto simp: set_path_def split: option.splits)

lemma set_fragment_host: "set_fragment f u = Some u' \<Longrightarrow> url_Host u' = url_Host u"
  by (auto simp: set_fragment_def split: option.splits)

lemma parse_rest_authority:
  assumes "parse_rest (''//'' @ x) u = Some v" and "url_Scheme u \<noteq> []"
  obtains user where "parse_authority (takeWhile (\<lambda>c. c \<noteq> CHR ''/'') x) = Some (user, url_Host v)"
  using assms by (auto simp: parse_rest_def Let_def split: option.splits dest: set_path_host)

lemma https_host:
  assumes "url_Parse (''https://'' @ host) = Some p" and "url_Host p = host"
  shows "\<forall>c \<in> set host. c \<notin> {CHR ''/'', CHR ''?'', CHR ''#'', CHR ''@''} \<and> 32 \<le> byte c \<and> byte c \<noteq> 127"
proof -
  define x where "x = before CHR ''#'' host"
  have u: "fst (cut_at CHR ''#'' (''https://'' @ host)) = ''https://'' @ x"
    by (simp add: before_takeWhile x_def)
  then obtain v where v: "parse_no_fragment (''https://'' @ x) = Some v" and vh: "url_Host v = host"
    using assms by (auto simp: url_Parse_def split: prod.splits option.splits if_splits dest: set_fragment_host)
  have ctl: "\<not> has_ctl_byte (''https://'' @ x)" using v by (auto simp: parse_no_fragment_def split: if_splits)
  have star: "''https://'' @ x \<noteq> ''*''" by simp
  obtain y w where y: "parse_rest (''//'' @ y) w = Some v" and w: "url_Scheme w \<noteq> []"
    and yx: "length y \<le> length x" "length y = length x \<Longrightarrow> y = x \<and> CHR ''?'' \<notin> set x"
  proof (cases "has_suffix (''//'' @ x) ''?'' \<and> count_char CHR ''?'' (''//'' @ x) = 1")
    case True
    then obtain t where t: "''//'' @ x = t @ ''?''" by (auto simp: has_suffix_append)
    then obtain z where z: "x = z @ ''?''" by (cases x rule: rev_cases) auto
    have "parse_rest (''//'' @ z) (empty_url\<lparr>url_Scheme := ''https'', url_ForceQuery := True\<rparr>) = Some v"
      using v True ctl unfolding parse_no_fragment_def get_scheme_https
      by (simp add: to_lower_https z butlast_append del: to_lower.simps)
    then show ?thesis using that [of z "empty_url\<lparr>url_Scheme := ''https'', url_ForceQuery := True\<rparr>"] z by simp
  next
    case False
    obtain q b where cut: "cut_at CHR ''?'' (''//'' @ x) = (''//'' @ before CHR ''?'' x, q, b)"
      by (cases "cut_at CHR ''?'' (''//'' @ x)") (auto simp: cut_at_def takeWhile_free split: if_splits)
    have "parse_rest (''//'' @ before CHR ''?'' x) (empty_url\<lparr>url_Scheme := ''https'', url_RawQuery := q\<rparr>) = Some v"
      using v ctl unfolding parse_no_fragment_def get_scheme_https
      by (simp only: if_False star option.case prod.case Let_def if_not_P [OF False] cut to_lower_https)
    then show ?thesis
      using that [of "before CHR ''?'' x" "empty_url\<lparr>url_Scheme := ''https'', url_RawQuery := q\<rparr>"]
      by (simp add: before_takeWhile length_takeWhile_le)
        (metis (mono_tags, lifting) length_takeWhile_eq order_refl set_takeWhileD)
  qed
  obtain user where auth: "parse_authority (takeWhile (\<lambda>c. c \<noteq> CHR ''/'') y) = Some (user, host)"
    using parse_rest_authority [OF y w] vh by metis
  let ?a = "takeWhile (\<lambda>c. c \<noteq> CHR ''/'') y"
  have lens: "length host \<le> length ?a" "length ?a \<le> length y" "length x \<le> length host"
    using parse_authority_length [OF auth] by (simp_all add: length_takeWhile_le x_def before_takeWhile)
  then have eq: "length y = length x" "length x = length host" "length ?a = length host" using yx(1) by linarith+
  have yx2: "y = x" "CHR ''?'' \<notin> set x" using yx(2) eq by auto
  have hx: "x = host" "CHR ''#'' \<notin> set host"
    using eq(2) unfolding x_def before_takeWhile
    by (metis length_takeWhile_eq order_refl, metis (mono_tags, lifting) length_takeWhile_eq order_refl set_takeWhileD)
  have a: "?a = y" using eq lens by (intro length_takeWhile_eq) simp
  then have "CHR ''/'' \<notin> set host" using hx yx2 by (metis (mono_tags, lifting) set_takeWhileD)
  moreover have "CHR ''@'' \<notin> set host" using parse_authority_host [OF auth] eq(3) a [unfolded yx2(1) hx(1)]
    unfolding yx2(1) hx(1) by simp
  moreover have "\<forall>c \<in> set host. 32 \<le> byte c \<and> byte c \<noteq> 127"
    using ctl hx by (auto simp: has_ctl_byte_def list_ex_iff not_less)
  ultimately show ?thesis using hx yx2 by auto
qed

section \<open>Properties\<close>

text \<open>
  C15. The URL of a did:web document stays on the host the DID names and inside its namespace: the
  scheme is https (or http to an allowed loopback host), the host is the decoded first component
  and holds no separator, user information or control character, and every other component is one
  path segment of its own, none of them empty or a dot segment.
\<close>

theorem did_web_url_confined:
  assumes "didWebDocumentURL did allow = Inr u"
  shows "\<exists>hostPart parts. did = ''did:web:'' @ join_with '':'' (hostPart # parts) \<and>
    PathUnescape hostPart = Some (url_Host u) \<and> url_Host u \<noteq> [] \<and>
    (\<forall>c \<in> set (url_Host u). c \<notin> {CHR ''/'', CHR ''?'', CHR ''#'', CHR ''@''} \<and> 32 \<le> byte c \<and> byte c \<noteq> 127) \<and>
    (url_Scheme u = ''https'' \<or> (allow \<and> url_Scheme u = ''http'' \<and> isLoopbackHost (url_Hostname u))) \<and>
    url_User u = None \<and> url_RawQuery u = [] \<and> url_Fragment u = [] \<and>
    (if parts = [] then url_Path u = ''/.well-known/did.json''
     else \<exists>segs. length segs = length parts \<and>
       split_on CHR ''/'' (url_Path u) = [] # segs @ [''did.json''] \<and>
       (\<forall>s \<in> set segs. s \<noteq> [] \<and> s \<noteq> ''.'' \<and> s \<noteq> ''..'' \<and> isDIDWebPathSegment s))"
proof -
  have pre: "has_prefix did ''did:web:''" using assms by (auto simp: didWebDocumentURL_def split: if_splits)
  define rest where "rest = trim_prefix did ''did:web:''"
  have did: "did = ''did:web:'' @ rest" using pre by (auto simp: rest_def trim_prefix_def has_prefix_append)
  obtain hostPart parts where sp: "split_on CHR '':'' rest = hostPart # parts"
    by (metis neq_Nil_conv split_on_not_Nil)
  obtain host p where host: "PathUnescape hostPart = Some host"
    and p: "url_Parse (''https://'' @ host) = Some p" "url_Host p = host" "url_Hostname p \<noteq> []"
    and built: "(if length (hostPart # parts) \<le> 1
       then Inr (empty_url\<lparr>url_Scheme := if allow \<and> isLoopbackHost (url_Hostname p) then ''http'' else ''https'',
              url_Host := host, url_Path := ''/.well-known/did.json''\<rparr>)
       else (case decodeComponents parts of
               Inl err \<Rightarrow> Inl err
             | Inr decoded \<Rightarrow> Inr (empty_url\<lparr>url_Scheme := if allow \<and> isLoopbackHost (url_Hostname p) then ''http'' else ''https'',
                 url_Host := host, url_Path := ''/'' @ join_with ''/'' decoded @ ''/did.json''\<rparr>))) = Inr u"
    using assms pre sp by (auto simp: didWebDocumentURL_def Let_def rest_def split: if_splits option.splits)
  have hostname: "url_Hostname u' = url_Hostname p" if "url_Host u' = host" for u' :: URL
    using that p(2) by (simp add: url_Hostname_def)
  have ne: "host \<noteq> []" using p(2,3) by (auto simp: url_Hostname_def last_index_def)
  note chars = https_host [OF p(1,2)]
  have joined: "did = ''did:web:'' @ join_with '':'' (hostPart # parts)"
    using did join_split_on [of "CHR '':''" rest] sp by simp
  show ?thesis
  proof (cases parts)
    case Nil
    then have u: "u = empty_url\<lparr>url_Scheme := if allow \<and> isLoopbackHost (url_Hostname p) then ''http'' else ''https'',
              url_Host := host, url_Path := ''/.well-known/did.json''\<rparr>" using built by simp
    show ?thesis
      by (rule exI [of _ hostPart], rule exI [of _ "[]"])
        (use joined Nil host ne chars hostname [of u] u in \<open>auto simp: empty_url_def\<close>)
  next
    case (Cons q qs)
    then obtain decoded where dec: "decodeComponents parts = Inr decoded"
      and u: "u = empty_url\<lparr>url_Scheme := if allow \<and> isLoopbackHost (url_Hostname p) then ''http'' else ''https'',
              url_Host := host, url_Path := ''/'' @ join_with ''/'' decoded @ ''/did.json''\<rparr>"
      using built by (auto split: sum.splits)
    note ok = decodeComponents_ok [OF dec]
    have "decoded \<noteq> []" using ok Cons by auto
    then have "split_on CHR ''/'' (url_Path u) = [] # decoded @ [''did.json'']"
      using split_segments ok u by simp
    then have segs: "\<exists>segs. length segs = length parts \<and>
       split_on CHR ''/'' (url_Path u) = [] # segs @ [''did.json''] \<and>
       (\<forall>s \<in> set segs. s \<noteq> [] \<and> s \<noteq> ''.'' \<and> s \<noteq> ''..'' \<and> isDIDWebPathSegment s)"
      using ok segment_no_slash by blast
    have flds: "url_Host u = host" "url_User u = None" "url_RawQuery u = []" "url_Fragment u = []"
      "url_Scheme u = ''https'' \<or> (allow \<and> url_Scheme u = ''http'' \<and> isLoopbackHost (url_Hostname u))"
      using u hostname [of u] by (auto simp: empty_url_def)
    show ?thesis
      by (rule exI [of _ hostPart], rule exI [of _ parts])
        (use joined Cons host ne chars segs flds in simp)
  qed
qed

theorem did_web_url_confined_witness:
  "\<exists>u. didWebDocumentURL ''did:web:example.com%3A8443:agents:a%2Eb'' True = Inr u \<and> url_Host u \<noteq> [] \<and>
    (url_Scheme u = ''https'' \<or> (True \<and> url_Scheme u = ''http'' \<and> isLoopbackHost (url_Hostname u)))"
proof -
  have "case didWebDocumentURL ''did:web:example.com%3A8443:agents:a%2Eb'' True of Inr _ \<Rightarrow> True | Inl _ \<Rightarrow> False"
    by code_simp
  from result_ok [OF this]
  obtain u where "didWebDocumentURL ''did:web:example.com%3A8443:agents:a%2Eb'' True = Inr u" by blast
  then show ?thesis using did_web_url_confined [of "''did:web:example.com%3A8443:agents:a%2Eb''" True u] by blast
qed

lemma selectMethod_ok:
  assumes "selectMethod jwk valid keyID rel ms = Inr key"
  shows "\<exists>m \<in> set ms. (vm_ID m = keyID \<or> rel \<noteq> [] \<and> vm_ID m = rel) \<and>
    vm_PublicKeyJWK m \<noteq> [] \<and> jwk (vm_PublicKeyJWK m) = Some key \<and> valid key"
  using assms by (induction ms) (auto split: if_splits option.splits)

lemma readDIDDocument_ok:
  assumes "readDIDDocument url response = Inr document"
  shows "rsp_URL response = Some url \<and> 200 \<le> rsp_StatusCode response \<and> rsp_StatusCode response < 300 \<and>
    (\<exists>body. rsp_Body response = Inr body \<and> int (length body) \<le> maxDIDDocumentBytes)"
  using assms by (auto simp: readDIDDocument_def not_le not_less split: if_splits sum.splits)

lemma dropWhile_found: "c \<in> set s \<Longrightarrow> \<exists>z. dropWhile (\<lambda>x. x \<noteq> c) s = c # z"
  by (induction s) auto

lemma cut_fragment: "cut_at CHR ''#'' k = (d, f, True) \<Longrightarrow> k = d @ ''#'' @ f"
proof -
  assume a: "cut_at CHR ''#'' k = (d, f, True)"
  then have c: "CHR ''#'' \<in> set k" and d: "d = takeWhile (\<lambda>x. x \<noteq> CHR ''#'') k"
    and f: "f = drop 1 (dropWhile (\<lambda>x. x \<noteq> CHR ''#'') k)" by (auto simp: cut_at_def split: if_splits)
  from dropWhile_found [OF c] obtain z where "dropWhile (\<lambda>x. x \<noteq> CHR ''#'') k = CHR ''#'' # z" ..
  then show ?thesis using d f takeWhile_dropWhile_id [of "\<lambda>x. x \<noteq> CHR ''#''" k] by simp
qed

text \<open>The run that returns a key.\<close>

lemma resolved_key:
  assumes "ResolveDIDWebPublicKey do_get jwk valid allow did keyID w = (Inr key, w')"
  shows "\<exists>u response document m body.
    didWebDocumentURL did allow = Inr u \<and> do_get (url_String u) w = (Inr response, w') \<and>
    rsp_URL response = Some (url_String u) \<and> 200 \<le> rsp_StatusCode response \<and> rsp_StatusCode response < 300 \<and>
    rsp_Body response = Inr body \<and> int (length body) \<le> 1048576 \<and>
    readDIDDocument (url_String u) response = Inr document \<and> did_ID document = did \<and>
    m \<in> set (elems (did_VerificationMethods document)) \<and>
    (vm_ID m = keyID \<or> (\<exists>f. keyID = did @ ''#'' @ f \<and> vm_ID m = ''#'' @ f)) \<and>
    jwk (vm_PublicKeyJWK m) = Some key \<and> valid key \<and> before CHR ''#'' keyID = did"
proof -
  obtain d f has where cut: "cut_at CHR ''#'' keyID = (d, f, has)" by (cases "cut_at CHR ''#'' keyID") auto
  have d: "d = did" using assms cut by (auto simp: ResolveDIDWebPublicKey_def split: if_splits)
  obtain u where u: "didWebDocumentURL did allow = Inr u"
    using assms cut d by (auto simp: ResolveDIDWebPublicKey_def split: if_splits sum.splits)
  obtain fetched w1 where get': "do_get (url_String u) w = (fetched, w1)"
    by (cases "do_get (url_String u) w")
  obtain response where resp: "fetched = Inr response"
    using assms cut d u get'
    by (cases fetched) (auto simp: ResolveDIDWebPublicKey_def and_then_Inr attempt_eq split: if_splits)
  obtain document where doc: "readDIDDocument (url_String u) response = Inr document"
    using assms cut d u get' resp
    by (auto simp: ResolveDIDWebPublicKey_def and_then_Inr attempt_eq split: if_splits sum.splits)
  have did: "did_ID document = did" and get: "do_get (url_String u) w = (Inr response, w')"
    and sel: "selectMethod jwk valid keyID (if has then ''#'' @ f else []) (elems (did_VerificationMethods document)) = Inr key"
    using assms cut d u get' resp doc
    by (auto simp: ResolveDIDWebPublicKey_def and_then_Inr attempt_eq split: if_splits)
  note read = readDIDDocument_ok [OF doc]
  obtain m where m: "m \<in> set (elems (did_VerificationMethods document))"
      "vm_ID m = keyID \<or> has \<and> vm_ID m = ''#'' @ f" "jwk (vm_PublicKeyJWK m) = Some key" "valid key"
    using selectMethod_ok [OF sel] by (auto split: if_splits)
  have "vm_ID m = keyID \<or> (\<exists>f. keyID = did @ ''#'' @ f \<and> vm_ID m = ''#'' @ f)"
    using m(2) cut d cut_fragment [of keyID did f] by auto
  then show ?thesis using u get doc did read m cut d by (auto simp: maxDIDDocumentBytes_def)
qed

text \<open>
  C14. A key that ResolveDIDWebPublicKey returns was published by the DID itself: it comes from a
  2xx answer of at most 1 MiB that was served by the DID's own document URL and not by a redirect,
  the document names the DID, one of its verification methods carries the key under the requested
  key ID or under that ID's fragment alone, and go-jose accepts the key. The key ID belongs to the DID.
\<close>

theorem resolved_key_is_published:
  assumes "ResolveDIDWebPublicKey do_get jwk valid allow did keyID w = (Inr key, w')"
  shows "\<exists>u response document m body.
    didWebDocumentURL did allow = Inr u \<and> do_get (url_String u) w = (Inr response, w') \<and>
    rsp_URL response = Some (url_String u) \<and> 200 \<le> rsp_StatusCode response \<and> rsp_StatusCode response < 300 \<and>
    rsp_Body response = Inr body \<and> int (length body) \<le> 1048576 \<and>
    readDIDDocument (url_String u) response = Inr document \<and> did_ID document = did \<and>
    m \<in> set (elems (did_VerificationMethods document)) \<and>
    (vm_ID m = keyID \<or> (\<exists>f. keyID = did @ ''#'' @ f \<and> vm_ID m = ''#'' @ f)) \<and>
    jwk (vm_PublicKeyJWK m) = Some key \<and> valid key \<and> before CHR ''#'' keyID = did"
  using resolved_key [OF assms] by simp

definition did_document_example :: string where
  "did_document_example = quote_tildes (''{~id~:~did:web:example.com~,~verificationMethod~:['' @
     ''{~id~:~#k0~},{~id~:~#k1~,~publicKeyJwk~:{~kty~:~OKP~}}]}'')"

theorem resolved_key_is_published_witness:
  "\<exists>u. didWebDocumentURL ''did:web:example.com'' False = Inr u \<and>
    before CHR ''#'' ''did:web:example.com#k1'' = ''did:web:example.com''"
proof -
  let ?get = "\<lambda>url. ok \<lparr>rsp_URL = Some url, rsp_StatusCode = 200, rsp_Body = Inr did_document_example\<rparr>
    :: (go_error, unit, http_response) act"
  have "case ResolveDIDWebPublicKey ?get Some (\<lambda>_. True) False ''did:web:example.com'' ''did:web:example.com#k1'' () of
    (Inr _, _) \<Rightarrow> True | (Inl _, _) \<Rightarrow> False" by code_simp
  from run_ok [OF this] obtain key where "ResolveDIDWebPublicKey ?get Some (\<lambda>_. True) False
      ''did:web:example.com'' ''did:web:example.com#k1'' () = (Inr key, ())" by auto
  from resolved_key_is_published [OF this] show ?thesis by blast
qed

end
