(* ===== verification/Jwt.thy ===== *)
theory Jwt
  imports Grants Did_Web
begin

text \<open>
  \<open>jwt.go\<close>: signing and verifying client assertions, and decoding a JWT without verifying it.
  go-jose is a parameter: \<open>jose_ParseSigned\<close> parses a compact serialization under a list of allowed
  algorithms, a token's \<open>tok_verify\<close> gives the payload when the signature verifies under a key, and
  \<open>jose_NewSigner\<close> gives a function from a key ID and a claims object to a serialization.
\<close>

record jose_header =
  hdr_KeyID :: string
  hdr_typ :: "json option"

record 'key token =
  tok_Headers :: "jose_header list"
  tok_verify :: "'key \<Rightarrow> string option"

record 'key jose =
  jose_ParseSigned :: "string \<Rightarrow> string list \<Rightarrow> 'key token option"
  jose_NewSigner :: "string \<Rightarrow> 'key \<Rightarrow> (string \<Rightarrow> string \<Rightarrow> string option) option"

record 'key SignClientAssertionOptions =
  sgo_Algorithm :: SigningAlgorithm
  sgo_AllowInsecureLoopback :: bool
  sgo_Key :: "'key option"
  sgo_KeyID :: string

record ('w, 'key) VerifyClientAssertionOptions =
  vo_Algorithms :: "SigningAlgorithm list"
  vo_AllowInsecureLoopback :: bool
  vo_Audience :: string
  vo_ClockTolerance :: duration
  vo_CurrentTime :: time
  vo_Issuer :: string
  vo_Key :: "'key option"
  vo_KeyResolver :: "(jose_header \<Rightarrow> (go_error, 'w, 'key option) act) option"
  vo_Operation :: AssertionOperation
  vo_Resource :: string
  vo_Subject :: string

definition joseAlgorithm :: "SigningAlgorithm \<Rightarrow> string result" where
  "joseAlgorithm algorithm =
     (if algorithm = SigningAlgorithmEdDSA then Inr ''EdDSA''
      else if algorithm = SigningAlgorithmES256 then Inr ''ES256''
      else Inl (Text (''unsupported AEP signing algorithm '' @ algorithm)))"

definition validateAssertionKeyID :: "string \<Rightarrow> ClientAssertionClaims \<Rightarrow> go_error option" where
  "validateAssertionKeyID keyID claims =
     (if keyID = [] then Some (Text ''AEP client assertion kid is required'')
      else if before CHR ''#'' keyID \<noteq> cac_Issuer claims \<or> before CHR ''#'' keyID \<noteq> cac_Subject claims
      then Some (Text ''AEP client assertion kid must identify the Agent DID'')
      else None)"

definition SignClientAssertion ::
  "'key jose \<Rightarrow> ClientAssertionClaims \<Rightarrow> 'key SignClientAssertionOptions \<Rightarrow> string result" where
  "SignClientAssertion jose claims options =
     (case ValidateClientAssertionClaimsWithOptions claims (sgo_AllowInsecureLoopback options) of
        Some err \<Rightarrow> Inl err
      | None \<Rightarrow>
          (case joseAlgorithm (sgo_Algorithm options) of
             Inl err \<Rightarrow> Inl err
           | Inr algorithm \<Rightarrow>
               (case sgo_Key options of
                  None \<Rightarrow> Inl (Text ''AEP client assertion signing key is required'')
                | Some key \<Rightarrow>
                    (case validateAssertionKeyID (sgo_KeyID options) claims of
                       Some err \<Rightarrow> Inl err
                     | None \<Rightarrow>
                         (case jose_NewSigner jose algorithm key of
                            None \<Rightarrow> Inl (Wrapped ''create AEP client assertion signer'' (Library ''go-jose''))
                          | Some signer \<Rightarrow>
                              (case ClientAssertionClaims_MarshalJSON claims of
                                 None \<Rightarrow> Inl (Wrapped ''sign AEP client assertion'' (Library ''go-jose''))
                               | Some body \<Rightarrow>
                                   (case signer (sgo_KeyID options) body of
                                      None \<Rightarrow> Inl (Wrapped ''sign AEP client assertion'' (Library ''go-jose''))
                                    | Some serialized \<Rightarrow> Inr serialized)))))))"

text \<open>The loop that maps the allowed algorithms.\<close>

fun allowedAlgorithms :: "SigningAlgorithm list \<Rightarrow> string list result" where
  "allowedAlgorithms [] = Inr []"
| "allowedAlgorithms (algorithm # rest) =
     (case joseAlgorithm algorithm of
        Inl err \<Rightarrow> Inl err
      | Inr mapped \<Rightarrow>
          (case allowedAlgorithms rest of Inl err \<Rightarrow> Inl err | Inr allowed \<Rightarrow> Inr (mapped # allowed)))"

text \<open>The two deadlines, saturated at the bounds of a 64-bit integer.\<close>

definition issuedDeadline :: "int \<Rightarrow> int \<Rightarrow> int" where
  "issuedDeadline nowSeconds toleranceSeconds =
     (if nowSeconds \<le> i64 (max_i64 - toleranceSeconds) then i64 (nowSeconds + toleranceSeconds) else max_i64)"

definition expiryDeadline :: "int \<Rightarrow> int \<Rightarrow> int" where
  "expiryDeadline nowSeconds toleranceSeconds =
     (if i64 (min_i64 + toleranceSeconds) \<le> nowSeconds then i64 (nowSeconds - toleranceSeconds) else min_i64)"

text \<open>The checks after the signature, up to the clock.\<close>

definition checkAssertionClaims ::
  "('w, 'key) VerifyClientAssertionOptions \<Rightarrow> string \<Rightarrow> ClientAssertionClaims \<Rightarrow> go_error option" where
  "checkAssertionClaims options keyID claims =
     (case ValidateClientAssertionClaimsWithOptions claims (vo_AllowInsecureLoopback options) of
        Some err \<Rightarrow> Some err
      | None \<Rightarrow>
     (case validateAssertionKeyID keyID claims of
        Some err \<Rightarrow> Some err
      | None \<Rightarrow>
          if vo_Audience options \<noteq> [] \<and> cac_Audience claims \<noteq> vo_Audience options
          then Some (Text ''AEP client assertion audience does not match'')
          else if vo_Issuer options \<noteq> [] \<and> cac_Issuer claims \<noteq> vo_Issuer options
          then Some (Text ''AEP client assertion issuer does not match'')
          else if vo_Subject options \<noteq> [] \<and> cac_Subject claims \<noteq> vo_Subject options
          then Some (Text ''AEP client assertion subject does not match'')
          else if vo_Operation options \<noteq> [] \<and> cac_Operation claims \<noteq> vo_Operation options
          then Some (Text ''AEP client assertion operation does not match'')
          else if vo_Resource options \<noteq> [] \<and> cac_Resource claims \<noteq> vo_Resource options
          then Some (Text ''AEP client assertion resource does not match'')
          else None))"

definition checkAssertionWindow ::
  "('w, 'key) VerifyClientAssertionOptions \<Rightarrow> ClientAssertionClaims \<Rightarrow> time \<Rightarrow> ClientAssertionClaims result" where
  "checkAssertionWindow options claims now =
     (if vo_ClockTolerance options < 0
      then Inl (Text ''AEP client assertion clock tolerance must not be negative'')
      else
        let nowSeconds = time_Unix now;
            toleranceSeconds = go_div (vo_ClockTolerance options) Second in
        if issuedDeadline nowSeconds toleranceSeconds < cac_IssuedAt claims \<or>
           cac_ExpiresAt claims \<le> expiryDeadline nowSeconds toleranceSeconds
        then Inl (Text ''AEP client assertion is outside its validity window'')
        else Inr claims)"

text \<open>The key to verify under, and everything after it; both are parts of the one function below.\<close>

definition assertionKey ::
  "('w, 'key) VerifyClientAssertionOptions \<Rightarrow> jose_header \<Rightarrow> (go_error, 'w, 'key option) act" where
  "assertionKey options header =
     (case vo_KeyResolver options of
        None \<Rightarrow> ok (vo_Key options)
      | Some resolve \<Rightarrow>
          and_then (attempt (resolve header)) (\<lambda>resolved.
          case resolved of
            Inl err \<Rightarrow> fail (Wrapped ''resolve AEP client assertion key'' err)
          | Inr key \<Rightarrow> ok key))"

definition verifyUnderKey ::
  "('w \<Rightarrow> time \<times> 'w) \<Rightarrow> ('w, 'key) VerifyClientAssertionOptions \<Rightarrow> 'key token \<Rightarrow> jose_header \<Rightarrow> 'key option \<Rightarrow>
   (go_error, 'w, ClientAssertionClaims) act" where
  "verifyUnderKey time_Now options token header key =
     (case key of
        None \<Rightarrow> fail (Text ''AEP client assertion verification key is required'')
      | Some key \<Rightarrow>
          (case tok_verify token key of
             None \<Rightarrow> fail (Wrapped ''verify AEP client assertion'' (Library ''go-jose''))
           | Some payload \<Rightarrow>
               (case ClientAssertionClaims_UnmarshalJSON payload zero_assertion_claims of
                  None \<Rightarrow> fail (Wrapped ''verify AEP client assertion'' (Library ''encoding/json''))
                | Some claims \<Rightarrow>
                    (case checkAssertionClaims options (hdr_KeyID header) claims of
                       Some err \<Rightarrow> fail err
                     | None \<Rightarrow>
                         and_then (if time_IsZero (vo_CurrentTime options) then call time_Now
                                   else ok (vo_CurrentTime options)) (\<lambda>now.
                         of_result (checkAssertionWindow options claims now))))))"

definition VerifyClientAssertion ::
  "'key jose \<Rightarrow> ('w \<Rightarrow> time \<times> 'w) \<Rightarrow> string \<Rightarrow> ('w, 'key) VerifyClientAssertionOptions \<Rightarrow>
   (go_error, 'w, ClientAssertionClaims) act" where
  "VerifyClientAssertion jose time_Now assertion options =
     (let algorithms = (if vo_Algorithms options = [] then [SigningAlgorithmEdDSA, SigningAlgorithmES256]
                        else vo_Algorithms options) in
      case allowedAlgorithms algorithms of
        Inl err \<Rightarrow> fail err
      | Inr allowed \<Rightarrow>
     (case jose_ParseSigned jose assertion allowed of
        None \<Rightarrow> fail (Wrapped ''parse AEP client assertion'' (Library ''go-jose''))
      | Some token \<Rightarrow>
     (case tok_Headers token of
        [header] \<Rightarrow>
          if hdr_KeyID header = [] then fail (Text ''AEP client assertion kid is required'')
          else if hdr_typ header \<noteq> Some (JStr ''JWT'') then fail (Text ''AEP client assertion typ must be JWT'')
          else and_then (assertionKey options header) (verifyUnderKey time_Now options token header)
      | _ \<Rightarrow> fail (Text ''AEP client assertion must contain exactly one signature''))))"

section \<open>Decoding without verification\<close>

definition base64url_value :: "char \<Rightarrow> int option" where
  "base64url_value c =
     (if is_upper c then Some (byte c - 65)
      else if is_lower c then Some (byte c - 71)
      else if is_digit c then Some (byte c + 4)
      else if c = CHR ''-'' then Some 62
      else if c = CHR ''_'' then Some 63
      else None)"

fun sextet_bytes :: "int list \<Rightarrow> int list option" where
  "sextet_bytes [] = Some []"
| "sextet_bytes [a] = None"
| "sextet_bytes [a, b] = Some [a * 4 + b div 16]"
| "sextet_bytes [a, b, c] = Some [a * 4 + b div 16, b mod 16 * 16 + c div 4]"
| "sextet_bytes (a # b # c # d # r) =
     map_option (\<lambda>bs. (a * 4 + b div 16) # (b mod 16 * 16 + c div 4) # (c mod 4 * 64 + d) # bs) (sextet_bytes r)"

text \<open>\<open>base64.RawURLEncoding.DecodeString\<close>: line breaks are skipped, padding is refused.\<close>

definition base64url_decode :: "string \<Rightarrow> string option" where
  "base64url_decode s =
     (case all_some (map base64url_value (filter (\<lambda>c. byte c \<noteq> 10 \<and> byte c \<noteq> 13) s)) of
        None \<Rightarrow> None
      | Some sextets \<Rightarrow> map_option (map char_of) (sextet_bytes sextets))"

text \<open>A number literal whose magnitude rounds beyond the largest 64-bit float does not decode.\<close>

definition float_literal_ok :: "string \<Rightarrow> bool" where
  "float_literal_ok s =
     (let (mant, expo, _) = cut_at CHR ''e'' (map lower_ascii (trim_prefix s ''-''));
          (whole, frac, _) = cut_at CHR ''.'' mant;
          number = foldl (\<lambda>acc c. acc * 10 + digit_val c) 0;
          magnitude = number (whole @ frac);
          expo_digits = number (trim_prefix (trim_prefix expo ''-'') ''+'');
          scale = (if has_prefix expo ''-'' then - expo_digits else expo_digits) - int (length frac);
          bound = (2 ^ 1024 - 2 ^ 970 :: int) in
      magnitude = 0 \<or>
      (if 0 \<le> scale then magnitude * 10 ^ nat scale < bound else magnitude < bound * 10 ^ nat (- scale)))"

text \<open>The value \<open>encoding/json\<close> builds for \<open>any\<close>: the last of several equal members stays.\<close>

fun json_any :: "json \<Rightarrow> json option" where
  "json_any (JNum s) = (if float_literal_ok s then Some (JNum s) else None)"
| "json_any (JArr xs) = map_option JArr (all_some (map json_any xs))"
| "json_any (JObj ms) =
     map_option (JObj \<circ> update_all []) (all_some (map (\<lambda>(k, v). map_option (Pair k) (json_any v)) ms))"
| "json_any v = Some v"

definition decodeJWTPart :: "string \<Rightarrow> (string \<times> json) list result" where
  "decodeJWTPart val =
     (case base64url_decode val of
        None \<Rightarrow> Inl (Library ''encoding/base64'')
      | Some data \<Rightarrow>
          (case json_parse data of
             Some JNull \<Rightarrow> Inl (Text ''expected a JSON object'')
           | Some (JObj ms) \<Rightarrow>
               (case json_any (JObj ms) of
                  Some (JObj members) \<Rightarrow> Inr members
                | _ \<Rightarrow> Inl (Library ''encoding/json''))
           | _ \<Rightarrow> Inl (Library ''encoding/json'')))"

record DecodedJWT =
  jwt_Header :: "(string \<times> json) list"
  jwt_Payload :: "(string \<times> json) list"

definition DecodeJWTUnverified :: "string \<Rightarrow> DecodedJWT result" where
  "DecodeJWTUnverified assertion =
     (case split_on CHR ''.'' assertion of
        [p0, p1, p2] \<Rightarrow>
          (case decodeJWTPart p0 of
             Inl err \<Rightarrow> Inl (Wrapped ''decode JWT header'' err)
           | Inr header \<Rightarrow>
               (case decodeJWTPart p1 of
                  Inl err \<Rightarrow> Inl (Wrapped ''decode JWT payload'' err)
                | Inr payload \<Rightarrow> Inr \<lparr>jwt_Header = header, jwt_Payload = payload\<rparr>))
      | _ \<Rightarrow> Inl (Text ''invalid JWT''))"

lemmas jwt_defs [go_defs] =
  joseAlgorithm_def validateAssertionKeyID_def SignClientAssertion_def issuedDeadline_def
  expiryDeadline_def checkAssertionClaims_def checkAssertionWindow_def assertionKey_def verifyUnderKey_def VerifyClientAssertion_def
  base64url_value_def base64url_decode_def float_literal_ok_def decodeJWTPart_def
  DecodeJWTUnverified_def

section \<open>Lemmas\<close>

lemma checkAssertionClaims_None:
  "checkAssertionClaims options kid c = None \<longleftrightarrow>
     ValidateClientAssertionClaimsWithOptions c (vo_AllowInsecureLoopback options) = None \<and>
     kid \<noteq> [] \<and> before CHR ''#'' kid = cac_Issuer c \<and> before CHR ''#'' kid = cac_Subject c \<and>
     vo_Audience options \<in> {[], cac_Audience c} \<and> vo_Issuer options \<in> {[], cac_Issuer c} \<and>
     vo_Subject options \<in> {[], cac_Subject c} \<and> vo_Operation options \<in> {[], cac_Operation c} \<and>
     vo_Resource options \<in> {[], cac_Resource c}"
  unfolding checkAssertionClaims_def validateAssertionKeyID_def case_error_None if_error_None insert_iff empty_iff
  by metis

lemma issuedDeadline_exact:
  assumes "in_i64 n" "0 \<le> t" "t \<le> max_i64" "in_i64 i"
  shows "i \<le> issuedDeadline n t \<longleftrightarrow> i \<le> n + t"
proof -
  have "in_i64 (max_i64 - t)" using assms by (simp add: in_i64_def i64_limits)
  then have e: "i64 (max_i64 - t) = max_i64 - t" by simp
  show ?thesis
  proof (cases "n \<le> max_i64 - t")
    case True
    then have "in_i64 (n + t)" using assms by (simp add: in_i64_def)
    then show ?thesis using True e by (simp add: issuedDeadline_def)
  next
    case False
    then show ?thesis using assms(4) e by (simp add: issuedDeadline_def in_i64_def)
  qed
qed

lemma expiryDeadline_exact:
  assumes "in_i64 n" "0 \<le> t" "t \<le> max_i64" "in_i64 e" "min_i64 < e"
  shows "expiryDeadline n t < e \<longleftrightarrow> n - t < e"
proof -
  have "in_i64 (min_i64 + t)" using assms by (simp add: in_i64_def i64_limits)
  then have eq: "i64 (min_i64 + t) = min_i64 + t" by simp
  show ?thesis
  proof (cases "min_i64 + t \<le> n")
    case True
    then have "in_i64 (n - t)" using assms by (simp add: in_i64_def)
    then show ?thesis using True eq by (simp add: expiryDeadline_def)
  next
    case False
    then show ?thesis using assms(5) eq by (simp add: expiryDeadline_def)
  qed
qed

lemma tolerance_in_range:
  assumes "in_i64 d" "0 \<le> d"
  shows "0 \<le> go_div d Second" "go_div d Second = d div Second" "go_div d Second \<le> max_i64"
proof -
  show "go_div d Second = d div Second" using assms by (simp add: go_div_nonneg)
  then show "0 \<le> go_div d Second" "go_div d Second \<le> max_i64"
    using assms by (simp_all add: in_i64_def pos_imp_zdiv_nonneg_iff i64_limits)
qed

lemma checkAssertionWindow_eq: "checkAssertionWindow options c now = Inr c' \<Longrightarrow> c' = c"
  by (auto simp: checkAssertionWindow_def Let_def split: if_splits)

text \<open>The result of a verification that succeeds, and of the effects before it.\<close>

lemma VerifyClientAssertion_ok:
  assumes "VerifyClientAssertion jose time_Now assertion options w = (Inr c, w')"
  obtains allowed token header key payload now w1 where
    "allowedAlgorithms (if vo_Algorithms options = [] then [SigningAlgorithmEdDSA, SigningAlgorithmES256]
       else vo_Algorithms options) = Inr allowed"
    "jose_ParseSigned jose assertion allowed = Some token" "tok_Headers token = [header]"
    "hdr_typ header = Some (JStr ''JWT'')" "tok_verify token key = Some payload"
    "case vo_KeyResolver options of None \<Rightarrow> vo_Key options = Some key \<and> w1 = w
       | Some resolve \<Rightarrow> resolve header w = (Inr (Some key), w1)"
    "ClientAssertionClaims_UnmarshalJSON payload zero_assertion_claims = Some c"
    "checkAssertionClaims options (hdr_KeyID header) c = None"
    "if time_IsZero (vo_CurrentTime options) then time_Now w1 = (now, w') else now = vo_CurrentTime options \<and> w' = w1"
    "checkAssertionWindow options c now = Inr c"
proof -
  obtain allowed where al: "allowedAlgorithms (if vo_Algorithms options = []
      then [SigningAlgorithmEdDSA, SigningAlgorithmES256] else vo_Algorithms options) = Inr allowed"
    using assms by (auto simp: VerifyClientAssertion_def Let_def split: sum.splits)
  obtain token where tok: "jose_ParseSigned jose assertion allowed = Some token"
    using assms al by (auto simp: VerifyClientAssertion_def Let_def split: option.splits)
  obtain header where hd: "tok_Headers token = [header]"
    using assms al tok by (auto simp: VerifyClientAssertion_def Let_def split: list.splits)
  have tp: "hdr_typ header = Some (JStr ''JWT'')"
    and run: "and_then (assertionKey options header) (verifyUnderKey time_Now options token header) w = (Inr c, w')"
    using assms al tok hd by (simp_all add: VerifyClientAssertion_def Let_def split: if_splits)
  obtain key0 w1 where k0: "assertionKey options header w = (Inr key0, w1)"
    and b: "verifyUnderKey time_Now options token header key0 w1 = (Inr c, w')"
    using run unfolding and_then_Inr by blast
  have k: "case vo_KeyResolver options of None \<Rightarrow> vo_Key options = key0 \<and> w1 = w
       | Some resolve \<Rightarrow> resolve header w = (Inr key0, w1)"
    using k0 by (auto simp: assertionKey_def run_simps split: option.splits)
  obtain key where key: "key0 = Some key" using b by (cases key0) (auto simp: verifyUnderKey_def)
  obtain payload where pl: "tok_verify token key = Some payload"
    using b key by (auto simp: verifyUnderKey_def split: option.splits)
  obtain claims where cl: "ClientAssertionClaims_UnmarshalJSON payload zero_assertion_claims = Some claims"
    using b key pl by (auto simp: verifyUnderKey_def split: option.splits)
  have chk: "checkAssertionClaims options (hdr_KeyID header) claims = None"
    using b key pl cl by (auto simp: verifyUnderKey_def split: option.splits)
  obtain now where now: "if time_IsZero (vo_CurrentTime options) then time_Now w1 = (now, w')
      else now = vo_CurrentTime options \<and> w' = w1" and win: "checkAssertionWindow options claims now = Inr c"
    using b key pl cl chk by (auto simp: verifyUnderKey_def and_then_Inr call_eq split: if_splits)
  have "claims = c" using checkAssertionWindow_eq win by blast
  show ?thesis
    by (rule that [OF al tok hd tp pl])
      (use k key cl chk now win \<open>claims = c\<close> in \<open>auto split: option.splits if_splits\<close>)
qed

lemma window_exact:
  assumes "in_i64 (time_Unix now)" and "in_i64 (cac_IssuedAt c)" and "in_i64 (cac_ExpiresAt c)"
    and "cac_IssuedAt c < cac_ExpiresAt c" and "in_i64 (vo_ClockTolerance options)"
  shows "checkAssertionWindow options c now = Inr c \<longleftrightarrow>
    0 \<le> vo_ClockTolerance options \<and>
    cac_IssuedAt c \<le> time_Unix now + vo_ClockTolerance options div Second \<and>
    time_Unix now - vo_ClockTolerance options div Second < cac_ExpiresAt c"
proof (cases "0 \<le> vo_ClockTolerance options")
  case True
  note tol = tolerance_in_range [OF assms(5) True]
  have "min_i64 < cac_ExpiresAt c" using assms(2,4) by (simp add: in_i64_def)
  then have "expiryDeadline (time_Unix now) (go_div (vo_ClockTolerance options) Second) < cac_ExpiresAt c \<longleftrightarrow>
      time_Unix now - go_div (vo_ClockTolerance options) Second < cac_ExpiresAt c"
    using expiryDeadline_exact assms tol by blast
  then show ?thesis
    using True issuedDeadline_exact [OF assms(1) tol(1,3) assms(2)] tol(2)
    by (auto simp: checkAssertionWindow_def Let_def not_less not_le)
qed (simp add: checkAssertionWindow_def)

lemma valid_claims_positive:
  "ValidateClientAssertionClaimsWithOptions c loopback = None \<Longrightarrow> cac_IssuedAt c < cac_ExpiresAt c"
  by (auto simp: ValidateClientAssertionClaimsWithOptions_def validationResult_None split: if_splits)

text \<open>Decoded times are 64-bit integers.\<close>

lemma dec_int_range: "dec_int raw old = Some i \<Longrightarrow> in_i64 old \<Longrightarrow> in_i64 i"
  by (auto simp: dec_int_def int_literal_def Let_def split: option.splits json.splits if_splits)

lemma decoded_times_range:
  assumes "ClientAssertionClaims_UnmarshalJSON payload zero_assertion_claims = Some c"
  shows "in_i64 (cac_IssuedAt c) \<and> in_i64 (cac_ExpiresAt c)"
proof (rule unmarshalAdditional_inv [OF _ _ _ assms [unfolded ClientAssertionClaims_UnmarshalJSON_def],
    where P = "\<lambda>c. in_i64 (cac_IssuedAt c) \<and> in_i64 (cac_ExpiresAt c)"])
  fix n d raw r r'
  assume "(n, d) \<in> set fields_assertion_claims" "d raw r = Some r'" "in_i64 (cac_IssuedAt r) \<and> in_i64 (cac_ExpiresAt r)"
  then show "in_i64 (cac_IssuedAt r') \<and> in_i64 (cac_ExpiresAt r')"
    by (auto simp: fields_assertion_claims_def on_field_def) (blast intro: dec_int_range)+
qed (simp_all add: zero_assertion_claims_def in_i64_def i64_limits)

section \<open>Properties\<close>

text \<open>
  C12. VerifyClientAssertion accepts only what it is asked to accept: the serialization parses under
  the allowed algorithms with exactly one signature of type JWT, the signature verifies under the
  configured or resolved key, and the claims in its payload are valid, name the Agent of the key ID
  as issuer and subject, match every expected value that is set, and lie in the validity window at the
  configured time, or at the one the clock shows after the key is resolved: within a tolerance that is
  not negative they are issued by then and not expired.
\<close>

theorem verified_assertion_sound:
  assumes "VerifyClientAssertion jose time_Now assertion options w = (Inr c, w')"
    and "in_i64 (vo_ClockTolerance options)" and "in_i64 (time_Unix (vo_CurrentTime options))"
    and "\<And>v. in_i64 (time_Unix (fst (time_Now v)))"
  shows "\<exists>allowed token header key payload now w1.
    allowedAlgorithms (if vo_Algorithms options = [] then [SigningAlgorithmEdDSA, SigningAlgorithmES256]
       else vo_Algorithms options) = Inr allowed \<and>
    jose_ParseSigned jose assertion allowed = Some token \<and> tok_Headers token = [header] \<and>
    hdr_typ header = Some (JStr ''JWT'') \<and> tok_verify token key = Some payload \<and>
    (case vo_KeyResolver options of None \<Rightarrow> vo_Key options = Some key \<and> w1 = w
      | Some resolve \<Rightarrow> resolve header w = (Inr (Some key), w1)) \<and>
    ClientAssertionClaims_UnmarshalJSON payload zero_assertion_claims = Some c \<and>
    ValidateClientAssertionClaimsWithOptions c (vo_AllowInsecureLoopback options) = None \<and>
    hdr_KeyID header \<noteq> [] \<and> before CHR ''#'' (hdr_KeyID header) = cac_Issuer c \<and> cac_Subject c = cac_Issuer c \<and>
    vo_Audience options \<in> {[], cac_Audience c} \<and> vo_Issuer options \<in> {[], cac_Issuer c} \<and>
    vo_Subject options \<in> {[], cac_Subject c} \<and> vo_Operation options \<in> {[], cac_Operation c} \<and>
    vo_Resource options \<in> {[], cac_Resource c} \<and>
    (if time_IsZero (vo_CurrentTime options) then time_Now w1 = (now, w')
     else now = vo_CurrentTime options \<and> w' = w1) \<and>
    0 \<le> vo_ClockTolerance options \<and>
    cac_IssuedAt c \<le> time_Unix now + vo_ClockTolerance options div Second \<and>
    time_Unix now - vo_ClockTolerance options div Second < cac_ExpiresAt c"
  using VerifyClientAssertion_ok [OF assms(1)]
proof cases
  case (1 allowed token header key payload now w1)
  have "in_i64 (time_Unix now)"
  proof (cases "time_IsZero (vo_CurrentTime options)")
    case True
    then show ?thesis using 1(9) assms(4) [of w1] by simp
  qed (use 1(9) assms(3) in simp)
  moreover have "cac_IssuedAt c < cac_ExpiresAt c"
    using 1(8) valid_claims_positive unfolding checkAssertionClaims_None by blast
  ultimately have window: "cac_Subject c = cac_Issuer c" "0 \<le> vo_ClockTolerance options" "cac_IssuedAt c \<le> time_Unix now + vo_ClockTolerance options div Second"
    "time_Unix now - vo_ClockTolerance options div Second < cac_ExpiresAt c"
    using window_exact [of now c options] 1(8,10) decoded_times_range [OF 1(7)] assms(2)
    unfolding checkAssertionClaims_None by metis+
  show ?thesis
    by (rule exI [of _ allowed], rule exI [of _ token], rule exI [of _ header], rule exI [of _ key],
        rule exI [of _ payload], rule exI [of _ now], rule exI [of _ w1])
      (use 1 window in \<open>simp add: checkAssertionClaims_None\<close>)
qed

definition jwt_payload_example :: string where
  "jwt_payload_example = quote_tildes (''{~iss~:~did:web:a.example~,~sub~:~did:web:a.example~,'' @
     ''~aud~:~did:web:s.example~,~jti~:~j1~,~op~:~status~,~iat~:1000,~exp~:1300}'')"

definition jose_example :: "string jose" where
  "jose_example = \<lparr>jose_ParseSigned = (\<lambda>a allowed. if a = ''t'' then Some
       \<lparr>tok_Headers = [\<lparr>hdr_KeyID = ''did:web:a.example#k1'', hdr_typ = Some (JStr ''JWT'')\<rparr>],
        tok_verify = (\<lambda>key. if key = ''k'' then Some jwt_payload_example else None)\<rparr> else None),
     jose_NewSigner = (\<lambda>_ _. None)\<rparr>"

definition verify_options_example :: "(unit, string) VerifyClientAssertionOptions" where
  "verify_options_example = \<lparr>vo_Algorithms = [], vo_AllowInsecureLoopback = False,
     vo_Audience = ''did:web:s.example'', vo_ClockTolerance = 30000000000, vo_CurrentTime = 980000000000,
     vo_Issuer = [], vo_Key = Some ''k'', vo_KeyResolver = None, vo_Operation = ''status'', vo_Resource = [],
     vo_Subject = []\<rparr>"

theorem verified_assertion_sound_witness:
  "\<exists>c. VerifyClientAssertion jose_example (\<lambda>w. (0, w)) ''t'' verify_options_example () = (Inr c, ()) \<and>
     cac_Subject c = cac_Issuer c \<and> cac_Operation c = ''status'' \<and> cac_IssuedAt c \<le> 1010 \<and> 950 < cac_ExpiresAt c"
proof -
  have "case VerifyClientAssertion jose_example (\<lambda>w. (0, w)) ''t'' verify_options_example () of
    (Inl _, _) \<Rightarrow> False | (Inr _, _) \<Rightarrow> True" by code_simp
  from run_ok [OF this] obtain c where run:
    "VerifyClientAssertion jose_example (\<lambda>w. (0, w)) ''t'' verify_options_example () = (Inr c, ())" by auto
  have "in_i64 (vo_ClockTolerance verify_options_example)" "in_i64 (time_Unix (vo_CurrentTime verify_options_example))"
    "in_i64 (time_Unix 0)" by code_simp+
  moreover have "\<not> time_IsZero (vo_CurrentTime verify_options_example)" "time_Unix 980000000000 = 980"
    "(30000000000 :: int) div Second = 30" by code_simp+
  ultimately show ?thesis
    using verified_assertion_sound [OF run] run by (auto simp: verify_options_example_def)
qed

text \<open>
  C13. On 64-bit values the saturated deadlines are the mathematical ones: whatever the clock and the
  tolerance, claims with a positive lifetime pass exactly when they were issued no later than the
  tolerance after now and expire later than the tolerance before now.
\<close>

theorem validity_window_exact:
  assumes "in_i64 (time_Unix now)" and "in_i64 (cac_IssuedAt c)" and "in_i64 (cac_ExpiresAt c)"
    and "cac_IssuedAt c < cac_ExpiresAt c" and "in_i64 (vo_ClockTolerance options)"
  shows "checkAssertionWindow options c now = Inr c \<longleftrightarrow>
    0 \<le> vo_ClockTolerance options \<and>
    cac_IssuedAt c \<le> time_Unix now + vo_ClockTolerance options div Second \<and>
    time_Unix now - vo_ClockTolerance options div Second < cac_ExpiresAt c"
  using assms by (rule window_exact)

theorem validity_window_exact_witness:
  "checkAssertionWindow verify_options_example example_assertion 970000000000 = Inr example_assertion"
  by (subst validity_window_exact)
    (simp_all add: verify_options_example_def example_assertion_def time_Unix_def in_i64_def i64_limits)

end
