(* ===== verification/Worlds.thy ===== *)
theory Worlds
  imports Jwt
begin

text \<open>
  What the packages with state share: the functions of \<open>net/http\<close> on headers, hexadecimal text and
  base64, and stores as parts of the world. A store is reached by a \<open>part\<close>; \<open>unless_done\<close> is the check of the
  context at the head of a method, and an \<open>entry\<close> is what a critical section finds for a key: a result,
  a pending call, or a place that is now the caller's.
\<close>

section \<open>Header fields\<close>

text \<open>\<open>http.Header\<close>: a map from field names to values, nil or not.\<close>

type_synonym Header = "(string \<times> string list) slice"

definition canonical_from :: "bool \<Rightarrow> string \<Rightarrow> string" where
  "canonical_from upper s =
     rev (snd (foldl (\<lambda>(up, acc) c. (c = CHR ''-'', (if up then upper_ascii c else lower_ascii c) # acc)) (upper, []) s))"

text \<open>\<open>http.CanonicalHeaderKey\<close>: a name that is not a token is left alone.\<close>

definition CanonicalHeaderKey :: "string \<Rightarrow> string" where
  "CanonicalHeaderKey name = (if list_all field_name_char name then canonical_from True name else name)"

definition header_Values :: "Header \<Rightarrow> string \<Rightarrow> string list" where
  "header_Values header name =
     (case map_of (elems header) (CanonicalHeaderKey name) of None \<Rightarrow> [] | Some values \<Rightarrow> values)"

definition header_Get :: "Header \<Rightarrow> string \<Rightarrow> string" where
  "header_Get header name = (case header_Values header name of [] \<Rightarrow> [] | v # _ \<Rightarrow> v)"

definition header_Set :: "string \<Rightarrow> string \<Rightarrow> Header \<Rightarrow> Header" where
  "header_Set name val header = Some (AList.update (CanonicalHeaderKey name) [val] (elems header))"

definition header_Add :: "string \<Rightarrow> string \<Rightarrow> Header \<Rightarrow> Header" where
  "header_Add name val header =
     Some (AList.update (CanonicalHeaderKey name) (header_Values header name @ [val]) (elems header))"

definition header_Del :: "string \<Rightarrow> Header \<Rightarrow> Header" where
  "header_Del name header = map_option (AList.delete (CanonicalHeaderKey name)) header"

section \<open>Hexadecimal text\<close>

fun hex_digits :: "nat \<Rightarrow> int \<Rightarrow> string" where
  "hex_digits 0 n = []"
| "hex_digits (Suc k) n = hex_digits k (n div 16) @ [hex_lower (n mod 16)]"

definition hex_encode :: "string \<Rightarrow> string" where
  "hex_encode s = concat (map (\<lambda>c. hex_digits 2 (byte c)) s)"

section \<open>Base64\<close>

text \<open>\<open>base64.StdEncoding.EncodeToString\<close>.\<close>

definition base64_char :: "int \<Rightarrow> char" where
  "base64_char n =
     (if n < 26 then char_of (65 + n) else if n < 52 then char_of (71 + n) else if n < 62 then char_of (n - 4)
      else if n = 62 then CHR ''+'' else CHR ''/'')"

fun base64_encode :: "string \<Rightarrow> string" where
  "base64_encode [] = []"
| "base64_encode [a] = [base64_char (byte a div 4), base64_char (byte a mod 4 * 16), CHR ''='', CHR ''='']"
| "base64_encode [a, b] =
     [base64_char (byte a div 4), base64_char (byte a mod 4 * 16 + byte b div 16), base64_char (byte b mod 16 * 4), CHR ''='']"
| "base64_encode (a # b # c # s) =
     base64_char (byte a div 4) # base64_char (byte a mod 4 * 16 + byte b div 16) #
     base64_char (byte b mod 16 * 4 + byte c div 64) # base64_char (byte c mod 64) # base64_encode s"

section \<open>Members of a decoded token\<close>

definition header_string :: "(string \<times> json) list \<Rightarrow> string \<Rightarrow> string option" where
  "header_string header name = (case map_of header name of Some (JStr s) \<Rightarrow> Some s | _ \<Rightarrow> None)"

section \<open>Parts of the world\<close>

record ('s, 'w) part =
  part_get :: "'w \<Rightarrow> 's"
  part_put :: "'s \<Rightarrow> 'w \<Rightarrow> 'w"

abbreviation at :: "('s, 'w) part \<Rightarrow> ('e, 's, 'a) act \<Rightarrow> ('e, 'w, 'a) act" where
  "at p m \<equiv> on_part (part_get p) (part_put p) m"

text \<open>A store that is the whole world.\<close>

definition whole :: "('w, 'w) part" where
  "whole = \<lparr>part_get = (\<lambda>w. w), part_put = (\<lambda>s w. s)\<rparr>"

text \<open>\<open>ctx.Err()\<close> at the head of a method.\<close>

definition unless_done :: "('w \<Rightarrow> bool) \<Rightarrow> (go_error, 'w, 'a) act \<Rightarrow> (go_error, 'w, 'a) act" where
  "unless_done ctxDone m w = (if ctxDone w then (Inl ContextDone, w) else m w)"

text \<open>Deleting the entries of a map that fail a test.\<close>

definition keep_entries :: "('v \<Rightarrow> bool) \<Rightarrow> (string \<rightharpoonup> 'v) \<Rightarrow> (string \<rightharpoonup> 'v)" where
  "keep_entries P m = (\<lambda>k. case m k of None \<Rightarrow> None | Some v \<Rightarrow> if P v then Some v else None)"

datatype 'a entry = Found 'a | Busy | Entered

lemmas world_defs [go_defs] =
  canonical_from_def CanonicalHeaderKey_def header_Values_def header_Get_def header_Set_def
  header_Add_def header_Del_def hex_encode_def base64_char_def header_string_def whole_def keep_entries_def unless_done_def

section \<open>Lemmas\<close>

lemma upper_ascii_idem [simp]: "upper_ascii (upper_ascii c) = upper_ascii c"
  by (cases c) (auto simp: upper_ascii_def byte_class_defs)

lemma header_Values_Set_same [simp]: "header_Values (header_Set name v h) name = [v]"
  by (simp add: header_Values_def header_Set_def)

lemma header_Values_Add_same [simp]:
  "header_Values (header_Add name v h) name = header_Values h name @ [v]"
  by (simp add: header_Values_def header_Add_def)

text \<open>What the code relies on when a store is a part of the world.\<close>

locale world_part =
  fixes p :: "('s, 'w) part"
  assumes get_put [simp]: "part_get p (part_put p s w) = s"
    and put_get [simp]: "part_put p (part_get p w) w = w"
    and put_put [simp]: "part_put p s (part_put p s' w) = part_put p s w"

interpretation whole_part: world_part whole
  by unfold_locales (simp_all add: whole_def)

lemma on_part_eq:
  "on_part g pt m w = (r, w') \<longleftrightarrow> (\<exists>s. m (g w) = (r, s) \<and> w' = pt s w)"
  by (auto simp: on_part_def split: prod.splits)

lemma unless_done_Inr: "unless_done c m w = (Inr x, w') \<longleftrightarrow> \<not> c w \<and> m w = (Inr x, w')"
  by (simp add: unless_done_def)

lemma case_entry:
  "(case x of Found e \<Rightarrow> f e | Busy \<Rightarrow> g | Entered \<Rightarrow> h) w = r \<longleftrightarrow>
     (\<exists>e. x = Found e \<and> f e w = r) \<or> (x = Busy \<and> g w = r) \<or> (x = Entered \<and> h w = r)"
  by (cases x) auto

lemma unless_done_keeps: "unless_done c m w = (r, w') \<Longrightarrow> w' = w \<or> m w = (r, w')"
  by (auto simp: unless_done_def split: if_splits)

end
