(* ===== verification/Service_Types.thy ===== *)
theory Service_Types
  imports Worlds
begin

text \<open>
  \<open>service/types.go\<close>: the data of a Service and the interfaces it calls. An interface is a record of
  its methods; a method is a call on the world, of the type \<open>act\<close>, and the context every method takes
  is part of the world. An optional interface a handler may implement is an optional field.
\<close>

section \<open>Commands and assertions\<close>

record 'body Result =
  res_Body :: 'body
  res_ContentType :: string
  res_Headers :: Header
  res_Problem :: "ProblemDetails option"
  res_Status :: int

record CommandOptions =
  cop_ClientAssertion :: string
  cop_IdempotencyKey :: string

record AssertionVerificationContext =
  avc_AllowInsecureLoopback :: bool
  avc_ClockTolerance :: duration
  avc_CurrentTime :: time
  avc_IdempotencyKey :: string
  avc_Operation :: AssertionOperation
  avc_Resource :: string
  avc_ServiceDID :: string
  avc_SigningAlgorithms :: "SigningAlgorithm list"

type_synonym 'w AssertionVerifier =
  "string \<Rightarrow> AssertionVerificationContext \<Rightarrow> (go_error, 'w, ClientAssertionClaims) act"

record ReplayRecord =
  rpl_ExpiresAt :: int
  rpl_JWTID :: string
  rpl_Subject :: string

record 'w ReplayStore =
  rs_ConsumeReplay :: "ReplayRecord \<Rightarrow> int \<Rightarrow> (go_error, 'w, bool) act"

section \<open>Enrollments\<close>

record EnrollmentRecord =
  er_AcknowledgedDocumentIDs :: "string slice"
  er_RequiredDocumentIDs :: "string slice"
  er_AgentDID :: string
  er_Claims :: "ClaimValues option"
  er_CreatedAt :: time
  er_EnrollmentID :: string
  er_OwnerActionRequired :: bool
  er_RequirementsPending :: "string slice"
  er_Since :: time
  er_Status :: AgentStatus
  er_UpdatedAt :: time
  er_VerificationPending :: "string slice"

definition zero_enrollment :: EnrollmentRecord where
  "zero_enrollment = \<lparr>er_AcknowledgedDocumentIDs = None, er_RequiredDocumentIDs = None, er_AgentDID = [],
     er_Claims = None, er_CreatedAt = zero_time, er_EnrollmentID = [], er_OwnerActionRequired = False,
     er_RequirementsPending = None, er_Since = zero_time, er_Status = [], er_UpdatedAt = zero_time,
     er_VerificationPending = None\<rparr>"

record 'w EnrollmentStore =
  es_FindEnrollment :: "string \<Rightarrow> (go_error, 'w, EnrollmentRecord option) act"
  es_FindOrCreateEnrollment ::
    "string \<Rightarrow> (go_error, 'w, EnrollmentRecord) act \<Rightarrow> (go_error, 'w, EnrollmentRecord \<times> bool) act"
  es_SaveEnrollment :: "EnrollmentRecord \<Rightarrow> (go_error, 'w, EnrollmentRecord) act"

record EnrollmentDecision =
  ed_UpdateExisting :: "bool option"
  ed_OwnerActionRequired :: "bool option"
  ed_RequirementsPending :: "string slice"
  ed_Status :: EnrollmentStatus
  ed_VerificationPending :: "string slice"

record EnrollmentPolicyContext =
  epc_Now :: time

type_synonym 'w EnrollmentPolicy =
  "EnrollRequest \<Rightarrow> EnrollmentPolicyContext \<Rightarrow> (go_error, 'w, EnrollmentDecision) act"

record ClaimValueLimits =
  cvl_MaxEncodedBytes :: int
  cvl_MaxMemberCount :: int
  cvl_MaxObjectDepth :: int
  cvl_MaxStringLength :: int

section \<open>Idempotency\<close>

type_synonym IdempotentCommand = string

abbreviation IdempotentEnroll :: IdempotentCommand where "IdempotentEnroll \<equiv> ''enroll''"
abbreviation IdempotentGrant :: IdempotentCommand where "IdempotentGrant \<equiv> ''grant''"
abbreviation IdempotentRevoke :: IdempotentCommand where "IdempotentRevoke \<equiv> ''revoke''"

record StoredResponse =
  sr_Body :: RawMessage
  sr_ContentType :: string
  sr_CreatedAt :: time
  sr_Headers :: Header
  sr_Status :: int

record IdempotencyInput =
  ii_CanonicalRequestHash :: string
  ii_AgentDID :: string
  ii_Command :: IdempotentCommand
  ii_IdempotencyKey :: string
  ii_RequestHash :: string

definition IdempotencyInput_Matches :: "IdempotencyInput \<Rightarrow> IdempotencyInput \<Rightarrow> bool" where
  "IdempotencyInput_Matches input other =
     (if ii_AgentDID input \<noteq> ii_AgentDID other \<or> ii_Command input \<noteq> ii_Command other \<or>
         ii_IdempotencyKey input \<noteq> ii_IdempotencyKey other
      then False
      else if ii_CanonicalRequestHash input \<noteq> [] \<and> ii_CanonicalRequestHash other \<noteq> []
      then ii_CanonicalRequestHash input = ii_CanonicalRequestHash other
      else ii_RequestHash input = ii_RequestHash other)"

text \<open>The result of a store: its state with the response, which a conflict leaves empty.\<close>

datatype IdempotencyResult =
  IdempotencyCreated StoredResponse
| IdempotencyReplayed StoredResponse
| IdempotencyConflict

type_synonym 'w IdempotencyStore =
  "IdempotencyInput \<Rightarrow> (go_error, 'w, StoredResponse) act \<Rightarrow> (go_error, 'w, IdempotencyResult) act"

section \<open>Grants and credentials\<close>

record GrantContext =
  gc_AgentDID :: string
  gc_Enrollment :: EnrollmentRecord
  gc_GrantType :: GrantType
  gc_Now :: time

record RevokeContext =
  rc_AgentDID :: string
  rc_Enrollment :: EnrollmentRecord
  rc_GrantType :: GrantType
  rc_Now :: time

record CredentialAuthenticationInput =
  cai_Headers :: Header
  cai_Method :: string
  cai_Now :: time
  cai_URL :: "URL option"

type_synonym AuthenticationKind = string

abbreviation AuthenticationKindJWT :: AuthenticationKind where "AuthenticationKindJWT \<equiv> ''aep-jwt''"
abbreviation AuthenticationKindSessionCredential :: AuthenticationKind where
  "AuthenticationKindSessionCredential \<equiv> ''session-credential''"

record AuthenticatedPrincipal =
  apr_AgentDID :: string
  apr_AuthenticationKind :: AuthenticationKind
  apr_AuthenticationMethod :: AuthenticationMethod
  apr_CredentialID :: string
  apr_GrantType :: GrantType
  apr_Scopes :: "string slice"

record 'w GrantTypeHandler =
  gth_Grant :: "GrantRequest \<Rightarrow> GrantContext \<Rightarrow> (go_error, 'w, RawMessage) act"
  gth_Revoke :: "RevokeRequest \<Rightarrow> RevokeContext \<Rightarrow> (go_error, 'w, unit) act"
  gth_AuthenticateCredential ::
    "(CredentialAuthenticationInput \<Rightarrow> (go_error, 'w, AuthenticatedPrincipal option) act) option"
  gth_HasCredentialPresentation :: "(CredentialAuthenticationInput \<Rightarrow> (go_error, 'w, bool) act) option"

record 'w GrantTypeDefinition =
  gtd_Config :: GrantTypeConfig
  gtd_GrantType :: GrantType
  gtd_Handler :: "'w GrantTypeHandler option"

record ServiceCredentialRecord =
  scr_AgentDID :: string
  scr_CreatedAt :: time
  scr_Credential :: "BuiltInGrantResponse option"
  scr_CredentialID :: string
  scr_ExpiresAt :: time
  scr_GrantType :: GrantType

record CredentialMatch =
  cm_AgentDID :: string
  cm_CredentialID :: string
  cm_ExpiresAt :: time
  cm_GrantType :: GrantType
  cm_Scopes :: "string slice"

record 'w ServiceCredentialStore =
  scs_AuthenticateCredential ::
    "GrantType \<Rightarrow> CredentialAuthenticationInput \<Rightarrow> (go_error, 'w, CredentialMatch option) act"
  scs_HasCredentialPresentation :: "GrantType \<Rightarrow> CredentialAuthenticationInput \<Rightarrow> (go_error, 'w, bool) act"
  scs_RevokeCredential :: "string \<Rightarrow> GrantType \<Rightarrow> string \<Rightarrow> time \<Rightarrow> (go_error, 'w, unit) act"
  scs_RevokeGrantType :: "string \<Rightarrow> GrantType \<Rightarrow> time \<Rightarrow> (go_error, 'w, unit) act"
  scs_SaveCredential :: "ServiceCredentialRecord \<Rightarrow> (go_error, 'w, unit) act"

type_synonym ('w, 'c) BuiltInCredentialIssuer = "GrantRequest \<Rightarrow> GrantContext \<Rightarrow> (go_error, 'w, 'c) act"

section \<open>Protected resources and the Service\<close>

record ProtectedResourceRequest =
  prr_Headers :: Header
  prr_Method :: string
  prr_URL :: "URL option"

record ProblemResponse =
  prs_Body :: ProblemDetails
  prs_ContentType :: string
  prs_Headers :: Header
  prs_Status :: int

record ProtectedResourceResult =
  pr_Authenticated :: bool
  pr_Principal :: "AuthenticatedPrincipal option"
  pr_Response :: "ProblemResponse option"

record ClientAssertionOptions =
  cao_AllowInsecureLoopback :: bool
  cao_ClockSkew :: "duration option"
  cao_MaximumLifetime :: duration

record clientAssertionOptions =
  caos_AllowInsecureLoopback :: bool
  caos_ClockSkew :: duration
  caos_MaximumLifetime :: duration

record 'w Options =
  opt_ServiceDocuments :: "ServiceDocument slice"
  opt_AuthenticationMethods :: "AuthenticationMethod list"
  opt_ClientAssertion :: ClientAssertionOptions
  opt_ClaimValueLimits :: "ClaimValueLimits option"
  opt_Clock :: "('w \<Rightarrow> time \<times> 'w) option"
  opt_Claims :: "InspectClaims option"
  opt_EndpointBase :: string
  opt_EnrollmentPolicy :: "'w EnrollmentPolicy option"
  opt_EnrollmentStore :: "'w EnrollmentStore option"
  opt_Extensions :: "string list"
  opt_GrantTypes :: "'w GrantTypeDefinition list"
  opt_Identifier :: "(go_error, 'w, string) act option"
  opt_IdempotencyStore :: "'w IdempotencyStore option"
  opt_IdentityMethods :: "IdentityMethod list"
  opt_InspectURL :: "URL option"
  opt_OpenAPI :: "OpenAPIReference option"
  opt_ReplayStore :: "'w ReplayStore option"
  opt_ServiceDID :: string
  opt_SigningAlgorithms :: "SigningAlgorithm list"
  opt_Verifier :: "'w AssertionVerifier option"

record 'w Service =
  svc_supportsDocuments :: bool
  svc_authenticationMethods :: "AuthenticationMethod list"
  svc_clientAssertion :: clientAssertionOptions
  svc_claimValueLimits :: ClaimValueLimits
  svc_clock :: "'w \<Rightarrow> time \<times> 'w"
  svc_document :: InspectDocument
  svc_enrollmentPolicy :: "'w EnrollmentPolicy"
  svc_enrollmentStore :: "'w EnrollmentStore"
  svc_grantHandlers :: "(GrantType \<times> 'w GrantTypeHandler) list"
  svc_identifier :: "(go_error, 'w, string) act"
  svc_idempotencyStore :: "'w IdempotencyStore"
  svc_inspectURL :: "URL option"
  svc_replayStore :: "'w ReplayStore"
  svc_verifier :: "'w AssertionVerifier"

lemmas service_type_defs [go_defs] =
  zero_enrollment_def IdempotencyInput_Matches_def

section \<open>Lemmas\<close>

lemma Matches_refl [simp]: "IdempotencyInput_Matches i i"
  by (simp add: IdempotencyInput_Matches_def)

lemma Matches_sym: "IdempotencyInput_Matches i j \<longleftrightarrow> IdempotencyInput_Matches j i"
  by (auto simp: IdempotencyInput_Matches_def)

end
