(* ===== verification/Service_Stores.thy ===== *)
theory Service_Stores
  imports Service_Types
begin

text \<open>
  \<open>service/stores.go\<close>: the in-memory stores, and the contracts of the store interfaces as locales.

  A store is a part of the world, reached by a \<open>part\<close>. Each critical section under the store's mutex
  is a definition of its own: \<open>enter\<close> looks for a record, else for a pending call, else makes the
  caller's key pending; \<open>leave\<close> removes the pending key and keeps the result. The methods run their
  sections one after the other. A caller that finds its key pending waits for the other call or for
  its context; with nobody else running, only the context ends the wait. \<open>Single_Flight.thy\<close>
  interleaves the same sections.
\<close>

section \<open>Enrollments\<close>

definition validateEnrollmentRecord :: "EnrollmentRecord \<Rightarrow> go_error option" where
  "validateEnrollmentRecord record =
     (if er_AgentDID record = [] \<or> er_EnrollmentID record = [] \<or> time_IsZero (er_CreatedAt record) \<or>
         time_IsZero (er_Since record) \<or> time_IsZero (er_UpdatedAt record)
      then Some (Text ''AEP enrollment store received an invalid record'')
      else if er_Status record \<noteq> AgentActive \<and> er_Status record \<noteq> AgentPending \<and>
         er_Status record \<noteq> AgentRejected \<and> er_Status record \<noteq> AgentSuspended \<and>
         er_Status record \<noteq> AgentTerminated \<and> er_Status record \<noteq> AgentUnavailable
      then Some (Text ''AEP enrollment store received an invalid enrollment status'')
      else None)"

definition cloneClaimValues :: "ClaimValues option \<Rightarrow> ClaimValues option result" where
  "cloneClaimValues val =
     (case val of
        None \<Rightarrow> Inr None
      | Some v \<Rightarrow>
          (case ClaimValues_MarshalJSON v of
             None \<Rightarrow> Inl (Library ''encoding/json'')
           | Some data \<Rightarrow>
               (case ParseClaimValues data of Inl err \<Rightarrow> Inl err | Inr claims \<Rightarrow> Inr (Some claims))))"

definition cloneEnrollment :: "EnrollmentRecord \<Rightarrow> EnrollmentRecord result" where
  "cloneEnrollment record =
     (case cloneClaimValues (er_Claims record) of
        Inl err \<Rightarrow> Inl err
      | Inr claims \<Rightarrow>
          Inr (record\<lparr>er_AcknowledgedDocumentIDs := append_nil (elems (er_AcknowledgedDocumentIDs record)),
                     er_RequiredDocumentIDs := append_nil (elems (er_RequiredDocumentIDs record)),
                     er_RequirementsPending := append_nil (elems (er_RequirementsPending record)),
                     er_VerificationPending := append_nil (elems (er_VerificationPending record)),
                     er_Claims := claims\<rparr>))"

record memoryEnrollmentStore =
  mes_pending :: "string list"
  mes_records :: "string \<rightharpoonup> EnrollmentRecord"

definition empty_enrollments :: memoryEnrollmentStore where
  "empty_enrollments = \<lparr>mes_pending = [], mes_records = Map.empty\<rparr>"

definition enrollment_enter :: "string \<Rightarrow> (go_error, memoryEnrollmentStore, EnrollmentRecord entry) act" where
  "enrollment_enter agentDID s =
     (case mes_records s agentDID of
        Some existing \<Rightarrow> (Inr (Found existing), s)
      | None \<Rightarrow>
          if agentDID \<in> set (mes_pending s) then (Inr Busy, s)
          else (Inr Entered, s\<lparr>mes_pending := agentDID # mes_pending s\<rparr>))"

definition enrollment_leave ::
  "string \<Rightarrow> EnrollmentRecord result \<Rightarrow> (go_error, memoryEnrollmentStore, unit) act" where
  "enrollment_leave agentDID created s =
     (Inr (), s\<lparr>mes_pending := removeAll agentDID (mes_pending s),
               mes_records := (case created of Inl _ \<Rightarrow> mes_records s
                               | Inr stored \<Rightarrow> (mes_records s)(agentDID \<mapsto> stored))\<rparr>)"

definition checkCreated :: "string \<Rightarrow> EnrollmentRecord result \<Rightarrow> EnrollmentRecord result" where
  "checkCreated agentDID created =
     (case created of
        Inl err \<Rightarrow> Inl err
      | Inr record \<Rightarrow>
          (case validateEnrollmentRecord record of
             Some err \<Rightarrow> Inl err
           | None \<Rightarrow>
               if er_AgentDID record \<noteq> agentDID
               then Inl (Text ''AEP enrollment store record does not match the requested Agent DID'')
               else cloneEnrollment record))"

definition memoryEnrollmentStore_FindEnrollment ::
  "('w \<Rightarrow> bool) \<Rightarrow> (memoryEnrollmentStore, 'w) part \<Rightarrow> string \<Rightarrow> (go_error, 'w, EnrollmentRecord option) act" where
  "memoryEnrollmentStore_FindEnrollment ctxDone p agentDID =
     unless_done ctxDone
       (and_then (observe (\<lambda>w. mes_records (part_get p w) agentDID)) (\<lambda>found.
        case found of
          None \<Rightarrow> ok None
        | Some record \<Rightarrow>
            (case cloneEnrollment record of Inl err \<Rightarrow> fail err | Inr copy \<Rightarrow> ok (Some copy))))"

definition memoryEnrollmentStore_FindOrCreateEnrollment ::
  "('w \<Rightarrow> bool) \<Rightarrow> (memoryEnrollmentStore, 'w) part \<Rightarrow> string \<Rightarrow> (go_error, 'w, EnrollmentRecord) act \<Rightarrow>
   (go_error, 'w, EnrollmentRecord \<times> bool) act" where
  "memoryEnrollmentStore_FindOrCreateEnrollment ctxDone p agentDID create =
     (if agentDID = [] then fail (Text ''AEP enrollment store requires a create function'')
      else
        unless_done ctxDone
          (and_then (at p (enrollment_enter agentDID)) (\<lambda>entered.
           case entered of
             Found existing \<Rightarrow>
               (case cloneEnrollment existing of Inl err \<Rightarrow> fail err | Inr copy \<Rightarrow> ok (copy, False))
           | Busy \<Rightarrow> fail ContextDone
           | Entered \<Rightarrow>
               and_then (attempt create) (\<lambda>created.
               and_then (at p (enrollment_leave agentDID (checkCreated agentDID created))) (\<lambda>_.
               case checkCreated agentDID created of
                 Inl err \<Rightarrow> fail err
               | Inr stored \<Rightarrow>
                   (case cloneEnrollment stored of Inl err \<Rightarrow> fail err | Inr copy \<Rightarrow> ok (copy, True)))))))"

definition memoryEnrollmentStore_SaveEnrollment ::
  "('w \<Rightarrow> bool) \<Rightarrow> (memoryEnrollmentStore, 'w) part \<Rightarrow> EnrollmentRecord \<Rightarrow> (go_error, 'w, EnrollmentRecord) act" where
  "memoryEnrollmentStore_SaveEnrollment ctxDone p record =
     (case validateEnrollmentRecord record of
        Some err \<Rightarrow> fail err
      | None \<Rightarrow>
          unless_done ctxDone
            (and_then (observe (\<lambda>w. er_AgentDID record \<in> set (mes_pending (part_get p w)))) (\<lambda>busy.
             if busy then fail ContextDone
             else case cloneEnrollment record of
                    Inl err \<Rightarrow> fail err
                  | Inr stored \<Rightarrow>
                      and_then (at p (\<lambda>s. (Inr (), s\<lparr>mes_records :=
                        (mes_records s)(er_AgentDID record \<mapsto> stored)\<rparr>))) (\<lambda>_.
                      of_result (cloneEnrollment stored)))))"

definition NewMemoryEnrollmentStore ::
  "('w \<Rightarrow> bool) \<Rightarrow> (memoryEnrollmentStore, 'w) part \<Rightarrow> 'w EnrollmentStore" where
  "NewMemoryEnrollmentStore ctxDone p =
     \<lparr>es_FindEnrollment = memoryEnrollmentStore_FindEnrollment ctxDone p,
      es_FindOrCreateEnrollment = memoryEnrollmentStore_FindOrCreateEnrollment ctxDone p,
      es_SaveEnrollment = memoryEnrollmentStore_SaveEnrollment ctxDone p\<rparr>"

section \<open>Replays\<close>

type_synonym memoryReplayStore = "string \<rightharpoonup> ReplayRecord"

definition replay_key :: "ReplayRecord \<Rightarrow> string" where
  "replay_key record = rpl_Subject record @ [CHR 0x00] @ rpl_JWTID record"

definition memoryReplayStore_ConsumeReplay ::
  "('w \<Rightarrow> bool) \<Rightarrow> (memoryReplayStore, 'w) part \<Rightarrow> ReplayRecord \<Rightarrow> int \<Rightarrow> (go_error, 'w, bool) act" where
  "memoryReplayStore_ConsumeReplay ctxDone p record now =
     unless_done ctxDone
       (if rpl_Subject record = [] \<or> rpl_JWTID record = [] \<or> rpl_ExpiresAt record \<le> now
        then fail (Text ''AEP replay store received an invalid record'')
        else at p (\<lambda>s.
          let live = keep_entries (\<lambda>existing. \<not> rpl_ExpiresAt existing \<le> now) s in
          if live (replay_key record) \<noteq> None then (Inr False, live)
          else (Inr True, live(replay_key record \<mapsto> record))))"

definition NewMemoryReplayStore :: "('w \<Rightarrow> bool) \<Rightarrow> (memoryReplayStore, 'w) part \<Rightarrow> 'w ReplayStore" where
  "NewMemoryReplayStore ctxDone p = \<lparr>rs_ConsumeReplay = memoryReplayStore_ConsumeReplay ctxDone p\<rparr>"

section \<open>Idempotency\<close>

definition cloneHeader :: "Header \<Rightarrow> Header" where
  "cloneHeader header = header"

text \<open>The clone has a nil body where the original has an empty one; as bytes they are equal.\<close>

definition cloneStoredResponse :: "StoredResponse \<Rightarrow> StoredResponse" where
  "cloneStoredResponse response =
     response\<lparr>sr_Body := sr_Body response, sr_Headers := cloneHeader (sr_Headers response)\<rparr>"

record idempotencyRecord =
  ir_input :: IdempotencyInput
  ir_response :: StoredResponse

text \<open>
  The calls that find a key pending block on the channel the running call made for it. The store
  keeps every channel it ever made, by number, with whether it is closed; a key that is pending maps
  to the number of its channel.
\<close>

type_synonym channel = nat

record memoryIdempotencyStore =
  mis_channels :: "bool list"
  mis_pending :: "string \<rightharpoonup> channel"
  mis_records :: "string \<rightharpoonup> idempotencyRecord"

definition empty_idempotency :: memoryIdempotencyStore where
  "empty_idempotency = \<lparr>mis_channels = [], mis_pending = Map.empty, mis_records = Map.empty\<rparr>"

text \<open>A receive from a channel nobody sends on blocks until the channel is closed.\<close>

definition channel_closed :: "memoryIdempotencyStore \<Rightarrow> channel \<Rightarrow> bool" where
  "channel_closed s ch \<longleftrightarrow> ch < length (mis_channels s) \<and> mis_channels s ! ch"

text \<open>What a call finds: a recorded response, a channel to wait on, or nothing, so that it makes one.\<close>

datatype idempotency_entry = Recorded IdempotencyResult | Pending channel | Made channel

definition idempotency_key :: "IdempotencyInput \<Rightarrow> string" where
  "idempotency_key input = ii_AgentDID input @ [CHR 0x00] @ ii_IdempotencyKey input"

definition memoryIdempotencyStore_expire :: "time \<Rightarrow> memoryIdempotencyStore \<Rightarrow> memoryIdempotencyStore" where
  "memoryIdempotencyStore_expire now s =
     s\<lparr>mis_records := keep_entries (\<lambda>record.
        \<not> \<not> now < sr_CreatedAt (ir_response record) + 3600 * Second) (mis_records s)\<rparr>"

definition idempotency_enter ::
  "time \<Rightarrow> IdempotencyInput \<Rightarrow> (go_error, memoryIdempotencyStore, idempotency_entry) act" where
  "idempotency_enter now input s0 =
     (let s = memoryIdempotencyStore_expire now s0; key = idempotency_key input in
      case mis_records s key of
        Some existing \<Rightarrow>
          (Inr (Recorded (if \<not> IdempotencyInput_Matches (ir_input existing) input then IdempotencyConflict
                          else IdempotencyReplayed (cloneStoredResponse (ir_response existing)))), s)
      | None \<Rightarrow>
          (case mis_pending s key of
             Some pending \<Rightarrow> (Inr (Pending pending), s)
           | None \<Rightarrow>
               let pending = length (mis_channels s) in
               (Inr (Made pending),
                s\<lparr>mis_channels := mis_channels s @ [False], mis_pending := (mis_pending s)(key \<mapsto> pending)\<rparr>)))"

text \<open>The call that made the channel deletes its key, records a response and closes the channel.\<close>

definition idempotency_leave ::
  "channel \<Rightarrow> IdempotencyInput \<Rightarrow> StoredResponse result \<Rightarrow> (go_error, memoryIdempotencyStore, unit) act" where
  "idempotency_leave pending input executed s =
     (let key = idempotency_key input in
      (Inr (), s\<lparr>mis_pending := (mis_pending s)(key := None),
               mis_records := (case executed of Inl _ \<Rightarrow> mis_records s
                               | Inr response \<Rightarrow> (mis_records s)(key \<mapsto>
                                   \<lparr>ir_input = input, ir_response = cloneStoredResponse response\<rparr>)),
               mis_channels := (mis_channels s)[pending := True]\<rparr>))"

definition valid_idempotency_input :: "IdempotencyInput \<Rightarrow> bool" where
  "valid_idempotency_input input \<longleftrightarrow> ii_AgentDID input \<noteq> [] \<and> ii_Command input \<noteq> [] \<and>
     ii_IdempotencyKey input \<noteq> [] \<and> ii_RequestHash input \<noteq> []"

text \<open>What a call does once it made the channel of its key.\<close>

definition runEntered ::
  "('w \<Rightarrow> time \<times> 'w) \<Rightarrow> (memoryIdempotencyStore, 'w) part \<Rightarrow> channel \<Rightarrow> IdempotencyInput \<Rightarrow>
   (go_error, 'w, StoredResponse) act \<Rightarrow> (go_error, 'w, IdempotencyResult) act" where
  "runEntered clock p pending input execute =
     and_then (attempt execute) (\<lambda>executed.
     case executed of
       Inl err \<Rightarrow> and_then (at p (idempotency_leave pending input (Inl err))) (\<lambda>_. fail err)
     | Inr response \<Rightarrow>
         and_then (if time_IsZero (sr_CreatedAt response)
                   then and_then (call clock) (\<lambda>created. ok (response\<lparr>sr_CreatedAt := created\<rparr>))
                   else ok response) (\<lambda>stamped.
         and_then (at p (idempotency_leave pending input (Inr stamped))) (\<lambda>_.
         ok (IdempotencyCreated (cloneStoredResponse stamped)))))"

text \<open>
  In a run of one call after the other a key is pending only while a callback calls the store again;
  the channel is not closed before that callback ends, and the inner call returns when its context is
  done. The theory \<open>Single_Flight\<close> has the calls that run beside each other, and their waiting.
\<close>

definition memoryIdempotencyStore_ExecuteIdempotent ::
  "('w \<Rightarrow> time \<times> 'w) \<Rightarrow> (memoryIdempotencyStore, 'w) part \<Rightarrow> IdempotencyInput \<Rightarrow>
   (go_error, 'w, StoredResponse) act \<Rightarrow> (go_error, 'w, IdempotencyResult) act" where
  "memoryIdempotencyStore_ExecuteIdempotent clock p input execute =
     (if \<not> valid_idempotency_input input then fail (Text ''AEP idempotency store received invalid input'')
      else
        and_then (call clock) (\<lambda>now.
        and_then (at p (idempotency_enter now input)) (\<lambda>entered.
        case entered of
          Recorded result \<Rightarrow> ok result
        | Pending pending \<Rightarrow> fail ContextDone
        | Made pending \<Rightarrow> runEntered clock p pending input execute)))"

definition NewMemoryIdempotencyStore ::
  "('w \<Rightarrow> time \<times> 'w) \<Rightarrow> (memoryIdempotencyStore, 'w) part \<Rightarrow> 'w IdempotencyStore" where
  "NewMemoryIdempotencyStore time_Now p = memoryIdempotencyStore_ExecuteIdempotent time_Now p"

section \<open>The static policy\<close>

definition staticEnrollmentPolicy_DecideEnrollment ::
  "EnrollmentDecision \<Rightarrow> EnrollRequest \<Rightarrow> EnrollmentPolicyContext \<Rightarrow> (go_error, 'w, EnrollmentDecision) act" where
  "staticEnrollmentPolicy_DecideEnrollment decision request context =
     ok (if ed_Status decision = [] then decision\<lparr>ed_Status := EnrollmentActive\<rparr> else decision)"

definition NewStaticEnrollmentPolicy :: "EnrollmentDecision \<Rightarrow> 'w EnrollmentPolicy" where
  "NewStaticEnrollmentPolicy decision = staticEnrollmentPolicy_DecideEnrollment decision"

lemmas service_store_defs [go_defs] =
  validateEnrollmentRecord_def cloneClaimValues_def cloneEnrollment_def
  empty_enrollments_def enrollment_enter_def enrollment_leave_def checkCreated_def
  memoryEnrollmentStore_FindEnrollment_def memoryEnrollmentStore_FindOrCreateEnrollment_def
  memoryEnrollmentStore_SaveEnrollment_def NewMemoryEnrollmentStore_def replay_key_def
  memoryReplayStore_ConsumeReplay_def NewMemoryReplayStore_def cloneHeader_def cloneStoredResponse_def
  empty_idempotency_def idempotency_key_def memoryIdempotencyStore_expire_def idempotency_enter_def
  idempotency_leave_def channel_closed_def valid_idempotency_input_def runEntered_def memoryIdempotencyStore_ExecuteIdempotent_def
  NewMemoryIdempotencyStore_def staticEnrollmentPolicy_DecideEnrollment_def NewStaticEnrollmentPolicy_def

section \<open>Contracts\<close>

text \<open>
  A replay store remembers, for every subject and token identifier it accepted, until when the
  assertion is spent. It accepts an identifier only when it is not spent, and no call forgets one
  that is still live.
\<close>

locale replay_store =
  fixes consume :: "ReplayRecord \<Rightarrow> int \<Rightarrow> (go_error, 'w, bool) act"
    and spent :: "'w \<Rightarrow> string \<Rightarrow> string \<Rightarrow> int option"
  assumes accepts: "consume r now w = (Inr True, w') \<Longrightarrow>
      (\<forall>e. spent w (rpl_Subject r) (rpl_JWTID r) = Some e \<longrightarrow> e \<le> now) \<and>
      spent w' (rpl_Subject r) (rpl_JWTID r) = Some (rpl_ExpiresAt r)"
    and remembers: "consume r now w = (x, w') \<Longrightarrow> spent w s j = Some e \<Longrightarrow> now < e \<Longrightarrow> spent w' s j = Some e"

text \<open>The answers to a history of calls.\<close>

fun replay_history ::
  "(ReplayRecord \<Rightarrow> int \<Rightarrow> (go_error, 'w, bool) act) \<Rightarrow> (ReplayRecord \<times> int) list \<Rightarrow> 'w \<Rightarrow> bool result list" where
  "replay_history consume [] w = []"
| "replay_history consume ((r, now) # h) w =
     (case consume r now w of (x, w') \<Rightarrow> x # replay_history consume h w')"

lemma length_replay_history [simp]: "length (replay_history consume h w) = length h"
  by (induction consume h w rule: replay_history.induct) (auto split: prod.splits)

context replay_store
begin

lemma spent_refused:
  assumes "spent w s j = Some e" and "k < length h" and "\<forall>i \<le> k. snd (h ! i) < e"
    and "rpl_Subject (fst (h ! k)) = s" and "rpl_JWTID (fst (h ! k)) = j"
  shows "replay_history consume h w ! k \<noteq> Inr True"
  using assms
proof (induction h arbitrary: w k)
  case (Cons c h)
  obtain r now where c: "c = (r, now)" by (cases c)
  obtain x w' where run: "consume r now w = (x, w')" by (cases "consume r now w")
  have now: "now < e" using Cons.prems(3) c by (metis fst_conv snd_conv le0 nth_Cons_0)
  show ?case
  proof (cases k)
    case 0
    then show ?thesis using Cons.prems accepts [of r now w w'] now c run by auto
  next
    case (Suc k')
    have "replay_history consume h w' ! k' \<noteq> Inr True"
      using Cons.prems Suc c by (intro Cons.IH [OF remembers [OF run Cons.prems(1) now]]) fastforce+
    then show ?thesis using c run Suc by simp
  qed
qed simp

lemma accepted_once:
  assumes "i < k" and "k < length h"
    and "replay_history consume h w ! i = Inr True" and "replay_history consume h w ! k = Inr True"
    and "rpl_Subject (fst (h ! i)) = rpl_Subject (fst (h ! k))" and "rpl_JWTID (fst (h ! i)) = rpl_JWTID (fst (h ! k))"
  shows "\<exists>m. i < m \<and> m \<le> k \<and> rpl_ExpiresAt (fst (h ! i)) \<le> snd (h ! m)"
  using assms
proof (induction h arbitrary: w i k)
  case (Cons c h)
  obtain r now where c: "c = (r, now)" by (cases c)
  obtain x w' where run: "consume r now w = (x, w')" by (cases "consume r now w")
  obtain k' where k: "k = Suc k'" using Cons.prems(1) by (cases k) auto
  show ?case
  proof (cases i)
    case 0
    then have x: "x = Inr True" using Cons.prems(3) c run by simp
    then have sp: "spent w' (rpl_Subject r) (rpl_JWTID r) = Some (rpl_ExpiresAt r)" using accepts run by blast
    show ?thesis
    proof (rule ccontr)
      assume "\<not> (\<exists>m. i < m \<and> m \<le> k \<and> rpl_ExpiresAt (fst ((c # h) ! i)) \<le> snd ((c # h) ! m))"
      then have "\<forall>m \<le> k'. snd (h ! m) < rpl_ExpiresAt r"
        using 0 k c by (metis Suc_le_mono fst_conv not_le nth_Cons_0 nth_Cons_Suc zero_less_Suc)
      then have "replay_history consume h w' ! k' \<noteq> Inr True"
        using spent_refused [OF sp] Cons.prems k c 0 by auto
      then show False using Cons.prems(4) c run k by simp
    qed
  next
    case (Suc i')
    have "\<exists>m. i' < m \<and> m \<le> k' \<and> rpl_ExpiresAt (fst (h ! i')) \<le> snd (h ! m)"
      using Cons.prems Suc k c run by (intro Cons.IH [of i' k' w']) auto
    then obtain m where "i' < m" "m \<le> k'" "rpl_ExpiresAt (fst (h ! i')) \<le> snd (h ! m)" by blast
    then show ?thesis using Suc k by (intro exI [of _ "Suc m"]) simp
  qed
qed simp

end

text \<open>The memory store keeps the contract wherever it lives in the world.\<close>

definition memory_spent :: "(memoryReplayStore, 'w) part \<Rightarrow> 'w \<Rightarrow> string \<Rightarrow> string \<Rightarrow> int option" where
  "memory_spent p w subject jwtID =
     map_option rpl_ExpiresAt (part_get p w (subject @ [CHR 0x00] @ jwtID))"

locale memory_replay = world_part p for p :: "(memoryReplayStore, 'w) part" +
  fixes ctxDone :: "'w \<Rightarrow> bool"

sublocale memory_replay \<subseteq> replays: replay_store "memoryReplayStore_ConsumeReplay ctxDone p" "memory_spent p"
proof
  fix r now w w'
  assume run: "memoryReplayStore_ConsumeReplay ctxDone p r now w = (Inr True, w')"
  let ?live = "keep_entries (\<lambda>x. \<not> rpl_ExpiresAt x \<le> now) (part_get p w)"
  have none: "?live (replay_key r) = None" and w': "w' = part_put p (?live(replay_key r \<mapsto> r)) w"
    using run by (auto simp: memoryReplayStore_ConsumeReplay_def unless_done_Inr run_simps on_part_eq Let_def split: if_splits)
  show "(\<forall>e. memory_spent p w (rpl_Subject r) (rpl_JWTID r) = Some e \<longrightarrow> e \<le> now) \<and>
      memory_spent p w' (rpl_Subject r) (rpl_JWTID r) = Some (rpl_ExpiresAt r)"
    using none w' by (auto simp: memory_spent_def replay_key_def keep_entries_def split: if_splits)
next
  fix r now w x w' s j e
  assume run: "memoryReplayStore_ConsumeReplay ctxDone p r now w = (x, w')"
    and sp: "memory_spent p w s j = Some e" and live: "now < e"
  let ?live = "keep_entries (\<lambda>x. \<not> rpl_ExpiresAt x \<le> now) (part_get p w)"
  have "?live (s @ [CHR 0x00] @ j) \<noteq> None" "memory_spent p (part_put p ?live w) s j = Some e"
    using sp live by (auto simp: memory_spent_def keep_entries_def)
  moreover have "w' = w \<or> w' = part_put p ?live w \<or>
      (?live (replay_key r) = None \<and> w' = part_put p (?live(replay_key r \<mapsto> r)) w)"
    using run by (auto simp: memoryReplayStore_ConsumeReplay_def unless_done_def fail_def on_part_eq Let_def split: if_splits)
  ultimately show "memory_spent p w' s j = Some e"
    using sp by (auto simp: memory_spent_def)
qed

interpretation memory_replays: memory_replay whole ctxDone for ctxDone ..

text \<open>
  An enrollment store holds at most one record per Agent. A record found or created is a copy of the
  one that is held; creation happens only for an Agent without a record and stores what it returns.
\<close>

locale enrollment_store =
  fixes store :: "'w EnrollmentStore"
    and enrolled :: "'w \<Rightarrow> string \<Rightarrow> EnrollmentRecord option"
  assumes found: "es_FindEnrollment store d w = (Inr x, w') \<Longrightarrow>
      w' = w \<and> (case enrolled w d of None \<Rightarrow> x = None
                 | Some e \<Rightarrow> (\<exists>copy. cloneEnrollment e = Inr copy \<and> x = Some copy))"
    and existing: "es_FindOrCreateEnrollment store d create w = (Inr (r, False), w') \<Longrightarrow>
      w' = w \<and> (\<exists>e. enrolled w d = Some e \<and> cloneEnrollment e = Inr r)"
    and created: "es_FindOrCreateEnrollment store d create w = (Inr (r, True), w') \<Longrightarrow>
      enrolled w d = None \<and>
      (\<exists>w1 r0 w2 e. create w1 = (Inr r0, w2) \<and> er_AgentDID r0 = d \<and> validateEnrollmentRecord r0 = None \<and>
         cloneEnrollment r0 = Inr e \<and> enrolled w' d = Some e \<and> cloneEnrollment e = Inr r)"
    and saved: "es_SaveEnrollment store r w = (Inr r', w') \<Longrightarrow>
      (\<exists>e. cloneEnrollment r = Inr e \<and> cloneEnrollment e = Inr r' \<and>
         enrolled w' = (enrolled w)(er_AgentDID r \<mapsto> e))"
begin

text \<open>Whoever asks again gets a copy of the record the first caller created.\<close>

lemma created_then_found:
  assumes "es_FindOrCreateEnrollment store d create w = (Inr (r, True), w')"
    and "es_FindEnrollment store d w' = (Inr x, w'')"
  shows "x = Some r \<and> w'' = w'"
  using created [OF assms(1)] found [OF assms(2)] by auto

lemma created_once:
  assumes "es_FindOrCreateEnrollment store d create w = (Inr (r, True), w')"
    and "es_FindOrCreateEnrollment store d create' w' = (Inr (r', fresh), w'')"
  shows "\<not> fresh \<and> r' = r \<and> w'' = w'"
  using created [OF assms(1)] created [of d create' w' r' w''] existing [of d create' w' r' w''] assms(2)
  by (cases fresh) auto

end

locale memory_enrollment = world_part p for p :: "(memoryEnrollmentStore, 'w) part" +
  fixes ctxDone :: "'w \<Rightarrow> bool"

lemma enrollment_enter_cases:
  "at p (enrollment_enter d) w = (Inr x, w') \<Longrightarrow>
     (case mes_records (part_get p w) d of
        Some e \<Rightarrow> x = Found e \<and> w' = part_put p (part_get p w) w
      | None \<Rightarrow> if d \<in> set (mes_pending (part_get p w)) then x = Busy else x = Entered)"
  by (auto simp: on_part_eq enrollment_enter_def split: option.splits if_splits)

sublocale memory_enrollment \<subseteq> enrollments: enrollment_store "NewMemoryEnrollmentStore ctxDone p"
  "\<lambda>w. mes_records (part_get p w)"
proof
  fix d x w w'
  assume "es_FindEnrollment (NewMemoryEnrollmentStore ctxDone p) d w = (Inr x, w')"
  then show "w' = w \<and> (case mes_records (part_get p w) d of None \<Rightarrow> x = None
                 | Some e \<Rightarrow> (\<exists>copy. cloneEnrollment e = Inr copy \<and> x = Some copy))"
    by (auto simp: NewMemoryEnrollmentStore_def memoryEnrollmentStore_FindEnrollment_def unless_done_Inr
        run_simps split: option.splits sum.splits)
next
  fix d create w r w'
  assume "es_FindOrCreateEnrollment (NewMemoryEnrollmentStore ctxDone p) d create w = (Inr (r, False), w')"
  then obtain x w1 where enter: "at p (enrollment_enter d) w = (Inr x, w1)" and x: "\<exists>e. x = Found e \<and> cloneEnrollment e = Inr r \<and> w' = w1"
    by (auto simp: NewMemoryEnrollmentStore_def memoryEnrollmentStore_FindOrCreateEnrollment_def unless_done_Inr
        run_simps case_entry)
  then show "w' = w \<and> (\<exists>e. mes_records (part_get p w) d = Some e \<and> cloneEnrollment e = Inr r)"
    using enrollment_enter_cases [OF enter] by (auto split: option.splits if_splits)
next
  fix d create w r w'
  assume "es_FindOrCreateEnrollment (NewMemoryEnrollmentStore ctxDone p) d create w = (Inr (r, True), w')"
  then obtain w1 c w2 stored where enter: "at p (enrollment_enter d) w = (Inr Entered, w1)"
    and run: "create w1 = (c, w2)" "checkCreated d c = Inr stored"
    and leave: "at p (enrollment_leave d (Inr stored)) w2 = (Inr (), w')" and copy: "cloneEnrollment stored = Inr r"
    by (auto simp: NewMemoryEnrollmentStore_def memoryEnrollmentStore_FindOrCreateEnrollment_def unless_done_Inr
        run_simps case_entry)
  obtain r0 where "c = Inr r0" "validateEnrollmentRecord r0 = None" "er_AgentDID r0 = d" "cloneEnrollment r0 = Inr stored"
    using run(2) by (auto simp: checkCreated_def split: sum.splits option.splits if_splits)
  moreover have "mes_records (part_get p w) d = None"
    using enrollment_enter_cases [OF enter] by (auto split: option.splits)
  moreover have "mes_records (part_get p w') d = Some stored"
    using leave by (auto simp: on_part_eq enrollment_leave_def)
  ultimately show "mes_records (part_get p w) d = None \<and>
      (\<exists>w1 r0 w2 e. create w1 = (Inr r0, w2) \<and> er_AgentDID r0 = d \<and> validateEnrollmentRecord r0 = None \<and>
         cloneEnrollment r0 = Inr e \<and> mes_records (part_get p w') d = Some e \<and> cloneEnrollment e = Inr r)"
    using run(1) copy by blast
next
  fix r w r' w'
  assume "es_SaveEnrollment (NewMemoryEnrollmentStore ctxDone p) r w = (Inr r', w')"
  then obtain e where "cloneEnrollment r = Inr e" "cloneEnrollment e = Inr r'"
    "w' = part_put p ((part_get p w)\<lparr>mes_records := (mes_records (part_get p w))(er_AgentDID r \<mapsto> e)\<rparr>) w"
    by (auto simp: NewMemoryEnrollmentStore_def memoryEnrollmentStore_SaveEnrollment_def unless_done_Inr
        run_simps on_part_eq split: option.splits if_splits)
  then show "\<exists>e. cloneEnrollment r = Inr e \<and> cloneEnrollment e = Inr r' \<and>
      mes_records (part_get p w') = (mes_records (part_get p w))(er_AgentDID r \<mapsto> e)"
    by auto
qed

interpretation memory_enrollments: memory_enrollment whole ctxDone for ctxDone ..

text \<open>
  An idempotency store answers a key it holds from its record, whatever the callback would do, and
  runs the callback only for a key it does not hold, whose response it then holds.
\<close>

locale idempotency_store =
  fixes execute_idempotent :: "'w IdempotencyStore"
    and recorded :: "'w \<Rightarrow> string \<Rightarrow> (IdempotencyInput \<times> StoredResponse) option"
  assumes replayed: "execute_idempotent i f w = (Inr (IdempotencyReplayed r), w') \<Longrightarrow>
      (\<exists>j. recorded w (idempotency_key i) = Some (j, r) \<and> IdempotencyInput_Matches j i) \<and>
      (\<forall>g. execute_idempotent i g w = (Inr (IdempotencyReplayed r), w'))"
    and conflict: "execute_idempotent i f w = (Inr IdempotencyConflict, w') \<Longrightarrow>
      (\<exists>j r. recorded w (idempotency_key i) = Some (j, r) \<and> \<not> IdempotencyInput_Matches j i) \<and>
      (\<forall>g. execute_idempotent i g w = (Inr IdempotencyConflict, w'))"
    and executed: "execute_idempotent i f w = (Inr (IdempotencyCreated r), w') \<Longrightarrow>
      (\<exists>w1 r0 w2. f w1 = (Inr r0, w2) \<and> sr_Body r = sr_Body r0 \<and> sr_ContentType r = sr_ContentType r0 \<and>
         sr_Headers r = sr_Headers r0 \<and> sr_Status r = sr_Status r0) \<and>
      recorded w' (idempotency_key i) = Some (i, r)"
begin

text \<open>Until the record goes, a repeated request gets the recorded response and another one conflicts.\<close>

lemma repeated:
  assumes "execute_idempotent i f w = (Inr (IdempotencyCreated r), w')"
    and "execute_idempotent j g w' = (Inr (IdempotencyReplayed r'), w'')"
    and "idempotency_key j = idempotency_key i"
  shows "r' = r \<and> IdempotencyInput_Matches i j"
  using executed [OF assms(1)] replayed [OF assms(2)] assms(3) by auto

lemma no_conflict_with_itself:
  assumes "execute_idempotent i f w = (Inr (IdempotencyCreated r), w')"
  shows "execute_idempotent i g w' \<noteq> (Inr IdempotencyConflict, w'')"
  using executed [OF assms] conflict [of i g w' w''] by auto

end

locale memory_idempotency = world_part p for p :: "(memoryIdempotencyStore, 'w) part" +
  fixes clock :: "'w \<Rightarrow> time \<times> 'w"
  assumes clock_keeps: "clock w = (t, w') \<Longrightarrow> part_get p w' = part_get p w"

definition memory_recorded ::
  "(memoryIdempotencyStore, 'w) part \<Rightarrow> 'w \<Rightarrow> string \<Rightarrow> (IdempotencyInput \<times> StoredResponse) option" where
  "memory_recorded p w k = map_option (\<lambda>x. (ir_input x, ir_response x)) (mis_records (part_get p w) k)"

lemma clone_response [simp]: "cloneStoredResponse r = r"
  by (simp add: cloneStoredResponse_def cloneHeader_def)

lemma idempotency_entered:
  "at p (idempotency_enter now i) w = (Inr x, w') \<Longrightarrow>
     (let s = memoryIdempotencyStore_expire now (part_get p w) in
      case mis_records s (idempotency_key i) of
        Some e \<Rightarrow> x = Recorded (if IdempotencyInput_Matches (ir_input e) i then IdempotencyReplayed (ir_response e)
                             else IdempotencyConflict)
      | None \<Rightarrow> x = (case mis_pending s (idempotency_key i) of Some pending \<Rightarrow> Pending pending
                     | None \<Rightarrow> Made (length (mis_channels s))))"
  by (auto simp: on_part_eq idempotency_enter_def Let_def split: option.splits if_splits)

lemma runEntered_Inr:
  assumes "runEntered clock p pending i f w = (Inr r, w')"
  shows "\<exists>r0 w1 stamped w2. f w = (Inr r0, w1) \<and>
    (if time_IsZero (sr_CreatedAt r0) then (\<exists>c. clock w1 = (c, w2) \<and> stamped = r0\<lparr>sr_CreatedAt := c\<rparr>)
     else stamped = r0 \<and> w2 = w1) \<and>
    at p (idempotency_leave pending i (Inr stamped)) w2 = (Inr (), w') \<and> r = IdempotencyCreated stamped"
proof -
  obtain x w1 where f: "f w = (x, w1)" by (cases "f w")
  obtain r0 where x: "x = Inr r0" using assms f by (cases x) (auto simp: runEntered_def run_simps)
  show ?thesis
    using assms f x by (cases "time_IsZero (sr_CreatedAt r0)") (auto simp: runEntered_def run_simps)
qed

lemma case_idempotency_entry:
  "(case x of Recorded e \<Rightarrow> f e | Pending ch \<Rightarrow> g ch | Made ch \<Rightarrow> h ch) w = r \<longleftrightarrow>
     (\<exists>e. x = Recorded e \<and> f e w = r) \<or> (\<exists>ch. x = Pending ch \<and> g ch w = r) \<or> (\<exists>ch. x = Made ch \<and> h ch w = r)"
  by (cases x) auto

text \<open>A call finds its key, whatever its callback is, or enters and runs the callback.\<close>

lemma idempotent_cases:
  assumes "memoryIdempotencyStore_ExecuteIdempotent clock p i f w = (Inr r, w')"
  obtains now w1 where "clock w = (now, w1)" "at p (idempotency_enter now i) w1 = (Inr (Recorded r), w')"
      "\<And>g. memoryIdempotencyStore_ExecuteIdempotent clock p i g w = (Inr r, w')"
  | now w1 pending w2 where "clock w = (now, w1)" "at p (idempotency_enter now i) w1 = (Inr (Made pending), w2)"
      "runEntered clock p pending i f w2 = (Inr r, w')"
  using assms by (auto simp: memoryIdempotencyStore_ExecuteIdempotent_def run_simps case_idempotency_entry)

context memory_idempotency
begin

lemma found_recorded:
  assumes "clock w = (now, w1)" and "at p (idempotency_enter now i) w1 = (Inr (Recorded x), w')"
  shows "\<exists>j r. memory_recorded p w (idempotency_key i) = Some (j, r) \<and>
    x = (if IdempotencyInput_Matches j i then IdempotencyReplayed r else IdempotencyConflict)"
proof -
  have same: "part_get p w1 = part_get p w" using clock_keeps assms(1) by blast
  show ?thesis
    using idempotency_entered [OF assms(2)] same
    by (auto simp: Let_def memory_recorded_def memoryIdempotencyStore_expire_def keep_entries_def
        split: option.splits if_splits)
qed

end

sublocale memory_idempotency \<subseteq> idempotency: idempotency_store
  "memoryIdempotencyStore_ExecuteIdempotent clock p" "memory_recorded p"
proof
  fix i f w r w'
  assume run: "memoryIdempotencyStore_ExecuteIdempotent clock p i f w = (Inr (IdempotencyReplayed r), w')"
  show "(\<exists>j. memory_recorded p w (idempotency_key i) = Some (j, r) \<and> IdempotencyInput_Matches j i) \<and>
      (\<forall>g. memoryIdempotencyStore_ExecuteIdempotent clock p i g w = (Inr (IdempotencyReplayed r), w'))"
    using run
  proof (cases rule: idempotent_cases)
    case (1 now w1)
    then show ?thesis using found_recorded [OF 1(1,2)] by (auto split: if_splits)
  next
    case (2 now w1 pending w2)
    then show ?thesis using runEntered_Inr [OF 2(3)] by auto
  qed
next
  fix i f w w'
  assume run: "memoryIdempotencyStore_ExecuteIdempotent clock p i f w = (Inr IdempotencyConflict, w')"
  show "(\<exists>j r. memory_recorded p w (idempotency_key i) = Some (j, r) \<and> \<not> IdempotencyInput_Matches j i) \<and>
      (\<forall>g. memoryIdempotencyStore_ExecuteIdempotent clock p i g w = (Inr IdempotencyConflict, w'))"
    using run
  proof (cases rule: idempotent_cases)
    case (1 now w1)
    then show ?thesis using found_recorded [OF 1(1,2)] by (auto split: if_splits)
  next
    case (2 now w1 pending w2)
    then show ?thesis using runEntered_Inr [OF 2(3)] by auto
  qed
next
  fix i f w r w'
  assume run: "memoryIdempotencyStore_ExecuteIdempotent clock p i f w = (Inr (IdempotencyCreated r), w')"
  show "(\<exists>w1 r0 w2. f w1 = (Inr r0, w2) \<and> sr_Body r = sr_Body r0 \<and> sr_ContentType r = sr_ContentType r0 \<and>
         sr_Headers r = sr_Headers r0 \<and> sr_Status r = sr_Status r0) \<and>
      memory_recorded p w' (idempotency_key i) = Some (i, r)"
    using run
  proof (cases rule: idempotent_cases)
    case (1 now w1)
    then show ?thesis using found_recorded [OF 1(1,2)] by (auto split: if_splits)
  next
    case (2 now w1 pending w2)
    obtain r0 w3 w4 where f: "f w2 = (Inr r0, w3)" and r: "r = r0 \<or> (\<exists>c. r = r0\<lparr>sr_CreatedAt := c\<rparr>)"
      and leave: "at p (idempotency_leave pending i (Inr r)) w4 = (Inr (), w')"
      using runEntered_Inr [OF 2(3)] by (auto split: if_splits)
    have "memory_recorded p w' (idempotency_key i) = Some (i, r)"
      using leave by (auto simp: on_part_eq idempotency_leave_def memory_recorded_def Let_def)
    moreover have "sr_Body r = sr_Body r0 \<and> sr_ContentType r = sr_ContentType r0 \<and>
         sr_Headers r = sr_Headers r0 \<and> sr_Status r = sr_Status r0" using r by auto
    ultimately show ?thesis using f by blast
  qed
qed

text \<open>A store beside a second component of the world, here the time its clock shows.\<close>

definition first_part :: "('s, 's \<times> 'w) part" where
  "first_part = \<lparr>part_get = fst, part_put = (\<lambda>s w. (s, snd w))\<rparr>"

definition shown_time :: "'s \<times> time \<Rightarrow> time \<times> ('s \<times> time)" where
  "shown_time w = (snd w, w)"

interpretation timed_idempotency: memory_idempotency first_part shown_time
  by unfold_locales (auto simp: first_part_def shown_time_def)

abbreviation timed_idempotency_store :: "(memoryIdempotencyStore \<times> time) IdempotencyStore" where
  "timed_idempotency_store \<equiv> NewMemoryIdempotencyStore shown_time first_part"

text \<open>A live record answers a call; and what a call answered is what its record says.\<close>

lemma timed_store_found:
  assumes "mis_records (fst w) (idempotency_key j) = Some e" and "snd w < sr_CreatedAt (ir_response e) + 3600 * Second"
    and "valid_idempotency_input j"
  shows "timed_idempotency_store j g w =
    (Inr (if IdempotencyInput_Matches (ir_input e) j then IdempotencyReplayed (ir_response e) else IdempotencyConflict),
     memoryIdempotencyStore_expire (snd w) (fst w), snd w)"
proof -
  have "idempotency_enter (snd w) j (fst w) =
      (Inr (Recorded (if IdempotencyInput_Matches (ir_input e) j then IdempotencyReplayed (ir_response e) else IdempotencyConflict)),
       memoryIdempotencyStore_expire (snd w) (fst w))"
    using assms(1,2) by (simp add: idempotency_enter_def Let_def memoryIdempotencyStore_expire_def keep_entries_def)
  then show ?thesis
    using assms(3)
    by (simp add: NewMemoryIdempotencyStore_def memoryIdempotencyStore_ExecuteIdempotent_def and_then_def call_def
        shown_time_def on_part_def first_part_def)
qed

lemma timed_store_answer:
  assumes "timed_idempotency_store i f w = (Inr res, w')"
  shows "valid_idempotency_input i \<and> (\<exists>e. mis_records (fst w') (idempotency_key i) = Some e \<and>
    (case res of IdempotencyCreated r \<Rightarrow> ir_input e = i \<and> ir_response e = r
     | IdempotencyReplayed r \<Rightarrow> IdempotencyInput_Matches (ir_input e) i \<and> ir_response e = r
     | IdempotencyConflict \<Rightarrow> \<not> IdempotencyInput_Matches (ir_input e) i))"
proof -
  have run: "memoryIdempotencyStore_ExecuteIdempotent shown_time first_part i f w = (Inr res, w')"
    using assms by (simp add: NewMemoryIdempotencyStore_def)
  then have "valid_idempotency_input i" by (auto simp: memoryIdempotencyStore_ExecuteIdempotent_def split: if_splits)
  moreover from run have "\<exists>e. mis_records (fst w') (idempotency_key i) = Some e \<and>
    (case res of IdempotencyCreated r \<Rightarrow> ir_input e = i \<and> ir_response e = r
     | IdempotencyReplayed r \<Rightarrow> IdempotencyInput_Matches (ir_input e) i \<and> ir_response e = r
     | IdempotencyConflict \<Rightarrow> \<not> IdempotencyInput_Matches (ir_input e) i)"
  proof (cases rule: idempotent_cases)
    case (1 now w1)
    then show ?thesis
      by (auto simp: first_part_def on_part_eq idempotency_enter_def Let_def split: option.splits if_splits)
  next
    case (2 now w1 pending w2)
    obtain r where r: "res = IdempotencyCreated r" using runEntered_Inr [OF 2(3)] by blast
    then have "memory_recorded first_part w' (idempotency_key i) = Some (i, r)"
      using timed_idempotency.idempotency.executed run by blast
    then show ?thesis using r by (auto simp: memory_recorded_def first_part_def)
  qed
  ultimately show ?thesis by blast
qed

section \<open>Properties\<close>

text \<open>
  C18. The memory replay store accepts an assertion identifier at most once while it is live: in any
  history of calls, two acceptances of one subject and token identifier are separated by a call at or
  after the time the first one recorded.
\<close>

theorem replay_at_most_once:
  assumes "i < k" and "k < length h"
    and "replay_history (memoryReplayStore_ConsumeReplay ctxDone whole) h s ! i = Inr True"
    and "replay_history (memoryReplayStore_ConsumeReplay ctxDone whole) h s ! k = Inr True"
    and "rpl_Subject (fst (h ! i)) = rpl_Subject (fst (h ! k))" and "rpl_JWTID (fst (h ! i)) = rpl_JWTID (fst (h ! k))"
  shows "\<exists>m. i < m \<and> m \<le> k \<and> rpl_ExpiresAt (fst (h ! i)) \<le> snd (h ! m)"
  using assms by (rule memory_replays.replays.accepted_once)

definition replay_example :: "(ReplayRecord \<times> int) list" where
  "replay_example =
     [(\<lparr>rpl_ExpiresAt = 15, rpl_JWTID = ''j'', rpl_Subject = ''did:web:a''\<rparr>, 10),
      (\<lparr>rpl_ExpiresAt = 30, rpl_JWTID = ''j'', rpl_Subject = ''did:web:a''\<rparr>, 12),
      (\<lparr>rpl_ExpiresAt = 30, rpl_JWTID = ''j'', rpl_Subject = ''did:web:a''\<rparr>, 20)]"

theorem replay_at_most_once_witness:
  "replay_history (memoryReplayStore_ConsumeReplay (\<lambda>_. False) whole) replay_example Map.empty = [Inr True, Inr False, Inr True] \<and>
   (\<exists>m. 0 < m \<and> m \<le> 2 \<and> rpl_ExpiresAt (fst (replay_example ! 0)) \<le> snd (replay_example ! m))"
proof -
  have run: "replay_history (memoryReplayStore_ConsumeReplay (\<lambda>_. False) whole) replay_example Map.empty
      = [Inr True, Inr False, Inr True]"
    by (simp add: replay_example_def go_defs on_part_def)
  have "\<exists>m. 0 < m \<and> m \<le> 2 \<and> rpl_ExpiresAt (fst (replay_example ! 0)) \<le> snd (replay_example ! m)"
    by (rule replay_at_most_once [of 0 2 replay_example "\<lambda>_. False" Map.empty])
      (simp_all add: run, simp_all add: replay_example_def)
  with run show ?thesis by blast
qed

text \<open>
  The memory idempotency store answers a repeated request from its record: once a call has stored
  a response, a call under the same Agent and key within an hour of it returns that response when the
  inputs match and a conflict when they do not, and does not run its callback: the world it leaves is
  the one before it with expired records dropped.
\<close>

theorem idempotent_within_hour:
  assumes "timed_idempotency_store i f w = (Inr (IdempotencyCreated r), w')"
    and "valid_idempotency_input j" and "ii_AgentDID j = ii_AgentDID i" and "ii_IdempotencyKey j = ii_IdempotencyKey i"
    and "snd w' < sr_CreatedAt r + 3600 * Second"
  shows "timed_idempotency_store j g w' =
    (Inr (if IdempotencyInput_Matches i j then IdempotencyReplayed r else IdempotencyConflict),
     memoryIdempotencyStore_expire (snd w') (fst w'), snd w')"
proof -
  have "idempotency_key j = idempotency_key i" using assms(3,4) by (simp add: idempotency_key_def)
  moreover obtain e where "mis_records (fst w') (idempotency_key i) = Some e" "ir_input e = i" "ir_response e = r"
    using timed_store_answer [OF assms(1)] by auto
  ultimately show ?thesis using timed_store_found [of w' j e g] assms(2,5) by simp
qed

definition idempotency_input_example :: IdempotencyInput where
  "idempotency_input_example = \<lparr>ii_CanonicalRequestHash = ''c'', ii_AgentDID = ''did:web:a'', ii_Command = IdempotentGrant,
     ii_IdempotencyKey = ''k'', ii_RequestHash = ''h''\<rparr>"

definition response_example :: StoredResponse where
  "response_example = \<lparr>sr_Body = ''{}'', sr_ContentType = MediaType, sr_CreatedAt = 0, sr_Headers = None, sr_Status = 200\<rparr>"

theorem idempotent_within_hour_witness:
  "\<exists>w. timed_idempotency_store idempotency_input_example (ok response_example) (empty_idempotency, 1) =
      (Inr (IdempotencyCreated response_example), w) \<and>
    timed_idempotency_store (idempotency_input_example\<lparr>ii_CanonicalRequestHash := ''d''\<rparr>) (fail ContextDone) w =
      (Inr IdempotencyConflict, memoryIdempotencyStore_expire (snd w) (fst w), snd w)"
proof -
  obtain w where w: "timed_idempotency_store idempotency_input_example (ok response_example) (empty_idempotency, 1) =
      (Inr (IdempotencyCreated response_example), w)" "snd w = 1"
    by (simp add: idempotency_input_example_def response_example_def go_defs on_part_def first_part_def
        shown_time_def zero_time_def)
  have "timed_idempotency_store (idempotency_input_example\<lparr>ii_CanonicalRequestHash := ''d''\<rparr>) (fail ContextDone) w =
      (Inr (if IdempotencyInput_Matches idempotency_input_example (idempotency_input_example\<lparr>ii_CanonicalRequestHash := ''d''\<rparr>)
            then IdempotencyReplayed response_example else IdempotencyConflict),
       memoryIdempotencyStore_expire (snd w) (fst w), snd w)"
    by (rule idempotent_within_hour [OF w(1)])
      (simp_all add: w(2) response_example_def idempotency_input_example_def valid_idempotency_input_def)
  then show ?thesis using w(1)
    by (auto simp: idempotency_input_example_def IdempotencyInput_Matches_def)
qed

text \<open>
  The memory enrollment store creates at most one record per Agent: after a creation every later
  creation call returns a copy of the first record, does not run its callback and changes nothing.
\<close>

theorem enrollment_created_once:
  assumes "memoryEnrollmentStore_FindOrCreateEnrollment ctxDone whole d create s = (Inr (r, True), s')"
    and "memoryEnrollmentStore_FindOrCreateEnrollment ctxDone whole d create' s' = (Inr (r', fresh), s'')"
  shows "\<not> fresh \<and> r' = r \<and> s'' = s'"
  using memory_enrollments.enrollments.created_once [of ctxDone d create s r s' create' r' fresh s''] assms
  by (simp add: NewMemoryEnrollmentStore_def)

definition enrollment_example :: EnrollmentRecord where
  "enrollment_example = zero_enrollment\<lparr>er_AgentDID := ''did:web:a'', er_EnrollmentID := ''e1'', er_CreatedAt := 5,
     er_Since := 5, er_UpdatedAt := 5, er_Status := AgentActive\<rparr>"

theorem enrollment_created_once_witness:
  "\<exists>s r. memoryEnrollmentStore_FindOrCreateEnrollment (\<lambda>_. False) whole ''did:web:a'' (ok enrollment_example) empty_enrollments =
      (Inr (r, True), s) \<and>
    memoryEnrollmentStore_FindOrCreateEnrollment (\<lambda>_. False) whole ''did:web:a'' (fail ContextDone) s = (Inr (r, False), s)"
proof -
  let ?go = "memoryEnrollmentStore_FindOrCreateEnrollment (\<lambda>_. False) whole ''did:web:a''"
  define s where "s = snd (?go (ok enrollment_example) empty_enrollments)"
  have "\<exists>r. ?go (ok enrollment_example) empty_enrollments = (Inr (r, True), s)"
    by (simp add: s_def enrollment_example_def go_defs on_part_def)
  then obtain r where s: "?go (ok enrollment_example) empty_enrollments = (Inr (r, True), s)" ..
  have "\<exists>r' s'. ?go (fail ContextDone) s = (Inr (r', False), s')"
    by (simp add: s_def enrollment_example_def go_defs on_part_def)
  then obtain r' s' where "?go (fail ContextDone) s = (Inr (r', False), s')" by blast
  with enrollment_created_once [OF s this] s show ?thesis by auto
qed

end
