(* ===== verification/Single_Flight.thy ===== *)
theory Single_Flight
  imports Service_Stores
begin

text \<open>
  Concurrent calls of the memory idempotency store. Every critical section of \<open>ExecuteIdempotent\<close> is
  one step of a transition system: calls arrive, enter, block on the channel of a pending key, run
  their callback and leave in any order, while time passes. A blocked call moves only when its channel
  is closed, and then looks again, or when its context is done. A callback may return, fail or panic;
  a panic unwinds past the lines that release the key. A ghost log records when callbacks started and
  which responses were stored. The lemmas are invariants of the reachable states, by induction on the
  steps, and one property of fair runs.
\<close>

datatype thread =
  Calling IdempotencyInput
| Waiting IdempotencyInput channel
| Executing IdempotencyInput channel
| Panicked IdempotencyInput channel
| Returned "IdempotencyResult result"

datatype event =
  Started string time
| Stored string time

record flight =
  fl_store :: memoryIdempotencyStore
  fl_threads :: "nat \<rightharpoonup> thread"
  fl_now :: time
  fl_log :: "event list"

definition initial_flight :: "time \<Rightarrow> flight" where
  "initial_flight now = \<lparr>fl_store = empty_idempotency, fl_threads = Map.empty, fl_now = now, fl_log = []\<rparr>"

abbreviation set_thread :: "nat \<Rightarrow> thread \<Rightarrow> flight \<Rightarrow> flight" where
  "set_thread t x f \<equiv> f\<lparr>fl_threads := (fl_threads f)(t \<mapsto> x)\<rparr>"

inductive flight_step :: "flight \<Rightarrow> flight \<Rightarrow> bool" where
  arrive: "\<lbrakk>fl_threads f t = None; valid_idempotency_input i\<rbrakk> \<Longrightarrow> flight_step f (set_thread t (Calling i) f)"
| found: "\<lbrakk>fl_threads f t = Some (Calling i); idempotency_enter (fl_now f) i (fl_store f) = (Inr (Recorded r), s)\<rbrakk> \<Longrightarrow>
    flight_step f (set_thread t (Returned (Inr r)) (f\<lparr>fl_store := s\<rparr>))"
| block: "\<lbrakk>fl_threads f t = Some (Calling i); idempotency_enter (fl_now f) i (fl_store f) = (Inr (Pending ch), s)\<rbrakk> \<Longrightarrow>
    flight_step f (set_thread t (Waiting i ch) (f\<lparr>fl_store := s\<rparr>))"
| wake: "\<lbrakk>fl_threads f t = Some (Waiting i ch); channel_closed (fl_store f) ch\<rbrakk> \<Longrightarrow>
    flight_step f (set_thread t (Calling i) f)"
| give_up: "fl_threads f t = Some (Waiting i ch) \<Longrightarrow>
    flight_step f (set_thread t (Returned (Inl ContextDone)) f)"
| start: "\<lbrakk>fl_threads f t = Some (Calling i); idempotency_enter (fl_now f) i (fl_store f) = (Inr (Made ch), s)\<rbrakk> \<Longrightarrow>
    flight_step f (set_thread t (Executing i ch)
      (f\<lparr>fl_store := s, fl_log := Started (idempotency_key i) (fl_now f) # fl_log f\<rparr>))"
| succeed: "\<lbrakk>fl_threads f t = Some (Executing i ch); idempotency_leave ch i (Inr r) (fl_store f) = (Inr (), s)\<rbrakk> \<Longrightarrow>
    flight_step f (set_thread t (Returned (Inr (IdempotencyCreated r)))
      (f\<lparr>fl_store := s, fl_log := Stored (idempotency_key i) (sr_CreatedAt r) # fl_log f\<rparr>))"
| stumble: "\<lbrakk>fl_threads f t = Some (Executing i ch); idempotency_leave ch i (Inl e) (fl_store f) = (Inr (), s)\<rbrakk> \<Longrightarrow>
    flight_step f (set_thread t (Returned (Inl e)) (f\<lparr>fl_store := s\<rparr>))"
| panic: "fl_threads f t = Some (Executing i ch) \<Longrightarrow> flight_step f (set_thread t (Panicked i ch) f)"
| tick: "fl_now f \<le> now \<Longrightarrow> flight_step f (f\<lparr>fl_now := now\<rparr>)"

inductive flight_reachable :: "flight \<Rightarrow> bool" where
  initially: "flight_reachable (initial_flight now)"
| onward: "\<lbrakk>flight_reachable f; flight_step f g\<rbrakk> \<Longrightarrow> flight_reachable g"

section \<open>The invariant\<close>

definition executing :: "flight \<Rightarrow> nat \<Rightarrow> string \<Rightarrow> bool" where
  "executing f t k \<longleftrightarrow> (\<exists>i ch. fl_threads f t = Some (Executing i ch) \<and> idempotency_key i = k)"

text \<open>A call holds its key from making the channel on; when its callback panics it never lets go.\<close>

definition holds :: "flight \<Rightarrow> nat \<Rightarrow> string \<Rightarrow> channel \<Rightarrow> bool" where
  "holds f t k ch \<longleftrightarrow>
     (\<exists>i. fl_threads f t \<in> {Some (Executing i ch), Some (Panicked i ch)} \<and> idempotency_key i = k)"

definition lapsed :: "flight \<Rightarrow> string \<Rightarrow> time \<Rightarrow> bool" where
  "lapsed f k c \<longleftrightarrow> c + 3600 * Second \<le> fl_now f \<or>
     (\<exists>rec. mis_records (fl_store f) k = Some rec \<and> sr_CreatedAt (ir_response rec) = c)"

text \<open>No callback of a key starts less than an hour after a response for the key was created.\<close>

fun spaced :: "event list \<Rightarrow> bool" where
  "spaced [] \<longleftrightarrow> True"
| "spaced (Stored k c # es) \<longleftrightarrow> spaced es"
| "spaced (Started k t # es) \<longleftrightarrow> (\<forall>c. Stored k c \<in> set es \<longrightarrow> c + 3600 * Second \<le> t) \<and> spaced es"

definition flight_inv :: "flight \<Rightarrow> bool" where
  "flight_inv f \<longleftrightarrow>
     (\<forall>k ch. mis_pending (fl_store f) k = Some ch \<longleftrightarrow> (\<exists>t. holds f t k ch)) \<and>
     (\<forall>t u k c d. holds f t k c \<longrightarrow> holds f u k d \<longrightarrow> t = u) \<and>
     (\<forall>t k ch. holds f t k ch \<longrightarrow> mis_records (fl_store f) k = None) \<and>
     (\<forall>k c. Stored k c \<in> set (fl_log f) \<longrightarrow> lapsed f k c) \<and>
     spaced (fl_log f)"

lemma executing_holds: "executing f t k \<Longrightarrow> \<exists>ch. holds f t k ch"
  by (auto simp: executing_def holds_def)

lemma enter_results:
  assumes "idempotency_enter now i s = (Inr x, s')"
  shows "mis_records s' = mis_records (memoryIdempotencyStore_expire now s)"
    "x = Made ch \<Longrightarrow> ch = length (mis_channels s) \<and> mis_pending s' = (mis_pending s)(idempotency_key i \<mapsto> ch) \<and>
       mis_channels s' = mis_channels s @ [False] \<and> mis_pending s (idempotency_key i) = None \<and>
       mis_records s' (idempotency_key i) = None"
    "\<forall>c. x \<noteq> Made c \<Longrightarrow> mis_pending s' = mis_pending s \<and> mis_channels s' = mis_channels s"
    "x = Pending ch \<Longrightarrow> mis_pending s (idempotency_key i) = Some ch"
  using assms
  by (auto simp: idempotency_enter_def Let_def memoryIdempotencyStore_expire_def split: option.splits if_splits)

lemma leave_results:
  assumes "idempotency_leave ch i x s = (Inr (), s')"
  shows "mis_pending s' = (mis_pending s)(idempotency_key i := None)"
    "mis_records s' = (case x of Inl _ \<Rightarrow> mis_records s
       | Inr r \<Rightarrow> (mis_records s)(idempotency_key i \<mapsto> \<lparr>ir_input = i, ir_response = r\<rparr>))"
    "mis_channels s' = (mis_channels s)[ch := True]"
  using assms by (auto simp: idempotency_leave_def Let_def split: sum.splits)

lemma expire_records:
  "mis_records (memoryIdempotencyStore_expire now s) k = Some rec \<longleftrightarrow>
     mis_records s k = Some rec \<and> now < sr_CreatedAt (ir_response rec) + 3600 * Second"
  by (auto simp: memoryIdempotencyStore_expire_def keep_entries_def split: option.splits if_splits)

lemma lapsed_expire:
  assumes "lapsed f k c" and "mis_records s' = mis_records (memoryIdempotencyStore_expire (fl_now f) (fl_store f))"
  shows "lapsed (f\<lparr>fl_store := s'\<rparr>) k c"
  using assms by (auto simp: lapsed_def expire_records not_less)

text \<open>A step that only drops expired records and moves a thread that runs nothing.\<close>

lemma inv_idle_step:
  assumes inv: "flight_inv f" and recs: "mis_records s = mis_records (memoryIdempotencyStore_expire (fl_now f) (fl_store f))"
    and pend: "mis_pending s = mis_pending (fl_store f)"
    and thr: "\<And>u k ch. holds g u k ch \<longleftrightarrow> holds f u k ch"
    and g: "fl_store g = s" "fl_now g = fl_now f" "fl_log g = fl_log f"
  shows "flight_inv g"
proof -
  have none: "mis_records s k = None" if "mis_records (fl_store f) k = None" for k
    using that recs expire_records [of "fl_now f" "fl_store f" k] by (cases "mis_records s k") auto
  have "lapsed g k c" if "lapsed f k c" for k c
    using lapsed_expire [OF that recs] g by (simp add: lapsed_def)
  then show ?thesis using inv none pend thr g by (auto simp: flight_inv_def)
qed

lemma inv_cong:
  assumes "flight_inv f" and "fl_store g = fl_store f" "fl_now g = fl_now f" "fl_log g = fl_log f"
    and "\<And>u k ch. holds g u k ch \<longleftrightarrow> holds f u k ch"
  shows "flight_inv g"
  using assms by (simp add: flight_inv_def lapsed_def)

lemma inv_start:
  assumes inv: "flight_inv f" and t: "fl_threads f t = Some (Calling i)"
    and enter: "idempotency_enter (fl_now f) i (fl_store f) = (Inr (Made ch), s)"
  shows "flight_inv (set_thread t (Executing i ch)
    (f\<lparr>fl_store := s, fl_log := Started (idempotency_key i) (fl_now f) # fl_log f\<rparr>))" (is "flight_inv ?g")
proof -
  note made = enter_results(2) [OF enter refl]
  let ?k = "idempotency_key i"
  have idle: "\<not> holds f t k c" for k c using t by (simp add: holds_def)
  have ex: "holds ?g u k c \<longleftrightarrow> holds f u k c \<or> (u = t \<and> k = ?k \<and> c = ch)" for u k c
    using idle by (auto simp: holds_def)
  have fresh: "\<not> holds f u ?k c" for u c
  proof
    assume "holds f u ?k c"
    then have "mis_pending (fl_store f) ?k = Some c" using inv unfolding flight_inv_def by blast
    then show False using made by simp
  qed
  have none: "mis_records s k = None" if "mis_records (fl_store f) k = None" for k
    using that enter_results(1) [OF enter] expire_records [of "fl_now f" "fl_store f" k] by (cases "mis_records s k") auto
  have laps: "lapsed ?g k c" if "Stored k c \<in> set (fl_log f)" for k c
    using lapsed_expire [of f k c s] enter_results(1) [OF enter] that inv by (simp add: lapsed_def flight_inv_def)
  have late: "c + 3600 * Second \<le> fl_now f" if "Stored ?k c \<in> set (fl_log f)" for c
    using laps [OF that] made by (simp add: lapsed_def)
  show ?thesis
    unfolding flight_inv_def ex
  proof (intro conjI allI impI)
    fix k c
    have "mis_pending (fl_store f) k = Some c \<longleftrightarrow> (\<exists>u. holds f u k c)" using inv unfolding flight_inv_def by blast
    then show "mis_pending (fl_store ?g) k = Some c \<longleftrightarrow> (\<exists>u. holds f u k c \<or> (u = t \<and> k = ?k \<and> c = ch))"
      using made fresh by auto
  next
    fix u v k c d
    assume "holds f u k c \<or> (u = t \<and> k = ?k \<and> c = ch)" "holds f v k d \<or> (v = t \<and> k = ?k \<and> d = ch)"
    then show "u = v" using inv fresh unfolding flight_inv_def by blast
  next
    fix u k c
    assume h: "holds f u k c \<or> (u = t \<and> k = ?k \<and> c = ch)"
    have "mis_records (fl_store f) k = None" if "holds f u k c" using that inv unfolding flight_inv_def by blast
    then show "mis_records (fl_store ?g) k = None" using h none made by auto
  next
    fix k c assume "Stored k c \<in> set (fl_log ?g)"
    then show "lapsed ?g k c" using laps by simp
  next
    show "spaced (fl_log ?g)" using inv late by (simp add: flight_inv_def)
  qed
qed

lemma inv_finish:
  assumes inv: "flight_inv f" and t: "fl_threads f t = Some (Executing i ch)"
    and leave: "idempotency_leave ch i x (fl_store f) = (Inr (), s)"
    and g: "fl_store g = s" "fl_now g = fl_now f" "fl_threads g = (fl_threads f)(t \<mapsto> Returned y)"
      "fl_log g = (case x of Inl _ \<Rightarrow> fl_log f | Inr r \<Rightarrow> Stored (idempotency_key i) (sr_CreatedAt r) # fl_log f)"
  shows "flight_inv g"
proof -
  note res = leave_results [OF leave]
  let ?k = "idempotency_key i"
  have ext: "holds f t ?k ch" using t by (auto simp: holds_def)
  have ex: "holds g u k c \<longleftrightarrow> u \<noteq> t \<and> holds f u k c" for u k c using g(3) by (auto simp: holds_def)
  have one: "k \<noteq> ?k" if "holds g u k c" for u k c
  proof
    assume "k = ?k"
    then have "holds f u ?k c" "u \<noteq> t" using that ex by auto
    then show False using ext inv unfolding flight_inv_def by blast
  qed
  have none: "mis_records (fl_store f) ?k = None" using ext inv unfolding flight_inv_def by blast
  have pend: "mis_pending s k = Some c \<longleftrightarrow> (\<exists>u. holds g u k c)" for k c
  proof (cases "k = ?k")
    case True
    then show ?thesis using res(1) one by auto
  next
    case False
    then have "\<not> holds f t k c" using t by (auto simp: holds_def)
    then have "(\<exists>u. holds g u k c) \<longleftrightarrow> (\<exists>u. holds f u k c)" using ex by metis
    moreover have "mis_pending (fl_store f) k = Some c \<longleftrightarrow> (\<exists>u. holds f u k c)"
      using inv unfolding flight_inv_def by blast
    ultimately show ?thesis using False res(1) by simp
  qed
  have laps: "lapsed g k c" if "lapsed f k c" for k c
    using that none res(2) g(1,2) by (auto simp: lapsed_def split: sum.splits)
  have stored: "lapsed g ?k (sr_CreatedAt r)" if "x = Inr r" for r
    using that res(2) g(1) by (simp add: lapsed_def)
  have recs: "mis_records s k = None" if h: "holds g u k c" for u k c
  proof -
    have "holds f u k c" using h ex by blast
    then have "mis_records (fl_store f) k = None" using inv unfolding flight_inv_def by blast
    then show ?thesis using one [OF h] res(2) by (simp split: sum.splits)
  qed
  show ?thesis
    unfolding flight_inv_def g(1)
  proof (intro conjI allI impI)
    fix k c show "mis_pending s k = Some c \<longleftrightarrow> (\<exists>t. holds g t k c)" by (rule pend)
  next
    fix u v k c d assume "holds g u k c" "holds g v k d"
    then show "u = v" using ex inv unfolding flight_inv_def by blast
  next
    fix u k c assume "holds g u k c"
    then show "mis_records s k = None" by (rule recs)
  next
    fix k c assume "Stored k c \<in> set (fl_log g)"
    then show "lapsed g k c" using g(4) laps stored inv by (auto simp: flight_inv_def split: sum.splits)
  next
    show "spaced (fl_log g)" using g(4) inv by (auto simp: flight_inv_def split: sum.splits)
  qed
qed

lemma inv_step: "flight_step f g \<Longrightarrow> flight_inv f \<Longrightarrow> flight_inv g"
proof (induction rule: flight_step.induct)
  case (arrive f t i)
  show ?case by (rule inv_cong [OF arrive(3)]) (use arrive(1) in \<open>auto simp: holds_def\<close>)
next
  case (found f t i r s)
  show ?case
    by (rule inv_idle_step [OF found(3) enter_results(1) [OF found(2)]])
      (use found(1) enter_results(3) [OF found(2)] in \<open>auto simp: holds_def\<close>)
next
  case (block f t i ch s)
  show ?case
    by (rule inv_idle_step [OF block(3) enter_results(1) [OF block(2)]])
      (use block(1) enter_results(3) [OF block(2)] in \<open>auto simp: holds_def\<close>)
next
  case (wake f t i ch)
  show ?case by (rule inv_cong [OF wake(3)]) (use wake(1) in \<open>auto simp: holds_def\<close>)
next
  case (give_up f t i ch)
  show ?case by (rule inv_cong [OF give_up(2)]) (use give_up(1) in \<open>auto simp: holds_def\<close>)
next
  case (start f t i ch s)
  then show ?case by (intro inv_start)
next
  case (succeed f t i ch r s)
  show ?case by (rule inv_finish [OF succeed(3,1,2)]) simp_all
next
  case (stumble f t i ch e s)
  show ?case by (rule inv_finish [OF stumble(3,1,2)]) simp_all
next
  case (panic f t i ch)
  show ?case by (rule inv_cong [OF panic(2)]) (use panic(1) in \<open>auto simp: holds_def\<close>)
next
  case (tick f now)
  have "holds (f\<lparr>fl_now := now\<rparr>) u k c = holds f u k c" for u k c by (simp add: holds_def)
  moreover have "lapsed (f\<lparr>fl_now := now\<rparr>) k c" if "lapsed f k c" for k c
    using that tick(1) by (auto simp: lapsed_def)
  ultimately show ?case using tick(2) by (simp add: flight_inv_def)
qed

lemma inv_reachable: "flight_reachable f \<Longrightarrow> flight_inv f"
proof (induction rule: flight_reachable.induct)
  case (initially now)
  show ?case by (simp add: flight_inv_def initial_flight_def empty_idempotency_def holds_def)
qed (rule inv_step)

lemma spaced_split:
  "spaced (xs @ Started k t # ys @ Stored k c # zs) \<Longrightarrow> c + 3600 * Second \<le> t"
  by (induction xs rule: spaced.induct) auto

section \<open>The channels\<close>

definition channel_open :: "memoryIdempotencyStore \<Rightarrow> channel \<Rightarrow> bool" where
  "channel_open s ch \<longleftrightarrow> ch < length (mis_channels s) \<and> \<not> mis_channels s ! ch"

text \<open>
  Pending keys have an open channel each and share none; a blocked call's channel is closed or still
  the pending one of its key.
\<close>

definition channel_inv :: "flight \<Rightarrow> bool" where
  "channel_inv f \<longleftrightarrow>
     (\<forall>k ch. mis_pending (fl_store f) k = Some ch \<longrightarrow> channel_open (fl_store f) ch) \<and>
     (\<forall>k l ch. mis_pending (fl_store f) k = Some ch \<longrightarrow> mis_pending (fl_store f) l = Some ch \<longrightarrow> k = l) \<and>
     (\<forall>t i ch. fl_threads f t = Some (Waiting i ch) \<longrightarrow>
        channel_closed (fl_store f) ch \<or> mis_pending (fl_store f) (idempotency_key i) = Some ch)"

lemma channel_inv_cong:
  assumes "channel_inv f" and "mis_pending (fl_store g) = mis_pending (fl_store f)"
    "mis_channels (fl_store g) = mis_channels (fl_store f)"
    and "\<And>t i ch. fl_threads g t = Some (Waiting i ch) \<Longrightarrow> fl_threads f t = Some (Waiting i ch) \<or>
       mis_pending (fl_store f) (idempotency_key i) = Some ch"
  shows "channel_inv g"
proof -
  have "channel_open (fl_store g) = channel_open (fl_store f)" "channel_closed (fl_store g) = channel_closed (fl_store f)"
    by (simp_all add: fun_eq_iff channel_open_def channel_closed_def assms(3))
  then show ?thesis
    using assms(1,2,4) unfolding channel_inv_def by metis
qed

lemma channel_invD:
  assumes "channel_inv f"
  shows "mis_pending (fl_store f) k = Some ch \<Longrightarrow> channel_open (fl_store f) ch"
    "mis_pending (fl_store f) k = Some ch \<Longrightarrow> mis_pending (fl_store f) l = Some ch \<Longrightarrow> k = l"
    "fl_threads f t = Some (Waiting i ch) \<Longrightarrow>
       channel_closed (fl_store f) ch \<or> mis_pending (fl_store f) (idempotency_key i) = Some ch"
  using assms unfolding channel_inv_def by blast+

lemma channel_inv_start:
  assumes inv: "channel_inv f" and enter: "idempotency_enter (fl_now f) i (fl_store f) = (Inr (Made ch), s)"
    and g: "fl_store g = s" "fl_threads g = (fl_threads f)(t \<mapsto> Executing i ch)"
  shows "channel_inv g"
proof -
  note made = enter_results(2) [OF enter refl]
  have pend: "mis_pending s k = Some c \<longleftrightarrow> (if k = idempotency_key i then c = ch else mis_pending (fl_store f) k = Some c)" for k c
    using made by auto
  have opened: "channel_open s c" if "channel_open (fl_store f) c" for c
    using that made by (simp add: channel_open_def nth_append)
  have new: "mis_pending (fl_store f) k \<noteq> Some ch" for k
    using channel_invD(1) [OF inv, of k ch] made by (auto simp: channel_open_def)
  show ?thesis
    unfolding channel_inv_def g(1) pend
  proof (intro conjI allI impI)
    fix k c
    assume "if k = idempotency_key i then c = ch else mis_pending (fl_store f) k = Some c"
    then show "channel_open s c"
      using made opened channel_invD(1) [OF inv, of k c] by (cases "k = idempotency_key i") (auto simp: channel_open_def)
  next
    fix k l c
    assume "if k = idempotency_key i then c = ch else mis_pending (fl_store f) k = Some c"
      "if l = idempotency_key i then c = ch else mis_pending (fl_store f) l = Some c"
    then show "k = l" using new channel_invD(2) [OF inv, of k c l] by (auto split: if_splits)
  next
    fix u j c
    assume "fl_threads g u = Some (Waiting j c)"
    then have "fl_threads f u = Some (Waiting j c)" using g(2) by (auto split: if_splits)
    then have "channel_closed (fl_store f) c \<or> mis_pending (fl_store f) (idempotency_key j) = Some c"
      by (rule channel_invD(3) [OF inv])
    then show "channel_closed s c \<or>
        (if idempotency_key j = idempotency_key i then c = ch else mis_pending (fl_store f) (idempotency_key j) = Some c)"
      using made by (auto simp: channel_closed_def nth_append)
  qed
qed

lemma channel_inv_finish:
  assumes inv: "channel_inv f" and pend: "mis_pending (fl_store f) (idempotency_key i) = Some ch"
    and leave: "idempotency_leave ch i x (fl_store f) = (Inr (), s)"
    and g: "fl_store g = s" "fl_threads g = (fl_threads f)(t \<mapsto> Returned y)"
  shows "channel_inv g"
proof -
  note res = leave_results [OF leave]
  have left: "mis_pending s k = Some c \<longleftrightarrow> k \<noteq> idempotency_key i \<and> mis_pending (fl_store f) k = Some c" for k c
    using res(1) by auto
  have closed: "channel_closed s ch"
    using channel_invD(1) [OF inv pend] res(3) by (simp add: channel_closed_def channel_open_def)
  show ?thesis
    unfolding channel_inv_def g(1) left
  proof (intro conjI allI impI; (elim conjE)?)
    fix k c
    assume k: "k \<noteq> idempotency_key i" "mis_pending (fl_store f) k = Some c"
    then have "c \<noteq> ch" using channel_invD(2) [OF inv pend] by blast
    then show "channel_open s c" using channel_invD(1) [OF inv k(2)] res(3) by (simp add: channel_open_def)
  next
    fix k l c
    assume "mis_pending (fl_store f) k = Some c" "mis_pending (fl_store f) l = Some c"
    then show "k = l" by (rule channel_invD(2) [OF inv])
  next
    fix u j c
    assume "fl_threads g u = Some (Waiting j c)"
    then have "fl_threads f u = Some (Waiting j c)" using g(2) by (auto split: if_splits)
    then have "channel_closed (fl_store f) c \<or> mis_pending (fl_store f) (idempotency_key j) = Some c"
      by (rule channel_invD(3) [OF inv])
    then show "channel_closed s c \<or>
        (idempotency_key j \<noteq> idempotency_key i \<and> mis_pending (fl_store f) (idempotency_key j) = Some c)"
    proof
      assume "channel_closed (fl_store f) c"
      then show ?thesis using res(3) by (cases "c = ch") (simp_all add: channel_closed_def)
    next
      assume "mis_pending (fl_store f) (idempotency_key j) = Some c"
      then show ?thesis using pend closed by (cases "idempotency_key j = idempotency_key i") simp_all
    qed
  qed
qed

lemma channel_inv_step: "flight_step f g \<Longrightarrow> flight_inv f \<Longrightarrow> channel_inv f \<Longrightarrow> channel_inv g"
proof (induction rule: flight_step.induct)
  case (arrive f t i)
  show ?case by (rule channel_inv_cong [OF arrive(4)]) (auto split: if_splits)
next
  case (found f t i r s)
  show ?case by (rule channel_inv_cong [OF found(4)]) (use enter_results(3) [OF found(2)] in \<open>auto split: if_splits\<close>)
next
  case (block f t i ch s)
  show ?case
    by (rule channel_inv_cong [OF block(4)])
      (use enter_results(3) [OF block(2)] enter_results(4) [OF block(2) refl] in \<open>auto split: if_splits\<close>)
next
  case (wake f t i ch)
  show ?case by (rule channel_inv_cong [OF wake(4)]) (auto split: if_splits)
next
  case (give_up f t i ch)
  show ?case by (rule channel_inv_cong [OF give_up(3)]) (auto split: if_splits)
next
  case (start f t i ch s)
  then show ?case by (intro channel_inv_start [OF start(4,2)]) simp_all
next
  case (succeed f t i ch r s)
  have "holds f t (idempotency_key i) ch" using succeed(1) by (simp add: holds_def)
  then have "mis_pending (fl_store f) (idempotency_key i) = Some ch"
    using succeed(3) unfolding flight_inv_def by blast
  then show ?case by (rule channel_inv_finish [OF succeed(4) _ succeed(2)]) simp_all
next
  case (stumble f t i ch e s)
  have "holds f t (idempotency_key i) ch" using stumble(1) by (simp add: holds_def)
  then have "mis_pending (fl_store f) (idempotency_key i) = Some ch"
    using stumble(3) unfolding flight_inv_def by blast
  then show ?case by (rule channel_inv_finish [OF stumble(4) _ stumble(2)]) simp_all
next
  case (panic f t i ch)
  show ?case by (rule channel_inv_cong [OF panic(3)]) (auto split: if_splits)
next
  case (tick f now)
  show ?case by (rule channel_inv_cong [OF tick(3)]) auto
qed

lemma channel_inv_reachable: "flight_reachable f \<Longrightarrow> channel_inv f"
proof (induction rule: flight_reachable.induct)
  case (initially now)
  show ?case by (simp add: channel_inv_def initial_flight_def empty_idempotency_def)
next
  case (onward f g)
  then show ?case using channel_inv_step inv_reachable by blast
qed

text \<open>At any moment a blocked call can wake, or its key is held by another call that made its channel.\<close>

lemma waiter_held:
  assumes "flight_reachable f" and "fl_threads f t = Some (Waiting i ch)"
  shows "channel_closed (fl_store f) ch \<or> (\<exists>u. u \<noteq> t \<and> holds f u (idempotency_key i) ch)"
proof (cases "channel_closed (fl_store f) ch")
  case False
  then have "mis_pending (fl_store f) (idempotency_key i) = Some ch"
    using channel_inv_reachable [OF assms(1)] assms(2) unfolding channel_inv_def by blast
  then obtain u where "holds f u (idempotency_key i) ch"
    using inv_reachable [OF assms(1)] unfolding flight_inv_def by blast
  moreover have "u \<noteq> t" using calculation assms(2) by (auto simp: holds_def)
  ultimately show ?thesis by blast
qed simp

lemma closed_update:
  "channel_closed s ch \<Longrightarrow> mis_channels s' = (mis_channels s)[c := True] \<Longrightarrow> channel_closed s' ch"
  by (cases "c = ch") (simp_all add: channel_closed_def)

lemma closed_stays: "flight_step f g \<Longrightarrow> channel_closed (fl_store f) ch \<Longrightarrow> channel_closed (fl_store g) ch"
proof (induction rule: flight_step.induct)
  case (found f t i r s)
  then show ?case using enter_results(3) [OF found(2)] by (simp add: channel_closed_def)
next
  case (block f t i c s)
  then show ?case using enter_results(3) [OF block(2)] by (simp add: channel_closed_def)
next
  case (start f t i c s)
  then show ?case using enter_results(2) [OF start(2)] by (simp add: channel_closed_def nth_append)
next
  case (succeed f t i c r s)
  then show ?case using closed_update [OF _ leave_results(3) [OF succeed(2)]] by simp
next
  case (stumble f t i c e s)
  then show ?case using closed_update [OF _ leave_results(3) [OF stumble(2)]] by simp
qed simp_all

text \<open>A call stops running its callback by closing its channel, or by the callback's panic.\<close>

lemma executing_ends:
  assumes "flight_step f g" and "fl_threads f u = Some (Executing j ch)" and "ch < length (mis_channels (fl_store f))"
  shows "fl_threads g u = Some (Executing j ch) \<or> fl_threads g u = Some (Panicked j ch) \<or>
    channel_closed (fl_store g) ch"
  using assms
proof (induction rule: flight_step.induct)
  case (succeed f t i c r s)
  then show ?case using leave_results(3) [OF succeed(2)] by (auto simp: channel_closed_def)
next
  case (stumble f t i c e s)
  then show ?case using leave_results(3) [OF stumble(2)] by (auto simp: channel_closed_def)
qed auto

lemma panicked_stays:
  "flight_step f g \<Longrightarrow> fl_threads f u = Some (Panicked j ch) \<Longrightarrow> fl_threads g u = Some (Panicked j ch)"
  by (induction rule: flight_step.induct) auto

text \<open>A blocked call leaves its channel by waking, once the channel is closed, or with its context done.\<close>

lemma blocked_ends:
  "flight_step f g \<Longrightarrow> fl_threads f t = Some (Waiting i ch) \<Longrightarrow>
     fl_threads g t = Some (Waiting i ch) \<or> fl_threads g t = Some (Returned (Inl ContextDone)) \<or>
     fl_threads g t = Some (Calling i) \<and> channel_closed (fl_store g) ch"
  by (induction rule: flight_step.induct) auto

text \<open>
  A callback that panics keeps its key for good: whatever happens after, the key stays pending on a
  channel that is never closed.
\<close>

lemma panic_keeps_key:
  assumes "flight_step\<^sup>*\<^sup>* f g" and "flight_reachable f" and "fl_threads f t = Some (Panicked i ch)"
  shows "mis_pending (fl_store g) (idempotency_key i) = Some ch \<and> \<not> channel_closed (fl_store g) ch"
proof -
  have "flight_reachable g \<and> fl_threads g t = Some (Panicked i ch)"
    using assms(1)
  proof induction
    case (step g h)
    then show ?case using onward panicked_stays by blast
  qed (use assms in simp)
  then have "holds g t (idempotency_key i) ch" "flight_reachable g" by (simp_all add: holds_def)
  then have "mis_pending (fl_store g) (idempotency_key i) = Some ch" "channel_inv g"
    using inv_reachable channel_inv_reachable unfolding flight_inv_def by blast+
  then show ?thesis by (auto simp: channel_inv_def channel_open_def channel_closed_def)
qed

text \<open>What a woken call finds when the call it waited for stored a response.\<close>

lemma woken_finds_answer:
  assumes "idempotency_leave ch j (Inr r) s = (Inr (), s')" and "idempotency_key i = idempotency_key j"
    and "now < sr_CreatedAt r + 3600 * Second"
  shows "fst (idempotency_enter now i s') =
    Inr (Recorded (if IdempotencyInput_Matches j i then IdempotencyReplayed r else IdempotencyConflict))"
  using leave_results(2) [OF assms(1)] assms(2,3)
  by (simp add: idempotency_enter_def Let_def memoryIdempotencyStore_expire_def keep_entries_def)

section \<open>Fair runs\<close>

definition flight_run :: "(nat \<Rightarrow> flight) \<Rightarrow> bool" where
  "flight_run \<sigma> \<longleftrightarrow> (\<exists>now. \<sigma> 0 = initial_flight now) \<and> (\<forall>n. flight_step (\<sigma> n) (\<sigma> (Suc n)))"

text \<open>Every callback ends, with a response or an error.\<close>

definition callbacks_return :: "(nat \<Rightarrow> flight) \<Rightarrow> bool" where
  "callbacks_return \<sigma> \<longleftrightarrow> (\<forall>n u j ch. fl_threads (\<sigma> n) u = Some (Executing j ch) \<longrightarrow>
     (\<exists>m \<ge> n. \<exists>y. fl_threads (\<sigma> m) u = Some (Returned y)))"

text \<open>The scheduler runs a blocked call whose channel is closed.\<close>

definition closed_channels_wake :: "(nat \<Rightarrow> flight) \<Rightarrow> bool" where
  "closed_channels_wake \<sigma> \<longleftrightarrow>
     (\<forall>n t i ch. fl_threads (\<sigma> n) t = Some (Waiting i ch) \<longrightarrow> channel_closed (fl_store (\<sigma> n)) ch \<longrightarrow>
        (\<exists>m \<ge> n. fl_threads (\<sigma> m) t \<noteq> Some (Waiting i ch)))"

lemma run_reachable: "flight_run \<sigma> \<Longrightarrow> flight_reachable (\<sigma> n)"
  by (induction n) (auto simp: flight_run_def intro: initially onward)

text \<open>Where a run leaves a state of a thread, it does so in one step.\<close>

lemma run_leaves:
  assumes "P (\<sigma> n)" and "n \<le> m" and "\<not> P (\<sigma> m)"
  obtains k where "n \<le> k" "k < m" "P (\<sigma> k)" "\<not> P (\<sigma> (Suc k))"
proof -
  have "\<exists>k. n \<le> k \<and> k < m \<and> P (\<sigma> k) \<and> \<not> P (\<sigma> (Suc k))"
    using assms(2,3)
  proof (induction m rule: dec_induct)
    case base
    then show ?case using assms(1) by simp
  next
    case (step m)
    then show ?case by (cases "P (\<sigma> m)") (auto intro: less_SucI)
  qed
  then show thesis using that by blast
qed

lemma run_panicked:
  assumes "flight_run \<sigma>" and "fl_threads (\<sigma> n) u = Some (Panicked j ch)" and "n \<le> m"
  shows "fl_threads (\<sigma> m) u = Some (Panicked j ch)"
  using assms(3)
proof (induction m rule: dec_induct)
  case base
  then show ?case using assms(2) by simp
next
  case (step m)
  have "flight_step (\<sigma> m) (\<sigma> (Suc m))" using assms(1) by (simp add: flight_run_def)
  then show ?case using step(3) by (rule panicked_stays)
qed

lemma panicked_before:
  "flight_step f g \<Longrightarrow> fl_threads g u = Some (Panicked j ch) \<Longrightarrow> fl_threads f u \<noteq> Some (Panicked j ch) \<Longrightarrow>
     fl_threads f u = Some (Executing j ch)"
  by (induction rule: flight_step.induct) (auto split: if_splits)

lemma run_no_panic:
  assumes run: "flight_run \<sigma>" and fair: "callbacks_return \<sigma>"
  shows "fl_threads (\<sigma> n) u \<noteq> Some (Panicked j ch)"
proof
  assume n: "fl_threads (\<sigma> n) u = Some (Panicked j ch)"
  have "fl_threads (\<sigma> 0) u \<noteq> Some (Panicked j ch)" using run by (auto simp: flight_run_def initial_flight_def)
  then obtain k where k: "fl_threads (\<sigma> k) u \<noteq> Some (Panicked j ch)" "fl_threads (\<sigma> (Suc k)) u = Some (Panicked j ch)"
    by (rule run_leaves [where P = "\<lambda>f. fl_threads f u \<noteq> Some (Panicked j ch)" and n = 0 and m = n]) (use n in auto)
  have "flight_step (\<sigma> k) (\<sigma> (Suc k))" using run by (simp add: flight_run_def)
  from panicked_before [OF this k(2,1)]
  obtain m y where m: "k \<le> m" "fl_threads (\<sigma> m) u = Some (Returned y)"
    using fair unfolding callbacks_return_def by blast
  have "Suc k \<le> m" using m k panicked_before [OF \<open>flight_step _ _\<close> k(2,1)] by (cases "m = k") auto
  from run_panicked [OF run k(2) this] m(2) show False by simp
qed

text \<open>The call that made a channel closes it, once its callback ends.\<close>

lemma run_closes:
  assumes run: "flight_run \<sigma>" and fair: "callbacks_return \<sigma>" and u: "fl_threads (\<sigma> n) u = Some (Executing j ch)"
  shows "\<exists>m \<ge> n. channel_closed (fl_store (\<sigma> m)) ch"
proof -
  obtain m y where m: "n \<le> m" "fl_threads (\<sigma> m) u = Some (Returned y)"
    using fair u unfolding callbacks_return_def by blast
  obtain k where k: "n \<le> k" "k < m" "fl_threads (\<sigma> k) u = Some (Executing j ch)"
      "fl_threads (\<sigma> (Suc k)) u \<noteq> Some (Executing j ch)"
    by (rule run_leaves [where P = "\<lambda>f. fl_threads f u = Some (Executing j ch)" and \<sigma> = \<sigma>, OF u m(1)]) (use m(2) in auto)
  have "holds (\<sigma> k) u (idempotency_key j) ch" using k(3) by (simp add: holds_def)
  then have "mis_pending (fl_store (\<sigma> k)) (idempotency_key j) = Some ch"
    using inv_reachable [OF run_reachable [OF run]] unfolding flight_inv_def by blast
  then have len: "ch < length (mis_channels (fl_store (\<sigma> k)))"
    using channel_invD(1) [OF channel_inv_reachable [OF run_reachable [OF run]]] by (auto simp: channel_open_def)
  have step: "flight_step (\<sigma> k) (\<sigma> (Suc k))" using run by (simp add: flight_run_def)
  have "channel_closed (fl_store (\<sigma> (Suc k))) ch"
    using executing_ends [OF step k(3) len] k(4) run_no_panic [OF run fair] by blast
  then show ?thesis using k(1) le_SucI by blast
qed

lemma run_closed:
  assumes "flight_run \<sigma>" and "channel_closed (fl_store (\<sigma> n)) ch" and "n \<le> m"
  shows "channel_closed (fl_store (\<sigma> m)) ch"
  using assms(3)
proof (induction m rule: dec_induct)
  case base
  then show ?case using assms(2) by simp
next
  case (step m)
  have "flight_step (\<sigma> m) (\<sigma> (Suc m))" using assms(1) by (simp add: flight_run_def)
  then show ?case using step(3) by (rule closed_stays)
qed

lemma run_wakes:
  assumes run: "flight_run \<sigma>" and fair: "callbacks_return \<sigma>" "closed_channels_wake \<sigma>"
    and t: "fl_threads (\<sigma> n) t = Some (Waiting i ch)"
  obtains m where "n < m" "fl_threads (\<sigma> m) t = Some (Returned (Inl ContextDone)) \<or>
    fl_threads (\<sigma> m) t = Some (Calling i) \<and> channel_closed (fl_store (\<sigma> m)) ch"
proof -
  have "\<exists>m \<ge> n. channel_closed (fl_store (\<sigma> m)) ch"
  proof (cases "channel_closed (fl_store (\<sigma> n)) ch")
    case False
    then obtain u j where "fl_threads (\<sigma> n) u = Some (Executing j ch) \<or> fl_threads (\<sigma> n) u = Some (Panicked j ch)"
      using waiter_held [OF run_reachable [OF run] t] by (auto simp: holds_def)
    then have "fl_threads (\<sigma> n) u = Some (Executing j ch)" using run_no_panic [OF run fair(1)] by blast
    then show ?thesis by (rule run_closes [OF run fair(1)])
  qed auto
  then obtain c where c: "n \<le> c" "channel_closed (fl_store (\<sigma> c)) ch" by blast
  obtain m where m: "n \<le> m" "fl_threads (\<sigma> m) t \<noteq> Some (Waiting i ch)"
  proof (cases "fl_threads (\<sigma> c) t = Some (Waiting i ch)")
    case True
    then obtain m where "c \<le> m" "fl_threads (\<sigma> m) t \<noteq> Some (Waiting i ch)"
      using fair(2) c(2) unfolding closed_channels_wake_def by blast
    then show ?thesis using that [of m] c(1) by simp
  qed (use that c(1) in blast)
  obtain k where k: "n \<le> k" "k < m" "fl_threads (\<sigma> k) t = Some (Waiting i ch)"
      "fl_threads (\<sigma> (Suc k)) t \<noteq> Some (Waiting i ch)"
    by (rule run_leaves [where P = "\<lambda>f. fl_threads f t = Some (Waiting i ch)" and \<sigma> = \<sigma>, OF t m(1)]) (use m(2) in auto)
  have "flight_step (\<sigma> k) (\<sigma> (Suc k))" using run by (simp add: flight_run_def)
  from blocked_ends [OF this k(3)] k(4) show thesis using that [of "Suc k"] k(1) by auto
qed

section \<open>Properties\<close>

text \<open>
  C16. However concurrent calls interleave, a request under one Agent and key runs at most once at a
  time, and not again within an hour of the response it stored: if a callback of a key starts after a
  response for the key was stored, that response was created an hour or more before.
\<close>

theorem idempotent_at_most_once:
  assumes "flight_reachable f"
  shows "(executing f t k \<and> executing f u k \<longrightarrow> t = u) \<and>
    (fl_log f = xs @ Started k now # ys @ Stored k created # zs \<longrightarrow> created + 3600 * Second \<le> now)"
proof -
  have "t = u" if "executing f t k" "executing f u k"
    using inv_reachable [OF assms] that [THEN executing_holds] unfolding flight_inv_def by blast
  then show ?thesis
    using inv_reachable [OF assms] spaced_split [of xs k now ys created zs] by (auto simp: flight_inv_def)
qed

text \<open>One call that runs its callback, then one that blocks on it and wakes when it fails.\<close>

definition flight_example :: flight where
  "flight_example = set_thread 7 (Executing idempotency_input_example 0)
     (initial_flight 5\<lparr>fl_store := empty_idempotency\<lparr>mis_channels := [False],
         mis_pending := [idempotency_key idempotency_input_example \<mapsto> 0]\<rparr>,
       fl_log := [Started (idempotency_key idempotency_input_example) 5]\<rparr>)"

definition flight_run_example :: "nat \<Rightarrow> flight" where
  "flight_run_example n =
     (let i = idempotency_input_example; arrived = set_thread 8 (Calling i) flight_example;
          blocked = set_thread 8 (Waiting i 0) flight_example;
          failed = set_thread 7 (Returned (Inl ContextDone))
            (blocked\<lparr>fl_store := empty_idempotency\<lparr>mis_channels := [True]\<rparr>\<rparr>) in
      if n = 0 then initial_flight 5
      else if n = 1 then set_thread 7 (Calling i) (initial_flight 5)
      else if n = 2 then flight_example
      else if n = 3 then arrived
      else if n = 4 then blocked
      else if n = 5 then failed
      else set_thread 8 (Calling i) failed)"

lemmas flight_example_defs = flight_example_def initial_flight_def idempotency_enter_def idempotency_leave_def
  memoryIdempotencyStore_expire_def keep_entries_def empty_idempotency_def Let_def

lemma valid_input_example: "valid_idempotency_input idempotency_input_example"
  by (simp add: valid_idempotency_input_def idempotency_input_example_def)

lemma example_steps:
  "flight_step (flight_run_example 0) (flight_run_example 1)" "flight_step (flight_run_example 1) (flight_run_example 2)"
  "flight_step (flight_run_example 2) (flight_run_example 3)" "flight_step (flight_run_example 3) (flight_run_example 4)"
  "flight_step (flight_run_example 4) (flight_run_example 5)" "flight_step (flight_run_example 5) (flight_run_example 6)"
proof -
  let ?i = idempotency_input_example
  show "flight_step (flight_run_example 0) (flight_run_example 1)"
    using arrive [of "initial_flight 5" 7 ?i] valid_input_example by (simp add: flight_run_example_def initial_flight_def)
  show "flight_step (flight_run_example 1) (flight_run_example 2)"
    using start [of "flight_run_example 1" 7 ?i 0 "fl_store flight_example"]
    by (simp add: flight_run_example_def flight_example_defs)
  show "flight_step (flight_run_example 2) (flight_run_example 3)"
    using arrive [of flight_example 8 ?i] valid_input_example by (simp add: flight_run_example_def flight_example_defs)
  show "flight_step (flight_run_example 3) (flight_run_example 4)"
    using block [of "flight_run_example 3" 8 ?i 0 "fl_store flight_example"]
    by (simp add: flight_run_example_def flight_example_defs)
  show "flight_step (flight_run_example 4) (flight_run_example 5)"
    using stumble [of "flight_run_example 4" 7 ?i 0 ContextDone "empty_idempotency\<lparr>mis_channels := [True]\<rparr>"]
    by (simp add: flight_run_example_def flight_example_defs fun_upd_idem_iff)
  show "flight_step (flight_run_example 5) (flight_run_example 6)"
    using wake [of "flight_run_example 5" 8 ?i 0] by (simp add: flight_run_example_def flight_example_defs channel_closed_def)
qed

lemma flight_run_example_run: "flight_run flight_run_example"
proof -
  have "flight_step (flight_run_example n) (flight_run_example (Suc n))" for n
  proof (cases "n < 6")
    case True
    then have "n = 0 \<or> n = 1 \<or> n = 2 \<or> n = 3 \<or> n = 4 \<or> n = 5" by arith
    then show ?thesis using example_steps by (auto simp: numeral_eq_Suc)
  next
    case False
    have "flight_step f f" for f using tick [of f "fl_now f"] by simp
    then show ?thesis using False by (simp add: flight_run_example_def Let_def)
  qed
  moreover have "flight_run_example 0 = initial_flight 5" by (simp add: flight_run_example_def)
  ultimately show ?thesis unfolding flight_run_def by blast
qed

theorem idempotent_at_most_once_witness:
  "executing flight_example 7 (idempotency_key idempotency_input_example) \<and>
   \<not> executing flight_example 8 (idempotency_key idempotency_input_example)"
proof -
  have "flight_reachable (flight_run_example 2)" by (rule run_reachable [OF flight_run_example_run])
  then have r: "flight_reachable flight_example" by (simp add: flight_run_example_def)
  have "executing flight_example 7 (idempotency_key idempotency_input_example)"
    by (simp add: executing_def flight_example_def)
  moreover have "\<not> executing flight_example 8 (idempotency_key idempotency_input_example)"
    using idempotent_at_most_once [OF r, of 7 _ 8] calculation by auto
  ultimately show ?thesis ..
qed

text \<open>
  C17. Nobody waits in vain: in every run in which callbacks return, with a response or an error, and
  a blocked call moves once its channel is closed, a call that blocks on the channel of a pending key
  later looks at the store again with that channel closed, unless its context is done first.
\<close>

theorem waiter_is_released:
  assumes "flight_run \<sigma>" and "callbacks_return \<sigma>" and "closed_channels_wake \<sigma>"
    and "fl_threads (\<sigma> n) t = Some (Waiting i ch)"
  shows "\<exists>m > n. fl_threads (\<sigma> m) t = Some (Returned (Inl ContextDone)) \<or>
    fl_threads (\<sigma> m) t = Some (Calling i) \<and> channel_closed (fl_store (\<sigma> m)) ch"
  using run_wakes [OF assms] by metis

theorem waiter_is_released_witness:
  "fl_threads (flight_run_example 4) 8 = Some (Waiting idempotency_input_example 0) \<and>
   (\<exists>m > 4. fl_threads (flight_run_example m) 8 = Some (Calling idempotency_input_example))"
proof -
  have late: "fl_threads (flight_run_example (n + 6)) = [7 \<mapsto> Returned (Inl ContextDone), 8 \<mapsto> Calling idempotency_input_example]" for n
    by (simp add: flight_run_example_def flight_example_defs fun_eq_iff)
  have busy: "u = 7" if "fl_threads (flight_run_example n) u = Some (Executing j ch)" for n u j ch
    using that by (auto simp: flight_run_example_def flight_example_defs split: if_splits)
  have "callbacks_return flight_run_example"
    unfolding callbacks_return_def
  proof (intro allI impI)
    fix n u j ch
    assume "fl_threads (flight_run_example n) u = Some (Executing j ch)"
    then have "u = 7" by (rule busy)
    then have "fl_threads (flight_run_example (n + 6)) u = Some (Returned (Inl ContextDone))" using late [of n] by simp
    then show "\<exists>m \<ge> n. \<exists>y. fl_threads (flight_run_example m) u = Some (Returned y)" using le_add1 by blast
  qed
  moreover have "closed_channels_wake flight_run_example"
    unfolding closed_channels_wake_def
  proof (intro allI impI)
    fix n t i ch
    have "fl_threads (flight_run_example (n + 6)) t \<noteq> Some (Waiting i ch)" using late [of n] by simp
    then show "\<exists>m \<ge> n. fl_threads (flight_run_example m) t \<noteq> Some (Waiting i ch)" using le_add1 by blast
  qed
  moreover have w: "fl_threads (flight_run_example 4) 8 = Some (Waiting idempotency_input_example 0)"
    by (simp add: flight_run_example_def)
  ultimately obtain m where m: "m > 4" "fl_threads (flight_run_example m) 8 = Some (Returned (Inl ContextDone)) \<or>
      fl_threads (flight_run_example m) 8 = Some (Calling idempotency_input_example)"
    using waiter_is_released [OF flight_run_example_run] by blast
  have "fl_threads (flight_run_example m) 8 \<noteq> Some (Returned (Inl ContextDone))" using m(1)
    by (simp add: flight_run_example_def flight_example_defs)
  then show ?thesis using w m by blast
qed

end
