(* ===== verification/Service_Limits.thy ===== *)
theory Service_Limits
  imports Service_Types
begin

text \<open>
  \<open>service/claims.go\<close>: the limits on the Claim Values a Service accepts. The walk over the decoded
  document counts members in one counter; the order in which it visits the members of an object does
  not change the answer, which the equivalence with the specification below shows.
\<close>

definition defaultClaimValueLimits :: ClaimValueLimits where
  "defaultClaimValueLimits = \<lparr>cvl_MaxEncodedBytes = 65536, cvl_MaxMemberCount = 128, cvl_MaxObjectDepth = 8,
     cvl_MaxStringLength = 4096\<rparr>"

definition DefaultClaimValueLimits :: ClaimValueLimits where
  "DefaultClaimValueLimits = defaultClaimValueLimits"

definition resolveClaimValueLimits :: "ClaimValueLimits option \<Rightarrow> ClaimValueLimits result" where
  "resolveClaimValueLimits configured =
     (case configured of
        None \<Rightarrow> Inr defaultClaimValueLimits
      | Some c \<Rightarrow>
          if cvl_MaxEncodedBytes c < 0 \<or> cvl_MaxMemberCount c < 0 \<or> cvl_MaxObjectDepth c < 0 \<or> cvl_MaxStringLength c < 0
          then Inl (Text ''AEP Service Claim Value limits must not be negative'')
          else
            let d = defaultClaimValueLimits in
            Inr \<lparr>cvl_MaxEncodedBytes = (if cvl_MaxEncodedBytes c \<noteq> 0 then cvl_MaxEncodedBytes c else cvl_MaxEncodedBytes d),
                 cvl_MaxMemberCount = (if cvl_MaxMemberCount c \<noteq> 0 then cvl_MaxMemberCount c else cvl_MaxMemberCount d),
                 cvl_MaxObjectDepth = (if cvl_MaxObjectDepth c \<noteq> 0 then cvl_MaxObjectDepth c else cvl_MaxObjectDepth d),
                 cvl_MaxStringLength = (if cvl_MaxStringLength c \<noteq> 0 then cvl_MaxStringLength c else cvl_MaxStringLength d)\<rparr>)"

text \<open>The value with \<open>UseNumber\<close>: the last of several equal members stays, at every level.\<close>

fun json_unique :: "json \<Rightarrow> json" where
  "json_unique (JArr xs) = JArr (map json_unique xs)"
| "json_unique (JObj ms) = JObj (update_all [] (map (\<lambda>(k, v). (k, json_unique v)) ms))"
| "json_unique v = v"

text \<open>Returns the answer and the counter.\<close>

fun claimValueWithinLimits :: "ClaimValueLimits \<Rightarrow> json \<Rightarrow> int \<Rightarrow> int \<Rightarrow> bool \<times> int"
  and claimItemsWithinLimits :: "ClaimValueLimits \<Rightarrow> json list \<Rightarrow> int \<Rightarrow> int \<Rightarrow> bool \<times> int"
  and claimMembersWithinLimits :: "ClaimValueLimits \<Rightarrow> (string \<times> json) list \<Rightarrow> int \<Rightarrow> int \<Rightarrow> bool \<times> int" where
  "claimValueWithinLimits limits (JStr s) depth members = (int (rune_count s) \<le> cvl_MaxStringLength limits, members)"
| "claimValueWithinLimits limits JNull depth members = (True, members)"
| "claimValueWithinLimits limits (JBool b) depth members = (True, members)"
| "claimValueWithinLimits limits (JNum n) depth members = (True, members)"
| "claimValueWithinLimits limits (JArr xs) depth members =
     (if cvl_MaxObjectDepth limits < depth then (False, members)
      else claimItemsWithinLimits limits xs (depth + 1) members)"
| "claimValueWithinLimits limits (JObj ms) depth members =
     (if cvl_MaxObjectDepth limits < depth then (False, members)
      else claimMembersWithinLimits limits ms (depth + 1) members)"
| "claimItemsWithinLimits limits [] depth members = (True, members)"
| "claimItemsWithinLimits limits (x # xs) depth members =
     (case claimValueWithinLimits limits x depth members of
        (False, n) \<Rightarrow> (False, n)
      | (True, n) \<Rightarrow> claimItemsWithinLimits limits xs depth n)"
| "claimMembersWithinLimits limits [] depth members = (True, members)"
| "claimMembersWithinLimits limits (m # ms) depth members =
     (case m of (name, x) \<Rightarrow>
        if cvl_MaxMemberCount limits < members + 1 \<or> cvl_MaxStringLength limits < int (rune_count name)
        then (False, members + 1)
        else case claimValueWithinLimits limits x depth (members + 1) of
               (False, n) \<Rightarrow> (False, n)
             | (True, n) \<Rightarrow> claimMembersWithinLimits limits ms depth n)"

definition claimValuesWithinLimits :: "ClaimValues option \<Rightarrow> ClaimValueLimits \<Rightarrow> bool" where
  "claimValuesWithinLimits val limits =
     (case val of
        None \<Rightarrow> True
      | Some v \<Rightarrow>
          (case ClaimValues_MarshalJSON v of
             None \<Rightarrow> False
           | Some encoded \<Rightarrow>
               if cvl_MaxEncodedBytes limits < int (length encoded) then False
               else (case json_parse encoded of
                       None \<Rightarrow> False
                     | Some document \<Rightarrow> fst (claimValueWithinLimits limits (json_unique document) 1 0))))"

lemmas service_limit_defs [go_defs] =
  defaultClaimValueLimits_def DefaultClaimValueLimits_def resolveClaimValueLimits_def claimValuesWithinLimits_def

section \<open>Specification\<close>

text \<open>Members in all, nesting of arrays and objects, and the strings of a document, names included.\<close>

fun member_total :: "json \<Rightarrow> int" and items_total :: "json list \<Rightarrow> int"
  and members_total :: "(string \<times> json) list \<Rightarrow> int" where
  "member_total (JArr xs) = items_total xs"
| "member_total (JObj ms) = members_total ms"
| "member_total (JStr s) = 0" | "member_total JNull = 0" | "member_total (JBool b) = 0" | "member_total (JNum n) = 0"
| "items_total [] = 0"
| "items_total (x # xs) = member_total x + items_total xs"
| "members_total [] = 0"
| "members_total (m # ms) = 1 + member_total (snd m) + members_total ms"

fun json_depth :: "json \<Rightarrow> int" and items_depth :: "json list \<Rightarrow> int"
  and members_depth :: "(string \<times> json) list \<Rightarrow> int" where
  "json_depth (JArr xs) = 1 + items_depth xs"
| "json_depth (JObj ms) = 1 + members_depth ms"
| "json_depth (JStr s) = 0" | "json_depth JNull = 0" | "json_depth (JBool b) = 0" | "json_depth (JNum n) = 0"
| "items_depth [] = 0"
| "items_depth (x # xs) = max (json_depth x) (items_depth xs)"
| "members_depth [] = 0"
| "members_depth (m # ms) = max (json_depth (snd m)) (members_depth ms)"

fun json_strings :: "json \<Rightarrow> string set" and items_strings :: "json list \<Rightarrow> string set"
  and members_strings :: "(string \<times> json) list \<Rightarrow> string set" where
  "json_strings (JArr xs) = items_strings xs"
| "json_strings (JObj ms) = members_strings ms"
| "json_strings (JStr s) = {s}" | "json_strings JNull = {}" | "json_strings (JBool b) = {}" | "json_strings (JNum n) = {}"
| "items_strings [] = {}"
| "items_strings (x # xs) = json_strings x \<union> items_strings xs"
| "members_strings [] = {}"
| "members_strings (m # ms) = insert (fst m) (json_strings (snd m) \<union> members_strings ms)"

abbreviation strings_fit :: "ClaimValueLimits \<Rightarrow> string set \<Rightarrow> bool" where
  "strings_fit limits S \<equiv> (\<forall>s \<in> S. int (rune_count s) \<le> cvl_MaxStringLength limits)"

lemma total_nonneg: "0 \<le> member_total v" "0 \<le> items_total xs" "0 \<le> members_total ms"
  by (induction v and xs and ms rule: member_total_items_total_members_total.induct) auto

lemma depth_nonneg: "0 \<le> json_depth v" "0 \<le> items_depth xs" "0 \<le> members_depth ms"
  by (induction v and xs and ms rule: json_depth_items_depth_members_depth.induct) auto

lemma within_max: "(d :: int) + max a b \<le> m \<longleftrightarrow> d + a \<le> m \<and> d + b \<le> m"
  by auto

text \<open>The walk within the limits; the counter advances by the members when it succeeds.\<close>

lemma walk_spec:
  "n \<le> cvl_MaxMemberCount limits \<Longrightarrow>
     (case claimValueWithinLimits limits v d n of (b, n') \<Rightarrow>
        (b \<longleftrightarrow> d + json_depth v \<le> max d (cvl_MaxObjectDepth limits + 1) \<and> n + member_total v \<le> cvl_MaxMemberCount limits \<and>
               strings_fit limits (json_strings v)) \<and> (b \<longrightarrow> n' = n + member_total v))"
  "n \<le> cvl_MaxMemberCount limits \<Longrightarrow>
     (case claimItemsWithinLimits limits xs d n of (b, n') \<Rightarrow>
        (b \<longleftrightarrow> d + items_depth xs \<le> max d (cvl_MaxObjectDepth limits + 1) \<and> n + items_total xs \<le> cvl_MaxMemberCount limits \<and>
               strings_fit limits (items_strings xs)) \<and> (b \<longrightarrow> n' = n + items_total xs))"
  "n \<le> cvl_MaxMemberCount limits \<Longrightarrow>
     (case claimMembersWithinLimits limits ms d n of (b, n') \<Rightarrow>
        (b \<longleftrightarrow> d + members_depth ms \<le> max d (cvl_MaxObjectDepth limits + 1) \<and> n + members_total ms \<le> cvl_MaxMemberCount limits \<and>
               strings_fit limits (members_strings ms)) \<and> (b \<longrightarrow> n' = n + members_total ms))"
proof (induction limits v d n and limits xs d n and limits ms d n
    rule: claimValueWithinLimits_claimItemsWithinLimits_claimMembersWithinLimits.induct)
  case (5 limits xs depth members)
  then show ?case using depth_nonneg(2) [of xs] by (auto split: prod.splits)
next
  case (6 limits ms depth members)
  then show ?case using depth_nonneg(3) [of ms] by (auto split: prod.splits)
next
  case (8 limits x xs depth members)
  obtain b n where x: "claimValueWithinLimits limits x depth members = (b, n)"
    by (cases "claimValueWithinLimits limits x depth members")
  note ihx = 8(1) [OF 8(3), unfolded x prod.case]
  show ?case
  proof (cases b)
    case True
    then have n: "n = members + member_total x" "n \<le> cvl_MaxMemberCount limits" using ihx by simp_all
    obtain b' n' where xs: "claimItemsWithinLimits limits xs depth n = (b', n')"
      by (cases "claimItemsWithinLimits limits xs depth n")
    have ihxs: "(b' \<longleftrightarrow> depth + items_depth xs \<le> max depth (cvl_MaxObjectDepth limits + 1) \<and>
        n + items_total xs \<le> cvl_MaxMemberCount limits \<and> strings_fit limits (items_strings xs)) \<and>
        (b' \<longrightarrow> n' = n + items_total xs)"
      using 8(2) [OF x [symmetric] _ n(2)] True xs by simp
    have "depth + json_depth x \<le> max depth (cvl_MaxObjectDepth limits + 1)" "strings_fit limits (json_strings x)"
      using True ihx by blast+
    then show ?thesis using x xs True ihxs n(1) by (simp add: within_max ball_Un add.assoc)
  next
    case False
    then have "\<not> (depth + items_depth (x # xs) \<le> max depth (cvl_MaxObjectDepth limits + 1) \<and>
        members + items_total (x # xs) \<le> cvl_MaxMemberCount limits \<and> strings_fit limits (items_strings (x # xs)))"
      using ihx total_nonneg(2) [of xs] by (auto simp: within_max ball_Un)
    then show ?thesis using x False by simp
  qed
next
  case (10 limits m ms depth members)
  obtain name x where m: "m = (name, x)" by (cases m)
  show ?case
  proof (cases "cvl_MaxMemberCount limits < members + 1 \<or> cvl_MaxStringLength limits < int (rune_count name)")
    case True
    then show ?thesis using m total_nonneg(1) [of x] total_nonneg(3) [of ms] by auto
  next
    case False
    then have lim: "members + 1 \<le> cvl_MaxMemberCount limits" and nm: "int (rune_count name) \<le> cvl_MaxStringLength limits"
      by auto
    obtain b n where x: "claimValueWithinLimits limits x depth (members + 1) = (b, n)"
      by (cases "claimValueWithinLimits limits x depth (members + 1)")
    note ihx = 10(1) [OF m [symmetric] False lim, unfolded x prod.case]
    show ?thesis
    proof (cases b)
      case True
      then have n: "n = members + 1 + member_total x" "n \<le> cvl_MaxMemberCount limits" using ihx by simp_all
      obtain b' n' where ms: "claimMembersWithinLimits limits ms depth n = (b', n')"
        by (cases "claimMembersWithinLimits limits ms depth n")
      have ihms: "(b' \<longleftrightarrow> depth + members_depth ms \<le> max depth (cvl_MaxObjectDepth limits + 1) \<and>
          n + members_total ms \<le> cvl_MaxMemberCount limits \<and> strings_fit limits (members_strings ms)) \<and>
          (b' \<longrightarrow> n' = n + members_total ms)"
        using 10(2) [OF m [symmetric] False x [symmetric] _ n(2)] True ms by simp
      have "depth + json_depth x \<le> max depth (cvl_MaxObjectDepth limits + 1)" "strings_fit limits (json_strings x)"
        using True ihx by blast+
      then show ?thesis using m x ms True ihms n(1) lim nm by (simp add: within_max ball_Un add.assoc)
    next
      case False
      then have "\<not> (depth + members_depth (m # ms) \<le> max depth (cvl_MaxObjectDepth limits + 1) \<and>
          members + members_total (m # ms) \<le> cvl_MaxMemberCount limits \<and> strings_fit limits (members_strings (m # ms)))"
        using ihx m total_nonneg(3) [of ms] by (auto simp: within_max ball_Un)
      then show ?thesis using m x False lim nm by simp
    qed
  qed
qed (auto split: prod.splits)

section \<open>Properties\<close>

text \<open>
  C19. Claim Values are within the limits exactly when they encode, the encoding is no longer than the
  limit, and in the document it decodes to the members of all objects together, the nesting of
  objects and arrays, and every string and member name, are within theirs.
\<close>

theorem claims_within_limits_iff:
  assumes "0 \<le> cvl_MaxMemberCount limits" and "0 \<le> cvl_MaxObjectDepth limits"
  shows "claimValuesWithinLimits (Some v) limits \<longleftrightarrow>
    (case ClaimValues_MarshalJSON v of
       None \<Rightarrow> False
     | Some encoded \<Rightarrow>
         int (length encoded) \<le> cvl_MaxEncodedBytes limits \<and>
         (case json_parse encoded of
            None \<Rightarrow> False
          | Some document \<Rightarrow>
              member_total (json_unique document) \<le> cvl_MaxMemberCount limits \<and>
              json_depth (json_unique document) \<le> cvl_MaxObjectDepth limits \<and>
              strings_fit limits (json_strings (json_unique document))))"
proof -
  have "fst (claimValueWithinLimits limits d 1 0) \<longleftrightarrow> member_total d \<le> cvl_MaxMemberCount limits \<and>
      json_depth d \<le> cvl_MaxObjectDepth limits \<and> strings_fit limits (json_strings d)" for d
    using walk_spec(1) [where v = d and n = 0 and d = 1 and limits = limits] assms by (auto simp: max_def split: prod.splits)
  then show ?thesis by (auto simp: claimValuesWithinLimits_def not_less split: option.splits)
qed

theorem claims_within_limits_iff_witness:
  "claimValuesWithinLimits (Some (zero_claims\<lparr>cv_PersonUsername := Some ''ada''\<rparr>))
     \<lparr>cvl_MaxEncodedBytes = 40, cvl_MaxMemberCount = 1, cvl_MaxObjectDepth = 1, cvl_MaxStringLength = 20\<rparr> \<and>
   \<not> claimValuesWithinLimits (Some (zero_claims\<lparr>cv_PersonUsername := Some ''ada''\<rparr>))
     \<lparr>cvl_MaxEncodedBytes = 40, cvl_MaxMemberCount = 0, cvl_MaxObjectDepth = 1, cvl_MaxStringLength = 20\<rparr>"
  by (subst (1 2) claims_within_limits_iff) (simp_all, code_simp)

text \<open>Resolved limits are positive: an unset or zero limit is the default, a negative one is refused.\<close>

lemma resolved_limits_positive:
  "resolveClaimValueLimits c = Inr l \<Longrightarrow>
     0 < cvl_MaxEncodedBytes l \<and> 0 < cvl_MaxMemberCount l \<and> 0 < cvl_MaxObjectDepth l \<and> 0 < cvl_MaxStringLength l"
  by (auto simp: resolveClaimValueLimits_def defaultClaimValueLimits_def Let_def not_less split: option.splits if_splits)

end
