(* ===== verification/Service_Assertions.thy ===== *)
theory Service_Assertions
  imports Service_Stores Service_Limits
begin

text \<open>
  How a Service recognises a client assertion: \<open>authenticateAssertion\<close> of \<open>service/commands.go\<close> and
  the verifier of \<open>service/assertion.go\<close>. An assertion that is not recognised is \<open>None\<close>.
\<close>

section \<open>Authenticating an assertion\<close>

definition identityMethod :: "string \<Rightarrow> IdentityMethod" where
  "identityMethod did =
     (case split_n CHR '':'' 3 did of
        [p0, p1, p2] \<Rightarrow> if p0 \<noteq> ''did'' \<or> p1 = [] then [] else ''did:'' @ p1
      | _ \<Rightarrow> [])"

text \<open>The header of the assertion names a supported algorithm, the type and a key of the subject.\<close>

definition assertionHeaderValid :: "'w Service \<Rightarrow> DecodedJWT \<Rightarrow> ClientAssertionClaims \<Rightarrow> bool" where
  "assertionHeaderValid service decoded claims =
     (case (header_string (jwt_Header decoded) ''alg'', header_string (jwt_Header decoded) ''typ'',
            header_string (jwt_Header decoded) ''kid'') of
        (Some algorithm, Some typeValue, Some keyID) \<Rightarrow>
          algorithm \<in> set (elems (core_SigningAlgorithms (insp_Core (svc_document service)))) \<and>
          typeValue = ''JWT'' \<and> before CHR ''#'' keyID = cac_Subject claims
      | _ \<Rightarrow> False)"

text \<open>The lifetime and the window, in whole seconds of 64 bits.\<close>

definition assertionTimesValid :: "clientAssertionOptions \<Rightarrow> ClientAssertionClaims \<Rightarrow> time \<Rightarrow> bool" where
  "assertionTimesValid options claims now =
     (let nowSeconds = time_Unix now;
          skewSeconds = go_div (caos_ClockSkew options) Second;
          maximumLifetime = go_div (caos_MaximumLifetime options) Second in
      if cac_ExpiresAt claims \<le> cac_IssuedAt claims \<or> i64 (max_i64 - maximumLifetime) < cac_IssuedAt claims \<or>
         i64 (cac_IssuedAt claims + maximumLifetime) < cac_ExpiresAt claims then False
      else
        let issuedLimit = (if nowSeconds \<le> i64 (max_i64 - skewSeconds) then i64 (nowSeconds + skewSeconds) else max_i64);
            expiryLimit = (if i64 (min_i64 + skewSeconds) \<le> nowSeconds then i64 (nowSeconds - skewSeconds) else min_i64) in
        cac_IssuedAt claims \<le> issuedLimit \<and> expiryLimit < cac_ExpiresAt claims)"

definition validAssertion ::
  "'w Service \<Rightarrow> string \<Rightarrow> ClientAssertionClaims \<Rightarrow> AssertionOperation \<Rightarrow> string \<Rightarrow> time \<Rightarrow> bool" where
  "validAssertion service assertion claims operation resource now =
     (if ValidateClientAssertionClaimsWithOptions claims (caos_AllowInsecureLoopback (svc_clientAssertion service)) \<noteq> None
      then False
      else if cac_Issuer claims \<noteq> cac_Subject claims \<or> cac_Audience claims \<noteq> si_DID (insp_Service (svc_document service)) \<or>
         cac_Operation claims \<noteq> operation \<or> cac_Resource claims \<noteq> resource then False
      else if identityMethod (cac_Subject claims) \<notin> set (elems (idy_Methods (insp_Identity (svc_document service)))) then False
      else case DecodeJWTUnverified assertion of
             Inl err \<Rightarrow> False
           | Inr decoded \<Rightarrow>
               if \<not> assertionHeaderValid service decoded claims then False
               else assertionTimesValid (svc_clientAssertion service) claims now)"

definition assertionContext ::
  "'w Service \<Rightarrow> CommandOptions \<Rightarrow> AssertionOperation \<Rightarrow> string \<Rightarrow> time \<Rightarrow> AssertionVerificationContext" where
  "assertionContext service options operation resource now =
     \<lparr>avc_AllowInsecureLoopback = caos_AllowInsecureLoopback (svc_clientAssertion service),
      avc_ClockTolerance = caos_ClockSkew (svc_clientAssertion service), avc_CurrentTime = now,
      avc_IdempotencyKey = cop_IdempotencyKey options, avc_Operation = operation, avc_Resource = resource,
      avc_ServiceDID = si_DID (insp_Service (svc_document service)),
      avc_SigningAlgorithms = elems (core_SigningAlgorithms (insp_Core (svc_document service)))\<rparr>"

definition authenticateAssertion ::
  "'w Service \<Rightarrow> CommandOptions \<Rightarrow> AssertionOperation \<Rightarrow> string \<Rightarrow> (go_error, 'w, ClientAssertionClaims option) act" where
  "authenticateAssertion service options operation resource =
     (if cop_ClientAssertion options = [] then ok None
      else
        and_then (call (svc_clock service)) (\<lambda>now.
        and_then (attempt (svc_verifier service (cop_ClientAssertion options)
                            (assertionContext service options operation resource now))) (\<lambda>verified.
        case verified of
          Inl err \<Rightarrow> ok None
        | Inr claims \<Rightarrow>
            if \<not> validAssertion service (cop_ClientAssertion options) claims operation resource now then ok None
            else
              let skewSeconds = go_div (caos_ClockSkew (svc_clientAssertion service)) Second in
              if i64 (max_i64 - skewSeconds) < cac_ExpiresAt claims then ok None
              else
                and_then (rs_ConsumeReplay (svc_replayStore service)
                           \<lparr>rpl_ExpiresAt = i64 (cac_ExpiresAt claims + skewSeconds), rpl_JWTID = cac_JWTID claims,
                            rpl_Subject = cac_Subject claims\<rparr> (time_Unix now)) (\<lambda>consumed.
                ok (if consumed then Some claims else None)))))"

section \<open>The did:web verifier\<close>

definition NewDIDWebAssertionVerifier ::
  "(string \<Rightarrow> (go_error, 'w, http_response) act) \<Rightarrow> (RawMessage \<Rightarrow> 'key option) \<Rightarrow> ('key \<Rightarrow> bool) \<Rightarrow> 'key jose \<Rightarrow>
   ('w \<Rightarrow> time \<times> 'w) \<Rightarrow> 'w AssertionVerifier" where
  "NewDIDWebAssertionVerifier do_get jwk valid jose time_Now assertion verification =
     (case DecodeJWTUnverified assertion of
        Inl err \<Rightarrow> fail err
      | Inr decoded \<Rightarrow>
     (case header_string (jwt_Payload decoded) ''iss'' of
        None \<Rightarrow> fail (Text ''AEP client assertion issuer is invalid'')
      | Some issuer \<Rightarrow>
          if issuer = [] then fail (Text ''AEP client assertion issuer is invalid'')
          else
     (case header_string (jwt_Header decoded) ''kid'' of
        None \<Rightarrow> fail (Text ''AEP client assertion key ID is invalid'')
      | Some keyID \<Rightarrow>
          if keyID = [] then fail (Text ''AEP client assertion key ID is invalid'')
          else
            and_then (ResolveDIDWebPublicKey do_get jwk valid (avc_AllowInsecureLoopback verification) issuer keyID) (\<lambda>key.
            VerifyClientAssertion jose time_Now assertion
              \<lparr>vo_Algorithms = avc_SigningAlgorithms verification,
               vo_AllowInsecureLoopback = avc_AllowInsecureLoopback verification,
               vo_Audience = avc_ServiceDID verification, vo_ClockTolerance = avc_ClockTolerance verification,
               vo_CurrentTime = avc_CurrentTime verification, vo_Issuer = [], vo_Key = Some key, vo_KeyResolver = None,
               vo_Operation = avc_Operation verification, vo_Resource = avc_Resource verification, vo_Subject = []\<rparr>))))"

lemmas service_assertion_defs [go_defs] =
  NewDIDWebAssertionVerifier_def
  identityMethod_def assertionHeaderValid_def assertionTimesValid_def validAssertion_def
  assertionContext_def authenticateAssertion_def

section \<open>Lemmas\<close>

lemma assertionTimesValid_exact:
  assumes "0 \<le> caos_ClockSkew opts" "caos_ClockSkew opts \<le> RecommendedClockSkew"
    "Second \<le> caos_MaximumLifetime opts" "caos_MaximumLifetime opts \<le> MaxAssertionLifetime"
    and "in_i64 (cac_ExpiresAt c)" "in_i64 (cac_IssuedAt c)" "in_i64 (time_Unix now)"
  shows "assertionTimesValid opts c now \<longleftrightarrow>
    cac_IssuedAt c < cac_ExpiresAt c \<and> cac_ExpiresAt c \<le> cac_IssuedAt c + caos_MaximumLifetime opts div Second \<and>
    cac_IssuedAt c + caos_MaximumLifetime opts div Second \<le> max_i64 \<and>
    cac_IssuedAt c \<le> time_Unix now + caos_ClockSkew opts div Second \<and>
    time_Unix now - caos_ClockSkew opts div Second < cac_ExpiresAt c"
proof -
  let ?s = "caos_ClockSkew opts div Second" and ?m = "caos_MaximumLifetime opts div Second"
  have b: "0 \<le> ?s" "?s \<le> 30" "1 \<le> ?m" "?m \<le> 300" using assms(1-4) by simp_all
  have g: "go_div (caos_ClockSkew opts) Second = ?s" "go_div (caos_MaximumLifetime opts) Second = ?m"
    using assms(1-4) by (simp_all add: go_div_nonneg)
  have i: "i64 (max_i64 - ?m) = max_i64 - ?m" "i64 (max_i64 - ?s) = max_i64 - ?s" "i64 (min_i64 + ?s) = min_i64 + ?s"
    using b by (simp_all add: in_i64_def i64_limits)
  show ?thesis
    using assms(5-7) b unfolding assertionTimesValid_def Let_def g i
    by (auto simp: in_i64_def i64_limits)
qed

text \<open>What a run that recognises says of each early return.\<close>

lemma case_sum_ok_None:
  "(case x of Inl e \<Rightarrow> ok None | Inr k \<Rightarrow> g k) w = (Inr (Some y), w') \<longleftrightarrow> (\<exists>k. x = Inr k \<and> g k w = (Inr (Some y), w'))"
  by (cases x) auto

lemma if_ok_None: "(if b then ok None else f) w = (Inr (Some y), w') \<longleftrightarrow> \<not> b \<and> f w = (Inr (Some y), w')"
  by simp

lemma if_Some:
  "Some y = (if c then Some z else None) \<longleftrightarrow> c \<and> z = y" "(if c then Some z else None) = Some y \<longleftrightarrow> c \<and> z = y"
  by auto

lemmas run_Some = case_sum_ok_None if_ok_None if_Some

text \<open>Everything a recognised assertion has been checked for.\<close>

lemma recognized:
  assumes "authenticateAssertion service options operation resource w = (Inr (Some claims), w')"
  obtains now w1 w2 where "svc_clock service w = (now, w1)"
    "svc_verifier service (cop_ClientAssertion options) (assertionContext service options operation resource now) w1 = (Inr claims, w2)"
    "validAssertion service (cop_ClientAssertion options) claims operation resource now"
    "cac_ExpiresAt claims \<le> i64 (max_i64 - go_div (caos_ClockSkew (svc_clientAssertion service)) Second)"
    "rs_ConsumeReplay (svc_replayStore service)
       \<lparr>rpl_ExpiresAt = i64 (cac_ExpiresAt claims + go_div (caos_ClockSkew (svc_clientAssertion service)) Second),
        rpl_JWTID = cac_JWTID claims, rpl_Subject = cac_Subject claims\<rparr> (time_Unix now) w2 = (Inr True, w')"
    "cop_ClientAssertion options \<noteq> []"
  using assms unfolding authenticateAssertion_def
  by (auto simp: run_simps run_Some Let_def not_less)

lemma validAssertion_iff:
  "validAssertion service assertion claims operation resource now \<longleftrightarrow>
     ValidateClientAssertionClaimsWithOptions claims (caos_AllowInsecureLoopback (svc_clientAssertion service)) = None \<and>
     cac_Issuer claims = cac_Subject claims \<and> cac_Audience claims = si_DID (insp_Service (svc_document service)) \<and>
     cac_Operation claims = operation \<and> cac_Resource claims = resource \<and>
     identityMethod (cac_Subject claims) \<in> set (elems (idy_Methods (insp_Identity (svc_document service)))) \<and>
     (\<exists>decoded. DecodeJWTUnverified assertion = Inr decoded \<and> assertionHeaderValid service decoded claims) \<and>
     assertionTimesValid (svc_clientAssertion service) claims now"
  by (auto simp: validAssertion_def split: sum.splits)


text \<open>A successful run of the verifier: the parts it went through.\<close>

lemma did_web_verified:
  assumes "NewDIDWebAssertionVerifier do_get jwk valid jose time_Now assertion v w = (Inr claims, w')"
  obtains decoded issuer keyID key w1 options where "DecodeJWTUnverified assertion = Inr decoded"
    "header_string (jwt_Payload decoded) ''iss'' = Some issuer" "header_string (jwt_Header decoded) ''kid'' = Some keyID"
    "ResolveDIDWebPublicKey do_get jwk valid (avc_AllowInsecureLoopback v) issuer keyID w = (Inr key, w1)"
    "VerifyClientAssertion jose time_Now assertion options w1 = (Inr claims, w')"
    "vo_Key options = Some key" "vo_KeyResolver options = None" "vo_Algorithms options = avc_SigningAlgorithms v"
    "vo_AllowInsecureLoopback options = avc_AllowInsecureLoopback v"
  using assms unfolding NewDIDWebAssertionVerifier_def
  by (auto simp: run_simps)

text \<open>The verifier changes the world only through its client and its clock.\<close>

lemma did_web_verifier_keeps:
  assumes R: "reflp R" "transp R" and "\<And>u. keeps R (do_get u)" and "keeps R (call time_Now :: (go_error, 'w, time) act)"
  shows "keeps R (NewDIDWebAssertionVerifier do_get jwk valid jose time_Now assertion v)"
proof -
  have resolve: "keeps R (ResolveDIDWebPublicKey do_get jwk valid allow did keyID)" for allow did keyID
    unfolding ResolveDIDWebPublicKey_def
    by (intro keeps_intros R assms(3))
  have verify: "keeps R (VerifyClientAssertion jose time_Now assertion options)" if "vo_KeyResolver options = None" for options
    unfolding VerifyClientAssertion_def verifyUnderKey_def assertionKey_def Let_def
    by (intro keeps_intros R assms(4)) (simp_all add: that)
  show ?thesis
    unfolding NewDIDWebAssertionVerifier_def
    by (intro keeps_intros R resolve verify) simp
qed

interpretation assertion_replays: memory_replay first_part ctxDone for ctxDone
  by unfold_locales (auto simp: first_part_def)

text \<open>The options of a Service that \<open>New\<close> made, and claims whose times are 64-bit values.\<close>

definition times_configured :: "clientAssertionOptions \<Rightarrow> bool" where
  "times_configured options \<longleftrightarrow> 0 \<le> caos_ClockSkew options \<and> caos_ClockSkew options \<le> RecommendedClockSkew \<and>
     Second \<le> caos_MaximumLifetime options \<and> caos_MaximumLifetime options \<le> MaxAssertionLifetime"

definition times_in_range :: "ClientAssertionClaims \<Rightarrow> time \<Rightarrow> bool" where
  "times_in_range c now \<longleftrightarrow> in_i64 (cac_ExpiresAt c) \<and> in_i64 (cac_IssuedAt c) \<and> in_i64 (time_Unix now)"

lemma valid_times:
  assumes "validAssertion service assertion c operation resource now"
    and "times_configured (svc_clientAssertion service)" and "times_in_range c now"
  shows "cac_IssuedAt c < cac_ExpiresAt c"
    "cac_ExpiresAt c \<le> cac_IssuedAt c + caos_MaximumLifetime (svc_clientAssertion service) div Second"
    "cac_IssuedAt c \<le> time_Unix now + caos_ClockSkew (svc_clientAssertion service) div Second"
    "time_Unix now < cac_ExpiresAt c + caos_ClockSkew (svc_clientAssertion service) div Second"
  using assms assertionTimesValid_exact [of "svc_clientAssertion service" c now]
  by (auto simp: validAssertion_iff times_configured_def times_in_range_def)

lemma skew_seconds:
  assumes "times_configured options"
  shows "go_div (caos_ClockSkew options) Second = caos_ClockSkew options div Second"
    "0 \<le> caos_ClockSkew options div Second" "caos_ClockSkew options div Second \<le> 30"
  using assms by (auto simp: times_configured_def go_div_nonneg)

text \<open>A recognised assertion is spent until its expiry with the skew, as a mathematical integer.\<close>

lemma recognized_consumes:
  assumes "authenticateAssertion service options operation resource w = (Inr (Some c), w')"
    and conf: "times_configured (svc_clientAssertion service)" and "in_i64 (cac_ExpiresAt c)"
  obtains now w1 w2 where "svc_clock service w = (now, w1)"
    "svc_verifier service (cop_ClientAssertion options) (assertionContext service options operation resource now) w1 = (Inr c, w2)"
    "validAssertion service (cop_ClientAssertion options) c operation resource now"
    "rs_ConsumeReplay (svc_replayStore service)
       \<lparr>rpl_ExpiresAt = cac_ExpiresAt c + caos_ClockSkew (svc_clientAssertion service) div Second,
        rpl_JWTID = cac_JWTID c, rpl_Subject = cac_Subject c\<rparr> (time_Unix now) w2 = (Inr True, w')"
proof -
  let ?s = "caos_ClockSkew (svc_clientAssertion service) div Second"
  note skew = skew_seconds [OF conf]
  obtain now w1 w2 where r: "svc_clock service w = (now, w1)"
    "svc_verifier service (cop_ClientAssertion options) (assertionContext service options operation resource now) w1 = (Inr c, w2)"
    "validAssertion service (cop_ClientAssertion options) c operation resource now"
    "cac_ExpiresAt c \<le> i64 (max_i64 - ?s)"
    "rs_ConsumeReplay (svc_replayStore service) \<lparr>rpl_ExpiresAt = i64 (cac_ExpiresAt c + ?s), rpl_JWTID = cac_JWTID c,
       rpl_Subject = cac_Subject c\<rparr> (time_Unix now) w2 = (Inr True, w')"
    using recognized [OF assms(1)] skew(1) by metis
  have "in_i64 (max_i64 - ?s)" using skew by (simp add: in_i64_def i64_limits)
  then have "in_i64 (cac_ExpiresAt c + ?s)" using r(4) skew assms(3) by (simp add: in_i64_def)
  then show ?thesis using that [OF r(1-3)] r(5) by simp
qed

lemma clock_verifier_keep:
  assumes "svc_clock service w = (now, w1)" "svc_verifier service a x w1 = (r, w2)"
    and "\<And>w. fst (snd (svc_clock service w)) = fst w" "\<And>a x w. fst (snd (svc_verifier service a x w)) = fst w"
  shows "fst w2 = fst w"
  using assms by (metis snd_conv)

section \<open>Properties\<close>

text \<open>
  C2. A client assertion is good for one call. When the memory replay store backs a Service and its
  clock and verifier leave the store alone, claims that have been recognised are not recognised again
  from any state in which the store still holds what it recorded: while their window is open the
  identifier is spent, and afterwards the window is closed.
\<close>

theorem assertion_recognized_once:
  fixes service :: "(memoryReplayStore \<times> 'x) Service"
  assumes "authenticateAssertion service o1 p1 r1 w = (Inr (Some c), w1)"
    and "svc_replayStore service = NewMemoryReplayStore ctxDone first_part"
    and "memory_spent first_part w2 (cac_Subject c) (cac_JWTID c) = memory_spent first_part w1 (cac_Subject c) (cac_JWTID c)"
    and "\<And>w. fst (snd (svc_clock service w)) = fst w" and "\<And>a x w. fst (snd (svc_verifier service a x w)) = fst w"
    and conf: "times_configured (svc_clientAssertion service)" and range: "\<And>now. times_in_range c (fst (svc_clock service now))"
  shows "authenticateAssertion service o2 p2 r2 w2 \<noteq> (Inr (Some c), w3)"
proof
  let ?e = "cac_ExpiresAt c + caos_ClockSkew (svc_clientAssertion service) div Second"
  have exp: "in_i64 (cac_ExpiresAt c)" using range by (simp add: times_in_range_def)
  assume run: "authenticateAssertion service o2 p2 r2 w2 = (Inr (Some c), w3)"
  obtain now1 v where "memoryReplayStore_ConsumeReplay ctxDone first_part
      \<lparr>rpl_ExpiresAt = ?e, rpl_JWTID = cac_JWTID c, rpl_Subject = cac_Subject c\<rparr> now1 v = (Inr True, w1)"
    by (rule recognized_consumes [OF assms(1) conf exp]) (simp add: assms(2) NewMemoryReplayStore_def that)
  then have spent: "memory_spent first_part w2 (cac_Subject c) (cac_JWTID c) = Some ?e"
    using assertion_replays.replays.accepts assms(3) by fastforce
  obtain now u1 u2 where u: "svc_clock service w2 = (now, u1)"
    "svc_verifier service (cop_ClientAssertion o2) (assertionContext service o2 p2 r2 now) u1 = (Inr c, u2)"
    "validAssertion service (cop_ClientAssertion o2) c p2 r2 now"
    "memoryReplayStore_ConsumeReplay ctxDone first_part
      \<lparr>rpl_ExpiresAt = ?e, rpl_JWTID = cac_JWTID c, rpl_Subject = cac_Subject c\<rparr> (time_Unix now) u2 = (Inr True, w3)"
    by (rule recognized_consumes [OF run conf exp]) (simp add: assms(2) NewMemoryReplayStore_def that)
  have "fst u2 = fst w2" using clock_verifier_keep [OF u(1,2)] assms(4,5) by blast
  then have "memory_spent first_part u2 (cac_Subject c) (cac_JWTID c) = Some ?e"
    using spent by (simp add: memory_spent_def first_part_def)
  then have "?e \<le> time_Unix now" using assertion_replays.replays.accepts [OF u(4)] by auto
  moreover have "time_Unix now < ?e" using valid_times(4) [OF u(3) conf] range [of w2] u(1) by simp
  ultimately show False by simp
qed


definition assertion_example :: string where
  "assertion_example = ''eyJhbGciOiJFZERTQSIsInR5cCI6IkpXVCIsImtpZCI6ImRpZDp3ZWI6YS5leGFtcGxlI2sxIn0.'' @
     ''eyJpc3MiOiJkaWQ6d2ViOmEuZXhhbXBsZSJ9.sig''"

definition published_example :: string where
  "published_example = quote_tildes (''{~id~:~did:web:a.example~,~verificationMethod~:['' @
     ''{~id~:~#k1~,~publicKeyJwk~:{~kty~:~OKP~}}]}'')"

definition assertion_jose_example :: "string jose" where
  "assertion_jose_example = \<lparr>jose_ParseSigned = (\<lambda>a allowed. if a = assertion_example then Some
       \<lparr>tok_Headers = [\<lparr>hdr_KeyID = ''did:web:a.example#k1'', hdr_typ = Some (JStr ''JWT'')\<rparr>],
        tok_verify = (\<lambda>key. if key = quote_tildes ''{~kty~:~OKP~}'' then Some jwt_payload_example else None)\<rparr> else None),
     jose_NewSigner = (\<lambda>_ _. None)\<rparr>"

definition get_example :: "string \<Rightarrow> (go_error, 'w, http_response) act" where
  "get_example url = ok \<lparr>rsp_URL = Some url, rsp_StatusCode = 200, rsp_Body = Inr published_example\<rparr>"

definition clock_example :: "'w \<Rightarrow> time \<times> 'w" where
  "clock_example w = (1010000000000, w)"

definition document_example :: InspectDocument where
  "document_example = zero_inspect\<lparr>insp_Service := \<lparr>si_DID = ''did:web:s.example''\<rparr>,
     insp_Identity := \<lparr>idy_Methods = Some [IdentityMethodDIDWeb]\<rparr>,
     insp_Core := \<lparr>core_SigningAlgorithms = Some [SigningAlgorithmEdDSA, SigningAlgorithmES256]\<rparr>\<rparr>"

definition no_enrollments :: "'w EnrollmentStore" where
  "no_enrollments = \<lparr>es_FindEnrollment = (\<lambda>_. ok None), es_FindOrCreateEnrollment = (\<lambda>_ _. fail (External [])),
     es_SaveEnrollment = ok\<rparr>"

definition service_example :: "(memoryReplayStore \<times> unit) Service" where
  "service_example = \<lparr>svc_supportsDocuments = False, svc_authenticationMethods = [AuthenticationMethodJWT],
     svc_clientAssertion = \<lparr>caos_AllowInsecureLoopback = False, caos_ClockSkew = 30000000000,
       caos_MaximumLifetime = 300000000000\<rparr>,
     svc_claimValueLimits = defaultClaimValueLimits, svc_clock = clock_example, svc_document = document_example,
     svc_enrollmentPolicy = (\<lambda>_ _. fail (External [])), svc_enrollmentStore = no_enrollments,
     svc_grantHandlers = [], svc_identifier = ok ''e1'', svc_idempotencyStore = (\<lambda>_ _. fail (External [])),
     svc_inspectURL = None, svc_replayStore = NewMemoryReplayStore (\<lambda>_. False) first_part,
     svc_verifier = NewDIDWebAssertionVerifier get_example Some (\<lambda>_. True) assertion_jose_example clock_example\<rparr>"

definition status_call_example :: CommandOptions where
  "status_call_example = \<lparr>cop_ClientAssertion = assertion_example, cop_IdempotencyKey = []\<rparr>"

lemma example_recognized:
  "case authenticateAssertion service_example status_call_example AssertionStatus [] (Map.empty, ()) of
     (Inr (Some c), w) \<Rightarrow> cac_ExpiresAt c = 1300 \<and> cac_IssuedAt c = 1000 \<and> cac_Subject c = ''did:web:a.example'' | _ \<Rightarrow> False"
  by code_simp

lemma example_world:
  "fst (snd (svc_clock service_example w)) = fst w" "fst (snd (svc_verifier service_example a x w)) = fst w"
proof -
  show "fst (snd (svc_clock service_example w)) = fst w" by (simp add: service_example_def clock_example_def)
  have "keeps (=) (svc_verifier service_example a x)"
    unfolding service_example_def Service.simps
    by (rule did_web_verifier_keeps) (auto simp: get_example_def clock_example_def call_def keeps_def ok_def reflp_def transp_def)
  then show "fst (snd (svc_verifier service_example a x w)) = fst w" unfolding keeps_def by metis
qed

lemma example_times:
  "times_configured (svc_clientAssertion service_example)" "fst (svc_clock service_example w) = 1010000000000"
  by (simp_all add: times_configured_def service_example_def clock_example_def)

theorem assertion_recognized_once_witness:
  "\<exists>c w1. authenticateAssertion service_example status_call_example AssertionStatus [] (Map.empty, ()) = (Inr (Some c), w1) \<and>
     authenticateAssertion service_example status_call_example AssertionStatus [] w1 \<noteq> (Inr (Some c), w1)"
proof -
  obtain c w1 where run: "authenticateAssertion service_example status_call_example AssertionStatus [] (Map.empty, ()) = (Inr (Some c), w1)"
    and c: "cac_ExpiresAt c = 1300" "cac_IssuedAt c = 1000"
    using example_recognized by (auto split: prod.splits sum.splits option.splits)
  have "authenticateAssertion service_example status_call_example AssertionStatus [] w1 \<noteq> (Inr (Some c), w1)"
    by (rule assertion_recognized_once [OF run _ refl example_world example_times(1)])
      (simp_all add: service_example_def times_in_range_def c clock_example_def time_Unix_def in_i64_def i64_limits)
  with run show ?thesis by blast
qed

text \<open>
  C1. What a recognised assertion proves. A Service with the did:web verifier recognises an assertion
  only when its claims name one Agent as issuer and subject, this Service as audience, and the
  operation and resource of the call; when its lifetime is positive and within the maximum and the
  Service's clock lies in its window; and when its signature verifies under a key that the Agent's own
  did:web document publishes, served by the DID's own URL.
\<close>

theorem recognized_assertion_sound:
  assumes "authenticateAssertion service options operation resource w = (Inr (Some c), w')"
    and "svc_verifier service = NewDIDWebAssertionVerifier do_get jwk valid jose time_Now"
    and conf: "times_configured (svc_clientAssertion service)" and range: "times_in_range c (fst (svc_clock service w))"
  shows "cac_Issuer c = cac_Subject c \<and> cac_Audience c = si_DID (insp_Service (svc_document service)) \<and>
    cac_Operation c = operation \<and> cac_Resource c = resource \<and>
    identityMethod (cac_Subject c) \<in> set (elems (idy_Methods (insp_Identity (svc_document service)))) \<and>
    cac_IssuedAt c < cac_ExpiresAt c \<and>
    cac_ExpiresAt c \<le> cac_IssuedAt c + caos_MaximumLifetime (svc_clientAssertion service) div Second \<and>
    cac_IssuedAt c \<le> time_Unix (fst (svc_clock service w)) + caos_ClockSkew (svc_clientAssertion service) div Second \<and>
    time_Unix (fst (svc_clock service w)) < cac_ExpiresAt c + caos_ClockSkew (svc_clientAssertion service) div Second \<and>
    (\<exists>u response document m key allowed token payload w1 w2.
       didWebDocumentURL (cac_Subject c) (caos_AllowInsecureLoopback (svc_clientAssertion service)) = Inr u \<and>
       do_get (url_String u) w1 = (Inr response, w2) \<and> rsp_URL response = Some (url_String u) \<and>
       readDIDDocument (url_String u) response = Inr document \<and> did_ID document = cac_Subject c \<and>
       m \<in> set (elems (did_VerificationMethods document)) \<and> jwk (vm_PublicKeyJWK m) = Some key \<and> valid key \<and>
       jose_ParseSigned jose (cop_ClientAssertion options) allowed = Some token \<and> tok_verify token key = Some payload \<and>
       ClientAssertionClaims_UnmarshalJSON payload zero_assertion_claims = Some c)"
proof -
  have exp: "in_i64 (cac_ExpiresAt c)" using range by (simp add: times_in_range_def)
  obtain now w1 w2 where r: "svc_clock service w = (now, w1)"
    "svc_verifier service (cop_ClientAssertion options) (assertionContext service options operation resource now) w1 = (Inr c, w2)"
    "validAssertion service (cop_ClientAssertion options) c operation resource now"
    by (rule recognized_consumes [OF assms(1) conf exp])
  obtain decoded issuer keyID key u1 vo where v: "DecodeJWTUnverified (cop_ClientAssertion options) = Inr decoded"
    "header_string (jwt_Header decoded) ''kid'' = Some keyID"
    "ResolveDIDWebPublicKey do_get jwk valid (caos_AllowInsecureLoopback (svc_clientAssertion service)) issuer keyID w1 = (Inr key, u1)"
    "VerifyClientAssertion jose time_Now (cop_ClientAssertion options) vo u1 = (Inr c, w2)"
    "vo_Key vo = Some key" "vo_KeyResolver vo = None"
    by (rule did_web_verified [OF r(2) [unfolded assms(2)]]) (simp add: assertionContext_def)
  have valid: "cac_Issuer c = cac_Subject c" "cac_Audience c = si_DID (insp_Service (svc_document service))"
    "cac_Operation c = operation" "cac_Resource c = resource" "assertionHeaderValid service decoded c"
    "identityMethod (cac_Subject c) \<in> set (elems (idy_Methods (insp_Identity (svc_document service))))"
    using r(3) v(1) by (auto simp: validAssertion_iff)
  obtain allowed token payload where tok: "jose_ParseSigned jose (cop_ClientAssertion options) allowed = Some token"
    "tok_verify token key = Some payload" "ClientAssertionClaims_UnmarshalJSON payload zero_assertion_claims = Some c"
    by (rule VerifyClientAssertion_ok [OF v(4)]) (simp add: v(5,6))
  obtain u response document m where key: "didWebDocumentURL issuer (caos_AllowInsecureLoopback (svc_clientAssertion service)) = Inr u"
    "do_get (url_String u) w1 = (Inr response, u1)" "rsp_URL response = Some (url_String u)"
    "readDIDDocument (url_String u) response = Inr document" "did_ID document = issuer"
    "m \<in> set (elems (did_VerificationMethods document))" "jwk (vm_PublicKeyJWK m) = Some key" "valid key"
    "before CHR ''#'' keyID = issuer"
    using resolved_key [OF v(3)] by blast
  have "issuer = cac_Subject c"
    using valid(5) v(2) key(9) by (auto simp: assertionHeaderValid_def split: option.splits)
  note signed = key [unfolded this] tok
  have range: "times_in_range c now" "fst (svc_clock service w) = now" using range r(1) by simp_all
  show ?thesis unfolding range(2)
    using valid(1-4,6) valid_times [OF r(3) conf range(1)]
    by (intro conjI exI [of _ u] exI [of _ response] exI [of _ document] exI [of _ m] exI [of _ key]
        exI [of _ allowed] exI [of _ token] exI [of _ payload] exI [of _ w1] exI [of _ u1] signed) 
qed

theorem recognized_assertion_sound_witness:
  "\<exists>c w1. authenticateAssertion service_example status_call_example AssertionStatus [] (Map.empty, ()) = (Inr (Some c), w1) \<and>
     cac_Audience c = ''did:web:s.example'' \<and> cac_Operation c = AssertionStatus"
proof -
  obtain c w1 where run: "authenticateAssertion service_example status_call_example AssertionStatus [] (Map.empty, ()) = (Inr (Some c), w1)"
    and c: "cac_ExpiresAt c = 1300" "cac_IssuedAt c = 1000"
    using example_recognized by (auto split: prod.splits sum.splits option.splits)
  have "cac_Audience c = si_DID (insp_Service (svc_document service_example)) \<and> cac_Operation c = AssertionStatus"
    using recognized_assertion_sound [OF run, of get_example Some "\<lambda>_. True" assertion_jose_example clock_example] example_times c
    by (simp add: service_example_def times_in_range_def clock_example_def time_Unix_def in_i64_def i64_limits)
  moreover have "si_DID (insp_Service (svc_document service_example)) = ''did:web:s.example''"
    by (simp add: service_example_def document_example_def)
  ultimately show ?thesis using run by metis
qed

end
