(* ===== verification/Service_Commands.thy ===== *)
theory Service_Commands
  imports Service_Assertions Service_Limits
begin

text \<open>
  \<open>service/commands.go\<close> and \<open>service/documents.go\<close>: the four commands of a Service. SHA-256 is a
  parameter. The Go result of a command is a \<open>Result\<close> or an error; the zero body a problem carries is
  an argument.
\<close>

section \<open>Quoting\<close>

text \<open>
  \<open>strconv.Quote\<close>, which \<open>%q\<close> uses. Whether a rune above 127 is printable is a table of the
  library, an argument here; the runes of a challenge's codes are all ASCII.
\<close>

definition rune_value :: "string \<Rightarrow> int" where
  "rune_value s =
     (case s of
        [a] \<Rightarrow> byte a
      | [a, b] \<Rightarrow> byte a mod 32 * 64 + byte b mod 64
      | [a, b, c] \<Rightarrow> byte a mod 16 * 4096 + byte b mod 64 * 64 + byte c mod 64
      | [a, b, c, d] \<Rightarrow> byte a mod 8 * 262144 + byte b mod 64 * 4096 + byte c mod 64 * 64 + byte d mod 64
      | _ \<Rightarrow> 0)"

definition quote_rune :: "(int \<Rightarrow> bool) \<Rightarrow> string \<Rightarrow> string" where
  "quote_rune isPrint r =
     (let n = rune_value r in
      if n = 0x22 \<or> n = 0x5C then CHR 0x5C # r
      else if (32 \<le> n \<and> n < 127) \<or> (128 \<le> n \<and> isPrint n) then r
      else if n = 7 then [CHR 0x5C, CHR ''a''] else if n = 8 then [CHR 0x5C, CHR ''b'']
      else if n = 12 then [CHR 0x5C, CHR ''f''] else if n = 10 then [CHR 0x5C, CHR ''n'']
      else if n = 13 then [CHR 0x5C, CHR ''r''] else if n = 9 then [CHR 0x5C, CHR ''t'']
      else if n = 11 then [CHR 0x5C, CHR ''v'']
      else if n < 128 then CHR 0x5C # CHR ''x'' # hex_digits 2 n
      else if n < 0x10000 then CHR 0x5C # CHR ''u'' # hex_digits 4 n
      else CHR 0x5C # CHR ''U'' # hex_digits 8 n)"

fun quote_body :: "(int \<Rightarrow> bool) \<Rightarrow> nat \<Rightarrow> string \<Rightarrow> string" where
  "quote_body isPrint 0 s = []"
| "quote_body isPrint (Suc fuel) s =
     (if s = [] then []
      else let n = utf8_len s in
        if n = 0 then [CHR 0x5C, CHR ''x''] @ hex_digits 2 (byte (hd s)) @ quote_body isPrint fuel (tl s)
        else quote_rune isPrint (take n s) @ quote_body isPrint fuel (drop n s))"

definition go_quote :: "(int \<Rightarrow> bool) \<Rightarrow> string \<Rightarrow> string" where
  "go_quote isPrint s = CHR 0x22 # quote_body isPrint (length s) s @ [CHR 0x22]"

section \<open>Results\<close>

definition successResult :: "int \<Rightarrow> 'body \<Rightarrow> 'body Result" where
  "successResult status body =
     \<lparr>res_Body = body, res_ContentType = MediaType, res_Headers = None, res_Problem = None, res_Status = status\<rparr>"

definition problemResult :: "'body \<Rightarrow> ErrorCode \<Rightarrow> string \<Rightarrow> int \<Rightarrow> 'body Result" where
  "problemResult zero code title status =
     \<lparr>res_Body = zero, res_ContentType = ProblemMediaType,
      res_Headers = (if status = 401
        then header_Set ''WWW-Authenticate'' (''AEP reason='' @ go_quote (\<lambda>_. True) code) (Some []) else None),
      res_Problem = Some (NewProblemDetails code title status), res_Status = status\<rparr>"

abbreviation notRecognized :: "'body \<Rightarrow> 'body Result" where
  "notRecognized zero \<equiv> problemResult zero ErrorNotRecognized ''Not recognized'' 401"

abbreviation invalidRequest :: "'body \<Rightarrow> 'body Result" where
  "invalidRequest zero \<equiv> problemResult zero ErrorInvalidRequest ''Invalid request'' 400"

definition lifecycleProblem :: "'body \<Rightarrow> ErrorCode \<Rightarrow> string \<Rightarrow> int \<Rightarrow> EnrollmentRecord \<Rightarrow> 'body Result" where
  "lifecycleProblem zero code title status record =
     (let result = problemResult zero code title status in
      result\<lparr>res_Problem := map_option (\<lambda>problem.
        problem\<lparr>pd_RequirementsPending := append_nil (elems (er_RequirementsPending record)),
                pd_VerificationPending := append_nil (elems (er_VerificationPending record)),
                pd_OwnerActionRequired := (if er_OwnerActionRequired record then Some ''true''
                                           else pd_OwnerActionRequired problem)\<rparr>) (res_Problem result)\<rparr>)"

definition enrollmentResponse :: "AgentStatus \<Rightarrow> bool \<Rightarrow> string slice \<Rightarrow> string slice \<Rightarrow> EnrollResponse" where
  "enrollmentResponse status ownerAction verification requirements =
     zero_enroll_response\<lparr>ers_Status := status, ers_VerificationPending := append_nil (elems verification),
       ers_RequirementsPending := append_nil (elems requirements),
       ers_OwnerActionRequired := (if ownerAction then Some ''true'' else None)\<rparr>"

text \<open>\<open>Inl\<close> is the lifecycle result that replaces the response.\<close>

definition enrollmentResult :: "EnrollmentRecord \<Rightarrow> EnrollResponse Result + EnrollResponse" where
  "enrollmentResult record =
     (if er_Status record \<in> set [AgentActive, AgentPending, AgentRejected, AgentSuspended, AgentTerminated, AgentUnavailable]
      then Inr (enrollmentResponse (er_Status record) (er_OwnerActionRequired record)
                  (er_VerificationPending record) (er_RequirementsPending record))
      else Inl (problemResult zero_enroll_response ErrorEnrollmentFailed ''Enrollment failed'' 400))"

definition validEnrollmentDecisionStatus :: "EnrollmentStatus \<Rightarrow> bool" where
  "validEnrollmentDecisionStatus status \<longleftrightarrow>
     status = EnrollmentActive \<or> status = EnrollmentPending \<or> status = EnrollmentRejected"

definition grantLifecycleProblem :: "'body \<Rightarrow> EnrollmentRecord \<Rightarrow> 'body Result" where
  "grantLifecycleProblem zero record =
     (if er_Status record = AgentPending then lifecycleProblem zero ErrorVerificationPending ''Verification pending'' 403 record
      else if er_Status record = AgentSuspended then lifecycleProblem zero ErrorIdentitySuspended ''Identity suspended'' 403 record
      else if er_Status record = AgentTerminated then lifecycleProblem zero ErrorIdentityTerminated ''Identity terminated'' 403 record
      else if er_Status record = AgentUnavailable then lifecycleProblem zero ErrorIdentityUnavailable ''Identity unavailable'' 403 record
      else problemResult zero ErrorEnrollmentFailed ''Enrollment failed'' 400)"

definition statusResponse :: "EnrollmentRecord \<Rightarrow> StatusResponse" where
  "statusResponse record =
     \<lparr>srs_Status = er_Status record,
      srs_OwnerActionRequired = (if er_OwnerActionRequired record then Some ''true'' else None),
      srs_VerificationPending = append_nil (elems (er_VerificationPending record)),
      srs_RequirementsPending = append_nil (elems (er_RequirementsPending record)),
      srs_Since = format_rfc3339 (er_Since record), srs_Additional = []\<rparr>"

definition validIdempotencyKey :: "string \<Rightarrow> bool" where
  "validIdempotencyKey val \<longleftrightarrow> trim_space val \<noteq> []"

definition parseJSONObject :: "RawMessage \<Rightarrow> RawMessage result" where
  "parseJSONObject val =
     (case dec_object val of
        Some (Some object) \<Rightarrow> Inr val
      | _ \<Rightarrow> Inl (Text ''AEP Grant response must be a JSON object''))"

definition validatedCredentialObject :: "RawMessage \<Rightarrow> RawMessage result" where
  "validatedCredentialObject val =
     (case parseJSONObject val of
        Inl err \<Rightarrow> Inl err
      | Inr object \<Rightarrow>
          (case dec_object object of
             None \<Rightarrow> Inl (Library ''encoding/json'')
           | Some members \<Rightarrow>
               (case map_of (elems members) ''credential_id'' of
                  None \<Rightarrow> Inl (Text ''AEP Grant response requires a stable credential_id'')
                | Some raw \<Rightarrow>
                    (case dec_string raw [] of
                       None \<Rightarrow> Inl (Text ''AEP Grant response requires a stable credential_id'')
                     | Some credentialID \<Rightarrow>
                         if credentialID = [] then Inl (Text ''AEP Grant response requires a stable credential_id'')
                         else Inr object))))"

section \<open>Idempotent execution\<close>

definition storeResult :: "('body \<Rightarrow> string option) \<Rightarrow> 'body Result \<Rightarrow> time \<Rightarrow> StoredResponse result" where
  "storeResult encode result createdAt =
     (case (case res_Problem result of Some problem \<Rightarrow> ProblemDetails_MarshalJSON problem
            | None \<Rightarrow> encode (res_Body result)) of
        None \<Rightarrow> Inl (Library ''encoding/json'')
      | Some body \<Rightarrow> Inr \<lparr>sr_Body = body, sr_ContentType = res_ContentType result, sr_CreatedAt = createdAt,
          sr_Headers = cloneHeader (res_Headers result), sr_Status = res_Status result\<rparr>)"

definition parseStoredResult :: "'body \<Rightarrow> (string \<Rightarrow> 'body result) \<Rightarrow> StoredResponse \<Rightarrow> 'body Result result" where
  "parseStoredResult zero parse response =
     (if sr_ContentType response = ProblemMediaType
      then (case ParseProblemDetails (sr_Body response) of
              Inl err \<Rightarrow> Inl err
            | Inr problem \<Rightarrow> Inr \<lparr>res_Body = zero, res_ContentType = sr_ContentType response,
                res_Headers = cloneHeader (sr_Headers response), res_Problem = Some problem, res_Status = sr_Status response\<rparr>)
      else (case parse (sr_Body response) of
              Inl err \<Rightarrow> Inl err
            | Inr body \<Rightarrow> Inr \<lparr>res_Body = body, res_ContentType = sr_ContentType response,
                res_Headers = cloneHeader (sr_Headers response), res_Problem = None, res_Status = sr_Status response\<rparr>))"

text \<open>The input under which a request is executed; \<open>encoded\<close> is its encoding.\<close>

definition idempotencyInput ::
  "(string \<Rightarrow> string) \<Rightarrow> string \<Rightarrow> IdempotentCommand \<Rightarrow> string \<Rightarrow> string \<Rightarrow> json \<Rightarrow> IdempotencyInput" where
  "idempotencyInput sha256 agentDID command key encoded val =
     \<lparr>ii_CanonicalRequestHash = ''sha256:'' @ hex_encode (sha256 (enc_json val)), ii_AgentDID = agentDID,
      ii_Command = command, ii_IdempotencyKey = key, ii_RequestHash = ''sha256:'' @ hex_encode (sha256 encoded)\<rparr>"

definition executeIdempotent ::
  "(string \<Rightarrow> string) \<Rightarrow> 'w Service \<Rightarrow> string \<Rightarrow> IdempotentCommand \<Rightarrow> string \<Rightarrow> string option \<Rightarrow> 'body \<Rightarrow>
   ('body \<Rightarrow> string option) \<Rightarrow> (string \<Rightarrow> 'body result) \<Rightarrow> (go_error, 'w, 'body Result) act \<Rightarrow>
   (go_error, 'w, 'body Result) act" where
  "executeIdempotent sha256 service agentDID command key request zero encode parse execute =
     (case request of
        None \<Rightarrow> fail (Library ''encoding/json'')
      | Some encoded \<Rightarrow>
     (case json_parse encoded of
        None \<Rightarrow> fail (Library ''encoding/json'')
      | Some val \<Rightarrow>
          and_then (svc_idempotencyStore service (idempotencyInput sha256 agentDID command key encoded val)
             (and_then execute (\<lambda>created.
              and_then (call (svc_clock service)) (\<lambda>now.
              of_result (storeResult encode created now))))) (\<lambda>result.
          case result of
            IdempotencyConflict \<Rightarrow> ok (problemResult zero ErrorIdempotencyConflict ''Idempotency conflict'' 409)
          | IdempotencyCreated response \<Rightarrow> of_result (parseStoredResult zero parse response)
          | IdempotencyReplayed response \<Rightarrow> of_result (parseStoredResult zero parse response))))"

section \<open>Requirements\<close>

definition missingClaims :: "'w Service \<Rightarrow> ClaimValues option \<Rightarrow> ClaimName list" where
  "missingClaims service claims =
     (case insp_Claims (svc_document service) of
        None \<Rightarrow> []
      | Some c \<Rightarrow> MissingRequiredClaimNames (elems (ic_Required c)) claims)"

definition missingDocumentIDs :: "'w Service \<Rightarrow> EnrollmentRecord \<Rightarrow> string list" where
  "missingDocumentIDs service record =
     map sd_ID (filter (\<lambda>document. sd_Enrollment document = ''required'' \<and>
        (sd_ID document \<notin> set (elems (er_AcknowledgedDocumentIDs record)) \<or>
         sd_ID document \<in> set (elems (er_RequiredDocumentIDs record))))
       (elems (insp_ServiceDocuments (svc_document service))))"

definition acceptedDocumentIDs :: "'w Service \<Rightarrow> string slice \<Rightarrow> string slice \<Rightarrow> string slice" where
  "acceptedDocumentIDs service existing declared =
     foldl (\<lambda>ids id. if id \<notin> set (elems ids) \<and>
         list_ex (\<lambda>document. sd_ID document = id) (elems (insp_ServiceDocuments (svc_document service)))
       then Some (elems ids @ [id]) else ids) existing (elems declared)"

definition documentRequirements :: "'body \<Rightarrow> ClaimName list \<Rightarrow> string list \<Rightarrow> 'body Result" where
  "documentRequirements zero claims ids =
     (let result = problemResult zero ErrorRequirementsUnmet ''Requirements unmet'' 422 in
      result\<lparr>res_Problem := map_option (\<lambda>problem.
        if ids = [] then problem\<lparr>pd_RequirementsPending := append_nil claims\<rparr>
        else problem\<lparr>pd_OwnerActionRequired := Some ''true'', pd_RequiredDocumentIDs := Some ids,
               pd_RequirementsPending := Some (claims @ [''service_documents''])\<rparr>) (res_Problem result)\<rparr>)"

text \<open>Decoding into the map adds to what it holds.\<close>

fun mergeEncoded :: "ClaimValues option list \<Rightarrow> (string \<times> RawMessage) list \<Rightarrow> (string \<times> RawMessage) list result" where
  "mergeEncoded [] merged = Inr merged"
| "mergeEncoded (None # rest) merged = mergeEncoded rest merged"
| "mergeEncoded (Some claims # rest) merged =
     (case ClaimValues_MarshalJSON claims of
        None \<Rightarrow> Inl (Library ''encoding/json'')
      | Some data \<Rightarrow>
          (case dec_object data of
             None \<Rightarrow> Inl (Library ''encoding/json'')
           | Some object \<Rightarrow> mergeEncoded rest (update_all merged (elems object))))"

definition mergeDocumentClaims :: "ClaimValues option \<Rightarrow> ClaimValues option \<Rightarrow> ClaimValues option result" where
  "mergeDocumentClaims existing supplied =
     (if existing = None then cloneClaimValues supplied
      else case mergeEncoded [existing, supplied] [] of
             Inl err \<Rightarrow> Inl err
           | Inr merged \<Rightarrow>
               (case enc_raw_map merged of
                  None \<Rightarrow> Inl (Library ''encoding/json'')
                | Some data \<Rightarrow>
                    (case ParseClaimValues data of Inl err \<Rightarrow> Inl err | Inr claims \<Rightarrow> Inr (Some claims))))"

section \<open>Enroll\<close>

text \<open>The closure that makes the record of a new enrollment.\<close>

definition createEnrollment :: "'w Service \<Rightarrow> string \<Rightarrow> EnrollRequest \<Rightarrow> (go_error, 'w, EnrollmentRecord) act" where
  "createEnrollment service subject request =
     (let required = (case insp_Claims (svc_document service) of None \<Rightarrow> [] | Some c \<Rightarrow> elems (ic_Required c));
          missing = MissingRequiredClaimNames required (erq_Claims request);
          missingIDs = (if erq_AcknowledgedDocumentIDs request \<noteq> None then []
                        else missingDocumentIDs service zero_enrollment) in
      if missing \<noteq> [] \<or> missingIDs \<noteq> []
      then fail (RequirementsUnmet (append_nil missing) (append_nil missingIDs))
      else
        and_then (call (svc_clock service)) (\<lambda>now.
        and_then (svc_enrollmentPolicy service request \<lparr>epc_Now = now\<rparr>) (\<lambda>decided.
        let decision = (if ed_Status decided = [] then decided\<lparr>ed_Status := EnrollmentActive\<rparr> else decided) in
        if \<not> validEnrollmentDecisionStatus (ed_Status decision)
        then fail (Text ''AEP enrollment policy returned an invalid initial status'')
        else
          let ownerActionRequired = (ed_OwnerActionRequired decision = Some True) in
          case ValidateEnrollResponse (enrollmentResponse (ed_Status decision) ownerActionRequired
                 (ed_VerificationPending decision) (ed_RequirementsPending decision)) of
            Some err \<Rightarrow> fail err
          | None \<Rightarrow>
              and_then (svc_identifier service) (\<lambda>identifier.
              if identifier = [] then fail (Text ''AEP enrollment identifier provider returned an empty identifier'')
              else case cloneClaimValues (erq_Claims request) of
                Inl err \<Rightarrow> fail err
              | Inr claimValues \<Rightarrow>
                  ok \<lparr>er_AcknowledgedDocumentIDs =
                        (if ed_Status decision \<noteq> EnrollmentRejected
                         then acceptedDocumentIDs service None (erq_AcknowledgedDocumentIDs request) else None),
                      er_RequiredDocumentIDs = None, er_AgentDID = subject, er_Claims = claimValues, er_CreatedAt = now,
                      er_EnrollmentID = identifier, er_OwnerActionRequired = ownerActionRequired,
                      er_RequirementsPending = append_nil (elems (ed_RequirementsPending decision)), er_Since = now,
                      er_Status = ed_Status decision, er_UpdatedAt = now,
                      er_VerificationPending = append_nil (elems (ed_VerificationPending decision))\<rparr>))))"

text \<open>The record an update saves, but for the time it is stamped with.\<close>

definition updatedRecord ::
  "'w Service \<Rightarrow> EnrollRequest \<Rightarrow> EnrollmentRecord \<Rightarrow> EnrollmentDecision \<Rightarrow> ClaimValues option \<Rightarrow> EnrollmentRecord" where
  "updatedRecord service request existing decision merged =
     existing\<lparr>er_Claims := merged,
       er_OwnerActionRequired := (case ed_OwnerActionRequired decision of None \<Rightarrow> er_OwnerActionRequired existing | Some b \<Rightarrow> b),
       er_RequirementsPending := (if ed_RequirementsPending decision \<noteq> None then ed_RequirementsPending decision
                                  else er_RequirementsPending existing),
       er_VerificationPending := (if ed_VerificationPending decision \<noteq> None then ed_VerificationPending decision
                                  else er_VerificationPending existing),
       er_AcknowledgedDocumentIDs :=
         acceptedDocumentIDs service (er_AcknowledgedDocumentIDs existing) (erq_AcknowledgedDocumentIDs request),
       er_RequiredDocumentIDs :=
         map_option (filter (\<lambda>id. id \<notin> set (elems (erq_AcknowledgedDocumentIDs request)))) (er_RequiredDocumentIDs existing)\<rparr>"

definition updateResponse :: "EnrollRequest \<Rightarrow> EnrollmentRecord \<Rightarrow> EnrollResponse Result" where
  "updateResponse request existing =
     (case enrollmentResult existing of
        Inl failure \<Rightarrow> failure
      | Inr response \<Rightarrow>
          successResult 200 (response\<lparr>ers_AcknowledgedDocumentIDs := erq_AcknowledgedDocumentIDs request\<rparr>))"

definition updateEnrollment ::
  "'w Service \<Rightarrow> EnrollRequest \<Rightarrow> EnrollmentRecord \<Rightarrow> (go_error, 'w, EnrollResponse Result) act" where
  "updateEnrollment service request existing =
     (case validateEnrollmentRecord existing of
        Some err \<Rightarrow> fail err
      | None \<Rightarrow>
          and_then (call (svc_clock service)) (\<lambda>now.
          and_then (svc_enrollmentPolicy service request \<lparr>epc_Now = now\<rparr>) (\<lambda>decision.
          if ed_Status decision \<noteq> [] \<and> \<not> validEnrollmentDecisionStatus (ed_Status decision)
          then fail (Text ''AEP enrollment policy returned an invalid status'')
          else if ed_Status decision = EnrollmentRejected
          then ok (problemResult zero_enroll_response ErrorEnrollmentFailed ''Enrollment failed'' 403)
          else if ed_UpdateExisting decision = None \<or> ed_UpdateExisting decision = Some True
          then
            (case mergeDocumentClaims (er_Claims existing) (erq_Claims request) of
               Inl err \<Rightarrow> fail err
             | Inr merged \<Rightarrow>
                 let missing = missingClaims service merged;
                     missingIDs = (if erq_AcknowledgedDocumentIDs request \<noteq> None then []
                                   else missingDocumentIDs service existing) in
                 if missing \<noteq> [] \<or> missingIDs \<noteq> []
                 then ok (documentRequirements zero_enroll_response missing missingIDs)
                 else
                   and_then (call (svc_clock service)) (\<lambda>updatedAt.
                   and_then (es_SaveEnrollment (svc_enrollmentStore service)
                      ((updatedRecord service request existing decision merged)\<lparr>er_UpdatedAt := updatedAt\<rparr>)) (\<lambda>saved.
                   ok (updateResponse request saved))))
          else ok (updateResponse request existing))))"

text \<open>\<open>errors.As\<close> looks through wrapped errors.\<close>

fun as_requirements_unmet :: "go_error \<Rightarrow> (ClaimName slice \<times> string slice) option" where
  "as_requirements_unmet (RequirementsUnmet requirements documentIDs) = Some (requirements, documentIDs)"
| "as_requirements_unmet (Wrapped message err) = as_requirements_unmet err"
| "as_requirements_unmet err = None"

text \<open>What the closure of \<open>Enroll\<close> does, run under the idempotency key.\<close>

definition enrollAgent :: "'w Service \<Rightarrow> string \<Rightarrow> EnrollRequest \<Rightarrow> (go_error, 'w, EnrollResponse Result) act" where
  "enrollAgent service subject request0 =
     (let request = (if \<not> svc_supportsDocuments service then request0\<lparr>erq_AcknowledgedDocumentIDs := None\<rparr> else request0) in
      and_then (es_FindEnrollment (svc_enrollmentStore service) subject) (\<lambda>existing.
      case existing of
        Some existing \<Rightarrow> updateEnrollment service request existing
      | None \<Rightarrow>
          and_then (attempt (es_FindOrCreateEnrollment (svc_enrollmentStore service) subject
                              (createEnrollment service subject request))) (\<lambda>created.
          case created of
            Inl createErr \<Rightarrow>
              (case as_requirements_unmet createErr of
                 Some (requirements, documentIDs) \<Rightarrow>
                   ok (documentRequirements zero_enroll_response (elems requirements) (elems documentIDs))
               | None \<Rightarrow> fail createErr)
          | Inr (record, _) \<Rightarrow>
              (case enrollmentResult record of
                 Inl lifecycle \<Rightarrow> ok lifecycle
               | Inr plain \<Rightarrow>
                   let response = (if ers_Status plain \<noteq> AgentRejected
                     then plain\<lparr>ers_AcknowledgedDocumentIDs := erq_AcknowledgedDocumentIDs request\<rparr> else plain) in
                   case ValidateEnrollResponse response of
                     Some err \<Rightarrow> fail err
                   | None \<Rightarrow> ok (successResult 200 response)))))"

definition Service_Enroll ::
  "(string \<Rightarrow> string) \<Rightarrow> 'w Service \<Rightarrow> string \<Rightarrow> CommandOptions \<Rightarrow> (go_error, 'w, EnrollResponse Result) act" where
  "Service_Enroll sha256 service body options =
     and_then (authenticateAssertion service options AssertionEnroll []) (\<lambda>recognized.
     case recognized of
       None \<Rightarrow> ok (notRecognized zero_enroll_response)
     | Some claims \<Rightarrow>
         (case ParseEnrollRequest body of
            Inl err \<Rightarrow> ok (invalidRequest zero_enroll_response)
          | Inr request \<Rightarrow>
              if erq_AgentDID request \<noteq> cac_Subject claims \<or>
                 \<not> claimValuesWithinLimits (erq_Claims request) (svc_claimValueLimits service) \<or>
                 \<not> validIdempotencyKey (cop_IdempotencyKey options) \<or>
                 (erq_IdempotencyKey request \<noteq> [] \<and> erq_IdempotencyKey request \<noteq> cop_IdempotencyKey options)
              then ok (invalidRequest zero_enroll_response)
              else executeIdempotent sha256 service (cac_Subject claims) IdempotentEnroll (cop_IdempotencyKey options)
                     (EnrollRequest_MarshalJSON request) zero_enroll_response EnrollResponse_MarshalJSON ParseEnrollResponse
                     (enrollAgent service (cac_Subject claims) request)))"

section \<open>Status\<close>

definition Service_Status :: "'w Service \<Rightarrow> CommandOptions \<Rightarrow> (go_error, 'w, StatusResponse Result) act" where
  "Service_Status service options =
     and_then (authenticateAssertion service options AssertionStatus []) (\<lambda>recognized.
     case recognized of
       None \<Rightarrow> ok (notRecognized zero_status_response)
     | Some claims \<Rightarrow>
         and_then (es_FindEnrollment (svc_enrollmentStore service) (cac_Subject claims)) (\<lambda>record.
         case record of
           None \<Rightarrow> ok (notRecognized zero_status_response)
         | Some record \<Rightarrow>
             (case ValidateStatusResponse (statusResponse record) of
                Some err \<Rightarrow> fail err
              | None \<Rightarrow> ok (successResult 200 (statusResponse record)))))"

section \<open>Grant\<close>

definition grantCredential :: "'w Service \<Rightarrow> string \<Rightarrow> GrantRequest \<Rightarrow> (go_error, 'w, RawMessage Result) act" where
  "grantCredential service subject request =
     and_then (es_FindEnrollment (svc_enrollmentStore service) subject) (\<lambda>found.
     case found of
       None \<Rightarrow> ok (notRecognized [])
     | Some record \<Rightarrow>
         (case map_of (svc_grantHandlers service) (grq_GrantType request) of
            None \<Rightarrow> ok (problemResult [] ErrorUnsupportedGrantType ''Unsupported grant type'' 400)
          | Some handler \<Rightarrow>
              if er_Status record \<noteq> AgentActive then ok (grantLifecycleProblem [] record)
              else
                let missing = missingClaims service (er_Claims record); missingIDs = missingDocumentIDs service record in
                if missing \<noteq> [] \<or> missingIDs \<noteq> [] then ok (documentRequirements [] missing missingIDs)
                else case cloneEnrollment record of
                  Inl err \<Rightarrow> fail err
                | Inr enrollment \<Rightarrow>
                    and_then (call (svc_clock service)) (\<lambda>now.
                    and_then (gth_Grant handler request \<lparr>gc_AgentDID = subject, gc_Enrollment = enrollment,
                                gc_GrantType = grq_GrantType request, gc_Now = now\<rparr>) (\<lambda>credential.
                    case validatedCredentialObject credential of
                      Inl err \<Rightarrow> fail err
                    | Inr credential \<Rightarrow> ok (successResult 200 credential)))))"

definition Service_Grant ::
  "(string \<Rightarrow> string) \<Rightarrow> 'w Service \<Rightarrow> string \<Rightarrow> CommandOptions \<Rightarrow> (go_error, 'w, RawMessage Result) act" where
  "Service_Grant sha256 service body options =
     and_then (authenticateAssertion service options AssertionGrant []) (\<lambda>recognized.
     case recognized of
       None \<Rightarrow> ok (notRecognized [])
     | Some claims \<Rightarrow>
         (case ParseGrantRequest body of
            Inl err \<Rightarrow> ok (invalidRequest [])
          | Inr request \<Rightarrow>
              if \<not> validIdempotencyKey (cop_IdempotencyKey options) then ok (invalidRequest [])
              else executeIdempotent sha256 service (cac_Subject claims) IdempotentGrant (cop_IdempotencyKey options)
                     (GrantRequest_MarshalJSON request) [] enc_raw parseJSONObject
                     (grantCredential service (cac_Subject claims) request)))"

section \<open>Revoke\<close>

fun revokeEach ::
  "'w Service \<Rightarrow> string \<Rightarrow> RevokeRequest \<Rightarrow> EnrollmentRecord \<Rightarrow> time \<Rightarrow> GrantType list \<Rightarrow> (go_error, 'w, unit) act" where
  "revokeEach service subject request enrollment now [] = ok ()"
| "revokeEach service subject request enrollment now (grantType # rest) =
     (case map_of (svc_grantHandlers service) grantType of
        None \<Rightarrow> fail (Library ''runtime'')
      | Some handler \<Rightarrow>
          and_then (gth_Revoke handler request \<lparr>rc_AgentDID = subject, rc_Enrollment = enrollment,
                      rc_GrantType = grantType, rc_Now = now\<rparr>) (\<lambda>_.
          revokeEach service subject request enrollment now rest))"

text \<open>Whether the request names a grant type the Service has and may revoke by credential.\<close>

definition revokeProblem :: "'w Service \<Rightarrow> RevokeRequest \<Rightarrow> RevokeResponse Result option" where
  "revokeProblem service request =
     (if rrq_GrantType request \<noteq> [] then
        (case map_of (svc_grantHandlers service) (rrq_GrantType request) of
           None \<Rightarrow> Some (problemResult () ErrorUnsupportedGrantType ''Unsupported grant type'' 400)
         | Some _ \<Rightarrow>
             if rrq_CredentialID request \<noteq> [] \<and>
                (case map_of (cmds_GrantTypesConfig (insp_Commands (svc_document service))) (rrq_GrantType request) of
                   None \<Rightarrow> [] | Some config \<Rightarrow> gtc_SupportsPerCredentialRevoke config) \<noteq> ''true''
             then Some (invalidRequest ()) else None)
      else None)"

definition revokeCredentials :: "'w Service \<Rightarrow> string \<Rightarrow> RevokeRequest \<Rightarrow> (go_error, 'w, RevokeResponse Result) act" where
  "revokeCredentials service subject request =
     and_then (es_FindEnrollment (svc_enrollmentStore service) subject) (\<lambda>found.
     case found of
       None \<Rightarrow> ok (notRecognized ())
     | Some record \<Rightarrow>
         (case revokeProblem service request of
            Some problem \<Rightarrow> ok problem
          | None \<Rightarrow>
              (case cloneEnrollment record of
                 Inl err \<Rightarrow> fail err
               | Inr enrollment \<Rightarrow>
                   and_then (call (svc_clock service)) (\<lambda>now.
                   and_then
                     (if rrq_AllGrantTypes request = ''true''
                      then revokeEach service subject request enrollment now (sort (map fst (svc_grantHandlers service)))
                      else revokeEach service subject request enrollment now [rrq_GrantType request]) (\<lambda>_.
                   ok (successResult 200 ()))))))"

definition Service_Revoke ::
  "(string \<Rightarrow> string) \<Rightarrow> 'w Service \<Rightarrow> string \<Rightarrow> CommandOptions \<Rightarrow> (go_error, 'w, RevokeResponse Result) act" where
  "Service_Revoke sha256 service body options =
     and_then (authenticateAssertion service options AssertionRevoke []) (\<lambda>recognized.
     case recognized of
       None \<Rightarrow> ok (notRecognized ())
     | Some claims \<Rightarrow>
         (case ParseRevokeRequest body of
            Inl err \<Rightarrow> ok (invalidRequest ())
          | Inr request \<Rightarrow>
              if \<not> validIdempotencyKey (cop_IdempotencyKey options) then ok (invalidRequest ())
              else executeIdempotent sha256 service (cac_Subject claims) IdempotentRevoke (cop_IdempotencyKey options)
                     (RevokeRequest_MarshalJSON request) () (\<lambda>_. Some ''{}'') ParseRevokeResponse
                     (revokeCredentials service (cac_Subject claims) request)))"

lemmas service_command_defs [go_defs] =
  rune_value_def quote_rune_def go_quote_def successResult_def problemResult_def lifecycleProblem_def
  enrollmentResponse_def enrollmentResult_def validEnrollmentDecisionStatus_def grantLifecycleProblem_def
  statusResponse_def validIdempotencyKey_def parseJSONObject_def validatedCredentialObject_def
  storeResult_def parseStoredResult_def idempotencyInput_def executeIdempotent_def
  missingClaims_def missingDocumentIDs_def acceptedDocumentIDs_def documentRequirements_def mergeDocumentClaims_def
  createEnrollment_def updatedRecord_def updateResponse_def updateEnrollment_def enrollAgent_def Service_Enroll_def
  Service_Status_def grantCredential_def Service_Grant_def revokeProblem_def revokeCredentials_def Service_Revoke_def


section \<open>Lemmas\<close>

text \<open>Each handler that has issued a credential did so for an active enrollment that meets the requirements.\<close>

lemma problem_Some [simp]: "res_Problem (problemResult z c t st) = Some (NewProblemDetails c t st)"
  by (simp add: problemResult_def)

lemma problem_neq_None [simp]:
  "res_Problem (lifecycleProblem z c t st r) \<noteq> None" "res_Problem (documentRequirements z cs ids) \<noteq> None"
  "res_Problem (grantLifecycleProblem z r) \<noteq> None"
  by (simp_all add: lifecycleProblem_def documentRequirements_def grantLifecycleProblem_def Let_def)

lemma success_simps [simp]:
  "res_Problem (successResult st b) = None" "res_Body (successResult st b) = b" "res_Status (successResult st b) = st"
  by (simp_all add: successResult_def)

text \<open>What a run without a problem says of each early return with one.\<close>

lemma if_problem:
  "res_Problem r0 \<noteq> None \<Longrightarrow> res_Problem r = None \<Longrightarrow> (if b then ok r0 else f) w = (Inr r, w') \<longleftrightarrow> \<not> b \<and> f w = (Inr r, w')"
  by auto

lemma case_option_problem:
  "res_Problem r0 \<noteq> None \<Longrightarrow> res_Problem r = None \<Longrightarrow>
     (case x of None \<Rightarrow> ok r0 | Some k \<Rightarrow> f k) w = (Inr r, w') \<longleftrightarrow> (\<exists>k. x = Some k \<and> f k w = (Inr r, w'))"
  by (cases x) auto

lemma granted:
  assumes "grantCredential service subject request w = (Inr r, w')" and "res_Problem r = None"
  obtains enr handler enrollment w1 now w2 credential where
    "es_FindEnrollment (svc_enrollmentStore service) subject w = (Inr (Some enr), w1)"
    "map_of (svc_grantHandlers service) (grq_GrantType request) = Some handler"
    "er_Status enr = AgentActive" "missingClaims service (er_Claims enr) = []" "missingDocumentIDs service enr = []"
    "cloneEnrollment enr = Inr enrollment" "svc_clock service w1 = (now, w2)"
    "gth_Grant handler request \<lparr>gc_AgentDID = subject, gc_Enrollment = enrollment, gc_GrantType = grq_GrantType request,
       gc_Now = now\<rparr> w2 = (Inr credential, w')"
    "validatedCredentialObject credential = Inr (res_Body r)" "res_Status r = 200"
  using assms unfolding grantCredential_def Let_def
  by (auto simp: run_simps if_problem case_option_problem)

lemma validated_credential:
  assumes "validatedCredentialObject raw = Inr object"
  shows "object = raw \<and> (\<exists>members cred i. dec_object raw = Some (Some members) \<and> map_of members ''credential_id'' = Some cred \<and>
    dec_string cred [] = Some i \<and> i \<noteq> [])"
  using assms
  by (auto simp: validatedCredentialObject_def parseJSONObject_def split: option.splits sum.splits if_splits)

text \<open>Who a record is about and where it stands; an update of an enrollment leaves this alone.\<close>

definition standing :: "EnrollmentRecord \<Rightarrow> string \<times> string \<times> time \<times> time \<times> AgentStatus" where
  "standing r = (er_AgentDID r, er_EnrollmentID r, er_CreatedAt r, er_Since r, er_Status r)"

lemma standing_updated [simp]:
  "standing ((updatedRecord service request existing decision merged)\<lparr>er_UpdatedAt := t\<rparr>) = standing existing"
  by (simp add: standing_def updatedRecord_def)

lemma standing_clone: "cloneEnrollment r = Inr r' \<Longrightarrow> standing r' = standing r"
  by (auto simp: cloneEnrollment_def standing_def split: sum.splits)

text \<open>
  A call saves at most one record, at the end, and that record has the standing \<open>s\<close>: the part \<open>g\<close> of
  the world changes in no other way.
\<close>

definition saves_once ::
  "('w \<Rightarrow> 'g) \<Rightarrow> 'w EnrollmentStore \<Rightarrow> string \<times> string \<times> time \<times> time \<times> AgentStatus \<Rightarrow> (go_error, 'w, 'a) act \<Rightarrow> bool" where
  "saves_once g store s m \<longleftrightarrow> (\<forall>w. g (snd (m w)) = g w \<or>
     (\<exists>saved w1. snd (m w) = snd (es_SaveEnrollment store saved w1) \<and> g w1 = g w \<and> standing saved = s))"

lemma saves_keeps: "keeps (\<lambda>w w'. g w' = g w) m \<Longrightarrow> saves_once g store s m"
  by (simp add: saves_once_def keeps_def)

lemma saves_ok: "saves_once g store s (ok x)" and saves_fail: "saves_once g store s (fail e)"
  by (simp_all add: saves_once_def ok_def fail_def)

lemma saves_if:
  "(b \<Longrightarrow> saves_once g store s f) \<Longrightarrow> (\<not> b \<Longrightarrow> saves_once g store s h) \<Longrightarrow> saves_once g store s (if b then f else h)"
  by simp

lemma saves_case_sum:
  "(\<And>e. saves_once g store s (f e)) \<Longrightarrow> (\<And>y. saves_once g store s (h y)) \<Longrightarrow>
     saves_once g store s (case x of Inl e \<Rightarrow> f e | Inr y \<Rightarrow> h y)"
  by (cases x) simp_all

lemma saves_then:
  assumes "keeps (\<lambda>w w'. g w' = g w) m" and "\<And>y. saves_once g store s (f y)"
  shows "saves_once g store s (and_then m f)"
  unfolding saves_once_def
proof
  fix w
  have m: "g (snd (m w)) = g w" using assms(1) by (simp add: keeps_def)
  show "g (snd (and_then m f w)) = g w \<or>
     (\<exists>saved w1. snd (and_then m f w) = snd (es_SaveEnrollment store saved w1) \<and> g w1 = g w \<and> standing saved = s)"
    using m assms(2) [unfolded saves_once_def, rule_format, of _ "snd (m w)"]
    by (cases "fst (m w)") (simp_all add: and_then_def case_prod_unfold)
qed

lemma saves_save:
  assumes "standing saved = s"
  shows "saves_once g store s (and_then (es_SaveEnrollment store saved) (\<lambda>y. ok (h y)))"
  using assms by (auto simp: saves_once_def and_then_def ok_def case_prod_unfold split: sum.splits intro!: exI [of _ saved])

lemmas saves_intros = saves_ok saves_fail saves_if saves_case_sum saves_save saves_then

lemma update_saves_once:
  assumes "\<And>w. g (snd (svc_clock service w)) = g w" and "\<And>q c. keeps (\<lambda>w w'. g w' = g w) (svc_enrollmentPolicy service q c)"
  shows "saves_once g (svc_enrollmentStore service) (standing existing) (updateEnrollment service request existing)"
proof (cases "validateEnrollmentRecord existing")
  case None
  have clock: "keeps (\<lambda>w w'. g w' = g w) (call (svc_clock service) :: (go_error, _, _) act)"
    using assms(1) by (simp add: keeps_def call_def case_prod_unfold)
  show ?thesis
    unfolding updateEnrollment_def None option.case Let_def
    by (intro saves_intros clock assms(2) standing_updated)
qed (simp add: updateEnrollment_def saves_fail)

lemma memory_save:
  "memoryEnrollmentStore_SaveEnrollment ctxDone first_part saved w = (x, w') \<Longrightarrow>
     fst w' = fst w \<or> (\<exists>stored. cloneEnrollment saved = Inr stored \<and>
       fst w' = (fst w)\<lparr>mes_records := (mes_records (fst w))(er_AgentDID saved \<mapsto> stored)\<rparr>)"
  by (auto simp: memoryEnrollmentStore_SaveEnrollment_def unless_done_def first_part_def fail_def and_then_def observe_def
      on_part_def of_result_def split: option.splits if_splits sum.splits prod.splits)

text \<open>The answer of an idempotent command, from the result of its store.\<close>

definition idempotent_answer :: "'body \<Rightarrow> (string \<Rightarrow> 'body result) \<Rightarrow> IdempotencyResult \<Rightarrow> 'body Result result" where
  "idempotent_answer zero parse result =
     (case result of IdempotencyConflict \<Rightarrow> Inr (problemResult zero ErrorIdempotencyConflict ''Idempotency conflict'' 409)
      | IdempotencyCreated x \<Rightarrow> parseStoredResult zero parse x | IdempotencyReplayed x \<Rightarrow> parseStoredResult zero parse x)"

lemma executeIdempotent_answer:
  assumes "json_parse encoded = Some val"
  shows "executeIdempotent sha256 service agentDID command key (Some encoded) zero encode parse execute =
    and_then (svc_idempotencyStore service (idempotencyInput sha256 agentDID command key encoded val)
      (and_then execute (\<lambda>created. and_then (call (svc_clock service)) (\<lambda>now. of_result (storeResult encode created now)))))
      (\<lambda>result. of_result (idempotent_answer zero parse result))"
  using assms unfolding executeIdempotent_def
  by (intro ext) (simp add: idempotent_answer_def and_then_def of_result_def ok_def split: IdempotencyResult.splits sum.splits prod.splits)

section \<open>Properties\<close>

text \<open>
  C5. Grant issues a credential only to an entitled Agent: an answer without a problem comes from the
  handler of the requested grant type, called for an enrollment of the Agent that is active and misses
  neither a required claim nor a required document, and it is an object with a credential identifier.
\<close>

theorem credential_only_when_entitled:
  assumes "grantCredential service subject request w = (Inr r, w')" and "res_Problem r = None"
  shows "\<exists>record handler members cred i. fst (es_FindEnrollment (svc_enrollmentStore service) subject w) = Inr (Some record) \<and>
    map_of (svc_grantHandlers service) (grq_GrantType request) = Some handler \<and>
    er_Status record = AgentActive \<and> missingClaims service (er_Claims record) = [] \<and> missingDocumentIDs service record = [] \<and>
    (\<exists>context w1. gth_Grant handler request context w1 = (Inr (res_Body r), w') \<and> gc_AgentDID context = subject \<and>
       gc_GrantType context = grq_GrantType request \<and> cloneEnrollment record = Inr (gc_Enrollment context)) \<and>
    dec_object (res_Body r) = Some (Some members) \<and> map_of members ''credential_id'' = Some cred \<and>
    dec_string cred [] = Some i \<and> i \<noteq> []"
proof -
  obtain enr handler enrollment w1 now w2 credential where g:
    "es_FindEnrollment (svc_enrollmentStore service) subject w = (Inr (Some enr), w1)"
    "map_of (svc_grantHandlers service) (grq_GrantType request) = Some handler"
    "er_Status enr = AgentActive" "missingClaims service (er_Claims enr) = []" "missingDocumentIDs service enr = []"
    "cloneEnrollment enr = Inr enrollment"
    "gth_Grant handler request \<lparr>gc_AgentDID = subject, gc_Enrollment = enrollment, gc_GrantType = grq_GrantType request,
       gc_Now = now\<rparr> w2 = (Inr credential, w')"
    "validatedCredentialObject credential = Inr (res_Body r)"
    by (rule granted [OF assms])
  obtain members cred i where v: "res_Body r = credential" "dec_object credential = Some (Some members)"
    "map_of members ''credential_id'' = Some cred" "dec_string cred [] = Some i" "i \<noteq> []"
    using validated_credential [OF g(8)] by blast
  have "\<exists>context w1. gth_Grant handler request context w1 = (Inr (res_Body r), w') \<and> gc_AgentDID context = subject \<and>
       gc_GrantType context = grq_GrantType request \<and> cloneEnrollment enr = Inr (gc_Enrollment context)"
    using g(6,7) v(1)
    by (intro exI [of _ "\<lparr>gc_AgentDID = subject, gc_Enrollment = enrollment, gc_GrantType = grq_GrantType request,
       gc_Now = now\<rparr>"] exI [of _ w2]) simp
  with g(1-5) v show ?thesis by (auto intro!: exI [of _ enr] exI [of _ handler] exI [of _ members])
qed

definition granting_example :: "unit Service" where
  "granting_example = \<lparr>svc_supportsDocuments = False, svc_authenticationMethods = [],
     svc_clientAssertion = \<lparr>caos_AllowInsecureLoopback = False, caos_ClockSkew = 0, caos_MaximumLifetime = Second\<rparr>,
     svc_claimValueLimits = defaultClaimValueLimits, svc_clock = clock_example, svc_document = document_example,
     svc_enrollmentPolicy = NewStaticEnrollmentPolicy
       \<lparr>ed_UpdateExisting = None, ed_OwnerActionRequired = None, ed_RequirementsPending = None, ed_Status = [],
        ed_VerificationPending = None\<rparr>,
     svc_enrollmentStore = no_enrollments\<lparr>es_FindEnrollment := (\<lambda>d. ok (Some (enrollment_example\<lparr>er_AgentDID := d\<rparr>)))\<rparr>,
     svc_grantHandlers = [(GrantTypeBasic, \<lparr>gth_Grant = (\<lambda>_ _. ok (quote_tildes ''{~credential_id~:~c1~}'')),
       gth_Revoke = (\<lambda>_ _. ok ()), gth_AuthenticateCredential = None, gth_HasCredentialPresentation = None\<rparr>)],
     svc_identifier = ok ''e1'', svc_idempotencyStore = (\<lambda>_ _. fail (External [])), svc_inspectURL = None,
     svc_replayStore = \<lparr>rs_ConsumeReplay = (\<lambda>_ _. ok True)\<rparr>, svc_verifier = (\<lambda>_ _. fail (External []))\<rparr>"

lemma example_granted:
  "case grantCredential granting_example ''did:web:a'' (zero_grant_request\<lparr>grq_GrantType := GrantTypeBasic\<rparr>) () of
     (Inr r, w) \<Rightarrow> res_Problem r = None | _ \<Rightarrow> False"
  by code_simp

theorem credential_only_when_entitled_witness:
  "\<exists>r i cred members. grantCredential granting_example ''did:web:a'' (zero_grant_request\<lparr>grq_GrantType := GrantTypeBasic\<rparr>) () = (Inr r, ()) \<and>
     dec_object (res_Body r) = Some (Some members) \<and> map_of members ''credential_id'' = Some cred \<and>
     dec_string cred [] = Some i \<and> i \<noteq> []"
proof -
  obtain r where r: "grantCredential granting_example ''did:web:a'' (zero_grant_request\<lparr>grq_GrantType := GrantTypeBasic\<rparr>) () = (Inr r, ())"
    "res_Problem r = None"
    using example_granted by (auto split: prod.splits sum.splits)
  from credential_only_when_entitled [OF this] r(1) show ?thesis by blast
qed

text \<open>
  C6. A repeated command is answered as before and not run again. Over the memory idempotency store,
  once a command has answered, the same Agent's same command with the same key and request gets the
  same answer while the record is live, whatever its execution would do now, and only expired records
  change.
\<close>

theorem repeated_command_same_answer:
  assumes "executeIdempotent sha256 service agentDID command key (Some encoded) zero encode parse execute w = (Inr r, w')"
    and "svc_idempotencyStore service = timed_idempotency_store"
    and "json_parse encoded = Some val"
    and "mis_records (fst w') (idempotency_key (idempotencyInput sha256 agentDID command key encoded val)) = Some e"
    and "snd w' < sr_CreatedAt (ir_response e) + 3600 * Second"
  shows "executeIdempotent sha256 service agentDID command key (Some encoded) zero encode parse execute' w' =
    (Inr r, memoryIdempotencyStore_expire (snd w') (fst w'), snd w')"
proof -
  let ?i = "idempotencyInput sha256 agentDID command key encoded val"
  obtain f res where run: "timed_idempotency_store ?i f w = (Inr res, w')" and r: "idempotent_answer zero parse res = Inr r"
    using assms(1,2) by (auto simp: executeIdempotent_answer [OF assms(3)] and_then_Inr)
  have answer: "valid_idempotency_input ?i"
    "case res of IdempotencyCreated r \<Rightarrow> ir_input e = ?i \<and> ir_response e = r
     | IdempotencyReplayed r \<Rightarrow> IdempotencyInput_Matches (ir_input e) ?i \<and> ir_response e = r
     | IdempotencyConflict \<Rightarrow> \<not> IdempotencyInput_Matches (ir_input e) ?i"
    using timed_store_answer [OF run] assms(4) by auto
  have again: "timed_idempotency_store ?i g w' =
    (Inr (if IdempotencyInput_Matches (ir_input e) ?i then IdempotencyReplayed (ir_response e) else IdempotencyConflict),
     memoryIdempotencyStore_expire (snd w') (fst w'), snd w')" for g
    by (rule timed_store_found [OF assms(4,5) answer(1)])
  have "idempotent_answer zero parse (if IdempotencyInput_Matches (ir_input e) ?i then IdempotencyReplayed (ir_response e)
      else IdempotencyConflict) = Inr r"
    using answer(2) r by (cases res) (auto simp: idempotent_answer_def)
  then show ?thesis
    using assms(2) again by (simp add: executeIdempotent_answer [OF assms(3)] and_then_def of_result_def)
qed

definition idempotent_example :: "(memoryIdempotencyStore \<times> time) Service" where
  "idempotent_example = \<lparr>svc_supportsDocuments = False, svc_authenticationMethods = [],
     svc_clientAssertion = \<lparr>caos_AllowInsecureLoopback = False, caos_ClockSkew = 0, caos_MaximumLifetime = Second\<rparr>,
     svc_claimValueLimits = defaultClaimValueLimits, svc_clock = shown_time, svc_document = document_example,
     svc_enrollmentPolicy = (\<lambda>_ _. fail (External [])), svc_enrollmentStore = no_enrollments, svc_grantHandlers = [],
     svc_identifier = ok ''e1'', svc_idempotencyStore = timed_idempotency_store, svc_inspectURL = None,
     svc_replayStore = \<lparr>rs_ConsumeReplay = (\<lambda>_ _. ok True)\<rparr>, svc_verifier = (\<lambda>_ _. fail (External []))\<rparr>"

abbreviation run_example :: "(go_error, memoryIdempotencyStore \<times> time, unit Result) act \<Rightarrow>
    (go_error, memoryIdempotencyStore \<times> time, unit Result) act" where
  "run_example \<equiv> executeIdempotent id idempotent_example ''did:web:a'' IdempotentRevoke ''k'' (Some ''{}'') ()
     (\<lambda>_. Some ''{}'') ParseRevokeResponse"

lemma example_executed:
  "case run_example (ok (successResult 200 ())) (empty_idempotency, 1) of
     (Inr r, w) \<Rightarrow> r = successResult 200 () \<and> snd w = 1 \<and>
       map_option (\<lambda>e. sr_CreatedAt (ir_response e)) (mis_records (fst w)
         (idempotency_key (idempotencyInput id ''did:web:a'' IdempotentRevoke ''k'' ''{}'' (JObj [])))) = Some 1 | _ \<Rightarrow> False"
  by code_simp

theorem repeated_command_same_answer_witness:
  "\<exists>w. run_example (ok (successResult 200 ())) (empty_idempotency, 1) = (Inr (successResult 200 ()), w) \<and>
     fst (run_example (fail ContextDone) w) = Inr (successResult 200 ())"
proof -
  obtain w e where run: "run_example (ok (successResult 200 ())) (empty_idempotency, 1) = (Inr (successResult 200 ()), w)"
    and e: "snd w = 1" "mis_records (fst w)
       (idempotency_key (idempotencyInput id ''did:web:a'' IdempotentRevoke ''k'' ''{}'' (JObj []))) = Some e"
      "sr_CreatedAt (ir_response e) = 1"
    using example_executed by (auto split: prod.splits sum.splits)
  have parsed: "json_parse ''{}'' = Some (JObj [])" by code_simp
  have "run_example (fail ContextDone) w = (Inr (successResult 200 ()), memoryIdempotencyStore_expire (snd w) (fst w), snd w)"
    by (rule repeated_command_same_answer [OF run _ parsed e(2)]) (simp_all add: idempotent_example_def e)
  with run show ?thesis by auto
qed

text \<open>
  C4. Enrolling again changes what an Agent has supplied, never where it stands: over the memory
  store, whatever the request and the policy say, the Agent's record keeps its identifier, its times
  of creation and of its status, and the status itself, so a suspended or terminated Agent stays so;
  and no other Agent's record changes.
\<close>

theorem reenrollment_keeps_standing:
  fixes service :: "(memoryEnrollmentStore \<times> 'x) Service"
  assumes "enrollAgent service agent request w = (x, w')"
    and "svc_enrollmentStore service = NewMemoryEnrollmentStore ctxDone first_part"
    and "mes_records (fst w) agent = Some r" and "er_AgentDID r = agent"
    and clock: "\<And>w. fst (snd (svc_clock service w)) = fst w"
    and policy: "\<And>q c w. fst (snd (svc_enrollmentPolicy service q c w)) = fst w"
  shows "(\<exists>r'. mes_records (fst w') agent = Some r' \<and> standing r' = standing r) \<and>
    (\<forall>other. other \<noteq> agent \<longrightarrow> mes_records (fst w') other = mes_records (fst w) other)"
proof -
  obtain found w1 where find: "memoryEnrollmentStore_FindEnrollment ctxDone first_part agent w = (found, w1)"
    by (cases "memoryEnrollmentStore_FindEnrollment ctxDone first_part agent w")
  have w1: "w1 = w" and found: "(\<exists>e. found = Inl e) \<or> (\<exists>copy. found = Inr (Some copy) \<and> cloneEnrollment r = Inr copy)"
    using find assms(3) by (auto simp: memoryEnrollmentStore_FindEnrollment_def unless_done_def first_part_def and_then_def
        observe_def ok_def fail_def split: if_splits sum.splits)
  have "fst w' = fst w \<or> (\<exists>stored. standing stored = standing r \<and>
      fst w' = (fst w)\<lparr>mes_records := (mes_records (fst w))(agent \<mapsto> stored)\<rparr>)"
    using found
  proof (elim disjE exE conjE)
    fix e assume "found = Inl e"
    then show ?thesis using assms(1,2) find w1 by (simp add: enrollAgent_def NewMemoryEnrollmentStore_def and_then_def Let_def)
  next
    fix copy assume copy: "found = Inr (Some copy)" "cloneEnrollment r = Inr copy"
    have "keeps (\<lambda>w w'. fst w' = fst w) (svc_enrollmentPolicy service q c)" for q c using policy by (simp add: keeps_def)
    then have saves: "saves_once fst (svc_enrollmentStore service) (standing copy) (updateEnrollment service request' copy)" for request'
      using clock by (intro update_saves_once)
    obtain request' where run: "updateEnrollment service request' copy w = (x, w')"
      using assms(1,2) find w1 copy by (auto simp: enrollAgent_def NewMemoryEnrollmentStore_def and_then_def Let_def)
    have "es_SaveEnrollment (svc_enrollmentStore service) = memoryEnrollmentStore_SaveEnrollment ctxDone first_part"
      using assms(2) by (simp add: NewMemoryEnrollmentStore_def)
    then consider "fst w' = fst w" | saved w2 where "w' = snd (memoryEnrollmentStore_SaveEnrollment ctxDone first_part saved w2)"
        "fst w2 = fst w" "standing saved = standing copy"
      using saves [of request', unfolded saves_once_def, rule_format, of w] run by auto
    then show ?thesis
    proof cases
      case 2
      then have "er_AgentDID saved = agent" "standing saved = standing r"
        using assms(4) standing_clone [OF copy(2)] by (auto simp: standing_def)
      then show ?thesis
        using 2(1,2) memory_save [of ctxDone saved w2 _ w'] standing_clone [of saved] by (metis prod.collapse)
    qed simp
  qed
  then show ?thesis using assms(3) by auto
qed

definition terminated_example :: memoryEnrollmentStore where
  "terminated_example = \<lparr>mes_pending = [],
     mes_records = [''did:web:a'' \<mapsto> enrollment_example\<lparr>er_Status := AgentTerminated\<rparr>]\<rparr>"

definition enrolling_example :: "(memoryEnrollmentStore \<times> unit) Service" where
  "enrolling_example = \<lparr>svc_supportsDocuments = False, svc_authenticationMethods = [],
     svc_clientAssertion = \<lparr>caos_AllowInsecureLoopback = False, caos_ClockSkew = 0, caos_MaximumLifetime = Second\<rparr>,
     svc_claimValueLimits = defaultClaimValueLimits, svc_clock = clock_example, svc_document = document_example,
     svc_enrollmentPolicy = NewStaticEnrollmentPolicy
       \<lparr>ed_UpdateExisting = None, ed_OwnerActionRequired = None, ed_RequirementsPending = None, ed_Status = [],
        ed_VerificationPending = None\<rparr>,
     svc_enrollmentStore = NewMemoryEnrollmentStore (\<lambda>_. False) first_part, svc_grantHandlers = [],
     svc_identifier = ok ''e2'', svc_idempotencyStore = (\<lambda>_ _. fail (External [])), svc_inspectURL = None,
     svc_replayStore = \<lparr>rs_ConsumeReplay = (\<lambda>_ _. ok True)\<rparr>, svc_verifier = (\<lambda>_ _. fail (External []))\<rparr>"

theorem reenrollment_keeps_standing_witness:
  "\<exists>r'. mes_records (fst (snd (enrollAgent enrolling_example ''did:web:a'' zero_enroll_request (terminated_example, ())))) ''did:web:a''
     = Some r' \<and> er_Status r' = AgentTerminated"
proof -
  let ?run = "enrollAgent enrolling_example ''did:web:a'' zero_enroll_request (terminated_example, ())"
  have "?run = (fst ?run, snd ?run)" by simp
  from reenrollment_keeps_standing [OF this, of "\<lambda>_. False"]
  have "\<exists>r'. mes_records (fst (snd ?run)) ''did:web:a'' = Some r' \<and>
      standing r' = standing (enrollment_example\<lparr>er_Status := AgentTerminated\<rparr>)"
    by (simp add: enrolling_example_def terminated_example_def enrollment_example_def clock_example_def
        NewStaticEnrollmentPolicy_def staticEnrollmentPolicy_DecideEnrollment_def ok_def)
  then show ?thesis by (auto simp: standing_def)
qed

end
