(* ===== verification/Service_Credentials.thy ===== *)
theory Service_Credentials
  imports Http_Auth Service_Stores
begin

text \<open>
  \<open>service/credentials.go\<close>: the stored-credential grant types, the presentations of a request's
  headers, and the memory credential store with its contract. SHA-256 is a parameter of the store; no
  lemma needs more of it than that it is a function. The records are an association list whose order
  is the map's iteration order.
\<close>

section \<open>Presentations\<close>

text \<open>\<open>headerValues\<close> of authentication.go: fields whose name differs in case only count too.\<close>

definition headerValues :: "Header \<Rightarrow> string \<Rightarrow> string list" where
  "headerValues header name =
     concat (map (\<lambda>(candidate, values). if equal_fold candidate name then values else []) (elems header))"

record credentialPresentation =
  cp_header :: string
  cp_value :: string

definition credentialPresentations :: "GrantType \<Rightarrow> Header \<Rightarrow> credentialPresentation list" where
  "credentialPresentations grantType headers =
     (if grantType = GrantTypeAPIKey then []
      else concat (map (\<lambda>v.
        case ParseProtectedResourceAuthorization v ProtectedResourceStandard of
          Inl _ \<Rightarrow> []
        | Inr parsed \<Rightarrow>
            let expected = (if grantType = GrantTypeBasic then CredentialSchemeBasic else CredentialSchemeBearer) in
            if pra_Scheme parsed = expected
            then [\<lparr>cp_header = ''Authorization'', cp_value = pra_Credentials parsed\<rparr>] else [])
        (headerValues headers ''Authorization'')))"

definition apiKeyPresentations :: "Header \<Rightarrow> string \<Rightarrow> credentialPresentation list" where
  "apiKeyPresentations headers header =
     map (\<lambda>v. \<lparr>cp_header = CanonicalHeaderKey header, cp_value = v\<rparr>) (headerValues headers header)"

section \<open>Credential records\<close>

definition builtInCredentialMetadata :: "BuiltInGrantResponse \<Rightarrow> (string \<times> string) result" where
  "builtInCredentialMetadata credential =
     (case credential of
        OAuthBearer v \<Rightarrow> Inr (oauth_CredentialID v, oauth_ExpiresAt v)
      | APIKey v \<Rightarrow> Inr (key_CredentialID v, key_ExpiresAt v)
      | Basic v \<Rightarrow> Inr (basic_CredentialID v, basic_ExpiresAt v)
      | _ \<Rightarrow> Inl (Text ''AEP credential store requires a built-in credential''))"

definition serviceCredentialRecord ::
  "string \<Rightarrow> BuiltInGrantResponse \<Rightarrow> time \<Rightarrow> ServiceCredentialRecord result" where
  "serviceCredentialRecord agentDID credential createdAt =
     (if agentDID = [] \<or> time_IsZero createdAt
      then Inl (Text ''AEP issued credential requires an Agent DID and issuance time'')
      else case builtInCredentialMetadata credential of
             Inl err \<Rightarrow> Inl err
           | Inr (credentialID, expiresAt) \<Rightarrow>
               (case parse_rfc3339 expiresAt of
                  None \<Rightarrow> Inl (Text ''AEP issued credential must expire after issuance'')
                | Some expiry \<Rightarrow>
                    if \<not> createdAt < expiry then Inl (Text ''AEP issued credential must expire after issuance'')
                    else Inr \<lparr>scr_AgentDID = agentDID, scr_CreatedAt = createdAt, scr_Credential = Some credential,
                           scr_CredentialID = credentialID, scr_ExpiresAt = expiry, scr_GrantType = GrantType_of credential\<rparr>))"

section \<open>Stored-credential grant types\<close>

definition cloneGrantTypeConfig :: "GrantTypeConfig \<Rightarrow> GrantTypeConfig" where
  "cloneGrantTypeConfig val = val\<lparr>gtc_Additional := gtc_Additional val\<rparr>"

text \<open>The loop over the configured header names; the first argument holds the names seen.\<close>

fun checkHeaderNames :: "string list \<Rightarrow> string list \<Rightarrow> go_error option" where
  "checkHeaderNames seen [] = None"
| "checkHeaderNames seen (header # rest) =
     (if \<not> IsHTTPFieldName header
      then Some (Text ''AEP API-key header_names configuration contains an invalid HTTP field name'')
      else if to_lower header \<in> set seen
      then Some (Text ''AEP API-key header_names configuration contains a duplicate field name'')
      else checkHeaderNames (to_lower header # seen) rest)"

text \<open>No names configured is \<open>None\<close>.\<close>

definition configuredAPIKeyHeaders :: "GrantTypeConfig \<Rightarrow> string slice result" where
  "configuredAPIKeyHeaders config =
     (case map_of (gtc_Additional config) ''header_names'' of
        None \<Rightarrow> Inr None
      | Some raw \<Rightarrow>
          (case dec_strings raw None of
             Some (Some headerNames) \<Rightarrow>
               (case checkHeaderNames [] headerNames of Some err \<Rightarrow> Inl err | None \<Rightarrow> Inr (Some headerNames))
           | _ \<Rightarrow> Inl (Text ''AEP API-key header_names configuration is invalid'')))"

definition validateIssuedCredentialConfig :: "BuiltInGrantResponse \<Rightarrow> GrantTypeConfig \<Rightarrow> go_error option" where
  "validateIssuedCredentialConfig credential config =
     (case credential of
        APIKey apiKey \<Rightarrow>
          (case configuredAPIKeyHeaders config of
             Inl err \<Rightarrow> Some err
           | Inr None \<Rightarrow> None
           | Inr (Some headerNames) \<Rightarrow>
               if list_ex (\<lambda>header. equal_fold header (key_Header apiKey)) headerNames then None
               else Some (Text ''AEP issued API-key header is not advertised by the Service''))
      | _ \<Rightarrow> None)"

record ('w, 'c) storedCredentialHandler =
  sch_config :: GrantTypeConfig
  sch_grantType :: GrantType
  sch_issue :: "('w, 'c) BuiltInCredentialIssuer"
  sch_store :: "'w ServiceCredentialStore"

text \<open>\<open>wrap\<close> is the conversion of the issuer's credential type to the interface.\<close>

definition storedCredentialHandler_Grant ::
  "('c \<Rightarrow> BuiltInGrantResponse) \<Rightarrow> ('w, 'c) storedCredentialHandler \<Rightarrow> GrantRequest \<Rightarrow> GrantContext \<Rightarrow>
   (go_error, 'w, RawMessage) act" where
  "storedCredentialHandler_Grant wrap handler request context =
     and_then (sch_issue handler request context) (\<lambda>issued.
     let credential = wrap issued in
     case ValidateBuiltInGrantResponse (sch_grantType handler) (Some credential) of
       Some err \<Rightarrow> fail err
     | None \<Rightarrow>
         (let encoded = enc_grant_response credential in
          case ParseBuiltInGrantResponse (sch_grantType handler) encoded of
            Inl err \<Rightarrow> fail err
          | Inr parsed \<Rightarrow>
              (case validateIssuedCredentialConfig parsed (sch_config handler) of
                 Some err \<Rightarrow> fail err
               | None \<Rightarrow>
                   (case serviceCredentialRecord (gc_AgentDID context) parsed (gc_Now context) of
                      Inl err \<Rightarrow> fail err
                    | Inr record \<Rightarrow>
                        and_then (scs_SaveCredential (sch_store handler) record) (\<lambda>_. ok encoded)))))"

definition storedCredentialHandler_Revoke ::
  "('w, 'c) storedCredentialHandler \<Rightarrow> RevokeRequest \<Rightarrow> RevokeContext \<Rightarrow> (go_error, 'w, unit) act" where
  "storedCredentialHandler_Revoke handler request context =
     (if rrq_CredentialID request \<noteq> []
      then scs_RevokeCredential (sch_store handler) (rc_AgentDID context) (sch_grantType handler)
             (rrq_CredentialID request) (rc_Now context)
      else scs_RevokeGrantType (sch_store handler) (rc_AgentDID context) (sch_grantType handler) (rc_Now context))"

definition storedCredentialHandler_AuthenticateCredential ::
  "('w, 'c) storedCredentialHandler \<Rightarrow> CredentialAuthenticationInput \<Rightarrow>
   (go_error, 'w, AuthenticatedPrincipal option) act" where
  "storedCredentialHandler_AuthenticateCredential handler input =
     and_then (scs_AuthenticateCredential (sch_store handler) (sch_grantType handler) input) (\<lambda>found.
     case found of
       None \<Rightarrow> ok None
     | Some match \<Rightarrow>
         if cm_AgentDID match = [] \<or> cm_CredentialID match = [] \<or> \<not> cai_Now input < cm_ExpiresAt match \<or>
            cm_GrantType match \<noteq> sch_grantType handler
         then fail (Text ''AEP credential store returned an invalid match'')
         else ok (Some \<lparr>apr_AgentDID = cm_AgentDID match,
                apr_AuthenticationKind = AuthenticationKindSessionCredential,
                apr_AuthenticationMethod = sch_grantType handler, apr_CredentialID = cm_CredentialID match,
                apr_GrantType = sch_grantType handler, apr_Scopes = append_nil (elems (cm_Scopes match))\<rparr>))"

definition storedCredentialHandler_HasCredentialPresentation ::
  "('w, 'c) storedCredentialHandler \<Rightarrow> CredentialAuthenticationInput \<Rightarrow> (go_error, 'w, bool) act" where
  "storedCredentialHandler_HasCredentialPresentation handler input =
     scs_HasCredentialPresentation (sch_store handler) (sch_grantType handler) input"

definition storedCredentialGrantType ::
  "('c \<Rightarrow> BuiltInGrantResponse) \<Rightarrow> GrantType \<Rightarrow> GrantTypeConfig \<Rightarrow> ('w, 'c) BuiltInCredentialIssuer option \<Rightarrow>
   'w ServiceCredentialStore option \<Rightarrow> 'w GrantTypeDefinition result" where
  "storedCredentialGrantType wrap grantType config0 issuer store =
     (case (issuer, store) of
        (Some issuer, Some store) \<Rightarrow>
          (let config = (cloneGrantTypeConfig config0)\<lparr>gtc_SupportsPerCredentialRevoke := ''true''\<rparr>;
               handler = \<lparr>sch_config = config, sch_grantType = grantType, sch_issue = issuer, sch_store = store\<rparr>;
               definition = \<lparr>gtd_Config = config, gtd_GrantType = grantType,
                 gtd_Handler = Some \<lparr>gth_Grant = storedCredentialHandler_Grant wrap handler,
                   gth_Revoke = storedCredentialHandler_Revoke handler,
                   gth_AuthenticateCredential = Some (storedCredentialHandler_AuthenticateCredential handler),
                   gth_HasCredentialPresentation = Some (storedCredentialHandler_HasCredentialPresentation handler)\<rparr>\<rparr> in
           if grantType = GrantTypeAPIKey
           then (case configuredAPIKeyHeaders config of Inl err \<Rightarrow> Inl err | Inr _ \<Rightarrow> Inr definition)
           else Inr definition)
      | _ \<Rightarrow> Inl (Text ''AEP stored credential Grant Type requires an issuer and store''))"

definition StoredOAuthBearerGrantType where
  "StoredOAuthBearerGrantType = storedCredentialGrantType OAuthBearer GrantTypeOAuthBearer"

definition StoredAPIKeyGrantType where
  "StoredAPIKeyGrantType = storedCredentialGrantType APIKey GrantTypeAPIKey"

definition StoredBasicGrantType where
  "StoredBasicGrantType = storedCredentialGrantType Basic GrantTypeBasic"

section \<open>The memory store\<close>

record memoryServiceCredentialRecord =
  mcr_agentDID :: string
  mcr_credentialID :: string
  mcr_expiresAt :: time
  mcr_grantType :: GrantType
  mcr_header :: string
  mcr_revokedAt :: time
  mcr_scopes :: "string slice"
  mcr_verifier :: string

type_synonym memoryServiceCredentialStore = "(string \<times> memoryServiceCredentialRecord) list"

text \<open>The secret a credential is presented by, the header that carries it, and its scopes.\<close>

definition credentialSecret :: "BuiltInGrantResponse \<Rightarrow> (string \<times> string \<times> string slice) result" where
  "credentialSecret credential =
     (case credential of
        OAuthBearer v \<Rightarrow> Inr (oauth_AccessToken v, ''Authorization'', append_nil (elems (oauth_Scopes v)))
      | APIKey v \<Rightarrow> Inr (key_APIKey v, CanonicalHeaderKey (key_Header v), append_nil (elems (key_Scopes v)))
      | Basic v \<Rightarrow> Inr (base64_encode (basic_Username v @ '':'' @ basic_Password v), ''Authorization'',
                      append_nil (elems (basic_Scopes v)))
      | _ \<Rightarrow> Inl (Text ''AEP credential store requires a built-in credential''))"

definition memoryCredentialRecord ::
  "(string \<Rightarrow> string) \<Rightarrow> ServiceCredentialRecord \<Rightarrow> memoryServiceCredentialRecord result" where
  "memoryCredentialRecord sha256 record =
     (if scr_AgentDID record = [] \<or> scr_CredentialID record = [] \<or> time_IsZero (scr_CreatedAt record) \<or>
         \<not> scr_CreatedAt record < scr_ExpiresAt record \<or> scr_GrantType record = [] \<or> scr_Credential record = None
      then Inl (Text ''AEP credential store received an invalid record'')
      else case ValidateBuiltInGrantResponse (scr_GrantType record) (scr_Credential record) of
        Some err \<Rightarrow> Inl err
      | None \<Rightarrow>
     (case ParseBuiltInGrantResponse (scr_GrantType record) (enc_grant_response (the (scr_Credential record))) of
        Inl err \<Rightarrow> Inl err
      | Inr credential \<Rightarrow>
     (case builtInCredentialMetadata credential of
        Inl err \<Rightarrow> Inl (Text ''AEP credential record metadata does not match its credential'')
      | Inr (credentialID, expiresAt) \<Rightarrow>
          if parse_rfc3339 expiresAt \<noteq> Some (scr_ExpiresAt record) \<or> credentialID \<noteq> scr_CredentialID record
          then Inl (Text ''AEP credential record metadata does not match its credential'')
          else (case credentialSecret credential of
                  Inl err \<Rightarrow> Inl err
                | Inr (secret, header, scopes) \<Rightarrow>
                    Inr \<lparr>mcr_agentDID = scr_AgentDID record, mcr_credentialID = scr_CredentialID record,
                         mcr_expiresAt = scr_ExpiresAt record, mcr_grantType = scr_GrantType record,
                         mcr_header = header, mcr_revokedAt = zero_time, mcr_scopes = scopes,
                         mcr_verifier = sha256 secret\<rparr>))))"

definition memoryServiceCredentialStore_SaveCredential ::
  "(string \<Rightarrow> string) \<Rightarrow> ('w \<Rightarrow> bool) \<Rightarrow> (memoryServiceCredentialStore, 'w) part \<Rightarrow> ServiceCredentialRecord \<Rightarrow>
   (go_error, 'w, unit) act" where
  "memoryServiceCredentialStore_SaveCredential sha256 ctxDone p record =
     unless_done ctxDone
       (case memoryCredentialRecord sha256 record of
          Inl err \<Rightarrow> fail err
        | Inr stored \<Rightarrow> at p (\<lambda>s.
            if map_of s (scr_CredentialID record) \<noteq> None
            then (Inl (Text ''AEP credential identifier has already been issued''), s)
            else if list_ex (\<lambda>(_, existing). mcr_grantType existing = mcr_grantType stored \<and>
                   mcr_header existing = mcr_header stored \<and> mcr_verifier existing = mcr_verifier stored) s
            then (Inl (Text ''AEP credential secret has already been issued''), s)
            else (Inr (), AList.update (scr_CredentialID record) stored s)))"

text \<open>The presentations the store considers: for API keys, under every header of a stored key.\<close>

definition storePresentations ::
  "memoryServiceCredentialStore \<Rightarrow> GrantType \<Rightarrow> Header \<Rightarrow> credentialPresentation list" where
  "storePresentations s grantType headers =
     credentialPresentations grantType headers @
     (if grantType = GrantTypeAPIKey
      then concat (map (apiKeyPresentations headers)
             (remdups (map (\<lambda>(_, record). mcr_header record) (filter (\<lambda>(_, record). mcr_grantType record = grantType) s))))
      else [])"

text \<open>The loop over the records.\<close>

fun matchRecord ::
  "(string \<Rightarrow> string) \<Rightarrow> GrantType \<Rightarrow> time \<Rightarrow> credentialPresentation \<Rightarrow> memoryServiceCredentialStore \<Rightarrow> CredentialMatch option" where
  "matchRecord sha256 grantType now presentation [] = None"
| "matchRecord sha256 grantType now presentation ((_, record) # rest) =
     (if mcr_grantType record \<noteq> grantType \<or> mcr_header record \<noteq> cp_header presentation \<or>
         \<not> time_IsZero (mcr_revokedAt record) \<or> \<not> now < mcr_expiresAt record
      then matchRecord sha256 grantType now presentation rest
      else if sha256 (cp_value presentation) = mcr_verifier record
      then Some \<lparr>cm_AgentDID = mcr_agentDID record, cm_CredentialID = mcr_credentialID record,
                 cm_ExpiresAt = mcr_expiresAt record, cm_GrantType = mcr_grantType record,
                 cm_Scopes = append_nil (elems (mcr_scopes record))\<rparr>
      else matchRecord sha256 grantType now presentation rest)"

definition memoryServiceCredentialStore_AuthenticateCredential ::
  "(string \<Rightarrow> string) \<Rightarrow> ('w \<Rightarrow> bool) \<Rightarrow> (memoryServiceCredentialStore, 'w) part \<Rightarrow> GrantType \<Rightarrow>
   CredentialAuthenticationInput \<Rightarrow> (go_error, 'w, CredentialMatch option) act" where
  "memoryServiceCredentialStore_AuthenticateCredential sha256 ctxDone p grantType input =
     unless_done ctxDone
       (observe (\<lambda>w. case storePresentations (part_get p w) grantType (cai_Headers input) of
          [presentation] \<Rightarrow> matchRecord sha256 grantType (cai_Now input) presentation (part_get p w)
        | _ \<Rightarrow> None))"

definition memoryServiceCredentialStore_HasCredentialPresentation ::
  "('w \<Rightarrow> bool) \<Rightarrow> (memoryServiceCredentialStore, 'w) part \<Rightarrow> GrantType \<Rightarrow> CredentialAuthenticationInput \<Rightarrow>
   (go_error, 'w, bool) act" where
  "memoryServiceCredentialStore_HasCredentialPresentation ctxDone p grantType input =
     unless_done ctxDone
       (if grantType \<noteq> GrantTypeAPIKey then ok (credentialPresentations grantType (cai_Headers input) \<noteq> [])
        else observe (\<lambda>w. list_ex (\<lambda>(_, record). mcr_grantType record = grantType \<and>
               headerValues (cai_Headers input) (mcr_header record) \<noteq> []) (part_get p w)))"

definition memoryServiceCredentialStore_RevokeCredential ::
  "('w \<Rightarrow> bool) \<Rightarrow> (memoryServiceCredentialStore, 'w) part \<Rightarrow> string \<Rightarrow> GrantType \<Rightarrow> string \<Rightarrow> time \<Rightarrow>
   (go_error, 'w, unit) act" where
  "memoryServiceCredentialStore_RevokeCredential ctxDone p agentDID grantType credentialID revokedAt =
     unless_done ctxDone
       (if time_IsZero revokedAt then fail (Text ''AEP credential revocation requires a time'')
        else at p (\<lambda>s.
          case map_of s credentialID of
            None \<Rightarrow> (Inr (), s)
          | Some record \<Rightarrow>
              if mcr_agentDID record = agentDID \<and> mcr_grantType record = grantType
              then (Inr (), AList.update credentialID (record\<lparr>mcr_revokedAt := revokedAt\<rparr>) s)
              else (Inr (), s)))"

definition memoryServiceCredentialStore_RevokeGrantType ::
  "('w \<Rightarrow> bool) \<Rightarrow> (memoryServiceCredentialStore, 'w) part \<Rightarrow> string \<Rightarrow> GrantType \<Rightarrow> time \<Rightarrow>
   (go_error, 'w, unit) act" where
  "memoryServiceCredentialStore_RevokeGrantType ctxDone p agentDID grantType revokedAt =
     unless_done ctxDone
       (if time_IsZero revokedAt then fail (Text ''AEP credential revocation requires a time'')
        else at p (\<lambda>s.
          (Inr (), map (\<lambda>(credentialID, record). (credentialID,
             if mcr_agentDID record = agentDID \<and> mcr_grantType record = grantType
             then record\<lparr>mcr_revokedAt := revokedAt\<rparr> else record)) s)))"

definition NewMemoryServiceCredentialStore ::
  "(string \<Rightarrow> string) \<Rightarrow> ('w \<Rightarrow> bool) \<Rightarrow> (memoryServiceCredentialStore, 'w) part \<Rightarrow> 'w ServiceCredentialStore" where
  "NewMemoryServiceCredentialStore sha256 ctxDone p =
     \<lparr>scs_AuthenticateCredential = memoryServiceCredentialStore_AuthenticateCredential sha256 ctxDone p,
      scs_HasCredentialPresentation = memoryServiceCredentialStore_HasCredentialPresentation ctxDone p,
      scs_RevokeCredential = memoryServiceCredentialStore_RevokeCredential ctxDone p,
      scs_RevokeGrantType = memoryServiceCredentialStore_RevokeGrantType ctxDone p,
      scs_SaveCredential = memoryServiceCredentialStore_SaveCredential sha256 ctxDone p\<rparr>"

lemmas service_credential_defs [go_defs] =
  headerValues_def credentialPresentations_def apiKeyPresentations_def builtInCredentialMetadata_def
  serviceCredentialRecord_def cloneGrantTypeConfig_def configuredAPIKeyHeaders_def
  validateIssuedCredentialConfig_def storedCredentialHandler_Grant_def storedCredentialHandler_Revoke_def
  storedCredentialHandler_AuthenticateCredential_def storedCredentialHandler_HasCredentialPresentation_def
  storedCredentialGrantType_def StoredOAuthBearerGrantType_def StoredAPIKeyGrantType_def
  StoredBasicGrantType_def credentialSecret_def memoryCredentialRecord_def
  memoryServiceCredentialStore_SaveCredential_def storePresentations_def
  memoryServiceCredentialStore_AuthenticateCredential_def
  memoryServiceCredentialStore_HasCredentialPresentation_def
  memoryServiceCredentialStore_RevokeCredential_def memoryServiceCredentialStore_RevokeGrantType_def
  NewMemoryServiceCredentialStore_def

section \<open>Contract\<close>

text \<open>
  A credential store knows the owner and grant type of every credential it holds and which of them are
  revoked. A revocation reaches what it names, nothing undoes one, and authentication returns only a
  credential that is held, unrevoked and unexpired.
\<close>

datatype credential_op =
  Save ServiceCredentialRecord
| Authenticate GrantType CredentialAuthenticationInput
| HasPresentation GrantType CredentialAuthenticationInput
| RevokeOne string GrantType string time
| RevokeAll string GrantType time

fun run_credential_op :: "'w ServiceCredentialStore \<Rightarrow> credential_op \<Rightarrow> 'w \<Rightarrow> 'w" where
  "run_credential_op store (Save r) w = snd (scs_SaveCredential store r w)"
| "run_credential_op store (Authenticate g i) w = snd (scs_AuthenticateCredential store g i w)"
| "run_credential_op store (HasPresentation g i) w = snd (scs_HasCredentialPresentation store g i w)"
| "run_credential_op store (RevokeOne a g c t) w = snd (scs_RevokeCredential store a g c t w)"
| "run_credential_op store (RevokeAll a g t) w = snd (scs_RevokeGrantType store a g t w)"

locale credential_store =
  fixes store :: "'w ServiceCredentialStore"
    and holder :: "'w \<Rightarrow> string \<Rightarrow> (string \<times> GrantType) option"
    and revoked :: "'w \<Rightarrow> string \<Rightarrow> bool"
    and inv :: "'w \<Rightarrow> bool"
  assumes revokes_one: "scs_RevokeCredential store a g c t w = (Inr (), w') \<Longrightarrow> holder w c = Some (a, g) \<Longrightarrow> revoked w' c"
    and revokes_all: "scs_RevokeGrantType store a g t w = (Inr (), w') \<Longrightarrow> holder w c = Some (a, g) \<Longrightarrow> revoked w' c"
    and keeps_inv: "inv w \<Longrightarrow> inv (run_credential_op store op w)"
    and stays_revoked: "revoked w c \<Longrightarrow> revoked (run_credential_op store op w) c"
    and authenticates: "scs_AuthenticateCredential store g i w = (Inr (Some m), w') \<Longrightarrow> inv w \<Longrightarrow>
      holder w (cm_CredentialID m) = Some (cm_AgentDID m, g) \<and> \<not> revoked w (cm_CredentialID m) \<and>
      cai_Now i < cm_ExpiresAt m"
begin

lemma history_keeps_inv: "inv w \<Longrightarrow> inv (fold (run_credential_op store) ops w)"
  by (induction ops arbitrary: w) (auto intro: keeps_inv)

lemma history_stays_revoked: "revoked w c \<Longrightarrow> revoked (fold (run_credential_op store) ops w) c"
  by (induction ops arbitrary: w) (auto intro: stays_revoked)

lemma revoked_never_authenticates:
  assumes "scs_RevokeCredential store a g c t w = (Inr (), w') \<or> scs_RevokeGrantType store a g t w = (Inr (), w')"
    and "inv w" and "holder w c = Some (a, g)"
    and "scs_AuthenticateCredential store g' i (fold (run_credential_op store) ops w') = (Inr (Some m), w'')"
  shows "cm_CredentialID m \<noteq> c"
proof -
  have "revoked w' c" using assms(1,3) revokes_one revokes_all by blast
  moreover have "inv w'"
    using assms(1,2) keeps_inv [of w "RevokeOne a g c t"] keeps_inv [of w "RevokeAll a g t"] by auto
  ultimately show ?thesis
    using history_stays_revoked authenticates [OF assms(4)] history_keeps_inv by metis
qed

end

definition memory_holder ::
  "(memoryServiceCredentialStore, 'w) part \<Rightarrow> 'w \<Rightarrow> string \<Rightarrow> (string \<times> GrantType) option" where
  "memory_holder p w c = map_option (\<lambda>r. (mcr_agentDID r, mcr_grantType r)) (map_of (part_get p w) c)"

definition memory_revoked :: "(memoryServiceCredentialStore, 'w) part \<Rightarrow> 'w \<Rightarrow> string \<Rightarrow> bool" where
  "memory_revoked p w c \<longleftrightarrow> (\<exists>r. map_of (part_get p w) c = Some r \<and> \<not> time_IsZero (mcr_revokedAt r))"

text \<open>The invariant of the store: keys and secrets are unique, and a record's key is its identifier.\<close>

definition credentials_ok :: "memoryServiceCredentialStore \<Rightarrow> bool" where
  "credentials_ok s \<longleftrightarrow> keys_distinct s \<and> (\<forall>(c, r) \<in> set s. mcr_credentialID r = c) \<and>
     distinct (map (\<lambda>(c, r). (mcr_grantType r, mcr_header r, mcr_verifier r)) s)"

lemma matchRecord_Some:
  assumes "matchRecord sha256 g now pr s = Some m"
  shows "\<exists>c r. (c, r) \<in> set s \<and> mcr_grantType r = g \<and> mcr_header r = cp_header pr \<and> time_IsZero (mcr_revokedAt r) \<and>
    now < mcr_expiresAt r \<and> sha256 (cp_value pr) = mcr_verifier r \<and> cm_AgentDID m = mcr_agentDID r \<and>
    cm_CredentialID m = mcr_credentialID r \<and> cm_ExpiresAt m = mcr_expiresAt r \<and> cm_GrantType m = g \<and>
    elems (cm_Scopes m) = elems (mcr_scopes r)"
  using assms by (induction s) (fastforce split: if_splits)+

lemma credentials_ok_record:
  "credentials_ok s \<Longrightarrow> (c, r) \<in> set s \<Longrightarrow> map_of s (mcr_credentialID r) = Some r \<and> mcr_credentialID r = c"
  by (auto simp: credentials_ok_def)

lemma update_new: "map_of s k = None \<Longrightarrow> AList.update k v s = s @ [(k, v)]"
  by (induction s) (auto split: if_splits)

definition revoke_where ::
  "(string \<Rightarrow> memoryServiceCredentialRecord \<Rightarrow> bool) \<Rightarrow> time \<Rightarrow> memoryServiceCredentialStore \<Rightarrow> memoryServiceCredentialStore" where
  "revoke_where P t s = map (\<lambda>(c, r). (c, if P c r then r\<lparr>mcr_revokedAt := t\<rparr> else r)) s"

lemma revoke_where_keys: "map fst (revoke_where P t s) = map fst s"
  by (induction s) (auto simp: revoke_where_def)

lemma revoke_where_secrets:
  "map (\<lambda>(c, r). (mcr_grantType r, mcr_header r, mcr_verifier r)) (revoke_where P t s) =
   map (\<lambda>(c, r). (mcr_grantType r, mcr_header r, mcr_verifier r)) s"
  by (induction s) (auto simp: revoke_where_def)

lemma map_of_revoke_where:
  "map_of (revoke_where P t s) c = map_option (\<lambda>r. if P c r then r\<lparr>mcr_revokedAt := t\<rparr> else r) (map_of s c)"
  unfolding revoke_where_def by (rule map_of_map_values)

lemma credentials_ok_revoke: "credentials_ok s \<Longrightarrow> credentials_ok (revoke_where P t s)"
  unfolding credentials_ok_def revoke_where_keys revoke_where_secrets by (auto simp: revoke_where_def)

lemma update_as_map:
  "keys_distinct s \<Longrightarrow> map_of s k = Some r \<Longrightarrow>
     AList.update k (r\<lparr>mcr_revokedAt := t\<rparr>) s = revoke_where (\<lambda>c _. c = k) t s"
proof (induction s)
  case (Cons e s)
  obtain c x where e: "e = (c, x)" by (cases e)
  show ?case
  proof (cases "c = k")
    case True
    then have "\<forall>(c', y) \<in> set s. c' \<noteq> k" using Cons.prems(1) e by force
    then have "revoke_where (\<lambda>c _. c = k) t s = s" by (induction s) (auto simp: revoke_where_def)
    then show ?thesis using True e Cons.prems by (simp add: revoke_where_def)
  qed (use Cons e in \<open>simp add: revoke_where_def\<close>)
qed simp

lemma memory_record_fields:
  assumes "memoryCredentialRecord sha256 r = Inr stored"
  shows "mcr_credentialID stored = scr_CredentialID r \<and> mcr_agentDID stored = scr_AgentDID r \<and>
    mcr_grantType stored = scr_GrantType r \<and> mcr_expiresAt stored = scr_ExpiresAt r \<and> time_IsZero (mcr_revokedAt stored)"
  using assms by (auto simp: memoryCredentialRecord_def time_IsZero_def split: if_splits option.splits sum.splits prod.splits)

lemma save_cases:
  assumes "memoryServiceCredentialStore_SaveCredential sha256 ctxDone p r w = (x, w')"
  shows "(w' = w \<or> w' = part_put p (part_get p w) w) \<and> x \<noteq> Inr () \<or>
    (\<exists>stored. memoryCredentialRecord sha256 r = Inr stored \<and> x = Inr () \<and>
       map_of (part_get p w) (scr_CredentialID r) = None \<and>
       (\<forall>(_, e) \<in> set (part_get p w). (mcr_grantType e, mcr_header e, mcr_verifier e) \<noteq>
          (mcr_grantType stored, mcr_header stored, mcr_verifier stored)) \<and>
       w' = part_put p (part_get p w @ [(scr_CredentialID r, stored)]) w)"
  using assms
  by (auto simp: memoryServiceCredentialStore_SaveCredential_def unless_done_def fail_def on_part_eq list_ex_iff
      update_new split: if_splits sum.splits)

text \<open>The states a revocation can leave.\<close>

lemma revoke_one_cases:
  assumes "memoryServiceCredentialStore_RevokeCredential ctxDone p a g c t w = (x, w')"
    and "keys_distinct (part_get p w)"
  shows "(w' = w \<or> w' = part_put p (part_get p w) w) \<and>
      (x = Inr () \<longrightarrow> (\<forall>r. map_of (part_get p w) c = Some r \<longrightarrow> \<not> (mcr_agentDID r = a \<and> mcr_grantType r = g))) \<or>
    (x = Inr () \<and> \<not> time_IsZero t \<and> w' = part_put p (revoke_where (\<lambda>k _. k = c) t (part_get p w)) w)"
proof (cases "map_of (part_get p w) c")
  case None
  then show ?thesis using assms(1)
    by (auto simp: memoryServiceCredentialStore_RevokeCredential_def unless_done_def fail_def on_part_eq split: if_splits)
next
  case (Some r)
  then show ?thesis using assms(1) update_as_map [OF assms(2) Some]
    by (auto simp: memoryServiceCredentialStore_RevokeCredential_def unless_done_def fail_def on_part_eq
        simp del: map_of_eq_Some_iff split: if_splits)
qed

lemma revoke_all_cases:
  assumes "memoryServiceCredentialStore_RevokeGrantType ctxDone p a g t w = (x, w')"
  shows "w' = w \<and> x \<noteq> Inr () \<or>
    (x = Inr () \<and> \<not> time_IsZero t \<and>
     w' = part_put p (revoke_where (\<lambda>_ r. mcr_agentDID r = a \<and> mcr_grantType r = g) t (part_get p w)) w)"
  using assms
  by (auto simp: memoryServiceCredentialStore_RevokeGrantType_def unless_done_def fail_def on_part_eq
      revoke_where_def split: if_splits)

lemma reads_nothing:
  "memoryServiceCredentialStore_AuthenticateCredential sha256 ctxDone p g i w = (x, w') \<Longrightarrow> w' = w"
  "memoryServiceCredentialStore_HasCredentialPresentation ctxDone p g i w = (y, w') \<Longrightarrow> w' = w"
  by (auto simp: memoryServiceCredentialStore_AuthenticateCredential_def
      memoryServiceCredentialStore_HasCredentialPresentation_def unless_done_def split: if_splits)

text \<open>Revocations and reads, for a store whose keys need not be known to be distinct.\<close>

lemma revoke_one_revoked:
  assumes "memoryServiceCredentialStore_RevokeCredential ctxDone p a g c t w = (x, w')" and "world_part p"
  shows "(memory_revoked p w k \<longrightarrow> memory_revoked p w' k) \<and>
    (x = Inr () \<longrightarrow> memory_holder p w c = Some (a, g) \<longrightarrow> memory_revoked p w' c)"
  using assms(1) world_part.get_put [OF assms(2)]
  by (auto simp: memoryServiceCredentialStore_RevokeCredential_def unless_done_def fail_def on_part_eq
      memory_revoked_def memory_holder_def split: if_splits option.splits)

locale memory_credentials = world_part p for p :: "(memoryServiceCredentialStore, 'w) part" +
  fixes sha256 :: "string \<Rightarrow> string" and ctxDone :: "'w \<Rightarrow> bool"

sublocale memory_credentials \<subseteq> credentials: credential_store "NewMemoryServiceCredentialStore sha256 ctxDone p"
  "memory_holder p" "memory_revoked p" "\<lambda>w. credentials_ok (part_get p w)"
proof
  fix a g c t w w'
  assume "scs_RevokeCredential (NewMemoryServiceCredentialStore sha256 ctxDone p) a g c t w = (Inr (), w')"
    and "memory_holder p w c = Some (a, g)"
  then show "memory_revoked p w' c"
    using revoke_one_revoked [of ctxDone p a g c t w "Inr ()" w'] world_part_axioms
    by (simp add: NewMemoryServiceCredentialStore_def)
next
  fix a g t w w' c
  assume "scs_RevokeGrantType (NewMemoryServiceCredentialStore sha256 ctxDone p) a g t w = (Inr (), w')"
    and "memory_holder p w c = Some (a, g)"
  then show "memory_revoked p w' c"
    using revoke_all_cases [of ctxDone p a g t w "Inr ()" w']
    by (auto simp: NewMemoryServiceCredentialStore_def memory_revoked_def memory_holder_def map_of_revoke_where)
next
  fix w op
  assume inv: "credentials_ok (part_get p w)"
  then have keys: "keys_distinct (part_get p w)" by (simp add: credentials_ok_def)
  show "credentials_ok (part_get p (run_credential_op (NewMemoryServiceCredentialStore sha256 ctxDone p) op w))"
  proof (cases op)
    case (Save r)
    obtain x w' where run: "memoryServiceCredentialStore_SaveCredential sha256 ctxDone p r w = (x, w')"
      by (cases "memoryServiceCredentialStore_SaveCredential sha256 ctxDone p r w")
    have "credentials_ok (part_get p w')"
      using save_cases [OF run] inv
      by (fastforce simp: credentials_ok_def map_of_eq_None_iff dest: memory_record_fields)
    then show ?thesis using run Save by (simp add: NewMemoryServiceCredentialStore_def)
  next
    case (Authenticate g i)
    then show ?thesis using inv reads_nothing(1)
      by (metis NewMemoryServiceCredentialStore_def ServiceCredentialStore.select_convs(1) prod.collapse run_credential_op.simps(2))
  next
    case (HasPresentation g i)
    then show ?thesis using inv reads_nothing(2)
      by (metis NewMemoryServiceCredentialStore_def ServiceCredentialStore.select_convs(2) prod.collapse run_credential_op.simps(3))
  next
    case (RevokeOne a g c t)
    obtain x w' where run: "memoryServiceCredentialStore_RevokeCredential ctxDone p a g c t w = (x, w')"
      by (cases "memoryServiceCredentialStore_RevokeCredential ctxDone p a g c t w")
    have "credentials_ok (part_get p w')"
      using revoke_one_cases [OF run keys] inv by (auto intro: credentials_ok_revoke)
    then show ?thesis using run RevokeOne by (simp add: NewMemoryServiceCredentialStore_def)
  next
    case (RevokeAll a g t)
    obtain x w' where run: "memoryServiceCredentialStore_RevokeGrantType ctxDone p a g t w = (x, w')"
      by (cases "memoryServiceCredentialStore_RevokeGrantType ctxDone p a g t w")
    have "credentials_ok (part_get p w')"
      using revoke_all_cases [OF run] inv by (auto intro: credentials_ok_revoke)
    then show ?thesis using run RevokeAll by (simp add: NewMemoryServiceCredentialStore_def)
  qed
next
  fix w c op
  assume rev: "memory_revoked p w c"
  show "memory_revoked p (run_credential_op (NewMemoryServiceCredentialStore sha256 ctxDone p) op w) c"
  proof (cases op)
    case (Save r)
    obtain x w' where run: "memoryServiceCredentialStore_SaveCredential sha256 ctxDone p r w = (x, w')"
      by (cases "memoryServiceCredentialStore_SaveCredential sha256 ctxDone p r w")
    have "memory_revoked p w' c"
      using save_cases [OF run] rev by (auto simp: memory_revoked_def map_add_Some_iff)
    then show ?thesis using run Save by (simp add: NewMemoryServiceCredentialStore_def)
  next
    case (Authenticate g i)
    then show ?thesis using rev reads_nothing(1)
      by (metis NewMemoryServiceCredentialStore_def ServiceCredentialStore.select_convs(1) prod.collapse run_credential_op.simps(2))
  next
    case (HasPresentation g i)
    then show ?thesis using rev reads_nothing(2)
      by (metis NewMemoryServiceCredentialStore_def ServiceCredentialStore.select_convs(2) prod.collapse run_credential_op.simps(3))
  next
    case (RevokeOne a g d t)
    obtain x w' where run: "memoryServiceCredentialStore_RevokeCredential ctxDone p a g d t w = (x, w')"
      by (cases "memoryServiceCredentialStore_RevokeCredential ctxDone p a g d t w")
    then have "memory_revoked p w' c" using revoke_one_revoked [OF run world_part_axioms] rev by blast
    then show ?thesis using run RevokeOne by (simp add: NewMemoryServiceCredentialStore_def)
  next
    case (RevokeAll a g t)
    obtain x w' where run: "memoryServiceCredentialStore_RevokeGrantType ctxDone p a g t w = (x, w')"
      by (cases "memoryServiceCredentialStore_RevokeGrantType ctxDone p a g t w")
    have "memory_revoked p w' c"
      using revoke_all_cases [OF run] rev by (auto simp: memory_revoked_def map_of_revoke_where)
    then show ?thesis using run RevokeAll by (simp add: NewMemoryServiceCredentialStore_def)
  qed
next
  fix g i w m w'
  assume run: "scs_AuthenticateCredential (NewMemoryServiceCredentialStore sha256 ctxDone p) g i w = (Inr (Some m), w')"
    and inv: "credentials_ok (part_get p w)"
  then obtain pr where "matchRecord sha256 g (cai_Now i) pr (part_get p w) = Some m"
    by (auto simp: NewMemoryServiceCredentialStore_def memoryServiceCredentialStore_AuthenticateCredential_def
        unless_done_Inr split: list.splits)
  then obtain c r where r: "(c, r) \<in> set (part_get p w)" "mcr_grantType r = g" "time_IsZero (mcr_revokedAt r)"
    "cai_Now i < mcr_expiresAt r" "cm_AgentDID m = mcr_agentDID r" "cm_CredentialID m = mcr_credentialID r"
    "cm_ExpiresAt m = mcr_expiresAt r"
    using matchRecord_Some by blast
  have "map_of (part_get p w) c = Some r" "mcr_credentialID r = c" using credentials_ok_record [OF inv r(1)] by metis+
  then show "memory_holder p w (cm_CredentialID m) = Some (cm_AgentDID m, g) \<and> \<not> memory_revoked p w (cm_CredentialID m) \<and>
      cai_Now i < cm_ExpiresAt m"
    using r by (simp add: memory_holder_def memory_revoked_def del: map_of_eq_Some_iff)
qed

interpretation memory_credential_store: memory_credentials whole sha256 ctxDone for sha256 ctxDone ..

section \<open>Properties\<close>

text \<open>The contract of every issuing handler: what is returned has been saved, and only that.\<close>

lemma stored_grant_saves:
  assumes "storedCredentialHandler_Grant wrap h req ctx w = (Inr body, w')"
  obtains credential r w1 where
    "ValidateBuiltInGrantResponse (sch_grantType h) (Some credential) = None" "body = enc_grant_response credential"
    "ParseBuiltInGrantResponse (sch_grantType h) body = Inr (the (scr_Credential r))"
    "validateIssuedCredentialConfig (the (scr_Credential r)) (sch_config h) = None"
    "serviceCredentialRecord (gc_AgentDID ctx) (the (scr_Credential r)) (gc_Now ctx) = Inr r"
    "scs_SaveCredential (sch_store h) r w1 = (Inr (), w')"
proof -
  obtain issued w1 parsed r u where
    "sch_issue h req ctx w = (Inr issued, w1)" "ValidateBuiltInGrantResponse (sch_grantType h) (Some (wrap issued)) = None"
    "ParseBuiltInGrantResponse (sch_grantType h) (enc_grant_response (wrap issued)) = Inr parsed"
    "validateIssuedCredentialConfig parsed (sch_config h) = None"
    "serviceCredentialRecord (gc_AgentDID ctx) parsed (gc_Now ctx) = Inr r"
    "scs_SaveCredential (sch_store h) r w1 = (Inr u, w')" "body = enc_grant_response (wrap issued)"
    using assms by (auto simp: storedCredentialHandler_Grant_def Let_def run_simps)
  moreover from this have "the (scr_Credential r) = parsed"
    by (auto simp: serviceCredentialRecord_def split: if_splits sum.splits option.splits)
  ultimately show ?thesis using that [of "wrap issued" r w1] by (metis (full_types) old.unit.exhaust)
qed

lemma serviceCredentialRecord_sound:
  assumes "serviceCredentialRecord a c t = Inr r"
  shows "scr_AgentDID r = a \<and> a \<noteq> [] \<and> scr_CreatedAt r = t \<and> t < scr_ExpiresAt r \<and> scr_GrantType r = GrantType_of c \<and>
    (\<exists>e. builtInCredentialMetadata c = Inr (scr_CredentialID r, e))"
  using assms by (auto simp: serviceCredentialRecord_def split: if_splits sum.splits option.splits)

text \<open>
  C7. Once the memory store has revoked a credential, by name or by grant type, no later
  authentication returns it, whatever calls of the store come in between.
\<close>

theorem revoked_credential_rejected:
  assumes "memoryServiceCredentialStore_RevokeCredential ctxDone whole a g c t w = (Inr (), w') \<or>
      memoryServiceCredentialStore_RevokeGrantType ctxDone whole a g t w = (Inr (), w')"
    and "credentials_ok w" and "memory_holder whole w c = Some (a, g)"
    and "memoryServiceCredentialStore_AuthenticateCredential sha256 ctxDone whole g' i
      (fold (run_credential_op (NewMemoryServiceCredentialStore sha256 ctxDone whole)) ops w') = (Inr (Some m), w'')"
  shows "cm_CredentialID m \<noteq> c"
  using memory_credential_store.credentials.revoked_never_authenticates [of sha256 ctxDone a g c t w w' g' i ops m w''] assms
  by (simp add: NewMemoryServiceCredentialStore_def whole_def)

definition stored_example :: "string \<Rightarrow> memoryServiceCredentialRecord" where
  "stored_example c = \<lparr>mcr_agentDID = ''did:web:a'', mcr_credentialID = c, mcr_expiresAt = 50,
     mcr_grantType = GrantTypeOAuthBearer, mcr_header = ''Authorization'', mcr_revokedAt = zero_time,
     mcr_scopes = None, mcr_verifier = c\<rparr>"

definition presented_example :: "string \<Rightarrow> CredentialAuthenticationInput" where
  "presented_example c = \<lparr>cai_Headers = Some [(''Authorization'', [''Bearer '' @ c])], cai_Method = ''GET'',
     cai_Now = 10, cai_URL = None\<rparr>"

definition store_example :: memoryServiceCredentialStore where
  "store_example = [(''one'', stored_example ''one''), (''two'', stored_example ''two'')]"

definition revoked_example :: memoryServiceCredentialStore where
  "revoked_example = [(''one'', (stored_example ''one'')\<lparr>mcr_revokedAt := 5\<rparr>), (''two'', stored_example ''two'')]"

lemma example_revoked:
  "memoryServiceCredentialStore_RevokeCredential (\<lambda>_. False) whole ''did:web:a'' GrantTypeOAuthBearer ''one'' 5 store_example =
    (Inr (), revoked_example)"
  by code_simp

lemma example_authenticated:
  "memoryServiceCredentialStore_AuthenticateCredential id (\<lambda>_. False) whole GrantTypeOAuthBearer (presented_example ''two'')
      (fold (run_credential_op (NewMemoryServiceCredentialStore id (\<lambda>_. False) whole)) [] revoked_example) =
    (Inr (Some \<lparr>cm_AgentDID = ''did:web:a'', cm_CredentialID = ''two'', cm_ExpiresAt = 50,
        cm_GrantType = GrantTypeOAuthBearer, cm_Scopes = None\<rparr>), revoked_example)"
  by code_simp

theorem revoked_credential_rejected_witness:
  "\<exists>m w''. memoryServiceCredentialStore_AuthenticateCredential id (\<lambda>_. False) whole GrantTypeOAuthBearer
      (presented_example ''two'') revoked_example = (Inr (Some m), w'') \<and> cm_CredentialID m \<noteq> ''one''"
proof -
  have "credentials_ok store_example" "memory_holder whole store_example ''one'' = Some (''did:web:a'', GrantTypeOAuthBearer)"
    by code_simp+
  with revoked_credential_rejected [OF disjI1 [OF example_revoked] _ _ example_authenticated]
  show ?thesis using example_authenticated by (auto simp: fold_simps)
qed

text \<open>
  C8. A Grant Type backed by the memory store never returns a credential it has not recorded: the
  response is the encoding of a valid credential of its grant type that parses back, and the store
  holds it under its identifier for the Agent of the request, unrevoked and expiring later than now.
\<close>

theorem issued_credential_recorded:
  assumes "storedCredentialHandler_Grant wrap h req ctx w = (Inr body, w')"
    and "sch_store h = NewMemoryServiceCredentialStore sha256 ctxDone whole"
  shows "\<exists>credential c r. ParseBuiltInGrantResponse (sch_grantType h) body = Inr credential \<and>
    validateIssuedCredentialConfig credential (sch_config h) = None \<and>
    map_option fst (case builtInCredentialMetadata credential of Inl _ \<Rightarrow> None | Inr x \<Rightarrow> Some x) = Some c \<and>
    map_of w' c = Some r \<and> mcr_agentDID r = gc_AgentDID ctx \<and> mcr_agentDID r \<noteq> [] \<and>
    time_IsZero (mcr_revokedAt r) \<and> gc_Now ctx < mcr_expiresAt r"
proof -
  obtain credential r w1 where g: "ParseBuiltInGrantResponse (sch_grantType h) body = Inr (the (scr_Credential r))"
    "validateIssuedCredentialConfig (the (scr_Credential r)) (sch_config h) = None"
    "serviceCredentialRecord (gc_AgentDID ctx) (the (scr_Credential r)) (gc_Now ctx) = Inr r"
    "scs_SaveCredential (sch_store h) r w1 = (Inr (), w')"
    by (rule stored_grant_saves [OF assms(1)])
  then have "memoryServiceCredentialStore_SaveCredential sha256 ctxDone whole r w1 = (Inr (), w')"
    using assms(2) by (simp add: NewMemoryServiceCredentialStore_def)
  from save_cases [OF this] obtain stored where s: "memoryCredentialRecord sha256 r = Inr stored"
    "map_of w1 (scr_CredentialID r) = None" "w' = w1 @ [(scr_CredentialID r, stored)]"
    by (auto simp: whole_def)
  obtain e where "builtInCredentialMetadata (the (scr_Credential r)) = Inr (scr_CredentialID r, e)"
    using serviceCredentialRecord_sound [OF g(3)] by blast
  moreover have "map_of w' (scr_CredentialID r) = Some stored" using s by (simp add: map_add_def)
  ultimately show ?thesis
    using g(1,2) memory_record_fields [OF s(1)] serviceCredentialRecord_sound [OF g(3)]
    by (intro exI [of _ "the (scr_Credential r)"] exI [of _ "scr_CredentialID r"] exI [of _ stored]) simp
qed

definition issued_example :: OAuthBearerGrantResponse where
  "issued_example = \<lparr>oauth_AccessToken = ''tok'', oauth_CredentialID = ''one'', oauth_ExpiresAt = ''2026-01-01T00:00:00Z'',
     oauth_Scopes = Some [''read''], oauth_TokenType = ''Bearer''\<rparr>"

definition issuer_example :: "(memoryServiceCredentialStore, OAuthBearerGrantResponse) storedCredentialHandler" where
  "issuer_example = \<lparr>sch_config = \<lparr>gtc_SupportsPerCredentialRevoke = ''true'', gtc_Additional = []\<rparr>,
     sch_grantType = GrantTypeOAuthBearer, sch_issue = (\<lambda>_ _. ok issued_example),
     sch_store = NewMemoryServiceCredentialStore id (\<lambda>_. False) whole\<rparr>"

definition request_example :: GrantContext where
  "request_example = \<lparr>gc_AgentDID = ''did:web:a'', gc_Enrollment = zero_enrollment, gc_GrantType = GrantTypeOAuthBearer, gc_Now = 0\<rparr>"

definition issued_request :: GrantRequest where
  "issued_request = \<lparr>grq_GrantType = GrantTypeOAuthBearer, grq_RequestedScopes = None, grq_Additional = []\<rparr>"

lemma example_issued:
  "case storedCredentialHandler_Grant OAuthBearer issuer_example issued_request request_example [] of
     (Inl e, w) \<Rightarrow> False | (Inr x, w) \<Rightarrow> True"
  by code_simp

theorem issued_credential_recorded_witness:
  "\<exists>body w' c r. storedCredentialHandler_Grant OAuthBearer issuer_example issued_request request_example [] = (Inr body, w') \<and>
     map_of w' c = Some r \<and> mcr_agentDID r = ''did:web:a''"
proof -
  obtain body w' where run: "storedCredentialHandler_Grant OAuthBearer issuer_example issued_request request_example [] = (Inr body, w')"
    using run_ok [OF example_issued] by blast
  have "sch_store issuer_example = NewMemoryServiceCredentialStore id (\<lambda>_. False) whole" by (simp add: issuer_example_def)
  from issued_credential_recorded [OF run this] run show ?thesis by (auto simp: request_example_def)
qed

end
