(* ===== verification/Service_Access.thy ===== *)
theory Service_Access
  imports Service_Commands Service_Credentials
begin

text \<open>
  \<open>service/authentication.go\<close>: who a request for a protected resource comes from. \<open>isPrint\<close> is the
  table of printable runes that \<open>%q\<close> consults. A failed type assertion or nil dereference is the
  error \<open>Library ''runtime''\<close>.
\<close>

definition isLoopbackHostname :: "string \<Rightarrow> bool" where
  "isLoopbackHostname hostname \<longleftrightarrow>
     equal_fold hostname ''localhost'' \<or> hostname = ''127.0.0.1'' \<or> hostname = ''::1''"

definition protectedResourceURL :: "'w Service \<Rightarrow> URL option \<Rightarrow> string result" where
  "protectedResourceURL service val =
     (case val of
        None \<Rightarrow> Inl (Text ''AEP protected resource URL must be absolute and must not contain credentials or a fragment'')
      | Some u \<Rightarrow>
          if url_Host u = [] \<or> url_User u \<noteq> None \<or> url_Opaque u \<noteq> [] \<or> url_Fragment u \<noteq> []
          then Inl (Text ''AEP protected resource URL must be absolute and must not contain credentials or a fragment'')
          else if url_Scheme u \<noteq> ''https'' \<and>
             \<not> (caos_AllowInsecureLoopback (svc_clientAssertion service) \<and> url_Scheme u = ''http'' \<and>
                isLoopbackHostname (url_Hostname u))
          then Inl (Text ''AEP protected resource URL must use HTTPS'')
          else Inr (url_String u))"

definition recognizedStandard :: "string \<Rightarrow> bool" where
  "recognizedStandard v \<longleftrightarrow> (case ParseProtectedResourceAuthorization v ProtectedResourceStandard of Inr _ \<Rightarrow> True | Inl _ \<Rightarrow> False)"

text \<open>\<open>None\<close> is an invalid presentation, the empty string none.\<close>

definition selectAuthorizationPresentation :: "Header \<Rightarrow> string option" where
  "selectAuthorizationPresentation source =
     (case headerValues source AuthorizationHeader of
        [] \<Rightarrow>
          (let standard = headerValues source ''Authorization''; recognized = filter recognizedStandard standard in
           if 1 < length recognized \<or> (length recognized = 1 \<and> 1 < length standard) then None
           else case recognized of [v] \<Rightarrow> Some v | _ \<Rightarrow> Some [])
      | [dedicated] \<Rightarrow>
          (case ParseProtectedResourceAuthorization dedicated ProtectedResourceDedicated of
             Inl _ \<Rightarrow> None
           | Inr _ \<Rightarrow>
               if list_ex recognizedStandard (headerValues source ''Authorization'') then None else Some dedicated)
      | _ \<Rightarrow> None)"

definition normalizedHeader :: "Header \<Rightarrow> Header" where
  "normalizedHeader source =
     foldl (\<lambda>result (name, values). foldl (\<lambda>h v. header_Add name v h) result values) (Some []) (elems source)"

definition authorizationMethod :: "string \<Rightarrow> AuthenticationMethod" where
  "authorizationMethod fieldValue =
     (let scheme = before CHR '' '' (map (\<lambda>c. if byte c = 9 then CHR '' '' else c) fieldValue) in
      if equal_fold scheme CredentialSchemeAEP then AuthenticationMethodJWT
      else if equal_fold scheme CredentialSchemeBearer then GrantTypeOAuthBearer
      else if equal_fold scheme CredentialSchemeBasic then GrantTypeBasic
      else [])"

definition protectedResourceProblem ::
  "(int \<Rightarrow> bool) \<Rightarrow> 'w Service \<Rightarrow> ErrorCode \<Rightarrow> string \<Rightarrow> ProtectedResourceResult result" where
  "protectedResourceProblem isPrint service code resource =
     (let result = problemResult () code (map (\<lambda>c. if c = CHR ''_'' then CHR '' '' else c) code) 401 in
      case (case svc_inspectURL service of
              Some u \<Rightarrow> Some u
            | None \<Rightarrow> map_option (\<lambda>parsed. url_ResolveReference parsed (empty_url\<lparr>url_Path := WellKnownPath\<rparr>)) (url_Parse resource)) of
        None \<Rightarrow> Inl (Library ''runtime'')
      | Some inspectURL \<Rightarrow>
          Inr \<lparr>pr_Authenticated = False, pr_Principal = None,
               pr_Response = map_option (\<lambda>problem.
                 \<lparr>prs_Body = problem, prs_ContentType = res_ContentType result,
                  prs_Headers = header_Set ''WWW-Authenticate''
                    (''AEP service_did='' @ go_quote isPrint (si_DID (insp_Service (svc_document service))) @
                     '',inspect='' @ go_quote isPrint (url_String inspectURL) @ '',reason='' @ go_quote isPrint code)
                    (res_Headers result),
                  prs_Status = res_Status result\<rparr>) (res_Problem result)\<rparr>)"

abbreviation refuse :: "(int \<Rightarrow> bool) \<Rightarrow> 'w Service \<Rightarrow> string \<Rightarrow> ErrorCode \<Rightarrow> (go_error, 'w, ProtectedResourceResult) act" where
  "refuse isPrint service resource code \<equiv> of_result (protectedResourceProblem isPrint service code resource)"

definition accepted :: "AuthenticatedPrincipal \<Rightarrow> ProtectedResourceResult" where
  "accepted who = \<lparr>pr_Authenticated = True, pr_Principal = Some who, pr_Response = None\<rparr>"

text \<open>An AEP assertion in the authorization field.\<close>

definition authenticateJWT ::
  "(int \<Rightarrow> bool) \<Rightarrow> 'w Service \<Rightarrow> string \<Rightarrow> string \<Rightarrow> (go_error, 'w, ProtectedResourceResult) act" where
  "authenticateJWT isPrint service resource credentials =
     (if AuthenticationMethodJWT \<notin> set (svc_authenticationMethods service)
      then refuse isPrint service resource ErrorUnsupportedAuthenticationMethod
      else
        and_then (authenticateAssertion service \<lparr>cop_ClientAssertion = credentials, cop_IdempotencyKey = []\<rparr>
                    AssertionAuthenticate resource) (\<lambda>recognized.
        case recognized of
          None \<Rightarrow> refuse isPrint service resource ErrorNotRecognized
        | Some claims \<Rightarrow>
            and_then (es_FindEnrollment (svc_enrollmentStore service) (cac_Subject claims)) (\<lambda>enrollment.
            if \<not> (case enrollment of None \<Rightarrow> False | Some e \<Rightarrow> er_Status e = AgentActive)
            then refuse isPrint service resource ErrorNotRecognized
            else ok (accepted \<lparr>apr_AgentDID = cac_Subject claims, apr_AuthenticationKind = AuthenticationKindJWT,
                   apr_AuthenticationMethod = AuthenticationMethodJWT, apr_CredentialID = [], apr_GrantType = [],
                   apr_Scopes = None\<rparr>))))"

text \<open>What follows when the handler of a method returns a principal.\<close>

definition admitPrincipal ::
  "(int \<Rightarrow> bool) \<Rightarrow> 'w Service \<Rightarrow> string \<Rightarrow> AuthenticationMethod \<Rightarrow> AuthenticatedPrincipal \<Rightarrow>
   (go_error, 'w, ProtectedResourceResult) act" where
  "admitPrincipal isPrint service resource authMethod who =
     (if apr_AgentDID who = [] \<or> apr_AuthenticationMethod who \<noteq> authMethod \<or>
         apr_AuthenticationKind who \<noteq> AuthenticationKindSessionCredential \<or> apr_GrantType who \<noteq> authMethod
      then fail (Text ''AEP credential authenticator returned an invalid principal'')
      else
        and_then (es_FindEnrollment (svc_enrollmentStore service) (apr_AgentDID who)) (\<lambda>enrollment.
        if \<not> (case enrollment of None \<Rightarrow> False | Some e \<Rightarrow> er_Status e = AgentActive)
        then refuse isPrint service resource ErrorNotRecognized
        else ok (accepted (who\<lparr>apr_Scopes := append_nil (elems (apr_Scopes who))\<rparr>))))"

text \<open>
  The loop over the methods. It ends with a result, or with whether a credential was presented and
  whether one of an advertised method was.
\<close>

fun tryMethods ::
  "(int \<Rightarrow> bool) \<Rightarrow> 'w Service \<Rightarrow> string \<Rightarrow> CredentialAuthenticationInput \<Rightarrow> bool \<Rightarrow> bool \<Rightarrow> AuthenticationMethod list \<Rightarrow>
   (go_error, 'w, ProtectedResourceResult + (bool \<times> bool)) act" where
  "tryMethods isPrint service resource input presented advertised [] = ok (Inr (presented, advertised))"
| "tryMethods isPrint service resource input presented advertised (authMethod # rest) =
     (if authMethod = AuthenticationMethodJWT then tryMethods isPrint service resource input presented advertised rest
      else
        let handler = map_of (svc_grantHandlers service) authMethod in
        and_then (case Option.bind handler gth_HasCredentialPresentation of
                    None \<Rightarrow> ok False
                  | Some detect \<Rightarrow> detect input) (\<lambda>detected.
        case Option.bind handler gth_AuthenticateCredential of
          None \<Rightarrow> fail (Library ''runtime'')
        | Some authenticate \<Rightarrow>
            and_then (authenticate input) (\<lambda>who.
            case who of
              None \<Rightarrow> tryMethods isPrint service resource input (presented \<or> detected) (advertised \<or> detected) rest
            | Some p \<Rightarrow> and_then (admitPrincipal isPrint service resource authMethod p) (\<lambda>r. ok (Inl r)))))"

text \<open>The answer when no method accepted the request.\<close>

definition refusalCode :: "'w Service \<Rightarrow> string \<Rightarrow> bool \<Rightarrow> bool \<Rightarrow> ErrorCode" where
  "refusalCode service authorization presented advertised =
     (let authMethod = authorizationMethod authorization in
      if authMethod \<noteq> [] \<and> \<not> advertised \<and> authMethod \<notin> set (svc_authenticationMethods service) \<and>
         recognizedStandard authorization
      then ErrorUnsupportedAuthenticationMethod
      else if presented then ErrorNotRecognized
      else ErrorAuthenticationRequired)"

definition authenticateSession ::
  "(int \<Rightarrow> bool) \<Rightarrow> 'w Service \<Rightarrow> string \<Rightarrow> ProtectedResourceRequest \<Rightarrow> Header \<Rightarrow> string \<Rightarrow>
   (go_error, 'w, ProtectedResourceResult) act" where
  "authenticateSession isPrint service resource request headers authorization =
     and_then (call (svc_clock service)) (\<lambda>now.
     and_then (tryMethods isPrint service resource
        \<lparr>cai_Headers = headers, cai_Method = prr_Method request, cai_Now = now, cai_URL = prr_URL request\<rparr>
        (authorizationMethod authorization \<noteq> []) False (svc_authenticationMethods service)) (\<lambda>tried.
     case tried of
       Inl result \<Rightarrow> ok result
     | Inr (presented, advertised) \<Rightarrow>
         refuse isPrint service resource (refusalCode service authorization presented advertised)))"

definition aepCredentials :: "string \<Rightarrow> string option" where
  "aepCredentials authorization =
     (case ParseProtectedResourceAuthorization authorization ProtectedResourceStandard of
        Inr parsed \<Rightarrow> if pra_Scheme parsed = CredentialSchemeAEP then Some (pra_Credentials parsed) else None
      | Inl _ \<Rightarrow> None)"

definition Service_AuthenticateProtectedResource ::
  "(int \<Rightarrow> bool) \<Rightarrow> 'w Service \<Rightarrow> ProtectedResourceRequest \<Rightarrow> (go_error, 'w, ProtectedResourceResult) act" where
  "Service_AuthenticateProtectedResource isPrint service request =
     (case protectedResourceURL service (prr_URL request) of
        Inl err \<Rightarrow> fail err
      | Inr resource \<Rightarrow>
     (case selectAuthorizationPresentation (prr_Headers request) of
        None \<Rightarrow> refuse isPrint service resource ErrorNotRecognized
      | Some presentation \<Rightarrow>
          let normalized = normalizedHeader (prr_Headers request);
              headers = (if presentation \<noteq> []
                         then header_Del AuthorizationHeader (header_Set ''Authorization'' presentation normalized)
                         else normalized);
              authorization = (if presentation = [] then header_Get headers ''Authorization'' else presentation) in
          case aepCredentials authorization of
            Some credentials \<Rightarrow> authenticateJWT isPrint service resource credentials
          | None \<Rightarrow> authenticateSession isPrint service resource request headers authorization))"

lemmas service_access_defs [go_defs] =
  isLoopbackHostname_def protectedResourceURL_def recognizedStandard_def selectAuthorizationPresentation_def
  normalizedHeader_def authorizationMethod_def protectedResourceProblem_def accepted_def authenticateJWT_def
  admitPrincipal_def refusalCode_def authenticateSession_def aepCredentials_def Service_AuthenticateProtectedResource_def


section \<open>Lemmas\<close>

lemma refused: "Inr r = protectedResourceProblem isPrint service code resource \<Longrightarrow> \<not> pr_Authenticated r"
  by (auto simp: protectedResourceProblem_def Let_def split: option.splits)

lemma accepted_simps [simp]:
  "pr_Authenticated (accepted p)" "pr_Principal (accepted p) = Some p" "pr_Response (accepted p) = None"
  by (simp_all add: accepted_def)

text \<open>What an authenticated answer says of each early refusal.\<close>

lemma if_refuse:
  "pr_Authenticated r \<Longrightarrow>
     (if b then refuse isPrint service resource code else f) w = (Inr r, w') \<longleftrightarrow> \<not> b \<and> f w = (Inr r, w')"
  by (auto dest: refused)

lemma case_refuse:
  "pr_Authenticated r \<Longrightarrow>
     (case x of None \<Rightarrow> refuse isPrint service resource code | Some k \<Rightarrow> f k) w = (Inr r, w') \<longleftrightarrow>
     (\<exists>k. x = Some k \<and> f k w = (Inr r, w'))"
  by (cases x) (auto dest: refused)

definition active_at :: "'w Service \<Rightarrow> string \<Rightarrow> 'w \<Rightarrow> 'w \<Rightarrow> bool" where
  "active_at service agent w w' \<longleftrightarrow>
     (\<exists>e. es_FindEnrollment (svc_enrollmentStore service) agent w = (Inr (Some e), w') \<and> er_Status e = AgentActive)"

lemma active_case:
  "es_FindEnrollment (svc_enrollmentStore service) a w = (Inr x, w') \<Longrightarrow>
     (case x of None \<Rightarrow> False | Some e \<Rightarrow> er_Status e = AgentActive) \<Longrightarrow> active_at service a w w'"
  by (cases x) (auto simp: active_at_def)

lemma jwt_authenticated:
  assumes "authenticateJWT isPrint service resource credentials w = (Inr r, w')" and "pr_Authenticated r"
  obtains claims w1 where "AuthenticationMethodJWT \<in> set (svc_authenticationMethods service)"
    "authenticateAssertion service \<lparr>cop_ClientAssertion = credentials, cop_IdempotencyKey = []\<rparr>
       AssertionAuthenticate resource w = (Inr (Some claims), w1)"
    "active_at service (cac_Subject claims) w1 w'"
    "r = accepted \<lparr>apr_AgentDID = cac_Subject claims, apr_AuthenticationKind = AuthenticationKindJWT,
       apr_AuthenticationMethod = AuthenticationMethodJWT, apr_CredentialID = [], apr_GrantType = [], apr_Scopes = None\<rparr>"
  using assms unfolding authenticateJWT_def
  by (auto simp: if_refuse case_refuse and_then_Inr dest: active_case)

lemma admitted:
  assumes "admitPrincipal isPrint service resource m p w = (Inr r, w')" and "pr_Authenticated r"
  shows "apr_AgentDID p \<noteq> [] \<and> apr_AuthenticationMethod p = m \<and>
    apr_AuthenticationKind p = AuthenticationKindSessionCredential \<and> apr_GrantType p = m \<and>
    active_at service (apr_AgentDID p) w w' \<and> r = accepted (p\<lparr>apr_Scopes := append_nil (elems (apr_Scopes p))\<rparr>)"
  using assms unfolding admitPrincipal_def
  by (auto simp: if_fail if_refuse and_then_Inr dest: active_case)

lemma tried:
  assumes "tryMethods isPrint service resource input presented advertised ms w = (Inr (Inl r), w')"
  shows "\<exists>m h authenticate p w0 w1. m \<in> set ms \<and> map_of (svc_grantHandlers service) m = Some h \<and>
    gth_AuthenticateCredential h = Some authenticate \<and> authenticate input w0 = (Inr (Some p), w1) \<and>
    admitPrincipal isPrint service resource m p w1 = (Inr r, w')"
  using assms
proof (induction ms arbitrary: presented advertised w)
  case (Cons m ms)
  show ?case
  proof (cases "m = AuthenticationMethodJWT")
    case True
    then show ?thesis using Cons by fastforce
  next
    case False
    let ?h = "map_of (svc_grantHandlers service) m"
    obtain detected w0 authenticate found w1 where step: "Option.bind ?h gth_AuthenticateCredential = Some authenticate"
      "authenticate input w0 = (Inr found, w1)"
      "(case found of None \<Rightarrow> tryMethods isPrint service resource input (presented \<or> detected) (advertised \<or> detected) ms
        | Some p \<Rightarrow> and_then (admitPrincipal isPrint service resource m p) (\<lambda>r. ok (Inl r))) w1 = (Inr (Inl r), w')"
      using Cons.prems False by (auto simp: Let_def and_then_Inr case_option_fail)
    then obtain h where h: "?h = Some h" "gth_AuthenticateCredential h = Some authenticate" by (cases ?h) auto
    show ?thesis
    proof (cases found)
      case None
      then show ?thesis using Cons.IH step(3) by fastforce
    next
      case (Some p)
      then have "admitPrincipal isPrint service resource m p w1 = (Inr r, w')" using step(3) by (auto simp: and_then_Inr)
      then show ?thesis using h step(2) Some by (intro exI [of _ m] exI [of _ h] exI [of _ authenticate] exI [of _ p]) auto
    qed
  qed
qed simp

lemma session_authenticated:
  assumes "authenticateSession isPrint service resource request headers authorization w = (Inr r, w')" and "pr_Authenticated r"
  obtains input p0 w1 where
    "tryMethods isPrint service resource input p0 False (svc_authenticationMethods service) w1 = (Inr (Inl r), w')"
proof -
  obtain input p0 w1 t w2 where "tryMethods isPrint service resource input p0 False (svc_authenticationMethods service) w1 = (Inr t, w2)"
    "(case t of Inl result \<Rightarrow> ok result | Inr (presented, advertised) \<Rightarrow>
       refuse isPrint service resource (refusalCode service authorization presented advertised)) w2 = (Inr r, w')"
    using assms(1) unfolding authenticateSession_def and_then_Inr by blast
  then show ?thesis using that assms(2) by (cases t) (auto dest: refused)
qed

text \<open>Every answer is an acceptance or a 401 challenge.\<close>

definition answered :: "ProtectedResourceResult \<Rightarrow> bool" where
  "answered r \<longleftrightarrow> pr_Authenticated r \<or> (\<exists>p. pr_Response r = Some p \<and> prs_Status p = 401)"

lemma answered_refusal: "protectedResourceProblem isPrint service code resource = Inr r \<Longrightarrow> answered r"
  by (auto simp: protectedResourceProblem_def problemResult_def answered_def Let_def split: option.splits)

lemma answered_accepted: "answered (accepted p)"
  by (simp add: answered_def)

lemma tryMethods_answers:
  "yields (\<lambda>t. case t of Inl r \<Rightarrow> answered r | Inr _ \<Rightarrow> True) (tryMethods isPrint service resource input presented advertised ms)"
proof (induction ms arbitrary: presented advertised)
  case (Cons m ms)
  have "yields answered (admitPrincipal isPrint service resource m p)" for p
    unfolding admitPrincipal_def by (intro yields_intros answered_refusal answered_accepted)
  from this have step: "yields (\<lambda>t. case t of Inl r \<Rightarrow> answered r | Inr _ \<Rightarrow> True)
      (case found of None \<Rightarrow> tryMethods isPrint service resource input p a m' | Some who \<Rightarrow>
         and_then (admitPrincipal isPrint service resource m who) (\<lambda>r. ok (Inl r)))" if "m' = ms" for found p a m'
    using Cons.IH that by (cases found) (simp_all, rule yields_then, assumption, rule yields_ok, simp)
  show ?case
    unfolding tryMethods.simps Let_def
    by (rule yields_if, rule Cons.IH, rule yields_and_then, rule yields_case_option, rule yields_fail,
        rule yields_and_then, rule step, rule refl)
qed (simp add: yields_ok)

lemma access_answers: "yields answered (Service_AuthenticateProtectedResource isPrint service request)"
proof -
  have "yields answered (authenticateJWT isPrint service resource credentials)" for resource credentials
    unfolding authenticateJWT_def by (intro yields_intros answered_refusal answered_accepted)
  moreover have "yields answered (authenticateSession isPrint service resource request headers authorization)" for resource headers authorization
    unfolding authenticateSession_def
    by (rule yields_and_then, rule yields_then [OF tryMethods_answers])
      (auto intro!: yields_intros answered_refusal split: sum.splits)
  ultimately show ?thesis
    unfolding Service_AuthenticateProtectedResource_def Let_def by (intro yields_intros answered_refusal) auto
qed

section \<open>Properties\<close>

text \<open>
  C3. Access to a protected resource is granted only to an active Agent that proved itself by an
  advertised method: the answer names a principal whose enrollment was found active, and either an
  assertion for exactly this operation and resource URL was recognised and names the principal, or
  the handler of an advertised session method returned the principal under its own method.
\<close>

theorem authenticated_access_sound:
  assumes "Service_AuthenticateProtectedResource isPrint service request w = (Inr r, w')" and "pr_Authenticated r"
  shows "\<exists>who resource w1 w0. pr_Principal r = Some who \<and> pr_Response r = None \<and>
    protectedResourceURL service (prr_URL request) = Inr resource \<and>
    selectAuthorizationPresentation (prr_Headers request) \<noteq> None \<and>
    apr_AuthenticationMethod who \<in> set (svc_authenticationMethods service) \<and>
    active_at service (apr_AgentDID who) w1 w' \<and>
    ((\<exists>options claims. apr_AuthenticationKind who = AuthenticationKindJWT \<and> apr_AgentDID who = cac_Subject claims \<and>
        authenticateAssertion service options AssertionAuthenticate resource w0 = (Inr (Some claims), w1)) \<or>
     (\<exists>h authenticate input p. apr_AuthenticationKind who = AuthenticationKindSessionCredential \<and>
        map_of (svc_grantHandlers service) (apr_AuthenticationMethod who) = Some h \<and>
        gth_AuthenticateCredential h = Some authenticate \<and> authenticate input w0 = (Inr (Some p), w1) \<and>
        apr_AgentDID p = apr_AgentDID who \<and> apr_AgentDID p \<noteq> []))"
proof -
  obtain resource presentation where pre: "protectedResourceURL service (prr_URL request) = Inr resource"
    "selectAuthorizationPresentation (prr_Headers request) = Some presentation"
    using assms unfolding Service_AuthenticateProtectedResource_def by (auto simp: case_sum_fail case_refuse)
  have "(\<exists>credentials. authenticateJWT isPrint service resource credentials w = (Inr r, w')) \<or>
    (\<exists>headers authorization. authenticateSession isPrint service resource request headers authorization w = (Inr r, w'))"
    using assms(1) pre unfolding Service_AuthenticateProtectedResource_def Let_def sum.case option.case
    by (auto split: option.splits)
  then show ?thesis
  proof (elim disjE exE)
    fix credentials assume jwt: "authenticateJWT isPrint service resource credentials w = (Inr r, w')"
    show ?thesis
      by (rule jwt_authenticated [OF jwt assms(2)]) (use pre in \<open>auto intro!: exI\<close>)
  next
    fix headers authorization
    assume "authenticateSession isPrint service resource request headers authorization w = (Inr r, w')"
    then obtain input p0 w1 where
      "tryMethods isPrint service resource input p0 False (svc_authenticationMethods service) w1 = (Inr (Inl r), w')"
      by (rule session_authenticated [OF _ assms(2)])
    from tried [OF this] obtain m h authenticate p w0 w2 where t: "m \<in> set (svc_authenticationMethods service)"
      "map_of (svc_grantHandlers service) m = Some h" "gth_AuthenticateCredential h = Some authenticate"
      "authenticate input w0 = (Inr (Some p), w2)" "admitPrincipal isPrint service resource m p w2 = (Inr r, w')" by blast
    show ?thesis using pre t admitted [OF t(5) assms(2)] by (auto intro!: exI)
  qed
qed


definition basic_principal :: AuthenticatedPrincipal where
  "basic_principal = \<lparr>apr_AgentDID = ''did:web:a'', apr_AuthenticationKind = AuthenticationKindSessionCredential,
     apr_AuthenticationMethod = GrantTypeBasic, apr_CredentialID = ''c1'', apr_GrantType = GrantTypeBasic, apr_Scopes = None\<rparr>"

definition guarded_example :: "unit Service" where
  "guarded_example = granting_example\<lparr>svc_authenticationMethods := [GrantTypeBasic],
     svc_grantHandlers := [(GrantTypeBasic, \<lparr>gth_Grant = (\<lambda>_ _. fail (External [])), gth_Revoke = (\<lambda>_ _. ok ()),
       gth_AuthenticateCredential = Some (\<lambda>input. ok (if header_Get (cai_Headers input) ''Authorization'' = ''Basic eDp5''
         then Some basic_principal else None)), gth_HasCredentialPresentation = None\<rparr>)]\<rparr>"

definition guarded_request :: ProtectedResourceRequest where
  "guarded_request = \<lparr>prr_Headers = Some [(''authorization'', [''Basic eDp5''])], prr_Method = ''GET'',
     prr_URL = url_Parse ''https://s.example/orders''\<rparr>"

lemma example_admitted:
  "case Service_AuthenticateProtectedResource (\<lambda>_. True) guarded_example guarded_request () of
     (Inr r, w) \<Rightarrow> pr_Authenticated r \<and> pr_Principal r = Some basic_principal | _ \<Rightarrow> False"
  by code_simp

theorem authenticated_access_sound_witness:
  "\<exists>r who. Service_AuthenticateProtectedResource (\<lambda>_. True) guarded_example guarded_request () = (Inr r, ()) \<and>
     pr_Principal r = Some who \<and> active_at guarded_example (apr_AgentDID who) () ()"
proof -
  obtain r where r: "Service_AuthenticateProtectedResource (\<lambda>_. True) guarded_example guarded_request () = (Inr r, ())"
    "pr_Authenticated r"
    using example_admitted by (auto split: prod.splits sum.splits)
  from authenticated_access_sound [OF this] obtain who where "pr_Principal r = Some who" "active_at guarded_example (apr_AgentDID who) () ()"
    by auto
  with r(1) show ?thesis by blast
qed

end
