(* ===== verification/Service_New.thy ===== *)
theory Service_New
  imports Service_Access
begin

text \<open>
  \<open>service/service.go\<close>: how a Service is configured. What an option leaves out comes from the
  process: its clock, its source of randomness, its context and fresh memory stores. These are the
  \<open>runtime\<close> argument; each store is a part of the world, which starts empty.
\<close>

record 'w runtime =
  rt_time_Now :: "'w \<Rightarrow> time \<times> 'w"
  rt_rand_Read :: "(go_error, 'w, string) act"
  rt_ctxDone :: "'w \<Rightarrow> bool"
  rt_enrollments :: "(memoryEnrollmentStore, 'w) part"
  rt_replays :: "(memoryReplayStore, 'w) part"
  rt_idempotency :: "(memoryIdempotencyStore, 'w) part"

definition hasDuplicates :: "string list \<Rightarrow> bool" where
  "hasDuplicates vals = has_duplicates [] vals"

definition randomIdentifier :: "(go_error, 'w, string) act \<Rightarrow> (go_error, 'w, string) act" where
  "randomIdentifier rand_Read = and_then rand_Read (\<lambda>val. ok (hex_encode val))"

definition uniqueIdentityMethods :: "IdentityMethod list \<Rightarrow> IdentityMethod slice result" where
  "uniqueIdentityMethods vals =
     (if hasDuplicates vals then Inl (Text ''duplicate AEP identity method'') else Inr (append_nil vals))"

definition cloneAdditional :: "AdditionalMembers \<Rightarrow> AdditionalMembers" where
  "cloneAdditional val = map (\<lambda>(name, raw). (name, raw)) val"

definition cloneInspectClaims :: "InspectClaims option \<Rightarrow> InspectClaims option" where
  "cloneInspectClaims val =
     map_option (\<lambda>c. \<lparr>ic_Required = append_nil (elems (ic_Required c)), ic_Preferred = append_nil (elems (ic_Preferred c)),
       ic_Optional = append_nil (elems (ic_Optional c))\<rparr>) val"

definition inspectExtensions :: "string list \<Rightarrow> Extensions option" where
  "inspectExtensions vals = (if vals = [] then None else Some \<lparr>ext_Supported = append_nil vals\<rparr>)"

definition cloneOpenAPI :: "OpenAPIReference option \<Rightarrow> OpenAPIReference option" where
  "cloneOpenAPI val =
     map_option (\<lambda>api. api\<lparr>oar_Additional := cloneAdditional (oar_Additional api),
       oar_PathMatching := (oar_PathMatching api)\<lparr>opm_Additional := cloneAdditional (opm_Additional (oar_PathMatching api))\<rparr>\<rparr>) val"

definition cloneInspectDocument :: "InspectDocument \<Rightarrow> InspectDocument result" where
  "cloneInspectDocument document =
     (case InspectDocument_MarshalJSON document of
        None \<Rightarrow> Inl (Library ''encoding/json'')
      | Some data \<Rightarrow> ParseInspectDocument data)"

definition validateInspectURL :: "URL option \<Rightarrow> bool \<Rightarrow> URL option result" where
  "validateInspectURL val allowInsecureLoopback =
     (case val of
        None \<Rightarrow> Inr None
      | Some u \<Rightarrow>
          let secure = url_Scheme u = ''https'';
              insecureLoopback = allowInsecureLoopback \<and> url_Scheme u = ''http'' \<and> isLoopbackHostname (url_Hostname u) in
          if (\<not> secure \<and> \<not> insecureLoopback) \<or> url_Host u = [] \<or> url_User u \<noteq> None \<or> url_Opaque u \<noteq> [] \<or>
             url_Fragment u \<noteq> []
          then Inl (Text ''AEP Inspect URL must be an absolute HTTPS URL without credentials or a fragment'')
          else Inr (Some u))"

definition resolveClientAssertionOptions :: "ClientAssertionOptions \<Rightarrow> clientAssertionOptions result" where
  "resolveClientAssertionOptions options =
     (let clockSkew = (case cao_ClockSkew options of None \<Rightarrow> RecommendedClockSkew | Some d \<Rightarrow> d);
          maximumLifetime = (if cao_MaximumLifetime options = 0 then MaxAssertionLifetime else cao_MaximumLifetime options) in
      if clockSkew < 0 \<or> RecommendedClockSkew < clockSkew \<or> go_rem clockSkew Second \<noteq> 0
      then Inl (Text ''AEP Service clock skew must be whole seconds from 0 through 30'')
      else if maximumLifetime < Second \<or> MaxAssertionLifetime < maximumLifetime \<or> go_rem maximumLifetime Second \<noteq> 0
      then Inl (Text ''AEP Service assertion lifetime must be whole seconds from 1 through 300'')
      else Inr \<lparr>caos_AllowInsecureLoopback = cao_AllowInsecureLoopback options, caos_ClockSkew = clockSkew,
                caos_MaximumLifetime = maximumLifetime\<rparr>)"

section \<open>Grant types\<close>

text \<open>The loop over the definitions; the handlers, the grant types and the configurations so far.\<close>

fun configureGrantTypes ::
  "'w GrantTypeDefinition list \<Rightarrow> (GrantType \<times> 'w GrantTypeHandler) list \<Rightarrow> GrantType list \<Rightarrow>
   (string \<times> GrantTypeConfig) list \<Rightarrow>
   ((GrantType \<times> 'w GrantTypeHandler) list \<times> GrantType list \<times> (string \<times> GrantTypeConfig) list) result" where
  "configureGrantTypes [] handlers grantTypes configs = Inr (handlers, grantTypes, configs)"
| "configureGrantTypes (d # ds) handlers grantTypes configs =
     (case gtd_Handler d of
        None \<Rightarrow> Inl (Text ''AEP Grant Type definitions require an identifier and handler'')
      | Some handler \<Rightarrow>
          if gtd_GrantType d = [] then Inl (Text ''AEP Grant Type definitions require an identifier and handler'')
          else if map_of handlers (gtd_GrantType d) \<noteq> None then Inl (Text ''duplicate AEP Grant Type'')
          else configureGrantTypes ds (handlers @ [(gtd_GrantType d, handler)]) (grantTypes @ [gtd_GrantType d])
                 (if gtc_SupportsPerCredentialRevoke (gtd_Config d) \<noteq> [] \<or> gtc_Additional (gtd_Config d) \<noteq> []
                  then AList.update (gtd_GrantType d) (cloneGrantTypeConfig (gtd_Config d)) configs else configs))"

text \<open>The methods of sessions need a handler that authenticates.\<close>

fun checkAuthenticationMethods ::
  "(GrantType \<times> 'w GrantTypeHandler) list \<Rightarrow> AuthenticationMethod list \<Rightarrow> go_error option" where
  "checkAuthenticationMethods handlers [] = None"
| "checkAuthenticationMethods handlers (authMethod # rest) =
     (if authMethod = AuthenticationMethodJWT then checkAuthenticationMethods handlers rest
      else case map_of handlers authMethod of
             None \<Rightarrow> Some (Text ''AEP authentication method has no advertised Grant Type handler'')
           | Some handler \<Rightarrow>
               if gth_AuthenticateCredential handler = None
               then Some (Text ''AEP authentication method has no credential authenticator'')
               else checkAuthenticationMethods handlers rest)"

section \<open>The document and the Service\<close>

text \<open>The Inspect document of the options, before the Service Documents.\<close>

definition baseDocument ::
  "'w Options \<Rightarrow> IdentityMethod slice \<Rightarrow> SigningAlgorithm list \<Rightarrow> GrantType list \<Rightarrow> (string \<times> GrantTypeConfig) list \<Rightarrow>
   string \<Rightarrow> InspectDocument" where
  "baseDocument options identityMethods signingAlgorithms grantTypes grantConfigs endpointBase =
     \<lparr>insp_AEPVersion = Version,
      insp_Authentication = (if opt_AuthenticationMethods options \<noteq> []
        then Some \<lparr>auth_Methods = Some (opt_AuthenticationMethods options), auth_Additional = []\<rparr> else None),
      insp_Bindings = \<lparr>bind_Supported = Some [BindingHTTP]\<rparr>,
      insp_Claims = cloneInspectClaims (opt_Claims options),
      insp_Commands = \<lparr>cmds_Supported = Some (if grantTypes \<noteq> []
           then [CommandEnroll, CommandGrant, CommandInspect, CommandRevoke, CommandStatus]
           else [CommandEnroll, CommandInspect, CommandStatus]),
         cmds_GrantTypes = Some grantTypes, cmds_GrantTypesConfig = grantConfigs\<rparr>,
      insp_Core = \<lparr>core_SigningAlgorithms = Some signingAlgorithms\<rparr>,
      insp_Extensions = inspectExtensions (opt_Extensions options),
      insp_HTTP = \<lparr>http_EndpointBase = endpointBase, http_OpenAPI = cloneOpenAPI (opt_OpenAPI options)\<rparr>,
      insp_Identity = \<lparr>idy_Methods = identityMethods\<rparr>,
      insp_Service = \<lparr>si_DID = opt_ServiceDID options\<rparr>,
      insp_ServiceDocuments = None, insp_Additional = []\<rparr>"

definition addServiceDocuments :: "ServiceDocument slice \<Rightarrow> InspectDocument \<Rightarrow> InspectDocument result" where
  "addServiceDocuments documents document =
     (case documents of
        None \<Rightarrow> Inr document
      | Some ds \<Rightarrow>
          let supported = (case insp_Extensions document of None \<Rightarrow> None | Some e \<Rightarrow> ext_Supported e);
              advertised = document\<lparr>insp_Extensions := Some \<lparr>ext_Supported =
                (if ServiceDocumentsExtension \<in> set (elems supported) then supported
                 else Some (elems supported @ [ServiceDocumentsExtension]))\<rparr>\<rparr> in
          if ds = [] then Inr advertised
          else case dec_slice ServiceDocument_UnmarshalJSON zero_service_document
                      (enc_array (map enc_service_document ds)) None of
                 None \<Rightarrow> Inl (Library ''encoding/json'')
               | Some decoded \<Rightarrow> Inr (advertised\<lparr>insp_ServiceDocuments := decoded\<rparr>))"

definition assembleService ::
  "'w runtime \<Rightarrow> 'w Options \<Rightarrow> 'w AssertionVerifier \<Rightarrow> (GrantType \<times> 'w GrantTypeHandler) list \<Rightarrow> InspectDocument \<Rightarrow>
   URL option \<Rightarrow> clientAssertionOptions \<Rightarrow> ClaimValueLimits \<Rightarrow> 'w Service" where
  "assembleService rt options verifier grantHandlers document inspectURL clientAssertion claimValueLimits =
     (let clock = (case opt_Clock options of None \<Rightarrow> rt_time_Now rt | Some c \<Rightarrow> c) in
      \<lparr>svc_supportsDocuments = opt_ServiceDocuments options \<noteq> None,
       svc_authenticationMethods = opt_AuthenticationMethods options, svc_clientAssertion = clientAssertion,
       svc_claimValueLimits = claimValueLimits, svc_clock = clock, svc_document = document,
       svc_enrollmentPolicy = (case opt_EnrollmentPolicy options of
          None \<Rightarrow> NewStaticEnrollmentPolicy \<lparr>ed_UpdateExisting = None, ed_OwnerActionRequired = None,
                    ed_RequirementsPending = None, ed_Status = [], ed_VerificationPending = None\<rparr>
        | Some policy \<Rightarrow> policy),
       svc_enrollmentStore = (case opt_EnrollmentStore options of
          None \<Rightarrow> NewMemoryEnrollmentStore (rt_ctxDone rt) (rt_enrollments rt) | Some store \<Rightarrow> store),
       svc_grantHandlers = grantHandlers,
       svc_identifier = (case opt_Identifier options of None \<Rightarrow> randomIdentifier (rt_rand_Read rt) | Some f \<Rightarrow> f),
       svc_idempotencyStore = (case opt_IdempotencyStore options of
          None \<Rightarrow> NewMemoryIdempotencyStore clock (rt_idempotency rt) | Some store \<Rightarrow> store),
       svc_inspectURL = inspectURL,
       svc_replayStore = (case opt_ReplayStore options of
          None \<Rightarrow> NewMemoryReplayStore (rt_ctxDone rt) (rt_replays rt) | Some store \<Rightarrow> store),
       svc_verifier = verifier\<rparr>)"

definition Service_New :: "'w runtime \<Rightarrow> 'w Options \<Rightarrow> 'w Service result" where
  "Service_New rt options =
     (if opt_ServiceDID options = [] then Inl (Text ''AEP Service DID is required'')
      else case opt_Verifier options of
        None \<Rightarrow> Inl (Text ''AEP Service client assertion verifier is required'')
      | Some verifier \<Rightarrow>
     (case uniqueIdentityMethods (opt_IdentityMethods options) of
        Inl err \<Rightarrow> Inl (Text ''AEP Service requires at least one unique identity method'')
      | Inr identityMethods \<Rightarrow>
     if elems identityMethods = [] then Inl (Text ''AEP Service requires at least one unique identity method'')
     else
     let signingAlgorithms = (if opt_SigningAlgorithms options = [] then [SigningAlgorithmEdDSA, SigningAlgorithmES256]
                              else opt_SigningAlgorithms options) in
     if SigningAlgorithmEdDSA \<notin> set signingAlgorithms \<or> SigningAlgorithmES256 \<notin> set signingAlgorithms \<or>
        hasDuplicates signingAlgorithms
     then Inl (Text ''AEP Service signing algorithms must uniquely include EdDSA and ES256'')
     else case configureGrantTypes (opt_GrantTypes options) [] [] [] of
        Inl err \<Rightarrow> Inl err
      | Inr (grantHandlers, grantTypes, grantConfigs) \<Rightarrow>
     if MaxAuthenticationMethods < length (opt_AuthenticationMethods options) \<or> hasDuplicates (opt_AuthenticationMethods options)
     then Inl (Text ''AEP Service authentication methods must be unique and within the protocol limit'')
     else case checkAuthenticationMethods grantHandlers (opt_AuthenticationMethods options) of
        Some err \<Rightarrow> Inl err
      | None \<Rightarrow>
     (case NormalizeEndpointBase (opt_EndpointBase options) of
        Inl err \<Rightarrow> Inl err
      | Inr endpointBase \<Rightarrow>
     (case addServiceDocuments (opt_ServiceDocuments options)
             (baseDocument options identityMethods signingAlgorithms grantTypes grantConfigs endpointBase) of
        Inl err \<Rightarrow> Inl err
      | Inr document \<Rightarrow>
     (case ValidateInspectDocument document of
        Some err \<Rightarrow> Inl err
      | None \<Rightarrow>
     (case validateInspectURL (opt_InspectURL options) (cao_AllowInsecureLoopback (opt_ClientAssertion options)) of
        Inl err \<Rightarrow> Inl err
      | Inr inspectURL \<Rightarrow>
     (case resolveClientAssertionOptions (opt_ClientAssertion options) of
        Inl err \<Rightarrow> Inl err
      | Inr clientAssertion \<Rightarrow>
     (case resolveClaimValueLimits (opt_ClaimValueLimits options) of
        Inl err \<Rightarrow> Inl err
      | Inr claimValueLimits \<Rightarrow>
          Inr (assembleService rt options verifier grantHandlers document inspectURL clientAssertion claimValueLimits)))))))))"

definition Service_InspectDocument :: "'w Service \<Rightarrow> InspectDocument result" where
  "Service_InspectDocument service = cloneInspectDocument (svc_document service)"

lemmas service_new_defs [go_defs] =
  hasDuplicates_def randomIdentifier_def uniqueIdentityMethods_def cloneAdditional_def cloneInspectClaims_def
  inspectExtensions_def cloneOpenAPI_def cloneInspectDocument_def validateInspectURL_def
  resolveClientAssertionOptions_def baseDocument_def addServiceDocuments_def assembleService_def
  Service_New_def Service_InspectDocument_def


section \<open>Lemmas\<close>

lemma resolved_times:
  assumes "resolveClientAssertionOptions options = Inr o'"
  shows "times_configured o' \<and> Second dvd caos_ClockSkew o' \<and> Second dvd caos_MaximumLifetime o' \<and>
    caos_AllowInsecureLoopback o' = cao_AllowInsecureLoopback options"
  using assms
  by (auto simp: resolveClientAssertionOptions_def Let_def times_configured_def not_less go_rem_zero split: if_splits option.splits)

lemma configured_handlers:
  assumes "configureGrantTypes ds handlers grantTypes configs = Inr (hs, gts, cs)"
    and "map fst handlers = grantTypes" and "distinct grantTypes"
    and "fst ` set configs \<subseteq> set grantTypes" and "keys_distinct configs"
  shows "map fst hs = gts \<and> distinct gts \<and> fst ` set cs \<subseteq> set gts \<and> keys_distinct cs \<and>
    gts = grantTypes @ map gtd_GrantType ds"
  using assms
proof (induction ds handlers grantTypes configs rule: configureGrantTypes.induct)
  case (2 d ds handlers grantTypes configs)
  then obtain handler where d: "gtd_Handler d = Some handler" "gtd_GrantType d \<noteq> []" "\<forall>y. (gtd_GrantType d, y) \<notin> set handlers"
    by (auto simp: result_simps)
  then have "gtd_GrantType d \<notin> set grantTypes" using 2(3) by auto
  then show ?case using 2 d by (auto simp: dom_update split: if_splits)
qed simp

lemma checked_methods:
  "checkAuthenticationMethods handlers ms = None \<Longrightarrow> m \<in> set ms \<Longrightarrow> m \<noteq> AuthenticationMethodJWT \<Longrightarrow>
     \<exists>h f. map_of handlers m = Some h \<and> gth_AuthenticateCredential h = Some f"
  by (induction handlers ms rule: checkAuthenticationMethods.induct) (auto split: if_splits option.splits)

lemma documents_added:
  assumes "addServiceDocuments documents d = Inr d'"
  shows "insp_Service d' = insp_Service d \<and> insp_Core d' = insp_Core d \<and> insp_Commands d' = insp_Commands d \<and>
    insp_Identity d' = insp_Identity d \<and> insp_Authentication d' = insp_Authentication d"
  using assms by (auto simp: addServiceDocuments_def Let_def split: option.splits if_splits)

section \<open>Properties\<close>

text \<open>
  What the operations of a Service rely on: a valid Inspect document that names the Service and both
  required algorithms, its grant types exactly those with a handler, times and limits in bounds, and
  an authenticator behind every advertised session method.
\<close>

definition service_ok :: "'w Service \<Rightarrow> bool" where
  "service_ok service \<longleftrightarrow>
     ValidateInspectDocument (svc_document service) = None \<and> si_DID (insp_Service (svc_document service)) \<noteq> [] \<and>
     {SigningAlgorithmEdDSA, SigningAlgorithmES256} \<subseteq> set (elems (core_SigningAlgorithms (insp_Core (svc_document service)))) \<and>
     cmds_GrantTypes (insp_Commands (svc_document service)) = Some (map fst (svc_grantHandlers service)) \<and>
     distinct (map fst (svc_grantHandlers service)) \<and>
     fst ` set (cmds_GrantTypesConfig (insp_Commands (svc_document service))) \<subseteq> fst ` set (svc_grantHandlers service) \<and>
     times_configured (svc_clientAssertion service) \<and>
     0 < cvl_MaxEncodedBytes (svc_claimValueLimits service) \<and> 0 < cvl_MaxMemberCount (svc_claimValueLimits service) \<and>
     0 < cvl_MaxObjectDepth (svc_claimValueLimits service) \<and> 0 < cvl_MaxStringLength (svc_claimValueLimits service) \<and>
     distinct (svc_authenticationMethods service) \<and> length (svc_authenticationMethods service) \<le> MaxAuthenticationMethods \<and>
     (\<forall>m \<in> set (svc_authenticationMethods service). m \<noteq> AuthenticationMethodJWT \<longrightarrow>
        (\<exists>h f. map_of (svc_grantHandlers service) m = Some h \<and> gth_AuthenticateCredential h = Some f))"

text \<open>
  C9. Every Service that New returns is well formed: its document is valid and agrees with its
  handlers, its clock skew is at most 30 seconds and its lifetime at most 300, its limits are positive,
  and each advertised session method can authenticate, so no request makes a handler lookup fail.
\<close>

theorem new_service_well_formed:
  assumes "Service_New rt options = Inr service"
  shows "service_ok service \<and> si_DID (insp_Service (svc_document service)) = opt_ServiceDID options"
proof -
  obtain verifier methods algorithms handlers grantTypes configs base document inspectURL times limits where n:
    "opt_ServiceDID options \<noteq> []" "configureGrantTypes (opt_GrantTypes options) [] [] [] = Inr (handlers, grantTypes, configs)"
    "SigningAlgorithmEdDSA \<in> set algorithms" "SigningAlgorithmES256 \<in> set algorithms"
    "length (opt_AuthenticationMethods options) \<le> MaxAuthenticationMethods"
    "\<not> hasDuplicates (opt_AuthenticationMethods options)"
    "checkAuthenticationMethods handlers (opt_AuthenticationMethods options) = None"
    "addServiceDocuments (opt_ServiceDocuments options) (baseDocument options methods algorithms grantTypes configs base) = Inr document"
    "ValidateInspectDocument document = None" "resolveClientAssertionOptions (opt_ClientAssertion options) = Inr times"
    "resolveClaimValueLimits (opt_ClaimValueLimits options) = Inr limits"
    "service = assembleService rt options verifier handlers document inspectURL times limits"
    using assms by (auto simp: Service_New_def Let_def not_less result_simps split: prod.splits)
  have hs: "map fst handlers = grantTypes" "distinct grantTypes" "fst ` set configs \<subseteq> set grantTypes"
    using configured_handlers [OF n(2)] by auto
  have doc: "insp_Service document = \<lparr>si_DID = opt_ServiceDID options\<rparr>" "insp_Core document = \<lparr>core_SigningAlgorithms = Some algorithms\<rparr>"
    "cmds_GrantTypes (insp_Commands document) = Some grantTypes" "cmds_GrantTypesConfig (insp_Commands document) = configs"
    using documents_added [OF n(8)] by (simp_all add: baseDocument_def)
  have s: "svc_document service = document" "svc_grantHandlers service = handlers" "svc_clientAssertion service = times"
    "svc_claimValueLimits service = limits" "svc_authenticationMethods service = opt_AuthenticationMethods options"
    unfolding n(12) assembleService_def Let_def by simp_all
  have ms: "distinct (opt_AuthenticationMethods options)" using n(6) by (simp add: hasDuplicates_def has_duplicates_iff)
  have "fst ` set configs \<subseteq> fst ` set handlers" using hs by (metis image_set)
  then show ?thesis
    unfolding service_ok_def s doc
    using n(1,3-5,9) hs ms resolved_times [OF n(10)] resolved_limits_positive [OF n(11)] checked_methods [OF n(7)] by simp
qed


definition options_example :: "unit Options" where
  "options_example = \<lparr>opt_ServiceDocuments = None, opt_AuthenticationMethods = [AuthenticationMethodJWT, GrantTypeBasic],
     opt_ClientAssertion = \<lparr>cao_AllowInsecureLoopback = False, cao_ClockSkew = None, cao_MaximumLifetime = 0\<rparr>,
     opt_ClaimValueLimits = None, opt_Clock = Some clock_example, opt_Claims = None, opt_EndpointBase = [],
     opt_EnrollmentPolicy = None, opt_EnrollmentStore = Some no_enrollments, opt_Extensions = [],
     opt_GrantTypes = [\<lparr>gtd_Config = zero_grant_type_config, gtd_GrantType = GrantTypeBasic,
       gtd_Handler = Some \<lparr>gth_Grant = (\<lambda>_ _. fail (External [])), gth_Revoke = (\<lambda>_ _. ok ()),
         gth_AuthenticateCredential = Some (\<lambda>_. ok None), gth_HasCredentialPresentation = None\<rparr>\<rparr>],
     opt_Identifier = None, opt_IdempotencyStore = Some (\<lambda>_ _. fail (External [])),
     opt_IdentityMethods = [IdentityMethodDIDWeb], opt_InspectURL = None, opt_OpenAPI = None,
     opt_ReplayStore = Some \<lparr>rs_ConsumeReplay = (\<lambda>_ _. ok True)\<rparr>, opt_ServiceDID = ''did:web:s.example'',
     opt_SigningAlgorithms = [], opt_Verifier = Some (\<lambda>_ _. fail (External []))\<rparr>"

definition runtime_example :: "unit runtime" where
  "runtime_example = \<lparr>rt_time_Now = clock_example, rt_rand_Read = ok [], rt_ctxDone = (\<lambda>_. False),
     rt_enrollments = \<lparr>part_get = (\<lambda>_. empty_enrollments), part_put = (\<lambda>_ w. w)\<rparr>,
     rt_replays = \<lparr>part_get = (\<lambda>_. Map.empty), part_put = (\<lambda>_ w. w)\<rparr>,
     rt_idempotency = \<lparr>part_get = (\<lambda>_. empty_idempotency), part_put = (\<lambda>_ w. w)\<rparr>\<rparr>"

lemma example_new: "case Service_New runtime_example options_example of Inl e \<Rightarrow> False | Inr s \<Rightarrow> True"
  by code_simp

theorem new_service_well_formed_witness:
  "\<exists>service. Service_New runtime_example options_example = Inr service \<and> service_ok service"
proof -
  obtain service where "Service_New runtime_example options_example = Inr service" using result_ok [OF example_new] by blast
  with new_service_well_formed [OF this] show ?thesis by blast
qed

end
