(* ===== verification/Media_Types.thy ===== *)
theory Media_Types
  imports Worlds
begin

text \<open>
  \<open>mime.ParseMediaType\<close> of the standard library, as far as the media type it returns and whether it
  fails: the values of parameters matter only where a name is repeated. The functions that compare
  media types on both sides of the protocol follow.
\<close>

definition is_tspecial :: "char \<Rightarrow> bool" where
  "is_tspecial c \<longleftrightarrow> c \<in> set ''()<>@,;:/[]?='' \<or> byte c = 0x22 \<or> byte c = 0x5C"

definition token_char :: "char \<Rightarrow> bool" where
  "token_char c \<longleftrightarrow> 32 < byte c \<and> byte c < 127 \<and> \<not> is_tspecial c"

definition consume_token :: "string \<Rightarrow> string \<times> string" where
  "consume_token v = (takeWhile token_char v, dropWhile token_char v)"

text \<open>The body of a quoted string; \<open>None\<close> when it does not end.\<close>

fun quoted_value :: "string \<Rightarrow> (string \<times> string) option" where
  "quoted_value [] = None"
| "quoted_value (c # s) =
     (if byte c = 0x22 then Some ([], s)
      else if byte c = 13 \<or> byte c = 10 then None
      else case s of
             d # t \<Rightarrow>
               if byte c = 0x5C \<and> is_tspecial d then map_option (\<lambda>(v, r). (d # v, r)) (quoted_value t)
               else map_option (\<lambda>(v, r). (c # v, r)) (quoted_value s)
           | [] \<Rightarrow> None)"

definition consume_value :: "string \<Rightarrow> string \<times> string" where
  "consume_value v =
     (case v of
        [] \<Rightarrow> ([], [])
      | c # s \<Rightarrow> if byte c \<noteq> 0x22 then consume_token v
                 else (case quoted_value s of None \<Rightarrow> ([], v) | Some r \<Rightarrow> r))"

abbreviation trim_left_space :: "string \<Rightarrow> string" where
  "trim_left_space s \<equiv> trim_space_left space_seqs (length s) s"

definition consume_param :: "string \<Rightarrow> (string \<times> string \<times> string) option" where
  "consume_param v =
     (case trim_left_space v of
        CHR '';'' # r1 \<Rightarrow>
          (case consume_token (trim_left_space r1) of (param, r2) \<Rightarrow>
             if param = [] then None
             else case trim_left_space r2 of
                    CHR ''='' # r3 \<Rightarrow>
                      (let r4 = trim_left_space r3 in
                       case consume_value r4 of (val, r5) \<Rightarrow>
                         if val = [] \<and> r5 = r4 then None else Some (to_lower param, val, r5))
                  | _ \<Rightarrow> None)
      | _ \<Rightarrow> None)"

text \<open>The loop over the parameters; every turn consumes some text, so the length is enough fuel.\<close>

fun params_ok :: "nat \<Rightarrow> (string \<times> string) list \<Rightarrow> string \<Rightarrow> bool" where
  "params_ok 0 seen v \<longleftrightarrow> True"
| "params_ok (Suc fuel) seen v0 \<longleftrightarrow>
     (let v = trim_left_space v0 in
      if v = [] then True
      else case consume_param v of
             None \<Rightarrow> trim_space v = '';''
           | Some (key, val, rest) \<Rightarrow>
               (case map_of seen key of
                  Some old \<Rightarrow> old = val \<and> params_ok fuel seen rest
                | None \<Rightarrow> params_ok fuel ((key, val) # seen) rest))"

definition check_media_type :: "string \<Rightarrow> bool" where
  "check_media_type s \<longleftrightarrow>
     (case consume_token s of (typ, rest) \<Rightarrow>
        typ \<noteq> [] \<and>
        (case rest of
           [] \<Rightarrow> True
         | c # r \<Rightarrow> c = CHR ''/'' \<and> (case consume_token r of (sub, rest') \<Rightarrow> sub \<noteq> [] \<and> rest' = [])))"

definition mime_ParseMediaType :: "string \<Rightarrow> string option" where
  "mime_ParseMediaType v =
     (let base = before CHR '';'' v; mediatype = trim_space (to_lower base) in
      if \<not> check_media_type mediatype then None
      else if params_ok (length v) [] (drop (length base) v) then Some mediatype else None)"

text \<open>\<open>matchesMediaType\<close> of \<open>service/http.go\<close>.\<close>

definition matchesMediaType :: "string \<Rightarrow> string \<Rightarrow> bool" where
  "matchesMediaType val expected \<longleftrightarrow>
     (case mime_ParseMediaType val of None \<Rightarrow> False | Some actual \<Rightarrow> equal_fold actual expected)"

lemmas media_type_defs [go_defs] =
  is_tspecial_def token_char_def consume_token_def consume_value_def consume_param_def check_media_type_def
  mime_ParseMediaType_def matchesMediaType_def

lemma media_type_examples:
  "matchesMediaType ''application/aep+json'' MediaType"
  "matchesMediaType ''Application/AEP+JSON; charset=utf-8'' MediaType"
  "matchesMediaType ''application/aep+json ;'' MediaType"
  "\<not> matchesMediaType ''application/json'' MediaType"
  "\<not> matchesMediaType ''application/aep+json; charset'' MediaType"
  "\<not> matchesMediaType ''application/aep+json; a=1; a=2'' MediaType"
  by code_simp+

end
