(* ===== verification/Service_Http.thy ===== *)
theory Service_Http
  imports Service_New Media_Types
begin

text \<open>
  \<open>service/http.go\<close>: the HTTP handler of a Service and the middleware for protected resources. A
  response writer is the header it starts with; a handler returns the response it wrote. A request's
  body is the bytes it delivers and the error they end with, or nil; the principal the middleware puts
  into the context is a field of the request.
\<close>

abbreviation DefaultMaximumRequestBodyBytes :: int where "DefaultMaximumRequestBodyBytes \<equiv> 1048576"
abbreviation defaultInspectCacheControl :: string where "defaultInspectCacheControl \<equiv> ''public, max-age=300''"

record http_request =
  hrq_Method :: string
  hrq_URL :: URL
  hrq_Header :: Header
  hrq_Body :: "(string \<times> go_error option) option"
  hrq_Principal :: "AuthenticatedPrincipal option"

record response =
  rw_Header :: Header
  rw_Status :: int
  rw_Body :: string

type_synonym 'w http_handler = "Header \<Rightarrow> http_request \<Rightarrow> (go_error, 'w, response) act"

record HTTPHandlerOptions =
  hho_InspectCacheControl :: string
  hho_MaximumRequestBodyBytes :: int

record 'w HTTPHandler =
  hh_commandPaths :: "(string \<times> Command) list"
  hh_inspectBody :: string
  hh_inspectCacheControl :: string
  hh_inspectETag :: string
  hh_maximumRequestBodyBytes :: int
  hh_service :: "'w Service option"

section \<open>Helpers\<close>

definition enc_http_problem :: "int \<Rightarrow> string \<Rightarrow> string" where
  "enc_http_problem status title =
     enc_object [(''status'', enc_int status), (''title'', enc_string title), (''type'', enc_string ''about:blank'')]"

definition writeHTTPProblem :: "Header \<Rightarrow> int \<Rightarrow> string \<Rightarrow> response" where
  "writeHTTPProblem h status title =
     (let encoded = enc_http_problem status title in
      \<lparr>rw_Header = header_Set ''Content-Length'' (digits_of (int (length encoded)))
         (header_Set ''Content-Type'' ProblemMediaType (header_Set ''Cache-Control'' ''no-store'' h)),
       rw_Status = status, rw_Body = encoded\<rparr>)"

definition copyResponseHeaders :: "Header \<Rightarrow> Header \<Rightarrow> Header" where
  "copyResponseHeaders destination source =
     foldl (\<lambda>h (name, values).
       if equal_fold name ''Content-Length'' \<or> equal_fold name ''Content-Type'' then h
       else foldl (\<lambda>h v. header_Add name v h) h values) destination (elems source)"

definition writeEncoded :: "Header \<Rightarrow> Header \<Rightarrow> string \<Rightarrow> int \<Rightarrow> string \<Rightarrow> response" where
  "writeEncoded h headers contentType status encoded =
     \<lparr>rw_Header = header_Set ''Content-Length'' (digits_of (int (length encoded)))
        (header_Set ''Content-Type'' contentType (header_Set ''Cache-Control'' ''no-store'' (copyResponseHeaders h headers))),
      rw_Status = status, rw_Body = encoded\<rparr>"

definition writeServiceResult :: "('body \<Rightarrow> string option) \<Rightarrow> Header \<Rightarrow> 'body Result result \<Rightarrow> response" where
  "writeServiceResult encode h outcome =
     (case outcome of
        Inl err \<Rightarrow> writeHTTPProblem h 500 ''Internal Server Error''
      | Inr result \<Rightarrow>
          (case (case res_Problem result of Some problem \<Rightarrow> ProblemDetails_MarshalJSON problem
                 | None \<Rightarrow> encode (res_Body result)) of
             None \<Rightarrow> writeHTTPProblem h 500 ''Internal Server Error''
           | Some encoded \<Rightarrow> writeEncoded h (res_Headers result) (res_ContentType result) (res_Status result) encoded))"

definition writeProblemResponse :: "Header \<Rightarrow> ProblemResponse option \<Rightarrow> response" where
  "writeProblemResponse h problem =
     (case problem of
        None \<Rightarrow> writeHTTPProblem h 500 ''Internal Server Error''
      | Some p \<Rightarrow>
          (case ProblemDetails_MarshalJSON (prs_Body p) of
             None \<Rightarrow> writeHTTPProblem h 500 ''Internal Server Error''
           | Some encoded \<Rightarrow> writeEncoded h (prs_Headers p) (prs_ContentType p) (prs_Status p) encoded))"

definition singleHeaderValue :: "Header \<Rightarrow> string \<Rightarrow> string \<times> bool" where
  "singleHeaderValue header name = (case header_Values header name of [v] \<Rightarrow> (v, True) | _ \<Rightarrow> ([], False))"

definition commandAssertion :: "Header \<Rightarrow> string" where
  "commandAssertion header =
     (case singleHeaderValue header ''Authorization'' of (val, unique) \<Rightarrow>
        if \<not> unique then []
        else case ParseProtectedResourceAuthorization val ProtectedResourceStandard of
               Inl _ \<Rightarrow> []
             | Inr presentation \<Rightarrow> if pra_Scheme presentation \<noteq> CredentialSchemeAEP then [] else pra_Credentials presentation)"

definition methodAllowed :: "string \<Rightarrow> bool \<Rightarrow> bool" where
  "methodAllowed verb safe \<longleftrightarrow> (if \<not> safe then verb = ''POST'' else verb = ''GET'' \<or> verb = ''HEAD'')"

definition allowedMethods :: "bool \<Rightarrow> string" where
  "allowedMethods safe = (if \<not> safe then ''POST'' else ''GET, HEAD'')"

definition etagMatches :: "string \<Rightarrow> string \<Rightarrow> bool" where
  "etagMatches val expected \<longleftrightarrow>
     list_ex (\<lambda>c. let candidate = trim_space c in
       candidate = ''*'' \<or> candidate = expected \<or> trim_prefix candidate ''W/'' = expected) (split_on CHR '','' val)"

text \<open>The error of a body over the limit, wrapped or not, is a \<open>MaxBytesError\<close>.\<close>

definition max_bytes_error :: go_error where
  "max_bytes_error = Library ''http.MaxBytesError''"

fun as_max_bytes :: "go_error \<Rightarrow> bool" where
  "as_max_bytes (Wrapped m e) = as_max_bytes e"
| "as_max_bytes e = (e = max_bytes_error)"

definition readRequestBody :: "http_request \<Rightarrow> int \<Rightarrow> string result" where
  "readRequestBody request maximum =
     (case hrq_Body request of
        None \<Rightarrow> Inr []
      | Some (bytes, end_error) \<Rightarrow>
          if maximum < int (length bytes) then Inl max_bytes_error
          else (case end_error of None \<Rightarrow> Inr bytes | Some err \<Rightarrow> Inl err))"

section \<open>The handler\<close>

text \<open>The loop over the commands of the document.\<close>

fun commandPathMap :: "InspectDocument \<Rightarrow> Command list \<Rightarrow> (string \<times> Command) list \<Rightarrow> (string \<times> Command) list result" where
  "commandPathMap document [] paths = Inr paths"
| "commandPathMap document (command # rest) paths =
     (if command = CommandInspect then commandPathMap document rest paths
      else case CommandPathFromInspect document command of
             Inl err \<Rightarrow> Inl err
           | Inr path \<Rightarrow> commandPathMap document rest (AList.update path command paths))"

definition NewHTTPHandler ::
  "(string \<Rightarrow> string) \<Rightarrow> 'w Service option \<Rightarrow> HTTPHandlerOptions \<Rightarrow> 'w HTTPHandler result" where
  "NewHTTPHandler sha256 service options =
     (case service of
        None \<Rightarrow> Inl (Text ''AEP HTTP handler requires a Service'')
      | Some svc \<Rightarrow>
          if hho_MaximumRequestBodyBytes options < 0
          then Inl (Text ''AEP HTTP request body limit must not be negative'')
          else
          let maximum = (if hho_MaximumRequestBodyBytes options = 0 then DefaultMaximumRequestBodyBytes
                         else hho_MaximumRequestBodyBytes options);
              cacheControl = (if hho_InspectCacheControl options = [] then defaultInspectCacheControl
                              else hho_InspectCacheControl options) in
          if trim_space cacheControl = [] \<or> list_ex (\<lambda>c. byte c = 13 \<or> byte c = 10) cacheControl
          then Inl (Text ''AEP Inspect Cache-Control value must be a valid HTTP field value'')
          else case Service_InspectDocument svc of
            Inl err \<Rightarrow> Inl err
          | Inr document \<Rightarrow>
         (case InspectDocument_MarshalJSON document of
            None \<Rightarrow> Inl (Library ''encoding/json'')
          | Some body \<Rightarrow>
         (case commandPathMap document (elems (cmds_Supported (insp_Commands document))) [] of
            Inl err \<Rightarrow> Inl err
          | Inr paths \<Rightarrow>
              Inr \<lparr>hh_commandPaths = paths, hh_inspectBody = body, hh_inspectCacheControl = cacheControl,
                   hh_inspectETag = CHR 0x22 # ''sha256:'' @ hex_encode (sha256 body) @ [CHR 0x22],
                   hh_maximumRequestBodyBytes = maximum, hh_service = Some svc\<rparr>)))"

definition HTTPHandler_serveInspect :: "'w HTTPHandler \<Rightarrow> Header \<Rightarrow> http_request \<Rightarrow> response" where
  "HTTPHandler_serveInspect handler h request =
     (if \<not> methodAllowed (hrq_Method request) True
      then writeHTTPProblem (header_Set ''Allow'' (allowedMethods True) h) 405 ''Method Not Allowed''
      else
        let cached = header_Set ''ETag'' (hh_inspectETag handler)
                       (header_Set ''Cache-Control'' (hh_inspectCacheControl handler) h) in
        if etagMatches (join_with '','' (header_Values (hrq_Header request) ''If-None-Match'')) (hh_inspectETag handler)
        then \<lparr>rw_Header = cached, rw_Status = 304, rw_Body = []\<rparr>
        else \<lparr>rw_Header = header_Set ''Content-Length'' (digits_of (int (length (hh_inspectBody handler))))
                 (header_Set ''Content-Type'' MediaType cached),
              rw_Status = 200, rw_Body = hh_inspectBody handler\<rparr>)"

text \<open>The body of a command other than Status; \<open>Inl\<close> is the response that refuses it.\<close>

definition commandBody :: "'w HTTPHandler \<Rightarrow> Header \<Rightarrow> http_request \<Rightarrow> response + string" where
  "commandBody handler h request =
     (case singleHeaderValue (hrq_Header request) ''Content-Type'' of (contentType, unique) \<Rightarrow>
        if \<not> unique \<or> \<not> matchesMediaType contentType MediaType
        then Inl (writeHTTPProblem h 415 ''Unsupported Media Type'')
        else case readRequestBody request (hh_maximumRequestBodyBytes handler) of
               Inl err \<Rightarrow>
                 if as_max_bytes err then Inl (writeHTTPProblem h 413 ''Content Too Large'')
                 else Inl (writeHTTPProblem h 400 ''Bad Request'')
             | Inr body \<Rightarrow> Inr body)"

definition finish :: "('body \<Rightarrow> string option) \<Rightarrow> Header \<Rightarrow> (go_error, 'w, 'body Result) act \<Rightarrow> (go_error, 'w, response) act" where
  "finish encode h command = and_then (attempt command) (\<lambda>outcome. ok (writeServiceResult encode h outcome))"

definition HTTPHandler_serveCommand ::
  "(string \<Rightarrow> string) \<Rightarrow> 'w HTTPHandler \<Rightarrow> 'w Service \<Rightarrow> Command \<Rightarrow> 'w http_handler" where
  "HTTPHandler_serveCommand sha256 handler service command h request =
     (let assertion = commandAssertion (hrq_Header request) in
      if command = CommandStatus
      then finish StatusResponse_MarshalJSON h
             (Service_Status service \<lparr>cop_ClientAssertion = assertion, cop_IdempotencyKey = []\<rparr>)
      else case commandBody handler h request of
        Inl refused \<Rightarrow> ok refused
      | Inr body \<Rightarrow>
          let options = \<lparr>cop_ClientAssertion = assertion,
                cop_IdempotencyKey = fst (singleHeaderValue (hrq_Header request) ''Idempotency-Key'')\<rparr> in
          if command = CommandEnroll
          then finish EnrollResponse_MarshalJSON h (Service_Enroll sha256 service body options)
          else if command = CommandGrant then finish enc_raw h (Service_Grant sha256 service body options)
          else if command = CommandRevoke
          then finish (\<lambda>_. Some ''{}'') h (Service_Revoke sha256 service body options)
          else ok (writeHTTPProblem h 404 ''Not Found''))"

definition HTTPHandler_ServeHTTP :: "(string \<Rightarrow> string) \<Rightarrow> 'w HTTPHandler option \<Rightarrow> 'w http_handler" where
  "HTTPHandler_ServeHTTP sha256 handler h request =
     (case handler of
        None \<Rightarrow> ok (writeHTTPProblem h 500 ''Internal Server Error'')
      | Some hh \<Rightarrow>
     (case hh_service hh of
        None \<Rightarrow> ok (writeHTTPProblem h 500 ''Internal Server Error'')
      | Some service \<Rightarrow>
          if url_Path (hrq_URL request) = WellKnownPath then ok (HTTPHandler_serveInspect hh h request)
          else case map_of (hh_commandPaths hh) (url_Path (hrq_URL request)) of
                 None \<Rightarrow> ok (writeHTTPProblem h 404 ''Not Found'')
               | Some command \<Rightarrow>
                   if \<not> methodAllowed (hrq_Method request) (command = CommandStatus)
                   then ok (writeHTTPProblem (header_Set ''Allow'' (allowedMethods (command = CommandStatus)) h) 405
                              ''Method Not Allowed'')
                   else HTTPHandler_serveCommand sha256 hh service command h request))"

section \<open>The middleware\<close>

definition parseResourceOrigin :: "string \<Rightarrow> bool \<Rightarrow> URL result" where
  "parseResourceOrigin val allowInsecureLoopback =
     (case url_Parse val of
        None \<Rightarrow> Inl (Text ''AEP protected-resource origin must be an absolute origin without credentials, path, query, or fragment'')
      | Some origin \<Rightarrow>
          if url_Host origin = [] \<or> url_User origin \<noteq> None \<or> url_Opaque origin \<noteq> [] \<or>
             (url_Path origin \<noteq> [] \<and> url_Path origin \<noteq> ''/'') \<or> url_ForceQuery origin \<or> url_RawQuery origin \<noteq> [] \<or>
             url_Fragment origin \<noteq> [] \<or> CHR ''#'' \<in> set val
          then Inl (Text ''AEP protected-resource origin must be an absolute origin without credentials, path, query, or fragment'')
          else
            let secure = url_Scheme origin = ''https'';
                insecureLoopback = allowInsecureLoopback \<and> url_Scheme origin = ''http'' \<and>
                  isLoopbackHostname (url_Hostname origin) in
            if \<not> secure \<and> \<not> insecureLoopback then Inl (Text ''AEP protected-resource origin must use HTTPS'')
            else Inr (origin\<lparr>url_Path := []\<rparr>))"

definition clonePrincipal :: "AuthenticatedPrincipal \<Rightarrow> AuthenticatedPrincipal" where
  "clonePrincipal who = who\<lparr>apr_Scopes := apr_Scopes who\<rparr>"

text \<open>\<open>http.NotFoundHandler\<close>.\<close>

definition notFoundHandler :: "'w http_handler" where
  "notFoundHandler h request =
     ok \<lparr>rw_Header = header_Set ''X-Content-Type-Options'' ''nosniff''
           (header_Set ''Content-Type'' ''text/plain; charset=utf-8'' (header_Del ''Content-Length'' h)),
         rw_Status = 404, rw_Body = ''404 page not found'' @ [CHR 0x0A]\<rparr>"

definition guardedHandler ::
  "(int \<Rightarrow> bool) \<Rightarrow> 'w Service \<Rightarrow> URL \<Rightarrow> 'w http_handler \<Rightarrow> 'w http_handler" where
  "guardedHandler isPrint service origin next h request =
     (let resource = (hrq_URL request)\<lparr>url_Scheme := url_Scheme origin, url_Host := url_Host origin, url_User := None,
            url_Fragment := []\<rparr> in
      and_then (attempt (Service_AuthenticateProtectedResource isPrint service
         \<lparr>prr_Headers = hrq_Header request, prr_Method = hrq_Method request, prr_URL = Some resource\<rparr>)) (\<lambda>authenticated.
      case authenticated of
        Inl err \<Rightarrow> ok (writeHTTPProblem h 500 ''Internal Server Error'')
      | Inr result \<Rightarrow>
          if \<not> pr_Authenticated result then ok (writeProblemResponse h (pr_Response result))
          else case pr_Principal result of
                 None \<Rightarrow> ok (writeHTTPProblem h 500 ''Internal Server Error'')
               | Some who \<Rightarrow> next h (request\<lparr>hrq_Principal := Some (clonePrincipal who)\<rparr>)))"

definition NewProtectedResourceMiddleware ::
  "(int \<Rightarrow> bool) \<Rightarrow> 'w Service option \<Rightarrow> string \<Rightarrow> ('w http_handler option \<Rightarrow> 'w http_handler) result" where
  "NewProtectedResourceMiddleware isPrint service resourceOrigin =
     (case service of
        None \<Rightarrow> Inl (Text ''AEP protected-resource middleware requires a Service'')
      | Some svc \<Rightarrow>
          (case parseResourceOrigin resourceOrigin (caos_AllowInsecureLoopback (svc_clientAssertion svc)) of
             Inl err \<Rightarrow> Inl err
           | Inr origin \<Rightarrow>
               Inr (\<lambda>next. guardedHandler isPrint svc origin (case next of None \<Rightarrow> notFoundHandler | Some n \<Rightarrow> n))))"

definition PrincipalFromContext :: "http_request \<Rightarrow> AuthenticatedPrincipal option" where
  "PrincipalFromContext request = map_option clonePrincipal (hrq_Principal request)"

lemmas service_http_defs [go_defs] =
  enc_http_problem_def writeHTTPProblem_def copyResponseHeaders_def writeEncoded_def writeServiceResult_def
  writeProblemResponse_def singleHeaderValue_def commandAssertion_def methodAllowed_def allowedMethods_def
  etagMatches_def max_bytes_error_def readRequestBody_def NewHTTPHandler_def HTTPHandler_serveInspect_def
  commandBody_def finish_def HTTPHandler_serveCommand_def HTTPHandler_ServeHTTP_def parseResourceOrigin_def
  clonePrincipal_def notFoundHandler_def guardedHandler_def NewProtectedResourceMiddleware_def PrincipalFromContext_def


section \<open>Lemmas\<close>

lemma finish_total [simp]: "\<exists>r w'. finish encode h command w = (Inr r, w')"
  by (auto simp: finish_def and_then_def attempt_def ok_def split: prod.splits)

lemma ok_total [simp]: "\<exists>r w'. ok x w = (Inr r, w')"
  by simp

lemma problem_status [simp]: "rw_Status (writeHTTPProblem h status title) = status"
  by (simp add: writeHTTPProblem_def Let_def)

lemma challenge_status: "prs_Status p = 401 \<Longrightarrow> rw_Status (writeProblemResponse h (Some p)) \<in> {401, 500}"
  by (simp add: writeProblemResponse_def writeEncoded_def split: option.splits)

text \<open>What a command needs before the Service sees it.\<close>

definition admissible :: "'w HTTPHandler \<Rightarrow> http_request \<Rightarrow> Command \<Rightarrow> bool" where
  "admissible hh request command \<longleftrightarrow>
     map_of (hh_commandPaths hh) (url_Path (hrq_URL request)) = Some command \<and>
     methodAllowed (hrq_Method request) (command = CommandStatus) \<and>
     (command \<noteq> CommandStatus \<longrightarrow>
        (\<exists>contentType body. header_Values (hrq_Header request) ''Content-Type'' = [contentType] \<and>
           matchesMediaType contentType MediaType \<and> readRequestBody request (hh_maximumRequestBodyBytes hh) = Inr body))"

lemma commandBody_Inr:
  assumes "commandBody hh h request = Inr body"
  shows "\<exists>contentType. header_Values (hrq_Header request) ''Content-Type'' = [contentType] \<and>
    matchesMediaType contentType MediaType \<and> readRequestBody request (hh_maximumRequestBodyBytes hh) = Inr body"
  using assms
  by (auto simp: commandBody_def singleHeaderValue_def split: if_splits sum.splits list.splits)

lemma serveCommand_total:
  "\<exists>r w'. HTTPHandler_serveCommand sha256 hh service command h request w = (Inr r, w') \<and>
    (w' \<noteq> w \<longrightarrow> command = CommandStatus \<or> (\<exists>body. commandBody hh h request = Inr body))"
proof (cases "command = CommandStatus \<or> (\<exists>body. commandBody hh h request = Inr body)")
  case True
  have "\<exists>r w'. HTTPHandler_serveCommand sha256 hh service command h request w = (Inr r, w')"
    unfolding HTTPHandler_serveCommand_def Let_def by (cases "commandBody hh h request") (simp_all del: ok_eq)
  with True show ?thesis by blast
next
  case False
  then obtain refused where "commandBody hh h request = Inl refused" by (cases "commandBody hh h request") auto
  with False show ?thesis by (simp add: HTTPHandler_serveCommand_def Let_def)
qed

section \<open>Properties\<close>

text \<open>
  C10. The HTTP handler answers every request, and nothing happens to the world unless the request is
  admissible: its path is that of a command, its method the command's, and, for a command with a body,
  it carries one matching content type and a body that was read within the limit.
\<close>

theorem http_effects_gated:
  "\<exists>r w'. HTTPHandler_ServeHTTP sha256 handler h request w = (Inr r, w') \<and>
    (w' = w \<or> (\<exists>hh service command. handler = Some hh \<and> hh_service hh = Some service \<and> admissible hh request command))"
proof (cases "Option.bind handler hh_service")
  case None
  then show ?thesis by (cases handler) (auto simp: HTTPHandler_ServeHTTP_def ok_def)
next
  case (Some service)
  then obtain hh where hh: "handler = Some hh" "hh_service hh = Some service" by (cases handler) auto
  show ?thesis
  proof (cases "map_of (hh_commandPaths hh) (url_Path (hrq_URL request))")
    case None
    then show ?thesis using hh by (simp add: HTTPHandler_ServeHTTP_def ok_def)
  next
    case (Some command)
    obtain r w' where run: "HTTPHandler_serveCommand sha256 hh service command h request w = (Inr r, w')"
      "w' \<noteq> w \<longrightarrow> command = CommandStatus \<or> (\<exists>body. commandBody hh h request = Inr body)"
      using serveCommand_total [of sha256 hh service command h request w] by (elim exE conjE)
    have "w' = w \<or> admissible hh request command" if "methodAllowed (hrq_Method request) (command = CommandStatus)"
    proof (cases "w' = w \<or> command = CommandStatus")
      case True
      then show ?thesis using that Some by (auto simp: admissible_def simp del: map_of_eq_Some_iff)
    next
      case False
      then obtain body where "commandBody hh h request = Inr body" using run(2) by blast
      from commandBody_Inr [OF this] show ?thesis
        using that Some unfolding admissible_def by blast
    qed
    show ?thesis
    proof (cases "methodAllowed (hrq_Method request) (command = CommandStatus) \<and> url_Path (hrq_URL request) \<noteq> WellKnownPath")
      case True
      then have "HTTPHandler_ServeHTTP sha256 handler h request w = (Inr r, w')"
        using hh Some run(1) by (simp add: HTTPHandler_ServeHTTP_def del: map_of_eq_Some_iff)
      moreover have "w' = w \<or> admissible hh request command" using \<open>_ \<Longrightarrow> w' = w \<or> _\<close> True by blast
      ultimately show ?thesis using hh by blast
    next
      case False
      then have "\<exists>r. HTTPHandler_ServeHTTP sha256 handler h request w = (Inr r, w)"
        using hh Some by (auto simp: HTTPHandler_ServeHTTP_def simp del: map_of_eq_Some_iff)
      then show ?thesis by blast
    qed
  qed
qed

text \<open>
  C11. The middleware guards the handler behind it: a request either reaches it with the principal of
  an authenticated answer for the resource under the configured origin, or is answered 401 or 500
  without it, in the world the authentication left.
\<close>

theorem protected_handler_guarded:
  assumes "NewProtectedResourceMiddleware isPrint (Some service) resourceOrigin = Inr middleware"
    and "middleware (Some next) h request w = (x, w')"
  shows "\<exists>origin q answer w1. parseResourceOrigin resourceOrigin (caos_AllowInsecureLoopback (svc_clientAssertion service)) = Inr origin \<and>
    map_option url_Host (prr_URL q) = Some (url_Host origin) \<and> map_option url_Scheme (prr_URL q) = Some (url_Scheme origin) \<and>
    prr_Headers q = hrq_Header request \<and>
    Service_AuthenticateProtectedResource isPrint service q w = (answer, w1) \<and>
    ((\<exists>r who. answer = Inr r \<and> pr_Authenticated r \<and> pr_Principal r = Some who \<and>
        next h (request\<lparr>hrq_Principal := Some who\<rparr>) w1 = (x, w')) \<or>
     (\<exists>resp. x = Inr resp \<and> rw_Status resp \<in> {401, 500} \<and> w' = w1))"
proof -
  obtain origin where o: "parseResourceOrigin resourceOrigin (caos_AllowInsecureLoopback (svc_clientAssertion service)) = Inr origin"
    and m: "middleware (Some next) = guardedHandler isPrint service origin next"
    using assms(1) by (auto simp: NewProtectedResourceMiddleware_def result_simps)
  define q where "q = \<lparr>prr_Headers = hrq_Header request, prr_Method = hrq_Method request,
    prr_URL = Some ((hrq_URL request)\<lparr>url_Scheme := url_Scheme origin, url_Host := url_Host origin, url_User := None,
            url_Fragment := []\<rparr>)\<rparr>"
  obtain answer w1 where a: "Service_AuthenticateProtectedResource isPrint service q w = (answer, w1)"
    by (cases "Service_AuthenticateProtectedResource isPrint service q w")
  have run: "(case answer of Inl err \<Rightarrow> ok (writeHTTPProblem h 500 ''Internal Server Error'')
      | Inr result \<Rightarrow>
          if \<not> pr_Authenticated result then ok (writeProblemResponse h (pr_Response result))
          else case pr_Principal result of
                 None \<Rightarrow> ok (writeHTTPProblem h 500 ''Internal Server Error'')
               | Some who \<Rightarrow> next h (request\<lparr>hrq_Principal := Some (clonePrincipal who)\<rparr>)) w1 = (x, w')"
    using assms(2) a unfolding m guardedHandler_def Let_def q_def by (simp add: attempt_then)
  have "(\<exists>r who. answer = Inr r \<and> pr_Authenticated r \<and> pr_Principal r = Some who \<and>
        next h (request\<lparr>hrq_Principal := Some who\<rparr>) w1 = (x, w')) \<or>
     (\<exists>resp. x = Inr resp \<and> rw_Status resp \<in> {401, 500} \<and> w' = w1)"
  proof (cases answer)
    case (Inr r)
    then show ?thesis
    proof (cases "pr_Authenticated r")
      case False
      then obtain p where "pr_Response r = Some p" "prs_Status p = 401"
        using yieldsD [OF access_answers a [unfolded Inr]] by (auto simp: answered_def)
      then show ?thesis using run Inr False challenge_status by auto
    qed (use run Inr in \<open>auto simp: clonePrincipal_def split: option.splits\<close>)
  qed (use run in auto)
  then show ?thesis using o a by (intro exI [of _ origin] exI [of _ q] exI [of _ answer] exI [of _ w1]) (simp add: q_def)
qed


definition orders_example :: "unit http_handler" where
  "orders_example h request =
     ok \<lparr>rw_Header = h, rw_Status = (if PrincipalFromContext request = Some basic_principal then 200 else 403), rw_Body = []\<rparr>"

definition orders_request :: http_request where
  "orders_request = \<lparr>hrq_Method = ''GET'', hrq_URL = empty_url\<lparr>url_Path := ''/orders''\<rparr>,
     hrq_Header = Some [(''Authorization'', [''Basic eDp5''])], hrq_Body = None, hrq_Principal = None\<rparr>"

lemma example_guarded:
  "case NewProtectedResourceMiddleware (\<lambda>_. True) (Some guarded_example) ''https://s.example'' of
     Inl e \<Rightarrow> False
   | Inr m \<Rightarrow> (case m (Some orders_example) (Some []) orders_request () of (Inr r, w) \<Rightarrow> rw_Status r = 200 | _ \<Rightarrow> False)"
  by code_simp

theorem protected_handler_guarded_witness:
  "\<exists>middleware resp q r who. NewProtectedResourceMiddleware (\<lambda>_. True) (Some guarded_example) ''https://s.example'' = Inr middleware \<and>
     middleware (Some orders_example) (Some []) orders_request () = (Inr resp, ()) \<and> rw_Status resp = 200 \<and>
     Service_AuthenticateProtectedResource (\<lambda>_. True) guarded_example q () = (Inr r, ()) \<and> pr_Principal r = Some who"
proof -
  obtain m where new: "NewProtectedResourceMiddleware (\<lambda>_. True) (Some guarded_example) ''https://s.example'' = Inr m"
    using example_guarded by (cases "NewProtectedResourceMiddleware (\<lambda>_. True) (Some guarded_example) ''https://s.example''") auto
  then obtain resp where "m (Some orders_example) (Some []) orders_request () = (Inr resp, ())" "rw_Status resp = 200"
    using example_guarded by (cases "fst (m (Some orders_example) (Some []) orders_request ())")
      (auto split: prod.splits)
  note m = new this
  from protected_handler_guarded [OF m(1,2)] m(3) obtain q r who where
    "Service_AuthenticateProtectedResource (\<lambda>_. True) guarded_example q () = (Inr r, ())" "pr_Principal r = Some who"
    by auto
  with m show ?thesis by blast
qed

end
