(* ===== verification/Platform_Types.thy ===== *)
theory Platform_Types
  imports Worlds
begin

text \<open>
  \<open>platform/types.go\<close>: the data of a Platform, which hosts Agent identities and signs for them, and the
  interfaces it calls. As in the Service package an interface is a record of its methods, or its one
  method; the context every method takes is part of the world.
\<close>

section \<open>Discovery\<close>

abbreviation DIDMediaType :: string where "DIDMediaType \<equiv> ''application/did+json''"
abbreviation HostedIdentityDraft :: string where
  "HostedIdentityDraft \<equiv> ''draft-kavian-aep-platform-hosted-identity-01''"
abbreviation PlatformWellKnownPath :: string where "PlatformWellKnownPath \<equiv> ''/.well-known/aep-platform''"

type_synonym ManagedAgentStatus = string

abbreviation ManagedAgentActive :: ManagedAgentStatus where "ManagedAgentActive \<equiv> ''active''"
abbreviation ManagedAgentRevoked :: ManagedAgentStatus where "ManagedAgentRevoked \<equiv> ''revoked''"
abbreviation ManagedAgentSuspended :: ManagedAgentStatus where "ManagedAgentSuspended \<equiv> ''suspended''"
abbreviation ManagedAgentTerminated :: ManagedAgentStatus where "ManagedAgentTerminated \<equiv> ''terminated''"

record DiscoveryEndpoints =
  dep_HostedVerification :: string
  dep_Lifecycle :: string
  dep_List :: string
  dep_Provision :: string
  dep_Sign :: string

record DiscoveryHTTP =
  dht_EndpointBase :: string

record DiscoveryIdentity =
  did_DIDMethods :: "string slice"
  did_DIDURLTemplate :: string

record DiscoveryPlatform =
  dpl_DID :: string
  dpl_HostedVerification :: bool
  dpl_Name :: string

record DiscoverySigning =
  dsg_Algorithms :: "SigningAlgorithm slice"
  dsg_DefaultLifetimeSeconds :: string

record DiscoveryDocument =
  ddc_AEPVersion :: string
  ddc_Endpoints :: DiscoveryEndpoints
  ddc_HTTP :: DiscoveryHTTP
  ddc_Identity :: DiscoveryIdentity
  ddc_Platform :: DiscoveryPlatform
  ddc_Signing :: DiscoverySigning

definition enc_endpoints :: "DiscoveryEndpoints \<Rightarrow> string" where
  "enc_endpoints v =
     enc_object (omit_empty ''hosted_verification'' (dep_HostedVerification v) @
       [(''lifecycle'', enc_string (dep_Lifecycle v)), (''list'', enc_string (dep_List v)),
        (''provision'', enc_string (dep_Provision v)), (''sign'', enc_string (dep_Sign v))])"

definition enc_discovery :: "DiscoveryDocument \<Rightarrow> string" where
  "enc_discovery v =
     enc_object
       [(''aep_version'', enc_string (ddc_AEPVersion v)), (''endpoints'', enc_endpoints (ddc_Endpoints v)),
        (''http'', enc_object [(''endpoint_base'', enc_string (dht_EndpointBase (ddc_HTTP v)))]),
        (''identity'', enc_object [(''did_methods'', enc_slice enc_string (did_DIDMethods (ddc_Identity v))),
           (''did_url_template'', enc_string (did_DIDURLTemplate (ddc_Identity v)))]),
        (''platform'', enc_object (omit_empty ''did'' (dpl_DID (ddc_Platform v)) @
           [(''hosted_verification'', enc_bool (dpl_HostedVerification (ddc_Platform v))),
            (''name'', enc_string (dpl_Name (ddc_Platform v)))])),
        (''signing'', enc_object [(''algorithms'', enc_slice enc_string (dsg_Algorithms (ddc_Signing v))),
           (''default_lifetime_seconds'', enc_string (dsg_DefaultLifetimeSeconds (ddc_Signing v)))])]"

section \<open>Requests and responses\<close>

record AgentIdentity =
  ai_AgentDID :: string
  ai_AgentIdentityID :: string
  ai_CreatedAt :: string
  ai_DIDDocumentURL :: string
  ai_KeyID :: string
  ai_ServiceDID :: string
  ai_SigningAlgorithms :: "SigningAlgorithm slice"
  ai_Status :: ManagedAgentStatus
  ai_UpdatedAt :: string

definition zero_agent_identity :: AgentIdentity where
  "zero_agent_identity = \<lparr>ai_AgentDID = [], ai_AgentIdentityID = [], ai_CreatedAt = [], ai_DIDDocumentURL = [],
     ai_KeyID = [], ai_ServiceDID = [], ai_SigningAlgorithms = None, ai_Status = [], ai_UpdatedAt = []\<rparr>"

definition fields_agent_identity :: "AgentIdentity fields" where
  "fields_agent_identity =
     [(''agent_did'', on_field dec_string ai_AgentDID (\<lambda>x. ai_AgentDID_update (\<lambda>_. x))),
      (''agent_identity_id'', on_field dec_string ai_AgentIdentityID (\<lambda>x. ai_AgentIdentityID_update (\<lambda>_. x))),
      (''created_at'', on_field dec_string ai_CreatedAt (\<lambda>x. ai_CreatedAt_update (\<lambda>_. x))),
      (''did_document_url'', on_field dec_string ai_DIDDocumentURL (\<lambda>x. ai_DIDDocumentURL_update (\<lambda>_. x))),
      (''key_id'', on_field dec_string ai_KeyID (\<lambda>x. ai_KeyID_update (\<lambda>_. x))),
      (''service_did'', on_field dec_string ai_ServiceDID (\<lambda>x. ai_ServiceDID_update (\<lambda>_. x))),
      (''signing_algorithms'', on_field (dec_slice dec_string []) ai_SigningAlgorithms
         (\<lambda>x. ai_SigningAlgorithms_update (\<lambda>_. x))),
      (''status'', on_field dec_string ai_Status (\<lambda>x. ai_Status_update (\<lambda>_. x))),
      (''updated_at'', on_field dec_string ai_UpdatedAt (\<lambda>x. ai_UpdatedAt_update (\<lambda>_. x)))]"

definition enc_agent_identity :: "AgentIdentity \<Rightarrow> string" where
  "enc_agent_identity v =
     enc_object
       [(''agent_did'', enc_string (ai_AgentDID v)), (''agent_identity_id'', enc_string (ai_AgentIdentityID v)),
        (''created_at'', enc_string (ai_CreatedAt v)), (''did_document_url'', enc_string (ai_DIDDocumentURL v)),
        (''key_id'', enc_string (ai_KeyID v)), (''service_did'', enc_string (ai_ServiceDID v)),
        (''signing_algorithms'', enc_slice enc_string (ai_SigningAlgorithms v)),
        (''status'', enc_string (ai_Status v)), (''updated_at'', enc_string (ai_UpdatedAt v))]"

record AgentIdentityListResponse =
  alr_Count :: string
  alr_Data :: "AgentIdentity slice"
  alr_Total :: string

record ProvisionRequest =
  prq_ServiceDID :: string

definition enc_provision_request :: "ProvisionRequest \<Rightarrow> string" where
  "enc_provision_request v = enc_object [(''service_did'', enc_string (prq_ServiceDID v))]"

record LifecycleRequest =
  lrq_Status :: ManagedAgentStatus

record SignRequest =
  sgq_JWTID :: string
  sgq_LifetimeSeconds :: string
  sgq_Operation :: AssertionOperation
  sgq_PlatformContext :: "(string \<times> RawMessage) slice"
  sgq_Resource :: string
  sgq_ServiceDID :: string

text \<open>A map of raw messages with \<open>omitempty\<close>; a raw message that is not JSON cannot be encoded.\<close>

definition omit_empty_raw :: "string \<Rightarrow> (string \<times> RawMessage) slice \<Rightarrow> (string \<times> string) list option" where
  "omit_empty_raw name m =
     (if elems m = [] then Some [] else map_option (\<lambda>t. [(name, t)]) (enc_raw_map (elems m)))"

definition enc_sign_request :: "SignRequest \<Rightarrow> string option" where
  "enc_sign_request v =
     map_option (\<lambda>context. enc_object
       ([(''jti'', enc_string (sgq_JWTID v))] @ omit_empty ''lifetime_seconds'' (sgq_LifetimeSeconds v) @
        [(''op'', enc_string (sgq_Operation v))] @ context @ omit_empty ''resource'' (sgq_Resource v) @
        [(''service_did'', enc_string (sgq_ServiceDID v))]))
       (omit_empty_raw ''platform_context'' (sgq_PlatformContext v))"

type_synonym SignStatus = string

abbreviation SignCompleted :: SignStatus where "SignCompleted \<equiv> ''completed''"
abbreviation SignPending :: SignStatus where "SignPending \<equiv> ''pending''"

record SignResponse =
  sgr_AgentDID :: string
  sgr_ClientAssertion :: string
  sgr_ExpiresAt :: string
  sgr_IssuedAt :: string
  sgr_JWTID :: string
  sgr_PlatformContext :: "(string \<times> RawMessage) slice"
  sgr_RetryAfterSeconds :: string
  sgr_ServiceDID :: string
  sgr_Status :: SignStatus

definition zero_sign_response :: SignResponse where
  "zero_sign_response = \<lparr>sgr_AgentDID = [], sgr_ClientAssertion = [], sgr_ExpiresAt = [], sgr_IssuedAt = [],
     sgr_JWTID = [], sgr_PlatformContext = None, sgr_RetryAfterSeconds = [], sgr_ServiceDID = [], sgr_Status = []\<rparr>"

definition fields_sign_response :: "SignResponse fields" where
  "fields_sign_response =
     [(''agent_did'', on_field dec_string sgr_AgentDID (\<lambda>x. sgr_AgentDID_update (\<lambda>_. x))),
      (''client_assertion'', on_field dec_string sgr_ClientAssertion (\<lambda>x. sgr_ClientAssertion_update (\<lambda>_. x))),
      (''expires_at'', on_field dec_string sgr_ExpiresAt (\<lambda>x. sgr_ExpiresAt_update (\<lambda>_. x))),
      (''issued_at'', on_field dec_string sgr_IssuedAt (\<lambda>x. sgr_IssuedAt_update (\<lambda>_. x))),
      (''jti'', on_field dec_string sgr_JWTID (\<lambda>x. sgr_JWTID_update (\<lambda>_. x))),
      (''platform_context'', on_field (dec_map dec_raw []) sgr_PlatformContext
         (\<lambda>x. sgr_PlatformContext_update (\<lambda>_. x))),
      (''retry_after_seconds'', on_field dec_string sgr_RetryAfterSeconds (\<lambda>x. sgr_RetryAfterSeconds_update (\<lambda>_. x))),
      (''service_did'', on_field dec_string sgr_ServiceDID (\<lambda>x. sgr_ServiceDID_update (\<lambda>_. x))),
      (''status'', on_field dec_string sgr_Status (\<lambda>x. sgr_Status_update (\<lambda>_. x)))]"

definition enc_sign_response :: "SignResponse \<Rightarrow> string option" where
  "enc_sign_response v =
     map_option (\<lambda>context. enc_object
       (omit_empty ''agent_did'' (sgr_AgentDID v) @ omit_empty ''client_assertion'' (sgr_ClientAssertion v) @
        omit_empty ''expires_at'' (sgr_ExpiresAt v) @ omit_empty ''issued_at'' (sgr_IssuedAt v) @
        omit_empty ''jti'' (sgr_JWTID v) @ context @ omit_empty ''retry_after_seconds'' (sgr_RetryAfterSeconds v) @
        omit_empty ''service_did'' (sgr_ServiceDID v) @ [(''status'', enc_string (sgr_Status v))]))
       (omit_empty_raw ''platform_context'' (sgr_PlatformContext v))"

record VerificationRequest =
  vrq_ClientAssertion :: string
  vrq_Operation :: AssertionOperation
  vrq_Resource :: string
  vrq_ServiceDID :: string

definition enc_verification_request :: "VerificationRequest \<Rightarrow> string" where
  "enc_verification_request v =
     enc_object ([(''client_assertion'', enc_string (vrq_ClientAssertion v)), (''op'', enc_string (vrq_Operation v))] @
       omit_empty ''resource'' (vrq_Resource v) @ [(''service_did'', enc_string (vrq_ServiceDID v))])"

record VerificationResponse =
  vrs_AgentDID :: string
  vrs_AgentIdentityID :: string
  vrs_Operation :: AssertionOperation
  vrs_Reason :: string
  vrs_ServiceDID :: string
  vrs_Status :: ManagedAgentStatus
  vrs_Verified :: bool

definition zero_verification_response :: VerificationResponse where
  "zero_verification_response = \<lparr>vrs_AgentDID = [], vrs_AgentIdentityID = [], vrs_Operation = [], vrs_Reason = [],
     vrs_ServiceDID = [], vrs_Status = [], vrs_Verified = False\<rparr>"

definition dec_bool :: "bool decoder" where
  "dec_bool raw old =
     (case json_parse raw of Some JNull \<Rightarrow> Some old | Some (JBool b) \<Rightarrow> Some b | _ \<Rightarrow> None)"

definition fields_verification_response :: "VerificationResponse fields" where
  "fields_verification_response =
     [(''agent_did'', on_field dec_string vrs_AgentDID (\<lambda>x. vrs_AgentDID_update (\<lambda>_. x))),
      (''agent_identity_id'', on_field dec_string vrs_AgentIdentityID (\<lambda>x. vrs_AgentIdentityID_update (\<lambda>_. x))),
      (''op'', on_field dec_string vrs_Operation (\<lambda>x. vrs_Operation_update (\<lambda>_. x))),
      (''reason'', on_field dec_string vrs_Reason (\<lambda>x. vrs_Reason_update (\<lambda>_. x))),
      (''service_did'', on_field dec_string vrs_ServiceDID (\<lambda>x. vrs_ServiceDID_update (\<lambda>_. x))),
      (''status'', on_field dec_string vrs_Status (\<lambda>x. vrs_Status_update (\<lambda>_. x))),
      (''verified'', on_field dec_bool vrs_Verified (\<lambda>x. vrs_Verified_update (\<lambda>_. x)))]"

definition enc_verification_response :: "VerificationResponse \<Rightarrow> string" where
  "enc_verification_response v =
     enc_object (omit_empty ''agent_did'' (vrs_AgentDID v) @ omit_empty ''agent_identity_id'' (vrs_AgentIdentityID v) @
       omit_empty ''op'' (vrs_Operation v) @ [(''reason'', enc_string (vrs_Reason v)),
       (''service_did'', enc_string (vrs_ServiceDID v))] @ omit_empty ''status'' (vrs_Status v) @
       [(''verified'', enc_bool (vrs_Verified v))])"

section \<open>DID documents\<close>

record DIDVerificationMethod =
  dvm_Controller :: string
  dvm_ID :: string
  dvm_PublicKeyJWK :: RawMessage
  dvm_Type :: string

record DIDDocument =
  ddoc_Context :: "string slice"
  ddoc_AssertionMethod :: "string slice"
  ddoc_Authentication :: "string slice"
  ddoc_CapabilityInvocation :: "string slice"
  ddoc_ID :: string
  ddoc_VerificationMethod :: "DIDVerificationMethod slice"

definition zero_did_document :: DIDDocument where
  "zero_did_document = \<lparr>ddoc_Context = None, ddoc_AssertionMethod = None, ddoc_Authentication = None,
     ddoc_CapabilityInvocation = None, ddoc_ID = [], ddoc_VerificationMethod = None\<rparr>"

definition enc_verification_method :: "DIDVerificationMethod \<Rightarrow> string option" where
  "enc_verification_method v =
     map_option (\<lambda>jwk. enc_object [(''controller'', enc_string (dvm_Controller v)), (''id'', enc_string (dvm_ID v)),
       (''publicKeyJwk'', jwk), (''type'', enc_string (dvm_Type v))]) (enc_raw (dvm_PublicKeyJWK v))"

definition enc_did_document :: "DIDDocument \<Rightarrow> string option" where
  "enc_did_document v =
     map_option (\<lambda>methods. enc_object
       ([(''@context'', enc_slice enc_string (ddoc_Context v))] @
        omit_empty_slice ''assertionMethod'' enc_string (ddoc_AssertionMethod v) @
        omit_empty_slice ''authentication'' enc_string (ddoc_Authentication v) @
        omit_empty_slice ''capabilityInvocation'' enc_string (ddoc_CapabilityInvocation v) @
        [(''id'', enc_string (ddoc_ID v)), (''verificationMethod'', methods)]))
       (case ddoc_VerificationMethod v of
          None \<Rightarrow> Some ''null''
        | Some ms \<Rightarrow> map_option enc_array (all_some (map enc_verification_method ms)))"

section \<open>Results and stored state\<close>

record 'body Result =
  plr_Body :: 'body
  plr_ContentType :: string
  plr_Headers :: Header
  plr_Problem :: "ProblemDetails option"
  plr_Status :: int

record RequestContext =
  rqc_Authorization :: string
  rqc_IdempotencyKey :: string
  rqc_Now :: time
  rqc_Principal :: string
  rqc_RequestID :: string

record IdentityRecord =
  idr_AgentDID :: string
  idr_AgentDIDID :: string
  idr_AgentIdentityID :: string
  idr_CreatedAt :: time
  idr_DIDDocumentURL :: string
  idr_KeyID :: string
  idr_Principal :: string
  idr_ServiceDID :: string
  idr_SigningAlgorithms :: "SigningAlgorithm slice"
  idr_Status :: ManagedAgentStatus
  idr_UpdatedAt :: time

record IdentityListQuery =
  ilq_Descending :: bool
  ilq_Limit :: int
  ilq_Offset :: int
  ilq_ServiceDID :: string
  ilq_Status :: ManagedAgentStatus

record IdentityListResult =
  ilr_Identities :: "IdentityRecord list"
  ilr_Total :: int

record 'w IdentityStore =
  ids_FindOrCreateIdentity ::
    "string \<Rightarrow> string \<Rightarrow> (go_error, 'w, IdentityRecord) act \<Rightarrow> (go_error, 'w, IdentityRecord \<times> bool) act"
  ids_FindIdentityByAgentDID :: "string \<Rightarrow> (go_error, 'w, IdentityRecord option) act"
  ids_FindIdentityByAgentDIDID :: "string \<Rightarrow> (go_error, 'w, IdentityRecord option) act"
  ids_GetIdentity :: "string \<Rightarrow> (go_error, 'w, IdentityRecord option) act"
  ids_ListIdentities :: "string \<Rightarrow> IdentityListQuery \<Rightarrow> (go_error, 'w, IdentityListResult) act"
  ids_UpdateIdentity :: "string \<Rightarrow> ManagedAgentStatus \<Rightarrow> time \<Rightarrow> (go_error, 'w, IdentityRecord option) act"

record ('w, 'key) KeyStore =
  ks_CreateKey :: "IdentityRecord \<Rightarrow> (go_error, 'w, unit) act"
  ks_DIDVerificationMethod :: "IdentityRecord \<Rightarrow> (go_error, 'w, DIDVerificationMethod) act"
  ks_Sign :: "IdentityRecord \<Rightarrow> ClientAssertionClaims \<Rightarrow> (go_error, 'w, string) act"
  ks_VerificationKey :: "IdentityRecord \<Rightarrow> (go_error, 'w, 'key option) act"

type_synonym 'w ServiceDIDResolver = "string \<Rightarrow> (go_error, 'w, bool) act"

type_synonym AuthorizationOperation = string

abbreviation AuthorizeGetIdentity :: AuthorizationOperation where "AuthorizeGetIdentity \<equiv> ''get-identity''"
abbreviation AuthorizeListIdentities :: AuthorizationOperation where "AuthorizeListIdentities \<equiv> ''list-identities''"
abbreviation AuthorizeProvision :: AuthorizationOperation where "AuthorizeProvision \<equiv> ''provision-identity''"
abbreviation AuthorizeSign :: AuthorizationOperation where "AuthorizeSign \<equiv> ''sign''"
abbreviation AuthorizeUpdateIdentity :: AuthorizationOperation where "AuthorizeUpdateIdentity \<equiv> ''update-identity''"
abbreviation AuthorizeVerify :: AuthorizationOperation where "AuthorizeVerify \<equiv> ''verify''"

record AuthorizationRequest =
  azr_Identity :: "IdentityRecord option"
  azr_LifecycleRequest :: "LifecycleRequest option"
  azr_ListQuery :: "IdentityListQuery option"
  azr_Operation :: AuthorizationOperation
  azr_ProvisionRequest :: "ProvisionRequest option"
  azr_SignRequest :: "SignRequest option"
  azr_VerificationRequest :: "VerificationRequest option"

definition authorize_only :: "AuthorizationOperation \<Rightarrow> AuthorizationRequest" where
  "authorize_only operation = \<lparr>azr_Identity = None, azr_LifecycleRequest = None, azr_ListQuery = None,
     azr_Operation = operation, azr_ProvisionRequest = None, azr_SignRequest = None, azr_VerificationRequest = None\<rparr>"

type_synonym 'w Authorizer = "AuthorizationRequest \<Rightarrow> RequestContext \<Rightarrow> (go_error, 'w, bool) act"

record 'w LifecyclePolicy =
  lp_CanSign :: "IdentityRecord \<Rightarrow> RequestContext \<Rightarrow> (go_error, 'w, bool) act"
  lp_CanTransition :: "IdentityRecord \<Rightarrow> ManagedAgentStatus \<Rightarrow> RequestContext \<Rightarrow> (go_error, 'w, bool) act"
  lp_CanVerify :: "IdentityRecord \<Rightarrow> RequestContext \<Rightarrow> (go_error, 'w, bool) act"

type_synonym 'w ReplayStore = "string \<Rightarrow> time \<Rightarrow> (go_error, 'w, bool) act"

section \<open>Idempotency\<close>

type_synonym IdempotentOperation = string

abbreviation IdempotentHostedVerification :: IdempotentOperation where
  "IdempotentHostedVerification \<equiv> ''hosted_verification''"
abbreviation IdempotentProvision :: IdempotentOperation where "IdempotentProvision \<equiv> ''provision''"
abbreviation IdempotentSign :: IdempotentOperation where "IdempotentSign \<equiv> ''sign''"

record StoredResponse =
  pst_Body :: RawMessage
  pst_ContentType :: string
  pst_CreatedAt :: time
  pst_Headers :: Header
  pst_Status :: int

record IdempotencyInput =
  pin_CanonicalRequestHash :: string
  pin_IdempotencyKey :: string
  pin_Operation :: IdempotentOperation
  pin_Principal :: string
  pin_RequestHash :: string

definition IdempotencyInput_Matches :: "IdempotencyInput \<Rightarrow> IdempotencyInput \<Rightarrow> bool" where
  "IdempotencyInput_Matches input other =
     (if pin_Principal input \<noteq> pin_Principal other \<or> pin_Operation input \<noteq> pin_Operation other \<or>
         pin_IdempotencyKey input \<noteq> pin_IdempotencyKey other
      then False
      else if pin_CanonicalRequestHash input \<noteq> [] \<and> pin_CanonicalRequestHash other \<noteq> []
      then pin_CanonicalRequestHash input = pin_CanonicalRequestHash other
      else pin_RequestHash input = pin_RequestHash other)"

text \<open>The result of a store: its state with the response, which a conflict leaves empty.\<close>

datatype IdempotencyResult =
  PlatformCreated StoredResponse
| PlatformReplayed StoredResponse
| PlatformConflict

type_synonym 'w IdempotencyStore =
  "IdempotencyInput \<Rightarrow> (go_error, 'w, StoredResponse) act \<Rightarrow> (go_error, 'w, IdempotencyResult) act"

section \<open>The Platform\<close>

record SignHandlerInput =
  shi_Identity :: IdentityRecord
  shi_Request :: SignRequest

type_synonym 'w SignHandler =
  "SignHandlerInput \<Rightarrow> RequestContext \<Rightarrow> (go_error, 'w, SignResponse Result option) act"

record DiscoveryOptions =
  dso_EndpointBase :: string
  dso_HostedVerificationEndpoint :: string
  dso_LifecycleEndpoint :: string
  dso_ListEndpoint :: string
  dso_PlatformDID :: string
  dso_PlatformName :: string
  dso_ProvisionEndpoint :: string
  dso_SignEndpoint :: string

record ('w, 'key) Options =
  pop_AgentDIDIDGenerator :: "(go_error, 'w, string) act option"
  pop_Authorizer :: "'w Authorizer option"
  pop_Clock :: "('w \<Rightarrow> time \<times> 'w) option"
  pop_DefaultLifetime :: duration
  pop_DIDHost :: string
  pop_DIDPathPrefix :: string
  pop_DIDURLTemplate :: string
  pop_Discovery :: DiscoveryOptions
  pop_HostedVerification :: bool
  pop_Identifier :: "(go_error, 'w, string) act option"
  pop_IdempotencyStore :: "'w IdempotencyStore option"
  pop_IdentityStore :: "'w IdentityStore option"
  pop_KeyStore :: "('w, 'key) KeyStore option"
  pop_LifecyclePolicy :: "'w LifecyclePolicy option"
  pop_MaximumLifetime :: duration
  pop_ReplayStore :: "'w ReplayStore option"
  pop_ServiceDIDResolver :: "'w ServiceDIDResolver option"
  pop_SignHandler :: "'w SignHandler option"
  pop_SigningAlgorithms :: "SigningAlgorithm slice"

text \<open>\<open>New\<close> makes a Platform with a replay store unless hosted verification is off.\<close>

record ('w, 'key) Platform =
  plt_agentDIDIDGenerator :: "(go_error, 'w, string) act"
  plt_authorizer :: "'w Authorizer"
  plt_clock :: "'w \<Rightarrow> time \<times> 'w"
  plt_defaultLifetime :: duration
  plt_didHost :: string
  plt_didPathPrefix :: string
  plt_didURLTemplate :: string
  plt_discovery :: DiscoveryDocument
  plt_discoveryETag :: string
  plt_discoveryModified :: string
  plt_hostedVerification :: bool
  plt_identifier :: "(go_error, 'w, string) act"
  plt_idempotencyStore :: "'w IdempotencyStore"
  plt_identityStore :: "'w IdentityStore"
  plt_keyStore :: "('w, 'key) KeyStore"
  plt_lifecyclePolicy :: "'w LifecyclePolicy"
  plt_maximumLifetime :: duration
  plt_replayStore :: "'w ReplayStore option"
  plt_serviceDIDResolver :: "'w ServiceDIDResolver"
  plt_signHandler :: "'w SignHandler option"
  plt_signingAlgorithms :: "SigningAlgorithm slice"

lemmas platform_type_defs [go_defs] =
  enc_endpoints_def enc_discovery_def zero_agent_identity_def fields_agent_identity_def enc_agent_identity_def
  enc_provision_request_def omit_empty_raw_def enc_sign_request_def zero_sign_response_def fields_sign_response_def
  enc_sign_response_def enc_verification_request_def zero_verification_response_def dec_bool_def
  fields_verification_response_def enc_verification_response_def zero_did_document_def enc_verification_method_def
  enc_did_document_def authorize_only_def IdempotencyInput_Matches_def

end
