(* ===== verification/Platform_Stores.thy ===== *)
theory Platform_Stores
  imports Platform_Types
begin

text \<open>
  \<open>platform/stores.go\<close>: the in-memory stores of a Platform, with the checks of \<open>platform/platform.go\<close>
  they use. As in \<open>Service_Stores.thy\<close> each critical section under a mutex is a definition, and a caller
  that finds its key pending waits for the other call or for its context. The store of identities keeps
  three indexes beside its records; they are shown to be no more than views of the records.
\<close>

section \<open>Identities\<close>

definition isManagedAgentStatus :: "ManagedAgentStatus \<Rightarrow> bool" where
  "isManagedAgentStatus status \<longleftrightarrow> status = ManagedAgentActive \<or> status = ManagedAgentRevoked \<or>
     status = ManagedAgentSuspended \<or> status = ManagedAgentTerminated"

definition validateIdentityRecord :: "IdentityRecord \<Rightarrow> go_error option" where
  "validateIdentityRecord record =
     (if idr_AgentDID record = [] \<or> idr_AgentDIDID record = [] \<or> idr_AgentIdentityID record = [] \<or>
         time_IsZero (idr_CreatedAt record) \<or> idr_DIDDocumentURL record = [] \<or> idr_KeyID record = [] \<or>
         idr_Principal record = [] \<or> idr_ServiceDID record = [] \<or> elems (idr_SigningAlgorithms record) = [] \<or>
         \<not> isManagedAgentStatus (idr_Status record) \<or> time_IsZero (idr_UpdatedAt record)
      then Some (Text ''AEP Platform identity store received an invalid record'')
      else None)"

text \<open>The copy shares nothing with the record; as a value it is the record.\<close>

definition cloneIdentityRecord :: "IdentityRecord \<Rightarrow> IdentityRecord" where
  "cloneIdentityRecord record = record\<lparr>idr_SigningAlgorithms := idr_SigningAlgorithms record\<rparr>"

definition identityScopeKey :: "string \<Rightarrow> string \<Rightarrow> string" where
  "identityScopeKey owner serviceDID = owner @ [CHR 0x00] @ serviceDID"

text \<open>The records are listed with distinct keys: the order is that in which a Go map is ranged over.\<close>

record memoryIdentityStore =
  mid_byAgentDID :: "string \<rightharpoonup> string"
  mid_byAgentDIDID :: "string \<rightharpoonup> string"
  mid_byScope :: "string \<rightharpoonup> string"
  mid_pending :: "string list"
  mid_records :: "(string \<times> IdentityRecord) list"

definition empty_identities :: memoryIdentityStore where
  "empty_identities = \<lparr>mid_byAgentDID = Map.empty, mid_byAgentDIDID = Map.empty, mid_byScope = Map.empty,
     mid_pending = [], mid_records = []\<rparr>"

text \<open>Indexing a Go map without the key yields the empty string.\<close>

definition index_of :: "(string \<rightharpoonup> string) \<Rightarrow> string \<Rightarrow> string" where
  "index_of m key = (case m key of None \<Rightarrow> [] | Some x \<Rightarrow> x)"

text \<open>An index never names an identifier without a record; the zero record it would yield is an error here.\<close>

definition identity_enter :: "string \<Rightarrow> (go_error, memoryIdentityStore, IdentityRecord entry) act" where
  "identity_enter key s =
     (if index_of (mid_byScope s) key \<noteq> [] then
        (case map_of (mid_records s) (index_of (mid_byScope s) key) of
           Some existing \<Rightarrow> (Inr (Found (cloneIdentityRecord existing)), s)
         | None \<Rightarrow> (Inl (Library ''map''), s))
      else if key \<in> set (mid_pending s) then (Inr Busy, s)
      else (Inr Entered, s\<lparr>mid_pending := key # mid_pending s\<rparr>))"

definition checkIdentity :: "string \<Rightarrow> string \<Rightarrow> IdentityRecord result \<Rightarrow> IdentityRecord result" where
  "checkIdentity owner serviceDID created =
     (case created of
        Inl err \<Rightarrow> Inl err
      | Inr record \<Rightarrow>
          (case validateIdentityRecord record of
             Some err \<Rightarrow> Inl err
           | None \<Rightarrow>
               if idr_Principal record \<noteq> owner \<or> idr_ServiceDID record \<noteq> serviceDID
               then Inl (Text ''AEP Platform identity store record does not match its requested scope'')
               else Inr record))"

definition addIdentity :: "string \<Rightarrow> IdentityRecord \<Rightarrow> memoryIdentityStore \<Rightarrow> memoryIdentityStore" where
  "addIdentity key record s =
     s\<lparr>mid_records := AList.update (idr_AgentIdentityID record) record (mid_records s),
       mid_byScope := (mid_byScope s)(key \<mapsto> idr_AgentIdentityID record),
       mid_byAgentDID := (mid_byAgentDID s)(idr_AgentDID record \<mapsto> idr_AgentIdentityID record),
       mid_byAgentDIDID := (mid_byAgentDIDID s)(idr_AgentDIDID record \<mapsto> idr_AgentIdentityID record)\<rparr>"

definition identity_leave ::
  "string \<Rightarrow> IdentityRecord result \<Rightarrow> (go_error, memoryIdentityStore, IdentityRecord) act" where
  "identity_leave key checked s0 =
     (let s = s0\<lparr>mid_pending := removeAll key (mid_pending s0)\<rparr> in
      case checked of
        Inl err \<Rightarrow> (Inl err, s)
      | Inr record \<Rightarrow>
          if map_of (mid_records s) (idr_AgentIdentityID record) \<noteq> None \<or>
             index_of (mid_byAgentDID s) (idr_AgentDID record) \<noteq> [] \<or>
             index_of (mid_byAgentDIDID s) (idr_AgentDIDID record) \<noteq> []
          then (Inl (Text ''AEP Platform identity store received duplicate identity material''), s)
          else (Inr (cloneIdentityRecord record), addIdentity key (cloneIdentityRecord record) s))"

definition memoryIdentityStore_FindOrCreateIdentity ::
  "('w \<Rightarrow> bool) \<Rightarrow> (memoryIdentityStore, 'w) part \<Rightarrow> string \<Rightarrow> string \<Rightarrow> (go_error, 'w, IdentityRecord) act \<Rightarrow>
   (go_error, 'w, IdentityRecord \<times> bool) act" where
  "memoryIdentityStore_FindOrCreateIdentity ctxDone p owner serviceDID create =
     (if owner = [] \<or> serviceDID = []
      then fail (Text ''AEP Platform identity store requires a principal, Service DID, and create function'')
      else
        (let key = identityScopeKey owner serviceDID in
         unless_done ctxDone
           (and_then (at p (identity_enter key)) (\<lambda>entered.
            case entered of
              Found record \<Rightarrow> ok (record, False)
            | Busy \<Rightarrow> fail ContextDone
            | Entered \<Rightarrow>
                and_then (attempt create) (\<lambda>created.
                and_then (at p (identity_leave key (checkIdentity owner serviceDID created))) (\<lambda>record.
                ok (record, True)))))))"

definition memoryIdentityStore_find ::
  "('w \<Rightarrow> bool) \<Rightarrow> (memoryIdentityStore, 'w) part \<Rightarrow> (memoryIdentityStore \<Rightarrow> string \<rightharpoonup> string) \<Rightarrow> string \<Rightarrow>
   (go_error, 'w, IdentityRecord option) act" where
  "memoryIdentityStore_find ctxDone p index key =
     unless_done ctxDone
       (observe (\<lambda>w. map_option cloneIdentityRecord
          (map_of (mid_records (part_get p w)) (index_of (index (part_get p w)) key))))"

definition memoryIdentityStore_FindIdentityByAgentDID ::
  "('w \<Rightarrow> bool) \<Rightarrow> (memoryIdentityStore, 'w) part \<Rightarrow> string \<Rightarrow> (go_error, 'w, IdentityRecord option) act" where
  "memoryIdentityStore_FindIdentityByAgentDID ctxDone p agentDID =
     memoryIdentityStore_find ctxDone p mid_byAgentDID agentDID"

definition memoryIdentityStore_FindIdentityByAgentDIDID ::
  "('w \<Rightarrow> bool) \<Rightarrow> (memoryIdentityStore, 'w) part \<Rightarrow> string \<Rightarrow> (go_error, 'w, IdentityRecord option) act" where
  "memoryIdentityStore_FindIdentityByAgentDIDID ctxDone p agentDIDID =
     memoryIdentityStore_find ctxDone p mid_byAgentDIDID agentDIDID"

definition memoryIdentityStore_GetIdentity ::
  "('w \<Rightarrow> bool) \<Rightarrow> (memoryIdentityStore, 'w) part \<Rightarrow> string \<Rightarrow> (go_error, 'w, IdentityRecord option) act" where
  "memoryIdentityStore_GetIdentity ctxDone p agentIdentityID =
     unless_done ctxDone
       (observe (\<lambda>w. map_option cloneIdentityRecord (map_of (mid_records (part_get p w)) agentIdentityID)))"

section \<open>Lists of identities\<close>

definition listed :: "string \<Rightarrow> IdentityListQuery \<Rightarrow> IdentityRecord \<Rightarrow> bool" where
  "listed owner query record \<longleftrightarrow>
     \<not> (idr_Principal record \<noteq> owner \<or> (ilq_ServiceDID query \<noteq> [] \<and> idr_ServiceDID record \<noteq> ilq_ServiceDID query) \<or>
        (ilq_Status query \<noteq> [] \<and> idr_Status record \<noteq> ilq_Status query))"

text \<open>The comparison of \<open>sort.Slice\<close>; strings compare byte by byte.\<close>

definition listed_before :: "bool \<Rightarrow> IdentityRecord \<Rightarrow> IdentityRecord \<Rightarrow> bool" where
  "listed_before descending first second =
     (if idr_CreatedAt first = idr_CreatedAt second then
        (if descending then idr_AgentIdentityID second < idr_AgentIdentityID first
         else idr_AgentIdentityID first < idr_AgentIdentityID second)
      else if descending then idr_CreatedAt second < idr_CreatedAt first
      else idr_CreatedAt first < idr_CreatedAt second)"

text \<open>\<open>sort.Slice\<close>: any order its comparison allows; the comparison is total on distinct identifiers.\<close>

fun insert_where :: "('a \<Rightarrow> 'a \<Rightarrow> bool) \<Rightarrow> 'a \<Rightarrow> 'a list \<Rightarrow> 'a list" where
  "insert_where lt x [] = [x]"
| "insert_where lt x (y # ys) = (if lt y x then y # insert_where lt x ys else x # y # ys)"

definition sort_slice :: "('a \<Rightarrow> 'a \<Rightarrow> bool) \<Rightarrow> 'a list \<Rightarrow> 'a list" where
  "sort_slice lt xs = foldr (insert_where lt) xs []"

definition listIdentities :: "string \<Rightarrow> IdentityListQuery \<Rightarrow> memoryIdentityStore \<Rightarrow> IdentityListResult" where
  "listIdentities owner query s =
     (let records = sort_slice (listed_before (ilq_Descending query))
            (map cloneIdentityRecord (filter (listed owner query) (map snd (mid_records s))));
          total = int (length records);
          rest = (if total \<le> ilq_Offset query then []
                  else if ilq_Offset query \<noteq> 0 then drop (nat (ilq_Offset query)) records else records);
          page = (if ilq_Limit query \<noteq> 0 \<and> ilq_Limit query < int (length rest)
                  then take (nat (ilq_Limit query)) rest else rest) in
      \<lparr>ilr_Identities = page, ilr_Total = total\<rparr>)"

definition memoryIdentityStore_ListIdentities ::
  "('w \<Rightarrow> bool) \<Rightarrow> (memoryIdentityStore, 'w) part \<Rightarrow> string \<Rightarrow> IdentityListQuery \<Rightarrow>
   (go_error, 'w, IdentityListResult) act" where
  "memoryIdentityStore_ListIdentities ctxDone p owner query =
     unless_done ctxDone
       (if owner = [] \<or> ilq_Limit query < 0 \<or> ilq_Offset query < 0
        then fail (Text ''AEP Platform identity list query is invalid'')
        else observe (\<lambda>w. listIdentities owner query (part_get p w)))"

definition memoryIdentityStore_UpdateIdentity ::
  "('w \<Rightarrow> bool) \<Rightarrow> (memoryIdentityStore, 'w) part \<Rightarrow> string \<Rightarrow> ManagedAgentStatus \<Rightarrow> time \<Rightarrow>
   (go_error, 'w, IdentityRecord option) act" where
  "memoryIdentityStore_UpdateIdentity ctxDone p agentIdentityID status updatedAt =
     unless_done ctxDone
       (if \<not> isManagedAgentStatus status \<or> time_IsZero updatedAt
        then fail (Text ''AEP Platform identity update is invalid'')
        else at p (\<lambda>s.
          case map_of (mid_records s) agentIdentityID of
            None \<Rightarrow> (Inr None, s)
          | Some record \<Rightarrow>
              (let updated = record\<lparr>idr_Status := status, idr_UpdatedAt := updatedAt\<rparr> in
               (Inr (Some (cloneIdentityRecord updated)),
                s\<lparr>mid_records := AList.update agentIdentityID updated (mid_records s)\<rparr>))))"

definition NewMemoryIdentityStore ::
  "('w \<Rightarrow> bool) \<Rightarrow> (memoryIdentityStore, 'w) part \<Rightarrow> 'w IdentityStore" where
  "NewMemoryIdentityStore ctxDone p =
     \<lparr>ids_FindOrCreateIdentity = memoryIdentityStore_FindOrCreateIdentity ctxDone p,
      ids_FindIdentityByAgentDID = memoryIdentityStore_FindIdentityByAgentDID ctxDone p,
      ids_FindIdentityByAgentDIDID = memoryIdentityStore_FindIdentityByAgentDIDID ctxDone p,
      ids_GetIdentity = memoryIdentityStore_GetIdentity ctxDone p,
      ids_ListIdentities = memoryIdentityStore_ListIdentities ctxDone p,
      ids_UpdateIdentity = memoryIdentityStore_UpdateIdentity ctxDone p\<rparr>"

section \<open>Idempotency\<close>

definition cloneStoredResponse :: "StoredResponse \<Rightarrow> StoredResponse" where
  "cloneStoredResponse response = response\<lparr>pst_Body := pst_Body response, pst_Headers := pst_Headers response\<rparr>"

record idempotencyRecord =
  pir_input :: IdempotencyInput
  pir_response :: StoredResponse

record memoryIdempotencyStore =
  pis_pending :: "string list"
  pis_records :: "string \<rightharpoonup> idempotencyRecord"

definition empty_idempotency :: memoryIdempotencyStore where
  "empty_idempotency = \<lparr>pis_pending = [], pis_records = Map.empty\<rparr>"

definition idempotency_key :: "IdempotencyInput \<Rightarrow> string" where
  "idempotency_key input = pin_Principal input @ [CHR 0x00] @ pin_IdempotencyKey input"

definition memoryIdempotencyStore_expire :: "time \<Rightarrow> memoryIdempotencyStore \<Rightarrow> memoryIdempotencyStore" where
  "memoryIdempotencyStore_expire now s =
     s\<lparr>pis_records := keep_entries (\<lambda>record.
        \<not> \<not> now < pst_CreatedAt (pir_response record) + 3600 * Second) (pis_records s)\<rparr>"

definition idempotency_enter ::
  "time \<Rightarrow> IdempotencyInput \<Rightarrow> (go_error, memoryIdempotencyStore, IdempotencyResult entry) act" where
  "idempotency_enter now input s0 =
     (let s = memoryIdempotencyStore_expire now s0; key = idempotency_key input in
      case pis_records s key of
        Some existing \<Rightarrow>
          (Inr (Found (if \<not> IdempotencyInput_Matches (pir_input existing) input then PlatformConflict
                       else PlatformReplayed (cloneStoredResponse (pir_response existing)))), s)
      | None \<Rightarrow>
          if key \<in> set (pis_pending s) then (Inr Busy, s)
          else (Inr Entered, s\<lparr>pis_pending := key # pis_pending s\<rparr>))"

definition idempotency_leave ::
  "IdempotencyInput \<Rightarrow> StoredResponse result \<Rightarrow> (go_error, memoryIdempotencyStore, unit) act" where
  "idempotency_leave input executed s =
     (let key = idempotency_key input in
      (Inr (), s\<lparr>pis_pending := removeAll key (pis_pending s),
               pis_records := (case executed of Inl _ \<Rightarrow> pis_records s
                               | Inr response \<Rightarrow> (pis_records s)(key \<mapsto>
                                   \<lparr>pir_input = input, pir_response = cloneStoredResponse response\<rparr>))\<rparr>))"

definition valid_idempotency_input :: "IdempotencyInput \<Rightarrow> bool" where
  "valid_idempotency_input input \<longleftrightarrow> pin_Principal input \<noteq> [] \<and> pin_IdempotencyKey input \<noteq> [] \<and>
     pin_Operation input \<noteq> [] \<and> pin_RequestHash input \<noteq> []"

text \<open>What a call does once its key is pending.\<close>

definition runEntered ::
  "('w \<Rightarrow> time \<times> 'w) \<Rightarrow> (memoryIdempotencyStore, 'w) part \<Rightarrow> IdempotencyInput \<Rightarrow>
   (go_error, 'w, StoredResponse) act \<Rightarrow> (go_error, 'w, IdempotencyResult) act" where
  "runEntered clock p input execute =
     and_then (attempt execute) (\<lambda>executed.
     case executed of
       Inl err \<Rightarrow> and_then (at p (idempotency_leave input (Inl err))) (\<lambda>_. fail err)
     | Inr response \<Rightarrow>
         and_then (if time_IsZero (pst_CreatedAt response)
                   then and_then (call clock) (\<lambda>created. ok (response\<lparr>pst_CreatedAt := created\<rparr>))
                   else ok response) (\<lambda>stamped.
         and_then (at p (idempotency_leave input (Inr stamped))) (\<lambda>_.
         ok (PlatformCreated (cloneStoredResponse stamped)))))"

definition memoryIdempotencyStore_ExecuteIdempotent ::
  "('w \<Rightarrow> bool) \<Rightarrow> ('w \<Rightarrow> time \<times> 'w) \<Rightarrow> (memoryIdempotencyStore, 'w) part \<Rightarrow> IdempotencyInput \<Rightarrow>
   (go_error, 'w, StoredResponse) act \<Rightarrow> (go_error, 'w, IdempotencyResult) act" where
  "memoryIdempotencyStore_ExecuteIdempotent ctxDone clock p input execute =
     (if \<not> valid_idempotency_input input
      then fail (Text ''AEP Platform idempotency store received invalid input'')
      else
        unless_done ctxDone
          (and_then (call clock) (\<lambda>now.
           and_then (at p (idempotency_enter now input)) (\<lambda>entered.
           case entered of
             Found result \<Rightarrow> ok result
           | Busy \<Rightarrow> fail ContextDone
           | Entered \<Rightarrow> runEntered clock p input execute))))"

definition NewMemoryIdempotencyStore ::
  "('w \<Rightarrow> bool) \<Rightarrow> ('w \<Rightarrow> time \<times> 'w) \<Rightarrow> (memoryIdempotencyStore, 'w) part \<Rightarrow> 'w IdempotencyStore" where
  "NewMemoryIdempotencyStore ctxDone time_Now p = memoryIdempotencyStore_ExecuteIdempotent ctxDone time_Now p"

section \<open>Replays\<close>

type_synonym memoryReplayStore = "string \<rightharpoonup> time"

definition memoryReplayStore_ConsumeReplay ::
  "('w \<Rightarrow> bool) \<Rightarrow> ('w \<Rightarrow> time \<times> 'w) \<Rightarrow> (memoryReplayStore, 'w) part \<Rightarrow> string \<Rightarrow> time \<Rightarrow> (go_error, 'w, bool) act" where
  "memoryReplayStore_ConsumeReplay ctxDone time_Now p key expiresAt =
     unless_done ctxDone
       (if key = [] \<or> time_IsZero expiresAt
        then fail (Text ''AEP Platform replay store received invalid input'')
        else
          and_then (call time_Now) (\<lambda>now.
          if \<not> now < expiresAt then ok False
          else at p (\<lambda>s.
            let live = keep_entries (\<lambda>existingExpiry. \<not> \<not> now < existingExpiry) s in
            if live key \<noteq> None then (Inr False, live) else (Inr True, live(key \<mapsto> expiresAt)))))"

definition NewMemoryReplayStore ::
  "('w \<Rightarrow> bool) \<Rightarrow> ('w \<Rightarrow> time \<times> 'w) \<Rightarrow> (memoryReplayStore, 'w) part \<Rightarrow> 'w ReplayStore" where
  "NewMemoryReplayStore ctxDone time_Now p = memoryReplayStore_ConsumeReplay ctxDone time_Now p"

lemmas platform_store_defs [go_defs] =
  isManagedAgentStatus_def validateIdentityRecord_def cloneIdentityRecord_def identityScopeKey_def empty_identities_def
  index_of_def identity_enter_def checkIdentity_def addIdentity_def identity_leave_def
  memoryIdentityStore_FindOrCreateIdentity_def memoryIdentityStore_find_def
  memoryIdentityStore_FindIdentityByAgentDID_def memoryIdentityStore_FindIdentityByAgentDIDID_def
  memoryIdentityStore_GetIdentity_def listed_def listed_before_def sort_slice_def listIdentities_def
  memoryIdentityStore_ListIdentities_def memoryIdentityStore_UpdateIdentity_def NewMemoryIdentityStore_def
  cloneStoredResponse_def empty_idempotency_def idempotency_key_def memoryIdempotencyStore_expire_def
  idempotency_enter_def idempotency_leave_def valid_idempotency_input_def runEntered_def
  memoryIdempotencyStore_ExecuteIdempotent_def NewMemoryIdempotencyStore_def memoryReplayStore_ConsumeReplay_def
  NewMemoryReplayStore_def

section \<open>The identities behind the indexes\<close>

text \<open>
  The abstract store is a set of records. The invariant says that each index maps a key to the one
  record that has it, and that no record has a scope whose creation is pending.
\<close>

lemma cloneIdentityRecord_id [simp]: "cloneIdentityRecord r = r"
  by (cases r) (simp add: cloneIdentityRecord_def)

lemma cloneIdentityRecord_fun [simp]: "cloneIdentityRecord = (\<lambda>r. r)"
  by (rule ext) simp

abbreviation scope :: "IdentityRecord \<Rightarrow> string" where
  "scope r \<equiv> identityScopeKey (idr_Principal r) (idr_ServiceDID r)"

definition identities :: "memoryIdentityStore \<Rightarrow> IdentityRecord set" where
  "identities s = ran (map_of (mid_records s))"

definition indexes :: "(IdentityRecord \<Rightarrow> string) \<Rightarrow> (string \<rightharpoonup> string) \<Rightarrow> (string \<times> IdentityRecord) list \<Rightarrow> bool" where
  "indexes field m rs \<longleftrightarrow> (\<forall>k i. m k = Some i \<longleftrightarrow> (\<exists>r. map_of rs i = Some r \<and> field r = k))"

definition identity_inv :: "memoryIdentityStore \<Rightarrow> bool" where
  "identity_inv s \<longleftrightarrow> keys_distinct (mid_records s) \<and>
     (\<forall>i r. map_of (mid_records s) i = Some r \<longrightarrow> validateIdentityRecord r = None \<and> idr_AgentIdentityID r = i) \<and>
     indexes idr_AgentDID (mid_byAgentDID s) (mid_records s) \<and>
     indexes idr_AgentDIDID (mid_byAgentDIDID s) (mid_records s) \<and> indexes scope (mid_byScope s) (mid_records s) \<and>
     (\<forall>k \<in> set (mid_pending s). mid_byScope s k = None)"

lemma identity_inv_empty [simp]: "identity_inv empty_identities"
  by (simp add: identity_inv_def empty_identities_def indexes_def)

lemma valid_identity_id: "validateIdentityRecord r = None \<Longrightarrow> idr_AgentIdentityID r \<noteq> []"
  by (simp add: validateIdentityRecord_def split: if_splits)

lemma identity_invD:
  assumes "identity_inv s"
  shows "keys_distinct (mid_records s)" "map_of (mid_records s) i = Some r \<Longrightarrow> validateIdentityRecord r = None"
    "map_of (mid_records s) i = Some r \<Longrightarrow> idr_AgentIdentityID r = i" "k \<in> set (mid_pending s) \<Longrightarrow> mid_byScope s k = None"
    "indexes idr_AgentDID (mid_byAgentDID s) (mid_records s)" "indexes idr_AgentDIDID (mid_byAgentDIDID s) (mid_records s)"
    "indexes scope (mid_byScope s) (mid_records s)"
  using assms unfolding identity_inv_def by blast+

lemma identities_iff:
  assumes "identity_inv s"
  shows "r \<in> identities s \<longleftrightarrow> map_of (mid_records s) (idr_AgentIdentityID r) = Some r"
  unfolding identities_def ran_def using identity_invD(3) [OF assms] by blast

lemma no_empty_id:
  assumes "identity_inv s"
  shows "map_of (mid_records s) [] = None"
  using identity_invD(2,3) [OF assms, of "[]"] valid_identity_id by (metis option.exhaust)

text \<open>A lookup through an index finds exactly the record that has the key.\<close>

lemma indexed:
  assumes "identity_inv s" and "indexes field m (mid_records s)"
  shows "map_of (mid_records s) (index_of m k) = Some r \<longleftrightarrow> r \<in> identities s \<and> field r = k"
proof (cases "m k")
  case None
  then have "\<not> (\<exists>i r. map_of (mid_records s) i = Some r \<and> field r = k)"
    using assms(2) unfolding indexes_def by (metis option.distinct(1))
  then show ?thesis using None no_empty_id [OF assms(1)] identities_iff [OF assms(1)] by (auto simp: index_of_def)
next
  case (Some i)
  then obtain r' where r': "map_of (mid_records s) i = Some r'" "field r' = k" using assms(2) by (auto simp: indexes_def)
  have "x = r'" if "x \<in> identities s" "field x = k" for x
  proof -
    have "map_of (mid_records s) (idr_AgentIdentityID x) = Some x" using that(1) identities_iff [OF assms(1)] by simp
    then have "m k = Some (idr_AgentIdentityID x)" using assms(2) that(2) unfolding indexes_def by blast
    then show ?thesis using Some r'(1) \<open>map_of (mid_records s) (idr_AgentIdentityID x) = Some x\<close>
      by (metis option.inject)
  qed
  moreover have "r' \<in> identities s" using r'(1) identity_invD(3) [OF assms(1)] identities_iff [OF assms(1)] by metis
  moreover have "index_of m k = i" using Some by (simp add: index_of_def)
  ultimately show ?thesis using r' by (metis option.inject)
qed

lemma identity_unique:
  assumes s: "identity_inv s" and r: "r \<in> identities s" "r' \<in> identities s"
    and same: "scope r = scope r' \<or> idr_AgentDID r = idr_AgentDID r' \<or> idr_AgentIdentityID r = idr_AgentIdentityID r'"
  shows "r = r'"
proof -
  have "field r = field r' \<Longrightarrow> r = r'" if "indexes field m (mid_records s)" for field m
    using indexed [OF s that, of "field r'"] r by (metis option.inject)
  then have "scope r = scope r' \<or> idr_AgentDID r = idr_AgentDID r' \<Longrightarrow> r = r'"
    using identity_invD(5,7) [OF s] by blast
  then show ?thesis using same r identities_iff [OF s] by (metis option.inject)
qed

lemma index_of_empty:
  assumes "identity_inv s" and "indexes field m (mid_records s)"
  shows "index_of m k = [] \<longleftrightarrow> m k = None"
proof
  assume "index_of m k = []"
  then show "m k = None"
    using assms(2) no_empty_id [OF assms(1)] by (cases "m k") (auto simp: index_of_def indexes_def)
qed (simp add: index_of_def)

lemma indexes_fields:
  assumes "identity_inv s"
  shows "indexes idr_AgentDID (mid_byAgentDID s) (mid_records s)" "indexes idr_AgentDIDID (mid_byAgentDIDID s) (mid_records s)"
    "indexes scope (mid_byScope s) (mid_records s)"
  using assms by (auto simp: identity_inv_def)

lemma indexes_add:
  assumes "indexes field m rs" and "m (field r) = None" and "map_of rs i = None"
  shows "indexes field (m(field r \<mapsto> i)) (AList.update i r rs)"
  unfolding indexes_def
proof (intro allI)
  fix k j
  have none: "\<not> (\<exists>x. map_of rs y = Some x \<and> field x = field r)" for y using assms(1,2) unfolding indexes_def by (metis option.distinct(1))
  have old: "m k = Some j \<longleftrightarrow> (\<exists>x. map_of rs j = Some x \<and> field x = k)" using assms(1) by (simp add: indexes_def)
  show "(m(field r \<mapsto> i)) k = Some j \<longleftrightarrow> (\<exists>x. map_of (AList.update i r rs) j = Some x \<and> field x = k)"
    using none [of j] old assms(3) by (cases "k = field r"; cases "j = i") auto
qed

lemma indexes_update:
  assumes "indexes field m rs" and "map_of rs i = Some r" and "field r' = field r"
  shows "indexes field m (AList.update i r' rs)"
  using assms unfolding indexes_def by auto

text \<open>
  What a call of the store may do to it: the invariant is kept, no creation is forgotten, and an identity
  stays but for its status and the time of its last change.
\<close>

definition same_identity :: "IdentityRecord \<Rightarrow> IdentityRecord \<Rightarrow> bool" where
  "same_identity r r' \<longleftrightarrow> r' = r\<lparr>idr_Status := idr_Status r', idr_UpdatedAt := idr_UpdatedAt r'\<rparr>"

lemma same_identity_refl [simp]: "same_identity r r"
  by (cases r) (simp add: same_identity_def)

lemma same_identity_trans: "same_identity r r' \<Longrightarrow> same_identity r' r'' \<Longrightarrow> same_identity r r''"
  by (cases r; cases r'; cases r'') (simp add: same_identity_def)

lemma same_identity_fields:
  "same_identity r r' \<Longrightarrow> idr_AgentIdentityID r' = idr_AgentIdentityID r \<and> idr_AgentDID r' = idr_AgentDID r \<and>
     idr_Principal r' = idr_Principal r \<and> idr_ServiceDID r' = idr_ServiceDID r"
  by (cases r; cases r') (simp add: same_identity_def)

definition identity_step :: "memoryIdentityStore \<Rightarrow> memoryIdentityStore \<Rightarrow> bool" where
  "identity_step s s' \<longleftrightarrow> (identity_inv s \<longrightarrow> identity_inv s' \<and> set (mid_pending s) \<subseteq> set (mid_pending s') \<and>
     (\<forall>r \<in> identities s. \<exists>r' \<in> identities s'. same_identity r r'))"

lemma identity_step_refl [simp]: "identity_step s s"
  by (auto simp: identity_step_def intro: same_identity_refl)

lemma identity_step_trans: "identity_step s s' \<Longrightarrow> identity_step s' s'' \<Longrightarrow> identity_step s s''"
  unfolding identity_step_def by (blast intro: same_identity_trans)

lemma identity_step_more:
  "identity_inv s' \<Longrightarrow> set (mid_pending s) \<subseteq> set (mid_pending s') \<Longrightarrow> identities s \<subseteq> identities s' \<Longrightarrow> identity_step s s'"
  unfolding identity_step_def using same_identity_refl by blast

lemma add_identity_inv:
  assumes s: "identity_inv s" and valid: "validateIdentityRecord r = None"
    and fresh: "map_of (mid_records s) (idr_AgentIdentityID r) = None" "mid_byAgentDID s (idr_AgentDID r) = None"
      "mid_byAgentDIDID s (idr_AgentDIDID r) = None" "mid_byScope s (scope r) = None" "scope r \<notin> set (mid_pending s)"
  shows "identity_inv (addIdentity (scope r) r s)" "identities (addIdentity (scope r) r s) = insert r (identities s)"
proof -
  have "indexes scope ((mid_byScope s)(scope r \<mapsto> idr_AgentIdentityID r)) (AList.update (idr_AgentIdentityID r) r (mid_records s))"
    using indexes_add [where field = scope and r = r] identity_invD(7) [OF s] fresh by blast
  moreover have "\<forall>k \<in> set (mid_pending s). k \<noteq> scope r" using fresh(5) by blast
  ultimately show "identity_inv (addIdentity (scope r) r s)"
    unfolding identity_inv_def addIdentity_def
    using s fresh valid indexes_add [OF _ _ fresh(1)] by (simp add: identity_inv_def split: if_splits)
  show "identities (addIdentity (scope r) r s) = insert r (identities s)"
    using fresh(1) by (simp add: identities_def addIdentity_def ran_map_upd)
qed

lemma pending_identity_inv:
  assumes "identity_inv s" and "\<forall>k \<in> set ks. mid_byScope s k = None"
  shows "identity_inv (s\<lparr>mid_pending := ks\<rparr>)"
  using assms by (simp add: identity_inv_def)

lemma identities_pending [simp]: "identities (s\<lparr>mid_pending := ks\<rparr>) = identities s"
  by (simp add: identities_def)

text \<open>The two critical sections of a creation.\<close>

lemma identity_entered:
  assumes "identity_inv s" and "identity_enter key s = (Inr e, s')"
  shows "identity_step s s' \<and> identities s' = identities s \<and>
    (case e of Found r \<Rightarrow> r \<in> identities s \<and> scope r = key | Busy \<Rightarrow> True
     | Entered \<Rightarrow> key \<notin> set (mid_pending s) \<and> key \<in> set (mid_pending s') \<and> (\<forall>r \<in> identities s. scope r \<noteq> key))"
proof -
  note i = identity_invD(7) [OF assms(1)]
  have none: "mid_byScope s key = None \<Longrightarrow> \<forall>r \<in> identities s. scope r \<noteq> key"
    using indexed [OF assms(1) i, of key] index_of_empty [OF assms(1) i, of key] no_empty_id [OF assms(1)]
    by (metis option.distinct(1))
  have "identity_inv (s\<lparr>mid_pending := key # mid_pending s\<rparr>)" if "mid_byScope s key = None"
    using that assms(1) identity_invD(4) [OF assms(1)] by (intro pending_identity_inv) auto
  moreover have "r \<in> identities s \<and> scope r = key"
    if "map_of (mid_records s) (index_of (mid_byScope s) key) = Some r" for r
    using that by (simp only: indexed [OF assms(1) i])
  ultimately show ?thesis
    using assms(2) index_of_empty [OF assms(1) i, of key] none
    by (auto simp: identity_enter_def simp del: map_of_eq_Some_iff split: if_splits option.splits
        intro!: identity_step_more)
qed

lemma identity_left:
  assumes s: "identity_inv s" and "identity_leave (identityScopeKey owner service) (checkIdentity owner service created) s = (x, s')"
    and pending: "identityScopeKey owner service \<in> set (mid_pending s)"
  shows "identity_inv s' \<and> set (mid_pending s') = set (mid_pending s) - {identityScopeKey owner service} \<and>
    (case x of Inl _ \<Rightarrow> identities s' = identities s
     | Inr r \<Rightarrow> created = Inr r \<and> idr_Principal r = owner \<and> idr_ServiceDID r = service \<and>
         validateIdentityRecord r = None \<and> identities s' = insert r (identities s) \<and>
         (\<forall>other \<in> identities s. idr_AgentIdentityID other \<noteq> idr_AgentIdentityID r \<and>
            idr_AgentDID other \<noteq> idr_AgentDID r \<and> idr_AgentDIDID other \<noteq> idr_AgentDIDID r \<and> scope other \<noteq> scope r))"
proof -
  let ?key = "identityScopeKey owner service"
  let ?s = "s\<lparr>mid_pending := removeAll ?key (mid_pending s)\<rparr>"
  have s1: "identity_inv ?s" using identity_invD(4) [OF s] by (intro pending_identity_inv [OF s]) auto
  have scopes: "mid_byScope ?s ?key = None" using identity_invD(4) [OF s pending] by simp
  show ?thesis
  proof (cases x)
    case (Inl err)
    then have "s' = ?s" using assms(2) by (auto simp: identity_leave_def Let_def split: sum.splits if_splits)
    then show ?thesis using Inl s1 by simp
  next
    case (Inr r)
    then have r: "created = Inr r" "validateIdentityRecord r = None" "idr_Principal r = owner" "idr_ServiceDID r = service"
      and fresh: "map_of (mid_records ?s) (idr_AgentIdentityID r) = None" "index_of (mid_byAgentDID ?s) (idr_AgentDID r) = []"
        "index_of (mid_byAgentDIDID ?s) (idr_AgentDIDID r) = []"
      and s': "s' = addIdentity (scope r) r ?s"
      using assms(2) unfolding identity_leave_def checkIdentity_def Let_def
      by (auto simp del: map_of_eq_None_iff split: sum.splits if_splits option.splits)
    have fresh': "mid_byAgentDID ?s (idr_AgentDID r) = None" "mid_byAgentDIDID ?s (idr_AgentDIDID r) = None"
      using fresh(2,3) index_of_empty [OF s1] identity_invD(5,6) [OF s1] by blast+
    have key: "scope r = ?key" using r by simp
    note add = add_identity_inv [OF s1 r(2) fresh(1) fresh']
    have "identity_inv s'" "identities s' = insert r (identities s)"
      using add scopes key unfolding s' by simp_all
    moreover have "set (mid_pending s') = set (mid_pending s) - {?key}" using s' by (simp add: addIdentity_def)
    moreover have "idr_AgentIdentityID other \<noteq> idr_AgentIdentityID r \<and> idr_AgentDID other \<noteq> idr_AgentDID r \<and>
        idr_AgentDIDID other \<noteq> idr_AgentDIDID r \<and> scope other \<noteq> scope r" if "other \<in> identities s" for other
    proof -
      have other: "map_of (mid_records ?s) (idr_AgentIdentityID other) = Some other"
        using that identities_iff [OF s] by simp
      have no: "field other \<noteq> field r" if "indexes field m (mid_records ?s)" "m (field r) = None" for field m
        using other that unfolding indexes_def by (metis option.distinct(1))
      have "idr_AgentIdentityID other \<noteq> idr_AgentIdentityID r" using other fresh(1) by (metis option.distinct(1))
      moreover have "scope other \<noteq> scope r" using no [OF identity_invD(7) [OF s1]] scopes key by simp
      ultimately show ?thesis
        using no [OF identity_invD(5) [OF s1] fresh'(1)] no [OF identity_invD(6) [OF s1] fresh'(2)] by blast
    qed
    ultimately show ?thesis using Inr r by simp
  qed
qed

section \<open>The contract of the store of identities\<close>

text \<open>
  A registry answers from the set of records it knows: a lookup finds exactly the record with the key,
  an update changes one record's status, and a creation adds one record or finds the one of its scope.
\<close>

locale identity_registry =
  fixes store :: "'w IdentityStore" and known :: "'w \<Rightarrow> IdentityRecord set" and sound :: "'w \<Rightarrow> bool"
    and step :: "'w \<Rightarrow> 'w \<Rightarrow> bool"
  assumes step_refl: "reflp step" and step_trans: "transp step"
    and step_sound: "step w w' \<Longrightarrow> sound w \<Longrightarrow> sound w' \<and> (\<forall>r \<in> known w. \<exists>r' \<in> known w'. same_identity r r')"
    and unique: "sound w \<Longrightarrow> r \<in> known w \<Longrightarrow> r' \<in> known w \<Longrightarrow> scope r = scope r' \<or> idr_AgentDID r = idr_AgentDID r' \<or>
      idr_AgentIdentityID r = idr_AgentIdentityID r' \<Longrightarrow> r = r'"
    and get: "sound w \<Longrightarrow> ids_GetIdentity store k w = (Inr x, w') \<Longrightarrow>
      w' = w \<and> (\<forall>r. x = Some r \<longleftrightarrow> r \<in> known w \<and> idr_AgentIdentityID r = k)"
    and find_DID: "sound w \<Longrightarrow> ids_FindIdentityByAgentDID store k w = (Inr x, w') \<Longrightarrow>
      w' = w \<and> (\<forall>r. x = Some r \<longleftrightarrow> r \<in> known w \<and> idr_AgentDID r = k)"
    and find_DIDID: "sound w \<Longrightarrow> ids_FindIdentityByAgentDIDID store k w = (Inr x, w') \<Longrightarrow>
      w' = w \<and> (\<forall>r. x = Some r \<longleftrightarrow> r \<in> known w \<and> idr_AgentDIDID r = k)"
    and update: "sound w \<Longrightarrow> ids_UpdateIdentity store k status t w = (y, w') \<Longrightarrow> step w w' \<and>
      (\<forall>r'. y = Inr (Some r') \<longrightarrow> (\<exists>r \<in> known w. idr_AgentIdentityID r = k \<and>
         r' = r\<lparr>idr_Status := status, idr_UpdatedAt := t\<rparr> \<and> known w' = insert r' (known w - {r})))"
    and creates: "sound w \<Longrightarrow> keeps step create \<Longrightarrow> ids_FindOrCreateIdentity store owner service create w = (z, w') \<Longrightarrow>
      step w w' \<and> (\<forall>r fresh. z = Inr (r, fresh) \<longrightarrow> r \<in> known w' \<and> scope r = identityScopeKey owner service \<and>
        (fresh \<longleftrightarrow> (\<forall>r \<in> known w. scope r \<noteq> identityScopeKey owner service)) \<and>
        (fresh \<longrightarrow> idr_Principal r = owner \<and> idr_ServiceDID r = service))"

context identity_registry
begin

lemma created_once:
  assumes "sound w" and "keeps step create" and "keeps step create'"
    and first: "ids_FindOrCreateIdentity store owner service create w = (Inr (r, b), w1)" and "step w1 w2"
    and second: "ids_FindOrCreateIdentity store owner service create' w2 = (Inr (r', b'), w3)"
  shows "\<not> b' \<and> same_identity r r'"
proof -
  let ?key = "identityScopeKey owner service"
  have w1: "step w w1" "r \<in> known w1" "scope r = ?key" using creates [OF assms(1,2) first] by blast+
  have s1: "sound w1" using step_sound [OF w1(1) assms(1)] by blast
  obtain r1 where r1: "r1 \<in> known w2" "same_identity r r1" using step_sound [OF assms(5) s1] w1(2) by blast
  have s2: "sound w2" using step_sound [OF assms(5) s1] by blast
  have w3: "step w2 w3" "r' \<in> known w3" "scope r' = ?key" "b' \<longleftrightarrow> (\<forall>r \<in> known w2. scope r \<noteq> ?key)"
    using creates [OF s2 assms(3) second] by blast+
  have s3: "sound w3" using step_sound [OF w3(1) s2] by blast
  obtain r2 where r2: "r2 \<in> known w3" "same_identity r1 r2" using step_sound [OF w3(1) s2] r1(1) by blast
  have same: "same_identity r r2" using r1(2) r2(2) by (rule same_identity_trans)
  have "scope r1 = ?key" "scope r2 = ?key" using w1(3) same_identity_fields [OF r1(2)] same_identity_fields [OF same] by simp_all
  then have "r' = r2" "\<not> b'" using unique [OF s3 w3(2) r2(1)] w3(3,4) r1(1) by auto
  then show ?thesis using same by simp
qed

end

text \<open>The memory store keeps the contract wherever it lives in the world.\<close>

locale memory_identities = world_part p for p :: "(memoryIdentityStore, 'w) part" +
  fixes ctxDone :: "'w \<Rightarrow> bool"

lemma find_identity:
  assumes "identity_inv (part_get p w)" and "indexes field (index (part_get p w)) (mid_records (part_get p w))"
    and "memoryIdentityStore_find ctxDone p index k w = (Inr x, w')"
  shows "w' = w \<and> (\<forall>r. x = Some r \<longleftrightarrow> r \<in> identities (part_get p w) \<and> field r = k)"
proof -
  have "x = map_of (mid_records (part_get p w)) (index_of (index (part_get p w)) k)" "w' = w"
    using assms(3) by (simp_all add: memoryIdentityStore_find_def unless_done_Inr option.map_ident)
  then show ?thesis using indexed [OF assms(1,2)] by simp
qed

lemma get_identity:
  assumes "identity_inv (part_get p w)" and "memoryIdentityStore_GetIdentity ctxDone p k w = (Inr x, w')"
  shows "w' = w \<and> (\<forall>r. x = Some r \<longleftrightarrow> r \<in> identities (part_get p w) \<and> idr_AgentIdentityID r = k)"
proof -
  have "x = map_of (mid_records (part_get p w)) k" "w' = w"
    using assms(2) by (simp_all add: memoryIdentityStore_GetIdentity_def unless_done_Inr option.map_ident)
  then show ?thesis using identities_iff [OF assms(1)] identity_invD(3) [OF assms(1)] by metis
qed

lemma ran_update: "inj_on m (dom m) \<Longrightarrow> m k = Some r \<Longrightarrow> ran (m(k \<mapsto> r')) = insert r' (ran m - {r})"
  by (auto simp: ran_def inj_on_def dom_def) (metis option.inject)

lemma update_identity:
  assumes s: "identity_inv s" and r: "map_of (mid_records s) k = Some r" and status: "isManagedAgentStatus status" "\<not> time_IsZero t"
  defines "r' \<equiv> r\<lparr>idr_Status := status, idr_UpdatedAt := t\<rparr>"
  defines "s' \<equiv> s\<lparr>mid_records := AList.update k r' (mid_records s)\<rparr>"
  shows "identity_step s s'" "identities s' = insert r' (identities s - {r})"
proof -
  have inj: "inj_on (map_of (mid_records s)) (dom (map_of (mid_records s)))"
    unfolding inj_on_def using identity_invD(3) [OF s] by (metis domD)
  show ids: "identities s' = insert r' (identities s - {r})"
    unfolding identities_def s'_def by (simp add: ran_update [OF inj r])
  have valid: "validateIdentityRecord r' = None"
    using identity_invD(2) [OF s r] status by (simp add: validateIdentityRecord_def r'_def split: if_splits)
  have id: "idr_AgentIdentityID r' = k" using identity_invD(3) [OF s r] by (simp add: r'_def)
  have "identity_inv s'"
    unfolding identity_inv_def s'_def
    using s valid id indexes_update [OF _ r] unfolding identity_inv_def by (simp add: r'_def)
  moreover have "same_identity r r'" by (simp add: same_identity_def r'_def)
  moreover have "r \<in> identities s" using r unfolding identities_def ran_def by blast
  moreover have "\<exists>y \<in> identities s'. same_identity x y" if "x \<in> identities s" for x
    using that ids \<open>same_identity r r'\<close> same_identity_refl by (cases "x = r") blast+
  ultimately show "identity_step s s'" unfolding identity_step_def by (simp add: s'_def)
qed

lemma memory_update:
  assumes s: "identity_inv (part_get p w)" and put: "\<And>s w. part_get p (part_put p s w) = s"
    and run: "memoryIdentityStore_UpdateIdentity ctxDone p k status t w = (y, w')"
  shows "identity_step (part_get p w) (part_get p w') \<and>
    (\<forall>r'. y = Inr (Some r') \<longrightarrow> (\<exists>r \<in> identities (part_get p w). idr_AgentIdentityID r = k \<and>
       r' = r\<lparr>idr_Status := status, idr_UpdatedAt := t\<rparr> \<and>
       identities (part_get p w') = insert r' (identities (part_get p w) - {r})))"
proof (cases "ctxDone w \<or> \<not> isManagedAgentStatus status \<or> time_IsZero t \<or> map_of (mid_records (part_get p w)) k = None")
  case True
  then have "part_get p w' = part_get p w \<and> (\<forall>r'. y \<noteq> Inr (Some r'))"
    using run put by (auto simp: memoryIdentityStore_UpdateIdentity_def unless_done_def on_part_eq split: if_splits option.splits)
  then show ?thesis by simp
next
  case False
  then obtain r where r: "map_of (mid_records (part_get p w)) k = Some r" by blast
  let ?r = "r\<lparr>idr_Status := status, idr_UpdatedAt := t\<rparr>"
  have new: "y = Inr (Some ?r)" "part_get p w' = (part_get p w)\<lparr>mid_records := AList.update k ?r (mid_records (part_get p w))\<rparr>"
    using run put False r by (auto simp: memoryIdentityStore_UpdateIdentity_def unless_done_def on_part_eq Let_def)
  have "r \<in> identities (part_get p w)" using r unfolding identities_def ran_def by blast
  then show ?thesis
    using update_identity [OF s r, of status t] False new identity_invD(3) [OF s r] by auto
qed

lemma memory_create:
  assumes s: "identity_inv (part_get p w)" and put: "\<And>s w. part_get p (part_put p s w) = s"
    and create: "keeps (\<lambda>w w'. identity_step (part_get p w) (part_get p w')) create"
    and run: "memoryIdentityStore_FindOrCreateIdentity ctxDone p owner service create w = (z, w')"
  shows "identity_step (part_get p w) (part_get p w') \<and>
    (\<forall>r fresh. z = Inr (r, fresh) \<longrightarrow> r \<in> identities (part_get p w') \<and> scope r = identityScopeKey owner service \<and>
       (fresh \<longleftrightarrow> (\<forall>r \<in> identities (part_get p w). scope r \<noteq> identityScopeKey owner service)) \<and>
       (fresh \<longrightarrow> idr_Principal r = owner \<and> idr_ServiceDID r = service))"
proof (cases "owner = [] \<or> service = [] \<or> ctxDone w")
  case True
  then have "w' = w \<and> (\<forall>r. z \<noteq> Inr r)"
    using run by (cases "owner = [] \<or> service = []")
      (auto simp: memoryIdentityStore_FindOrCreateIdentity_def unless_done_def fail_def Let_def)
  then show ?thesis by auto
next
  case False
  let ?key = "identityScopeKey owner service"
  obtain x s1 where enter: "identity_enter ?key (part_get p w) = (x, s1)" by (cases "identity_enter ?key (part_get p w)")
  show ?thesis
  proof (cases x)
    case (Inl err)
    then have "s1 = part_get p w" using enter by (auto simp: identity_enter_def split: if_splits option.splits)
    then show ?thesis
      using run False enter Inl put
      by (auto simp: memoryIdentityStore_FindOrCreateIdentity_def unless_done_def and_then_def on_part_def Let_def)
  next
    case (Inr e)
    note entered = identity_entered [OF s enter [unfolded Inr]]
    show ?thesis
    proof (cases "e = Entered")
      case False
      with entered run enter Inr put \<open>\<not> (owner = [] \<or> service = [] \<or> ctxDone w)\<close> show ?thesis
        by (cases e) (auto simp: memoryIdentityStore_FindOrCreateIdentity_def unless_done_def and_then_def on_part_def Let_def ok_def fail_def)
    next
      case True
      let ?w1 = "part_put p s1 w"
      obtain c w2 where c: "create ?w1 = (c, w2)" by (cases "create ?w1")
      obtain y s3 where leave: "identity_leave ?key (checkIdentity owner service c) (part_get p w2) = (y, s3)"
        by (cases "identity_leave ?key (checkIdentity owner service c) (part_get p w2)")
      have w': "w' = part_put p s3 w2" "z = map_sum id (\<lambda>r. (r, True)) y"
        using run False enter Inr True c leave
        by (auto simp: memoryIdentityStore_FindOrCreateIdentity_def unless_done_def and_then_def on_part_def Let_def
            attempt_def ok_def split: sum.splits prod.splits)
      have step: "identity_step s1 (part_get p w2)" using keepsD [OF create c] put by simp
      have s1: "identity_inv s1" "?key \<in> set (mid_pending s1)" using entered True s by (auto simp: identity_step_def)
      then have w2: "identity_inv (part_get p w2)" "?key \<in> set (mid_pending (part_get p w2))"
        using step by (auto simp: identity_step_def)
      note left = identity_left [OF w2(1) leave w2(2)]
      have s3: "identity_inv s3" "set (mid_pending (part_get p w)) \<subseteq> set (mid_pending s3)"
        using left entered True s1 step s by (auto simp: identity_step_def)
      have "identities (part_get p w2) \<subseteq> identities s3" using left by (cases y) auto
      moreover have "\<forall>r \<in> identities (part_get p w). \<exists>r' \<in> identities (part_get p w2). same_identity r r'"
        using entered step s1(1) by (auto simp: identity_step_def)
      ultimately have "identity_step (part_get p w) s3" using s3 unfolding identity_step_def by blast
      then show ?thesis using w' put left entered True by (cases y) auto
    qed
  qed
qed

sublocale memory_identities \<subseteq> identities: identity_registry "NewMemoryIdentityStore ctxDone p"
  "\<lambda>w. identities (part_get p w)" "\<lambda>w. identity_inv (part_get p w)" "\<lambda>w w'. identity_step (part_get p w) (part_get p w')"
proof
  show "reflp (\<lambda>w w'. identity_step (part_get p w) (part_get p w'))" by (simp add: reflp_def)
  show "transp (\<lambda>w w'. identity_step (part_get p w) (part_get p w'))" unfolding transp_def using identity_step_trans by blast
next
  fix w w'
  assume "identity_step (part_get p w) (part_get p w')" "identity_inv (part_get p w)"
  then show "identity_inv (part_get p w') \<and>
      (\<forall>r \<in> identities (part_get p w). \<exists>r' \<in> identities (part_get p w'). same_identity r r')"
    by (simp add: identity_step_def)
next
  fix w k x w'
  assume s: "identity_inv (part_get p w)"
  show "w' = w \<and> (\<forall>r. x = Some r \<longleftrightarrow> r \<in> identities (part_get p w) \<and> idr_AgentIdentityID r = k)"
    if "ids_GetIdentity (NewMemoryIdentityStore ctxDone p) k w = (Inr x, w')"
    using get_identity [OF s] that by (simp add: NewMemoryIdentityStore_def)
  show "w' = w \<and> (\<forall>r. x = Some r \<longleftrightarrow> r \<in> identities (part_get p w) \<and> idr_AgentDID r = k)"
    if "ids_FindIdentityByAgentDID (NewMemoryIdentityStore ctxDone p) k w = (Inr x, w')"
    using find_identity [OF s, where index = mid_byAgentDID, OF identity_invD(5) [OF s]] that
    by (simp add: NewMemoryIdentityStore_def memoryIdentityStore_FindIdentityByAgentDID_def)
  show "w' = w \<and> (\<forall>r. x = Some r \<longleftrightarrow> r \<in> identities (part_get p w) \<and> idr_AgentDIDID r = k)"
    if "ids_FindIdentityByAgentDIDID (NewMemoryIdentityStore ctxDone p) k w = (Inr x, w')"
    using find_identity [OF s, where index = mid_byAgentDIDID, OF identity_invD(6) [OF s]] that
    by (simp add: NewMemoryIdentityStore_def memoryIdentityStore_FindIdentityByAgentDIDID_def)
next
  fix w r r'
  assume "identity_inv (part_get p w)" "r \<in> identities (part_get p w)" "r' \<in> identities (part_get p w)"
    "scope r = scope r' \<or> idr_AgentDID r = idr_AgentDID r' \<or> idr_AgentIdentityID r = idr_AgentIdentityID r'"
  then show "r = r'" by (rule identity_unique)
next
  fix w k status t y w'
  assume "identity_inv (part_get p w)" "ids_UpdateIdentity (NewMemoryIdentityStore ctxDone p) k status t w = (y, w')"
  then show "identity_step (part_get p w) (part_get p w') \<and> (\<forall>r'. y = Inr (Some r') \<longrightarrow>
      (\<exists>r \<in> identities (part_get p w). idr_AgentIdentityID r = k \<and> r' = r\<lparr>idr_Status := status, idr_UpdatedAt := t\<rparr> \<and>
         identities (part_get p w') = insert r' (identities (part_get p w) - {r})))"
    by (intro memory_update [OF _ get_put]) (simp_all add: NewMemoryIdentityStore_def)
next
  fix w create owner service z w'
  assume "identity_inv (part_get p w)" "keeps (\<lambda>w w'. identity_step (part_get p w) (part_get p w')) create"
    "ids_FindOrCreateIdentity (NewMemoryIdentityStore ctxDone p) owner service create w = (z, w')"
  then show "identity_step (part_get p w) (part_get p w') \<and> (\<forall>r fresh. z = Inr (r, fresh) \<longrightarrow>
      r \<in> identities (part_get p w') \<and> scope r = identityScopeKey owner service \<and>
      (fresh \<longleftrightarrow> (\<forall>r \<in> identities (part_get p w). scope r \<noteq> identityScopeKey owner service)) \<and>
      (fresh \<longrightarrow> idr_Principal r = owner \<and> idr_ServiceDID r = service))"
    by (intro memory_create [OF _ get_put]) (simp_all add: NewMemoryIdentityStore_def)
qed

end
