(* ===== verification/Platform_Documents.thy ===== *)
theory Platform_Documents
  imports Platform_Stores
begin

text \<open>
  \<open>platform/document.go\<close>: the discovery document, the DIDs a Platform mints for its Agents, the URL
  template of their DID documents and the documents themselves.
\<close>

section \<open>DIDs\<close>

definition escapeDIDComponent :: "string \<Rightarrow> string" where
  "escapeDIDComponent val = replace_byte CHR ''+'' ''%20'' (QueryEscape val)"

text \<open>The components of a path prefix, \<open>agents\<close> when it is empty.\<close>

definition prefixComponents :: "string \<Rightarrow> string list" where
  "prefixComponents pathPrefix =
     filter (\<lambda>part. part \<noteq> [])
       (split_on CHR ''/'' (trim_both (\<lambda>c. c = CHR ''/'') (if pathPrefix = [] then ''agents'' else pathPrefix)))"

definition CreateServiceScopedAgentDID :: "string \<Rightarrow> string \<Rightarrow> string \<Rightarrow> string result" where
  "CreateServiceScopedAgentDID host pathPrefix agentDIDID =
     (if host = [] \<or> agentDIDID = []
      then Inl (Text ''AEP Platform DID host and Agent DID identifier are required'')
      else case url_Parse (''https://'' @ host) of
        None \<Rightarrow> Inl (Text ''AEP Platform DID host is invalid'')
      | Some parsed \<Rightarrow>
          if url_Host parsed \<noteq> host \<or> url_Hostname parsed = [] \<or> url_User parsed \<noteq> None \<or> url_Path parsed \<noteq> [] \<or>
             url_RawQuery parsed \<noteq> [] \<or> url_Fragment parsed \<noteq> []
          then Inl (Text ''AEP Platform DID host is invalid'')
          else Inr (join_with '':''
            (''did'' # ''web'' # map escapeDIDComponent (host # prefixComponents pathPrefix @ [agentDIDID]))))"

section \<open>The URL template\<close>

abbreviation didContext :: string where "didContext \<equiv> ''https://www.w3.org/ns/did/v1''"
abbreviation platformDIDPlaceholder :: string where "platformDIDPlaceholder \<equiv> ''{agent_did_id}''"

text \<open>\<open>strings.Count\<close> of a separator that is not empty: its occurrences that do not overlap.\<close>

function count_str :: "string \<Rightarrow> string \<Rightarrow> nat" where
  "count_str s sep =
     (if s = [] \<or> sep = [] then 0
      else if has_prefix s sep then Suc (count_str (drop (length sep) s) sep)
      else count_str (drop 1 s) sep)"
  by pat_completeness auto

termination count_str
  by (relation "measure (\<lambda>(s, sep). length s)") auto

declare count_str.simps [simp del]

text \<open>\<open>strings.Replace\<close> of the first occurrence.\<close>

fun replace_first :: "string \<Rightarrow> string \<Rightarrow> string \<Rightarrow> string" where
  "replace_first [] sep val = (if sep = [] then val else [])"
| "replace_first (c # s) sep val =
     (if has_prefix (c # s) sep then val @ drop (length sep) (c # s) else c # replace_first s sep val)"

definition renderDIDURL :: "string \<Rightarrow> string \<Rightarrow> string result" where
  "renderDIDURL template agentDIDID =
     (if count_str template platformDIDPlaceholder \<noteq> 1
      then Inl (Text ''AEP Platform DID URL template must contain one {agent_did_id} placeholder'')
      else case url_Parse (replace_first template platformDIDPlaceholder (escapeDIDComponent agentDIDID)) of
        None \<Rightarrow> Inl (Text ''AEP Platform DID URL template must render an absolute HTTPS URL'')
      | Some parsed \<Rightarrow>
          if url_Scheme parsed \<noteq> ''https'' \<or> url_Hostname parsed = [] \<or> url_User parsed \<noteq> None \<or> url_Fragment parsed \<noteq> []
          then Inl (Text ''AEP Platform DID URL template must render an absolute HTTPS URL'')
          else Inr (url_String parsed))"

section \<open>Discovery\<close>

definition validateEndpointPath :: "string \<Rightarrow> string \<Rightarrow> go_error option" where
  "validateEndpointPath name path =
     (let err = Some (Text (''AEP Platform '' @ name @ '' endpoint must be an absolute path'')) in
      case url_Parse path of
        None \<Rightarrow> err
      | Some parsed \<Rightarrow>
          if path = [] \<or> \<not> has_prefix path ''/'' \<or> url_IsAbs parsed \<or> url_Host parsed \<noteq> [] \<or> url_User parsed \<noteq> None \<or>
             url_RawQuery parsed \<noteq> [] \<or> url_Fragment parsed \<noteq> []
          then err else None)"

text \<open>The loop over the named endpoints; Go ranges over them in no fixed order.\<close>

fun validateEndpoints :: "(string \<times> string) list \<Rightarrow> go_error option" where
  "validateEndpoints [] = None"
| "validateEndpoints ((name, path) # rest) =
     (case validateEndpointPath name path of Some err \<Rightarrow> Some err | None \<Rightarrow> validateEndpoints rest)"

definition discoveryEndpoints :: "('w, 'key) Options \<Rightarrow> DiscoveryEndpoints result" where
  "discoveryEndpoints options =
     (let discovery = pop_Discovery options;
          endpoints = \<lparr>dep_HostedVerification = [], dep_Lifecycle = dso_LifecycleEndpoint discovery,
            dep_List = dso_ListEndpoint discovery, dep_Provision = dso_ProvisionEndpoint discovery,
            dep_Sign = dso_SignEndpoint discovery\<rparr> in
      case validateEndpoints [(''lifecycle'', dep_Lifecycle endpoints), (''list'', dep_List endpoints),
             (''provision'', dep_Provision endpoints), (''sign'', dep_Sign endpoints)] of
        Some err \<Rightarrow> Inl err
      | None \<Rightarrow>
          if pop_HostedVerification options then
            (case validateEndpointPath ''hosted verification'' (dso_HostedVerificationEndpoint discovery) of
               Some err \<Rightarrow> Inl err
             | None \<Rightarrow> Inr (endpoints\<lparr>dep_HostedVerification := dso_HostedVerificationEndpoint discovery\<rparr>))
          else if dso_HostedVerificationEndpoint discovery \<noteq> []
          then Inl (Text ''AEP Platform hosted verification endpoint requires hosted verification'')
          else Inr endpoints)"

definition createDiscoveryDocument :: "('w, 'key) Options \<Rightarrow> duration \<Rightarrow> DiscoveryDocument result" where
  "createDiscoveryDocument options defaultLifetime =
     (let discovery = pop_Discovery options in
      case validateEndpointPath ''endpoint base'' (dso_EndpointBase discovery) of
        Some err \<Rightarrow> Inl err
      | None \<Rightarrow>
     (case discoveryEndpoints options of
        Inl err \<Rightarrow> Inl err
      | Inr endpoints \<Rightarrow>
          if dso_PlatformName discovery = [] then Inl (Text ''AEP Platform name is required'')
          else if dso_PlatformDID discovery \<noteq> [] \<and> \<not> has_prefix (dso_PlatformDID discovery) ''did:''
          then Inl (Text ''AEP Platform DID must be a DID'')
          else case renderDIDURL (pop_DIDURLTemplate options) ''validation'' of
            Inl err \<Rightarrow> Inl err
          | Inr rendered \<Rightarrow>
              Inr \<lparr>ddc_AEPVersion = Version, ddc_Endpoints = endpoints,
                ddc_HTTP = \<lparr>dht_EndpointBase = dso_EndpointBase discovery\<rparr>,
                ddc_Identity = \<lparr>did_DIDMethods = Some [IdentityMethodDIDWeb], did_DIDURLTemplate = pop_DIDURLTemplate options\<rparr>,
                ddc_Platform = \<lparr>dpl_DID = dso_PlatformDID discovery, dpl_HostedVerification = pop_HostedVerification options,
                  dpl_Name = dso_PlatformName discovery\<rparr>,
                ddc_Signing = \<lparr>dsg_Algorithms = pop_SigningAlgorithms options,
                  dsg_DefaultLifetimeSeconds = enc_int (go_div defaultLifetime Second)\<rparr>\<rparr>))"

text \<open>The copies share nothing with the originals; as values they are the same.\<close>

definition cloneDiscoveryDocument :: "DiscoveryDocument \<Rightarrow> DiscoveryDocument" where
  "cloneDiscoveryDocument document = document\<lparr>ddc_Identity := ddc_Identity document, ddc_Signing := ddc_Signing document\<rparr>"

definition cloneVerificationMethod :: "DIDVerificationMethod \<Rightarrow> DIDVerificationMethod" where
  "cloneVerificationMethod v = v\<lparr>dvm_PublicKeyJWK := dvm_PublicKeyJWK v\<rparr>"

section \<open>DID documents\<close>

definition CreateDIDDocument :: "IdentityRecord \<Rightarrow> DIDVerificationMethod \<Rightarrow> DIDDocument result" where
  "CreateDIDDocument identity v =
     (case validateIdentityRecord identity of
        Some err \<Rightarrow> Inl err
      | None \<Rightarrow>
          if dvm_ID v \<noteq> idr_KeyID identity \<or> dvm_Controller v \<noteq> idr_AgentDID identity \<or> dvm_Type v = [] \<or>
             dvm_PublicKeyJWK v = []
          then Inl (Text ''AEP Platform DID verification method does not match the managed identity'')
          else case dec_object (dvm_PublicKeyJWK v) of
            Some (Some key) \<Rightarrow>
              Inr \<lparr>ddoc_Context = Some [didContext], ddoc_AssertionMethod = Some [dvm_ID v],
                ddoc_Authentication = Some [dvm_ID v], ddoc_CapabilityInvocation = Some [dvm_ID v],
                ddoc_ID = idr_AgentDID identity, ddoc_VerificationMethod = Some [cloneVerificationMethod v]\<rparr>
          | _ \<Rightarrow> Inl (Text ''AEP Platform DID verification method requires a public JWK object''))"

lemmas platform_document_defs [go_defs] =
  escapeDIDComponent_def prefixComponents_def CreateServiceScopedAgentDID_def renderDIDURL_def validateEndpointPath_def
  discoveryEndpoints_def createDiscoveryDocument_def cloneDiscoveryDocument_def cloneVerificationMethod_def CreateDIDDocument_def

section \<open>A minted DID is an ordinary did:web DID\<close>

lemma hex_digit_cases: "0 \<le> n \<Longrightarrow> n < 16 \<Longrightarrow> is_hex (hex_digit n) \<and> hex_val (hex_digit n) = n"
proof -
  assume "0 \<le> n" "n < 16"
  then have "n \<in> set [0..15]" by simp
  moreover have "\<forall>n \<in> set [0..15]. is_hex (hex_digit n) \<and> hex_val (hex_digit n) = n" by code_simp
  ultimately show ?thesis by blast
qed

lemma hex_pair: "char_of (hex_val (hex_digit (byte c div 16)) * 16 + hex_val (hex_digit (byte c mod 16))) = c"
proof -
  have "byte c = byte c mod 256" by simp
  moreover have "0 \<le> byte c mod 256" "byte c mod 256 < 256" by (rule pos_mod_sign, simp, rule pos_mod_bound, simp)
  ultimately have "0 \<le> byte c" "byte c < 256" by linarith+
  then have "hex_val (hex_digit (byte c div 16)) = byte c div 16" "hex_val (hex_digit (byte c mod 16)) = byte c mod 16"
    using hex_digit_cases by simp_all
  then show ?thesis by simp
qed

text \<open>The escape of one byte.\<close>

definition did_escape :: "char \<Rightarrow> string" where
  "did_escape c =
     (if should_escape c encodeQueryComponent then [CHR ''%'', hex_digit (byte c div 16), hex_digit (byte c mod 16)] else [c])"

lemma hex_digit_plain: "0 \<le> n \<Longrightarrow> n < 16 \<Longrightarrow> hex_digit n \<notin> set ''+:%''"
proof -
  assume "0 \<le> n" "n < 16"
  then have "n \<in> set [0..15]" by simp
  moreover have "\<forall>n \<in> set [0..15]. hex_digit n \<notin> set ''+:%''" by code_simp
  ultimately show ?thesis by blast
qed

lemma hex_nibbles: "hex_digit (byte c div 16) \<notin> set ''+:%''" "hex_digit (byte c mod 16) \<notin> set ''+:%''"
  "is_hex (hex_digit (byte c div 16))" "is_hex (hex_digit (byte c mod 16))"
proof -
  have "byte c = byte c mod 256" by simp
  moreover have "0 \<le> byte c mod 256" "byte c mod 256 < 256" by (rule pos_mod_sign, simp, rule pos_mod_bound, simp)
  ultimately have "0 \<le> byte c" "byte c < 256" by linarith+
  then show "hex_digit (byte c div 16) \<notin> set ''+:%''" "hex_digit (byte c mod 16) \<notin> set ''+:%''"
    "is_hex (hex_digit (byte c div 16))" "is_hex (hex_digit (byte c mod 16))"
    using hex_digit_plain hex_digit_cases by simp_all
qed

lemma escapes_marks: "\<forall>c \<in> set ''+:%/ ''. should_escape c encodeQueryComponent"
  by code_simp

lemma escapeDIDComponent_Nil [simp]: "escapeDIDComponent [] = []"
  by (simp add: escapeDIDComponent_def QueryEscape_def replace_byte_def)

lemma escapeDIDComponent_Cons [simp]: "escapeDIDComponent (c # s) = did_escape c @ escapeDIDComponent s"
proof -
  have space: "did_escape CHR '' '' = ''%20''" by code_simp
  have "replace_byte CHR ''+'' ''%20'' (if should_escape c encodeQueryComponent
      then [CHR ''%'', hex_digit (byte c div 16), hex_digit (byte c mod 16)] else [c]) = did_escape c"
    using hex_nibbles [of c] escapes_marks by (auto simp: replace_byte_def did_escape_def)
  then show ?thesis
    using space by (cases "c = CHR '' ''") (auto simp: escapeDIDComponent_def QueryEscape_def replace_byte_def split: if_splits)
qed

lemma unescape_did_escape:
  "unescape encodePathSegment (did_escape c @ t) = map_option (Cons c) (unescape encodePathSegment t)"
proof (cases "should_escape c encodeQueryComponent")
  case True
  then show ?thesis using hex_nibbles [of c] hex_pair [of c] by (simp add: did_escape_def Let_def)
next
  case False
  then have "c \<noteq> CHR ''%''" using escapes_marks by auto
  then show ?thesis using False by (simp add: did_escape_def)
qed

lemma PathUnescape_escape [simp]: "PathUnescape (escapeDIDComponent s) = Some s"
  unfolding PathUnescape_def by (induction s) (simp_all add: unescape_did_escape)

lemma escape_no_colon: "CHR '':'' \<notin> set (escapeDIDComponent s)"
proof (induction s)
  case (Cons c s)
  have "CHR '':'' \<notin> set (did_escape c)"
    using hex_nibbles [of c] escapes_marks by (auto simp: did_escape_def split: if_splits)
  then show ?case using Cons by simp
qed simp

lemma escape_Nil_iff [simp]: "escapeDIDComponent s = [] \<longleftrightarrow> s = []"
  by (cases s) (auto simp: did_escape_def)

lemma decode_escaped:
  "list_all isDIDWebPathSegment parts \<Longrightarrow> decodeComponents (map escapeDIDComponent parts) = Inr parts"
  by (induction parts) simp_all

text \<open>
  C30. Round trip from the Platform to a Service: when its components are path segments a Service accepts, a
  minted DID resolves to the document under the configured host, prefix and identifier and nowhere else.
\<close>

theorem minted_did_resolves:
  assumes "CreateServiceScopedAgentDID host pathPrefix agentDIDID = Inr did"
    and "list_all isDIDWebPathSegment (prefixComponents pathPrefix @ [agentDIDID])"
  shows "DIDWebDocumentURL did = Inr (empty_url\<lparr>url_Scheme := ''https'', url_Host := host,
    url_Path := ''/'' @ join_with ''/'' (prefixComponents pathPrefix @ [agentDIDID]) @ ''/did.json''\<rparr>)"
proof -
  let ?parts = "prefixComponents pathPrefix @ [agentDIDID]"
  obtain parsed where parsed: "host \<noteq> []" "url_Parse (''https://'' @ host) = Some parsed" "url_Host parsed = host"
    "url_Hostname parsed \<noteq> []" "url_User parsed = None" "url_Path parsed = []"
    and did: "did = join_with '':'' (''did'' # ''web'' # map escapeDIDComponent (host # ?parts))"
    using assms(1) unfolding CreateServiceScopedAgentDID_def result_simps by blast
  obtain q qs where q: "map escapeDIDComponent ?parts = q # qs" by (cases "map escapeDIDComponent ?parts") auto
  have rest: "did = ''did:web:'' @ join_with '':'' (map escapeDIDComponent (host # ?parts))"
    unfolding did using q by simp
  have split: "split_on CHR '':'' (join_with '':'' (map escapeDIDComponent (host # ?parts))) = map escapeDIDComponent (host # ?parts)"
    by (rule split_on_join) (auto simp: escape_no_colon)
  show ?thesis
    using parsed split decode_escaped [OF assms(2)]
    unfolding DIDWebDocumentURL_def didWebDocumentURL_def rest
    by (simp add: has_prefix_append trim_prefix_def Let_def)
qed

theorem minted_did_resolves_witness:
  "DIDWebDocumentURL ''did:web:p.example%3A8443:agents:7f'' =
     Inr (empty_url\<lparr>url_Scheme := ''https'', url_Host := ''p.example:8443'', url_Path := ''/agents/7f/did.json''\<rparr>)"
proof -
  have "CreateServiceScopedAgentDID ''p.example:8443'' [] ''7f'' = Inr ''did:web:p.example%3A8443:agents:7f''" by code_simp
  moreover have "list_all isDIDWebPathSegment (prefixComponents [] @ [''7f''])" by code_simp
  moreover have "prefixComponents [] = [''agents'']" by code_simp
  ultimately show ?thesis using minted_did_resolves [of "''p.example:8443''" "[]" "''7f''"] by simp
qed

end
