(* ===== verification/Platform_Core.thy ===== *)
theory Platform_Core
  imports Platform_Documents
begin

text \<open>
  \<open>platform/platform.go\<close>: the operations of a Platform. Each one is a function of the Platform and of the
  world it acts on; SHA-256 is a parameter. The Go result of an operation is a \<open>Result\<close> or an error; the
  zero body a problem carries is an argument.
\<close>

section \<open>Checks on requests\<close>

definition isAssertionOperation :: "AssertionOperation \<Rightarrow> bool" where
  "isAssertionOperation operation \<longleftrightarrow> operation = AssertionEnroll \<or> operation = AssertionGrant \<or>
     operation = AssertionRevoke \<or> operation = AssertionStatus \<or> operation = AssertionAuthenticate"

definition isDIDIdentifierCharacter :: "char \<Rightarrow> bool" where
  "isDIDIdentifierCharacter c \<longleftrightarrow> is_lower c \<or> is_upper c \<or> is_digit c \<or> c \<in> set ''._:-!$&()*+,;='' \<or> byte c = 0x27"

definition isHex :: "char \<Rightarrow> bool" where
  "isHex c \<longleftrightarrow> is_digit c \<or> in_range 97 102 c \<or> in_range 65 70 c"

text \<open>The loop over the identifier, which steps over two digits after a percent sign.\<close>

fun didIdentifier :: "string \<Rightarrow> bool" where
  "didIdentifier [] \<longleftrightarrow> True"
| "didIdentifier (c # s) \<longleftrightarrow>
     (if isDIDIdentifierCharacter c then didIdentifier s
      else if c \<noteq> CHR ''%'' then False
      else case s of a # b # t \<Rightarrow> isHex a \<and> isHex b \<and> didIdentifier t | _ \<Rightarrow> False)"

definition isDID :: "string \<Rightarrow> bool" where
  "isDID val \<longleftrightarrow>
     (if \<not> has_prefix val ''did:'' then False
      else case cut_at CHR '':'' (trim_prefix val ''did:'') of (didMethod, identifier, found) \<Rightarrow>
        found \<and> didMethod \<noteq> [] \<and> identifier \<noteq> [] \<and> list_all (\<lambda>c. is_lower c \<or> is_digit c) didMethod \<and> didIdentifier identifier)"

definition isAbsoluteHTTPSURL :: "string \<Rightarrow> bool" where
  "isAbsoluteHTTPSURL val \<longleftrightarrow>
     (case url_Parse val of
        None \<Rightarrow> False
      | Some parsed \<Rightarrow> url_Scheme parsed = ''https'' \<and> url_Hostname parsed \<noteq> [] \<and> url_User parsed = None \<and> url_Fragment parsed = [])"

definition hasDuplicateAlgorithms :: "SigningAlgorithm list \<Rightarrow> bool" where
  "hasDuplicateAlgorithms algorithms = has_duplicates [] algorithms"

definition canonicalPositiveInteger :: "string \<Rightarrow> int option" where
  "canonicalPositiveInteger val =
     (case val of
        [] \<Rightarrow> None
      | c # s \<Rightarrow> if \<not> in_range 49 57 c \<or> \<not> list_all is_digit s then None else int_literal val)"

text \<open>The error of this check is a message, which the problem shows.\<close>

definition Platform_validateSignRequest :: "('w, 'key) Platform \<Rightarrow> SignRequest \<Rightarrow> string + duration" where
  "Platform_validateSignRequest platform request =
     (if sgq_JWTID request = [] \<or> \<not> isAssertionOperation (sgq_Operation request) \<or> \<not> isDID (sgq_ServiceDID request)
      then Inl ''AEP Platform signing request is invalid''
      else if sgq_Operation request = AssertionAuthenticate \<and> \<not> isAbsoluteHTTPSURL (sgq_Resource request)
      then Inl ''resource must be an absolute HTTPS URL for authenticate''
      else if sgq_Operation request \<noteq> AssertionAuthenticate \<and> sgq_Resource request \<noteq> []
      then Inl ''resource is only permitted for authenticate''
      else if sgq_LifetimeSeconds request = [] then Inr (plt_defaultLifetime platform)
      else case canonicalPositiveInteger (sgq_LifetimeSeconds request) of
        None \<Rightarrow> Inl ''lifetime_seconds must be a positive integer string''
      | Some seconds \<Rightarrow>
          if go_div (plt_maximumLifetime platform) Second < seconds \<or> go_div MaxAssertionLifetime Second < seconds
          then Inl ''lifetime_seconds exceeds the configured maximum''
          else Inr (seconds * Second))"

section \<open>Results\<close>

definition successResult :: "int \<Rightarrow> 'body \<Rightarrow> Header \<Rightarrow> 'body Result" where
  "successResult status body headers = \<lparr>plr_Body = body, plr_ContentType = MediaType, plr_Headers = headers,
     plr_Problem = None, plr_Status = status\<rparr>"

definition problemResult :: "'body \<Rightarrow> int \<Rightarrow> ErrorCode \<Rightarrow> string \<Rightarrow> 'body Result" where
  "problemResult zero status code title = \<lparr>plr_Body = zero, plr_ContentType = ProblemMediaType, plr_Headers = None,
     plr_Problem = Some (NewProblemDetails code title status), plr_Status = status\<rparr>"

abbreviation notRecognized :: "'body \<Rightarrow> 'body Result" where
  "notRecognized zero \<equiv> problemResult zero 404 ErrorNotRecognized ''Identity not recognized.''"

abbreviation keyRequired :: "'body \<Rightarrow> 'body Result" where
  "keyRequired zero \<equiv>
     problemResult zero 400 ErrorInvalidRequest ''Idempotency-Key and authenticated principal are required.''"

definition lifecycleErrorCode :: "ManagedAgentStatus \<Rightarrow> ErrorCode" where
  "lifecycleErrorCode status =
     (if status = ManagedAgentTerminated then ErrorIdentityTerminated
      else if status = ManagedAgentSuspended \<or> status = ManagedAgentRevoked then ErrorIdentitySuspended
      else ErrorIdentityUnavailable)"

definition agentIdentityFromRecord :: "IdentityRecord \<Rightarrow> AgentIdentity" where
  "agentIdentityFromRecord r =
     \<lparr>ai_AgentDID = idr_AgentDID r, ai_AgentIdentityID = idr_AgentIdentityID r,
      ai_CreatedAt = format_rfc3339 (idr_CreatedAt r), ai_DIDDocumentURL = idr_DIDDocumentURL r, ai_KeyID = idr_KeyID r,
      ai_ServiceDID = idr_ServiceDID r, ai_SigningAlgorithms = idr_SigningAlgorithms r, ai_Status = idr_Status r,
      ai_UpdatedAt = format_rfc3339 (idr_UpdatedAt r)\<rparr>"

text \<open>The copies of requests share nothing with them; as values they are the same.\<close>

definition cloneHeader :: "Header \<Rightarrow> Header" where "cloneHeader header = header"
definition cloneProvisionRequest :: "ProvisionRequest \<Rightarrow> ProvisionRequest" where "cloneProvisionRequest request = request"
definition cloneListQuery :: "IdentityListQuery \<Rightarrow> IdentityListQuery" where "cloneListQuery query = query"
definition cloneLifecycleRequest :: "LifecycleRequest \<Rightarrow> LifecycleRequest" where "cloneLifecycleRequest request = request"
definition cloneRawMap :: "(string \<times> RawMessage) slice \<Rightarrow> (string \<times> RawMessage) slice" where "cloneRawMap val = val"
definition cloneSignRequestValue :: "SignRequest \<Rightarrow> SignRequest" where
  "cloneSignRequestValue request = request\<lparr>sgq_PlatformContext := cloneRawMap (sgq_PlatformContext request)\<rparr>"
definition cloneSignRequest :: "SignRequest \<Rightarrow> SignRequest" where "cloneSignRequest request = cloneSignRequestValue request"
definition cloneSignResult :: "SignResponse Result \<Rightarrow> SignResponse Result" where
  "cloneSignResult result = result\<lparr>plr_Headers := cloneHeader (plr_Headers result),
     plr_Body := (plr_Body result)\<lparr>sgr_PlatformContext := cloneRawMap (sgr_PlatformContext (plr_Body result))\<rparr>\<rparr>"

section \<open>Idempotent execution\<close>

definition storeResult :: "('body \<Rightarrow> string option) \<Rightarrow> 'body Result \<Rightarrow> StoredResponse result" where
  "storeResult encode result =
     (case (case plr_Problem result of Some problem \<Rightarrow> ProblemDetails_MarshalJSON problem
            | None \<Rightarrow> encode (plr_Body result)) of
        None \<Rightarrow> Inl (Library ''encoding/json'')
      | Some body \<Rightarrow> Inr \<lparr>pst_Body = body, pst_ContentType = plr_ContentType result, pst_CreatedAt = zero_time,
          pst_Headers = cloneHeader (plr_Headers result), pst_Status = plr_Status result\<rparr>)"

definition restoreResult :: "'body \<Rightarrow> 'body decoder \<Rightarrow> StoredResponse \<Rightarrow> 'body Result result" where
  "restoreResult zero decode stored =
     (let result = \<lparr>plr_Body = zero, plr_ContentType = pst_ContentType stored, plr_Headers = cloneHeader (pst_Headers stored),
            plr_Problem = None, plr_Status = pst_Status stored\<rparr> in
      if pst_ContentType stored = ProblemMediaType
      then (case ProblemDetails_UnmarshalJSON (pst_Body stored) zero_problem of
              None \<Rightarrow> Inl (Library ''encoding/json'')
            | Some problem \<Rightarrow> Inr (result\<lparr>plr_Problem := Some problem\<rparr>))
      else (case decode (pst_Body stored) zero of
              None \<Rightarrow> Inl (Library ''encoding/json'')
            | Some body \<Rightarrow> Inr (result\<lparr>plr_Body := body\<rparr>)))"

text \<open>The input under which a request is executed; \<open>encoded\<close> is its encoding.\<close>

definition idempotencyInput ::
  "(string \<Rightarrow> string) \<Rightarrow> IdempotentOperation \<Rightarrow> RequestContext \<Rightarrow> string \<Rightarrow> json \<Rightarrow> IdempotencyInput" where
  "idempotencyInput sha256 operation context encoded val =
     \<lparr>pin_CanonicalRequestHash = hex_encode (sha256 (enc_json val)), pin_IdempotencyKey = rqc_IdempotencyKey context,
      pin_Operation = operation, pin_Principal = rqc_Principal context, pin_RequestHash = hex_encode (sha256 encoded)\<rparr>"

definition executeIdempotent ::
  "(string \<Rightarrow> string) \<Rightarrow> IdempotentOperation \<Rightarrow> string option \<Rightarrow> RequestContext \<Rightarrow> 'w IdempotencyStore \<Rightarrow> 'body \<Rightarrow>
   ('body \<Rightarrow> string option) \<Rightarrow> 'body decoder \<Rightarrow> (go_error, 'w, 'body Result) act \<Rightarrow> (go_error, 'w, 'body Result) act" where
  "executeIdempotent sha256 operation material context store zero encode decode execute =
     (if rqc_IdempotencyKey context = [] \<or> rqc_Principal context = [] then ok (keyRequired zero)
      else case material of
        None \<Rightarrow> fail (Library ''encoding/json'')
      | Some encoded \<Rightarrow>
     (case json_parse encoded of
        None \<Rightarrow> fail (Library ''encoding/json'')
      | Some val \<Rightarrow>
          and_then (store (idempotencyInput sha256 operation context encoded val)
             (and_then execute (\<lambda>response. of_result (storeResult encode response)))) (\<lambda>result.
          case result of
            PlatformConflict \<Rightarrow>
              ok (problemResult zero 409 ErrorIdempotencyConflict ''Idempotency key conflicts with an earlier request.'')
          | PlatformCreated response \<Rightarrow> of_result (restoreResult zero decode response)
          | PlatformReplayed response \<Rightarrow> of_result (restoreResult zero decode response))))"

section \<open>Lifecycle policy and identifiers\<close>

definition defaultLifecyclePolicy :: "'w LifecyclePolicy" where
  "defaultLifecyclePolicy =
     \<lparr>lp_CanSign = (\<lambda>identity _. ok (idr_Status identity = ManagedAgentActive)),
      lp_CanTransition = (\<lambda>_ _ _. ok True),
      lp_CanVerify = (\<lambda>identity _. ok (idr_Status identity = ManagedAgentActive))\<rparr>"

definition randomIdentifier :: "(go_error, 'w, string) act \<Rightarrow> (go_error, 'w, string) act" where
  "randomIdentifier rand_Read = and_then rand_Read (\<lambda>data. ok (hex_encode data))"

section \<open>Discovery and DID documents\<close>

definition entityTag :: "(string \<Rightarrow> string) \<Rightarrow> string \<Rightarrow> string" where
  "entityTag sha256 encoded = CHR 0x22 # ''sha256:'' @ hex_encode (sha256 encoded) @ [CHR 0x22]"

text \<open>\<open>t.UTC().Format(http.TimeFormat)\<close>; the epoch was a Thursday.\<close>

definition format_http_time :: "time \<Rightarrow> string" where
  "format_http_time t =
     (let secs = time_Unix t; days = secs div 86400; sod = secs mod 86400 in
      case civil_from_days days of (y, m, d) \<Rightarrow>
        [''Sun'', ''Mon'', ''Tue'', ''Wed'', ''Thu'', ''Fri'', ''Sat''] ! nat ((days + 4) mod 7) @ '', '' @ pad 2 d @ '' '' @
        [''Jan'', ''Feb'', ''Mar'', ''Apr'', ''May'', ''Jun'', ''Jul'', ''Aug'', ''Sep'', ''Oct'', ''Nov'', ''Dec''] ! nat (m - 1) @
        '' '' @ pad 4 y @ '' '' @ pad 2 (sod div 3600) @ '':'' @ pad 2 (sod div 60 mod 60) @ '':'' @ pad 2 (sod mod 60) @ '' GMT'')"

definition discoveryValidators :: "(string \<Rightarrow> string) \<Rightarrow> DiscoveryDocument \<Rightarrow> time \<Rightarrow> string \<times> string" where
  "discoveryValidators sha256 document modified = (entityTag sha256 (enc_discovery document), format_http_time modified)"

definition Platform_Discovery :: "('w, 'key) Platform \<Rightarrow> DiscoveryDocument Result" where
  "Platform_Discovery platform =
     successResult 200 (cloneDiscoveryDocument (plt_discovery platform))
       (header_Set ''Last-Modified'' (plt_discoveryModified platform)
       (header_Set ''ETag'' (plt_discoveryETag platform) (header_Set ''Cache-Control'' ''max-age=300'' (Some []))))"

definition Platform_GetDIDDocument ::
  "(string \<Rightarrow> string) \<Rightarrow> ('w, 'key) Platform \<Rightarrow> string \<Rightarrow> (go_error, 'w, DIDDocument Result) act" where
  "Platform_GetDIDDocument sha256 platform agentDIDID =
     and_then (ids_FindIdentityByAgentDIDID (plt_identityStore platform) agentDIDID) (\<lambda>identity.
     case identity of
       None \<Rightarrow> ok (notRecognized zero_did_document)
     | Some identity \<Rightarrow>
         and_then (ks_DIDVerificationMethod (plt_keyStore platform) (cloneIdentityRecord identity)) (\<lambda>verification.
         case CreateDIDDocument identity verification of
           Inl err \<Rightarrow> fail err
         | Inr document \<Rightarrow>
             (case enc_did_document document of
                None \<Rightarrow> fail (Library ''encoding/json'')
              | Some encoded \<Rightarrow>
                  ok ((successResult 200 document
                         (header_Set ''ETag'' (entityTag sha256 encoded)
                         (header_Set ''Cache-Control'' ''max-age=300'' (Some []))))\<lparr>plr_ContentType := DIDMediaType\<rparr>))))"

section \<open>Reading and listing identities\<close>

text \<open>A stored identity its owner may use, when the authorizer agrees.\<close>

definition Platform_authorizedIdentity ::
  "('w, 'key) Platform \<Rightarrow> string \<Rightarrow> AuthorizationRequest \<Rightarrow> RequestContext \<Rightarrow> (go_error, 'w, IdentityRecord option) act" where
  "Platform_authorizedIdentity platform agentIdentityID request context =
     and_then (ids_GetIdentity (plt_identityStore platform) agentIdentityID) (\<lambda>found.
     case found of
       None \<Rightarrow> ok None
     | Some identity \<Rightarrow>
         and_then (plt_authorizer platform (request\<lparr>azr_Identity := Some (cloneIdentityRecord identity)\<rparr>) context) (\<lambda>authorized.
         ok (if \<not> authorized \<or> rqc_Principal context = [] \<or> idr_Principal identity \<noteq> rqc_Principal context
             then None else Some identity)))"

definition Platform_GetIdentity ::
  "('w, 'key) Platform \<Rightarrow> string \<Rightarrow> RequestContext \<Rightarrow> (go_error, 'w, AgentIdentity Result) act" where
  "Platform_GetIdentity platform agentIdentityID context =
     and_then (Platform_authorizedIdentity platform agentIdentityID (authorize_only AuthorizeGetIdentity) context) (\<lambda>identity.
     case identity of
       None \<Rightarrow> ok (notRecognized zero_agent_identity)
     | Some identity \<Rightarrow> ok (successResult 200 (agentIdentityFromRecord identity) None))"

abbreviation maximumListLimit :: int where "maximumListLimit \<equiv> 100"

definition zero_list_response :: AgentIdentityListResponse where
  "zero_list_response = \<lparr>alr_Count = [], alr_Data = None, alr_Total = []\<rparr>"

definition Platform_List ::
  "('w, 'key) Platform \<Rightarrow> IdentityListQuery \<Rightarrow> RequestContext \<Rightarrow> (go_error, 'w, AgentIdentityListResponse Result) act" where
  "Platform_List platform query0 context =
     (if ilq_Limit query0 < 0 \<or> maximumListLimit < ilq_Limit query0 \<or> ilq_Offset query0 < 0 \<or>
         (ilq_ServiceDID query0 \<noteq> [] \<and> \<not> isDID (ilq_ServiceDID query0)) \<or>
         (ilq_Status query0 \<noteq> [] \<and> \<not> isManagedAgentStatus (ilq_Status query0))
      then ok (problemResult zero_list_response 400 ErrorInvalidRequest ''Identity list query is invalid.'')
      else
        let query = (if ilq_Limit query0 = 0 then query0\<lparr>ilq_Limit := maximumListLimit\<rparr> else query0) in
        and_then (plt_authorizer platform
           ((authorize_only AuthorizeListIdentities)\<lparr>azr_ListQuery := Some (cloneListQuery query)\<rparr>) context) (\<lambda>authorized.
        if \<not> authorized \<or> rqc_Principal context = [] then ok (notRecognized zero_list_response)
        else
          and_then (ids_ListIdentities (plt_identityStore platform) (rqc_Principal context) query) (\<lambda>listed.
          let data = map agentIdentityFromRecord (ilr_Identities listed) in
          ok (successResult 200 \<lparr>alr_Count = enc_int (int (length data)), alr_Data = Some data,
                alr_Total = enc_int (ilr_Total listed)\<rparr> None))))"

section \<open>Provisioning\<close>

definition Platform_createIdentity ::
  "('w, 'key) Platform \<Rightarrow> string \<Rightarrow> string \<Rightarrow> (go_error, 'w, IdentityRecord) act" where
  "Platform_createIdentity platform owner serviceDID =
     and_then (plt_identifier platform) (\<lambda>identifier.
     if identifier = [] then fail (Text ''AEP Platform identity generator returned an empty identifier'')
     else
       let agentIdentityID = (if has_prefix identifier ''pai_'' then identifier else ''pai_'' @ identifier) in
       and_then (plt_agentDIDIDGenerator platform) (\<lambda>agentDIDID.
       case CreateServiceScopedAgentDID (plt_didHost platform) (plt_didPathPrefix platform) agentDIDID of
         Inl err \<Rightarrow> fail err
       | Inr agentDID \<Rightarrow>
           (case renderDIDURL (plt_didURLTemplate platform) agentDIDID of
              Inl err \<Rightarrow> fail err
            | Inr didDocumentURL \<Rightarrow>
                and_then (call (plt_clock platform)) (\<lambda>now.
                let identity = \<lparr>idr_AgentDID = agentDID, idr_AgentDIDID = agentDIDID, idr_AgentIdentityID = agentIdentityID,
                      idr_CreatedAt = now, idr_DIDDocumentURL = didDocumentURL, idr_KeyID = agentDID, idr_Principal = owner,
                      idr_ServiceDID = serviceDID, idr_SigningAlgorithms = plt_signingAlgorithms platform,
                      idr_Status = ManagedAgentActive, idr_UpdatedAt = now\<rparr> in
                case validateIdentityRecord identity of
                  Some err \<Rightarrow> fail err
                | None \<Rightarrow>
                    and_then (ks_CreateKey (plt_keyStore platform) (cloneIdentityRecord identity)) (\<lambda>_.
                    ok identity)))))"

text \<open>What the closure of \<open>Provision\<close> does, run under the idempotency key.\<close>

definition provisionIdentity ::
  "('w, 'key) Platform \<Rightarrow> ProvisionRequest \<Rightarrow> RequestContext \<Rightarrow> (go_error, 'w, AgentIdentity Result) act" where
  "provisionIdentity platform request context =
     and_then (plt_serviceDIDResolver platform (prq_ServiceDID request)) (\<lambda>resolved.
     if \<not> resolved then ok (problemResult zero_agent_identity 400 ErrorInvalidRequest ''Service DID could not be resolved.'')
     else
       and_then (ids_FindOrCreateIdentity (plt_identityStore platform) (rqc_Principal context) (prq_ServiceDID request)
          (Platform_createIdentity platform (rqc_Principal context) (prq_ServiceDID request))) (\<lambda>(identity, created).
       ok (successResult 200 (agentIdentityFromRecord identity) None)))"

definition Platform_Provision ::
  "(string \<Rightarrow> string) \<Rightarrow> ('w, 'key) Platform \<Rightarrow> ProvisionRequest \<Rightarrow> RequestContext \<Rightarrow>
   (go_error, 'w, AgentIdentity Result) act" where
  "Platform_Provision sha256 platform request context =
     (if \<not> isDID (prq_ServiceDID request)
      then ok (problemResult zero_agent_identity 400 ErrorInvalidRequest ''service_did must be a DID.'')
      else if rqc_IdempotencyKey context = [] \<or> rqc_Principal context = [] then ok (keyRequired zero_agent_identity)
      else
        and_then (plt_authorizer platform
           ((authorize_only AuthorizeProvision)\<lparr>azr_ProvisionRequest := Some (cloneProvisionRequest request)\<rparr>) context) (\<lambda>authorized.
        if \<not> authorized then ok (notRecognized zero_agent_identity)
        else executeIdempotent sha256 IdempotentProvision (Some (enc_provision_request request)) context
               (plt_idempotencyStore platform) zero_agent_identity (\<lambda>v. Some (enc_agent_identity v))
               (dec_struct fields_agent_identity) (provisionIdentity platform request context)))"

section \<open>Signing\<close>

definition validateSignResult :: "SignResponse Result \<Rightarrow> IdentityRecord \<Rightarrow> SignRequest \<Rightarrow> go_error option" where
  "validateSignResult result identity request =
     (if header_Get (plr_Headers result) ''Retry-After'' \<noteq> []
      then Some (Text ''AEP Platform sign handler must not send a Retry-After header'')
      else case plr_Problem result of
        Some problem \<Rightarrow>
          if plr_ContentType result \<noteq> ProblemMediaType \<or> plr_Status result \<noteq> pd_Status problem
          then Some (Text ''AEP Platform sign handler returned an invalid Problem Details response'')
          else ValidateProblemDetails problem
      | None \<Rightarrow>
          let body = plr_Body result in
          if sgr_Status body = SignPending then
            (if plr_ContentType result \<noteq> MediaType \<or> plr_Status result \<noteq> 202 \<or>
                (case canonicalPositiveInteger (sgr_RetryAfterSeconds body) of None \<Rightarrow> True | Some seconds \<Rightarrow> 300 < seconds)
             then Some (Text ''AEP Platform sign handler returned an invalid pending response'') else None)
          else if sgr_Status body \<noteq> SignCompleted \<or> plr_ContentType result \<noteq> MediaType \<or> plr_Status result \<noteq> 200 \<or>
             sgr_AgentDID body \<noteq> idr_AgentDID identity \<or> sgr_ClientAssertion body = [] \<or>
             (case (parse_rfc3339 (sgr_IssuedAt body), parse_rfc3339 (sgr_ExpiresAt body)) of
                (Some issuedAt, Some expiresAt) \<Rightarrow> \<not> issuedAt < expiresAt \<or> MaxAssertionLifetime < expiresAt - issuedAt
              | _ \<Rightarrow> True) \<or>
             sgr_JWTID body \<noteq> sgq_JWTID request \<or> sgr_ServiceDID body \<noteq> sgq_ServiceDID request
          then Some (Text ''AEP Platform sign handler returned an invalid completed response'')
          else None)"

text \<open>Signing with the Platform's own key store.\<close>

definition assertionClaims :: "IdentityRecord \<Rightarrow> SignRequest \<Rightarrow> duration \<Rightarrow> time \<Rightarrow> ClientAssertionClaims" where
  "assertionClaims identity request lifetime now =
     \<lparr>cac_Audience = sgq_ServiceDID request, cac_ExpiresAt = time_Unix (now + lifetime), cac_IssuedAt = time_Unix now,
      cac_Issuer = idr_AgentDID identity, cac_JWTID = sgq_JWTID request, cac_Operation = sgq_Operation request,
      cac_Resource = sgq_Resource request, cac_Subject = idr_AgentDID identity, cac_Additional = []\<rparr>"

definition signAssertion ::
  "('w, 'key) Platform \<Rightarrow> IdentityRecord \<Rightarrow> SignRequest \<Rightarrow> duration \<Rightarrow> RequestContext \<Rightarrow>
   (go_error, 'w, SignResponse Result) act" where
  "signAssertion platform identity request lifetime context =
     and_then (if time_IsZero (rqc_Now context) then call (plt_clock platform) else ok (rqc_Now context)) (\<lambda>now.
     and_then (ks_Sign (plt_keyStore platform) (cloneIdentityRecord identity)
                 (assertionClaims identity request lifetime now)) (\<lambda>assertion.
     ok (successResult 200
           \<lparr>sgr_AgentDID = idr_AgentDID identity, sgr_ClientAssertion = assertion,
            sgr_ExpiresAt = format_rfc3339 (now + lifetime), sgr_IssuedAt = format_rfc3339 now, sgr_JWTID = sgq_JWTID request,
            sgr_PlatformContext = cloneRawMap (sgq_PlatformContext request), sgr_RetryAfterSeconds = [],
            sgr_ServiceDID = sgq_ServiceDID request, sgr_Status = SignCompleted\<rparr> None)))"

text \<open>What the closure of \<open>Sign\<close> does, run under the idempotency key.\<close>

definition signForIdentity ::
  "('w, 'key) Platform \<Rightarrow> IdentityRecord \<Rightarrow> SignRequest \<Rightarrow> duration \<Rightarrow> RequestContext \<Rightarrow>
   (go_error, 'w, SignResponse Result) act" where
  "signForIdentity platform identity request lifetime context =
     and_then (lp_CanSign (plt_lifecyclePolicy platform) (cloneIdentityRecord identity) context) (\<lambda>allowed.
     if \<not> allowed \<or> idr_Status identity \<noteq> ManagedAgentActive
     then ok (problemResult zero_sign_response 403 (lifecycleErrorCode (idr_Status identity)) ''Identity cannot sign.'')
     else
       and_then (case plt_signHandler platform of
                   None \<Rightarrow> ok None
                 | Some handler \<Rightarrow> handler \<lparr>shi_Identity = cloneIdentityRecord identity,
                                             shi_Request = cloneSignRequestValue request\<rparr> context) (\<lambda>handled.
       case handled of
         Some result \<Rightarrow>
           (case validateSignResult result identity request of
              Some err \<Rightarrow> fail err
            | None \<Rightarrow> ok (cloneSignResult result))
       | None \<Rightarrow> signAssertion platform identity request lifetime context))"

definition signMaterial :: "string \<Rightarrow> SignRequest \<Rightarrow> string option" where
  "signMaterial agentIdentityID request =
     map_option (\<lambda>encoded. enc_object [(''agent_identity_id'', enc_string agentIdentityID), (''request'', encoded)])
       (enc_sign_request request)"

definition Platform_Sign ::
  "(string \<Rightarrow> string) \<Rightarrow> ('w, 'key) Platform \<Rightarrow> string \<Rightarrow> SignRequest \<Rightarrow> RequestContext \<Rightarrow>
   (go_error, 'w, SignResponse Result) act" where
  "Platform_Sign sha256 platform agentIdentityID request context =
     (case Platform_validateSignRequest platform request of
        Inl message \<Rightarrow> ok (problemResult zero_sign_response 400 ErrorInvalidRequest message)
      | Inr lifetime \<Rightarrow>
          if rqc_IdempotencyKey context = [] \<or> rqc_Principal context = [] then ok (keyRequired zero_sign_response)
          else
            and_then (Platform_authorizedIdentity platform agentIdentityID
               ((authorize_only AuthorizeSign)\<lparr>azr_SignRequest := Some (cloneSignRequest request)\<rparr>) context) (\<lambda>found.
            case found of
              None \<Rightarrow> ok (notRecognized zero_sign_response)
            | Some identity \<Rightarrow>
                if idr_ServiceDID identity \<noteq> sgq_ServiceDID request then ok (notRecognized zero_sign_response)
                else executeIdempotent sha256 IdempotentSign (signMaterial agentIdentityID request) context
                       (plt_idempotencyStore platform) zero_sign_response enc_sign_response
                       (dec_struct fields_sign_response) (signForIdentity platform identity request lifetime context)))"

section \<open>Lifecycle\<close>

definition Platform_UpdateIdentity ::
  "('w, 'key) Platform \<Rightarrow> string \<Rightarrow> LifecycleRequest \<Rightarrow> RequestContext \<Rightarrow> (go_error, 'w, AgentIdentity Result) act" where
  "Platform_UpdateIdentity platform agentIdentityID request context =
     (if \<not> isManagedAgentStatus (lrq_Status request)
      then ok (problemResult zero_agent_identity 400 ErrorInvalidRequest ''Lifecycle status is invalid.'')
      else
        and_then (Platform_authorizedIdentity platform agentIdentityID
           ((authorize_only AuthorizeUpdateIdentity)\<lparr>azr_LifecycleRequest := Some (cloneLifecycleRequest request)\<rparr>) context) (\<lambda>found.
        case found of
          None \<Rightarrow> ok (notRecognized zero_agent_identity)
        | Some identity \<Rightarrow>
            and_then (lp_CanTransition (plt_lifecyclePolicy platform) (cloneIdentityRecord identity) (lrq_Status request) context) (\<lambda>allowed.
            if \<not> allowed
            then ok (problemResult zero_agent_identity 403 (lifecycleErrorCode (idr_Status identity)) ''Lifecycle transition rejected.'')
            else
              and_then (call (plt_clock platform)) (\<lambda>now.
              and_then (ids_UpdateIdentity (plt_identityStore platform) agentIdentityID (lrq_Status request) now) (\<lambda>updated.
              case updated of
                None \<Rightarrow> ok (notRecognized zero_agent_identity)
              | Some record \<Rightarrow> ok (successResult 200 (agentIdentityFromRecord record) None))))))"

lemmas platform_core_defs [go_defs] =
  isAssertionOperation_def isDIDIdentifierCharacter_def isHex_def isDID_def isAbsoluteHTTPSURL_def
  hasDuplicateAlgorithms_def canonicalPositiveInteger_def Platform_validateSignRequest_def successResult_def
  problemResult_def lifecycleErrorCode_def agentIdentityFromRecord_def cloneHeader_def
  cloneProvisionRequest_def cloneListQuery_def cloneLifecycleRequest_def cloneRawMap_def
  cloneSignRequestValue_def cloneSignRequest_def cloneSignResult_def storeResult_def restoreResult_def
  idempotencyInput_def executeIdempotent_def defaultLifecyclePolicy_def randomIdentifier_def entityTag_def
  format_http_time_def discoveryValidators_def Platform_Discovery_def Platform_GetDIDDocument_def
  Platform_authorizedIdentity_def Platform_GetIdentity_def zero_list_response_def Platform_List_def
  Platform_createIdentity_def provisionIdentity_def Platform_Provision_def validateSignResult_def
  assertionClaims_def signAssertion_def signForIdentity_def signMaterial_def Platform_Sign_def
  Platform_UpdateIdentity_def

end
