(* ===== verification/Platform_Verify.thy ===== *)
theory Platform_Verify
  imports Platform_Core
begin

text \<open>
  \<open>platform/verification.go\<close>: hosted verification, where a Service asks the Platform whether a client
  assertion is one of its Agents'. go-jose is a parameter, as in \<open>Jwt.thy\<close>.
\<close>

definition validateVerificationRequest :: "VerificationRequest \<Rightarrow> string option" where
  "validateVerificationRequest request =
     (if vrq_ClientAssertion request = [] \<or> \<not> isAssertionOperation (vrq_Operation request) \<or> \<not> isDID (vrq_ServiceDID request)
      then Some ''AEP Platform verification request is invalid''
      else if vrq_Operation request = AssertionAuthenticate then
        (if \<not> isAbsoluteHTTPSURL (vrq_Resource request)
         then Some ''resource must be an absolute HTTPS URL for authenticate'' else None)
      else if vrq_Resource request \<noteq> [] then Some ''resource is only permitted for authenticate''
      else None)"

text \<open>The copies share nothing with the originals; as values they are the same.\<close>

definition cloneVerificationRequest :: "VerificationRequest \<Rightarrow> VerificationRequest" where
  "cloneVerificationRequest request = request"

definition cloneIdentityPointer :: "IdentityRecord \<Rightarrow> IdentityRecord" where
  "cloneIdentityPointer identity = cloneIdentityRecord identity"

definition unrecognizedResult :: "VerificationRequest \<Rightarrow> VerificationResponse Result" where
  "unrecognizedResult request =
     successResult 200 (zero_verification_response\<lparr>vrs_Reason := ''not_recognized'', vrs_ServiceDID := vrq_ServiceDID request,
       vrs_Verified := False\<rparr>) None"

definition verifiedResult :: "VerificationRequest \<Rightarrow> IdentityRecord \<Rightarrow> VerificationResponse Result" where
  "verifiedResult request identity =
     successResult 200 \<lparr>vrs_AgentDID = idr_AgentDID identity, vrs_AgentIdentityID = idr_AgentIdentityID identity,
       vrs_Operation = vrq_Operation request, vrs_Reason = ''verified'', vrs_ServiceDID = vrq_ServiceDID request,
       vrs_Status = idr_Status identity, vrs_Verified = True\<rparr> None"

text \<open>The Agent an assertion names, when its issuer, subject and key agree.\<close>

definition presentedAgent :: "string \<Rightarrow> string option" where
  "presentedAgent assertion =
     (case DecodeJWTUnverified assertion of
        Inl err \<Rightarrow> None
      | Inr decoded \<Rightarrow>
          (case (header_string (jwt_Payload decoded) ''iss'', header_string (jwt_Payload decoded) ''sub'',
                 header_string (jwt_Header decoded) ''kid'') of
             (Some agentDID, Some subject, Some keyID) \<Rightarrow>
               if agentDID = [] \<or> agentDID \<noteq> subject \<or> keyID \<noteq> agentDID then None else Some agentDID
           | _ \<Rightarrow> None))"

definition replayKey :: "VerificationRequest \<Rightarrow> string \<Rightarrow> string \<Rightarrow> string" where
  "replayKey request agentDID jwtID =
     vrq_ServiceDID request @ [CHR 0x00] @ vrq_Operation request @ [CHR 0x00] @ agentDID @ [CHR 0x00] @ jwtID"

definition verifyOptions :: "VerificationRequest \<Rightarrow> IdentityRecord \<Rightarrow> 'key option \<Rightarrow> time \<Rightarrow> ('w, 'key) VerifyClientAssertionOptions" where
  "verifyOptions request identity key now =
     \<lparr>vo_Algorithms = elems (idr_SigningAlgorithms identity), vo_AllowInsecureLoopback = False,
      vo_Audience = vrq_ServiceDID request, vo_ClockTolerance = 0, vo_CurrentTime = now, vo_Issuer = idr_AgentDID identity,
      vo_Key = key, vo_KeyResolver = None, vo_Operation = vrq_Operation request, vo_Resource = vrq_Resource request,
      vo_Subject = idr_AgentDID identity\<rparr>"

text \<open>What the closure of \<open>Verify\<close> does, run under the idempotency key.\<close>

definition verifyForIdentity ::
  "'key jose \<Rightarrow> ('w \<Rightarrow> time \<times> 'w) \<Rightarrow> ('w, 'key) Platform \<Rightarrow> IdentityRecord \<Rightarrow> string \<Rightarrow> VerificationRequest \<Rightarrow> RequestContext \<Rightarrow>
   (go_error, 'w, VerificationResponse Result) act" where
  "verifyForIdentity jose time_Now platform identity agentDID request context =
     and_then (lp_CanVerify (plt_lifecyclePolicy platform) (cloneIdentityRecord identity) context) (\<lambda>allowed.
     if \<not> allowed \<or> idr_Status identity \<noteq> ManagedAgentActive then ok (unrecognizedResult request)
     else
       and_then (ks_VerificationKey (plt_keyStore platform) (cloneIdentityRecord identity)) (\<lambda>key.
       and_then (if time_IsZero (rqc_Now context) then call (plt_clock platform) else ok (rqc_Now context)) (\<lambda>now.
       and_then (attempt (VerifyClientAssertion jose time_Now (vrq_ClientAssertion request)
                            (verifyOptions request identity key now))) (\<lambda>verified.
       case verified of
         Inl err \<Rightarrow> ok (unrecognizedResult request)
       | Inr claims \<Rightarrow>
           if vrq_Operation request \<noteq> AssertionAuthenticate \<and> cac_Resource claims \<noteq> [] then ok (unrecognizedResult request)
           else case plt_replayStore platform of
             None \<Rightarrow> fail (Library ''runtime'')
           | Some consume \<Rightarrow>
               and_then (consume (replayKey request agentDID (cac_JWTID claims)) (cac_ExpiresAt claims * Second)) (\<lambda>consumed.
               ok (if \<not> consumed then unrecognizedResult request else verifiedResult request identity))))))"

definition Platform_Verify ::
  "(string \<Rightarrow> string) \<Rightarrow> 'key jose \<Rightarrow> ('w \<Rightarrow> time \<times> 'w) \<Rightarrow> ('w, 'key) Platform \<Rightarrow> VerificationRequest \<Rightarrow> RequestContext \<Rightarrow>
   (go_error, 'w, VerificationResponse Result) act" where
  "Platform_Verify sha256 jose time_Now platform request context =
     (if \<not> plt_hostedVerification platform
      then ok (problemResult zero_verification_response 404 ErrorNotRecognized ''Hosted verification is not available.'')
      else case validateVerificationRequest request of
        Some message \<Rightarrow> ok (problemResult zero_verification_response 400 ErrorInvalidRequest message)
      | None \<Rightarrow>
          if rqc_IdempotencyKey context = [] \<or> rqc_Principal context = [] then ok (keyRequired zero_verification_response)
          else case presentedAgent (vrq_ClientAssertion request) of
            None \<Rightarrow> ok (unrecognizedResult request)
          | Some agentDID \<Rightarrow>
              and_then (ids_FindIdentityByAgentDID (plt_identityStore platform) agentDID) (\<lambda>found.
              case found of
                None \<Rightarrow> ok (unrecognizedResult request)
              | Some identity \<Rightarrow>
                  if idr_ServiceDID identity \<noteq> vrq_ServiceDID request then ok (unrecognizedResult request)
                  else
                    and_then (plt_authorizer platform
                       ((authorize_only AuthorizeVerify)\<lparr>azr_Identity := Some (cloneIdentityPointer identity),
                          azr_VerificationRequest := Some (cloneVerificationRequest request)\<rparr>) context) (\<lambda>authorized.
                    if \<not> authorized then ok (unrecognizedResult request)
                    else executeIdempotent sha256 IdempotentHostedVerification (Some (enc_verification_request request)) context
                           (plt_idempotencyStore platform) zero_verification_response
                           (\<lambda>v. Some (enc_verification_response v)) (dec_struct fields_verification_response)
                           (verifyForIdentity jose time_Now platform identity agentDID request context))))"

lemmas platform_verify_defs [go_defs] =
  validateVerificationRequest_def cloneVerificationRequest_def cloneIdentityPointer_def unrecognizedResult_def
  verifiedResult_def presentedAgent_def replayKey_def verifyOptions_def verifyForIdentity_def
  Platform_Verify_def

end
