(* ===== verification/Platform_New.thy ===== *)
theory Platform_New
  imports Platform_Verify
begin

text \<open>
  \<open>New\<close> of \<open>platform/platform.go\<close>: how a Platform is configured. What an option leaves out comes from the
  process: its clock, its source of randomness, its context and fresh memory stores. These are the
  \<open>runtime\<close> argument; each store is a part of the world, which starts empty.
\<close>

record 'w runtime =
  prt_time_Now :: "'w \<Rightarrow> time \<times> 'w"
  prt_rand_Read :: "(go_error, 'w, string) act"
  prt_ctxDone :: "'w \<Rightarrow> bool"
  prt_identities :: "(memoryIdentityStore, 'w) part"
  prt_idempotency :: "(memoryIdempotencyStore, 'w) part"

section \<open>The template\<close>

abbreviation probe :: string where "probe \<equiv> ''aep-platform-did-url-probe''"

definition validateDIDURLTemplate :: "string \<Rightarrow> string \<Rightarrow> string \<Rightarrow> go_error option" where
  "validateDIDURLTemplate host pathPrefix template =
     (case CreateServiceScopedAgentDID host pathPrefix probe of
        Inl err \<Rightarrow> Some err
      | Inr agentDID \<Rightarrow>
     (case renderDIDURL template probe of
        Inl err \<Rightarrow> Some err
      | Inr rendered \<Rightarrow>
     (case DIDWebDocumentURL agentDID of
        Inl err \<Rightarrow> Some err
      | Inr resolved \<Rightarrow>
          if rendered \<noteq> url_String resolved
          then Some (Text (''AEP Platform DID URL template renders '' @ rendered @
                 '' where resolving the minted Agent DID reaches '' @ url_String resolved))
          else None)))"

section \<open>Lifetimes and algorithms\<close>

definition checkAlgorithms :: "SigningAlgorithm slice \<Rightarrow> go_error option" where
  "checkAlgorithms signingAlgorithms =
     (if elems signingAlgorithms = [] \<or> hasDuplicateAlgorithms (elems signingAlgorithms)
      then Some (Text ''AEP Platform requires unique signing algorithms'')
      else if list_ex (\<lambda>a. a \<noteq> SigningAlgorithmEdDSA \<and> a \<noteq> SigningAlgorithmES256) (elems signingAlgorithms)
      then Some (Text ''unsupported AEP Platform signing algorithm'')
      else None)"

definition resolveLifetimes :: "duration \<Rightarrow> duration \<Rightarrow> (duration \<times> duration) result" where
  "resolveLifetimes maximumOption defaultOption =
     (let maximumLifetime = (if maximumOption = 0 then MaxAssertionLifetime else maximumOption);
          defaultLifetime = (if defaultOption = 0 then MaxAssertionLifetime else defaultOption) in
      if maximumLifetime \<le> 0 \<or> MaxAssertionLifetime < maximumLifetime \<or> go_rem maximumLifetime Second \<noteq> 0
      then Inl (Text ''AEP Platform maximum assertion lifetime must be a whole number of seconds from 1 through 300'')
      else if defaultLifetime \<le> 0 \<or> maximumLifetime < defaultLifetime \<or> go_rem defaultLifetime Second \<noteq> 0
      then Inl (Text ''AEP Platform default assertion lifetime must be a whole number of seconds within the configured maximum'')
      else Inr (maximumLifetime, defaultLifetime))"

section \<open>The Platform\<close>

definition assemblePlatform ::
  "(string \<Rightarrow> string) \<Rightarrow> 'w runtime \<Rightarrow> ('w, 'key) Options \<Rightarrow> 'w Authorizer \<Rightarrow> ('w, 'key) KeyStore \<Rightarrow> 'w ServiceDIDResolver \<Rightarrow>
   duration \<Rightarrow> duration \<Rightarrow> DiscoveryDocument \<Rightarrow> (go_error, 'w, ('w, 'key) Platform) act" where
  "assemblePlatform sha256 rt options authorizer keyStore resolver maximumLifetime defaultLifetime discovery =
     (let clock = (case pop_Clock options of None \<Rightarrow> prt_time_Now rt | Some c \<Rightarrow> c) in
      and_then (call clock) (\<lambda>modified.
      case discoveryValidators sha256 discovery modified of (etag, lastModified) \<Rightarrow>
        ok \<lparr>plt_agentDIDIDGenerator = (case pop_AgentDIDIDGenerator options of
              None \<Rightarrow> randomIdentifier (prt_rand_Read rt) | Some f \<Rightarrow> f),
            plt_authorizer = authorizer, plt_clock = clock, plt_defaultLifetime = defaultLifetime,
            plt_didHost = pop_DIDHost options, plt_didPathPrefix = pop_DIDPathPrefix options,
            plt_didURLTemplate = pop_DIDURLTemplate options, plt_discovery = discovery, plt_discoveryETag = etag,
            plt_discoveryModified = lastModified, plt_hostedVerification = pop_HostedVerification options,
            plt_identifier = (case pop_Identifier options of None \<Rightarrow> randomIdentifier (prt_rand_Read rt) | Some f \<Rightarrow> f),
            plt_idempotencyStore = (case pop_IdempotencyStore options of
              None \<Rightarrow> NewMemoryIdempotencyStore (prt_ctxDone rt) clock (prt_idempotency rt) | Some store \<Rightarrow> store),
            plt_identityStore = (case pop_IdentityStore options of
              None \<Rightarrow> NewMemoryIdentityStore (prt_ctxDone rt) (prt_identities rt) | Some store \<Rightarrow> store),
            plt_keyStore = keyStore,
            plt_lifecyclePolicy = (case pop_LifecyclePolicy options of None \<Rightarrow> defaultLifecyclePolicy | Some policy \<Rightarrow> policy),
            plt_maximumLifetime = maximumLifetime, plt_replayStore = pop_ReplayStore options,
            plt_serviceDIDResolver = resolver, plt_signHandler = pop_SignHandler options,
            plt_signingAlgorithms = pop_SigningAlgorithms options\<rparr>))"

definition Platform_New ::
  "(string \<Rightarrow> string) \<Rightarrow> 'w runtime \<Rightarrow> ('w, 'key) Options \<Rightarrow> (go_error, 'w, ('w, 'key) Platform) act" where
  "Platform_New sha256 rt options =
     (case pop_Authorizer options of
        None \<Rightarrow> fail (Text ''AEP Platform authorizer is required'')
      | Some authorizer \<Rightarrow>
     (case pop_KeyStore options of
        None \<Rightarrow> fail (Text ''AEP Platform key store is required'')
      | Some keyStore \<Rightarrow>
     (case pop_ServiceDIDResolver options of
        None \<Rightarrow> fail (Text ''AEP Platform Service DID resolver is required'')
      | Some resolver \<Rightarrow>
          if pop_DIDHost options = [] \<or> pop_DIDURLTemplate options = []
          then fail (Text ''AEP Platform DID host and URL template are required'')
          else
     (case CreateServiceScopedAgentDID (pop_DIDHost options) (pop_DIDPathPrefix options) ''validation'' of
        Inl err \<Rightarrow> fail err
      | Inr _ \<Rightarrow>
     (case checkAlgorithms (pop_SigningAlgorithms options) of
        Some err \<Rightarrow> fail err
      | None \<Rightarrow>
     (case resolveLifetimes (pop_MaximumLifetime options) (pop_DefaultLifetime options) of
        Inl err \<Rightarrow> fail err
      | Inr (maximumLifetime, defaultLifetime) \<Rightarrow>
          if pop_HostedVerification options \<and> pop_ReplayStore options = None
          then fail (Text ''AEP Platform hosted verification requires a replay store'')
          else
     (case createDiscoveryDocument options defaultLifetime of
        Inl err \<Rightarrow> fail err
      | Inr discovery \<Rightarrow>
     (case validateDIDURLTemplate (pop_DIDHost options) (pop_DIDPathPrefix options) (pop_DIDURLTemplate options) of
        Some err \<Rightarrow> fail err
      | None \<Rightarrow>
          assemblePlatform sha256 rt options authorizer keyStore resolver maximumLifetime defaultLifetime discovery))))))))"

lemmas platform_new_defs [go_defs] =
  validateDIDURLTemplate_def checkAlgorithms_def resolveLifetimes_def assemblePlatform_def Platform_New_def

end
