(* ===== verification/Platform_Signing.thy ===== *)
theory Platform_Signing
  imports Service_Assertions Platform_New
begin

text \<open>
  What a Platform signs. The key store is asked to sign only for an active identity that belongs to the
  caller and to the requested Service, and only claims every validator of this library accepts.
\<close>

section \<open>Canonical decimals\<close>

lemma canonical_iff:
  "canonicalPositiveInteger val = Some n \<longleftrightarrow> val = enc_int n \<and> 1 \<le> n \<and> n \<le> max_i64"
proof
  assume a: "canonicalPositiveInteger val = Some n"
  then have v: "val \<noteq> []" "in_range 49 57 (hd val)" "list_all is_digit val" "int_literal val = Some n"
    by (auto simp: canonicalPositiveInteger_def is_digit_def in_range_def split: list.splits if_splits)
  then have "decimal val = n" "in_i64 n" using int_literal_decimal by (auto split: if_splits)
  then show "val = enc_int n \<and> 1 \<le> n \<and> n \<le> max_i64"
    using digits_of_decimal [OF v(3,1,2)] by (simp add: enc_int_def in_i64_def)
next
  assume "val = enc_int n \<and> 1 \<le> n \<and> n \<le> max_i64"
  moreover then have "in_i64 n" by (simp add: in_i64_def i64_limits)
  ultimately show "canonicalPositiveInteger val = Some n"
    using decimal_digits_of [of n] int_literal_decimal [of val]
    by (auto simp: canonicalPositiveInteger_def enc_int_def split: list.splits)
qed

section \<open>Lifetimes\<close>

lemma resolved_lifetimes:
  assumes "resolveLifetimes a b = Inr (longest, usual)"
  shows "Second \<le> longest" "longest \<le> MaxAssertionLifetime" "Second dvd longest"
    "Second \<le> usual" "usual \<le> longest" "Second dvd usual"
proof -
  have r: "0 < longest" "longest \<le> MaxAssertionLifetime" "go_rem longest Second = 0" "0 < usual" "usual \<le> longest"
    "go_rem usual Second = 0"
    using assms by (auto simp: resolveLifetimes_def Let_def split: if_splits)
  then show d: "Second dvd longest" "Second dvd usual" by (simp_all add: go_rem_zero)
  with r show "Second \<le> longest" "Second \<le> usual" by (simp_all add: zdvd_imp_le)
  show "longest \<le> MaxAssertionLifetime" "usual \<le> longest" using r by simp_all
qed

lemma signed_request:
  assumes "Platform_validateSignRequest platform request = Inr lifetime"
    and "resolveLifetimes a b = Inr (plt_maximumLifetime platform, plt_defaultLifetime platform)"
  shows "sgq_JWTID request \<noteq> []" "isAssertionOperation (sgq_Operation request)" "isDID (sgq_ServiceDID request)"
    "if sgq_Operation request = AssertionAuthenticate then isAbsoluteHTTPSURL (sgq_Resource request) else sgq_Resource request = []"
    "Second \<le> lifetime" "lifetime \<le> plt_maximumLifetime platform" "Second dvd lifetime"
proof -
  note l = resolved_lifetimes [OF assms(2)]
  show "sgq_JWTID request \<noteq> []" "isAssertionOperation (sgq_Operation request)" "isDID (sgq_ServiceDID request)"
    "if sgq_Operation request = AssertionAuthenticate then isAbsoluteHTTPSURL (sgq_Resource request) else sgq_Resource request = []"
    using assms(1) by (auto simp: Platform_validateSignRequest_def split: if_splits)
  have "Second \<le> lifetime \<and> lifetime \<le> plt_maximumLifetime platform \<and> Second dvd lifetime"
  proof (cases "sgq_LifetimeSeconds request = []")
    case True
    then show ?thesis using assms(1) l by (auto simp: Platform_validateSignRequest_def split: if_splits)
  next
    case False
    then obtain n where n: "canonicalPositiveInteger (sgq_LifetimeSeconds request) = Some n" "lifetime = n * Second"
      "n \<le> go_div (plt_maximumLifetime platform) Second"
      using assms(1) by (auto simp: Platform_validateSignRequest_def split: if_splits option.splits)
    have "1 \<le> n" using n(1) canonical_iff by blast
    moreover have "go_div (plt_maximumLifetime platform) Second * Second = plt_maximumLifetime platform"
      using l by (simp add: go_div_nonneg)
    ultimately show ?thesis using n(2,3) by auto
  qed
  then show "Second \<le> lifetime" "lifetime \<le> plt_maximumLifetime platform" "Second dvd lifetime" by blast+
qed

section \<open>The resource of an assertion\<close>

lemma parse_rest_shape:
  assumes "parse_rest rest u = Some v" and "url_Opaque u = []" and "url_Host u = []"
  shows "url_Opaque v = [] \<or> url_Host v = []"
  using assms by (auto simp: parse_rest_def set_path_def Let_def split: if_splits option.splits prod.splits)

lemma parsed_no_opaque:
  assumes "parse_no_fragment s = Some u" and "url_Host u \<noteq> []"
  shows "url_Opaque u = []"
proof -
  have "url_Opaque empty_url = []" "url_Host empty_url = []" by (simp_all add: empty_url_def)
  then show ?thesis
    using assms
    by (auto simp: parse_no_fragment_def split: if_splits option.splits prod.splits dest!: parse_rest_shape)
qed

lemma hostname_host: "url_Hostname u \<noteq> [] \<Longrightarrow> url_Host u \<noteq> []"
  by (auto simp: url_Hostname_def last_index_def)

lemma absolute_https_resource:
  assumes "isAbsoluteHTTPSURL val"
  shows "isProtectedResourceURI val loopback \<longleftrightarrow> CHR ''#'' \<notin> set val"
proof
  assume hash: "CHR ''#'' \<notin> set val"
  obtain u where u: "url_Parse val = Some u" "url_Scheme u = ''https''" "url_Hostname u \<noteq> []" "url_User u = None"
    using assms by (auto simp: isAbsoluteHTTPSURL_def split: option.splits)
  have p: "parse_no_fragment val = Some u" using u(1) hash by (simp add: url_Parse_def cut_at_def split: option.splits)
  then have "\<not> has_ctl_byte val" by (auto simp: parse_no_fragment_def split: if_splits)
  then have "\<not> containsControlCharacter val"
    by (auto simp: has_ctl_byte_def containsControlCharacter_def list_ex_iff)
  then show "isProtectedResourceURI val loopback"
    using hash u hostname_host [OF u(3)] parsed_no_opaque [OF p] by (simp add: isProtectedResourceURI_def)
qed (auto simp: isProtectedResourceURI_def)

section \<open>An example\<close>

definition identity_example :: IdentityRecord where
  "identity_example = \<lparr>idr_AgentDID = ''did:web:p.example:agents:7f'', idr_AgentDIDID = ''7f'', idr_AgentIdentityID = ''pai_1'',
     idr_CreatedAt = Second, idr_DIDDocumentURL = ''https://p.example/agents/7f/did.json'', idr_KeyID = ''did:web:p.example:agents:7f'',
     idr_Principal = ''alice'', idr_ServiceDID = ''did:web:s.example'', idr_SigningAlgorithms = Some [SigningAlgorithmEdDSA],
     idr_Status = ManagedAgentActive, idr_UpdatedAt = Second\<rparr>"

definition sign_request_example :: SignRequest where
  "sign_request_example = \<lparr>sgq_JWTID = ''j1'', sgq_LifetimeSeconds = ''60'', sgq_Operation = AssertionStatus,
     sgq_PlatformContext = None, sgq_Resource = [], sgq_ServiceDID = ''did:web:s.example''\<rparr>"

definition request_context_example :: RequestContext where
  "request_context_example = \<lparr>rqc_Authorization = [], rqc_IdempotencyKey = ''k1'', rqc_Now = 1000 * Second,
     rqc_Principal = ''alice'', rqc_RequestID = []\<rparr>"

definition key_store_example :: "(unit, string) KeyStore" where
  "key_store_example = \<lparr>ks_CreateKey = (\<lambda>_. ok ()), ks_DIDVerificationMethod = (\<lambda>_. fail (External [])),
     ks_Sign = (\<lambda>r c. ok (idr_AgentDID r @ '' signs '' @ cac_JWTID c)), ks_VerificationKey = (\<lambda>_. ok (Some ''k''))\<rparr>"

definition identity_store_example :: "unit IdentityStore" where
  "identity_store_example = \<lparr>ids_FindOrCreateIdentity = (\<lambda>_ _ _. fail (External [])),
     ids_FindIdentityByAgentDID = (\<lambda>k. ok (if k = idr_AgentDID identity_example then Some identity_example else None)),
     ids_FindIdentityByAgentDIDID = (\<lambda>k. ok (if k = ''7f'' then Some identity_example else None)),
     ids_GetIdentity = (\<lambda>k. ok (if k = ''pai_1'' then Some identity_example else None)),
     ids_ListIdentities = (\<lambda>_ _. fail (External [])), ids_UpdateIdentity = (\<lambda>_ _ _. ok (Some identity_example))\<rparr>"

definition zero_discovery :: DiscoveryDocument where
  "zero_discovery = \<lparr>ddc_AEPVersion = [], ddc_Endpoints = \<lparr>dep_HostedVerification = [], dep_Lifecycle = [], dep_List = [],
     dep_Provision = [], dep_Sign = []\<rparr>, ddc_HTTP = \<lparr>dht_EndpointBase = []\<rparr>,
     ddc_Identity = \<lparr>did_DIDMethods = None, did_DIDURLTemplate = []\<rparr>,
     ddc_Platform = \<lparr>dpl_DID = [], dpl_HostedVerification = False, dpl_Name = []\<rparr>,
     ddc_Signing = \<lparr>dsg_Algorithms = None, dsg_DefaultLifetimeSeconds = []\<rparr>\<rparr>"

definition platform_example :: "(unit, string) Platform" where
  "platform_example = \<lparr>plt_agentDIDIDGenerator = ok ''7f'', plt_authorizer = (\<lambda>_ _. ok True),
     plt_clock = (\<lambda>w. (1000 * Second, w)), plt_defaultLifetime = MaxAssertionLifetime, plt_didHost = ''p.example'',
     plt_didPathPrefix = [], plt_didURLTemplate = ''https://p.example/agents/{agent_did_id}/did.json'',
     plt_discovery = zero_discovery, plt_discoveryETag = [], plt_discoveryModified = [], plt_hostedVerification = True,
     plt_identifier = ok ''1'', plt_idempotencyStore = (\<lambda>_ execute. and_then execute (\<lambda>r. ok (PlatformCreated r))),
     plt_identityStore = identity_store_example, plt_keyStore = key_store_example,
     plt_lifecyclePolicy = defaultLifecyclePolicy, plt_maximumLifetime = MaxAssertionLifetime,
     plt_replayStore = Some (\<lambda>_ _. ok True), plt_serviceDIDResolver = (\<lambda>_. ok True), plt_signHandler = None,
     plt_signingAlgorithms = Some [SigningAlgorithmEdDSA]\<rparr>"

lemma example_lifetimes:
  "resolveLifetimes 0 0 = Inr (plt_maximumLifetime platform_example, plt_defaultLifetime platform_example)"
  by code_simp

section \<open>Properties\<close>

text \<open>
  Exactly the canonical decimals are accepted as a lifetime: a text parses to a number exactly when the
  number is positive, fits 64 bits and is written that way by \<open>strconv.FormatInt\<close>.
\<close>

theorem canonical_lifetime_exact:
  "canonicalPositiveInteger val = Some n \<longleftrightarrow> val = enc_int n \<and> 1 \<le> n \<and> n \<le> max_i64"
  by (rule canonical_iff)

lemma Unix_shift: "time_Unix (t + n * Second) = time_Unix t + n"
  by (simp add: time_Unix_def)

lemma lifetime_claims:
  assumes "Second dvd lifetime"
  shows "cac_ExpiresAt (assertionClaims r request lifetime now) =
    cac_IssuedAt (assertionClaims r request lifetime now) + lifetime div Second"
  using assms Unix_shift [of now "lifetime div Second"] by (simp add: assertionClaims_def)

text \<open>
  C24. What the Platform signs is what the Services accept. For a request that passes the checks of \<open>Sign\<close>
  under lifetimes \<open>New\<close> accepts, the claims validate, unless an \<open>authenticate\<close> resource holds a number sign,
  which only the Platform lets through; and every Service whose own maximum is no shorter finds them timely
  from the second they were issued until the second they expire.
\<close>

theorem signed_claims_accepted:
  assumes "Platform_validateSignRequest platform request = Inr lifetime"
    and "resolveLifetimes a b = Inr (plt_maximumLifetime platform, plt_defaultLifetime platform)"
    and "idr_AgentDID r \<noteq> []" and "in_i64 (time_Unix now)" and "time_Unix now + 300 \<le> max_i64"
  shows "(ValidateClientAssertionClaims (assertionClaims r request lifetime now) = None \<longleftrightarrow>
      CHR ''#'' \<notin> set (sgq_Resource request)) \<and>
    (\<forall>opts t. 0 \<le> caos_ClockSkew opts \<and> caos_ClockSkew opts \<le> RecommendedClockSkew \<and> lifetime \<le> caos_MaximumLifetime opts \<and>
       caos_MaximumLifetime opts \<le> MaxAssertionLifetime \<and> time_Unix now \<le> time_Unix t \<and> time_Unix t < time_Unix (now + lifetime) \<longrightarrow>
       assertionTimesValid opts (assertionClaims r request lifetime now) t)"
proof -
  let ?c = "assertionClaims r request lifetime now"
  note s = signed_request [OF assms(1,2)]
  have l: "1 \<le> lifetime div Second" "lifetime div Second \<le> 300"
    using s(5,6) resolved_lifetimes(2) [OF assms(2)] by simp_all
  have e: "cac_IssuedAt ?c = time_Unix now" "cac_ExpiresAt ?c = time_Unix now + lifetime div Second"
    using lifetime_claims [OF s(7), of r request now] by (simp_all add: assertionClaims_def)
  then have i: "in_i64 (cac_IssuedAt ?c)" "in_i64 (cac_ExpiresAt ?c)" using assms(4,5) l by (auto simp: in_i64_def)
  have iff: "ValidateClientAssertionClaimsWithOptions ?c False = None \<longleftrightarrow>
     (if cac_Operation ?c = AssertionAuthenticate then isProtectedResourceURI (cac_Resource ?c) False else cac_Resource ?c = [])"
    using s(1-3) assms(3) l e lifetime_exact [OF i]
    unfolding ValidateClientAssertionClaimsWithOptions_def validationResult_None append_is_Nil_conv
    by (auto simp: requireNonEmpty_Nil assertionClaims_def isAssertionOperation_def assertion_operations_def isDID_def)
  have valid: "ValidateClientAssertionClaims ?c = None \<longleftrightarrow> CHR ''#'' \<notin> set (sgq_Resource request)"
    using s(4) absolute_https_resource unfolding ValidateClientAssertionClaims_def iff by (simp add: assertionClaims_def)
  have timely: "assertionTimesValid opts ?c t"
    if o: "0 \<le> caos_ClockSkew opts" "caos_ClockSkew opts \<le> RecommendedClockSkew" "lifetime \<le> caos_MaximumLifetime opts"
      "caos_MaximumLifetime opts \<le> MaxAssertionLifetime"
      and t: "time_Unix now \<le> time_Unix t" "time_Unix t < time_Unix (now + lifetime)" for opts t
  proof -
    have x: "time_Unix (now + lifetime) = time_Unix now + lifetime div Second"
      using Unix_shift [of now "lifetime div Second"] s(7) by simp
    have "in_i64 (time_Unix t)" using t x assms(4,5) l by (auto simp: in_i64_def)
    moreover have "lifetime div Second \<le> caos_MaximumLifetime opts div Second" "caos_MaximumLifetime opts div Second \<le> 300"
      "0 \<le> caos_ClockSkew opts div Second"
      using o by (simp_all add: zdiv_mono1 pos_imp_zdiv_nonneg_iff)
    ultimately show ?thesis
      using assertionTimesValid_exact [of opts ?c t] o s(5) i e l t x assms(5) by auto
  qed
  show ?thesis using valid timely by blast
qed

theorem signed_claims_accepted_witness:
  "ValidateClientAssertionClaims (assertionClaims identity_example sign_request_example (60 * Second) (1000 * Second)) = None \<and>
   assertionTimesValid \<lparr>caos_AllowInsecureLoopback = False, caos_ClockSkew = 0, caos_MaximumLifetime = MaxAssertionLifetime\<rparr>
     (assertionClaims identity_example sign_request_example (60 * Second) (1000 * Second)) (1059 * Second)"
proof -
  have "Platform_validateSignRequest platform_example sign_request_example = Inr (60 * Second)" by code_simp
  from signed_claims_accepted [OF this example_lifetimes, of identity_example "1000 * Second"] show ?thesis
    by (auto simp: identity_example_def sign_request_example_def time_Unix_def in_i64_def i64_limits)
qed

text \<open>What the key store may be asked to sign for a request.\<close>

definition signable :: "('w, 'key) Platform \<Rightarrow> SignRequest \<Rightarrow> RequestContext \<Rightarrow> IdentityRecord \<Rightarrow> ClientAssertionClaims \<Rightarrow> bool" where
  "signable platform request context r c \<longleftrightarrow>
     idr_Status r = ManagedAgentActive \<and> rqc_Principal context \<noteq> [] \<and> idr_Principal r = rqc_Principal context \<and>
     idr_ServiceDID r = sgq_ServiceDID request \<and>
     (\<exists>w w'. lp_CanSign (plt_lifecyclePolicy platform) r context w = (Inr True, w')) \<and>
     (\<exists>w w'. plt_authorizer platform \<lparr>azr_Identity = Some r, azr_LifecycleRequest = None, azr_ListQuery = None,
        azr_Operation = AuthorizeSign, azr_ProvisionRequest = None, azr_SignRequest = Some request,
        azr_VerificationRequest = None\<rparr> context w = (Inr True, w')) \<and>
     cac_Issuer c = idr_AgentDID r \<and> cac_Subject c = idr_AgentDID r \<and> cac_Audience c = sgq_ServiceDID request \<and>
     isDID (cac_Audience c) \<and> cac_JWTID c = sgq_JWTID request \<and> cac_JWTID c \<noteq> [] \<and>
     cac_Operation c = sgq_Operation request \<and> isAssertionOperation (cac_Operation c) \<and> cac_Resource c = sgq_Resource request \<and>
     (if cac_Operation c = AssertionAuthenticate then isAbsoluteHTTPSURL (cac_Resource c) else cac_Resource c = []) \<and>
     1 \<le> cac_ExpiresAt c - cac_IssuedAt c \<and> cac_ExpiresAt c - cac_IssuedAt c \<le> plt_maximumLifetime platform div Second"

lemma clones [simp]:
  "cloneSignRequest request = request" "cloneSignRequestValue request = request" "cloneRawMap m = m" "cloneHeader h = h"
  by (simp_all add: cloneSignRequest_def cloneSignRequestValue_def cloneRawMap_def cloneHeader_def)

lemma and_then_cong: "(\<And>w x w'. m w = (Inr x, w') \<Longrightarrow> f x w' = g x w') \<Longrightarrow> and_then m f = and_then m g"
  by (rule ext) (auto simp: and_then_def split: prod.splits sum.splits)

lemma authorized_identity:
  assumes "Platform_authorizedIdentity platform k request context w = (Inr (Some r), w')"
  shows "rqc_Principal context \<noteq> []" "idr_Principal r = rqc_Principal context"
    "\<exists>w1. plt_authorizer platform (request\<lparr>azr_Identity := Some r\<rparr>) context w1 = (Inr True, w')"
    "\<exists>w1. ids_GetIdentity (plt_identityStore platform) k w = (Inr (Some r), w1)"
  using assms by (auto simp: Platform_authorizedIdentity_def and_then_Inr split: option.splits if_splits)

lemma signForIdentity_only:
  assumes "\<And>w w'. idr_Status r = ManagedAgentActive \<Longrightarrow>
      lp_CanSign (plt_lifecyclePolicy p) r context w = (Inr True, w') \<Longrightarrow>
      signAssertion p r request lifetime context = signAssertion p' r request lifetime context"
    and "plt_lifecyclePolicy p' = plt_lifecyclePolicy p" "plt_signHandler p' = plt_signHandler p"
  shows "signForIdentity p r request lifetime context = signForIdentity p' r request lifetime context"
  unfolding signForIdentity_def assms(2,3) cloneIdentityRecord_id
proof (rule and_then_cong)
  fix w allowed w'
  assume run: "lp_CanSign (plt_lifecyclePolicy p) r context w = (Inr allowed, w')"
  show "(if \<not> allowed \<or> idr_Status r \<noteq> ManagedAgentActive then f
      else and_then h (\<lambda>handled. case handled of Some result \<Rightarrow> g result
        | None \<Rightarrow> signAssertion p r request lifetime context)) w' =
    (if \<not> allowed \<or> idr_Status r \<noteq> ManagedAgentActive then f
      else and_then h (\<lambda>handled. case handled of Some result \<Rightarrow> g result
        | None \<Rightarrow> signAssertion p' r request lifetime context)) w'" for f h g
    using assms(1) run by (cases allowed) auto
qed

lemma signAssertion_only:
  assumes "\<And>now. ks_Sign (plt_keyStore p) r (assertionClaims r request lifetime now) =
      ks_Sign (plt_keyStore p') r (assertionClaims r request lifetime now)" and "plt_clock p = plt_clock p'"
  shows "signAssertion p r request lifetime context = signAssertion p' r request lifetime context"
  using assms by (simp add: signAssertion_def)

text \<open>
  C23. Signing is confined: whatever its stores, handlers and policies do, \<open>Sign\<close> asks the key store only for
  signatures of an active identity that the caller owns, that is bound to the requested Service and that both
  the authorizer and the lifecycle policy allow, over claims that name this identity and Service and repeat
  the request, with a lifetime within the maximum. So two key stores that agree on those cannot be told apart.
\<close>

theorem signing_confined:
  assumes "resolveLifetimes a b = Inr (plt_maximumLifetime platform, plt_defaultLifetime platform)"
    and "\<And>r c. signable platform request context r c \<Longrightarrow> ks_Sign keys r c = ks_Sign keys' r c"
  shows "Platform_Sign sha256 (platform\<lparr>plt_keyStore := keys\<rparr>) agentIdentityID request context =
    Platform_Sign sha256 (platform\<lparr>plt_keyStore := keys'\<rparr>) agentIdentityID request context"
proof -
  let ?p = "platform\<lparr>plt_keyStore := keys\<rparr>" and ?p' = "platform\<lparr>plt_keyStore := keys'\<rparr>"
  have same: "Platform_validateSignRequest ?p request = Platform_validateSignRequest platform request"
    "Platform_validateSignRequest ?p' request = Platform_validateSignRequest platform request"
    "Platform_authorizedIdentity ?p = Platform_authorizedIdentity platform"
    "Platform_authorizedIdentity ?p' = Platform_authorizedIdentity platform"
    by (simp_all add: Platform_validateSignRequest_def Platform_authorizedIdentity_def fun_eq_iff cong: option.case_cong)
  have sign: "signForIdentity ?p r request lifetime context = signForIdentity ?p' r request lifetime context"
    if v: "Platform_validateSignRequest platform request = Inr lifetime"
      and r: "Platform_authorizedIdentity platform agentIdentityID
        ((authorize_only AuthorizeSign)\<lparr>azr_SignRequest := Some request\<rparr>) context w = (Inr (Some r), w')"
      and s: "idr_ServiceDID r = sgq_ServiceDID request" for lifetime r w w'
  proof -
    note q = signed_request [OF v assms(1)]
    have auth: "\<exists>w w'. plt_authorizer platform \<lparr>azr_Identity = Some r, azr_LifecycleRequest = None, azr_ListQuery = None,
        azr_Operation = AuthorizeSign, azr_ProvisionRequest = None, azr_SignRequest = Some request,
        azr_VerificationRequest = None\<rparr> context w = (Inr True, w')"
      using authorized_identity(3) [OF r] by (auto simp: authorize_only_def)
    have bound: "1 \<le> lifetime div Second" "lifetime div Second \<le> plt_maximumLifetime platform div Second"
      using q(5,6) by (simp_all add: zdiv_mono1)
    have keys: "ks_Sign keys r (assertionClaims r request lifetime now) = ks_Sign keys' r (assertionClaims r request lifetime now)"
      if "idr_Status r = ManagedAgentActive" "lp_CanSign (plt_lifecyclePolicy platform) r context w1 = (Inr True, w2)" for now w1 w2
    proof (rule assms(2))
      have "cac_ExpiresAt (assertionClaims r request lifetime now) - cac_IssuedAt (assertionClaims r request lifetime now) =
          lifetime div Second"
        using lifetime_claims [OF q(7), of r request now] by simp
      then show "signable platform request context r (assertionClaims r request lifetime now)"
        unfolding signable_def using that s auth bound q authorized_identity(1,2) [OF r]
        by (auto simp: assertionClaims_def)
    qed
    then show ?thesis
      by (intro signForIdentity_only) (auto intro!: signAssertion_only)
  qed
  show ?thesis
    unfolding Platform_Sign_def same
    by (auto split: sum.splits option.splits simp: same sign intro!: and_then_cong)
qed

text \<open>A key store that refuses suspended identities cannot be told from one that does not.\<close>

definition careful_keys :: "(unit, string) KeyStore" where
  "careful_keys = key_store_example\<lparr>ks_Sign := (\<lambda>r c. if idr_Status r = ManagedAgentActive then ks_Sign key_store_example r c
     else fail (External ''refused''))\<rparr>"

theorem signing_confined_witness:
  "fst (Platform_Sign (\<lambda>_. []) (platform_example\<lparr>plt_keyStore := careful_keys\<rparr>) ''pai_1'' sign_request_example
     request_context_example ()) =
   fst (Platform_Sign (\<lambda>_. []) (platform_example\<lparr>plt_keyStore := key_store_example\<rparr>) ''pai_1'' sign_request_example
     request_context_example ())"
proof -
  have "ks_Sign careful_keys r c = ks_Sign key_store_example r c"
    if "signable platform_example sign_request_example request_context_example r c" for r c
    using that by (simp add: careful_keys_def signable_def)
  from signing_confined [OF example_lifetimes this] show ?thesis by simp
qed

lemma example_signed:
  "case fst (signForIdentity platform_example identity_example sign_request_example (60 * Second) request_context_example ()) of
     Inr r \<Rightarrow> plr_Status r = 200 \<and> sgr_ClientAssertion (plr_Body r) = ''did:web:p.example:agents:7f signs j1''
   | Inl _ \<Rightarrow> False"
  by (simp add: signForIdentity_def signAssertion_def assertionClaims_def platform_example_def defaultLifecyclePolicy_def
      identity_example_def sign_request_example_def request_context_example_def key_store_example_def successResult_def
      time_IsZero_def zero_time_def ok_def)

end
