(* ===== verification/Platform_Hosting.thy ===== *)
theory Platform_Hosting
  imports Platform_Signing
begin

text \<open>
  What a Platform promises around its signatures: it is configured consistently, it vouches only for
  assertions it has verified itself, and it does not reveal which identities others have.
\<close>

section \<open>Configuration\<close>

definition platform_ok :: "('w, 'key) Platform \<Rightarrow> bool" where
  "platform_ok platform \<longleftrightarrow>
     resolveLifetimes (plt_maximumLifetime platform) (plt_defaultLifetime platform) =
       Inr (plt_maximumLifetime platform, plt_defaultLifetime platform) \<and>
     elems (plt_signingAlgorithms platform) \<noteq> [] \<and> distinct (elems (plt_signingAlgorithms platform)) \<and>
     set (elems (plt_signingAlgorithms platform)) \<subseteq> {SigningAlgorithmEdDSA, SigningAlgorithmES256} \<and>
     (plt_hostedVerification platform \<longrightarrow> plt_replayStore platform \<noteq> None) \<and>
     validateDIDURLTemplate (plt_didHost platform) (plt_didPathPrefix platform) (plt_didURLTemplate platform) = None \<and>
     dpl_HostedVerification (ddc_Platform (plt_discovery platform)) = plt_hostedVerification platform \<and>
     (dep_HostedVerification (ddc_Endpoints (plt_discovery platform)) \<noteq> [] \<longleftrightarrow> plt_hostedVerification platform) \<and>
     dsg_Algorithms (ddc_Signing (plt_discovery platform)) = plt_signingAlgorithms platform \<and>
     did_DIDURLTemplate (ddc_Identity (plt_discovery platform)) = plt_didURLTemplate platform \<and>
     canonicalPositiveInteger (dsg_DefaultLifetimeSeconds (ddc_Signing (plt_discovery platform))) =
       Some (plt_defaultLifetime platform div Second)"

lemma resolved_again:
  assumes "resolveLifetimes a b = Inr (longest, usual)"
  shows "resolveLifetimes longest usual = Inr (longest, usual)"
  using assms by (auto simp: resolveLifetimes_def Let_def split: if_splits)

lemma checked_algorithms:
  assumes "checkAlgorithms s = None"
  shows "elems s \<noteq> []" "distinct (elems s)" "set (elems s) \<subseteq> {SigningAlgorithmEdDSA, SigningAlgorithmES256}"
  using assms
  by (auto simp: checkAlgorithms_def hasDuplicateAlgorithms_def has_duplicates_iff list_ex_iff split: if_splits)

lemma discovery_endpoints:
  assumes "discoveryEndpoints options = Inr endpoints"
  shows "dep_HostedVerification endpoints \<noteq> [] \<longleftrightarrow> pop_HostedVerification options"
  using assms by (auto simp: discoveryEndpoints_def validateEndpointPath_def Let_def split: if_splits option.splits)

lemma created_discovery:
  assumes "createDiscoveryDocument options lifetime = Inr d"
  shows "dep_HostedVerification (ddc_Endpoints d) \<noteq> [] \<longleftrightarrow> pop_HostedVerification options"
    "dpl_HostedVerification (ddc_Platform d) = pop_HostedVerification options"
    "dsg_Algorithms (ddc_Signing d) = pop_SigningAlgorithms options"
    "did_DIDURLTemplate (ddc_Identity d) = pop_DIDURLTemplate options"
    "dsg_DefaultLifetimeSeconds (ddc_Signing d) = enc_int (go_div lifetime Second)"
  using assms by (auto simp: createDiscoveryDocument_def Let_def dest: discovery_endpoints split: if_splits option.splits sum.splits)

text \<open>
  C27. Every Platform that \<open>New\<close> returns is well formed: its lifetimes are whole seconds within 300 seconds and
  each other, its algorithms are distinct registered ones, its template agrees with the DIDs it mints, hosted
  verification has a replay store, and its discovery document says all this the way its operations read it.
\<close>

theorem new_platform_well_formed:
  assumes "Platform_New sha256 rt options w = (Inr platform, w')"
  shows "platform_ok platform \<and> plt_didHost platform = pop_DIDHost options \<and> plt_didHost platform \<noteq> [] \<and>
    plt_discoveryETag platform = entityTag sha256 (enc_discovery (plt_discovery platform))"
proof -
  obtain authorizer keys resolver longest usual discovery where n:
    "pop_DIDHost options \<noteq> []" "checkAlgorithms (pop_SigningAlgorithms options) = None"
    "resolveLifetimes (pop_MaximumLifetime options) (pop_DefaultLifetime options) = Inr (longest, usual)"
    "pop_HostedVerification options \<longrightarrow> pop_ReplayStore options \<noteq> None"
    "createDiscoveryDocument options usual = Inr discovery"
    "validateDIDURLTemplate (pop_DIDHost options) (pop_DIDPathPrefix options) (pop_DIDURLTemplate options) = None"
    "assemblePlatform sha256 rt options authorizer keys resolver longest usual discovery w = (Inr platform, w')"
    using assms by (auto simp: Platform_New_def run_simps split: prod.splits)
  have p: "plt_maximumLifetime platform = longest" "plt_defaultLifetime platform = usual"
    "plt_signingAlgorithms platform = pop_SigningAlgorithms options" "plt_hostedVerification platform = pop_HostedVerification options"
    "plt_replayStore platform = pop_ReplayStore options" "plt_didHost platform = pop_DIDHost options"
    "plt_didPathPrefix platform = pop_DIDPathPrefix options" "plt_didURLTemplate platform = pop_DIDURLTemplate options"
    "plt_discovery platform = discovery" "plt_discoveryETag platform = entityTag sha256 (enc_discovery discovery)"
    using n(7) by (auto simp: assemblePlatform_def Let_def run_simps discoveryValidators_def)
  note l = resolved_lifetimes [OF n(3)]
  have "canonicalPositiveInteger (enc_int (go_div usual Second)) = Some (usual div Second)"
  proof (subst canonical_iff)
    have "1 \<le> usual div Second" "usual div Second \<le> 300" using l by simp_all
    then show "enc_int (go_div usual Second) = enc_int (usual div Second) \<and> 1 \<le> usual div Second \<and> usual div Second \<le> max_i64"
      using l by (simp add: go_div_nonneg i64_limits)
  qed
  then show ?thesis
    using n(1,4,6) resolved_again [OF n(3)] checked_algorithms [OF n(2)] created_discovery [OF n(5)]
    unfolding platform_ok_def p by simp
qed

definition platform_options_example :: "(unit, string) Platform_Types.Options" where
  "platform_options_example = \<lparr>pop_AgentDIDIDGenerator = Some (ok ''7f''), pop_Authorizer = Some (\<lambda>_ _. ok True),
     pop_Clock = Some (\<lambda>w. (1000 * Second, w)), pop_DefaultLifetime = 60 * Second, pop_DIDHost = ''p.example'',
     pop_DIDPathPrefix = [], pop_DIDURLTemplate = ''https://p.example/agents/{agent_did_id}/did.json'',
     pop_Discovery = \<lparr>dso_EndpointBase = ''/aep'', dso_HostedVerificationEndpoint = ''/verify'', dso_LifecycleEndpoint = ''/identity'',
       dso_ListEndpoint = ''/list'', dso_PlatformDID = [], dso_PlatformName = ''P'', dso_ProvisionEndpoint = ''/provision'',
       dso_SignEndpoint = ''/sign''\<rparr>,
     pop_HostedVerification = True, pop_Identifier = Some (ok ''1''),
     pop_IdempotencyStore = Some (plt_idempotencyStore platform_example), pop_IdentityStore = Some identity_store_example,
     pop_KeyStore = Some key_store_example, pop_LifecyclePolicy = None, pop_MaximumLifetime = 0,
     pop_ReplayStore = Some (\<lambda>_ _. ok True), pop_ServiceDIDResolver = Some (\<lambda>_. ok True), pop_SignHandler = None,
     pop_SigningAlgorithms = Some [SigningAlgorithmEdDSA]\<rparr>"

definition platform_runtime_example :: "unit Platform_New.runtime" where
  "platform_runtime_example = \<lparr>prt_time_Now = (\<lambda>w. (1000 * Second, w)), prt_rand_Read = ok ''7f'', prt_ctxDone = (\<lambda>_. False),
     prt_identities = \<lparr>part_get = (\<lambda>_. empty_identities), part_put = (\<lambda>_ w. w)\<rparr>,
     prt_idempotency = \<lparr>part_get = (\<lambda>_. Platform_Stores.empty_idempotency), part_put = (\<lambda>_ w. w)\<rparr>\<rparr>"

lemma example_platform:
  "case Platform_New (\<lambda>_. []) platform_runtime_example platform_options_example () of (Inl e, _) \<Rightarrow> False | (Inr p, _) \<Rightarrow> True"
  by code_simp

theorem new_platform_well_formed_witness:
  "\<exists>platform. Platform_New (\<lambda>_. []) platform_runtime_example platform_options_example () = (Inr platform, ()) \<and> platform_ok platform"
proof -
  obtain platform where "Platform_New (\<lambda>_. []) platform_runtime_example platform_options_example () = (Inr platform, ())"
    using run_ok [OF example_platform] by auto
  with new_platform_well_formed [OF this] show ?thesis by blast
qed

section \<open>Hosted verification\<close>

text \<open>The early returns of the closure answer that nothing was verified.\<close>

lemma unrecognized_not_verified [simp]: "vrs_Verified (plr_Body (unrecognizedResult request)) = False"
  by (simp add: unrecognizedResult_def successResult_def)

lemma verified_body [simp]:
  "vrs_AgentDID (plr_Body (verifiedResult request r)) = idr_AgentDID r"
  "vrs_Verified (plr_Body (verifiedResult request r))"
  by (simp_all add: verifiedResult_def successResult_def)

lemma if_unrecognized:
  "(if b then ok (unrecognizedResult request) else f) w = (Inr y, w') \<and> vrs_Verified (plr_Body y) \<longleftrightarrow>
     \<not> b \<and> f w = (Inr y, w') \<and> vrs_Verified (plr_Body y)"
  by auto

lemma empty_refused: "\<not> isAbsoluteHTTPSURL []" "\<not> isDID []" "\<not> isAssertionOperation []"
  by code_simp+

lemma valid_verification:
  assumes "validateVerificationRequest request = None"
  shows "vrq_ServiceDID request \<noteq> []" "vrq_Operation request \<noteq> []"
    "if vrq_Operation request = AssertionAuthenticate then vrq_Resource request \<noteq> [] else vrq_Resource request = []"
proof -
  have v: "isAssertionOperation (vrq_Operation request)" "isDID (vrq_ServiceDID request)"
    "if vrq_Operation request = AssertionAuthenticate then isAbsoluteHTTPSURL (vrq_Resource request) else vrq_Resource request = []"
    using assms by (simp_all add: validateVerificationRequest_def split: if_splits)
  show "vrq_ServiceDID request \<noteq> []" using v(2) empty_refused(2) by metis
  show "vrq_Operation request \<noteq> []" using v(1) empty_refused(3) by metis
  show "if vrq_Operation request = AssertionAuthenticate then vrq_Resource request \<noteq> [] else vrq_Resource request = []"
    using v(3) empty_refused(1) by metis
qed

lemma verified_run:
  assumes "verifyForIdentity jose time_Now platform r agentDID request context w = (Inr result, w')"
    and "vrs_Verified (plr_Body result)"
  obtains w1 w2 w3 w4 key now claims consume where
    "lp_CanVerify (plt_lifecyclePolicy platform) r context w = (Inr True, w1)" "idr_Status r = ManagedAgentActive"
    "ks_VerificationKey (plt_keyStore platform) r w1 = (Inr key, w2)"
    "VerifyClientAssertion jose time_Now (vrq_ClientAssertion request) (verifyOptions request r key now) w3 = (Inr claims, w4)"
    "plt_replayStore platform = Some consume"
    "consume (replayKey request agentDID (cac_JWTID claims)) (cac_ExpiresAt claims * Second) w4 = (Inr True, w')"
    "vrq_Operation request \<noteq> AssertionAuthenticate \<longrightarrow> cac_Resource claims = []" "result = verifiedResult request r"
proof -
  obtain allowed w1 where a: "lp_CanVerify (plt_lifecyclePolicy platform) r context w = (Inr allowed, w1)"
    and active: "allowed" "idr_Status r = ManagedAgentActive"
    and rest: "and_then (ks_VerificationKey (plt_keyStore platform) r) (\<lambda>key.
       and_then (if time_IsZero (rqc_Now context) then call (plt_clock platform) else ok (rqc_Now context)) (\<lambda>now.
       and_then (attempt (VerifyClientAssertion jose time_Now (vrq_ClientAssertion request) (verifyOptions request r key now))) (\<lambda>verified.
       case verified of
         Inl err \<Rightarrow> ok (unrecognizedResult request)
       | Inr claims \<Rightarrow>
           if vrq_Operation request \<noteq> AssertionAuthenticate \<and> cac_Resource claims \<noteq> [] then ok (unrecognizedResult request)
           else case plt_replayStore platform of
             None \<Rightarrow> fail (Library ''runtime'')
           | Some consume \<Rightarrow>
               and_then (consume (replayKey request agentDID (cac_JWTID claims)) (cac_ExpiresAt claims * Second)) (\<lambda>consumed.
               ok (if \<not> consumed then unrecognizedResult request else verifiedResult request r))))) w1 = (Inr result, w')"
    using assms unfolding verifyForIdentity_def cloneIdentityRecord_id and_then_Inr [of "lp_CanVerify _ _ _"]
    by (auto split: if_splits)
  then obtain key w2 now w3 verified w4 where
    k: "ks_VerificationKey (plt_keyStore platform) r w1 = (Inr key, w2)"
    "VerifyClientAssertion jose time_Now (vrq_ClientAssertion request) (verifyOptions request r key now) w3 = (verified, w4)"
    "(case verified of
         Inl err \<Rightarrow> ok (unrecognizedResult request)
       | Inr claims \<Rightarrow>
           if vrq_Operation request \<noteq> AssertionAuthenticate \<and> cac_Resource claims \<noteq> [] then ok (unrecognizedResult request)
           else case plt_replayStore platform of
             None \<Rightarrow> fail (Library ''runtime'')
           | Some consume \<Rightarrow>
               and_then (consume (replayKey request agentDID (cac_JWTID claims)) (cac_ExpiresAt claims * Second)) (\<lambda>consumed.
               ok (if \<not> consumed then unrecognizedResult request else verifiedResult request r))) w4 = (Inr result, w')"
    unfolding and_then_Inr attempt_Inr by blast
  then obtain claims consume consumed where
    c: "verified = Inr claims" "vrq_Operation request \<noteq> AssertionAuthenticate \<longrightarrow> cac_Resource claims = []"
    "plt_replayStore platform = Some consume"
    "consume (replayKey request agentDID (cac_JWTID claims)) (cac_ExpiresAt claims * Second) w4 = (Inr consumed, w')"
    "result = (if \<not> consumed then unrecognizedResult request else verifiedResult request r)"
    using assms(2) by (auto simp: and_then_Inr split: sum.splits if_splits option.splits)
  have "consumed" using c(5) assms(2) by (auto split: if_splits)
  with a active k c show ?thesis by (intro that [of w1 key w2 now w3 claims w4 consume]) simp_all
qed

text \<open>
  C25. The Platform vouches only for what it verified itself. When the closure of \<open>Verify\<close> answers that an
  assertion is verified, the identity is active and the lifecycle policy allows it, one JWT signature
  of the assertion verifies under the key the key store holds for the identity, its valid claims name the
  identity as issuer and subject and the requesting Service, operation and resource, they are in their window
  without any tolerance, and the replay store has just accepted the token identifier until it expires.
\<close>

theorem hosted_verification_sound:
  assumes "verifyForIdentity jose time_Now platform r agentDID request context w = (Inr result, w')"
    and "vrs_Verified (plr_Body result)" and "validateVerificationRequest request = None" and "idr_AgentDID r \<noteq> []"
  shows "idr_Status r = ManagedAgentActive \<and> vrs_AgentDID (plr_Body result) = idr_AgentDID r \<and>
    (\<exists>w1. lp_CanVerify (plt_lifecyclePolicy platform) r context w = (Inr True, w1)) \<and>
    (\<exists>key token header payload claims now consume w1 w2 w3 w4. ks_VerificationKey (plt_keyStore platform) r w1 = (Inr (Some key), w2) \<and>
       (\<exists>allowed. jose_ParseSigned jose (vrq_ClientAssertion request) allowed = Some token) \<and> tok_Headers token = [header] \<and>
       tok_verify token key = Some payload \<and> ClientAssertionClaims_UnmarshalJSON payload zero_assertion_claims = Some claims \<and>
       ValidateClientAssertionClaims claims = None \<and> cac_Issuer claims = idr_AgentDID r \<and> cac_Subject claims = idr_AgentDID r \<and>
       before CHR ''#'' (hdr_KeyID header) = idr_AgentDID r \<and> cac_Audience claims = vrq_ServiceDID request \<and>
       cac_Operation claims = vrq_Operation request \<and> cac_Resource claims = vrq_Resource request \<and>
       checkAssertionWindow (verifyOptions request r (Some key) now) claims now = Inr claims \<and>
       plt_replayStore platform = Some consume \<and>
       consume (replayKey request agentDID (cac_JWTID claims)) (cac_ExpiresAt claims * Second) w4 = (Inr True, w'))"
proof -
  obtain w1 w2 w3 w4 key0 now claims consume where v:
    "lp_CanVerify (plt_lifecyclePolicy platform) r context w = (Inr True, w1)" "idr_Status r = ManagedAgentActive"
    "ks_VerificationKey (plt_keyStore platform) r w1 = (Inr key0, w2)"
    "VerifyClientAssertion jose time_Now (vrq_ClientAssertion request) (verifyOptions request r key0 now) w3 = (Inr claims, w4)"
    "plt_replayStore platform = Some consume"
    "consume (replayKey request agentDID (cac_JWTID claims)) (cac_ExpiresAt claims * Second) w4 = (Inr True, w')"
    "vrq_Operation request \<noteq> AssertionAuthenticate \<longrightarrow> cac_Resource claims = []" "result = verifiedResult request r"
    by (rule verified_run [OF assms(1,2)])
  note q = valid_verification [OF assms(3)]
  show ?thesis
    using VerifyClientAssertion_ok [OF v(4)]
  proof cases
    case (1 allowed token header key payload now' w5)
    have key: "key0 = Some key" using 1(6) by (simp add: verifyOptions_def)
    have "checkAssertionWindow (verifyOptions request r (Some key) now') claims now' = Inr claims"
      using 1(10) by (simp add: checkAssertionWindow_def verifyOptions_def)
    moreover have "ValidateClientAssertionClaims claims = None" "cac_Issuer claims = idr_AgentDID r" "cac_Subject claims = idr_AgentDID r"
      "before CHR ''#'' (hdr_KeyID header) = idr_AgentDID r" "cac_Audience claims = vrq_ServiceDID request"
      "cac_Operation claims = vrq_Operation request" "cac_Resource claims = vrq_Resource request"
      using 1(8) q v(7) assms(4) unfolding checkAssertionClaims_None ValidateClientAssertionClaims_def
      by (auto simp: verifyOptions_def split: if_splits)
    ultimately have "\<exists>key token header payload claims now consume w1 w2 w3 w4. ks_VerificationKey (plt_keyStore platform) r w1 = (Inr (Some key), w2) \<and>
       (\<exists>allowed. jose_ParseSigned jose (vrq_ClientAssertion request) allowed = Some token) \<and> tok_Headers token = [header] \<and>
       tok_verify token key = Some payload \<and> ClientAssertionClaims_UnmarshalJSON payload zero_assertion_claims = Some claims \<and>
       ValidateClientAssertionClaims claims = None \<and> cac_Issuer claims = idr_AgentDID r \<and> cac_Subject claims = idr_AgentDID r \<and>
       before CHR ''#'' (hdr_KeyID header) = idr_AgentDID r \<and> cac_Audience claims = vrq_ServiceDID request \<and>
       cac_Operation claims = vrq_Operation request \<and> cac_Resource claims = vrq_Resource request \<and>
       checkAssertionWindow (verifyOptions request r (Some key) now) claims now = Inr claims \<and>
       plt_replayStore platform = Some consume \<and>
       consume (replayKey request agentDID (cac_JWTID claims)) (cac_ExpiresAt claims * Second) w4 = (Inr True, w')"
      using v(3) [unfolded key] 1(2,3,5,7) v(5,6) by blast
    then show ?thesis using v(1,2,8) by simp
  qed
qed

definition verification_request_example :: VerificationRequest where
  "verification_request_example = \<lparr>vrq_ClientAssertion = ''t'', vrq_Operation = AssertionStatus, vrq_Resource = [],
     vrq_ServiceDID = ''did:web:s.example''\<rparr>"

abbreviation hosted_example :: IdentityRecord where
  "hosted_example \<equiv> identity_example\<lparr>idr_AgentDID := ''did:web:a.example''\<rparr>"

lemma example_verified:
  "case verifyForIdentity jose_example (\<lambda>w. (0, w)) platform_example hosted_example ''did:web:a.example''
     verification_request_example request_context_example () of
     (Inr result, _) \<Rightarrow> vrs_Verified (plr_Body result) | _ \<Rightarrow> False"
  by code_simp

theorem hosted_verification_sound_witness:
  "\<exists>result key payload claims. verifyForIdentity jose_example (\<lambda>w. (0, w)) platform_example hosted_example ''did:web:a.example''
     verification_request_example request_context_example () = (Inr result, ()) \<and>
     ks_VerificationKey key_store_example hosted_example () = (Inr (Some key), ()) \<and>
     ClientAssertionClaims_UnmarshalJSON payload zero_assertion_claims = Some claims \<and> cac_Issuer claims = ''did:web:a.example''"
proof -
  obtain result where r: "verifyForIdentity jose_example (\<lambda>w. (0, w)) platform_example hosted_example ''did:web:a.example''
     verification_request_example request_context_example () = (Inr result, ())" "vrs_Verified (plr_Body result)"
    using example_verified by (auto split: prod.splits sum.splits)
  have "validateVerificationRequest verification_request_example = None" "idr_AgentDID hosted_example \<noteq> []"
    by (code_simp, simp)
  from hosted_verification_sound [OF r this] r(1) show ?thesis by (auto simp: platform_example_def)
qed

section \<open>Identities of others\<close>

lemma foreign_identity:
  assumes "ids_GetIdentity (plt_identityStore platform) k w = (Inr (Some r), w1)" and "idr_Principal r \<noteq> rqc_Principal context"
    and "plt_authorizer platform (request\<lparr>azr_Identity := Some r\<rparr>) context w1 = (Inr decision, w2)"
  shows "Platform_authorizedIdentity platform k request context w = (Inr None, w2)"
  using assms by (auto simp: Platform_authorizedIdentity_def and_then_def ok_def)

lemma unknown_identity:
  assumes "ids_GetIdentity (plt_identityStore platform) k w = (Inr None, w1)"
  shows "Platform_authorizedIdentity platform k request context w = (Inr None, w1)"
  using assms by (simp add: Platform_authorizedIdentity_def and_then_def ok_def)

text \<open>
  C26. An identity of another principal cannot be told from one that does not exist: whatever the
  authorizer decides, reading, updating and signing with a foreign identifier answer exactly what they
  answer with an unknown one, for every request.
\<close>

theorem foreign_identity_hidden:
  assumes foreign: "ids_GetIdentity (plt_identityStore platform) k w = (Inr (Some r), w1)" "idr_Principal r \<noteq> rqc_Principal context"
    and unknown: "ids_GetIdentity (plt_identityStore platform) k' w' = (Inr None, w1')"
    and decides: "\<And>request. azr_Identity request = Some r \<Longrightarrow> \<exists>decision w2. plt_authorizer platform request context w1 = (Inr decision, w2)"
  shows "fst (Platform_GetIdentity platform k context w) = fst (Platform_GetIdentity platform k' context w') \<and>
    fst (Platform_UpdateIdentity platform k change context w) = fst (Platform_UpdateIdentity platform k' change context w') \<and>
    fst (Platform_Sign sha256 platform k request context w) = fst (Platform_Sign sha256 platform k' request context w')"
proof -
  have none: "fst (and_then (Platform_authorizedIdentity platform k q context) f w) =
      fst (and_then (Platform_authorizedIdentity platform k' q context) f' w')"
    if f: "\<And>w w'. fst (f None w) = fst (f' None w')" for q and f f' :: "IdentityRecord option \<Rightarrow> (go_error, 'a, 'c) act"
  proof -
    obtain decision w2 where "plt_authorizer platform (q\<lparr>azr_Identity := Some r\<rparr>) context w1 = (Inr decision, w2)"
      using decides [of "q\<lparr>azr_Identity := Some r\<rparr>"] by auto
    from foreign_identity [OF foreign this] unknown_identity [OF unknown, of q "context"]
    show ?thesis using f [of w2 w1'] by (simp add: and_then_def)
  qed
  show ?thesis
    unfolding Platform_GetIdentity_def Platform_UpdateIdentity_def Platform_Sign_def
    by (auto intro!: none simp: ok_def split: sum.splits)
qed

theorem foreign_identity_hidden_witness:
  "fst (Platform_GetIdentity platform_example ''pai_1'' (request_context_example\<lparr>rqc_Principal := ''mallory''\<rparr>) ()) =
   fst (Platform_GetIdentity platform_example ''pai_2'' (request_context_example\<lparr>rqc_Principal := ''mallory''\<rparr>) ())"
proof -
  let ?c = "request_context_example\<lparr>rqc_Principal := ''mallory''\<rparr>"
  have "ids_GetIdentity (plt_identityStore platform_example) ''pai_1'' () = (Inr (Some identity_example), ())"
    "idr_Principal identity_example \<noteq> rqc_Principal ?c"
    "ids_GetIdentity (plt_identityStore platform_example) ''pai_2'' () = (Inr None, ())"
    "\<And>q. azr_Identity q = Some identity_example \<Longrightarrow> \<exists>decision w2. plt_authorizer platform_example q ?c () = (Inr decision, w2)"
    by (auto simp: platform_example_def identity_store_example_def identity_example_def ok_def)
  from foreign_identity_hidden [OF this] show ?thesis by blast
qed

end
