(* ===== verification/Platform_Registry.thy ===== *)
theory Platform_Registry
  imports Platform_Stores
begin

text \<open>
  What the memory store of identities shows its callers. The abstract specification is a plain list of
  records without indexes; the store refines it call by call, so every history of calls gets the same
  answers. Lists of identities are pages of one sorted list.
\<close>

section \<open>The specification\<close>

text \<open>A call of the store, with what the callback of a creation returns; and the answers.\<close>

datatype identity_call =
  FindOrCreate string string "IdentityRecord result"
| ByAgentDID string
| ByAgentDIDID string
| ById string
| Page string IdentityListQuery
| Update string ManagedAgentStatus time

datatype identity_answer = Failed go_error | Answer "IdentityRecord option" | Got IdentityRecord bool | Listed IdentityListResult

fun store_call :: "identity_call \<Rightarrow> memoryIdentityStore \<Rightarrow> identity_answer \<times> memoryIdentityStore" where
  "store_call (FindOrCreate owner service created) s =
     (case memoryIdentityStore_FindOrCreateIdentity (\<lambda>_. False) whole owner service (of_result created) s of
        (Inl e, s') \<Rightarrow> (Failed e, s') | (Inr (r, fresh), s') \<Rightarrow> (Got r fresh, s'))"
| "store_call (ByAgentDID k) s =
     (case memoryIdentityStore_FindIdentityByAgentDID (\<lambda>_. False) whole k s of
        (Inl e, s') \<Rightarrow> (Failed e, s') | (Inr x, s') \<Rightarrow> (Answer x, s'))"
| "store_call (ByAgentDIDID k) s =
     (case memoryIdentityStore_FindIdentityByAgentDIDID (\<lambda>_. False) whole k s of
        (Inl e, s') \<Rightarrow> (Failed e, s') | (Inr x, s') \<Rightarrow> (Answer x, s'))"
| "store_call (ById k) s =
     (case memoryIdentityStore_GetIdentity (\<lambda>_. False) whole k s of
        (Inl e, s') \<Rightarrow> (Failed e, s') | (Inr x, s') \<Rightarrow> (Answer x, s'))"
| "store_call (Page owner query) s =
     (case memoryIdentityStore_ListIdentities (\<lambda>_. False) whole owner query s of
        (Inl e, s') \<Rightarrow> (Failed e, s') | (Inr x, s') \<Rightarrow> (Listed x, s'))"
| "store_call (Update k status t) s =
     (case memoryIdentityStore_UpdateIdentity (\<lambda>_. False) whole k status t s of
        (Inl e, s') \<Rightarrow> (Failed e, s') | (Inr x, s') \<Rightarrow> (Answer x, s'))"

text \<open>The same on a list of records.\<close>

definition spec_create ::
  "string \<Rightarrow> string \<Rightarrow> IdentityRecord result \<Rightarrow> IdentityRecord list \<Rightarrow> identity_answer \<times> IdentityRecord list" where
  "spec_create owner service created rs =
     (if owner = [] \<or> service = []
      then (Failed (Text ''AEP Platform identity store requires a principal, Service DID, and create function''), rs)
      else case find (\<lambda>r. scope r = identityScopeKey owner service) rs of
        Some r \<Rightarrow> (Got r False, rs)
      | None \<Rightarrow>
          (case checkIdentity owner service created of
             Inl e \<Rightarrow> (Failed e, rs)
           | Inr r \<Rightarrow>
               if list_ex (\<lambda>x. idr_AgentIdentityID x = idr_AgentIdentityID r \<or> idr_AgentDID x = idr_AgentDID r \<or>
                      idr_AgentDIDID x = idr_AgentDIDID r) rs
               then (Failed (Text ''AEP Platform identity store received duplicate identity material''), rs)
               else (Got r True, rs @ [r])))"

definition spec_page :: "string \<Rightarrow> IdentityListQuery \<Rightarrow> IdentityRecord list \<Rightarrow> IdentityListResult" where
  "spec_page owner query rs =
     (let all = sort_slice (listed_before (ilq_Descending query)) (filter (listed owner query) rs);
          rest = drop (nat (ilq_Offset query)) all in
      \<lparr>ilr_Identities = (if ilq_Limit query = 0 then rest else take (nat (ilq_Limit query)) rest), ilr_Total = int (length all)\<rparr>)"

fun spec_call :: "identity_call \<Rightarrow> IdentityRecord list \<Rightarrow> identity_answer \<times> IdentityRecord list" where
  "spec_call (FindOrCreate owner service created) rs = spec_create owner service created rs"
| "spec_call (ByAgentDID k) rs = (Answer (find (\<lambda>r. idr_AgentDID r = k) rs), rs)"
| "spec_call (ByAgentDIDID k) rs = (Answer (find (\<lambda>r. idr_AgentDIDID r = k) rs), rs)"
| "spec_call (ById k) rs = (Answer (find (\<lambda>r. idr_AgentIdentityID r = k) rs), rs)"
| "spec_call (Page owner query) rs =
     (if owner = [] \<or> ilq_Limit query < 0 \<or> ilq_Offset query < 0
      then (Failed (Text ''AEP Platform identity list query is invalid''), rs) else (Listed (spec_page owner query rs), rs))"
| "spec_call (Update k status t) rs =
     (if \<not> isManagedAgentStatus status \<or> time_IsZero t then (Failed (Text ''AEP Platform identity update is invalid''), rs)
      else let new = map (\<lambda>r. if idr_AgentIdentityID r = k then r\<lparr>idr_Status := status, idr_UpdatedAt := t\<rparr> else r) rs in
        (Answer (find (\<lambda>r. idr_AgentIdentityID r = k) new), new))"

fun history :: "('c \<Rightarrow> 's \<Rightarrow> 'a \<times> 's) \<Rightarrow> 'c list \<Rightarrow> 's \<Rightarrow> 'a list \<times> 's" where
  "history f [] s = ([], s)"
| "history f (c # cs) s = (case f c s of (a, s') \<Rightarrow> case history f cs s' of (as, s'') \<Rightarrow> (a # as, s''))"

section \<open>The refinement\<close>

definition as_list :: "memoryIdentityStore \<Rightarrow> IdentityRecord list" where
  "as_list s = map snd (mid_records s)"

text \<open>Between calls nothing is pending.\<close>

definition settled :: "memoryIdentityStore \<Rightarrow> bool" where
  "settled s \<longleftrightarrow> identity_inv s \<and> mid_pending s = []"

lemma set_as_list: "identity_inv s \<Longrightarrow> set (as_list s) = identities s"
  unfolding as_list_def identities_def using identity_invD(1) [of s] by (simp add: ran_distinct)

text \<open>A lookup that finds exactly the record with a key finds the first one in the list.\<close>

lemma find_unique:
  assumes "\<And>r. x = Some r \<longleftrightarrow> r \<in> set rs \<and> P r"
  shows "find P rs = x"
proof (cases "find P rs")
  case None
  then show ?thesis using assms by (cases x) (auto simp: find_None_iff)
next
  case (Some r)
  then have "r \<in> set rs \<and> P r" by (auto simp: find_Some_iff)
  then have "x = Some r" by (simp only: assms)
  then show ?thesis using Some by simp
qed

lemma find_indexed:
  assumes "identity_inv s" and "indexes field m (mid_records s)"
  shows "find (\<lambda>r. field r = k) (as_list s) = map_of (mid_records s) (index_of m k)"
  by (rule find_unique) (simp add: indexed [OF assms] set_as_list [OF assms(1)])

lemma find_by_id:
  assumes "identity_inv s"
  shows "find (\<lambda>r. idr_AgentIdentityID r = k) (as_list s) = map_of (mid_records s) k"
  by (rule find_unique) (metis set_as_list [OF assms] identities_iff [OF assms] identity_invD(3) [OF assms])

lemma map_snd_update_new: "k \<notin> fst ` set al \<Longrightarrow> map snd (AList.update k v al) = map snd al @ [v]"
  by (induction al) auto

lemma map_snd_update_old:
  "k \<in> fst ` set al \<Longrightarrow> keys_distinct al \<Longrightarrow>
     map snd (AList.update k v al) = map (\<lambda>(i, x). if i = k then v else x) al"
proof (induction al)
  case (Cons e al)
  show ?case
  proof (cases "fst e = k")
    case True
    then have "\<forall>(i, x) \<in> set al. i \<noteq> k" using Cons.prems by (auto simp: rev_image_eqI)
    then have "map (\<lambda>(i, x). if i = k then v else x) al = map snd al" by (auto intro!: map_cong)
    then show ?thesis using True by (cases e) simp
  next
    case False
    then show ?thesis using Cons by (cases e) auto
  qed
qed simp

lemma find_index_none:
  assumes "identity_inv s" and "indexes field m (mid_records s)"
  shows "find (\<lambda>r. field r = k) (as_list s) = None \<longleftrightarrow> index_of m k = []"
proof
  assume "find (\<lambda>r. field r = k) (as_list s) = None"
  then have "map_of (mid_records s) (index_of m k) = None" by (simp only: find_indexed [OF assms])
  moreover have "map_of (mid_records s) i \<noteq> None" if "m k = Some i" for i
    using assms(2) that unfolding indexes_def by (metis option.distinct(1))
  ultimately show "index_of m k = []" by (cases "m k") (simp_all only: index_of_def option.case)
next
  assume "index_of m k = []"
  then show "find (\<lambda>r. field r = k) (as_list s) = None" by (simp only: find_indexed [OF assms] no_empty_id [OF assms(1)])
qed

lemma duplicate_material:
  assumes s: "identity_inv s"
  shows "list_ex (\<lambda>x. idr_AgentIdentityID x = idr_AgentIdentityID r \<or> idr_AgentDID x = idr_AgentDID r \<or>
      idr_AgentDIDID x = idr_AgentDIDID r) (as_list s) \<longleftrightarrow>
    map_of (mid_records s) (idr_AgentIdentityID r) \<noteq> None \<or> index_of (mid_byAgentDID s) (idr_AgentDID r) \<noteq> [] \<or>
    index_of (mid_byAgentDIDID s) (idr_AgentDIDID r) \<noteq> []"
proof -
  have some: "find P xs \<noteq> None \<longleftrightarrow> (\<exists>x \<in> set xs. P x)" for P and xs :: "IdentityRecord list" by (auto simp: find_None_iff)
  show ?thesis
    unfolding find_index_none [OF s identity_invD(5) [OF s], symmetric] find_index_none [OF s identity_invD(6) [OF s], symmetric]
      find_by_id [OF s, symmetric] some
    by (auto simp: list_ex_iff)
qed

lemma create_refines:
  assumes s: "settled s" and run: "store_call (FindOrCreate owner service created) s = (a, s')"
  shows "settled s' \<and> spec_create owner service created (as_list s) = (a, as_list s')"
proof (cases "owner = [] \<or> service = []")
  case True
  then have "memoryIdentityStore_FindOrCreateIdentity (\<lambda>_. False) whole owner service (of_result created) s =
    (Inl (Text ''AEP Platform identity store requires a principal, Service DID, and create function''), s)"
    by (simp only: memoryIdentityStore_FindOrCreateIdentity_def if_True fail_def)
  then show ?thesis using run s True by (simp only: store_call.simps spec_create_def) simp
next
  case False
  let ?key = "identityScopeKey owner service"
  have inv: "identity_inv s" and idle: "mid_pending s = []" using s by (simp_all add: settled_def)
  note by_scope = find_indexed [OF inv identity_invD(7) [OF inv], of ?key]
  show ?thesis
  proof (cases "find (\<lambda>r. scope r = ?key) (as_list s)")
    case (Some r)
    then have "index_of (mid_byScope s) ?key \<noteq> []" using by_scope no_empty_id [OF inv] by auto
    then have "store_call (FindOrCreate owner service created) s = (Got r False, s)"
      using Some by_scope False
      by (simp add: memoryIdentityStore_FindOrCreateIdentity_def unless_done_def and_then_def on_part_def whole_def
          identity_enter_def Let_def ok_def del: map_of_eq_Some_iff)
    then show ?thesis using run Some False s by (simp add: spec_create_def)
  next
    case None
    then have free: "index_of (mid_byScope s) ?key = []" using find_index_none [OF inv identity_invD(7) [OF inv]] by simp
    let ?s = "s\<lparr>mid_pending := [?key]\<rparr>"
    obtain x s2 where leave: "identity_leave ?key (checkIdentity owner service created) ?s = (x, s2)"
      by (cases "identity_leave ?key (checkIdentity owner service created) ?s")
    have enter: "identity_enter ?key s = (Inr Entered, ?s)" using idle by (simp add: identity_enter_def free)
    have a: "a = (case x of Inl e \<Rightarrow> Failed e | Inr r \<Rightarrow> Got r True)" "s' = s2"
      using run False leave
      by (auto simp: memoryIdentityStore_FindOrCreateIdentity_def unless_done_def and_then_def on_part_def whole_def
          enter Let_def ok_def attempt_def of_result_def split: sum.splits)
    have "identity_inv ?s"
      using inv free index_of_empty [OF inv identity_invD(7) [OF inv]] by (intro pending_identity_inv) auto
    then have left: "identity_inv s2" "mid_pending s2 = []" using identity_left [OF _ leave] by auto
    have "s\<lparr>mid_pending := []\<rparr> = s" using idle by (cases s) simp
    then have "spec_create owner service created (as_list s) = (a, as_list s')"
      using leave None False a duplicate_material [OF inv]
      by (auto simp: spec_create_def identity_leave_def Let_def addIdentity_def as_list_def map_snd_update_new map_of_eq_None_iff
          split: sum.splits if_splits)
    then show ?thesis using left a by (simp add: settled_def)
  qed
qed

lemma page_refines: "listIdentities owner query s = spec_page owner query (as_list s)" if "0 \<le> ilq_Limit query"
  using that by (auto simp: listIdentities_def spec_page_def as_list_def Let_def)

lemma update_refines:
  assumes s: "settled s" and run: "store_call (Update k status t) s = (a, s')"
  shows "settled s' \<and> spec_call (Update k status t) (as_list s) = (a, as_list s')"
proof (cases "\<not> isManagedAgentStatus status \<or> time_IsZero t")
  case True
  then show ?thesis using run s by (auto simp: memoryIdentityStore_UpdateIdentity_def unless_done_def fail_def split: if_splits)
next
  case False
  have inv: "identity_inv s" and idle: "mid_pending s = []" using s by (simp_all add: settled_def)
  let ?new = "\<lambda>r. r\<lparr>idr_Status := status, idr_UpdatedAt := t\<rparr>"
  have ids: "idr_AgentIdentityID x = i" if "(i, x) \<in> set (mid_records s)" for i x
    using that identity_invD(1,3) [OF inv] by simp
  have find_new: "find (\<lambda>r. idr_AgentIdentityID r = k) (map (\<lambda>r. if idr_AgentIdentityID r = k then ?new r else r) rs) =
    map_option ?new (find (\<lambda>r. idr_AgentIdentityID r = k) rs)" for rs
    by (induction rs) auto
  show ?thesis
  proof (cases "map_of (mid_records s) k")
    case None
    then have "\<forall>x \<in> set (as_list s). idr_AgentIdentityID x \<noteq> k"
      using ids by (auto simp: as_list_def map_of_eq_None_iff rev_image_eqI)
    then have "map (\<lambda>r. if idr_AgentIdentityID r = k then ?new r else r) (as_list s) = as_list s" by (simp add: map_idI)
    then show ?thesis
      using run False None s find_by_id [OF inv, of k]
      by (simp add: memoryIdentityStore_UpdateIdentity_def unless_done_def on_part_def whole_def Let_def del: map_of_eq_None_iff)
  next
    case (Some r)
    let ?s = "s\<lparr>mid_records := AList.update k (?new r) (mid_records s)\<rparr>"
    have a: "a = Answer (Some (?new r))" "s' = ?s"
      using run False Some
      by (simp_all add: memoryIdentityStore_UpdateIdentity_def unless_done_def on_part_def whole_def Let_def del: map_of_eq_Some_iff)
    have "identity_inv ?s"
      using update_identity(1) [OF inv Some] False inv by (simp add: identity_step_def)
    moreover have "as_list ?s = map (\<lambda>r. if idr_AgentIdentityID r = k then ?new r else r) (as_list s)"
    proof -
      have "k \<in> fst ` set (mid_records s)" using Some by (metis map_of_eq_None_iff option.distinct(1))
      then have "as_list ?s = map (\<lambda>(i, x). if i = k then ?new r else x) (mid_records s)"
        using map_snd_update_old [OF _ identity_invD(1) [OF inv]] by (simp add: as_list_def)
      also have "\<dots> = map (\<lambda>r. if idr_AgentIdentityID r = k then ?new r else r) (map snd (mid_records s))"
        unfolding map_map comp_def
      proof (rule map_cong [OF refl])
        fix e assume e: "e \<in> set (mid_records s)"
        obtain i x where "e = (i, x)" by (cases e)
        moreover from this have "i = k \<Longrightarrow> x = r" using e Some identity_invD(1) [OF inv] by simp
        ultimately show "(case e of (i, x) \<Rightarrow> if i = k then ?new r else x) =
            (if idr_AgentIdentityID (snd e) = k then ?new (snd e) else snd e)"
          using ids e by auto
      qed
      finally show ?thesis by (simp add: as_list_def)
    qed
    ultimately show ?thesis
      using a False idle find_by_id [OF inv, of k] Some find_new [of "as_list s"] by (simp add: settled_def)
  qed
qed

lemma call_refines:
  assumes "settled s" and "store_call c s = (a, s')"
  shows "settled s' \<and> spec_call c (as_list s) = (a, as_list s')"
proof (cases c)
  case (FindOrCreate owner service created)
  then show ?thesis using create_refines assms by simp
next
  case (Update k status t)
  then show ?thesis using update_refines assms by blast
qed (use assms find_indexed [of s idr_AgentDID] find_indexed [of s idr_AgentDIDID] find_by_id [of s] identity_invD(5,6) [of s]
      page_refines in \<open>auto simp: settled_def whole_def unless_done_def observe_def fail_def memoryIdentityStore_find_def
      memoryIdentityStore_FindIdentityByAgentDID_def memoryIdentityStore_FindIdentityByAgentDIDID_def
      memoryIdentityStore_GetIdentity_def memoryIdentityStore_ListIdentities_def option.map_ident split: if_splits\<close>)

lemma history_refines:
  "settled s \<Longrightarrow> history store_call cs s = (as, s') \<Longrightarrow> settled s' \<and> history spec_call cs (as_list s) = (as, as_list s')"
proof (induction cs arbitrary: s as s')
  case (Cons c cs)
  obtain a s1 where c: "store_call c s = (a, s1)" by (cases "store_call c s")
  obtain bs s2 where cs: "history store_call cs s1 = (bs, s2)" by (cases "history store_call cs s1")
  have s1: "settled s1 \<and> spec_call c (as_list s) = (a, as_list s1)" by (rule call_refines [OF Cons.prems(1) c])
  then have "settled s2 \<and> history spec_call cs (as_list s1) = (bs, as_list s2)" using Cons.IH cs by blast
  then show ?case using Cons.prems(2) c cs s1 by simp
qed simp

lemma settled_empty [simp]: "settled empty_identities" "as_list empty_identities = []"
  by (simp_all add: settled_def as_list_def empty_identities_def identity_inv_def indexes_def)

section \<open>Lists are sorted pages\<close>

lemma set_insert_where [simp]: "set (insert_where lt x ys) = insert x (set ys)"
  by (induction ys) auto

lemma set_sort_slice [simp]: "set (sort_slice lt xs) = set xs"
  by (induction xs) (simp_all add: sort_slice_def)

lemma length_insert_where [simp]: "length (insert_where lt x ys) = Suc (length ys)"
  by (induction ys) auto

text \<open>A comparison that is a strict total order on the elements sorts them.\<close>

definition strict_total_on :: "('a \<Rightarrow> 'a \<Rightarrow> bool) \<Rightarrow> 'a set \<Rightarrow> bool" where
  "strict_total_on lt A \<longleftrightarrow> transp_on A lt \<and> irreflp_on A lt \<and> totalp_on A lt"

lemma strict_total_on_subset: "strict_total_on lt A \<Longrightarrow> B \<subseteq> A \<Longrightarrow> strict_total_on lt B"
  unfolding strict_total_on_def by (meson transp_on_subset irreflp_on_subset totalp_on_subset)

lemma sorted_insert_where:
  "strict_total_on lt (insert x (set ys)) \<Longrightarrow> x \<notin> set ys \<Longrightarrow> sorted_wrt lt ys \<Longrightarrow> sorted_wrt lt (insert_where lt x ys)"
proof (induction ys)
  case (Cons y ys)
  have sub: "strict_total_on lt (insert x (set ys))" by (rule strict_total_on_subset [OF Cons.prems(1)]) auto
  show ?case
  proof (cases "lt y x")
    case True
    then show ?thesis using Cons sub by simp
  next
    case False
    have lt: "totalp_on (insert x (set (y # ys))) lt" "transp_on (insert x (set (y # ys))) lt"
      using Cons.prems(1) by (simp_all add: strict_total_on_def)
    have xy: "lt x y" using totalp_onD [OF lt(1), of x y] False Cons.prems(2) by auto
    moreover have "lt x z" if "z \<in> set ys" for z
      using transp_onD [OF lt(2), of x y z] xy that Cons.prems(3) by auto
    ultimately show ?thesis using False Cons.prems(3) by simp
  qed
qed simp

lemma sorted_sort_slice: "strict_total_on lt (set xs) \<Longrightarrow> distinct xs \<Longrightarrow> sorted_wrt lt (sort_slice lt xs)"
proof (induction xs)
  case (Cons x xs)
  have "strict_total_on lt (set xs)" by (rule strict_total_on_subset [OF Cons.prems(1)]) auto
  then have "sorted_wrt lt (sort_slice lt xs)" using Cons by simp
  moreover have "sort_slice lt (x # xs) = insert_where lt x (sort_slice lt xs)" by (simp add: sort_slice_def)
  ultimately show ?case using Cons.prems by (simp add: sorted_insert_where)
qed (simp add: sort_slice_def)

lemma sorted_distinct: "sorted_wrt lt xs \<Longrightarrow> (\<And>x. \<not> lt x x) \<Longrightarrow> distinct xs"
  by (induction xs) auto

lemma length_sort_slice [simp]: "length (sort_slice lt xs) = length xs"
  by (induction xs) (simp_all add: sort_slice_def)

lemma listed_before_total:
  assumes "inj_on idr_AgentIdentityID A"
  shows "strict_total_on (listed_before descending) A"
proof -
  have "totalp_on A (listed_before descending)"
  proof (rule totalp_onI)
    fix x y assume "x \<in> A" "y \<in> A" "x \<noteq> y"
    then have "idr_AgentIdentityID x \<noteq> idr_AgentIdentityID y" using assms by (auto simp: inj_on_def)
    then show "listed_before descending x y \<or> listed_before descending y x"
      unfolding listed_before_def by (auto simp: neq_iff)
  qed
  moreover have "transp_on A (listed_before descending)" "irreflp_on A (listed_before descending)"
    by (auto intro!: transp_onI irreflp_onI simp: listed_before_def split: if_splits)
  ultimately show ?thesis by (simp add: strict_total_on_def)
qed

lemma distinct_as_list: "identity_inv s \<Longrightarrow> distinct (map idr_AgentIdentityID (as_list s))"
proof -
  assume s: "identity_inv s"
  have "map idr_AgentIdentityID (as_list s) = map fst (mid_records s)"
    unfolding as_list_def map_map by (rule map_cong) (use identity_invD(1,3) [OF s] in auto)
  then show ?thesis using identity_invD(1) [OF s] by simp
qed

section \<open>Every call is a step of the registry\<close>

interpretation whole_identities: memory_identities whole ctxDone for ctxDone :: "memoryIdentityStore \<Rightarrow> bool"
  by unfold_locales

lemma store_call_step:
  assumes s: "identity_inv s" and run: "store_call c s = (a, s')"
  shows "identity_step s s'"
proof (cases c)
  case (FindOrCreate owner service created)
  have "keeps identity_step (of_result created)"
    by (rule keeps_of_result) (simp add: reflp_def)
  then show ?thesis
    using memory_create [of whole s "of_result created" "\<lambda>_. False" owner service] s run FindOrCreate
    by (auto simp: whole_def split: prod.splits sum.splits)
next
  case (Update k status t)
  then show ?thesis
    using memory_update [of whole s "\<lambda>_. False" k status t] s run by (auto simp: whole_def split: prod.splits sum.splits)
qed (use run in \<open>auto simp: unless_done_def observe_def fail_def memoryIdentityStore_find_def
    memoryIdentityStore_FindIdentityByAgentDID_def memoryIdentityStore_FindIdentityByAgentDIDID_def
    memoryIdentityStore_GetIdentity_def memoryIdentityStore_ListIdentities_def split: if_splits\<close>)

lemma history_step:
  "identity_inv s \<Longrightarrow> history store_call cs s = (as, s') \<Longrightarrow> identity_step s s'"
proof (induction cs arbitrary: s as s')
  case (Cons c cs)
  obtain a s1 where c: "store_call c s = (a, s1)" by (cases "store_call c s")
  obtain bs s2 where cs: "history store_call cs s1 = (bs, s2)" by (cases "history store_call cs s1")
  have step: "identity_step s s1" by (rule store_call_step [OF Cons.prems(1) c])
  then have "identity_step s1 s2" using Cons.IH [OF _ cs] Cons.prems(1) by (simp add: identity_step_def)
  then show ?case using step Cons.prems(2) c cs identity_step_trans by auto
qed simp

section \<open>Properties\<close>

text \<open>An identity, and the store after it was created and suspended.\<close>

definition identity_example :: IdentityRecord where
  "identity_example = \<lparr>idr_AgentDID = ''did:web:p.example:agents:1'', idr_AgentDIDID = ''1'', idr_AgentIdentityID = ''pai_1'',
     idr_CreatedAt = 1000, idr_DIDDocumentURL = ''https://p.example/agents/1/did.json'', idr_KeyID = ''did:web:p.example:agents:1'',
     idr_Principal = ''owner'', idr_ServiceDID = ''did:web:s.example'', idr_SigningAlgorithms = Some [SigningAlgorithmEdDSA],
     idr_Status = ManagedAgentActive, idr_UpdatedAt = 1000\<rparr>"

abbreviation creation_example :: identity_call where
  "creation_example \<equiv> FindOrCreate ''owner'' ''did:web:s.example'' (Inr identity_example)"

abbreviation suspension_example :: identity_call where
  "suspension_example \<equiv> Update ''pai_1'' ManagedAgentSuspended 2000"

text \<open>
  C28. The memory store of identities, with its three indexes, refines a plain list of records: every
  history of calls gets the same answers, errors included, and leaves the same records.
\<close>

theorem identity_store_refines:
  "history spec_call cs [] =
     (case history store_call cs empty_identities of (answers, s) \<Rightarrow> (answers, as_list s))"
  using history_refines [OF settled_empty(1), of cs] by (auto split: prod.splits)

text \<open>
  C29. One identity for each principal and Service: whatever calls come between, creating an identity of
  the same scope again finds the first one, unchanged but for its status and the time of its last change.
\<close>

theorem identity_is_stable:
  assumes "store_call (FindOrCreate owner service c) (snd (history store_call earlier empty_identities)) = (Got r b, s1)"
    and "store_call (FindOrCreate owner service c') (snd (history store_call between s1)) = (Got r' b', s2)"
  shows "\<not> b' \<and> same_identity r r'"
proof -
  let ?s = "snd (history store_call earlier empty_identities)" and ?t = "snd (history store_call between s1)"
  have s: "identity_inv ?s"
    using history_step [of empty_identities earlier] by (cases "history store_call earlier empty_identities") (simp add: identity_step_def)
  have s1: "identity_inv s1" using store_call_step [OF s assms(1)] s by (simp add: identity_step_def)
  have t: "identity_step s1 ?t" using history_step [OF s1] by (cases "history store_call between s1") simp
  have keeps: "keeps (\<lambda>w w'. identity_step (part_get whole w) (part_get whole w')) (of_result d)" for d :: "IdentityRecord result"
    by (rule keeps_of_result) (simp add: reflp_def)
  have runs: "memoryIdentityStore_FindOrCreateIdentity (\<lambda>_. False) whole owner service (of_result c) ?s = (Inr (r, b), s1)"
    "memoryIdentityStore_FindOrCreateIdentity (\<lambda>_. False) whole owner service (of_result c') ?t = (Inr (r', b'), s2)"
    using assms by (auto split: prod.splits sum.splits)
  show ?thesis
    using whole_identities.identities.created_once [of ?s "of_result c" "of_result c'" "\<lambda>_. False" owner service r b s1 ?t r' b' s2]
      s t keeps runs by (simp add: whole_def NewMemoryIdentityStore_def)
qed

text \<open>
  A page of identities is a slice of one list: the caller's identities that match the query, each once,
  in strict order of creation time and identifier. The total counts that list, not the page.
\<close>

theorem listed_page:
  assumes "store_call (Page owner query) (snd (history store_call earlier empty_identities)) = (Listed page, s')"
  shows "\<exists>all. set all = {r \<in> identities s'. listed owner query r} \<and> sorted_wrt (listed_before (ilq_Descending query)) all \<and>
    distinct all \<and> ilr_Total page = int (length all) \<and>
    ilr_Identities page = (let rest = drop (nat (ilq_Offset query)) all in
      if ilq_Limit query = 0 then rest else take (nat (ilq_Limit query)) rest)"
proof -
  let ?s = "snd (history store_call earlier empty_identities)"
  let ?all = "sort_slice (listed_before (ilq_Descending query)) (filter (listed owner query) (as_list ?s))"
  have s: "identity_inv ?s"
    using history_step [of empty_identities earlier] by (cases "history store_call earlier empty_identities") (simp add: identity_step_def)
  have page: "page = spec_page owner query (as_list ?s)" and s': "s' = ?s"
    using assms page_refines [of query owner ?s]
    by (auto simp: memoryIdentityStore_ListIdentities_def unless_done_def observe_def fail_def whole_def split: if_splits)
  have d: "distinct (map idr_AgentIdentityID (as_list ?s))" by (rule distinct_as_list [OF s])
  then have inj: "inj_on idr_AgentIdentityID (set (filter (listed owner query) (as_list ?s)))"
    by (auto simp: distinct_map intro: inj_on_subset)
  have sorted: "sorted_wrt (listed_before (ilq_Descending query)) ?all"
    using listed_before_total [OF inj] d by (intro sorted_sort_slice) (auto simp: distinct_map)
  have "distinct ?all"
    using sorted by (rule sorted_distinct) (auto simp: listed_before_def)
  then show ?thesis
    using sorted page s' set_as_list [OF s] by (intro exI [of _ ?all]) (auto simp: spec_page_def Let_def)
qed

theorem identity_is_stable_witness:
  "\<not> False \<and> same_identity identity_example (identity_example\<lparr>idr_Status := ManagedAgentSuspended, idr_UpdatedAt := 2000\<rparr>)"
proof (rule identity_is_stable)
  let ?s1 = "snd (store_call creation_example (snd (history store_call [] empty_identities)))"
  have "fst (store_call creation_example (snd (history store_call [] empty_identities))) = Got identity_example True" by code_simp
  then show "store_call creation_example (snd (history store_call [] empty_identities)) = (Got identity_example True, ?s1)"
    by (simp only: prod_eq_iff) simp
  have "fst (store_call creation_example (snd (history store_call [suspension_example] ?s1))) =
      Got (identity_example\<lparr>idr_Status := ManagedAgentSuspended, idr_UpdatedAt := 2000\<rparr>) False" by code_simp
  then show "store_call creation_example (snd (history store_call [suspension_example] ?s1)) =
      (Got (identity_example\<lparr>idr_Status := ManagedAgentSuspended, idr_UpdatedAt := 2000\<rparr>) False,
       snd (store_call creation_example (snd (history store_call [suspension_example] ?s1))))"
    by (simp only: prod_eq_iff) simp
qed

abbreviation page_example :: identity_call where
  "page_example \<equiv> Page ''owner'' \<lparr>ilq_Descending = False, ilq_Limit = 10, ilq_Offset = 0, ilq_ServiceDID = [], ilq_Status = []\<rparr>"

theorem listed_page_witness:
  "\<exists>all. distinct (all :: IdentityRecord list) \<and> int (length all) = 1"
proof -
  let ?s = "snd (history store_call [creation_example] empty_identities)"
  have "fst (store_call page_example ?s) = Listed \<lparr>ilr_Identities = [identity_example], ilr_Total = 1\<rparr>" by code_simp
  then have "store_call page_example ?s =
      (Listed \<lparr>ilr_Identities = [identity_example], ilr_Total = 1\<rparr>, snd (store_call page_example ?s))"
    by (simp only: prod_eq_iff) simp
  from listed_page [OF this] show ?thesis by auto
qed

end
