(* ===== verification/Http_Client.thy ===== *)
theory Http_Client
  imports Media_Types
begin

text \<open>
  What the Agent uses of the standard library's HTTP client: requests and responses as values, the parts of
  URLs and media types it reads, and bounded reads. A client is a function that sends one request; the
  code gives it a copy that follows no redirect and keeps no cookie, so the request is sent as it is.
  The error type is a parameter.
\<close>

section \<open>Requests and responses\<close>

record http_out =
  out_Method :: string
  out_URL :: URL
  out_Header :: Header
  out_Body :: string

text \<open>A body is what can be read of it and the error that follows, if one does.\<close>

record 'e http_in =
  in_StatusCode :: int
  in_Header :: Header
  in_Body :: string
  in_Failure :: "'e option"

type_synonym ('e, 'w) http_client = "http_out \<Rightarrow> ('e, 'w, 'e http_in) act"

text \<open>\<open>http.NewRequestWithContext\<close> with one of the code's methods; a host loses an empty port.\<close>

definition new_request :: "string \<Rightarrow> string \<Rightarrow> string \<Rightarrow> http_out option" where
  "new_request verb location body =
     map_option (\<lambda>u. \<lparr>out_Method = verb, out_URL = u\<lparr>url_Host := trim_suffix (url_Host u) '':''\<rparr>, out_Header = Some [],
       out_Body = body\<rparr>) (url_Parse location)"

definition request_set :: "string \<Rightarrow> string \<Rightarrow> http_out \<Rightarrow> http_out" where
  "request_set name val request = request\<lparr>out_Header := header_Set name val (out_Header request)\<rparr>"

text \<open>\<open>io.ReadAll(io.LimitReader(body, maximum + 1))\<close>: an error after the limit is not seen.\<close>

definition read_limited :: "int \<Rightarrow> 'e http_in \<Rightarrow> 'e + string" where
  "read_limited maximum response =
     (let data = take (nat (maximum + 1)) (in_Body response) in
      if int (length (in_Body response)) \<le> maximum
      then (case in_Failure response of Some err \<Rightarrow> Inl err | None \<Rightarrow> Inr data)
      else Inr data)"

section \<open>URLs\<close>

definition url_Port :: "URL \<Rightarrow> string" where
  "url_Port u =
     (case last_index CHR '':'' (url_Host u) of
        Some i \<Rightarrow> if valid_optional_port (drop i (url_Host u)) then drop (Suc i) (url_Host u) else []
      | None \<Rightarrow> [])"

text \<open>\<open>URL.Parse\<close>: a reference relative to a URL.\<close>

definition url_Relative :: "URL \<Rightarrow> string \<Rightarrow> URL option" where
  "url_Relative base ref = map_option (url_ResolveReference base) (url_Parse ref)"

section \<open>Media type parameters\<close>

text \<open>The loop over the parameters, as \<open>params_ok\<close>, with the values it collects.\<close>

fun collect_params :: "nat \<Rightarrow> (string \<times> string) list \<Rightarrow> string \<Rightarrow> (string \<times> string) list option" where
  "collect_params 0 seen v = Some seen"
| "collect_params (Suc fuel) seen v0 =
     (let v = trim_left_space v0 in
      if v = [] then Some seen
      else case consume_param v of
             None \<Rightarrow> if trim_space v = '';'' then Some seen else None
           | Some (key, val, rest) \<Rightarrow>
               (case map_of seen key of
                  Some old \<Rightarrow> if old = val then collect_params fuel seen rest else None
                | None \<Rightarrow> collect_params fuel ((key, val) # seen) rest))"

lemma collect_params_ok: "params_ok fuel seen v \<longleftrightarrow> collect_params fuel seen v \<noteq> None"
  by (induction fuel seen v rule: collect_params.induct) (auto simp: Let_def split: option.splits)

fun percent_hex :: "string \<Rightarrow> string option" where
  "percent_hex [] = Some []"
| "percent_hex (c # s) =
     (if c = CHR ''%'' then
        (case s of a # b # t \<Rightarrow> if is_hex a \<and> is_hex b
                               then map_option (Cons (char_of (hex_val a * 16 + hex_val b))) (percent_hex t) else None
         | _ \<Rightarrow> None)
      else map_option (Cons c) (percent_hex s))"

definition decode_2231 :: "string \<Rightarrow> string option" where
  "decode_2231 v =
     (case split_n CHR 0x27 3 v of
        [cset, language, encoded] \<Rightarrow>
          if to_lower cset \<noteq> ''us-ascii'' \<and> to_lower cset \<noteq> ''utf-8'' then None else percent_hex encoded
      | _ \<Rightarrow> None)"

text \<open>The numbered pieces of a continued parameter; no more of them than parameters.\<close>

fun continued :: "nat \<Rightarrow> (string \<times> string) list \<Rightarrow> string \<Rightarrow> int \<Rightarrow> string option" where
  "continued 0 params name n = None"
| "continued (Suc fuel) params name n =
     (let simple = name @ ''*'' @ digits_of n;
          more = (\<lambda>s. Some (s @ (case continued fuel params name (n + 1) of None \<Rightarrow> [] | Some t \<Rightarrow> t))) in
      case map_of params simple of
        Some v \<Rightarrow> more v
      | None \<Rightarrow>
          (case map_of params (simple @ ''*'') of
             None \<Rightarrow> None
           | Some v \<Rightarrow> more (case (if n = 0 then decode_2231 v else percent_hex v) of None \<Rightarrow> [] | Some d \<Rightarrow> d)))"

definition mime_parameter :: "(string \<times> string) list \<Rightarrow> string \<Rightarrow> string" where
  "mime_parameter params name =
     (let plain = (case map_of params name of None \<Rightarrow> [] | Some v \<Rightarrow> v) in
      case map_of params (name @ ''*'') of
        Some v \<Rightarrow> (case decode_2231 v of Some d \<Rightarrow> d | None \<Rightarrow> plain)
      | None \<Rightarrow> (case continued (Suc (length params)) params name 0 of Some d \<Rightarrow> d | None \<Rightarrow> plain))"

text \<open>\<open>mime.ParseMediaType\<close> with its parameters; a name that is not there reads as the empty string.\<close>

definition mime_Parse :: "string \<Rightarrow> (string \<times> (string \<Rightarrow> string)) option" where
  "mime_Parse v =
     (case (mime_ParseMediaType v, collect_params (length v) [] (drop (length (before CHR '';'' v)) v)) of
        (Some mediatype, Some params) \<Rightarrow> Some (mediatype, mime_parameter params)
      | _ \<Rightarrow> None)"

lemmas http_client_defs [go_defs] =
  new_request_def request_set_def read_limited_def url_Port_def url_Relative_def decode_2231_def mime_parameter_def
  mime_Parse_def

lemma media_parameter_examples:
  "map_option (\<lambda>(t, p). (t, p ''charset'')) (mime_Parse ''application/json; Charset=UTF-8'') = Some (''application/json'', ''UTF-8'')"
  "map_option (\<lambda>(t, p). (t, p ''version'')) (mime_Parse ''a/b;version=3.1;x=y'') = Some (''a/b'', ''3.1'')"
  "map_option (\<lambda>(t, p). p ''charset'') (mime_Parse ''a/b; charset*0=utf; charset*1=-8'') = Some ''utf-8''"
  by code_simp+

end
