(* ===== verification/Agent_Types.thy ===== *)
theory Agent_Types
  imports Http_Client Http_Auth Openapi Protocol Grants "HOL-Library.Product_Lexorder" "HOL-Library.Char_ord" "HOL-Library.List_Lexorder"
begin

text \<open>
  \<open>agent/types.go\<close> and \<open>agent/stores.go\<close>: the data of an Agent, the interfaces it calls, its errors, and
  the in-memory stores. A method that takes a context takes it here too: a context is its deadline, and
  whether the caller cancelled it is the world's to say. A session's own state (its identity and its
  enrollment) is kept beside the world, since a session is made for each call or each redirect.
\<close>

section \<open>Contexts\<close>

type_synonym ctx = "time option"

text \<open>What the runtime gives: the time, the caller's cancellation, and the wait on a timer and a context.\<close>

record 'w Runtime =
  rt_Now :: "'w \<Rightarrow> time"
  rt_Cancelled :: "'w \<Rightarrow> bool"
  rt_Sleep :: "duration \<Rightarrow> ctx \<Rightarrow> 'w \<Rightarrow> bool \<times> 'w"

text \<open>\<open>context.WithTimeout\<close> and \<open>ctx.Err() != nil\<close>.\<close>

definition with_timeout :: "'w Runtime \<Rightarrow> ctx \<Rightarrow> duration \<Rightarrow> 'w \<Rightarrow> ctx" where
  "with_timeout rt c d w =
     Some (case c of None \<Rightarrow> rt_Now rt w + d | Some t \<Rightarrow> min t (rt_Now rt w + d))"

definition ctx_done :: "'w Runtime \<Rightarrow> ctx \<Rightarrow> 'w \<Rightarrow> bool" where
  "ctx_done rt c w \<longleftrightarrow> rt_Cancelled rt w \<or> (case c of None \<Rightarrow> False | Some t \<Rightarrow> t \<le> rt_Now rt w)"

section \<open>Identities\<close>

record ServiceIdentity =
  sid_AgentDID :: string
  sid_IdentityMethod :: IdentityMethod
  sid_ServiceDID :: string
  sid_SigningAlgorithms :: "SigningAlgorithm list"
  sid_Metadata :: "(string \<times> string) slice"

record IdentityRequest =
  ireq_Inspect :: InspectDocument
  ireq_ServiceDID :: string
  ireq_ServiceURL :: URL

record OperationKey =
  ok_Command :: Command
  ok_CredentialID :: string
  ok_GrantType :: GrantType
  ok_ServiceDID :: string
  ok_ServiceURL :: string

record CredentialRecord =
  cr_CredentialID :: string
  cr_ExpiresAt :: time
  cr_GrantType :: GrantType
  cr_IssuedAt :: time
  cr_Payload :: RawMessage
  cr_ServiceDID :: string
  cr_ServiceURL :: string

record InspectCacheEntry =
  ice_CacheControl :: string
  ice_CachedAt :: time
  ice_ETag :: string
  ice_FinalURL :: string
  ice_LastModified :: string
  ice_Document :: InspectDocument

record PlatformPendingSign =
  pps_Identity :: ServiceIdentity
  pps_PlatformContext :: "(string \<times> RawMessage) slice"
  pps_RetryAfterSeconds :: int

section \<open>Errors\<close>

datatype InspectErrorCode =
  InspectAborted
| InspectHTTPError
| InspectInvalidJSON
| InspectInvalidMediaType
| InspectInvalidRedirect
| InspectResponseTooLarge
| InspectServiceIdentityMismatch
| InspectValidationFailed

text \<open>
  The errors of the package beside those of the library. The text of an \<open>InspectError\<close> with a cause
  goes on with the text of the cause. \<open>Unfinished\<close> is no error of the code: a loop without a bound
  of its own ran out of the fuel the model gives it.
\<close>

datatype agent_error =
  Plain go_error
| CommandError "ProblemDetails option" int string
| EnrollmentStateError AgentStatus
| InspectError "agent_error option" InspectErrorCode int string
| NoCompatibleGrantType
| NoAuthenticationMethod
| CredentialNotFound
| ResponseTooLarge
| PlatformSignPendingError PlatformPendingSign
| PlatformCommandError "ProblemDetails option" int
| Unfinished

abbreviation failure :: "string \<Rightarrow> agent_error" where
  "failure message \<equiv> Plain (Text message)"

text \<open>\<open>errors.Is\<close> with one of the values of the package, or with the two errors of a context.\<close>

fun errors_Is :: "agent_error \<Rightarrow> agent_error \<Rightarrow> bool" where
  "errors_Is (InspectError (Some cause) code status text) wanted \<longleftrightarrow>
     InspectError (Some cause) code status text = wanted \<or> errors_Is cause wanted"
| "errors_Is err wanted \<longleftrightarrow> err = wanted"

fun context_error :: "go_error \<Rightarrow> bool" where
  "context_error (Wrapped m e) = context_error e"
| "context_error e \<longleftrightarrow> e = ContextDone"

fun errors_Is_context :: "agent_error \<Rightarrow> bool" where
  "errors_Is_context (Plain e) = context_error e"
| "errors_Is_context (InspectError (Some cause) code status text) = errors_Is_context cause"
| "errors_Is_context _ = False"

text \<open>A result of the library as one of the Agent.\<close>

definition lift :: "'a result \<Rightarrow> agent_error + 'a" where
  "lift r = (case r of Inl e \<Rightarrow> Inl (Plain e) | Inr x \<Rightarrow> Inr x)"

section \<open>Interfaces\<close>

type_synonym ('w, 'a) agent_act = "(agent_error, 'w, 'a) act"

type_synonym 'w AssertionSigner =
  "ctx \<Rightarrow> ClientAssertionClaims \<Rightarrow> SigningAlgorithm list \<Rightarrow> ('w, string) agent_act"

text \<open>
  The last method is there when the provider is a \<open>PlatformIdentityProvider\<close>, which the code asks by a
  type assertion.
\<close>

record 'w IdentityProvider =
  idp_GetOrCreateIdentity :: "ctx \<Rightarrow> IdentityRequest \<Rightarrow> ('w, ServiceIdentity) agent_act"
  idp_SignerFor :: "ctx \<Rightarrow> ServiceIdentity \<Rightarrow> ('w, 'w AssertionSigner option) agent_act"
  idp_FindIdentityByServiceDID :: "(ctx \<Rightarrow> string \<Rightarrow> ('w, ServiceIdentity option) agent_act) option"

record 'w IdentityStore =
  ist_FindIdentity :: "ctx \<Rightarrow> string \<Rightarrow> ('w, ServiceIdentity option) agent_act"
  ist_SaveIdentity :: "ctx \<Rightarrow> ServiceIdentity \<Rightarrow> ('w, unit) agent_act"

type_synonym 'w IdempotencyKeyProvider = "ctx \<Rightarrow> OperationKey \<Rightarrow> ('w, string) agent_act"

record 'w CredentialStore =
  cst_DeleteCredential :: "ctx \<Rightarrow> string \<Rightarrow> string \<Rightarrow> ('w, unit) agent_act"
  cst_FindCredential :: "ctx \<Rightarrow> string \<Rightarrow> string \<Rightarrow> ('w, CredentialRecord option) agent_act"
  cst_ListCredentials :: "ctx \<Rightarrow> string \<Rightarrow> ('w, CredentialRecord list) agent_act"
  cst_SaveCredential :: "ctx \<Rightarrow> CredentialRecord \<Rightarrow> ('w, unit) agent_act"

record 'w InspectCache =
  icc_DeleteInspect :: "ctx \<Rightarrow> string \<Rightarrow> ('w, unit) agent_act"
  icc_FindInspect :: "ctx \<Rightarrow> string \<Rightarrow> ('w, InspectCacheEntry option) agent_act"
  icc_SaveInspect :: "ctx \<Rightarrow> string \<Rightarrow> InspectCacheEntry \<Rightarrow> ('w, unit) agent_act"

record openAPIEntry =
  oae_metadata :: InspectCacheEntry
  oae_data :: string

text \<open>\<open>http.Client\<close>, sending one request under a context.\<close>

type_synonym 'w HTTPClient = "ctx \<Rightarrow> (agent_error, 'w) http_client"

record 'w Options =
  ago_AllowInsecureLoopback :: bool
  ago_AssertionLifetime :: duration
  ago_Clock :: "('w \<Rightarrow> time \<times> 'w) option"
  ago_CommandHTTPClient :: "'w HTTPClient option"
  ago_CredentialStore :: "'w CredentialStore option"
  ago_HTTPClient :: "'w HTTPClient option"
  ago_IdentityProvider :: "'w IdentityProvider option"
  ago_IdentityStore :: "'w IdentityStore option"
  ago_IdempotencyKeys :: "'w IdempotencyKeyProvider option"
  ago_InspectCache :: "'w InspectCache option"
  ago_InspectHTTPClient :: "'w HTTPClient option"
  ago_JTI :: "('w, string) agent_act option"
  ago_MaximumResponseBytes :: int
  ago_RequestTimeout :: duration

text \<open>
  A client. The map of OpenAPI documents it changes is a part of the world; \<open>cl_runtime\<close> is the runtime it
  runs on.
\<close>

record 'w Client =
  cl_allowInsecureLoopback :: bool
  cl_assertionLifetime :: duration
  cl_clock :: "'w \<Rightarrow> time \<times> 'w"
  cl_commandHTTPClient :: "'w HTTPClient"
  cl_credentialStore :: "'w CredentialStore"
  cl_identityProvider :: "'w IdentityProvider"
  cl_identityStore :: "'w IdentityStore"
  cl_idempotencyKeys :: "'w IdempotencyKeyProvider"
  cl_inspectCache :: "'w InspectCache"
  cl_inspectHTTPClient :: "'w HTTPClient"
  cl_openAPICache :: "((string \<times> openAPIEntry) list, 'w) part"
  cl_jti :: "('w, string) agent_act"
  cl_maximumResponseBytes :: int
  cl_requestTimeout :: duration
  cl_runtime :: "'w Runtime"

record Inspection =
  insn_CacheControl :: string
  insn_Document :: InspectDocument
  insn_ETag :: string
  insn_FinalURL :: URL
  insn_InspectURL :: URL
  insn_LastModified :: string
  insn_ServiceURL :: URL

definition Inspection_CommandURL :: "Inspection \<Rightarrow> Command \<Rightarrow> agent_error + URL" where
  "Inspection_CommandURL inspection command =
     (case CommandPathFromInspect (insn_Document inspection) command of
        Inl err \<Rightarrow> Inl (Plain err)
      | Inr path \<Rightarrow>
          (case url_Relative (insn_ServiceURL inspection) path of
             None \<Rightarrow> Inl (Plain (Library ''net/url''))
           | Some u \<Rightarrow> Inr u))"

record 'body CommandResult =
  cmr_Body :: 'body
  cmr_Status :: int
  cmr_URL :: URL

record EnrollOptions =
  eno_AcknowledgedDocumentIDs :: "string slice"
  eno_Claims :: "ClaimValues option"
  eno_IdempotencyKey :: string

record GrantOptions =
  gro_GrantType :: GrantType
  gro_IdempotencyKey :: string
  gro_PreferredGrantTypes :: "GrantType list"
  gro_RequestedScopes :: "string list"

record GrantResult =
  grr_Credential :: "BuiltInGrantResponse option"
  grr_GrantType :: GrantType
  grr_Raw :: RawMessage

record RevokeOptions =
  rvo_AllGrantTypes :: bool
  rvo_CredentialID :: string
  rvo_GrantType :: GrantType
  rvo_IdempotencyKey :: string

record WaitOptions =
  wto_Interval :: duration
  wto_Timeout :: duration

record AuthenticationOptions =
  aho_AllowedMethods :: "AuthenticationMethod slice"
  aho_Carrier :: ProtectedResourceCarrier
  aho_ClientAssertionOnly :: bool
  aho_CredentialID :: string
  aho_GrantType :: GrantType
  aho_Resource :: "URL option"

text \<open>A session: what does not change of it, and what does.\<close>

record 'w Session =
  ses_client :: "'w Client"
  ses_serviceURL :: URL

record SessionState =
  sst_activeEnrollment :: string
  sst_identity :: "ServiceIdentity option"

definition new_session_state :: SessionState where
  "new_session_state = \<lparr>sst_activeEnrollment = [], sst_identity = None\<rparr>"

text \<open>A call on the world, and one on the session, by a method of the session.\<close>

abbreviation in_world :: "('e, 'w, 'a) act \<Rightarrow> ('e, 'w \<times> 's, 'a) act" where
  "in_world m \<equiv> on_part fst (\<lambda>w x. (w, snd x)) m"

abbreviation in_session :: "('e, 's, 'a) act \<Rightarrow> ('e, 'w \<times> 's, 'a) act" where
  "in_session m \<equiv> on_part snd (\<lambda>s x. (fst x, s)) m"

lemmas agent_type_defs [go_defs] =
  with_timeout_def ctx_done_def lift_def Inspection_CommandURL_def new_session_state_def

section \<open>Identities in memory\<close>

text \<open>The copy shares nothing with the identity; as a value it is the identity.\<close>

definition cloneIdentity :: "ServiceIdentity \<Rightarrow> ServiceIdentity" where
  "cloneIdentity identity = identity\<lparr>sid_SigningAlgorithms := sid_SigningAlgorithms identity @ [],
     sid_Metadata := map_option (\<lambda>m. m) (sid_Metadata identity)\<rparr>"

definition memoryIdentityStore_FindIdentity ::
  "((string \<rightharpoonup> ServiceIdentity), 'w) part \<Rightarrow> string \<Rightarrow> ('w, ServiceIdentity option) agent_act" where
  "memoryIdentityStore_FindIdentity p serviceDID =
     observe (\<lambda>w. map_option cloneIdentity (part_get p w serviceDID))"

definition memoryIdentityStore_SaveIdentity ::
  "((string \<rightharpoonup> ServiceIdentity), 'w) part \<Rightarrow> ServiceIdentity \<Rightarrow> ('w, unit) agent_act" where
  "memoryIdentityStore_SaveIdentity p identity =
     at p (\<lambda>m. (Inr (), m(sid_ServiceDID identity \<mapsto> cloneIdentity identity)))"

definition NewMemoryIdentityStore :: "((string \<rightharpoonup> ServiceIdentity), 'w) part \<Rightarrow> 'w IdentityStore" where
  "NewMemoryIdentityStore p = \<lparr>ist_FindIdentity = (\<lambda>_. memoryIdentityStore_FindIdentity p),
     ist_SaveIdentity = (\<lambda>_. memoryIdentityStore_SaveIdentity p)\<rparr>"

section \<open>Inspect documents in memory\<close>

definition cloneInspectDocument :: "InspectDocument \<Rightarrow> agent_error + InspectDocument" where
  "cloneInspectDocument document =
     (case InspectDocument_MarshalJSON document of
        None \<Rightarrow> Inl (Plain (Library ''encoding/json''))
      | Some data \<Rightarrow> lift (ParseInspectDocument data))"

definition cloneInspectCacheEntry :: "InspectCacheEntry \<Rightarrow> agent_error + InspectCacheEntry" where
  "cloneInspectCacheEntry e =
     (case cloneInspectDocument (ice_Document e) of
        Inl err \<Rightarrow> Inl err
      | Inr document \<Rightarrow> Inr (e\<lparr>ice_Document := document\<rparr>))"

definition memoryInspectCache_DeleteInspect ::
  "((string \<rightharpoonup> InspectCacheEntry), 'w) part \<Rightarrow> string \<Rightarrow> ('w, unit) agent_act" where
  "memoryInspectCache_DeleteInspect p key = at p (\<lambda>m. (Inr (), m(key := None)))"

definition memoryInspectCache_FindInspect ::
  "((string \<rightharpoonup> InspectCacheEntry), 'w) part \<Rightarrow> string \<Rightarrow> ('w, InspectCacheEntry option) agent_act" where
  "memoryInspectCache_FindInspect p key w =
     (case part_get p w key of
        None \<Rightarrow> (Inr None, w)
      | Some e \<Rightarrow> (case cloneInspectCacheEntry e of Inl err \<Rightarrow> (Inl err, w) | Inr copy \<Rightarrow> (Inr (Some copy), w)))"

definition memoryInspectCache_SaveInspect ::
  "((string \<rightharpoonup> InspectCacheEntry), 'w) part \<Rightarrow> string \<Rightarrow> InspectCacheEntry \<Rightarrow> ('w, unit) agent_act" where
  "memoryInspectCache_SaveInspect p key e =
     at p (\<lambda>m. case cloneInspectCacheEntry e of Inl err \<Rightarrow> (Inl err, m) | Inr copy \<Rightarrow> (Inr (), m(key \<mapsto> copy)))"

definition NewMemoryInspectCache :: "((string \<rightharpoonup> InspectCacheEntry), 'w) part \<Rightarrow> 'w InspectCache" where
  "NewMemoryInspectCache p = \<lparr>icc_DeleteInspect = (\<lambda>_. memoryInspectCache_DeleteInspect p),
     icc_FindInspect = (\<lambda>_. memoryInspectCache_FindInspect p),
     icc_SaveInspect = (\<lambda>_. memoryInspectCache_SaveInspect p)\<rparr>"

section \<open>Credentials in memory\<close>

definition credentialKey :: "string \<Rightarrow> string \<Rightarrow> string" where
  "credentialKey serviceDID credentialID = serviceDID @ [CHR 0x00] @ credentialID"

definition credentialExpired :: "CredentialRecord \<Rightarrow> time \<Rightarrow> bool" where
  "credentialExpired record now \<longleftrightarrow> time_IsZero (cr_ExpiresAt record) \<or> cr_ExpiresAt record \<le> now"

definition cloneCredential :: "CredentialRecord \<Rightarrow> CredentialRecord" where
  "cloneCredential record = record\<lparr>cr_Payload := [] @ cr_Payload record\<rparr>"

fun credentialID :: "BuiltInGrantResponse \<Rightarrow> string" where
  "credentialID (OAuthBearer v) = oauth_CredentialID v"
| "credentialID (APIKey v) = key_CredentialID v"
| "credentialID (Basic v) = basic_CredentialID v"
| "credentialID _ = []"

fun credentialExpiresAt :: "BuiltInGrantResponse \<Rightarrow> string" where
  "credentialExpiresAt (OAuthBearer v) = oauth_ExpiresAt v"
| "credentialExpiresAt (APIKey v) = key_ExpiresAt v"
| "credentialExpiresAt (Basic v) = basic_ExpiresAt v"
| "credentialExpiresAt _ = []"

definition validateStoredCredential :: "CredentialRecord \<Rightarrow> string \<Rightarrow> time \<Rightarrow> agent_error option" where
  "validateStoredCredential record serviceDID now =
     (if cr_CredentialID record = [] \<or> cr_ServiceDID record \<noteq> serviceDID \<or> cr_GrantType record = [] \<or>
         credentialExpired record now
      then Some (failure ''stored AEP credential metadata is invalid'')
      else case ParseBuiltInGrantResponse (cr_GrantType record) (cr_Payload record) of
        Inl err \<Rightarrow> Some (failure ''stored AEP credential metadata does not match its payload'')
      | Inr credential \<Rightarrow>
          if credentialID credential \<noteq> cr_CredentialID record
          then Some (failure ''stored AEP credential metadata does not match its payload'')
          else case parse_rfc3339 (credentialExpiresAt credential) of
            None \<Rightarrow> Some (failure ''stored AEP credential expiration does not match its payload'')
          | Some expiresAt \<Rightarrow>
              if expiresAt \<noteq> cr_ExpiresAt record
              then Some (failure ''stored AEP credential expiration does not match its payload'')
              else None)"

definition authorizationHeaders :: "CredentialScheme \<Rightarrow> string \<Rightarrow> ProtectedResourceCarrier \<Rightarrow> agent_error + Header" where
  "authorizationHeaders scheme credentials carrier =
     (case RenderProtectedResourceAuthorization \<lparr>pra_Carrier = carrier, pra_Scheme = scheme, pra_Credentials = credentials\<rparr> of
        Inl err \<Rightarrow> Inl (Plain err)
      | Inr (name, val) \<Rightarrow> Inr (header_Set name val (Some [])))"

definition credentialHeaders :: "CredentialRecord \<Rightarrow> ProtectedResourceCarrier \<Rightarrow> agent_error + Header" where
  "credentialHeaders record carrier =
     (case ParseBuiltInGrantResponse (cr_GrantType record) (cr_Payload record) of
        Inl err \<Rightarrow> Inl (Plain err)
      | Inr credential \<Rightarrow>
          if credentialID credential \<noteq> cr_CredentialID record
          then Inl (failure ''stored AEP credential metadata does not match its payload'')
          else case credential of
            OAuthBearer v \<Rightarrow> authorizationHeaders CredentialSchemeBearer (oauth_AccessToken v) carrier
          | APIKey v \<Rightarrow>
              if \<not> IsHTTPFieldName (key_Header v) then Inl (failure ''AEP API-key credential has an invalid header name'')
              else Inr (header_Set (key_Header v) (key_APIKey v) (Some []))
          | Basic v \<Rightarrow>
              authorizationHeaders CredentialSchemeBasic (base64_encode (basic_Username v @ '':'' @ basic_Password v)) carrier
          | _ \<Rightarrow> Inl (failure ''unsupported AEP built-in credential''))"

text \<open>The records are listed with distinct keys: the order is that in which a Go map is ranged over.\<close>

type_synonym credentials = "(string \<times> CredentialRecord) list"

definition memoryCredentialStore_DeleteCredential ::
  "(credentials, 'w) part \<Rightarrow> string \<Rightarrow> string \<Rightarrow> ('w, unit) agent_act" where
  "memoryCredentialStore_DeleteCredential p serviceDID identifier =
     at p (\<lambda>m. (Inr (), AList.delete (credentialKey serviceDID identifier) m))"

definition memoryCredentialStore_FindCredential ::
  "('w \<Rightarrow> time \<times> 'w) \<Rightarrow> (credentials, 'w) part \<Rightarrow> string \<Rightarrow> string \<Rightarrow> ('w, CredentialRecord option) agent_act" where
  "memoryCredentialStore_FindCredential clock p serviceDID identifier w =
     (let key = credentialKey serviceDID identifier in
      case map_of (part_get p w) key of
        None \<Rightarrow> (Inr None, w)
      | Some record \<Rightarrow>
          and_then (call clock) (\<lambda>now.
            if credentialExpired record now then at p (\<lambda>m. (Inr None, AList.delete key m))
            else ok (Some (cloneCredential record))) w)"

text \<open>Newest first, and by identifier where two are as old.\<close>

definition by_issue :: "CredentialRecord list \<Rightarrow> CredentialRecord list" where
  "by_issue rs = sort_key (\<lambda>r. (- cr_IssuedAt r, cr_CredentialID r)) rs"

definition memoryCredentialStore_ListCredentials ::
  "('w \<Rightarrow> time \<times> 'w) \<Rightarrow> (credentials, 'w) part \<Rightarrow> string \<Rightarrow> ('w, CredentialRecord list) agent_act" where
  "memoryCredentialStore_ListCredentials clock p serviceDID =
     and_then (call clock) (\<lambda>now.
     at p (\<lambda>m.
       let live = filter (\<lambda>(key, record). \<not> credentialExpired record now) m in
       (Inr (by_issue (map cloneCredential (filter (\<lambda>record. cr_ServiceDID record = serviceDID) (map snd live)))), live)))"

definition memoryCredentialStore_SaveCredential ::
  "('w \<Rightarrow> time \<times> 'w) \<Rightarrow> (credentials, 'w) part \<Rightarrow> CredentialRecord \<Rightarrow> ('w, unit) agent_act" where
  "memoryCredentialStore_SaveCredential clock p record =
     and_then (call clock) (\<lambda>now.
     case validateStoredCredential record (cr_ServiceDID record) now of
       Some err \<Rightarrow> fail err
     | None \<Rightarrow>
    (case credentialHeaders record ProtectedResourceStandard of
       Inl err \<Rightarrow> fail err
     | Inr _ \<Rightarrow>
         at p (\<lambda>m. (Inr (), AList.update (credentialKey (cr_ServiceDID record) (cr_CredentialID record))
           (cloneCredential record) m))))"

definition newMemoryCredentialStore ::
  "('w \<Rightarrow> time \<times> 'w) \<Rightarrow> (credentials, 'w) part \<Rightarrow> 'w CredentialStore" where
  "newMemoryCredentialStore clock p =
     \<lparr>cst_DeleteCredential = (\<lambda>_. memoryCredentialStore_DeleteCredential p),
      cst_FindCredential = (\<lambda>_. memoryCredentialStore_FindCredential clock p),
      cst_ListCredentials = (\<lambda>_. memoryCredentialStore_ListCredentials clock p),
      cst_SaveCredential = (\<lambda>_. memoryCredentialStore_SaveCredential clock p)\<rparr>"

lemmas agent_store_defs [go_defs] =
  cloneIdentity_def memoryIdentityStore_FindIdentity_def memoryIdentityStore_SaveIdentity_def NewMemoryIdentityStore_def
  cloneInspectDocument_def cloneInspectCacheEntry_def memoryInspectCache_DeleteInspect_def
  memoryInspectCache_FindInspect_def memoryInspectCache_SaveInspect_def NewMemoryInspectCache_def credentialKey_def
  credentialExpired_def cloneCredential_def validateStoredCredential_def authorizationHeaders_def
  credentialHeaders_def memoryCredentialStore_DeleteCredential_def memoryCredentialStore_FindCredential_def by_issue_def
  memoryCredentialStore_ListCredentials_def memoryCredentialStore_SaveCredential_def newMemoryCredentialStore_def

end
