(* ===== verification/Agent_Client.thy ===== *)
theory Agent_Client
  imports Agent_Types Did_Web
begin

text \<open>
  \<open>agent/client.go\<close>: the construction of a client and of a session. The state \<open>New\<close> allocates for what the
  caller leaves out is a part of the world for each store; the default HTTP client and the system's
  source of random bytes are parameters.
\<close>

definition defaultMaximumResponseBytes :: int where
  "defaultMaximumResponseBytes = 1048576"

definition defaultRequestTimeout :: duration where
  "defaultRequestTimeout = 30 * Second"

definition isLoopback :: "string \<Rightarrow> bool" where
  "isLoopback host \<longleftrightarrow> host = ''localhost'' \<or> host = ''127.0.0.1'' \<or> host = ''::1''"

text \<open>\<open>random\<close> is \<open>rand.Read\<close> into 16 bytes.\<close>

definition randomIdentifier :: "('w, string) agent_act \<Rightarrow> ('w, string) agent_act" where
  "randomIdentifier random = and_then random (\<lambda>bytes. ok (hex_encode bytes))"

definition RandomIdempotencyKeyProvider :: "('w, string) agent_act \<Rightarrow> 'w IdempotencyKeyProvider" where
  "RandomIdempotencyKeyProvider random = (\<lambda>_ _. randomIdentifier random)"

record 'w Allocation =
  all_identities :: "((string \<rightharpoonup> ServiceIdentity), 'w) part"
  all_credentials :: "(credentials, 'w) part"
  all_inspects :: "((string \<rightharpoonup> InspectCacheEntry), 'w) part"
  all_openAPI :: "((string \<times> openAPIEntry) list, 'w) part"
  all_runtime :: "'w Runtime"
  all_now :: "'w \<Rightarrow> time \<times> 'w"
  all_random :: "('w, string) agent_act"
  all_DefaultClient :: "'w HTTPClient"

abbreviation or_default :: "'a option \<Rightarrow> 'a \<Rightarrow> 'a" where
  "or_default x d \<equiv> (case x of None \<Rightarrow> d | Some y \<Rightarrow> y)"

definition New :: "'w Allocation \<Rightarrow> 'w Options \<Rightarrow> agent_error + 'w Client" where
  "New world options =
     (case ago_IdentityProvider options of
        None \<Rightarrow> Inl (failure ''AEP Agent identity provider is required'')
      | Some provider \<Rightarrow>
     (let lifetime = (if ago_AssertionLifetime options = 0 then MaxAssertionLifetime else ago_AssertionLifetime options);
          maximum = (if ago_MaximumResponseBytes options = 0 then defaultMaximumResponseBytes
                     else ago_MaximumResponseBytes options);
          timeout = (if ago_RequestTimeout options = 0 then defaultRequestTimeout else ago_RequestTimeout options);
          clock = or_default (ago_Clock options) (all_now world);
          http = or_default (ago_HTTPClient options) (all_DefaultClient world) in
      if lifetime < Second \<or> MaxAssertionLifetime < lifetime \<or> go_rem lifetime Second \<noteq> 0
      then Inl (failure ''AEP Agent assertion lifetime must be whole seconds from 1 through 300'')
      else if maximum < 1 \<or> maximum = max_i64
      then Inl (failure ''AEP Agent maximum response bytes are outside the supported range'')
      else if timeout \<le> 0 then Inl (failure ''AEP Agent request timeout must be positive'')
      else Inr
        \<lparr>cl_allowInsecureLoopback = ago_AllowInsecureLoopback options,
         cl_assertionLifetime = lifetime,
         cl_clock = clock,
         cl_commandHTTPClient = or_default (ago_CommandHTTPClient options) http,
         cl_credentialStore = or_default (ago_CredentialStore options) (newMemoryCredentialStore clock (all_credentials world)),
         cl_identityProvider = provider,
         cl_identityStore = or_default (ago_IdentityStore options) (NewMemoryIdentityStore (all_identities world)),
         cl_idempotencyKeys = or_default (ago_IdempotencyKeys options) (RandomIdempotencyKeyProvider (all_random world)),
         cl_inspectCache = or_default (ago_InspectCache options) (NewMemoryInspectCache (all_inspects world)),
         cl_inspectHTTPClient = or_default (ago_InspectHTTPClient options) http,
         cl_openAPICache = all_openAPI world,
         cl_jti = or_default (ago_JTI options) (randomIdentifier (all_random world)),
         cl_maximumResponseBytes = maximum,
         cl_requestTimeout = timeout,
         cl_runtime = all_runtime world\<rparr>))"

definition bad_reference :: agent_error where
  "bad_reference = failure ''invalid AEP Service reference''"

text \<open>The reference as the text of a URL.\<close>

definition reference_text :: "string \<Rightarrow> bool \<Rightarrow> agent_error + string" where
  "reference_text val allowInsecureLoopback =
     (if val = [] then Inl bad_reference
      else if has_prefix val ''did:web:'' then
        (case DIDWebDocumentURLWithOptions val allowInsecureLoopback of
           Inl err \<Rightarrow> Inl bad_reference
         | Inr documentURL \<Rightarrow> Inr (url_Scheme documentURL @ ''://'' @ url_Host documentURL))
      else case url_Parse val of
        None \<Rightarrow> Inr (''https://'' @ val)
      | Some parsed \<Rightarrow> Inr (if url_Scheme parsed = [] then ''https://'' @ val else val))"

definition resolveServiceReference :: "string \<Rightarrow> bool \<Rightarrow> agent_error + URL" where
  "resolveServiceReference reference allowInsecureLoopback =
     (case reference_text (trim_space reference) allowInsecureLoopback of
        Inl err \<Rightarrow> Inl err
      | Inr val \<Rightarrow>
     (case url_Parse val of
        None \<Rightarrow> Inl bad_reference
      | Some parsed \<Rightarrow>
          let hostname = url_Hostname parsed in
          if url_Host parsed = [] \<or> hostname = [] \<or> url_User parsed \<noteq> None \<or> url_Opaque parsed \<noteq> [] \<or>
             (CHR '':'' \<in> set hostname \<and> \<not> is_ip hostname)
          then Inl bad_reference
          else if url_Scheme parsed \<noteq> ''https'' \<and>
             \<not> (allowInsecureLoopback \<and> url_Scheme parsed = ''http'' \<and> isLoopback (url_Hostname parsed))
          then Inl (failure ''AEP Service references require HTTPS'')
          else Inr (empty_url\<lparr>url_Scheme := url_Scheme parsed, url_Host := url_Host parsed, url_Path := ''/''\<rparr>)))"

definition Client_Service :: "'w Client \<Rightarrow> string \<Rightarrow> agent_error + 'w Session" where
  "Client_Service client reference =
     (case resolveServiceReference reference (cl_allowInsecureLoopback client) of
        Inl err \<Rightarrow> Inl err
      | Inr serviceURL \<Rightarrow> Inr \<lparr>ses_client = client, ses_serviceURL = serviceURL\<rparr>)"

lemmas agent_client_defs [go_defs] =
  defaultMaximumResponseBytes_def defaultRequestTimeout_def isLoopback_def randomIdentifier_def
  RandomIdempotencyKeyProvider_def New_def bad_reference_def reference_text_def resolveServiceReference_def
  Client_Service_def

lemma service_reference_examples:
  "map_option url_String (case resolveServiceReference '' shop.example '' False of Inr u \<Rightarrow> Some u | _ \<Rightarrow> None) =
     Some ''https://shop.example/''"
  "map_option url_String (case resolveServiceReference ''did:web:shop.example'' False of Inr u \<Rightarrow> Some u | _ \<Rightarrow> None) =
     Some ''https://shop.example/''"
  "resolveServiceReference ''http://localhost:8080/x'' False = Inl (failure ''AEP Service references require HTTPS'')"
  "map_option url_String (case resolveServiceReference ''http://localhost:8080/x?y'' True of Inr u \<Rightarrow> Some u | _ \<Rightarrow> None) =
     Some ''http://localhost:8080/''"
  "resolveServiceReference ''https://a@shop.example'' False = Inl bad_reference"
  by code_simp+

end
