(* ===== verification/Agent_Inspect.thy ===== *)
theory Agent_Inspect
  imports Agent_Client
begin

text \<open>
  \<open>agent/inspect.go\<close>: fetching, caching and checking the Inspect document of a Service. The loop over
  redirects recurses on the redirects that are left. The mutex of a session serializes its calls.
\<close>

section \<open>Cache-Control and media types\<close>

text \<open>\<open>strconv.ParseInt\<close> and \<open>strconv.Atoi\<close> in base ten.\<close>

definition parse_int :: "string \<Rightarrow> int option" where
  "parse_int s =
     (let neg = has_prefix s ''-''; ds = (if neg \<or> has_prefix s ''+'' then drop 1 s else s) in
      if ds = [] \<or> \<not> list_all is_digit ds then None
      else let r = (if neg then - decimal_val ds else decimal_val ds) in if in_i64 r then Some r else None)"

fun directive_in :: "string list \<Rightarrow> string \<Rightarrow> string \<times> bool" where
  "directive_in [] name = ([], False)"
| "directive_in (part # parts) name =
     (case split_n CHR ''='' 2 (trim_space part) of
        [] \<Rightarrow> directive_in parts name
      | f # fs \<Rightarrow>
          if equal_fold f name then ((case fs of [] \<Rightarrow> [] | v # _ \<Rightarrow> trim_both (\<lambda>c. byte c = 0x22) v), True)
          else directive_in parts name)"

definition cacheDirectiveValue :: "string \<Rightarrow> string \<Rightarrow> string \<times> bool" where
  "cacheDirectiveValue val name = directive_in (split_on CHR '','' val) name"

definition cacheDirective :: "string \<Rightarrow> string \<Rightarrow> bool" where
  "cacheDirective val name = snd (cacheDirectiveValue val name)"

text \<open>The lifetime a Cache-Control field gives; \<open>None\<close> is one that cannot be used.\<close>

definition max_age :: "string \<Rightarrow> duration \<Rightarrow> duration option" where
  "max_age cacheControl otherwise =
     (case cacheDirectiveValue cacheControl ''max-age'' of (val, found) \<Rightarrow>
        if \<not> found then Some otherwise
        else case parse_int val of
               None \<Rightarrow> None
             | Some seconds \<Rightarrow> if seconds < 0 \<or> max_i64 div Second < seconds then None else Some (seconds * Second))"

definition inspectCacheFresh :: "InspectCacheEntry \<Rightarrow> time \<Rightarrow> bool" where
  "inspectCacheFresh e now =
     (if cacheDirective (ice_CacheControl e) ''no-cache'' \<or> cacheDirective (ice_CacheControl e) ''no-store'' then False
      else case max_age (ice_CacheControl e) DefaultInspectFreshness of
             None \<Rightarrow> False
           | Some age \<Rightarrow> now < ice_CachedAt e + age)"

definition mergeCacheHeaders :: "InspectCacheEntry \<Rightarrow> Header \<Rightarrow> InspectCacheEntry" where
  "mergeCacheHeaders e headers =
     (let keep = (\<lambda>name old. if header_Get headers name \<noteq> [] then header_Get headers name else old) in
      e\<lparr>ice_CacheControl := keep ''Cache-Control'' (ice_CacheControl e), ice_ETag := keep ''ETag'' (ice_ETag e),
        ice_LastModified := keep ''Last-Modified'' (ice_LastModified e)\<rparr>)"

definition mediaTypeMatches :: "string \<Rightarrow> string \<Rightarrow> bool" where
  "mediaTypeMatches val expected \<longleftrightarrow>
     (case mime_ParseMediaType val of None \<Rightarrow> False | Some parsed \<Rightarrow> equal_fold parsed expected)"

definition readBounded :: "agent_error http_in \<Rightarrow> int \<Rightarrow> agent_error + string" where
  "readBounded response maximum =
     (case read_limited maximum response of
        Inl err \<Rightarrow> Inl err
      | Inr data \<Rightarrow> if maximum < int (length data) then Inl ResponseTooLarge else Inr data)"

section \<open>Origins\<close>

definition effectivePort :: "URL \<Rightarrow> string" where
  "effectivePort u =
     (if url_Port u \<noteq> [] then url_Port u
      else if url_Scheme u = ''https'' then ''443''
      else if url_Scheme u = ''http'' then ''80''
      else [])"

definition sameOrigin :: "URL \<Rightarrow> URL \<Rightarrow> bool" where
  "sameOrigin first second \<longleftrightarrow> equal_fold (url_Scheme first) (url_Scheme second) \<and>
     equal_fold (url_Hostname first) (url_Hostname second) \<and> effectivePort first = effectivePort second"

definition validInspectTarget :: "URL \<Rightarrow> bool" where
  "validInspectTarget target \<longleftrightarrow>
     url_Opaque target = [] \<and> url_Host target \<noteq> [] \<and> url_User target = None \<and> url_Fragment target = []"

definition isRedirect :: "int \<Rightarrow> bool" where
  "isRedirect status \<longleftrightarrow> status = 301 \<or> status = 302 \<or> status = 303 \<or> status = 307 \<or> status = 308"

text \<open>The copy of the client follows no redirect and keeps no cookie: it sends the one request.\<close>

definition doWithoutRedirects :: "'w HTTPClient \<Rightarrow> ctx \<Rightarrow> http_out \<Rightarrow> ('w, agent_error http_in) agent_act" where
  "doWithoutRedirects client c request = client c request"

definition sameAuthority :: "URL \<Rightarrow> URL \<Rightarrow> bool" where
  "sameAuthority first second \<longleftrightarrow>
     (if \<not> equal_fold (url_Hostname first) (url_Hostname second) then False
      else if url_Port first = []
      then url_Port second = [] \<or> url_Port second = effectivePort (empty_url\<lparr>url_Scheme := url_Scheme second\<rparr>)
      else url_Port first = effectivePort second)"

definition acceptableInspectScheme :: "URL \<Rightarrow> bool \<Rightarrow> bool" where
  "acceptableInspectScheme target allowInsecureLoopback \<longleftrightarrow>
     equal_fold (url_Scheme target) ''https'' \<or>
     (allowInsecureLoopback \<and> equal_fold (url_Scheme target) ''http'' \<and> isLoopback (url_Hostname target))"

section \<open>Checking a document\<close>

definition bad_inspect :: "InspectErrorCode \<Rightarrow> int \<Rightarrow> string \<Rightarrow> agent_error" where
  "bad_inspect code status message = InspectError None code status message"

definition inspectError :: "InspectErrorCode \<Rightarrow> int \<Rightarrow> string \<Rightarrow> agent_error \<Rightarrow> agent_error" where
  "inspectError code status operation err = InspectError (Some err) code status (operation @ '': '')"

definition validateServiceIdentity :: "Inspection \<Rightarrow> bool \<Rightarrow> agent_error option" where
  "validateServiceIdentity inspection allowInsecureLoopback =
     (let serviceDID = si_DID (insp_Service (insn_Document inspection)) in
      if \<not> has_prefix serviceDID ''did:web:''
      then Some (bad_inspect InspectServiceIdentityMismatch 0 ''AEP Inspect Service DID has no supported origin binding'')
      else case DIDWebDocumentURL serviceDID of
        Inl err \<Rightarrow> Some (bad_inspect InspectServiceIdentityMismatch 0 ''AEP Inspect Service DID does not match the Inspect origin'')
      | Inr documentURL \<Rightarrow>
          if \<not> sameAuthority documentURL (insn_FinalURL inspection) \<or>
             \<not> acceptableInspectScheme (insn_FinalURL inspection) allowInsecureLoopback
          then Some (bad_inspect InspectServiceIdentityMismatch 0 ''AEP Inspect Service DID does not match the Inspect origin'')
          else None)"

definition checked :: "Inspection \<Rightarrow> bool \<Rightarrow> agent_error + Inspection" where
  "checked inspection allowInsecureLoopback =
     (case validateServiceIdentity inspection allowInsecureLoopback of Some err \<Rightarrow> Inl err | None \<Rightarrow> Inr inspection)"

definition cloneURL :: "URL \<Rightarrow> URL" where
  "cloneURL u = u\<lparr>url_Path := url_Path u\<rparr>"

definition inspectionFromCache :: "URL \<Rightarrow> URL \<Rightarrow> InspectCacheEntry \<Rightarrow> bool \<Rightarrow> agent_error + Inspection" where
  "inspectionFromCache serviceURL inspectURL e allowInsecureLoopback =
     (case url_Parse (ice_FinalURL e) of
        None \<Rightarrow> Inl (Plain (Library ''net/url''))
      | Some finalURL \<Rightarrow>
          if \<not> validInspectTarget finalURL \<or> url_Scheme finalURL \<noteq> url_Scheme inspectURL \<or> \<not> sameOrigin finalURL inspectURL
          then Inl (bad_inspect InspectInvalidRedirect 0 ''AEP cached Inspect URL changed origin or scheme'')
          else case cloneInspectDocument (ice_Document e) of
            Inl err \<Rightarrow> Inl err
          | Inr document \<Rightarrow>
              checked \<lparr>insn_CacheControl = ice_CacheControl e, insn_Document = document, insn_ETag = ice_ETag e,
                 insn_FinalURL = finalURL, insn_InspectURL = cloneURL inspectURL, insn_LastModified = ice_LastModified e,
                 insn_ServiceURL = cloneURL serviceURL\<rparr> allowInsecureLoopback)"

text \<open>A response that is not a redirect and not \<open>304\<close>.\<close>

definition inspect_fetched ::
  "'w Client \<Rightarrow> agent_error http_in \<Rightarrow> URL \<Rightarrow> URL \<Rightarrow> URL \<Rightarrow> agent_error + Inspection" where
  "inspect_fetched client response serviceURL inspectURL finalURL =
     (let status = in_StatusCode response; headers = in_Header response in
      if status < 200 \<or> 300 \<le> status
      then Inl (bad_inspect InspectHTTPError status (''AEP Inspect failed with HTTP '' @ enc_int status))
      else if \<not> mediaTypeMatches (header_Get headers ''Content-Type'') MediaType
      then Inl (bad_inspect InspectInvalidMediaType status ''AEP Inspect response media type is invalid'')
      else case readBounded response (cl_maximumResponseBytes client) of
        Inl err \<Rightarrow>
          Inl (if errors_Is err ResponseTooLarge
               then bad_inspect InspectResponseTooLarge status ''AEP Inspect response exceeds the configured limit''
               else inspectError InspectInvalidJSON status ''read AEP Inspect response'' err)
      | Inr data \<Rightarrow>
          (case ParseInspectDocument data of
             Inl err \<Rightarrow>
               Inl (inspectError (if json_parse data = None then InspectInvalidJSON else InspectValidationFailed) status
                      ''validate AEP Inspect document'' (Plain err))
           | Inr document \<Rightarrow>
               checked \<lparr>insn_CacheControl = header_Get headers ''Cache-Control'', insn_Document = document,
                  insn_ETag = header_Get headers ''ETag'', insn_FinalURL = cloneURL finalURL,
                  insn_InspectURL = cloneURL inspectURL, insn_LastModified = header_Get headers ''Last-Modified'',
                  insn_ServiceURL = cloneURL serviceURL\<rparr> (cl_allowInsecureLoopback client)))"

definition Client_inspectResponse ::
  "'w Client \<Rightarrow> agent_error http_in \<Rightarrow> URL \<Rightarrow> URL \<Rightarrow> URL \<Rightarrow> InspectCacheEntry option \<Rightarrow> ('w, Inspection) agent_act" where
  "Client_inspectResponse client response serviceURL inspectURL finalURL cached =
     (if in_StatusCode response = 304 then
        (case cached of
           None \<Rightarrow> fail (bad_inspect InspectHTTPError 304 ''AEP Inspect returned 304 without a cached document'')
         | Some old \<Rightarrow>
             and_then (call (cl_clock client)) (\<lambda>now.
             of_result (inspectionFromCache serviceURL inspectURL
               (mergeCacheHeaders (old\<lparr>ice_CachedAt := now, ice_FinalURL := url_String finalURL\<rparr>) (in_Header response))
               (cl_allowInsecureLoopback client))))
      else of_result (inspect_fetched client response serviceURL inspectURL finalURL))"

section \<open>Fetching a document\<close>

definition maximumInspectRedirects :: nat where
  "maximumInspectRedirects = 5"

definition conditional :: "InspectCacheEntry option \<Rightarrow> http_out \<Rightarrow> http_out" where
  "conditional cached request =
     (case cached of
        None \<Rightarrow> request
      | Some e \<Rightarrow>
          let r = (if ice_ETag e \<noteq> [] then request_set ''If-None-Match'' (ice_ETag e) request else request) in
          if ice_LastModified e \<noteq> [] then request_set ''If-Modified-Since'' (ice_LastModified e) r else r)"

definition inspect_next :: "URL \<Rightarrow> string \<Rightarrow> agent_error + URL" where
  "inspect_next current location =
     (if location = [] then Inl (bad_inspect InspectInvalidRedirect 0 ''AEP Inspect redirect omitted Location'')
      else case url_Relative current location of
        None \<Rightarrow> Inl (bad_inspect InspectInvalidRedirect 0 ''AEP Inspect redirect changed origin or scheme'')
      | Some next \<Rightarrow>
          if \<not> validInspectTarget next \<or> url_Scheme next \<noteq> url_Scheme current \<or> \<not> sameOrigin next current
          then Inl (bad_inspect InspectInvalidRedirect 0 ''AEP Inspect redirect changed origin or scheme'')
          else Inr next)"

text \<open>What is kept of a document that was fetched.\<close>

definition inspect_keep :: "'w Client \<Rightarrow> ctx \<Rightarrow> string \<Rightarrow> Inspection \<Rightarrow> ('w, Inspection) agent_act" where
  "inspect_keep client c cacheKey inspection =
     and_then (call (cl_clock client)) (\<lambda>now.
     let e = \<lparr>ice_CacheControl = insn_CacheControl inspection, ice_CachedAt = now, ice_ETag = insn_ETag inspection,
              ice_FinalURL = url_String (insn_FinalURL inspection), ice_LastModified = insn_LastModified inspection,
              ice_Document = insn_Document inspection\<rparr> in
     if cacheDirective (insn_CacheControl inspection) ''no-store''
     then and_then (icc_DeleteInspect (cl_inspectCache client) c cacheKey) (\<lambda>_. ok inspection)
     else case cloneInspectCacheEntry e of
       Inl err \<Rightarrow> fail err
     | Inr stored \<Rightarrow> and_then (icc_SaveInspect (cl_inspectCache client) c cacheKey stored) (\<lambda>_. ok inspection))"

fun inspect_loop ::
  "'w Client \<Rightarrow> ctx \<Rightarrow> ctx \<Rightarrow> URL \<Rightarrow> URL \<Rightarrow> InspectCacheEntry option \<Rightarrow> nat \<Rightarrow> URL \<Rightarrow> ('w, Inspection) agent_act" where
  "inspect_loop client c rc serviceURL inspectURL cached left current =
     (case new_request ''GET'' (url_String current) [] of
        None \<Rightarrow> fail (inspectError InspectHTTPError 0 ''create AEP Inspect request'' (Plain (Library ''net/url'')))
      | Some request \<Rightarrow>
     and_then (attempt (doWithoutRedirects (cl_inspectHTTPClient client) rc
                 (conditional cached (request_set ''Accept'' MediaType request)))) (\<lambda>outcome.
     case outcome of
       Inl err \<Rightarrow>
         fail (inspectError (if errors_Is_context err then InspectAborted else InspectHTTPError) 0
                 ''fetch AEP Inspect document'' err)
     | Inr response \<Rightarrow>
         if isRedirect (in_StatusCode response) then
           (case left of
              0 \<Rightarrow> fail (bad_inspect InspectInvalidRedirect 0 ''AEP Inspect exceeded five redirects'')
            | Suc n \<Rightarrow>
                (case inspect_next current (header_Get (in_Header response) ''Location'') of
                   Inl err \<Rightarrow> fail err
                 | Inr next \<Rightarrow> inspect_loop client c rc serviceURL inspectURL cached n next))
         else
           and_then (attempt (Client_inspectResponse client response serviceURL inspectURL current cached)) (\<lambda>result.
           case result of
             Inl err \<Rightarrow>
               and_then (attempt (icc_DeleteInspect (cl_inspectCache client) c (url_String inspectURL))) (\<lambda>_. fail err)
           | Inr inspection \<Rightarrow> inspect_keep client c (url_String inspectURL) inspection)))"

declare inspect_loop.simps [simp del]

text \<open>The cached entry, or none when it cannot be copied.\<close>

definition inspect_cached :: "'w Client \<Rightarrow> ctx \<Rightarrow> string \<Rightarrow> ('w, InspectCacheEntry option) agent_act" where
  "inspect_cached client c cacheKey =
     and_then (icc_FindInspect (cl_inspectCache client) c cacheKey) (\<lambda>found.
     case found of
       None \<Rightarrow> ok None
     | Some e \<Rightarrow>
         (case cloneInspectCacheEntry e of
            Inl err \<Rightarrow> and_then (icc_DeleteInspect (cl_inspectCache client) c cacheKey) (\<lambda>_. ok None)
          | Inr copy \<Rightarrow> ok (Some copy)))"

text \<open>A fresh entry answers the call; one that is stale starts the request where it was found.\<close>

definition inspect_fresh ::
  "'w Client \<Rightarrow> ctx \<Rightarrow> URL \<Rightarrow> URL \<Rightarrow> InspectCacheEntry option \<Rightarrow> ('w, Inspection + InspectCacheEntry option) agent_act" where
  "inspect_fresh client c serviceURL inspectURL cached =
     (case cached of
        None \<Rightarrow> ok (Inr None)
      | Some e \<Rightarrow>
          and_then (call (cl_clock client)) (\<lambda>now.
          if \<not> inspectCacheFresh e now then ok (Inr (Some e))
          else case inspectionFromCache serviceURL inspectURL e (cl_allowInsecureLoopback client) of
            Inr inspection \<Rightarrow> ok (Inl inspection)
          | Inl err \<Rightarrow>
              and_then (icc_DeleteInspect (cl_inspectCache client) c (url_String inspectURL)) (\<lambda>_. ok (Inr None))))"

definition inspect_start ::
  "'w Client \<Rightarrow> ctx \<Rightarrow> URL \<Rightarrow> InspectCacheEntry option \<Rightarrow> ('w, URL \<times> InspectCacheEntry option) agent_act" where
  "inspect_start client c inspectURL cached =
     (case cached of
        None \<Rightarrow> ok (inspectURL, None)
      | Some e \<Rightarrow>
          let discard = and_then (icc_DeleteInspect (cl_inspectCache client) c (url_String inspectURL)) (\<lambda>_. ok (inspectURL, None)) in
          (case url_Parse (ice_FinalURL e) of
             None \<Rightarrow> discard
           | Some cachedURL \<Rightarrow>
               if \<not> validInspectTarget cachedURL \<or> url_Scheme cachedURL \<noteq> url_Scheme inspectURL \<or> \<not> sameOrigin cachedURL inspectURL
               then discard else ok (cachedURL, Some e)))"

definition Client_inspect :: "'w Client \<Rightarrow> ctx \<Rightarrow> URL \<Rightarrow> ('w, Inspection) agent_act" where
  "Client_inspect client c serviceURL =
     (let inspectURL = url_ResolveReference serviceURL (empty_url\<lparr>url_Path := WellKnownPath\<rparr>) in
      and_then (inspect_cached client c (url_String inspectURL)) (\<lambda>cached0.
      and_then (inspect_fresh client c serviceURL inspectURL cached0) (\<lambda>answer.
      case answer of
        Inl inspection \<Rightarrow> ok inspection
      | Inr cached1 \<Rightarrow>
      and_then (observe (with_timeout (cl_runtime client) c (cl_requestTimeout client))) (\<lambda>rc.
      and_then (inspect_start client c inspectURL cached1) (\<lambda>(current, cached).
      inspect_loop client c rc serviceURL inspectURL cached maximumInspectRedirects current)))))"

definition Session_Inspect :: "'w Session \<Rightarrow> ctx \<Rightarrow> ('w, Inspection) agent_act" where
  "Session_Inspect session c = Client_inspect (ses_client session) c (ses_serviceURL session)"

lemmas agent_inspect_defs [go_defs] =
  parse_int_def cacheDirectiveValue_def cacheDirective_def max_age_def inspectCacheFresh_def mergeCacheHeaders_def
  mediaTypeMatches_def readBounded_def effectivePort_def sameOrigin_def validInspectTarget_def isRedirect_def
  doWithoutRedirects_def sameAuthority_def acceptableInspectScheme_def bad_inspect_def inspectError_def
  validateServiceIdentity_def checked_def cloneURL_def inspectionFromCache_def inspect_fetched_def
  Client_inspectResponse_def maximumInspectRedirects_def conditional_def inspect_next_def inspect_keep_def
  inspect_cached_def inspect_fresh_def inspect_start_def Client_inspect_def Session_Inspect_def

end
