(* ===== verification/Agent_Documents.thy ===== *)
theory Agent_Documents
  imports Agent_Inspect Documents
begin

text \<open>
  \<open>agent/documents.go\<close>: reading a Service Document. The transport the code makes is a parameter; closing it
  and its TLS settings are not modelled. A result that comes with an error has only the descriptor.
\<close>

record DocumentReadOptions =
  dro_Timeout :: duration

record DocumentReadResult =
  drr_Descriptor :: ServiceDocument
  drr_WebURL :: string
  drr_Document :: "PortableServiceDocument option"
  drr_Reason :: string

definition bad_document :: agent_error where
  "bad_document = failure ''unsupported AEP document response''"

definition readDocumentResponse :: "agent_error http_in \<Rightarrow> string \<Rightarrow> agent_error + PortableServiceDocument" where
  "readDocumentResponse response identifier =
     (let encoding = header_Get (in_Header response) ''Content-Encoding''; status = in_StatusCode response in
      case mime_Parse (header_Get (in_Header response) ''Content-Type'') of
        None \<Rightarrow> Inl bad_document
      | Some (mediaType, parameters) \<Rightarrow>
          if status < 200 \<or> 300 \<le> status \<or> mediaType \<noteq> ''application/json'' \<or>
             (parameters ''charset'' \<noteq> [] \<and> \<not> equal_fold (parameters ''charset'') ''utf-8'') \<or>
             (encoding \<noteq> [] \<and> encoding \<noteq> ''identity'')
          then Inl bad_document
          else case read_limited MaxServiceDocumentBytes response of
            Inl err \<Rightarrow> Inl err
          | Inr data \<Rightarrow>
              if \<not> valid_utf8 data then Inl (failure ''AEP document is not valid UTF-8'')
              else lift (ParsePortableServiceDocument data identifier))"

text \<open>\<open>response.Location()\<close>, and the check that follows it.\<close>

definition document_next :: "http_out \<Rightarrow> agent_error http_in \<Rightarrow> agent_error + string" where
  "document_next request response =
     (let location = header_Get (in_Header response) ''Location'' in
      if location = [] then Inl (Plain (Library ''net/http''))
      else case url_Relative (out_URL request) location of
        None \<Rightarrow> Inl (Plain (Library ''net/url''))
      | Some next \<Rightarrow>
          if url_Scheme (out_URL request) = ''https'' \<and> url_Scheme next \<noteq> ''https''
          then Inl (failure ''AEP document redirects must not downgrade HTTPS'')
          else Inr (url_String next))"

definition document_request :: "string \<Rightarrow> http_out option" where
  "document_request location =
     map_option (\<lambda>r. let r1 = request_set ''Accept-Encoding'' ''identity'' (request_set ''Accept'' ''application/json'' r) in
         r1\<lparr>out_Header := Some (AList.update ''User-Agent'' [] (elems (out_Header r1)))\<rparr>)
       (new_request ''GET'' location [])"

fun downloadDocument ::
  "ctx \<Rightarrow> 'w HTTPClient \<Rightarrow> nat \<Rightarrow> string \<Rightarrow> string \<Rightarrow> ('w, PortableServiceDocument) agent_act" where
  "downloadDocument c client left location identifier =
     (case ValidateDocumentURL location of
        Some err \<Rightarrow> fail (Plain err)
      | None \<Rightarrow>
     (case document_request location of
        None \<Rightarrow> fail (Plain (Library ''net/url''))
      | Some request \<Rightarrow>
     and_then (doWithoutRedirects client c request) (\<lambda>response.
     if isRedirect (in_StatusCode response) then
       (case left of
          0 \<Rightarrow> fail (failure ''AEP document redirect limit exceeded'')
        | Suc n \<Rightarrow>
            (case document_next request response of
               Inl err \<Rightarrow> fail err
             | Inr next \<Rightarrow> downloadDocument c client n next identifier))
     else of_result (readDocumentResponse response identifier))))"

declare downloadDocument.simps [simp del]

text \<open>The loop over the representations: the last web page and the last portable document.\<close>

fun representation_urls :: "DocumentRepresentation list \<Rightarrow> string \<times> string \<Rightarrow> string \<times> string" where
  "representation_urls [] found = found"
| "representation_urls (r # rs) (web, portable) =
     representation_urls rs
       (if rep_MediaType r = ''text/html'' then (rep_URL r, portable)
        else if rep_MediaType r = ''application/json'' then (web, rep_URL r)
        else (web, portable))"

definition readServiceDocument ::
  "'w Runtime \<Rightarrow> 'w HTTPClient \<Rightarrow> ctx \<Rightarrow> ServiceDocument \<Rightarrow> DocumentReadOptions \<Rightarrow> ('w, DocumentReadResult) agent_act" where
  "readServiceDocument rt transport c descriptor options =
     (case ValidateServiceDocument descriptor of
        Some err \<Rightarrow> fail (Plain err)
      | None \<Rightarrow>
          if dro_Timeout options < 0 then fail (failure ''AEP document timeout must be positive'')
          else
          and_then (observe (ctx_done rt c)) (\<lambda>done.
          if done then fail (Plain ContextDone)
          else
          (case representation_urls (elems (sd_Representations descriptor)) ([], []) of (web, portable) \<Rightarrow>
             let result = \<lparr>drr_Descriptor = descriptor, drr_WebURL = web, drr_Document = None, drr_Reason = []\<rparr>;
                 timeout = (if dro_Timeout options = 0 then 10 * Second else dro_Timeout options) in
             if portable = [] then ok (result\<lparr>drr_Reason := ''not_advertised''\<rparr>)
             else
             and_then (observe (with_timeout rt c timeout)) (\<lambda>deadline.
             and_then (attempt (downloadDocument deadline transport 5 portable (sd_ID descriptor))) (\<lambda>document.
             case document of
               Inr d \<Rightarrow> ok (result\<lparr>drr_Document := Some d\<rparr>)
             | Inl err \<Rightarrow>
                 and_then (observe (ctx_done rt c)) (\<lambda>cancelled.
                 if cancelled then fail (Plain ContextDone)
                 else ok (result\<lparr>drr_Reason := ''unavailable_or_unsupported''\<rparr>)))))))"

lemmas agent_document_defs [go_defs] =
  bad_document_def readDocumentResponse_def document_next_def document_request_def readServiceDocument_def

end
