(* ===== verification/Agent_Commands.thy ===== *)
theory Agent_Commands
  imports Agent_Inspect Documents
begin

text \<open>
  \<open>agent/commands.go\<close>: the commands of a session. A method that reads or changes the session's own state
  runs on the world and that state; the others run on the world. A signer, like every interface, may be
  nil. Polling recurses on fuel.
\<close>

section \<open>Choices\<close>

definition containsCommand :: "Command list \<Rightarrow> Command \<Rightarrow> bool" where
  "containsCommand values expected = list_ex (\<lambda>v. v = expected) values"

definition containsGrantType :: "GrantType list \<Rightarrow> GrantType \<Rightarrow> bool" where
  "containsGrantType values expected = list_ex (\<lambda>v. v = expected) values"

definition containsIdentityMethod :: "IdentityMethod list \<Rightarrow> IdentityMethod \<Rightarrow> bool" where
  "containsIdentityMethod values expected = list_ex (\<lambda>v. v = expected) values"

definition assertionOperation :: "Command \<Rightarrow> AssertionOperation" where
  "assertionOperation command =
     (if command = CommandEnroll then AssertionEnroll
      else if command = CommandGrant then AssertionGrant
      else if command = CommandRevoke then AssertionRevoke
      else if command = CommandStatus then AssertionStatus
      else [])"

definition selectGrantType :: "InspectDocument \<Rightarrow> GrantType \<Rightarrow> GrantType list \<Rightarrow> agent_error + GrantType" where
  "selectGrantType document selected preferred =
     (let advertised = elems (cmds_GrantTypes (insp_Commands document)) in
      if selected \<noteq> [] then
        (if containsGrantType advertised selected then Inr selected else Inl NoCompatibleGrantType)
      else case find (containsGrantType advertised) (if preferred = [] then advertised else preferred) of
             Some v \<Rightarrow> Inr v
           | None \<Rightarrow> Inl NoCompatibleGrantType)"

text \<open>In the Service's order.\<close>

definition intersectAlgorithms :: "SigningAlgorithm list \<Rightarrow> SigningAlgorithm list \<Rightarrow> SigningAlgorithm list" where
  "intersectAlgorithms first second = filter (\<lambda>candidate. list_ex (\<lambda>available. candidate = available) first) second"

definition isBuiltInGrantType :: "GrantType \<Rightarrow> bool" where
  "isBuiltInGrantType t \<longleftrightarrow> t = GrantTypeOAuthBearer \<or> t = GrantTypeAPIKey \<or> t = GrantTypeBasic"

definition validIdempotencyKey :: "string \<Rightarrow> bool" where
  "validIdempotencyKey key \<longleftrightarrow>
     (if key = [] \<or> key \<noteq> trim_space key then False else list_all (\<lambda>c. \<not> (byte c < 0x20 \<or> byte c = 0x7f)) key)"

definition commandError :: "int \<Rightarrow> string \<Rightarrow> agent_error" where
  "commandError status data =
     (case ParseProblemDetails data of
        Inl _ \<Rightarrow> CommandError None status (''AEP command failed with HTTP '' @ enc_int status)
      | Inr problem \<Rightarrow>
          CommandError (Some problem) status (''AEP command failed with HTTP '' @ enc_int status @ '': '' @ pd_Code problem))"

section \<open>Identities\<close>

definition validateServiceIdentityRecord :: "ServiceIdentity \<Rightarrow> string \<Rightarrow> agent_error option" where
  "validateServiceIdentityRecord identity serviceDID =
     (if \<not> has_prefix (sid_AgentDID identity) ''did:'' \<or> sid_IdentityMethod identity = [] \<or>
         sid_ServiceDID identity \<noteq> serviceDID \<or> sid_SigningAlgorithms identity = []
      then Some (failure ''AEP identity provider returned an invalid Service-scoped identity'')
      else if sid_IdentityMethod identity \<noteq> IdentityMethodDIDWeb
      then Some (failure ''AEP Agent identity method has no supported origin binding'')
      else if \<not> has_prefix (sid_AgentDID identity) ''did:web:''
      then Some (failure ''AEP Agent DID does not match its identity method'')
      else None)"

abbreviation insn_ServiceDID :: "Inspection \<Rightarrow> string" where
  "insn_ServiceDID inspection \<equiv> si_DID (insp_Service (insn_Document inspection))"

abbreviation insn_Algorithms :: "Inspection \<Rightarrow> SigningAlgorithm list" where
  "insn_Algorithms inspection \<equiv> elems (core_SigningAlgorithms (insp_Core (insn_Document inspection)))"

definition no_algorithm :: agent_error where
  "no_algorithm = failure ''AEP identity and Service have no compatible signing algorithm''"

definition validateIdentityForInspection :: "ServiceIdentity \<Rightarrow> Inspection \<Rightarrow> agent_error option" where
  "validateIdentityForInspection identity inspection =
     (case validateServiceIdentityRecord identity (insn_ServiceDID inspection) of
        Some err \<Rightarrow> Some err
      | None \<Rightarrow>
          if \<not> containsIdentityMethod (elems (idy_Methods (insp_Identity (insn_Document inspection)))) (sid_IdentityMethod identity)
          then Some (failure ''AEP Service does not advertise the Agent identity method'')
          else if intersectAlgorithms (sid_SigningAlgorithms identity) (insn_Algorithms inspection) = []
          then Some no_algorithm
          else None)"

definition Client_signerFor :: "'w Client \<Rightarrow> ctx \<Rightarrow> ServiceIdentity \<Rightarrow> ('w, 'w AssertionSigner option) agent_act" where
  "Client_signerFor client c identity = idp_SignerFor (cl_identityProvider client) c (cloneIdentity identity)"

text \<open>The identity of a Service: the session's, the stored one, or one the provider makes.\<close>

definition identity_for :: "'w Session \<Rightarrow> ctx \<Rightarrow> Inspection \<Rightarrow> ('w, ServiceIdentity) agent_act" where
  "identity_for session c inspection =
     (let client = ses_client session; serviceDID = insn_ServiceDID inspection in
      and_then (ist_FindIdentity (cl_identityStore client) c serviceDID) (\<lambda>existing.
      case existing of
        Some identity \<Rightarrow>
          (case validateIdentityForInspection identity inspection of
             Some err \<Rightarrow> fail err
           | None \<Rightarrow> ok (cloneIdentity identity))
      | None \<Rightarrow>
          (case cloneInspectDocument (insn_Document inspection) of
             Inl err \<Rightarrow> fail err
           | Inr document \<Rightarrow>
               and_then (idp_GetOrCreateIdentity (cl_identityProvider client) c
                 \<lparr>ireq_Inspect = document, ireq_ServiceDID = serviceDID, ireq_ServiceURL = cloneURL (ses_serviceURL session)\<rparr>)
                 (\<lambda>identity.
               case validateIdentityForInspection identity inspection of
                 Some err \<Rightarrow> fail err
               | None \<Rightarrow>
                   and_then (ist_SaveIdentity (cl_identityStore client) c identity) (\<lambda>_. ok (cloneIdentity identity))))))"

definition Session_resolveIdentity ::
  "'w Session \<Rightarrow> ctx \<Rightarrow> Inspection \<Rightarrow> ('w \<times> SessionState, ServiceIdentity) agent_act" where
  "Session_resolveIdentity session c inspection =
     and_then (in_session (observe sst_identity)) (\<lambda>current.
     let otherwise =
           and_then (in_session (\<lambda>s. (Inr (), s\<lparr>sst_identity := None\<rparr>))) (\<lambda>_.
           and_then (in_world (identity_for session c inspection)) (\<lambda>stored.
           and_then (in_session (\<lambda>s. (Inr (), s\<lparr>sst_identity := Some stored\<rparr>))) (\<lambda>_. ok (cloneIdentity stored)))) in
     case current of
       None \<Rightarrow> otherwise
     | Some identity \<Rightarrow>
         if sid_ServiceDID identity \<noteq> insn_ServiceDID inspection then otherwise
         else case validateIdentityForInspection identity inspection of
                Some err \<Rightarrow> fail err
              | None \<Rightarrow> ok (cloneIdentity identity))"

definition Session_Identity :: "'w Session \<Rightarrow> ctx \<Rightarrow> ('w \<times> SessionState, ServiceIdentity) agent_act" where
  "Session_Identity session c =
     and_then (in_world (Session_Inspect session c)) (\<lambda>inspection. Session_resolveIdentity session c inspection)"

section \<open>Assertions\<close>

text \<open>The claims an Agent signs; \<open>Inl\<close> when they leave the range of times or are not valid.\<close>

definition assertion_claims ::
  "'w Client \<Rightarrow> Inspection \<Rightarrow> ServiceIdentity \<Rightarrow> AssertionOperation \<Rightarrow> URL option \<Rightarrow> time \<Rightarrow> string \<Rightarrow> ClientAssertionClaims" where
  "assertion_claims client inspection identity operation resource now jti =
     \<lparr>cac_Audience = insn_ServiceDID inspection,
      cac_ExpiresAt = time_Unix now + go_div (cl_assertionLifetime client) Second, cac_IssuedAt = time_Unix now,
      cac_Issuer = sid_AgentDID identity, cac_JWTID = jti, cac_Operation = operation,
      cac_Resource = (case resource of None \<Rightarrow> [] | Some u \<Rightarrow> url_String u), cac_Subject = sid_AgentDID identity,
      cac_Additional = []\<rparr>"

definition Client_signAssertion ::
  "'w Client \<Rightarrow> ctx \<Rightarrow> Inspection \<Rightarrow> ServiceIdentity \<Rightarrow> 'w AssertionSigner option \<Rightarrow> AssertionOperation \<Rightarrow> URL option \<Rightarrow>
   ('w, string) agent_act" where
  "Client_signAssertion client c inspection identity signer operation resource =
     (case validateIdentityForInspection identity inspection of
        Some err \<Rightarrow> fail err
      | None \<Rightarrow>
     and_then (call (cl_clock client)) (\<lambda>now.
     if max_i64 - go_div (cl_assertionLifetime client) Second < time_Unix now
     then fail (failure ''AEP assertion expiration exceeds the supported time range'')
     else
     and_then (cl_jti client) (\<lambda>jti.
     let claims = assertion_claims client inspection identity operation resource now jti;
         algorithms = intersectAlgorithms (sid_SigningAlgorithms identity) (insn_Algorithms inspection) in
     case ValidateClientAssertionClaimsWithOptions claims (cl_allowInsecureLoopback client) of
       Some err \<Rightarrow> fail (Plain err)
     | None \<Rightarrow>
         if algorithms = [] then fail no_algorithm
         else case signer of
           None \<Rightarrow> fail (failure ''AEP identity provider returned no assertion signer'')
         | Some sign \<Rightarrow>
             and_then (sign c claims algorithms) (\<lambda>assertion.
             if assertion = [] then fail (failure ''AEP assertion signer returned an empty assertion'')
             else ok assertion))))"

section \<open>Running a command\<close>

definition supported :: "Inspection \<Rightarrow> Command \<Rightarrow> bool" where
  "supported inspection command = containsCommand (elems (cmds_Supported (insp_Commands (insn_Document inspection)))) command"

definition not_advertised :: "Command \<Rightarrow> agent_error" where
  "not_advertised command = failure (''AEP Service does not advertise '' @ command)"

type_synonym 'w command_context = "Inspection \<times> ServiceIdentity \<times> 'w AssertionSigner option"

definition Session_commandContext ::
  "'w Session \<Rightarrow> ctx \<Rightarrow> Command \<Rightarrow> ('w \<times> SessionState, 'w command_context) agent_act" where
  "Session_commandContext session c command =
     and_then (in_world (Session_Inspect session c)) (\<lambda>inspection.
     if \<not> supported inspection command then fail (not_advertised command)
     else
     and_then (Session_resolveIdentity session c inspection) (\<lambda>identity.
     and_then (in_world (Client_signerFor (ses_client session) c identity)) (\<lambda>signer.
     ok (inspection, identity, signer))))"

definition platform_identity :: "'w Client \<Rightarrow> ctx \<Rightarrow> Inspection \<Rightarrow> ('w, ServiceIdentity option) agent_act" where
  "platform_identity client c inspection =
     (case idp_FindIdentityByServiceDID (cl_identityProvider client) of
        None \<Rightarrow> ok None
      | Some find_by \<Rightarrow>
          and_then (find_by c (insn_ServiceDID inspection)) (\<lambda>found.
          case found of
            None \<Rightarrow> ok None
          | Some identity \<Rightarrow>
              (case validateIdentityForInspection identity inspection of
                 Some err \<Rightarrow> fail err
               | None \<Rightarrow>
                   and_then (ist_SaveIdentity (cl_identityStore client) c (cloneIdentity identity)) (\<lambda>_.
                   ok (Some identity)))))"

definition Session_existingCommandContext ::
  "'w Session \<Rightarrow> ctx \<Rightarrow> Command \<Rightarrow> ('w, 'w command_context) agent_act" where
  "Session_existingCommandContext session c command =
     (let client = ses_client session in
      and_then (Session_Inspect session c) (\<lambda>inspection.
      if \<not> supported inspection command then fail (not_advertised command)
      else
      and_then (ist_FindIdentity (cl_identityStore client) c (insn_ServiceDID inspection)) (\<lambda>stored.
      and_then (if stored = None then platform_identity client c inspection else ok stored) (\<lambda>found.
      case found of
        None \<Rightarrow> fail (CommandError None 401 ''AEP Grant requires an existing enrolled identity'')
      | Some identity \<Rightarrow>
          (case validateIdentityForInspection identity inspection of
             Some err \<Rightarrow> fail err
           | None \<Rightarrow>
               and_then (Client_signerFor client c identity) (\<lambda>signer. ok (inspection, identity, signer)))))))"

definition Session_idempotencyKey ::
  "'w Session \<Rightarrow> ctx \<Rightarrow> Inspection \<Rightarrow> OperationKey \<Rightarrow> string \<Rightarrow> ('w, string) agent_act" where
  "Session_idempotencyKey session c inspection operation provided =
     (if provided \<noteq> [] then
        (if \<not> validIdempotencyKey provided
         then fail (failure ''AEP idempotency key must be a non-empty header value without surrounding or control characters'')
         else ok provided)
      else
        and_then (cl_idempotencyKeys (ses_client session) c
          (operation\<lparr>ok_ServiceDID := insn_ServiceDID inspection, ok_ServiceURL := url_String (ses_serviceURL session)\<rparr>)) (\<lambda>key.
        if \<not> validIdempotencyKey key then fail (failure ''AEP idempotency key provider returned an unusable key'')
        else ok key))"

text \<open>The request of a command; a body that is nil is \<open>None\<close>.\<close>

definition command_request :: "http_out \<Rightarrow> string \<Rightarrow> bool \<Rightarrow> string \<Rightarrow> http_out" where
  "command_request request assertion has_body idempotencyKey =
     (let r = request_set ''Authorization'' (''AEP '' @ assertion) (request_set ''Accept'' MediaType request);
          r1 = (if has_body then request_set ''Content-Type'' MediaType r else r) in
      if idempotencyKey \<noteq> [] then request_set ''Idempotency-Key'' idempotencyKey r1 else r1)"

definition command_outcome ::
  "'w Client \<Rightarrow> URL \<Rightarrow> (string \<Rightarrow> agent_error + 'a) \<Rightarrow> agent_error http_in \<Rightarrow> agent_error + 'a CommandResult" where
  "command_outcome client commandURL parse response =
     (case readBounded response (cl_maximumResponseBytes client) of
        Inl err \<Rightarrow> Inl err
      | Inr data \<Rightarrow>
          let status = in_StatusCode response in
          if status < 200 \<or> 300 \<le> status then Inl (commandError status data)
          else if \<not> mediaTypeMatches (header_Get (in_Header response) ''Content-Type'') MediaType
          then Inl (failure ''AEP command response media type is invalid'')
          else case parse data of
                 Inl err \<Rightarrow> Inl err
               | Inr parsed \<Rightarrow> Inr \<lparr>cmr_Body = parsed, cmr_Status = status, cmr_URL = commandURL\<rparr>)"

definition executeCommand ::
  "'w Session \<Rightarrow> ctx \<Rightarrow> 'w command_context \<Rightarrow> Command \<Rightarrow> string \<Rightarrow> string option option \<Rightarrow> string \<Rightarrow>
   (string \<Rightarrow> agent_error + 'a) \<Rightarrow> ('w, 'a CommandResult) agent_act" where
  "executeCommand session c called command verb body idempotencyKey parse =
     (let client = ses_client session in
      case called of (inspection, identity, signer) \<Rightarrow>
      case Inspection_CommandURL inspection command of
        Inl err \<Rightarrow> fail err
      | Inr commandURL \<Rightarrow>
     and_then (Client_signAssertion client c inspection identity signer (assertionOperation command) None) (\<lambda>assertion.
     case (case body of None \<Rightarrow> Some [] | Some encoded \<Rightarrow> encoded) of
       None \<Rightarrow> fail (Plain (Library ''encoding/json''))
     | Some encoded \<Rightarrow>
     and_then (observe (with_timeout (cl_runtime client) c (cl_requestTimeout client))) (\<lambda>rc.
     case new_request verb (url_String commandURL) encoded of
       None \<Rightarrow> fail (Plain (Library ''net/url''))
     | Some request \<Rightarrow>
         and_then (doWithoutRedirects (cl_commandHTTPClient client) rc
           (command_request request assertion (body \<noteq> None) idempotencyKey)) (\<lambda>response.
         of_result (command_outcome client commandURL parse response)))))"

lemmas agent_command_defs [go_defs] =
  containsCommand_def containsGrantType_def containsIdentityMethod_def assertionOperation_def selectGrantType_def
  intersectAlgorithms_def isBuiltInGrantType_def validIdempotencyKey_def commandError_def
  validateServiceIdentityRecord_def no_algorithm_def validateIdentityForInspection_def Client_signerFor_def
  identity_for_def Session_resolveIdentity_def Session_Identity_def assertion_claims_def Client_signAssertion_def
  supported_def not_advertised_def Session_commandContext_def platform_identity_def Session_existingCommandContext_def
  Session_idempotencyKey_def command_request_def command_outcome_def executeCommand_def

end
