(* ===== verification/Agent_Sessions.thy ===== *)
theory Agent_Sessions
  imports Agent_Commands
begin

text \<open>
  The commands of \<open>agent/commands.go\<close> themselves: Enroll, Status and polling it, Grant and Revoke, with what
  they record of the enrollment and of the credentials.
\<close>

section \<open>Enrollment\<close>

definition enrollment_key :: "ServiceIdentity \<Rightarrow> string" where
  "enrollment_key identity = sid_ServiceDID identity @ [CHR 0x00] @ sid_AgentDID identity"

definition Session_recordEnrollment :: "ServiceIdentity \<Rightarrow> AgentStatus \<Rightarrow> ('w \<times> SessionState, unit) agent_act" where
  "Session_recordEnrollment identity status =
     in_session (\<lambda>s. (Inr (), s\<lparr>sst_activeEnrollment := (if status = AgentActive then enrollment_key identity else [])\<rparr>))"

definition Session_hasActiveEnrollment :: "ServiceIdentity \<Rightarrow> ('w \<times> SessionState, bool) agent_act" where
  "Session_hasActiveEnrollment identity = in_session (observe (\<lambda>s. sst_activeEnrollment s = enrollment_key identity))"

definition documents_advertised :: "Inspection \<Rightarrow> bool" where
  "documents_advertised inspection \<longleftrightarrow>
     (case insp_Extensions (insn_Document inspection) of
        None \<Rightarrow> False
      | Some extensions \<Rightarrow> ServiceDocumentsExtension \<in> set (elems (ext_Supported extensions)))"

definition acknowledged :: "EnrollResponse \<Rightarrow> EnrollRequest \<Rightarrow> bool" where
  "acknowledged response request \<longleftrightarrow>
     (ers_AcknowledgedDocumentIDs response = None) = (erq_AcknowledgedDocumentIDs request = None) \<and>
     elems (ers_AcknowledgedDocumentIDs response) = elems (erq_AcknowledgedDocumentIDs request)"

definition no_operation :: OperationKey where
  "no_operation = \<lparr>ok_Command = [], ok_CredentialID = [], ok_GrantType = [], ok_ServiceDID = [], ok_ServiceURL = []\<rparr>"

definition Session_Enroll ::
  "'w Session \<Rightarrow> ctx \<Rightarrow> EnrollOptions \<Rightarrow> ('w \<times> SessionState, EnrollResponse CommandResult) agent_act" where
  "Session_Enroll session c options =
     and_then (Session_commandContext session c CommandEnroll) (\<lambda>called.
     case called of (inspection, identity, signer) \<Rightarrow>
     if eno_AcknowledgedDocumentIDs options \<noteq> None \<and> \<not> documents_advertised inspection
     then fail (failure ''AEP Service does not advertise Service Documents'')
     else
     and_then (in_world (Session_idempotencyKey session c inspection (no_operation\<lparr>ok_Command := CommandEnroll\<rparr>)
                 (eno_IdempotencyKey options))) (\<lambda>key.
     let request = \<lparr>erq_AcknowledgedDocumentIDs = eno_AcknowledgedDocumentIDs options,
           erq_AgentDID = sid_AgentDID identity, erq_Claims = eno_Claims options, erq_IdempotencyKey = key,
           erq_Additional = []\<rparr> in
     case ValidateEnrollRequest request of
       Some err \<Rightarrow> fail (Plain err)
     | None \<Rightarrow>
     and_then (in_world (executeCommand session c called CommandEnroll ''POST'' (Some (EnrollRequest_MarshalJSON request)) key
                 (\<lambda>data. lift (ParseEnrollResponse data)))) (\<lambda>result.
     if ers_Status (cmr_Body result) \<noteq> AgentRejected \<and> \<not> acknowledged (cmr_Body result) request
     then fail (failure ''AEP enrollment document acknowledgement does not match the request'')
     else and_then (Session_recordEnrollment identity (ers_Status (cmr_Body result))) (\<lambda>_. ok result))))"

abbreviation status_command ::
  "'w Session \<Rightarrow> ctx \<Rightarrow> 'w command_context \<Rightarrow> ('w, StatusResponse CommandResult) agent_act" where
  "status_command session c called \<equiv>
     executeCommand session c called CommandStatus ''GET'' None [] (\<lambda>data. lift (ParseStatusResponse data))"

definition Session_Status :: "'w Session \<Rightarrow> ctx \<Rightarrow> ('w \<times> SessionState, StatusResponse CommandResult) agent_act" where
  "Session_Status session c =
     and_then (Session_commandContext session c CommandStatus) (\<lambda>called.
     case called of (inspection, identity, signer) \<Rightarrow>
     and_then (in_world (status_command session c called)) (\<lambda>result.
     and_then (Session_recordEnrollment identity (srs_Status (cmr_Body result))) (\<lambda>_. ok result)))"

text \<open>One turn of the polling loop: the final result, or \<open>None\<close> after a wait.\<close>

definition wait_turn ::
  "'w Session \<Rightarrow> ctx \<Rightarrow> duration \<Rightarrow> ('w \<times> SessionState, StatusResponse CommandResult option) agent_act" where
  "wait_turn session wc interval =
     and_then (Session_Status session wc) (\<lambda>result.
     let status = srs_Status (cmr_Body result) in
     if status = AgentActive then ok (Some result)
     else if status = AgentRejected \<or> status = AgentSuspended \<or> status = AgentTerminated
     then fail (EnrollmentStateError status)
     else
     and_then (in_world (call (rt_Sleep (cl_runtime (ses_client session)) interval wc))) (\<lambda>fired.
     if fired then ok None else fail (Plain ContextDone)))"

text \<open>The loop; \<open>None\<close> is that the fuel ran out before the polling ended.\<close>

fun wait_loop ::
  "nat \<Rightarrow> 'w Session \<Rightarrow> ctx \<Rightarrow> duration \<Rightarrow> ('w \<times> SessionState, StatusResponse CommandResult option) agent_act" where
  "wait_loop 0 session wc interval = ok None"
| "wait_loop (Suc fuel) session wc interval =
     and_then (wait_turn session wc interval) (\<lambda>turn.
     case turn of Some result \<Rightarrow> ok (Some result) | None \<Rightarrow> wait_loop fuel session wc interval)"

definition Session_WaitForActive ::
  "nat \<Rightarrow> 'w Session \<Rightarrow> ctx \<Rightarrow> WaitOptions \<Rightarrow>
   ('w \<times> SessionState, StatusResponse CommandResult option) agent_act" where
  "Session_WaitForActive fuel session c options =
     (let interval = (if wto_Interval options = 0 then Second else wto_Interval options);
          timeout = (if wto_Timeout options = 0 then cl_requestTimeout (ses_client session) else wto_Timeout options) in
      if interval \<le> 0 then fail (failure ''AEP Status polling interval must be positive'')
      else if timeout \<le> 0 then fail (failure ''AEP Status polling timeout must be positive'')
      else
      and_then (in_world (observe (with_timeout (cl_runtime (ses_client session)) c timeout))) (\<lambda>wc.
      wait_loop fuel session wc interval))"

section \<open>Grant\<close>

fun credential_times :: "BuiltInGrantResponse \<Rightarrow> (string \<times> string) option" where
  "credential_times (OAuthBearer v) = Some (oauth_CredentialID v, oauth_ExpiresAt v)"
| "credential_times (APIKey v) = Some (key_CredentialID v, key_ExpiresAt v)"
| "credential_times (Basic v) = Some (basic_CredentialID v, basic_ExpiresAt v)"
| "credential_times _ = None"

definition credentialRecord ::
  "BuiltInGrantResponse \<Rightarrow> RawMessage \<Rightarrow> Inspection \<Rightarrow> time \<Rightarrow> agent_error + CredentialRecord" where
  "credentialRecord credential raw inspection issuedAt =
     (case credential_times credential of
        None \<Rightarrow> Inl (failure ''unsupported AEP built-in credential'')
      | Some (identifier, expiresAt) \<Rightarrow>
          (case parse_rfc3339 expiresAt of
             None \<Rightarrow> Inl (Plain (Library ''time''))
           | Some expiry \<Rightarrow>
               Inr \<lparr>cr_CredentialID = identifier, cr_ExpiresAt = expiry, cr_GrantType = GrantType_of credential,
                    cr_IssuedAt = issuedAt, cr_Payload = raw, cr_ServiceDID = insn_ServiceDID inspection,
                    cr_ServiceURL = url_String (insn_ServiceURL inspection)\<rparr>))"

definition parse_granted :: "GrantType \<Rightarrow> string \<Rightarrow> agent_error + GrantResult" where
  "parse_granted grantType data =
     (case ParseBuiltInGrantResponse grantType data of
        Inr credential \<Rightarrow> Inr \<lparr>grr_Credential = Some credential, grr_GrantType = grantType, grr_Raw = data\<rparr>
      | Inl err \<Rightarrow>
          if isBuiltInGrantType grantType then Inl (Plain err)
          else case dec_object data of
                 Some (Some members) \<Rightarrow> Inr \<lparr>grr_Credential = None, grr_GrantType = grantType, grr_Raw = data\<rparr>
               | _ \<Rightarrow> Inl (failure ''AEP Grant response must be a JSON object''))"

text \<open>Grant asks for the status of an enrollment it does not know to be active.\<close>

definition require_active :: "'w Session \<Rightarrow> ctx \<Rightarrow> 'w command_context \<Rightarrow> ('w \<times> SessionState, unit) agent_act" where
  "require_active session c called =
     (case called of (inspection, identity, signer) \<Rightarrow>
      and_then (Session_hasActiveEnrollment identity) (\<lambda>active.
      if active then ok ()
      else if \<not> supported inspection CommandStatus
      then fail (failure ''AEP Grant requires active enrollment; call Enroll or use a Service advertising Status'')
      else
      and_then (in_world (status_command session c called)) (\<lambda>status.
      and_then (Session_recordEnrollment identity (srs_Status (cmr_Body status))) (\<lambda>_.
      if srs_Status (cmr_Body status) \<noteq> AgentActive
      then fail (CommandError None 401 ''AEP Grant requires active enrollment'')
      else ok ()))))"

definition keep_granted :: "'w Session \<Rightarrow> ctx \<Rightarrow> Inspection \<Rightarrow> GrantResult \<Rightarrow> ('w, unit) agent_act" where
  "keep_granted session c inspection granted =
     (let client = ses_client session in
      case grr_Credential granted of
        None \<Rightarrow> ok ()
      | Some credential \<Rightarrow>
          and_then (call (cl_clock client)) (\<lambda>issued.
          case credentialRecord credential (grr_Raw granted) inspection issued of
            Inl err \<Rightarrow> fail err
          | Inr record \<Rightarrow>
              and_then (call (cl_clock client)) (\<lambda>now.
              case validateStoredCredential record (insn_ServiceDID inspection) now of
                Some err \<Rightarrow> fail err
              | None \<Rightarrow> cst_SaveCredential (cl_credentialStore client) c record)))"

definition Session_Grant ::
  "'w Session \<Rightarrow> ctx \<Rightarrow> GrantOptions \<Rightarrow> ('w \<times> SessionState, GrantResult CommandResult) agent_act" where
  "Session_Grant session c options =
     and_then (in_world (Session_existingCommandContext session c CommandGrant)) (\<lambda>called.
     case called of (inspection, identity, signer) \<Rightarrow>
     case selectGrantType (insn_Document inspection) (gro_GrantType options) (gro_PreferredGrantTypes options) of
       Inl err \<Rightarrow> fail err
     | Inr grantType \<Rightarrow>
     and_then (require_active session c called) (\<lambda>_.
     and_then (in_world (Session_idempotencyKey session c inspection
                 (no_operation\<lparr>ok_Command := CommandGrant, ok_GrantType := grantType\<rparr>) (gro_IdempotencyKey options))) (\<lambda>key.
     let request = \<lparr>grq_GrantType = grantType, grq_RequestedScopes = append_nil (gro_RequestedScopes options),
           grq_Additional = []\<rparr> in
     case ValidateGrantRequest request of
       Some err \<Rightarrow> fail (Plain err)
     | None \<Rightarrow>
     and_then (in_world (executeCommand session c called CommandGrant ''POST'' (Some (GrantRequest_MarshalJSON request)) key
                 (parse_granted grantType))) (\<lambda>result.
     and_then (in_world (keep_granted session c inspection (cmr_Body result))) (\<lambda>_. ok result)))))"

section \<open>Revoke\<close>

definition revoke_matches :: "RevokeRequest \<Rightarrow> CredentialRecord \<Rightarrow> bool" where
  "revoke_matches selector record \<longleftrightarrow>
     rrq_AllGrantTypes selector = ''true'' \<or> rrq_CredentialID selector = cr_CredentialID record \<or>
     (rrq_CredentialID selector = [] \<and> rrq_GrantType selector = cr_GrantType record)"

fun delete_matching ::
  "'w CredentialStore \<Rightarrow> ctx \<Rightarrow> string \<Rightarrow> RevokeRequest \<Rightarrow> CredentialRecord list \<Rightarrow> ('w, unit) agent_act" where
  "delete_matching store c serviceDID selector [] = ok ()"
| "delete_matching store c serviceDID selector (record # records) =
     (if revoke_matches selector record
      then and_then (cst_DeleteCredential store c serviceDID (cr_CredentialID record)) (\<lambda>_.
             delete_matching store c serviceDID selector records)
      else delete_matching store c serviceDID selector records)"

definition Session_deleteRevokedCredentials ::
  "'w Session \<Rightarrow> ctx \<Rightarrow> string \<Rightarrow> RevokeRequest \<Rightarrow> ('w, unit) agent_act" where
  "Session_deleteRevokedCredentials session c serviceDID selector =
     (let store = cl_credentialStore (ses_client session) in
      and_then (cst_ListCredentials store c serviceDID) (\<lambda>records. delete_matching store c serviceDID selector records))"

definition per_credential :: "Inspection \<Rightarrow> GrantType \<Rightarrow> bool" where
  "per_credential inspection grantType \<longleftrightarrow>
     (case map_of (cmds_GrantTypesConfig (insp_Commands (insn_Document inspection))) grantType of
        None \<Rightarrow> False
      | Some config \<Rightarrow> gtc_SupportsPerCredentialRevoke config = ''true'')"

definition revoke_request :: "RevokeOptions \<Rightarrow> RevokeRequest" where
  "revoke_request options =
     (if rvo_AllGrantTypes options
      then \<lparr>rrq_GrantType = [], rrq_CredentialID = [], rrq_AllGrantTypes = ''true'', rrq_Additional = []\<rparr>
      else \<lparr>rrq_GrantType = rvo_GrantType options, rrq_CredentialID = rvo_CredentialID options, rrq_AllGrantTypes = [],
            rrq_Additional = []\<rparr>)"

definition Session_Revoke ::
  "'w Session \<Rightarrow> ctx \<Rightarrow> RevokeOptions \<Rightarrow> ('w \<times> SessionState, RevokeResponse CommandResult) agent_act" where
  "Session_Revoke session c options =
     (if rvo_AllGrantTypes options \<and> (rvo_GrantType options \<noteq> [] \<or> rvo_CredentialID options \<noteq> [])
      then fail (failure ''AEP all-grant-types Revoke cannot include a grant type or credential ID'')
      else
      and_then (Session_commandContext session c CommandRevoke) (\<lambda>called.
      case called of (inspection, identity, signer) \<Rightarrow>
      let request = revoke_request options in
      case ValidateRevokeRequest request of
        Some err \<Rightarrow> fail (Plain err)
      | None \<Rightarrow>
          if rrq_GrantType request \<noteq> [] \<and>
             \<not> containsGrantType (elems (cmds_GrantTypes (insp_Commands (insn_Document inspection)))) (rrq_GrantType request)
          then fail NoCompatibleGrantType
          else if rrq_CredentialID request \<noteq> [] \<and> \<not> per_credential inspection (rrq_GrantType request)
          then fail (failure ''AEP Service does not advertise per-credential Revoke'')
          else
      and_then (in_world (Session_idempotencyKey session c inspection
                  (no_operation\<lparr>ok_Command := CommandRevoke, ok_CredentialID := rrq_CredentialID request,
                     ok_GrantType := rrq_GrantType request\<rparr>) (rvo_IdempotencyKey options))) (\<lambda>key.
      and_then (in_world (executeCommand session c called CommandRevoke ''POST'' (Some (RevokeRequest_MarshalJSON request)) key
                  (\<lambda>data. lift (ParseRevokeResponse data)))) (\<lambda>result.
      and_then (in_world (Session_deleteRevokedCredentials session c (insn_ServiceDID inspection) request)) (\<lambda>_.
      ok result)))))"

lemmas agent_session_defs [go_defs] =
  enrollment_key_def Session_recordEnrollment_def Session_hasActiveEnrollment_def documents_advertised_def
  acknowledged_def no_operation_def Session_Enroll_def Session_Status_def wait_turn_def Session_WaitForActive_def
  credentialRecord_def parse_granted_def require_active_def keep_granted_def Session_Grant_def revoke_matches_def
  Session_deleteRevokedCredentials_def per_credential_def revoke_request_def Session_Revoke_def

end
