(* ===== verification/Agent_Authentication.thy ===== *)
theory Agent_Authentication
  imports Agent_Sessions
begin

text \<open>
  \<open>agent/authentication.go\<close>: the header fields that authenticate a request to a protected resource, from
  a stored credential or from a new assertion.
\<close>

definition authenticationMethods :: "InspectDocument \<Rightarrow> AuthenticationMethod list" where
  "authenticationMethods document =
     (case insp_Authentication document of None \<Rightarrow> [] | Some authentication \<Rightarrow> elems (auth_Methods authentication))"

definition containsAuthenticationMethod :: "AuthenticationMethod list \<Rightarrow> AuthenticationMethod \<Rightarrow> bool" where
  "containsAuthenticationMethod values expected = list_ex (\<lambda>v. v = expected) values"

fun method_index_from :: "int \<Rightarrow> AuthenticationMethod list \<Rightarrow> AuthenticationMethod \<Rightarrow> int" where
  "method_index_from n [] expected = -1"
| "method_index_from n (v # vs) expected = (if v = expected then n else method_index_from (n + 1) vs expected)"

definition authenticationMethodIndex :: "AuthenticationMethod list \<Rightarrow> AuthenticationMethod \<Rightarrow> int" where
  "authenticationMethodIndex values expected = method_index_from 0 values expected"

definition validateProtectedResource :: "URL \<Rightarrow> URL \<Rightarrow> bool \<Rightarrow> agent_error option" where
  "validateProtectedResource resource serviceURL allowInsecureLoopback =
     (if url_Opaque resource \<noteq> [] \<or> url_Host resource = [] \<or> url_User resource \<noteq> None \<or> url_Fragment resource \<noteq> []
      then Some (failure ''AEP protected resource URL is invalid'')
      else if url_Scheme resource \<noteq> ''https'' \<and>
         \<not> (allowInsecureLoopback \<and> url_Scheme resource = ''http'' \<and> isLoopback (url_Hostname resource))
      then Some (failure ''AEP protected resource requires HTTPS'')
      else if \<not> sameOrigin resource serviceURL then Some (failure ''AEP protected resource must use the Service origin'')
      else None)"

definition Session_ForgetCredential :: "'w Session \<Rightarrow> ctx \<Rightarrow> string \<Rightarrow> ('w, unit) agent_act" where
  "Session_ForgetCredential session c identifier =
     (if identifier = [] then fail (failure ''AEP credential ID is required'')
      else
      and_then (Session_Inspect session c) (\<lambda>inspection.
      cst_DeleteCredential (cl_credentialStore (ses_client session)) c (insn_ServiceDID inspection) identifier))"

text \<open>The loops over the methods and the records: the first record of the first method that has one.\<close>

fun first_record ::
  "AuthenticationMethod list \<Rightarrow> GrantType \<Rightarrow> CredentialRecord list \<Rightarrow> CredentialRecord option" where
  "first_record [] grantType records = None"
| "first_record (m # ms) grantType records =
     (case find (\<lambda>r. cr_GrantType r = m \<and> (grantType = [] \<or> cr_GrantType r = grantType)) records of
        Some r \<Rightarrow> Some r
      | None \<Rightarrow> first_record ms grantType records)"

definition Session_findCredential ::
  "'w Session \<Rightarrow> ctx \<Rightarrow> string \<Rightarrow> AuthenticationMethod list \<Rightarrow> AuthenticationOptions \<Rightarrow>
   ('w, CredentialRecord option) agent_act" where
  "Session_findCredential session c serviceDID methods options =
     (let client = ses_client session; store = cl_credentialStore client; grantType = aho_GrantType options in
      if aho_CredentialID options \<noteq> [] then
        and_then (cst_FindCredential store c serviceDID (aho_CredentialID options)) (\<lambda>found.
        case found of
          None \<Rightarrow> ok None
        | Some record \<Rightarrow>
            and_then (call (cl_clock client)) (\<lambda>now.
            case validateStoredCredential (cloneCredential record) serviceDID now of
              Some err \<Rightarrow> fail err
            | None \<Rightarrow>
                if grantType \<noteq> [] \<and> cr_GrantType record \<noteq> grantType
                then fail (failure ''stored AEP credential does not match the requested grant type'')
                else if \<not> containsAuthenticationMethod methods (cr_GrantType record) then fail NoAuthenticationMethod
                else ok (Some (cloneCredential record))))
      else
        and_then (cst_ListCredentials store c serviceDID) (\<lambda>records.
        case first_record methods grantType records of
          None \<Rightarrow> ok None
        | Some record \<Rightarrow>
            and_then (call (cl_clock client)) (\<lambda>now.
            case validateStoredCredential (cloneCredential record) serviceDID now of
              Some err \<Rightarrow> fail err
            | None \<Rightarrow> ok (Some (cloneCredential record)))))"

text \<open>The methods a request may use, and those of them a stored credential may serve.\<close>

definition usable_methods :: "InspectDocument \<Rightarrow> AuthenticationMethod slice \<Rightarrow> AuthenticationMethod list" where
  "usable_methods document allowed =
     (case allowed of
        None \<Rightarrow> authenticationMethods document
      | Some ms \<Rightarrow> filter (containsAuthenticationMethod ms) (authenticationMethods document))"

definition credential_methods :: "AuthenticationMethod list \<Rightarrow> AuthenticationOptions \<Rightarrow> AuthenticationMethod list" where
  "credential_methods methods options =
     (let jwtIndex = authenticationMethodIndex methods AuthenticationMethodJWT in
      if aho_CredentialID options = [] \<and> aho_GrantType options = [] \<and> 0 \<le> jwtIndex
      then take (nat jwtIndex) methods else methods)"

text \<open>The header fields of a stored credential, if one is to be used.\<close>

definition stored_headers ::
  "'w Session \<Rightarrow> ctx \<Rightarrow> Inspection \<Rightarrow> AuthenticationMethod list \<Rightarrow> AuthenticationOptions \<Rightarrow>
   ('w, Header option) agent_act" where
  "stored_headers session c inspection methods options =
     (let selected = aho_CredentialID options \<noteq> [] \<or> aho_GrantType options \<noteq> [];
          candidates = credential_methods methods options in
      if aho_ClientAssertionOnly options \<or> (candidates = [] \<and> \<not> selected) then ok None
      else
      and_then (Session_findCredential session c (insn_ServiceDID inspection) candidates options) (\<lambda>found.
      case found of
        Some record \<Rightarrow> (case credentialHeaders record (aho_Carrier options) of Inl err \<Rightarrow> fail err | Inr h \<Rightarrow> ok (Some h))
      | None \<Rightarrow> if selected then fail CredentialNotFound else ok None))"

definition assertion_headers ::
  "'w Session \<Rightarrow> ctx \<Rightarrow> Inspection \<Rightarrow> AuthenticationOptions \<Rightarrow> URL \<Rightarrow> ('w \<times> SessionState, Header) agent_act" where
  "assertion_headers session c inspection options resource =
     (let client = ses_client session in
      and_then (Session_resolveIdentity session c inspection) (\<lambda>identity.
      and_then (in_world (Client_signerFor client c identity)) (\<lambda>signer.
      and_then (in_world (Client_signAssertion client c inspection identity signer AssertionAuthenticate (Some resource))) (\<lambda>assertion.
      case ProtectedResourceAuthorizationHeader (aho_Carrier options) of
        Inl err \<Rightarrow> fail (Plain err)
      | Inr headerName \<Rightarrow> ok (header_Set headerName (''AEP '' @ assertion) (Some []))))))"

definition exclusive_selection :: "AuthenticationOptions \<Rightarrow> bool" where
  "exclusive_selection options \<longleftrightarrow>
     aho_ClientAssertionOnly options \<and> (aho_CredentialID options \<noteq> [] \<or> aho_GrantType options \<noteq> [])"

abbreviation exclusive_error :: agent_error where
  "exclusive_error \<equiv>
     failure ''AEP credential selection cannot be combined with client-assertion-only authentication''"

definition Session_AuthenticationHeaders ::
  "'w Session \<Rightarrow> ctx \<Rightarrow> AuthenticationOptions \<Rightarrow> ('w \<times> SessionState, Header) agent_act" where
  "Session_AuthenticationHeaders session c options =
     (if exclusive_selection options then fail exclusive_error
      else
      and_then (in_world (Session_Inspect session c)) (\<lambda>inspection.
      case aho_Resource options of
        None \<Rightarrow> fail (failure ''AEP protected-resource authentication requires a resource URL'')
      | Some resource \<Rightarrow>
     (case validateProtectedResource resource (ses_serviceURL session) (cl_allowInsecureLoopback (ses_client session)) of
        Some err \<Rightarrow> fail err
      | None \<Rightarrow>
     (case ProtectedResourceAuthorizationHeader (aho_Carrier options) of
        Inl err \<Rightarrow> fail (Plain err)
      | Inr _ \<Rightarrow>
          let methods = usable_methods (insn_Document inspection) (aho_AllowedMethods options) in
          if aho_GrantType options \<noteq> [] \<and> \<not> containsAuthenticationMethod methods (aho_GrantType options)
          then fail NoAuthenticationMethod
          else
          and_then (in_world (stored_headers session c inspection methods options)) (\<lambda>stored.
          case stored of
            Some headers \<Rightarrow> ok headers
          | None \<Rightarrow>
              if \<not> containsAuthenticationMethod methods AuthenticationMethodJWT then fail NoAuthenticationMethod
              else assertion_headers session c inspection options resource)))))"

lemmas agent_authentication_defs [go_defs] =
  authenticationMethods_def containsAuthenticationMethod_def authenticationMethodIndex_def
  validateProtectedResource_def Session_ForgetCredential_def Session_findCredential_def
  usable_methods_def credential_methods_def stored_headers_def assertion_headers_def exclusive_selection_def
  Session_AuthenticationHeaders_def

end
