(* ===== verification/Agent_Openapi.thy ===== *)
theory Agent_Openapi
  imports Agent_Authentication
begin

text \<open>
  \<open>agent/openapi.go\<close>: what the OpenAPI document of a Service says of the authentication of an operation,
  and the cache of these documents. The loop over redirects recurses on the redirects that are left.
\<close>

section \<open>The policy of an operation\<close>

record OpenAPIOperationPolicy =
  oop_State :: string
  oop_Methods :: "AuthenticationMethod list"
  oop_MatchedOperation :: "OpenAPIPathMatch option"

definition fallback_policy :: OpenAPIOperationPolicy where
  "fallback_policy = \<lparr>oop_State = ''fallback'', oop_Methods = [], oop_MatchedOperation = None\<rparr>"

record OpenAPIDocument =
  oad_Version :: string
  oad_Paths :: "(string \<times> (string \<times> RawMessage) slice) slice"
  oad_Security :: RawMessage
  oad_SecuritySchemes :: "(string \<times> RawMessage) slice"

definition zero_openapi_document :: OpenAPIDocument where
  "zero_openapi_document = \<lparr>oad_Version = [], oad_Paths = None, oad_Security = [], oad_SecuritySchemes = None\<rparr>"

definition fields_openapi_document :: "OpenAPIDocument fields" where
  "fields_openapi_document =
     [(''openapi'', on_field dec_string oad_Version (\<lambda>x. oad_Version_update (\<lambda>_. x))),
      (''paths'', on_field (dec_map (dec_map dec_raw []) None) oad_Paths (\<lambda>x. oad_Paths_update (\<lambda>_. x))),
      (''security'', on_field dec_raw oad_Security (\<lambda>x. oad_Security_update (\<lambda>_. x))),
      (''components'', dec_struct
         [(''securitySchemes'', on_field (dec_map dec_raw []) oad_SecuritySchemes (\<lambda>x. oad_SecuritySchemes_update (\<lambda>_. x)))])]"

text \<open>\<open>json.Unmarshal\<close> of the entry of a map, which fails where there is none.\<close>

definition dec_entry :: "'a decoder \<Rightarrow> 'a \<Rightarrow> (string \<times> RawMessage) list \<Rightarrow> string \<Rightarrow> 'a option" where
  "dec_entry f zero m key = (case map_of m key of None \<Rightarrow> None | Some raw \<Rightarrow> f raw zero)"

text \<open>The operation of a path item; \<open>Some None\<close> is a null one.\<close>

definition operation_of :: "OpenAPIDocument \<Rightarrow> string \<Rightarrow> string \<Rightarrow> (string \<times> RawMessage) slice option" where
  "operation_of document path verb =
     (case map_of (elems (oad_Paths document)) path of
        None \<Rightarrow> None
      | Some item \<Rightarrow> dec_entry (dec_map dec_raw []) None (elems item) verb)"

definition documented_paths :: "OpenAPIDocument \<Rightarrow> string \<Rightarrow> string list" where
  "documented_paths document verb =
     filter (\<lambda>path. case operation_of document path verb of Some (Some _) \<Rightarrow> True | _ \<Rightarrow> False)
       (map fst (elems (oad_Paths document)))"

text \<open>The method a requirement on one scheme names, if it is understood.\<close>

definition scheme_method :: "(string \<times> RawMessage) list \<Rightarrow> string \<Rightarrow> RawMessage \<Rightarrow> AuthenticationMethod option" where
  "scheme_method schemes name scopes =
     (case dec_slice dec_string [] scopes None of
        Some (Some requiredScopes) \<Rightarrow>
          (case dec_entry (dec_struct [(''x-aep-authentication-method'', on_field dec_string (\<lambda>m. m) (\<lambda>x m. x))]) [] schemes name of
             None \<Rightarrow> None
           | Some mthd \<Rightarrow> if mthd = [] then None else Some mthd)
      | _ \<Rightarrow> None)"

text \<open>The loop over the alternatives; \<open>None\<close> is one that requires nothing.\<close>

fun alternative_methods ::
  "(string \<times> RawMessage) list \<Rightarrow> (string \<times> RawMessage) slice list \<Rightarrow> AuthenticationMethod list \<Rightarrow>
   AuthenticationMethod list option" where
  "alternative_methods schemes [] methods = Some methods"
| "alternative_methods schemes (alternative # rest) methods =
     (case alternative of
        None \<Rightarrow> alternative_methods schemes rest methods
      | Some [] \<Rightarrow> None
      | Some [(name, scopes)] \<Rightarrow>
          (case scheme_method schemes name scopes of
             None \<Rightarrow> alternative_methods schemes rest methods
           | Some mthd \<Rightarrow>
               alternative_methods schemes rest
                 (if containsAuthenticationMethod methods mthd then methods else methods @ [mthd]))
      | Some _ \<Rightarrow> alternative_methods schemes rest methods)"

definition security_policy ::
  "OpenAPIDocument \<Rightarrow> OpenAPIPathMatch \<Rightarrow> RawMessage \<Rightarrow> OpenAPIOperationPolicy" where
  "security_policy document match security =
     (case dec_slice (dec_map dec_raw []) None security None of
        Some (Some alternatives) \<Rightarrow>
          (case alternative_methods (elems (oad_SecuritySchemes document)) alternatives [] of
             None \<Rightarrow> \<lparr>oop_State = ''public'', oop_Methods = [], oop_MatchedOperation = Some match\<rparr>
           | Some methods \<Rightarrow>
               \<lparr>oop_State = (if alternatives = [] then ''public'' else if methods = [] then ''fallback'' else ''required''),
                oop_Methods = methods, oop_MatchedOperation = Some match\<rparr>)
      | _ \<Rightarrow> fallback_policy)"

definition InterpretOpenAPIOperation :: "string \<Rightarrow> OpenAPIPathMatchOptions \<Rightarrow> agent_error + OpenAPIOperationPolicy" where
  "InterpretOpenAPIOperation data options0 =
     (case (if json_parse data = None then None else dec_struct fields_openapi_document data zero_openapi_document) of
        None \<Rightarrow> Inl (failure ''AEP OpenAPI document must be OpenAPI 3.1 JSON'')
      | Some document \<Rightarrow>
          if \<not> has_prefix (oad_Version document) ''3.1.''
          then Inl (failure ''AEP OpenAPI document must be OpenAPI 3.1 JSON'')
          else
          let options = (if opmo_Method options0 = [] then options0\<lparr>opmo_Method := ''GET''\<rparr> else options0);
              verb = to_lower (opmo_Method options) in
          case MatchOpenAPIPath (documented_paths document verb) options of
            Inl err \<Rightarrow> Inr fallback_policy
          | Inr match \<Rightarrow>
              (case operation_of document (opm_Template match) verb of
                 None \<Rightarrow> Inl (Plain (Library ''encoding/json''))
               | Some operation \<Rightarrow>
                   Inr (security_policy document match
                     (case map_of (elems operation) ''security'' of Some security \<Rightarrow> security | None \<Rightarrow> oad_Security document))))"

section \<open>Fetching a document\<close>

definition openapi_request :: "URL \<Rightarrow> openAPIEntry option \<Rightarrow> http_out option" where
  "openapi_request current cached =
     map_option (\<lambda>request. conditional (map_option oae_metadata cached)
       (request_set ''Accept'' ''application/vnd.oai.openapi+json;version=3.1, application/json'' request))
       (new_request ''GET'' (url_String current) [])"

text \<open>The zero entry; only its metadata is read before it is set.\<close>

definition zero_entry :: InspectCacheEntry where
  "zero_entry = \<lparr>ice_CacheControl = [], ice_CachedAt = zero_time, ice_ETag = [], ice_FinalURL = [], ice_LastModified = [],
     ice_Document = zero_inspect\<rparr>"

definition openapi_media :: "Header \<Rightarrow> bool" where
  "openapi_media headers \<longleftrightarrow>
     (case mime_Parse (header_Get headers ''Content-Type'') of
        None \<Rightarrow> False
      | Some (mediaType, params) \<Rightarrow>
          equal_fold mediaType ''application/json'' \<or>
          (equal_fold mediaType ''application/vnd.oai.openapi+json'' \<and> params ''version'' = ''3.1''))"

definition openapi_entry ::
  "'w Client \<Rightarrow> agent_error http_in \<Rightarrow> openAPIEntry option \<Rightarrow> agent_error + openAPIEntry" where
  "openapi_entry client response cached =
     (let status = in_StatusCode response in
      if status = 304 then
        (case cached of
           None \<Rightarrow> Inl (failure ''OpenAPI returned 304 without a cached document'')
         | Some old \<Rightarrow> Inr old)
      else if status < 200 \<or> 300 \<le> status then Inl (failure (''OpenAPI returned HTTP '' @ enc_int status))
      else if \<not> openapi_media (in_Header response) then Inl (failure ''OpenAPI response media type is invalid'')
      else case readBounded response (cl_maximumResponseBytes client) of
        Inl err \<Rightarrow> Inl err
      | Inr data \<Rightarrow>
          (case InterpretOpenAPIOperation data \<lparr>opmo_Method = ''GET'', opmo_Path = ''/'', opmo_TrailingSlash = ''strict''\<rparr> of
             Inl err \<Rightarrow> Inl err
           | Inr _ \<Rightarrow> Inr \<lparr>oae_metadata = zero_entry, oae_data = data\<rparr>))"

definition Client_readOpenAPI ::
  "'w Client \<Rightarrow> agent_error http_in \<Rightarrow> URL \<Rightarrow> openAPIEntry option \<Rightarrow> ('w, openAPIEntry) agent_act" where
  "Client_readOpenAPI client response current cached =
     (case openapi_entry client response cached of
        Inl err \<Rightarrow> fail err
      | Inr e \<Rightarrow>
          and_then (call (cl_clock client)) (\<lambda>now.
          ok (e\<lparr>oae_metadata := (mergeCacheHeaders (oae_metadata e) (in_Header response))
                  \<lparr>ice_FinalURL := url_String current, ice_CachedAt := now\<rparr>\<rparr>)))"

definition openapi_next :: "'w Client \<Rightarrow> URL \<Rightarrow> string \<Rightarrow> agent_error + URL" where
  "openapi_next client current location =
     (if location = [] then Inl (failure ''OpenAPI redirect omitted Location'')
      else case ResolveOpenAPIURL (url_String current) location (cl_allowInsecureLoopback client) of
        Inl err \<Rightarrow> Inl (Plain err)
      | Inr next \<Rightarrow>
          if url_Scheme current = ''https'' \<and> url_Scheme next \<noteq> ''https''
          then Inl (failure ''OpenAPI redirect downgraded transport'')
          else Inr next)"

definition openapi_keep :: "'w Client \<Rightarrow> string \<Rightarrow> openAPIEntry \<Rightarrow> ('w, string) agent_act" where
  "openapi_keep client key e =
     at (cl_openAPICache client) (\<lambda>cache. (Inr (oae_data e),
       if cacheDirective (ice_CacheControl (oae_metadata e)) ''no-store''
       then AList.delete key cache else AList.update key e cache))"

fun openapi_loop ::
  "'w Client \<Rightarrow> ctx \<Rightarrow> string \<Rightarrow> openAPIEntry option \<Rightarrow> nat \<Rightarrow> URL \<Rightarrow> ('w, string) agent_act" where
  "openapi_loop client rc key cached left current =
     (case openapi_request current cached of
        None \<Rightarrow> fail (Plain (Library ''net/url''))
      | Some request \<Rightarrow>
     and_then (doWithoutRedirects (cl_inspectHTTPClient client) rc request) (\<lambda>response.
     if isRedirect (in_StatusCode response) then
       (case left of
          0 \<Rightarrow> fail (failure ''OpenAPI exceeded five redirects'')
        | Suc n \<Rightarrow>
            (case openapi_next client current (header_Get (in_Header response) ''Location'') of
               Inl err \<Rightarrow> fail err
             | Inr next \<Rightarrow> openapi_loop client rc key cached n next))
     else and_then (Client_readOpenAPI client response current cached) (\<lambda>e. openapi_keep client key e)))"

declare openapi_loop.simps [simp del]

definition Client_openAPI :: "'w Client \<Rightarrow> ctx \<Rightarrow> URL \<Rightarrow> bool \<Rightarrow> ('w, string) agent_act" where
  "Client_openAPI client c target revalidate =
     (let key = url_String target in
      and_then (observe (with_timeout (cl_runtime client) c (cl_requestTimeout client))) (\<lambda>rc.
      and_then (observe (\<lambda>w. map_of (part_get (cl_openAPICache client) w) key)) (\<lambda>cached.
      and_then (if revalidate \<or> cached = None then ok False
                else and_then (call (cl_clock client)) (\<lambda>now.
                       ok (case cached of None \<Rightarrow> False | Some e \<Rightarrow> inspectCacheFresh (oae_metadata e) now))) (\<lambda>fresh.
      case cached of
        None \<Rightarrow> openapi_loop client rc key None 5 target
      | Some e \<Rightarrow>
          if fresh then ok (oae_data e)
          else case url_Parse (ice_FinalURL (oae_metadata e)) of
                 None \<Rightarrow> fail (Plain (Library ''net/url''))
               | Some current \<Rightarrow> openapi_loop client rc key (Some e) 5 current))))"

definition Session_openAPIPolicy ::
  "'w Session \<Rightarrow> ctx \<Rightarrow> string \<Rightarrow> URL option \<Rightarrow> bool \<Rightarrow> ('w, OpenAPIOperationPolicy) agent_act" where
  "Session_openAPIPolicy session c verb resource revalidate =
     (let client = ses_client session in
      case resource of
        None \<Rightarrow> fail (failure ''AEP OpenAPI policy requires a resource URL'')
      | Some target_resource \<Rightarrow>
     (case validateProtectedResource target_resource (ses_serviceURL session) (cl_allowInsecureLoopback client) of
        Some err \<Rightarrow> fail err
      | None \<Rightarrow>
     and_then (Session_Inspect session c) (\<lambda>inspection.
     case http_OpenAPI (insp_HTTP (insn_Document inspection)) of
       None \<Rightarrow> ok fallback_policy
     | Some advertisement \<Rightarrow>
    (case ResolveOpenAPIURL (url_String (insn_FinalURL inspection)) (oar_URL advertisement) (cl_allowInsecureLoopback client) of
       Inl err \<Rightarrow> fail (Plain err)
     | Inr target \<Rightarrow>
         if url_Scheme (insn_FinalURL inspection) = ''https'' \<and> url_Scheme target \<noteq> ''https''
         then fail (failure ''AEP OpenAPI URL downgrades transport'')
         else
         and_then (Client_openAPI client c target revalidate) (\<lambda>data.
         of_result (InterpretOpenAPIOperation data \<lparr>opmo_Method = verb, opmo_Path = url_EscapedPath target_resource,
           opmo_TrailingSlash = opm_TrailingSlash (oar_PathMatching advertisement)\<rparr>))))))"

definition Session_OpenAPIPolicy ::
  "'w Session \<Rightarrow> ctx \<Rightarrow> string \<Rightarrow> URL option \<Rightarrow> ('w, OpenAPIOperationPolicy) agent_act" where
  "Session_OpenAPIPolicy session c verb resource = Session_openAPIPolicy session c verb resource False"

lemmas agent_openapi_defs [go_defs] =
  fallback_policy_def zero_openapi_document_def fields_openapi_document_def dec_entry_def operation_of_def
  documented_paths_def scheme_method_def security_policy_def InterpretOpenAPIOperation_def openapi_request_def
  zero_entry_def openapi_media_def openapi_entry_def Client_readOpenAPI_def openapi_next_def openapi_keep_def
  Client_openAPI_def Session_openAPIPolicy_def Session_OpenAPIPolicy_def

end
