(* ===== verification/Agent_Resource.thy ===== *)
theory Agent_Resource
  imports Agent_Openapi
begin

text \<open>
  \<open>agent/resource.go\<close>: fetching a protected resource. Each turn of the loop makes its own session; it ends
  with a response or with the target of the next turn, and the loop recurses on the redirects that are
  left. Closing a body has no effect here.
\<close>

section \<open>Requests and options\<close>

text \<open>
  What is read of the caller's \<open>http.Request\<close>. \<open>rsq_Body\<close> says that there is a body; \<open>GetBody\<close> gives its
  text and the error of closing it, or no reader.
\<close>

record 'w ResourceRequest =
  rsq_Method :: string
  rsq_URL :: "URL option"
  rsq_Header :: Header
  rsq_Trailer :: Header
  rsq_Body :: bool
  rsq_GetBody :: "('w, (string \<times> agent_error option) option) agent_act option"

record ProtectedResourceOptions =
  pro_Authentication :: AuthenticationOptions
  pro_AdditionalAuthenticationHeaders :: Header
  pro_MaximumRedirects :: int

section \<open>Header fields\<close>

definition removeResourceHeaders :: "string list \<Rightarrow> Header \<Rightarrow> Header" where
  "removeResourceHeaders names header =
     map_option (filter (\<lambda>(candidate, _). \<not> list_ex (equal_fold candidate) names)) header"

definition resourceHasHeader :: "Header \<Rightarrow> string \<Rightarrow> bool" where
  "resourceHasHeader header name \<longleftrightarrow> list_ex (\<lambda>(candidate, _). equal_fold candidate name) (elems header)"

definition add_values :: "string \<Rightarrow> string list \<Rightarrow> Header \<Rightarrow> Header" where
  "add_values name vals header = foldl (\<lambda>h v. header_Add name v h) header vals"

fun add_additional :: "Header \<Rightarrow> (string \<times> string list) list \<Rightarrow> Header \<Rightarrow> agent_error + Header" where
  "add_additional controlled [] merged = Inr merged"
| "add_additional controlled ((name, vals) # rest) merged =
     (if equal_fold name AuthorizationHeader \<or> resourceHasHeader controlled name
      then Inl (failure ''additional authentication conflicts with selected AEP headers'')
      else add_additional controlled rest (add_values name vals (header_Del name merged)))"

text \<open>The caller's own header fields, which only its own origin gets.\<close>

definition caller_headers :: "Header \<Rightarrow> bool \<Rightarrow> Header \<Rightarrow> Header \<Rightarrow> agent_error + Header" where
  "caller_headers original same additional controlled =
     (if \<not> same then Inr (Some [])
      else add_additional controlled (elems additional)
             (foldl (\<lambda>h (name, vals). add_values name vals h) (Some []) (elems original)))"

definition set_controlled :: "Header \<Rightarrow> Header \<Rightarrow> Header" where
  "set_controlled controlled merged =
     foldl (\<lambda>h (name, vals). Some (AList.update name vals (elems (removeResourceHeaders [name] h)))) merged (elems controlled)"

definition mergeResourceHeaders :: "Header \<Rightarrow> bool \<Rightarrow> Header \<Rightarrow> Header \<Rightarrow> agent_error + Header" where
  "mergeResourceHeaders original same additional controlled =
     (case caller_headers original same additional controlled of
        Inl err \<Rightarrow> Inl err
      | Inr own \<Rightarrow>
          let merged = removeResourceHeaders [AuthorizationHeader] own in
          if resourceHasHeader controlled ''Authorization'' then Inr (set_controlled controlled merged)
          else case ParseProtectedResourceAuthorization (header_Get merged ''Authorization'') ProtectedResourceStandard of
            Inl _ \<Rightarrow> Inr (set_controlled controlled merged)
          | Inr _ \<Rightarrow>
              if same \<and> resourceHasHeader additional ''Authorization''
              then Inl (failure ''additional Authorization conflicts with selected AEP authentication'')
              else Inr (set_controlled controlled (removeResourceHeaders [''Authorization''] merged)))"

section \<open>Challenges\<close>

text \<open>
  The expression \<open>(?i)([a-z_]+)[\t ]*=[\t ]*"([^"]*)"\<close>: a character of the name, which folding makes the
  long s and the Kelvin sign too, and one match at the head of a text.
\<close>

definition name_char :: "string \<Rightarrow> nat" where
  "name_char s =
     (case s of
        [] \<Rightarrow> 0
      | a # t \<Rightarrow>
          if is_lower a \<or> is_upper a \<or> a = CHR ''_'' then 1
          else if has_prefix s [CHR 0xC5, CHR 0xBF] then 2
          else if has_prefix s [CHR 0xE2, CHR 0x84, CHR 0xAA] then 3
          else 0)"

fun name_run :: "nat \<Rightarrow> string \<Rightarrow> string \<times> string" where
  "name_run 0 s = ([], s)"
| "name_run (Suc fuel) s =
     (if name_char s = 0 then ([], s)
      else case name_run fuel (drop (name_char s) s) of (n, rest) \<Rightarrow> (take (name_char s) s @ n, rest))"

definition skip_blank :: "string \<Rightarrow> string" where
  "skip_blank s = dropWhile (\<lambda>c. byte c = 9 \<or> byte c = 32) s"

definition parameter_at :: "string \<Rightarrow> ((string \<times> string) \<times> string) option" where
  "parameter_at s =
     (case name_run (length s) s of (name, r1) \<Rightarrow>
        if name = [] then None
        else case skip_blank r1 of
          CHR ''='' # r2 \<Rightarrow>
            (case skip_blank r2 of
               q # r3 \<Rightarrow>
                 if byte q \<noteq> 0x22 then None
                 else (case dropWhile (\<lambda>c. byte c \<noteq> 0x22) r3 of
                         [] \<Rightarrow> None
                       | _ # r4 \<Rightarrow> Some ((name, takeWhile (\<lambda>c. byte c \<noteq> 0x22) r3), r4))
             | [] \<Rightarrow> None)
        | _ \<Rightarrow> None)"

text \<open>\<open>FindAllStringSubmatch\<close>; every step leaves less text, so the length is enough fuel.\<close>

fun challenge_parameters :: "nat \<Rightarrow> string \<Rightarrow> (string \<times> string) list" where
  "challenge_parameters 0 s = []"
| "challenge_parameters (Suc fuel) s =
     (case s of
        [] \<Rightarrow> []
      | _ # t \<Rightarrow>
          (case parameter_at s of
             Some (p, rest) \<Rightarrow> p # challenge_parameters fuel rest
           | None \<Rightarrow> challenge_parameters fuel t))"

record resourceChallenge =
  chl_serviceDID :: string
  chl_inspect :: URL

definition parseResourceChallenge :: "string \<Rightarrow> resourceChallenge option" where
  "parseResourceChallenge val =
     (case split_n CHR '' '' 2 (replace_byte (char_of (9 :: int)) '' '' val) of
        [scheme, _] \<Rightarrow>
          if \<not> equal_fold scheme ''AEP'' then None
          else
          let parameters = map (\<lambda>(n, v). (to_lower n, v)) (challenge_parameters (length val) val);
              parameter = (\<lambda>name. case map_of parameters name of None \<Rightarrow> [] | Some v \<Rightarrow> v) in
          if \<not> keys_distinct parameters then None
          else case url_Parse (parameter ''inspect'') of
            None \<Rightarrow> None
          | Some inspect \<Rightarrow>
              if parameter ''service_did'' = [] \<or> url_Host inspect = [] \<or> url_User inspect \<noteq> None \<or>
                 url_Fragment inspect \<noteq> [] \<or>
                 (url_Scheme inspect \<noteq> ''https'' \<and>
                  \<not> (url_Scheme inspect = ''http'' \<and> isLoopback (url_Hostname inspect)))
              then None
              else Some \<lparr>chl_serviceDID = parameter ''service_did'', chl_inspect = inspect\<rparr>
      | _ \<Rightarrow> None)"

section \<open>Sending and redirects\<close>

definition resource_body :: "'w ResourceRequest \<Rightarrow> ('w, string) agent_act" where
  "resource_body original =
     (if \<not> rsq_Body original then ok []
      else case rsq_GetBody original of
        None \<Rightarrow> fail (failure ''AEP authentication requires a replayable request body'')
      | Some get_body \<Rightarrow>
          and_then get_body (\<lambda>body.
          case body of
            None \<Rightarrow> fail (failure ''AEP request GetBody returned no body'')
          | Some (text, _) \<Rightarrow> ok text))"

definition Client_sendResource ::
  "'w Client \<Rightarrow> ctx \<Rightarrow> 'w ResourceRequest \<Rightarrow> URL \<Rightarrow> Header \<Rightarrow> ('w, agent_error http_in) agent_act" where
  "Client_sendResource client c original target headers =
     and_then (resource_body original) (\<lambda>body.
     doWithoutRedirects (cl_commandHTTPClient client) c
       \<lparr>out_Method = rsq_Method original, out_URL = cloneURL target, out_Header = headers, out_Body = body\<rparr>)"

text \<open>The target of a redirect, when one is left.\<close>

definition Client_resourceRedirect :: "'w Client \<Rightarrow> agent_error http_in \<Rightarrow> URL \<Rightarrow> nat \<Rightarrow> agent_error + URL" where
  "Client_resourceRedirect client response current left =
     (let location = header_Get (in_Header response) ''Location'' in
      if left = 0 then Inl (failure ''AEP resource redirect limit exceeded'')
      else if location = [] then Inl (failure ''AEP redirect omitted Location'')
      else case url_Relative current location of
        None \<Rightarrow> Inl (Plain (Library ''net/url''))
      | Some next \<Rightarrow>
          (case validateProtectedResource next next (cl_allowInsecureLoopback client) of
             Some err \<Rightarrow> Inl err
           | None \<Rightarrow>
               if url_Scheme current = ''https'' \<and> url_Scheme next \<noteq> ''https''
               then Inl (failure ''AEP redirect downgraded transport'')
               else Inr next))"

section \<open>Authentication of a request\<close>

text \<open>A grant may follow when no credential fits; the error of the first attempt is the result otherwise.\<close>

definition grant_allowed :: "AuthenticationOptions \<Rightarrow> agent_error \<Rightarrow> bool" where
  "grant_allowed options err \<longleftrightarrow> aho_CredentialID options = [] \<and> \<not> aho_ClientAssertionOnly options \<and>
     (errors_Is err CredentialNotFound \<or> errors_Is err NoAuthenticationMethod)"

definition grant_for :: "AuthenticationOptions \<Rightarrow> GrantType" where
  "grant_for options =
     (if aho_GrantType options \<noteq> [] then aho_GrantType options
      else case find (\<lambda>m. m \<noteq> AuthenticationMethodJWT) (elems (aho_AllowedMethods options)) of Some m \<Rightarrow> m | None \<Rightarrow> [])"

definition Session_resourceAuthenticationHeaders ::
  "'w Session \<Rightarrow> ctx \<Rightarrow> AuthenticationOptions \<Rightarrow> ('w \<times> SessionState, Header) agent_act" where
  "Session_resourceAuthenticationHeaders session c options =
     and_then (attempt (Session_AuthenticationHeaders session c options)) (\<lambda>first.
     case first of
       Inr headers \<Rightarrow> ok headers
     | Inl err \<Rightarrow>
         if \<not> grant_allowed options err then fail err
         else
         and_then (in_world (observe (ctx_done (cl_runtime (ses_client session)) c))) (\<lambda>done.
         if done then fail (Plain ContextDone)
         else
         let grantType = grant_for options in
         if grantType = [] \<or> \<not> containsAuthenticationMethod (elems (aho_AllowedMethods options)) grantType then fail err
         else
         and_then (Session_Grant session c \<lparr>gro_GrantType = grantType, gro_IdempotencyKey = [], gro_PreferredGrantTypes = [],
             gro_RequestedScopes = []\<rparr>) (\<lambda>_.
         Session_AuthenticationHeaders session c (options\<lparr>aho_GrantType := grantType\<rparr>))))"

text \<open>A call of a session made for the occasion.\<close>

definition in_new_session :: "('w \<times> SessionState, 'a) agent_act \<Rightarrow> ('w, 'a) agent_act" where
  "in_new_session m w = (case m (w, new_session_state) of (r, w') \<Rightarrow> (r, fst w'))"

definition unless_ctx_done :: "'w Client \<Rightarrow> ctx \<Rightarrow> ('w, 'a) agent_act \<Rightarrow> ('w, 'a) agent_act" where
  "unless_ctx_done client c m =
     and_then (observe (ctx_done (cl_runtime client) c)) (\<lambda>done. if done then fail (Plain ContextDone) else m)"

definition allowed_for :: "AuthenticationMethod list \<Rightarrow> InspectDocument \<Rightarrow> AuthenticationMethod slice \<Rightarrow> AuthenticationMethod list" where
  "allowed_for methods document allowed =
     filter (\<lambda>m. containsAuthenticationMethod (authenticationMethods document) m \<and>
       (case allowed of None \<Rightarrow> True | Some ms \<Rightarrow> containsAuthenticationMethod ms m)) methods"

section \<open>A turn of the loop\<close>

text \<open>A turn returns a response, or follows a redirect that may have left the origin.\<close>

datatype turn =
  Return "agent_error http_in"
| Follow URL

text \<open>The request without authentication: its outcome, or the response and the challenge to answer.\<close>

datatype probe =
  Ended turn
| Challenged "(agent_error http_in \<times> resourceChallenge) option"

definition sensitive_headers :: "string list" where
  "sensitive_headers = [''Authorization'', AuthorizationHeader, ''PAYMENT-SIGNATURE'', ''Cookie'', ''Proxy-Authorization'']"

definition follow :: "'w Client \<Rightarrow> agent_error http_in \<Rightarrow> URL \<Rightarrow> nat \<Rightarrow> ('w, turn) agent_act" where
  "follow client response target left =
     (case Client_resourceRedirect client response target left of Inl err \<Rightarrow> fail err | Inr next \<Rightarrow> ok (Follow next))"

definition resource_probe ::
  "'w Client \<Rightarrow> ctx \<Rightarrow> 'w ResourceRequest \<Rightarrow> URL \<Rightarrow> bool \<Rightarrow> nat \<Rightarrow> ('w, probe) agent_act" where
  "resource_probe client c original target requireChallenge left =
     (let headers = (if requireChallenge then Some [] else removeResourceHeaders sensitive_headers (rsq_Header original)) in
      and_then (Client_sendResource client c original target headers) (\<lambda>response.
      if isRedirect (in_StatusCode response)
      then and_then (follow client response target left) (\<lambda>t. ok (Ended t))
      else case parseResourceChallenge (header_Get (in_Header response) ''WWW-Authenticate'') of
        None \<Rightarrow> ok (Ended (Return response))
      | Some challenge \<Rightarrow>
          if in_StatusCode response \<noteq> 401 then ok (Ended (Return response))
          else if \<not> sameOrigin (chl_inspect challenge) target
          then fail (failure ''AEP challenge Inspect URI changed origin'')
          else ok (Challenged (Some (response, challenge)))))"

text \<open>The request with authentication.\<close>

definition resource_authenticated ::
  "'w Client \<Rightarrow> ctx \<Rightarrow> 'w ResourceRequest \<Rightarrow> URL \<Rightarrow> URL \<Rightarrow> ProtectedResourceOptions \<Rightarrow> 'w Session \<Rightarrow>
   AuthenticationMethod list \<Rightarrow> nat \<Rightarrow> (('w \<times> SessionState), turn) agent_act" where
  "resource_authenticated client c original origin target options session allowed left =
     (let authentication = (pro_Authentication options)\<lparr>aho_Resource := Some target, aho_AllowedMethods := Some allowed\<rparr> in
      and_then (Session_resourceAuthenticationHeaders session c authentication) (\<lambda>headers.
      case mergeResourceHeaders (rsq_Header original) (sameOrigin target origin)
             (pro_AdditionalAuthenticationHeaders options) headers of
        Inl err \<Rightarrow> fail err
      | Inr merged \<Rightarrow>
          and_then (in_world (Client_sendResource client c original target merged)) (\<lambda>response.
          if isRedirect (in_StatusCode response) then in_world (follow client response target left)
          else ok (Return response))))"

definition resource_turn ::
  "'w Client \<Rightarrow> ctx \<Rightarrow> 'w ResourceRequest \<Rightarrow> URL \<Rightarrow> ProtectedResourceOptions \<Rightarrow> URL \<Rightarrow> bool \<Rightarrow> nat \<Rightarrow> ('w, turn) agent_act" where
  "resource_turn client c original origin options target requireChallenge left =
     unless_ctx_done client c
      (case Client_Service client (url_String target) of
         Inl err \<Rightarrow> fail err
       | Inr session \<Rightarrow>
      and_then (attempt (Session_OpenAPIPolicy session c (rsq_Method original) (Some target))) (\<lambda>policed.
      let policy = (case policed of Inl _ \<Rightarrow> fallback_policy | Inr p \<Rightarrow> p) in
      unless_ctx_done client c
      (and_then (if oop_State policy \<noteq> ''required'' \<or> requireChallenge
                 then resource_probe client c original target requireChallenge left
                 else ok (Challenged None)) (\<lambda>probed.
       case probed of
         Ended t \<Rightarrow> ok t
       | Challenged challenged \<Rightarrow>
      and_then (Session_Inspect session c) (\<lambda>inspection.
      if (case challenged of None \<Rightarrow> False | Some (_, challenge) \<Rightarrow> chl_serviceDID challenge \<noteq> insn_ServiceDID inspection)
      then fail (failure ''AEP challenge Service DID does not match Inspect'')
      else
      and_then (if oop_State policy = ''public'' \<and> challenged \<noteq> None
                then and_then (attempt (Session_openAPIPolicy session c (rsq_Method original) (Some target) True)) (\<lambda>_.
                       unless_ctx_done client c (ok ()))
                else ok ()) (\<lambda>_.
      let methods = (if oop_State policy = ''required'' then oop_Methods policy
                     else authenticationMethods (insn_Document inspection)) in
      case (methods, challenged) of
        ([], Some (anonymous, _)) \<Rightarrow> ok (Return anonymous)
      | _ \<Rightarrow>
          in_new_session (resource_authenticated client c original origin target options session
            (allowed_for methods (insn_Document inspection) (aho_AllowedMethods (pro_Authentication options))) left)))))))"

text \<open>The loop: leaving the origin, once, means that every later target must challenge.\<close>

fun Client_fetchResource ::
  "'w Client \<Rightarrow> ctx \<Rightarrow> 'w ResourceRequest \<Rightarrow> URL \<Rightarrow> ProtectedResourceOptions \<Rightarrow> nat \<Rightarrow> URL \<Rightarrow> bool \<Rightarrow>
   ('w, agent_error http_in) agent_act" where
  "Client_fetchResource client c original origin options left target requireChallenge =
     and_then (resource_turn client c original origin options target requireChallenge left) (\<lambda>t.
     case t of
       Return response \<Rightarrow> ok response
     | Follow next \<Rightarrow>
         (case left of
            0 \<Rightarrow> fail (failure ''AEP resource redirect limit exceeded'')
          | Suc n \<Rightarrow>
              Client_fetchResource client c original origin options n next
                (requireChallenge \<or> \<not> sameOrigin target next)))"

declare Client_fetchResource.simps [simp del]

text \<open>The checks of the request, which read a body once to see that it can be.\<close>

definition replayable :: "'w ResourceRequest \<Rightarrow> ('w, unit) agent_act" where
  "replayable request =
     (if \<not> rsq_Body request then ok ()
      else case rsq_GetBody request of
        None \<Rightarrow> fail (failure ''AEP authentication requires a replayable request body'')
      | Some get_body \<Rightarrow>
          and_then get_body (\<lambda>body.
          case body of
            None \<Rightarrow> fail (failure ''AEP request GetBody returned no body'')
          | Some (_, Some err) \<Rightarrow> fail err
          | Some (_, None) \<Rightarrow> ok ()))"

definition Client_FetchProtectedResource ::
  "'w Client \<Rightarrow> ctx \<Rightarrow> 'w ResourceRequest option \<Rightarrow> ProtectedResourceOptions \<Rightarrow> ('w, agent_error http_in) agent_act" where
  "Client_FetchProtectedResource client c request options =
     (case request of
        None \<Rightarrow> fail (failure ''AEP protected-resource request is required'')
      | Some original \<Rightarrow>
     (case rsq_URL original of
        None \<Rightarrow> fail (failure ''AEP protected-resource request is required'')
      | Some origin \<Rightarrow>
          if elems (rsq_Trailer original) \<noteq> [] then fail (failure ''AEP request trailers cannot be replayed'')
          else
          and_then (replayable original) (\<lambda>_.
          case ProtectedResourceAuthorizationHeader (aho_Carrier (pro_Authentication options)) of
            Inl err \<Rightarrow> fail (Plain err)
          | Inr _ \<Rightarrow>
              if exclusive_selection (pro_Authentication options) then fail exclusive_error
              else
              let maximum = (if pro_MaximumRedirects options = 0 then 5 else pro_MaximumRedirects options);
                  target = cloneURL origin in
              if maximum < 0 then fail (failure ''AEP redirect limit must be nonnegative'')
              else case validateProtectedResource target target (cl_allowInsecureLoopback client) of
                Some err \<Rightarrow> fail err
              | None \<Rightarrow>
                  and_then (observe (with_timeout (cl_runtime client) c (cl_requestTimeout client))) (\<lambda>rc.
                  Client_fetchResource client rc original origin options (nat maximum) target False))))"

lemmas agent_resource_defs [go_defs] =
  removeResourceHeaders_def resourceHasHeader_def add_values_def caller_headers_def set_controlled_def
  mergeResourceHeaders_def name_char_def skip_blank_def parameter_at_def parseResourceChallenge_def resource_body_def
  Client_sendResource_def Client_resourceRedirect_def grant_allowed_def grant_for_def
  Session_resourceAuthenticationHeaders_def in_new_session_def unless_ctx_done_def allowed_for_def
  sensitive_headers_def follow_def resource_probe_def resource_authenticated_def resource_turn_def replayable_def
  Client_FetchProtectedResource_def

definition challenge_example :: string where
  "challenge_example = (let q = [CHR 0x22] in
     ''AEP realm='' @ q @ ''x'' @ q @ '', service_did = '' @ q @ ''did:web:shop.example'' @ q @ '', Inspect='' @ q @
     ''https://shop.example/.well-known/aep'' @ q)"

lemma challenge_examples:
  "map_option (\<lambda>ch. (chl_serviceDID ch, url_String (chl_inspect ch))) (parseResourceChallenge challenge_example) =
     Some (''did:web:shop.example'', ''https://shop.example/.well-known/aep'')"
  "parseResourceChallenge (challenge_example @ '',inspect='' @ [CHR 0x22, CHR 0x22]) = None"
  "parseResourceChallenge ''Bearer x'' = None"
  by code_simp+

end
