(* ===== verification/Agent_Binding.thy ===== *)
theory Agent_Binding
  imports Agent_Resource
begin

text \<open>
  Origins, and what an Inspect document an Agent accepts is bound to: the origin of the Service the caller
  named, on every path by which a document is found.
\<close>

section \<open>Origins\<close>

lemma equal_fold_trans: "equal_fold a b \<Longrightarrow> equal_fold b c \<Longrightarrow> equal_fold a c"
  by (simp add: equal_fold_def)

lemma sameOrigin_refl [simp]: "sameOrigin u u"
  by (simp add: sameOrigin_def equal_fold_def)

lemma sameOrigin_sym: "sameOrigin u v \<Longrightarrow> sameOrigin v u"
  by (simp add: sameOrigin_def equal_fold_def)

lemma sameOrigin_trans: "sameOrigin u v \<Longrightarrow> sameOrigin v x \<Longrightarrow> sameOrigin u x"
  by (simp add: sameOrigin_def equal_fold_def)

lemma same_location:
  assumes "url_Scheme u = url_Scheme v" and "url_Host u = url_Host v"
  shows "sameOrigin u v"
proof -
  have "url_Port u = url_Port v" and "url_Hostname u = url_Hostname v"
    unfolding url_Port_def url_Hostname_def assms by simp_all
  then show ?thesis unfolding sameOrigin_def effectivePort_def equal_fold_def assms(1) by simp
qed

lemma cloneURL_id [simp]: "cloneURL u = u"
  by (simp add: cloneURL_def)

lemma set_path_ignore_location [simp]:
  "url_Scheme (set_path_ignore p u) = url_Scheme u" "url_Host (set_path_ignore p u) = url_Host u"
  by (auto simp: set_path_ignore_def set_path_def split: option.splits)

lemma resolve_path_location:
  assumes "p \<noteq> []"
  shows "url_Scheme (url_ResolveReference u (empty_url\<lparr>url_Path := p\<rparr>)) = url_Scheme u"
    and "url_Host (url_ResolveReference u (empty_url\<lparr>url_Path := p\<rparr>)) = url_Host u"
  using assms by (simp_all add: url_ResolveReference_def empty_url_def Let_def)

section \<open>What an inspection is bound to\<close>

lemma yields_mono: "yields Q m \<Longrightarrow> (\<And>x. Q x \<Longrightarrow> P x) \<Longrightarrow> yields P m"
  unfolding yields_def by blast

lemma yields_attempt: "yields P m \<Longrightarrow> yields (\<lambda>r. case r of Inl e \<Rightarrow> True | Inr x \<Rightarrow> P x) (attempt m)"
  unfolding yields_def by (auto simp: attempt_eq split: sum.splits)

text \<open>The document parsed, came from the origin of the Service, and names the authority it came from.\<close>

definition bound_to :: "bool \<Rightarrow> URL \<Rightarrow> Inspection \<Rightarrow> bool" where
  "bound_to allowInsecureLoopback serviceURL i \<longleftrightarrow>
     insn_ServiceURL i = serviceURL \<and> sameOrigin (insn_FinalURL i) serviceURL \<and>
     url_Scheme (insn_FinalURL i) = url_Scheme serviceURL \<and>
     acceptableInspectScheme (insn_FinalURL i) allowInsecureLoopback \<and>
     (\<exists>u. DIDWebDocumentURL (insn_ServiceDID i) = Inr u \<and> sameAuthority u (insn_FinalURL i)) \<and>
     (\<exists>data. ParseInspectDocument data = Inr (insn_Document i))"

abbreviation located :: "URL \<Rightarrow> URL \<Rightarrow> bool" where
  "located serviceURL u \<equiv> url_Scheme u = url_Scheme serviceURL \<and> sameOrigin u serviceURL"

lemma located_trans: "located v u \<Longrightarrow> located x v \<Longrightarrow> located x u"
  using sameOrigin_trans by auto

lemma checked_Inr:
  "checked i allow = Inr j \<longleftrightarrow> j = i \<and> validateServiceIdentity i allow = None"
  by (auto simp: checked_def split: option.splits)

lemma validateServiceIdentity_None:
  assumes "validateServiceIdentity i allow = None"
  shows "acceptableInspectScheme (insn_FinalURL i) allow"
    and "\<exists>u. DIDWebDocumentURL (insn_ServiceDID i) = Inr u \<and> sameAuthority u (insn_FinalURL i)"
  using assms by (auto simp: validateServiceIdentity_def Let_def split: if_splits sum.splits)

lemma cloneInspectDocument_parses: "cloneInspectDocument d = Inr d' \<Longrightarrow> \<exists>data. ParseInspectDocument data = Inr d'"
  by (auto simp: cloneInspectDocument_def lift_def split: option.splits sum.splits)

lemma cached_bound:
  assumes "inspectionFromCache serviceURL inspectURL e allow = Inr i" and "located serviceURL inspectURL"
  shows "bound_to allow serviceURL i"
proof -
  obtain u d where u: "\<not> (\<not> validInspectTarget u \<or> url_Scheme u \<noteq> url_Scheme inspectURL \<or> \<not> sameOrigin u inspectURL)"
    and d: "cloneInspectDocument (ice_Document e) = Inr d"
    and i: "i = \<lparr>insn_CacheControl = ice_CacheControl e, insn_Document = d, insn_ETag = ice_ETag e, insn_FinalURL = u,
       insn_InspectURL = inspectURL, insn_LastModified = ice_LastModified e, insn_ServiceURL = serviceURL\<rparr>"
    and v: "validateServiceIdentity i allow = None"
    using assms(1) unfolding inspectionFromCache_def by (auto simp: result_simps checked_Inr)
  show ?thesis
    using validateServiceIdentity_None [OF v] cloneInspectDocument_parses [OF d] u located_trans [OF _ assms(2)]
    unfolding bound_to_def by (auto simp: i)
qed

lemma fetched_bound:
  assumes "inspect_fetched client response serviceURL inspectURL u = Inr i" and "located serviceURL u"
  shows "bound_to (cl_allowInsecureLoopback client) serviceURL i"
proof -
  obtain data d where d: "ParseInspectDocument data = Inr d"
    and i: "insn_Document i = d \<and> insn_FinalURL i = u \<and> insn_ServiceURL i = serviceURL"
    and v: "validateServiceIdentity i (cl_allowInsecureLoopback client) = None"
    using assms(1) unfolding inspect_fetched_def Let_def by (auto simp: result_simps checked_Inr)
  show ?thesis
    using validateServiceIdentity_None [OF v] d i assms(2) unfolding bound_to_def by auto
qed

lemma inspect_next_located: "inspect_next current location = Inr u \<Longrightarrow> located current u"
  by (auto simp: inspect_next_def split: if_splits option.splits)

abbreviation gives_bound :: "'w Client \<Rightarrow> URL \<Rightarrow> ('w, Inspection) agent_act \<Rightarrow> bool" where
  "gives_bound client serviceURL m \<equiv> yields (bound_to (cl_allowInsecureLoopback client) serviceURL) m"

lemma response_bound:
  assumes "located serviceURL inspectURL" and "located serviceURL u"
  shows "gives_bound client serviceURL (Client_inspectResponse client response serviceURL inspectURL u cached)"
  unfolding Client_inspectResponse_def
  by (intro yields_intros) (auto intro: cached_bound [OF _ assms(1)] fetched_bound [OF _ assms(2)])

lemma keep_same: "yields (\<lambda>j. j = i) (inspect_keep client c key i)"
  unfolding inspect_keep_def by (simp add: Let_def, intro yields_intros) auto

lemma settled_bound:
  assumes "located serviceURL inspectURL" and "located serviceURL u"
  shows "gives_bound client serviceURL
    (and_then (attempt (Client_inspectResponse client response serviceURL inspectURL u cached)) (\<lambda>result.
     case result of
       Inl err \<Rightarrow> and_then (attempt (icc_DeleteInspect (cl_inspectCache client) c key)) (\<lambda>_. fail err)
     | Inr inspection \<Rightarrow> inspect_keep client c key inspection))"
proof (rule yields_then [OF yields_attempt [OF response_bound [OF assms]]])
  fix result :: "agent_error + Inspection"
  assume "case result of Inl e \<Rightarrow> True | Inr i \<Rightarrow> bound_to (cl_allowInsecureLoopback client) serviceURL i"
  then show "gives_bound client serviceURL
     (case result of
       Inl err \<Rightarrow> and_then (attempt (icc_DeleteInspect (cl_inspectCache client) c key)) (\<lambda>_. fail err)
     | Inr inspection \<Rightarrow> inspect_keep client c key inspection)"
    by (auto intro!: yields_intros yields_mono [OF keep_same] split: sum.splits)
qed

lemma loop_bound:
  assumes "located serviceURL inspectURL"
  shows "located serviceURL current \<Longrightarrow>
    gives_bound client serviceURL (inspect_loop client c rc serviceURL inspectURL cached left current)"
proof (induction left arbitrary: current)
  case 0
  show ?case
    unfolding inspect_loop.simps [of _ _ _ _ _ _ 0] nat.case
    by (intro yields_case_option yields_and_then yields_case_sum yields_if yields_fail
      settled_bound [OF assms 0])
next
  case (Suc n)
  show ?case
    unfolding inspect_loop.simps [of _ _ _ _ _ _ "Suc n"] nat.case
    by (intro yields_case_option yields_and_then yields_case_sum yields_if yields_fail
      settled_bound [OF assms Suc.prems] Suc.IH located_trans [OF inspect_next_located Suc.prems])
qed

lemma inspect_bound: "gives_bound client serviceURL (Client_inspect client c serviceURL)"
proof -
  let ?u = "url_ResolveReference serviceURL (empty_url\<lparr>url_Path := WellKnownPath\<rparr>)"
  have here: "located serviceURL ?u"
    using resolve_path_location [of WellKnownPath serviceURL] same_location by simp
  have fresh: "yields (case_sum (bound_to (cl_allowInsecureLoopback client) serviceURL) (\<lambda>_. True))
      (inspect_fresh client c serviceURL ?u cached)" for cached
    unfolding inspect_fresh_def
    by (intro yields_intros) (auto intro: cached_bound [OF _ here])
  have start: "yields (\<lambda>(current, _). located serviceURL current) (inspect_start client c ?u cached)" for cached
    unfolding inspect_start_def Let_def
    by (intro yields_intros) (use here in \<open>auto intro: sameOrigin_trans\<close>)
  show ?thesis
    unfolding Client_inspect_def Let_def
    by (intro yields_and_then yields_then [OF fresh] yields_case_sum yields_then [OF start] yields_case_prod)
      (auto intro!: yields_intros loop_bound [OF here])
qed

text \<open>
  C31. Every Inspect document a session accepts, fetched, revalidated or taken from the cache, whatever the
  caches and the redirects hold, comes from the origin and scheme of the Service the caller named, is a
  document that parses, and carries a did:web identifier that names the authority it came from.
\<close>

theorem inspection_bound_to_service:
  assumes "Session_Inspect session c w = (Inr i, w')"
  shows "insn_ServiceURL i = ses_serviceURL session \<and> sameOrigin (insn_FinalURL i) (ses_serviceURL session) \<and>
    url_Scheme (insn_FinalURL i) = url_Scheme (ses_serviceURL session) \<and>
    acceptableInspectScheme (insn_FinalURL i) (cl_allowInsecureLoopback (ses_client session)) \<and>
    (\<exists>u. DIDWebDocumentURL (insn_ServiceDID i) = Inr u \<and> sameAuthority u (insn_FinalURL i)) \<and>
    (\<exists>data. ParseInspectDocument data = Inr (insn_Document i))"
  using yieldsD [OF inspect_bound assms [unfolded Session_Inspect_def]] unfolding bound_to_def .

section \<open>An example\<close>

text \<open>
  A world that is the time, a Service that answers every request with its Inspect document, and an Agent
  with one identity whose stores keep nothing.
\<close>

definition shop_document :: string where
  "shop_document = quote_tildes
     ''{~aep_version~:~1.0~,~authentication~:{~methods~:[~aep-jwt~]},~bindings~:{~supported~:[~http~]},~commands~:{~supported~:[~inspect~,~status~]},~core~:{~signing_algorithms~:[~EdDSA~,~ES256~]},~http~:{},~identity~:{~methods~:[~did:web~]},~service~:{~did~:~did:web:s.example~}}''"

definition shop_headers :: "string \<Rightarrow> Header" where
  "shop_headers contentType = Some [(''Content-Type'', [contentType]), (''Cache-Control'', [''no-store''])]"

definition shop_identity :: ServiceIdentity where
  "shop_identity = \<lparr>sid_AgentDID = ''did:web:a.example'', sid_IdentityMethod = ''did:web'',
     sid_ServiceDID = ''did:web:s.example'', sid_SigningAlgorithms = [''EdDSA''], sid_Metadata = None\<rparr>"

definition shop_answer :: "string \<Rightarrow> string \<Rightarrow> int HTTPClient" where
  "shop_answer contentType body c request =
     ok \<lparr>in_StatusCode = 200, in_Header = shop_headers contentType, in_Body = body, in_Failure = None\<rparr>"

definition shop_agent :: "int HTTPClient \<Rightarrow> int CredentialStore \<Rightarrow> int Client" where
  "shop_agent commands credentials = \<lparr>cl_allowInsecureLoopback = False, cl_assertionLifetime = 300 * Second,
     cl_clock = (\<lambda>t. (t, t)), cl_commandHTTPClient = commands, cl_credentialStore = credentials,
     cl_identityProvider = \<lparr>idp_GetOrCreateIdentity = (\<lambda>_ _. ok shop_identity),
       idp_SignerFor = (\<lambda>_ _. ok (Some (\<lambda>_ _ _. ok ''token''))), idp_FindIdentityByServiceDID = None\<rparr>,
     cl_identityStore = \<lparr>ist_FindIdentity = (\<lambda>_ _. ok (Some shop_identity)), ist_SaveIdentity = (\<lambda>_ _. ok ())\<rparr>,
     cl_idempotencyKeys = (\<lambda>_ _. ok ''key''),
     cl_inspectCache = \<lparr>icc_DeleteInspect = (\<lambda>_ _. ok ()), icc_FindInspect = (\<lambda>_ _. ok None),
       icc_SaveInspect = (\<lambda>_ _ _. ok ())\<rparr>,
     cl_inspectHTTPClient = shop_answer MediaType shop_document,
     cl_openAPICache = \<lparr>part_get = (\<lambda>_. []), part_put = (\<lambda>_ t. t)\<rparr>, cl_jti = ok ''jti'',
     cl_maximumResponseBytes = 1000, cl_requestTimeout = 30 * Second,
     cl_runtime = \<lparr>rt_Now = (\<lambda>t. t), rt_Cancelled = (\<lambda>_. False), rt_Sleep = (\<lambda>d c t. (True, t + max 0 d))\<rparr>\<rparr>"

definition no_credentials :: "int CredentialStore" where
  "no_credentials = \<lparr>cst_DeleteCredential = (\<lambda>_ _ _. ok ()), cst_FindCredential = (\<lambda>_ _ _. ok None),
     cst_ListCredentials = (\<lambda>_ _. ok []), cst_SaveCredential = (\<lambda>_ _. ok ())\<rparr>"

definition shop_session :: "int Client \<Rightarrow> int Session" where
  "shop_session client = \<lparr>ses_client = client,
     ses_serviceURL = empty_url\<lparr>url_Scheme := ''https'', url_Host := ''s.example'', url_Path := ''/''\<rparr>\<rparr>"

lemma shop_service: "Client_Service (shop_agent h s) ''https://s.example'' = Inr (shop_session (shop_agent h s))"
proof -
  have "resolveServiceReference ''https://s.example'' False =
      Inr (empty_url\<lparr>url_Scheme := ''https'', url_Host := ''s.example'', url_Path := ''/''\<rparr>)" by code_simp
  then show ?thesis by (simp add: Client_Service_def shop_agent_def shop_session_def)
qed

lemma shop_inspected:
  "\<exists>i w. Session_Inspect (shop_session (shop_agent h s)) c t = (Inr i, w)"
  by (rule run_ok) code_simp

theorem inspection_bound_to_service_witness:
  "\<exists>i w. Session_Inspect (shop_session (shop_agent (shop_answer MediaType []) no_credentials)) None 0 = (Inr i, w) \<and>
    sameOrigin (insn_FinalURL i) (ses_serviceURL (shop_session (shop_agent (shop_answer MediaType []) no_credentials)))"
proof -
  obtain i w where "Session_Inspect (shop_session (shop_agent (shop_answer MediaType []) no_credentials)) None 0 = (Inr i, w)"
    using shop_inspected by blast
  with inspection_bound_to_service [OF this] show ?thesis by blast
qed

end
