(* ===== verification/Agent_Confinement.thy ===== *)
theory Agent_Confinement
  imports Agent_Binding
begin

text \<open>
  Where the header fields of a caller go: the loop of \<open>fetchResource\<close> does at another origin what it would
  do had the caller given none. Only a redirect back to the request's own origin meets them again.
\<close>

section \<open>A fetch that forgets\<close>





section \<open>A turn at another origin\<close>










text \<open>
  A redirect chain that comes back to the request's own origin: the request with authentication is
  built without regard to where the chain has been, so the caller's header fields are sent again. The
  README of the Agent says that a redirect to another origin discards them.
\<close>

lemma returning_request_carries_headers:
  "mergeResourceHeaders (Some [(''X-Trace'', [''t''])]) True None (Some [(AuthorizationHeader, [''a''])]) =
   Inr (Some [(''X-Trace'', [''t'']), (AuthorizationHeader, [''a''])])"
  by code_simp


end
