(* ===== verification/Agent_Polling.thy ===== *)
theory Agent_Polling
  imports Agent_Binding
begin

text \<open>
  Polling ends. Every call of a session keeps what all the calls of its client keep, such as the order of
  time; a turn that goes on lets an interval pass and starts before the deadline, so there are few.
\<close>

section \<open>What the calls of a client keep\<close>

text \<open>Every interface of a client relates its first world to its last by \<open>R\<close>, and so do the signers it gives.\<close>

definition client_keeps :: "('w \<Rightarrow> 'w \<Rightarrow> bool) \<Rightarrow> 'w Client \<Rightarrow> bool" where
  "client_keeps R client \<longleftrightarrow> reflp R \<and> transp R \<and>
     (\<forall>w. R w (snd (cl_clock client w))) \<and> keeps R (cl_jti client) \<and>
     (\<forall>c r. keeps R (cl_commandHTTPClient client c r)) \<and> (\<forall>c r. keeps R (cl_inspectHTTPClient client c r)) \<and>
     (\<forall>c k. keeps R (icc_DeleteInspect (cl_inspectCache client) c k)) \<and>
     (\<forall>c k. keeps R (icc_FindInspect (cl_inspectCache client) c k)) \<and>
     (\<forall>c k e. keeps R (icc_SaveInspect (cl_inspectCache client) c k e)) \<and>
     (\<forall>c d. keeps R (ist_FindIdentity (cl_identityStore client) c d)) \<and>
     (\<forall>c i. keeps R (ist_SaveIdentity (cl_identityStore client) c i)) \<and>
     (\<forall>c q. keeps R (idp_GetOrCreateIdentity (cl_identityProvider client) c q)) \<and>
     (\<forall>c i. keeps R (idp_SignerFor (cl_identityProvider client) c i)) \<and>
     (\<forall>c i. yields (\<lambda>signer. \<forall>sign. signer = Some sign \<longrightarrow> (\<forall>c' cl al. keeps R (sign c' cl al)))
        (idp_SignerFor (cl_identityProvider client) c i)) \<and>
     (\<forall>d wc w. R w (snd (rt_Sleep (cl_runtime client) d wc w)))"

lemma keeps_call: "(\<And>w. R w (snd (f w))) \<Longrightarrow> keeps R (call f)"
  by (simp add: keeps_def call_def case_prod_unfold)

lemma keeps_parts:
  assumes "client_keeps R client"
  shows "keeps R (cl_jti client)" "keeps R (cl_commandHTTPClient client c r)" "keeps R (cl_inspectHTTPClient client c r)"
  "keeps R (icc_DeleteInspect (cl_inspectCache client) c k)" "keeps R (icc_FindInspect (cl_inspectCache client) c k)"
  "keeps R (icc_SaveInspect (cl_inspectCache client) c k e)"
  "keeps R (ist_FindIdentity (cl_identityStore client) c d)" "keeps R (ist_SaveIdentity (cl_identityStore client) c i)"
  "keeps R (idp_GetOrCreateIdentity (cl_identityProvider client) c q)"
  "keeps R (idp_SignerFor (cl_identityProvider client) c i)"
  "keeps R (call (cl_clock client))" "keeps R (call (rt_Sleep (cl_runtime client) t c))"
  using assms by (simp_all add: client_keeps_def keeps_call)

lemma keeps_orders: "client_keeps R client \<Longrightarrow> reflp R" "client_keeps R client \<Longrightarrow> transp R"
  by (simp_all add: client_keeps_def)

lemmas keeps_runs = keeps_and_then [OF keeps_orders(2)] keeps_ok [OF keeps_orders(1)] keeps_fail [OF keeps_orders(1)]
  keeps_of_result [OF keeps_orders(1)] keeps_observe [OF keeps_orders(1)] keeps_parts

lemmas keeps_flow = keeps_attempt keeps_if keeps_case_sum keeps_case_option keeps_case_prod

lemma keeps_inspect_loop:
  assumes "client_keeps R client"
  shows "keeps R (inspect_loop client c rc serviceURL inspectURL cached left current)"
proof (induction left arbitrary: current)
  case 0
  show ?case
    unfolding inspect_loop.simps [of _ _ _ _ _ _ 0] nat.case Client_inspectResponse_def inspect_keep_def Let_def
      doWithoutRedirects_def
    by (intro keeps_flow keeps_runs [OF assms])
next
  case (Suc n)
  show ?case
    unfolding inspect_loop.simps [of _ _ _ _ _ _ "Suc n"] nat.case Client_inspectResponse_def inspect_keep_def Let_def
      doWithoutRedirects_def
    by (intro keeps_flow keeps_runs [OF assms] Suc.IH)
qed

lemma keeps_inspect:
  assumes "client_keeps R client"
  shows "keeps R (Client_inspect client c serviceURL)"
  unfolding Client_inspect_def Let_def inspect_cached_def inspect_fresh_def inspect_start_def
  by (intro keeps_flow keeps_runs [OF assms] keeps_inspect_loop assms)

lemma keeps_identity_for:
  assumes "client_keeps R (ses_client session)"
  shows "keeps R (identity_for session c inspection)"
  unfolding identity_for_def Let_def by (intro keeps_flow keeps_runs [OF assms])

text \<open>On the world of a session.\<close>

abbreviation on_world :: "('w \<Rightarrow> 'w \<Rightarrow> bool) \<Rightarrow> 'w \<times> SessionState \<Rightarrow> 'w \<times> SessionState \<Rightarrow> bool" where
  "on_world R \<equiv> \<lambda>x y. R (fst x) (fst y)"

lemma on_world_orders:
  "client_keeps R client \<Longrightarrow> reflp (on_world R)" "client_keeps R client \<Longrightarrow> transp (on_world R)"
  by (auto simp: client_keeps_def reflp_def transp_def)

lemma keeps_in_world: "keeps R m \<Longrightarrow> keeps (on_world R) (in_world m)"
  by (simp add: keeps_def on_part_def case_prod_unfold)

lemma keeps_in_session: "client_keeps R client \<Longrightarrow> keeps (on_world R) (in_session m)"
  by (simp add: keeps_def on_part_def case_prod_unfold client_keeps_def reflp_def)

lemmas keeps_session = keeps_and_then [OF on_world_orders(2)] keeps_ok [OF on_world_orders(1)]
  keeps_fail [OF on_world_orders(1)] keeps_in_session

lemma keeps_resolveIdentity:
  assumes "client_keeps R (ses_client session)"
  shows "keeps (on_world R) (Session_resolveIdentity session c inspection)"
  unfolding Session_resolveIdentity_def Let_def
  by (intro keeps_flow keeps_session [OF assms] keeps_in_world keeps_identity_for assms)

lemma keeps_commandContext:
  assumes "client_keeps R (ses_client session)"
  shows "keeps (on_world R) (Session_commandContext session c command)"
  unfolding Session_commandContext_def Session_Inspect_def Client_signerFor_def
  by (intro keeps_flow keeps_session [OF assms] keeps_in_world keeps_resolveIdentity keeps_inspect keeps_parts assms)

text \<open>The signer a command gets is one that keeps \<open>R\<close>.\<close>

definition kept_signer :: "('w \<Rightarrow> 'w \<Rightarrow> bool) \<Rightarrow> 'w AssertionSigner option \<Rightarrow> bool" where
  "kept_signer R signer \<longleftrightarrow> (\<forall>sign. signer = Some sign \<longrightarrow> (\<forall>c cl al. keeps R (sign c cl al)))"

lemma yields_in_world: "yields P m \<Longrightarrow> yields P (in_world m)"
  unfolding yields_def by (auto simp: on_part_eq)

lemma context_signer:
  assumes "client_keeps R (ses_client session)"
  shows "yields (\<lambda>(i, identity, signer). kept_signer R signer) (Session_commandContext session c command)"
proof -
  have "yields (kept_signer R) (Client_signerFor (ses_client session) c identity)" for identity
    using assms unfolding client_keeps_def Client_signerFor_def kept_signer_def by blast
  note signer = yields_in_world [OF this]
  show ?thesis
    unfolding Session_commandContext_def
    by (intro yields_and_then yields_if yields_fail yields_then [OF signer]) (auto intro: yields_ok)
qed

lemma keeps_signAssertion:
  assumes "client_keeps R client" and "kept_signer R signer"
  shows "keeps R (Client_signAssertion client c inspection identity signer operation resource)"
  unfolding Client_signAssertion_def Let_def
  by (intro keeps_flow keeps_runs [OF assms(1)]) (use assms(2) in \<open>simp add: kept_signer_def\<close>)

lemma keeps_execute:
  assumes "client_keeps R (ses_client session)" and "kept_signer R signer"
  shows "keeps R (executeCommand session c (inspection, identity, signer) command verb body key parse)"
  unfolding executeCommand_def Let_def prod.case doWithoutRedirects_def
  by (intro keeps_flow keeps_runs [OF assms(1)] keeps_signAssertion assms)

text \<open>A command that succeeds sent its request, before its context was done.\<close>

lemma executed_in_time:
  assumes "client_keeps R (ses_client session)" and "kept_signer R signer"
    and sent: "\<And>rc r w x w'. cl_commandHTTPClient (ses_client session) rc r w = (Inr x, w') \<Longrightarrow>
      \<not> ctx_done (cl_runtime (ses_client session)) rc w"
    and run: "executeCommand session c (inspection, identity, signer) command verb body key parse w = (Inr y, w')"
  shows "\<exists>w1. R w w1 \<and> \<not> ctx_done (cl_runtime (ses_client session)) c w1"
proof -
  let ?client = "ses_client session"
  obtain a w1 where sign: "Client_signAssertion ?client c inspection identity signer (assertionOperation command) None w = (Inr a, w1)"
    and rest: "\<exists>r x w2. cl_commandHTTPClient ?client (with_timeout (cl_runtime ?client) c (cl_requestTimeout ?client) w1) r w1 =
       (Inr x, w2)"
    using run unfolding executeCommand_def Let_def prod.case doWithoutRedirects_def
    by (auto simp: run_simps split: option.splits; blast)
  then have "\<not> ctx_done (cl_runtime ?client) (with_timeout (cl_runtime ?client) c (cl_requestTimeout ?client) w1) w1"
    using sent by blast
  then have "\<not> ctx_done (cl_runtime ?client) c w1"
    by (auto simp: ctx_done_def with_timeout_def split: option.splits)
  then show ?thesis using keepsD [OF keeps_signAssertion [OF assms(1,2)] sign] by blast
qed

section \<open>The turns of the polling loop\<close>

text \<open>
  What the runtime and the HTTP client are relied on for: time does not run backwards, a timer that fires
  has let its interval pass, and a request is not sent for a context that is done.
\<close>

abbreviation later :: "'w Client \<Rightarrow> 'w \<Rightarrow> 'w \<Rightarrow> bool" where
  "later client w w' \<equiv> rt_Now (cl_runtime client) w \<le> rt_Now (cl_runtime client) w'"

definition timely :: "'w Client \<Rightarrow> bool" where
  "timely client \<longleftrightarrow> client_keeps (later client) client \<and>
     (\<forall>d wc w w'. rt_Sleep (cl_runtime client) d wc w = (True, w') \<longrightarrow>
        rt_Now (cl_runtime client) w + d \<le> rt_Now (cl_runtime client) w') \<and>
     (\<forall>rc r w x w'. cl_commandHTTPClient client rc r w = (Inr x, w') \<longrightarrow> \<not> ctx_done (cl_runtime client) rc w)"

lemma status_in_time:
  assumes "timely (ses_client session)" and "Session_Status session (Some deadline) x = (Inr result, y)"
  shows "rt_Now (cl_runtime (ses_client session)) (fst x) < deadline \<and> later (ses_client session) (fst x) (fst y)"
proof -
  let ?client = "ses_client session" and ?now = "rt_Now (cl_runtime (ses_client session))"
  have k: "client_keeps (later ?client) ?client" using assms(1) by (simp add: timely_def)
  obtain i identity signer z z1 where called: "Session_commandContext session (Some deadline) CommandStatus x = (Inr (i, identity, signer), z)"
    and run: "status_command session (Some deadline) (i, identity, signer) (fst z) = (Inr result, fst z1)"
    and y: "fst y = fst z1"
    using assms(2) unfolding Session_Status_def
    by (auto simp: run_simps on_part_eq Session_recordEnrollment_def)
  have s: "kept_signer (later ?client) signer" using yieldsD [OF context_signer [OF k] called] by simp
  obtain w1 where w1: "later ?client (fst z) w1" "\<not> ctx_done (cl_runtime ?client) (Some deadline) w1"
    using executed_in_time [OF k s _ run] assms(1) unfolding timely_def by blast
  have "later ?client (fst x) (fst z)" using keepsD [OF keeps_commandContext [OF k] called] by simp
  moreover have "later ?client (fst z) (fst z1)" using keepsD [OF keeps_execute [OF k s] run] .
  moreover have "?now w1 < deadline" using w1(2) by (auto simp: ctx_done_def)
  ultimately show ?thesis using w1(1) y by simp
qed

lemma turn_takes_interval:
  assumes "timely (ses_client session)" and "wait_turn session (Some deadline) interval x = (Inr None, y)"
  shows "rt_Now (cl_runtime (ses_client session)) (fst x) < deadline \<and>
    rt_Now (cl_runtime (ses_client session)) (fst x) + interval \<le> rt_Now (cl_runtime (ses_client session)) (fst y)"
proof -
  obtain result z w where status: "Session_Status session (Some deadline) x = (Inr result, z)"
    and slept: "rt_Sleep (cl_runtime (ses_client session)) interval (Some deadline) (fst z) = (True, w)" and y: "fst y = w"
    using assms(2) unfolding wait_turn_def Let_def
    by (auto simp: run_simps on_part_eq call_eq split: if_splits)
  show ?thesis
    using status_in_time [OF assms(1) status] slept assms(1) y unfolding timely_def by fastforce
qed

lemma loop_ends:
  assumes "timely (ses_client session)" and "0 < interval"
    and "deadline \<le> rt_Now (cl_runtime (ses_client session)) (fst x) + int n * interval"
  shows "fst (wait_loop (Suc n) session (Some deadline) interval x) \<noteq> Inr None"
  using assms(3)
proof (induction n arbitrary: x)
  case 0
  obtain r y where turn: "wait_turn session (Some deadline) interval x = (r, y)"
    by (cases "wait_turn session (Some deadline) interval x")
  then have "r \<noteq> Inr None"
    using turn_takes_interval [OF assms(1), of deadline interval x y] 0 by auto
  then show ?case using turn by (auto simp: and_then_def ok_def split: sum.splits option.splits)
next
  case (Suc n)
  obtain r y where turn: "wait_turn session (Some deadline) interval x = (r, y)"
    by (cases "wait_turn session (Some deadline) interval x")
  show ?case
  proof (cases "r = Inr None")
    case True
    then have "deadline \<le> rt_Now (cl_runtime (ses_client session)) (fst y) + int n * interval"
      using turn_takes_interval [OF assms(1)] turn Suc.prems by (fastforce simp: algebra_simps)
    then show ?thesis using Suc.IH True turn by (simp add: and_then_def)
  next
    case False
    then show ?thesis using turn by (auto simp: and_then_def ok_def split: sum.splits option.splits)
  qed
qed

lemma polling_ends:
  assumes "timely (ses_client session)" and "0 < interval" and "0 < timeout"
    and "nat (timeout div interval) + 2 \<le> fuel"
    and "deadline \<le> rt_Now (cl_runtime (ses_client session)) (fst x) + timeout"
  shows "fst (wait_loop fuel session (Some deadline) interval x) \<noteq> Inr None"
proof -
  obtain n where n: "fuel = Suc n" using assms(4) by (cases fuel) auto
  have "timeout \<le> interval * (timeout div interval) + interval"
    using mult_div_mod_eq [of interval timeout] pos_mod_bound [OF assms(2), of timeout] by linarith
  also have "\<dots> = (timeout div interval + 1) * interval" by (simp add: algebra_simps)
  also have "\<dots> \<le> int n * interval"
    using assms(2,4) n by (intro mult_right_mono) auto
  finally show ?thesis unfolding n using assms(5) by (intro loop_ends [OF assms(1,2)]) simp
qed

text \<open>
  C33. Waiting for an enrollment ends: with a runtime whose time goes forward, whose timers let their
  interval pass and whose HTTP client sends nothing for a context that is done, a session never polls more
  than \<open>timeout div interval + 2\<close> times, whatever the Service answers.
\<close>

theorem waiting_ends:
  assumes "timely (ses_client session)"
    and "interval = (if wto_Interval options = 0 then Second else wto_Interval options)"
    and "timeout = (if wto_Timeout options = 0 then cl_requestTimeout (ses_client session) else wto_Timeout options)"
    and "nat (timeout div interval) + 2 \<le> fuel"
  shows "fst (Session_WaitForActive fuel session c options x) \<noteq> Inr None"
proof (cases "interval \<le> 0 \<or> timeout \<le> 0")
  case True
  then show ?thesis unfolding Session_WaitForActive_def Let_def assms(2,3) [symmetric] by (auto simp: fail_def)
next
  case False
  let ?rt = "cl_runtime (ses_client session)"
  obtain deadline where d: "with_timeout ?rt c timeout (fst x) = Some deadline" "deadline \<le> rt_Now ?rt (fst x) + timeout"
    by (simp add: with_timeout_def split: option.splits)
  have "Session_WaitForActive fuel session c options x = wait_loop fuel session (Some deadline) interval x"
    unfolding Session_WaitForActive_def Let_def assms(2,3) [symmetric]
    using False d(1) by (simp add: and_then_def on_part_def observe_def)
  then show ?thesis using polling_ends [OF assms(1) _ _ assms(4) d(2)] False by simp
qed

definition shop_status :: "int HTTPClient" where
  "shop_status c request t =
     (if (case c of None \<Rightarrow> False | Some d \<Rightarrow> d \<le> t) then (Inl (Plain ContextDone), t)
      else shop_answer MediaType (quote_tildes ''{~status~:~pending~,~since~:~2026-01-01T00:00:00Z~}'') c request t)"

lemma shop_timely: "timely (shop_agent shop_status no_credentials)"
  unfolding timely_def client_keeps_def
  by (auto simp: shop_agent_def keeps_def reflp_def transp_def shop_answer_def shop_status_def ok_def fail_def
    ctx_done_def yields_def split: if_splits option.splits)

theorem waiting_ends_witness:
  "fst (Session_WaitForActive 5 (shop_session (shop_agent shop_status no_credentials)) None
     \<lparr>wto_Interval = 0, wto_Timeout = 3 * Second\<rparr> (0, new_session_state)) \<noteq> Inr None"
  by (rule waiting_ends [where interval = Second and timeout = "3 * Second"])
    (use shop_timely in \<open>simp_all add: shop_session_def\<close>)

end
