(* ===== verification/Json_Texts.thy ===== *)
theory Json_Texts
  imports Grants
begin

text \<open>
  Texts the encoder writes, read back: string literals, arrays and objects of such values, and structs.
  A string survives when it is valid UTF-8; the encoder replaces every other byte.
\<close>

section \<open>Valid text\<close>

text \<open>The first argument counts the continuation bytes still to come.\<close>

fun valid_text :: "nat \<Rightarrow> string \<Rightarrow> bool" where
  "valid_text k [] \<longleftrightarrow> k = 0"
| "valid_text (Suc k) (c # s) = valid_text k s"
| "valid_text 0 (c # s) = (case utf8_len (c # s) of 0 \<Rightarrow> False | Suc k \<Rightarrow> valid_text k s)"

lemma utf8_len_le: "utf8_len s \<le> length s"
  by (cases s rule: utf8_len.cases) (auto split: list.splits)

lemma valid_text_drop: "valid_text k s \<longleftrightarrow> k \<le> length s \<and> valid_text 0 (drop k s)"
proof (induction k arbitrary: s)
  case (Suc k)
  then show ?case by (cases s) auto
qed simp

lemma runes_valid: "length s \<le> fuel \<Longrightarrow> snd (utf8_runes fuel s) \<Longrightarrow> valid_text 0 s"
proof (induction fuel arbitrary: s)
  case (Suc fuel)
  show ?case
  proof (cases s)
    case (Cons c t)
    obtain k where k: "utf8_len s = Suc k" and v: "snd (utf8_runes fuel (drop (Suc k) s))"
      using Suc.prems(2) Cons by (cases "utf8_len s") (auto simp: Let_def case_prod_unfold)
    have "valid_text 0 (drop k t)" using Suc.IH [of "drop (Suc k) s"] v Suc.prems(1) Cons by simp
    moreover have "k \<le> length t" using utf8_len_le [of s] k Cons by simp
    ultimately show ?thesis using k Cons valid_text_drop [of k t] by simp
  qed simp
qed simp

lemma valid_utf8_text: "valid_utf8 s \<Longrightarrow> valid_text 0 s"
  unfolding valid_utf8_def by (rule runes_valid) simp_all

section \<open>String literals\<close>

lemma byte_range: "0 \<le> byte c" "byte c < 256"
proof -
  have "byte c mod 256 = byte c" by simp
  then show "0 \<le> byte c" "byte c < 256" by presburger+
qed

lemma byte_is: "byte c = n \<longleftrightarrow> c = char_of n" if "0 \<le> n" "n < 256" for n :: int
  using that by (metis char_of_char of_char_of mod_pos_pos_trivial)

lemma hex_digit:
  assumes "0 \<le> n" and "n < 16"
  shows "is_hex (hex_lower n)" "hex_nat (hex_lower n) = n"
  using assms by (simp_all add: hex_lower_def hex_nat_def is_hex_def is_digit_def in_range_def)

lemma p_string_u00:
  assumes "byte c < 128"
  shows "p_string 0 (u00 c @ t) = map_option (apfst (Cons c)) (p_string 0 t)"
proof -
  have d: "0 \<le> byte c div 16" "byte c div 16 < 16" "0 \<le> byte c mod 16" "byte c mod 16 < 16"
    using assms byte_range(1) [of c] by (simp_all add: pos_imp_zdiv_nonneg_iff)
  have z: "is_hex CHR ''0''" "hex_nat CHR ''0'' = 0" by code_simp+
  have "hex4 CHR ''0'' CHR ''0'' (hex_lower (byte c div 16)) (hex_lower (byte c mod 16)) = byte c"
    unfolding hex4_def z hex_digit [OF d(1,2)] hex_digit [OF d(3,4)] by simp
  moreover have "utf8_encode (byte c) = [c]" using assms by (simp add: utf8_encode_def)
  moreover have "\<not> surrogate (byte c)" using assms by (simp add: surrogate_def)
  moreover have "(@) [c] = Cons c" by (rule ext) simp
  ultimately show ?thesis
    unfolding u00_def using hex_digit [OF d(1,2)] hex_digit [OF d(3,4)] z
    by (simp add: Let_def)
qed

lemma p_string_plain:
  assumes "32 \<le> byte c" and "byte c < 128" and "byte c \<noteq> 0x22" and "byte c \<noteq> 0x5C"
  shows "p_string 0 (c # t) = map_option (apfst (Cons c)) (p_string 0 t)"
proof -
  have "utf8_len (c # t) = Suc 0" using assms by simp
  then show ?thesis using assms by (simp del: utf8_len.simps)
qed

lemma p_string_escaped:
  assumes "byte c < 128"
  shows "p_string 0 (enc_ascii c @ t) = map_option (apfst (Cons c)) (p_string 0 t)"
proof (cases "c \<in> set [CHR 0x22, CHR 0x5C, CHR 0x08, CHR 0x0C, CHR 0x0A, CHR 0x0D, CHR 0x09]")
  case True
  have "list_all (\<lambda>c. \<forall>t. p_string 0 (enc_ascii c @ t) = map_option (apfst (Cons c)) (p_string 0 t))
      [CHR 0x22, CHR 0x5C, CHR 0x08, CHR 0x0C, CHR 0x0A, CHR 0x0D, CHR 0x09]"
    by (simp add: enc_ascii_def simple_escape_def)
  then show ?thesis using True unfolding list_all_iff by blast
next
  case False
  then have n: "byte c \<noteq> 0x22" "byte c \<noteq> 0x5C" "byte c \<noteq> 8" "byte c \<noteq> 12" "byte c \<noteq> 10" "byte c \<noteq> 13" "byte c \<noteq> 9"
    by (auto simp: byte_is char_of_eq_iff)
  then have "enc_ascii c = (if byte c < 32 \<or> c \<in> set ''<>&'' then u00 c else [c])"
    by (simp add: enc_ascii_def)
  then show ?thesis using p_string_u00 [OF assms, of t] p_string_plain [OF _ assms n(1,2), of t] by simp
qed

lemma enc_body_keeps: "k \<le> length s \<Longrightarrow> take k (enc_body k s) = take k s \<and> k \<le> length (enc_body k s)"
proof (induction k arbitrary: s)
  case (Suc k)
  then show ?case by (cases s) auto
qed simp

lemma utf8_len_append:
  "utf8_len (c # p @ x) = Suc (length p) \<Longrightarrow> utf8_len (c # p @ y) = Suc (length p)"
  by (cases p rule: utf8_len.cases [case_names Nil Cons]; (cases "tl p"; cases "tl (tl p)")?)
    (auto split: if_splits list.splits)

lemma utf8_len_prefix:
  assumes "utf8_len (c # s) = Suc k" and "take k t = take k s" and "k \<le> length t"
  shows "utf8_len (c # t) = Suc k"
proof -
  have k: "length (take k s) = k" using utf8_len_le [of "c # s"] assms(1) by simp
  have "utf8_len (c # take k s @ drop k s) = Suc (length (take k s))" using assms(1) k by simp
  from utf8_len_append [OF this, of "drop k t"] show ?thesis
    using k assms(2,3) by (metis append_take_drop_id)
qed

lemma line_separators:
  "utf8_len (CHR 0xE2 # CHR 0x80 # CHR 0xA8 # s) = 3" "utf8_len (CHR 0xE2 # CHR 0x80 # CHR 0xA9 # s) = 3"
  "p_string 0 ([CHR 0x5C] @ ''u2028'' @ s) = map_option (apfst ((@) [CHR 0xE2, CHR 0x80, CHR 0xA8])) (p_string 0 s)"
  "p_string 0 ([CHR 0x5C] @ ''u2029'' @ s) = map_option (apfst ((@) [CHR 0xE2, CHR 0x80, CHR 0xA9])) (p_string 0 s)"
proof -
  have "utf8_encode 0x2028 = [CHR 0xE2, CHR 0x80, CHR 0xA8]" "utf8_encode 0x2029 = [CHR 0xE2, CHR 0x80, CHR 0xA9]"
    "list_all is_hex ''20289''" "hex4 CHR ''2'' CHR ''0'' CHR ''2'' CHR ''8'' = 0x2028"
    "hex4 CHR ''2'' CHR ''0'' CHR ''2'' CHR ''9'' = 0x2029" "\<not> surrogate 0x2028" "\<not> surrogate 0x2029"
    by code_simp+
  then show
    "p_string 0 ([CHR 0x5C] @ ''u2028'' @ s) = map_option (apfst ((@) [CHR 0xE2, CHR 0x80, CHR 0xA8])) (p_string 0 s)"
    "p_string 0 ([CHR 0x5C] @ ''u2029'' @ s) = map_option (apfst ((@) [CHR 0xE2, CHR 0x80, CHR 0xA9])) (p_string 0 s)"
    by (simp_all add: Let_def)
qed (simp_all add: in_range_def is_cont_def)

lemma p_string_body:
  "valid_text k s \<Longrightarrow> p_string k (enc_body k s @ CHR 0x22 # rest) = Some (s, rest)"
proof (induction k s rule: enc_body.induct)
  case (3 c s)
  show ?case
  proof (cases "byte c < 128")
    case True
    then have "valid_text 0 s" using "3.prems" by simp
    then show ?thesis using "3.IH"(1) [OF True] True p_string_escaped [OF True] by simp
  next
    case False
    note big = this
    consider (ls) u where "c # s = CHR 0xE2 # CHR 0x80 # CHR 0xA8 # u"
      | (ps) u where "c # s = CHR 0xE2 # CHR 0x80 # CHR 0xA9 # u"
      | (other) "\<not> has_prefix (c # s) [CHR 0xE2, CHR 0x80, CHR 0xA8]" "\<not> has_prefix (c # s) [CHR 0xE2, CHR 0x80, CHR 0xA9]"
      by (auto simp: has_prefix_append)
    then show ?thesis
    proof cases
      case ls
      then have "valid_text 0 u" using "3.prems" line_separators(1) [of u] by (simp del: utf8_len.simps add: numeral_2_eq_2)
      then have "p_string 0 (enc_body 0 u @ CHR 0x22 # rest) = Some (u, rest)"
        using "3.IH"(2) [OF big] ls by simp
      then show ?thesis using line_separators(3) [of "enc_body 0 u @ CHR 0x22 # rest"] ls by simp
    next
      case ps
      then have "valid_text 0 u" using "3.prems" line_separators(2) [of u] by (simp del: utf8_len.simps add: numeral_2_eq_2)
      then have "p_string 0 (enc_body 0 u @ CHR 0x22 # rest) = Some (u, rest)"
        using "3.IH"(3) [OF big] ps by simp
      then show ?thesis using line_separators(4) [of "enc_body 0 u @ CHR 0x22 # rest"] ps by simp
    next
      case other
      obtain k where k: "utf8_len (c # s) = Suc k" and v: "valid_text k s"
        using "3.prems" by (cases "utf8_len (c # s)") (simp_all del: utf8_len.simps)
      have e: "enc_body 0 (c # s) = c # enc_body k s" using big other k by (simp del: utf8_len.simps)
      have "k \<le> length s" using v valid_text_drop by blast
      then have "utf8_len (c # enc_body k s @ CHR 0x22 # rest) = Suc k"
        using utf8_len_prefix [OF k] enc_body_keeps [of k s] by simp
      moreover have "p_string k (enc_body k s @ CHR 0x22 # rest) = Some (s, rest)"
        using "3.IH"(5) [OF big other k v] .
      ultimately show ?thesis using big unfolding e by (simp del: utf8_len.simps)
    qed
  qed
qed simp_all

section \<open>Values\<close>

text \<open>
  A text read back as a value, whatever may follow a value, by a parser with fuel for its length that may still
  open \<open>D\<close> containers.
\<close>

abbreviation ends :: "string \<Rightarrow> bool" where
  "ends rest \<equiv> rest = [] \<or> hd rest \<in> {CHR '','', CHR '']'', CHR ''}''}"

definition encodes :: "int \<Rightarrow> string \<Rightarrow> json \<Rightarrow> bool" where
  "encodes D t v \<longleftrightarrow> t \<noteq> [] \<and> \<not> is_ws (hd t) \<and> hd t \<notin> {CHR '']'', CHR ''}''} \<and>
     (\<forall>n d rest. 2 * length t \<le> n \<and> D \<le> d \<and> ends rest \<longrightarrow> p_value n d (t @ rest) = Some (v, rest))"

lemma encodes_weaken: "encodes D t v \<Longrightarrow> D \<le> D' \<Longrightarrow> encodes D' t v"
  by (auto simp: encodes_def)

lemma skip_ws_head: "t \<noteq> [] \<Longrightarrow> \<not> is_ws (hd t) \<Longrightarrow> skip_ws (t @ s) = t @ s"
  by (cases t) (simp_all add: skip_ws_def)

lemma json_parse_encodes:
  assumes "encodes D t v" and "D \<le> max_nesting"
  shows "json_parse t = Some v"
proof -
  have "skip_ws t = t" using skip_ws_head [of t "[]"] assms(1) by (simp add: encodes_def)
  moreover have "p_value (parse_fuel t) max_nesting (t @ []) = Some (v, [])"
    using assms by (simp add: encodes_def del: p_value.simps append_Nil2)
  ultimately show ?thesis by (simp add: json_parse_def skip_ws_def del: p_value.simps)
qed

lemma encodes_string:
  assumes "valid_text 0 s"
  shows "encodes 0 (enc_string s) (JStr s)"
proof -
  have "p_value n d (enc_string s @ rest) = Some (JStr s, rest)" if "2 * length (enc_string s) \<le> n" for n d rest
    using that p_string_body [OF assms, of rest] by (cases n) (simp_all add: enc_string_def)
  then show ?thesis by (simp add: encodes_def) (simp add: enc_string_def is_ws_def)
qed

lemma encodes_null: "encodes 0 ''null'' JNull"
proof -
  have "p_value n d (''null'' @ rest) = Some (JNull, rest)" if "8 \<le> n" for n d rest
    using that by (cases n) (simp_all add: is_digit_def in_range_def)
  then show ?thesis by (simp add: encodes_def is_ws_def)
qed

text \<open>The literal of a number ends where no digit, point or exponent follows.\<close>

lemma p_number_int:
  assumes "ends rest"
  shows "p_number (enc_int i @ rest) = Some (enc_int i, rest)"
proof -
  have rest: "takeWhile is_digit rest = []" "dropWhile is_digit rest = rest" "\<not> has_prefix rest ''.''"
    "\<not> has_prefix rest ''e''" "\<not> has_prefix rest ''E''"
    using assms by (cases rest; auto simp: is_digit_def in_range_def)+
  have "(if has_prefix (digits_of n @ rest) ''0'' then Some (''0'', drop 1 (digits_of n @ rest))
      else p_digits (digits_of n @ rest)) = Some (digits_of n, rest)" if n: "0 \<le> n" for n
  proof (cases "n = 0")
    case True
    then show ?thesis by (simp add: digits_of.simps [of 0] char_of_def)
  next
    case False
    then have d: "list_all is_digit (digits_of n)" "digits_of n \<noteq> []" "in_range 49 57 (hd (digits_of n))"
      using decimal_digits_of [OF n] n by simp_all
    then have "\<not> has_prefix (digits_of n @ rest) ''0''" by (cases "digits_of n") (auto simp: in_range_def)
    moreover have "takeWhile is_digit (digits_of n @ rest) = digits_of n" "dropWhile is_digit (digits_of n @ rest) = rest"
      using d(1) rest(1,2) by (simp_all add: list_all_iff)
    ultimately show ?thesis using d(2) by (cases "digits_of n") (simp_all add: p_digits_def)
  qed
  note whole = this
  show ?thesis
  proof (cases "i < 0")
    case True
    then show ?thesis using whole [of "- i"] rest by (simp add: p_number_def enc_int_def)
  next
    case False
    then have "\<not> has_prefix (digits_of i @ rest) ''-''"
      using decimal_digits_of [of i] by (cases "digits_of i") (auto simp: is_digit_def in_range_def)
    then show ?thesis using whole [of i] rest False by (simp add: p_number_def enc_int_def)
  qed
qed

lemma enc_int_head: "enc_int i \<noteq> [] \<and> (hd (enc_int i) = CHR ''-'' \<or> is_digit (hd (enc_int i)))"
proof (cases "i < 0")
  case True
  then show ?thesis by (simp add: enc_int_def)
next
  case False
  then have "list_all is_digit (digits_of i)" "digits_of i \<noteq> []" using decimal_digits_of [of i] by simp_all
  then show ?thesis using False by (cases "digits_of i") (simp_all add: enc_int_def)
qed

lemma encodes_int: "encodes 0 (enc_int i) (JNum (enc_int i))"
proof -
  obtain c s where c: "enc_int i = c # s" "c = CHR ''-'' \<or> is_digit c"
    using enc_int_head [of i] by (cases "enc_int i") auto
  have "p_value n d (enc_int i @ rest) = Some (JNum (enc_int i), rest)" if "2 * length (enc_int i) \<le> n" "ends rest" for n d rest
    using that(1) p_number_int [OF that(2), of i] c by (cases n) (auto simp: is_digit_def in_range_def)
  then show ?thesis using c by (auto simp: encodes_def is_ws_def is_digit_def in_range_def)
qed

section \<open>Arrays\<close>

lemma span_before: "span (t @ s) s = t"
  by simp

lemma p_elems_join:
  assumes "list_all2 (encodes D) ts vs" and "ts \<noteq> []" and "D \<le> d"
    and "2 * length (join_with '','' ts) < n"
  shows "p_elems n d (join_with '','' ts @ CHR '']'' # rest) = Some (zip vs ts, rest)"
  using assms
proof (induction ts arbitrary: vs n)
  case (Cons t ts)
  obtain v ws where vs: "vs = v # ws" and v: "encodes D t v" and ws: "list_all2 (encodes D) ts ws"
    using Cons.prems(1) by (cases vs) auto
  obtain m where n: "n = Suc m" using Cons.prems(4) by (cases n) auto
  show ?case
  proof (cases ts)
    case Nil
    then have "p_value m d (t @ CHR '']'' # rest) = Some (v, CHR '']'' # rest)"
      using v Cons.prems(3,4) n by (simp add: encodes_def)
    then show ?thesis using Nil vs ws n span_before [of t "CHR '']'' # rest"] by (simp add: skip_ws_def is_ws_def)
  next
    case (Cons t' ts')
    let ?tail = "join_with '','' ts @ CHR '']'' # rest"
    have j: "join_with '','' (t # ts) = t @ CHR '','' # join_with '','' ts" using Cons by simp
    have len: "2 * length t \<le> m" "2 * length (join_with '','' ts) < m"
      using Cons.prems(4) j n by simp_all
    have p: "p_value m d (t @ CHR '','' # ?tail) = Some (v, CHR '','' # ?tail)"
      using v Cons.prems(3) len(1) by (simp add: encodes_def)
    have t': "t' \<noteq> []" "\<not> is_ws (hd t')" using ws Cons by (auto simp: encodes_def list_all2_Cons1)
    have "skip_ws ?tail = ?tail"
      using skip_ws_head [OF t'] Cons by (cases ts') simp_all
    moreover have "p_elems m d ?tail = Some (zip ws ts, rest)"
      using Cons.IH [OF ws _ Cons.prems(3) len(2)] Cons by simp
    ultimately show ?thesis
      using p vs n span_before [of t "CHR '','' # ?tail"] unfolding j by (simp add: skip_ws_def is_ws_def)
  qed
qed simp

lemma join_with_Nil_iff: "[] \<notin> set ts \<Longrightarrow> ts \<noteq> [] \<Longrightarrow> join_with sep ts \<noteq> [] \<and> hd (join_with sep ts) = hd (hd ts)"
  by (induction sep ts rule: join_with.induct) auto

lemma list_all2_encodes_nonempty: "list_all2 (encodes D) ts vs \<Longrightarrow> [] \<notin> set ts"
  by (induction rule: list_all2_induct) (auto simp: encodes_def)

lemma encodes_array:
  assumes "list_all2 (encodes D) ts vs" and "0 \<le> D"
  shows "encodes (D + 1) (enc_array ts) (JArr vs)"
proof (cases ts)
  case Nil
  then have "vs = []" using assms by simp
  moreover have "p_value n d (''[]'' @ rest) = Some (JArr [], rest)" if "4 \<le> n" "1 \<le> d" for n d rest
    using that by (cases n) (simp_all add: skip_ws_def is_ws_def)
  ultimately show ?thesis using Nil assms(2) by (auto simp: encodes_def enc_array_def is_ws_def)
next
  case (Cons t0 ts0)
  then have ne: "ts \<noteq> []" by simp
  obtain v0 where t0: "encodes D t0 v0" using assms(1) Cons by (auto simp: list_all2_Cons1)
  have j: "join_with '','' ts \<noteq> []" "hd (join_with '','' ts) = hd t0"
    using join_with_Nil_iff [OF list_all2_encodes_nonempty [OF assms(1)] ne] Cons by auto
  have hd: "\<not> is_ws (hd t0)" "hd t0 \<noteq> CHR '']''" using t0 by (auto simp: encodes_def)
  have vs: "map fst (zip vs ts) = vs" using assms(1) by (simp add: list_all2_lengthD)
  have "p_value n d (enc_array ts @ rest) = Some (JArr vs, rest)" if fuel: "2 * length (enc_array ts) \<le> n" and depth: "D + 1 \<le> d" for n d rest
  proof -
    obtain m where n: "n = Suc m" using fuel by (cases n) (simp_all add: enc_array_def)
    let ?s = "join_with '','' ts @ CHR '']'' # rest"
    have "skip_ws ?s = ?s" using skip_ws_head j hd by simp
    moreover have "\<not> has_prefix ?s '']''" using j hd by (cases "join_with '','' ts") simp_all
    moreover have "p_elems m (d - 1) ?s = Some (zip vs ts, rest)"
      using p_elems_join [OF assms(1) ne] fuel depth n by (simp add: enc_array_def)
    ultimately show ?thesis
      using depth n assms(2) vs by (simp add: enc_array_def is_digit_def in_range_def)
  qed
  then show ?thesis by (simp add: encodes_def) (simp add: enc_array_def is_ws_def)
qed

lemma raw_elems_array:
  assumes "list_all2 (encodes D) ts vs" and "D \<le> max_nesting"
  shows "raw_elems (enc_array ts) = ts"
proof (cases ts)
  case (Cons t0 ts0)
  then have ne: "ts \<noteq> []" by simp
  obtain v0 where t0: "encodes D t0 v0" using assms(1) Cons by (auto simp: list_all2_Cons1)
  have j: "join_with '','' ts \<noteq> []" "hd (join_with '','' ts) = hd t0"
    using join_with_Nil_iff [OF list_all2_encodes_nonempty [OF assms(1)] ne] Cons by auto
  let ?s = "join_with '','' ts @ CHR '']'' # []"
  have s: "skip_ws (drop 1 (skip_ws (enc_array ts))) = ?s"
    using skip_ws_head [of "join_with '','' ts" "CHR '']'' # []"] j t0
    by (simp add: enc_array_def skip_ws_def is_ws_def encodes_def)
  have "p_elems (Suc (parse_fuel ?s)) max_nesting ?s = Some (zip vs ts, [])"
    by (rule p_elems_join [OF assms(1) ne assms(2)]) simp
  moreover have "map snd (zip vs ts) = ts" using assms(1) by (simp add: list_all2_lengthD)
  ultimately show ?thesis unfolding raw_elems_def Let_def s by simp
qed (use assms in \<open>simp add: raw_elems_def enc_array_def skip_ws_def is_ws_def is_digit_def in_range_def eval_nat_numeral\<close>)

section \<open>Objects\<close>

abbreviation member_text :: "string \<times> string \<Rightarrow> string" where
  "member_text \<equiv> \<lambda>(k, t). enc_string k @ '':'' @ t"

definition members_encode :: "int \<Rightarrow> (string \<times> string) list \<Rightarrow> (string \<times> json) list \<Rightarrow> bool" where
  "members_encode D ms vs \<longleftrightarrow> list_all2 (\<lambda>(k, t) (k', v). k' = k \<and> valid_text 0 k \<and> encodes D t v) ms vs"

abbreviation with_texts :: "(string \<times> json) list \<Rightarrow> (string \<times> string) list \<Rightarrow> (string \<times> json \<times> string) list" where
  "with_texts vs ms \<equiv> map (\<lambda>((k, v), (_, t)). (k, v, t)) (zip vs ms)"

lemma p_members_join:
  assumes "members_encode D ms vs" and "ms \<noteq> []" and "D \<le> d"
    and "2 * length (join_with '','' (map member_text ms)) < n"
  shows "p_members n d (join_with '','' (map member_text ms) @ CHR ''}'' # rest) = Some (with_texts vs ms, rest)"
  using assms
proof (induction ms arbitrary: vs n)
  case (Cons e ms)
  obtain k t where e: "e = (k, t)" by (cases e)
  obtain v ws where vs: "vs = (k, v) # ws" and v: "encodes D t v" and k: "valid_text 0 k" and ws: "members_encode D ms ws"
    using Cons.prems(1) e by (cases vs) (auto simp: members_encode_def)
  obtain m where n: "n = Suc m" using Cons.prems(4) by (cases n) auto
  have t: "skip_ws (t @ s) = t @ s" for s using v skip_ws_head by (simp add: encodes_def)
  have key: "p_string 0 (enc_body 0 k @ CHR 0x22 # s) = Some (k, s)" for s using p_string_body [OF k] .
  show ?case
  proof (cases ms)
    case Nil
    then have "p_value m d (t @ CHR ''}'' # rest) = Some (v, CHR ''}'' # rest)"
      using v Cons.prems(3,4) n e by (simp add: encodes_def)
    then show ?thesis using Nil vs ws n e t key span_before [of t "CHR ''}'' # rest"]
      by (simp add: enc_string_def skip_ws_def is_ws_def members_encode_def)
  next
    case (Cons e' ms')
    let ?tail = "join_with '','' (map member_text ms) @ CHR ''}'' # rest"
    have j: "join_with '','' (map member_text (e # ms)) = (enc_string k @ '':'' @ t) @ CHR '','' # join_with '','' (map member_text ms)"
      using Cons e by simp
    have len: "2 * length t \<le> m" "2 * length (join_with '','' (map member_text ms)) < m"
      using Cons.prems(4) j n by simp_all
    have p: "p_value m d (t @ CHR '','' # ?tail) = Some (v, CHR '','' # ?tail)"
      using v Cons.prems(3) len(1) by (simp add: encodes_def)
    have "skip_ws ?tail = ?tail"
      using Cons by (cases e'; cases ms') (simp_all add: skip_ws_def is_ws_def enc_string_def)
    moreover have "p_members m d ?tail = Some (with_texts ws ms, rest)"
      using Cons.IH [OF ws _ Cons.prems(3) len(2)] Cons by simp
    ultimately show ?thesis
      using p vs n e t key span_before [of t "CHR '','' # ?tail"] unfolding j
      by (simp add: enc_string_def skip_ws_def is_ws_def)
  qed
qed simp

lemma with_texts_values:
  assumes "members_encode D ms vs"
  shows "map (\<lambda>(k, v, raw). (k, v)) (with_texts vs ms) = vs" "map (\<lambda>(k, v, raw). (k, raw)) (with_texts vs ms) = ms"
  using assms unfolding members_encode_def by (induction ms vs rule: list_all2_induct) auto

lemma object_tail:
  assumes "ms \<noteq> []"
  shows "skip_ws (join_with '','' (map member_text ms) @ rest) = join_with '','' (map member_text ms) @ rest"
    and "\<not> has_prefix (join_with '','' (map member_text ms) @ rest) ''}''"
proof -
  obtain k t ms' where "ms = (k, t) # ms'" using assms by (cases ms) auto
  then have "\<exists>s. join_with '','' (map member_text ms) = CHR 0x22 # s" by (cases ms') (simp_all add: enc_string_def)
  then show "skip_ws (join_with '','' (map member_text ms) @ rest) = join_with '','' (map member_text ms) @ rest"
    "\<not> has_prefix (join_with '','' (map member_text ms) @ rest) ''}''"
    by (auto simp: skip_ws_def is_ws_def)
qed

lemma encodes_object:
  assumes "members_encode D ms vs" and "ms \<noteq> []" and "0 \<le> D"
  shows "encodes (D + 1) (enc_object ms) (JObj vs)"
proof -
  have "p_value n d (enc_object ms @ rest) = Some (JObj vs, rest)" if fuel: "2 * length (enc_object ms) \<le> n" and depth: "D + 1 \<le> d" for n d rest
  proof -
    obtain m where n: "n = Suc m" using fuel by (cases n) (simp_all add: enc_object_def)
    let ?s = "join_with '','' (map member_text ms) @ CHR ''}'' # rest"
    have "p_members m (d - 1) ?s = Some (with_texts vs ms, rest)"
      using p_members_join [OF assms(1,2)] fuel depth n by (simp add: enc_object_def)
    then show ?thesis
      using depth n assms(3) object_tail [OF assms(2), of "CHR ''}'' # rest"] with_texts_values(1) [OF assms(1)]
      by (simp add: enc_object_def is_digit_def in_range_def)
  qed
  then show ?thesis by (simp add: encodes_def) (simp add: enc_object_def is_ws_def)
qed

lemma raw_members_object:
  assumes "members_encode D ms vs" and "ms \<noteq> []" and "D \<le> max_nesting"
  shows "raw_members (enc_object ms) = ms"
proof -
  let ?s = "join_with '','' (map member_text ms) @ CHR ''}'' # []"
  have s: "skip_ws (drop 1 (skip_ws (enc_object ms))) = ?s"
    using object_tail [OF assms(2), of "CHR ''}'' # []"] by (simp add: enc_object_def skip_ws_def is_ws_def)
  have "p_members (Suc (parse_fuel ?s)) max_nesting ?s = Some (with_texts vs ms, [])"
    by (rule p_members_join [OF assms]) simp
  then show ?thesis unfolding raw_members_def Let_def s using with_texts_values(2) [OF assms(1)] by simp
qed

section \<open>Decoding what was encoded\<close>

text \<open>Two levels, which every struct of strings and lists of strings stays below.\<close>

lemma nesting: "1 \<le> max_nesting" "2 \<le> max_nesting"
  by (simp_all add: max_nesting_def)

lemma dec_struct_object:
  assumes "members_encode 1 ms vs" and "ms \<noteq> []"
  shows "dec_struct fs (enc_object ms) old = dec_members fs ms old"
  using json_parse_encodes [OF encodes_object [OF assms]] raw_members_object [OF assms] nesting
  by (simp add: dec_struct_def)

lemma dec_enc_string [simp]:
  "valid_text 0 s \<Longrightarrow> dec_string (enc_string s) old = Some s"
  "valid_text 0 s \<Longrightarrow> dec_ptr dec_string zero (enc_string s) p = Some (Some s)"
  using json_parse_encodes [OF encodes_string] nesting by (simp_all add: dec_string_def dec_ptr_def)

lemma int_literal_enc: "in_i64 i \<Longrightarrow> int_literal (enc_int i) = Some i"
proof -
  assume i: "in_i64 i"
  show ?thesis
  proof (cases "i < 0")
    case True
    then have "list_all is_digit (digits_of (- i)) \<and> digits_of (- i) \<noteq> [] \<and> decimal (digits_of (- i)) = - i"
      using decimal_digits_of [of "- i"] by simp
    then show ?thesis using True i by (simp add: int_literal_def enc_int_def decimal_def)
  next
    case False
    then show ?thesis using i decimal_digits_of [of i] by (simp add: int_literal_decimal enc_int_def)
  qed
qed

lemma dec_enc_int [simp]: "in_i64 i \<Longrightarrow> dec_int (enc_int i) old = Some i"
  using json_parse_encodes [OF encodes_int] nesting int_literal_enc by (simp add: dec_int_def)

lemma strings_encode:
  "\<forall>s \<in> set ss. valid_text 0 s \<Longrightarrow> list_all2 (encodes 0) (map enc_string ss) (map JStr ss)"
  by (induction ss) (auto intro: encodes_string)

lemma dec_all_strings: "\<forall>s \<in> set ss. valid_text 0 s \<Longrightarrow> dec_all dec_string [] (map enc_string ss) old = Some ss"
  by (induction ss arbitrary: old) simp_all

lemma dec_enc_strings [simp]:
  assumes "\<forall>s \<in> set (elems ss). valid_text 0 s"
  shows "dec_strings (enc_strings ss) old = Some ss"
proof (cases ss)
  case None
  then show ?thesis using json_parse_encodes [OF encodes_null] nesting by (simp add: dec_slice_def enc_slice_def)
next
  case (Some xs)
  then have l: "list_all2 (encodes 0) (map enc_string xs) (map JStr xs)" using strings_encode assms by simp
  have "json_parse (enc_array (map enc_string xs)) = Some (JArr (map JStr xs))"
    using json_parse_encodes [OF encodes_array [OF l]] nesting by simp
  then show ?thesis
    using raw_elems_array [OF l] dec_all_strings [of xs "elems old"] Some assms nesting
    by (simp add: dec_slice_def enc_slice_def)
qed

lemma encodes_strings:
  assumes "\<forall>s \<in> set (elems ss). valid_text 0 s"
  shows "\<exists>v. encodes 1 (enc_strings ss) v"
proof (cases ss)
  case None
  then show ?thesis using encodes_weaken [OF encodes_null, of 1] by (auto simp: enc_slice_def)
next
  case (Some xs)
  then show ?thesis using encodes_array [OF strings_encode [of xs]] assms by (auto simp: enc_slice_def)
qed

section \<open>Credentials\<close>

text \<open>The credential a pointer points to, and the strings of a credential.\<close>

fun dereferenced :: "BuiltInGrantResponse \<Rightarrow> BuiltInGrantResponse" where
  "dereferenced (OAuthBearerPtr (Some v)) = OAuthBearer v"
| "dereferenced (APIKeyPtr (Some v)) = APIKey v"
| "dereferenced (BasicPtr (Some v)) = Basic v"
| "dereferenced c = c"

definition credential_strings :: "BuiltInGrantResponse \<Rightarrow> string list" where
  "credential_strings c =
     (case dereferenced c of
        OAuthBearer v \<Rightarrow>
          [oauth_AccessToken v, oauth_CredentialID v, oauth_ExpiresAt v, oauth_TokenType v] @ elems (oauth_Scopes v)
      | APIKey v \<Rightarrow> [key_APIKey v, key_CredentialID v, key_ExpiresAt v, key_Header v] @ elems (key_Scopes v)
      | Basic v \<Rightarrow>
          [basic_CredentialID v, basic_ExpiresAt v, basic_Password v, basic_Username v] @
          (case basic_Realm v of None \<Rightarrow> [] | Some r \<Rightarrow> [r]) @ elems (basic_Scopes v)
      | _ \<Rightarrow> [])"

lemma members_encode_string:
  "valid_text 0 k \<Longrightarrow> valid_text 0 s \<Longrightarrow> \<exists>vs. members_encode 1 ms vs \<Longrightarrow> \<exists>vs. members_encode 1 ((k, enc_string s) # ms) vs"
  unfolding members_encode_def using encodes_weaken [OF encodes_string [of s], of 1]
  by (force intro: exI [of _ "(k, JStr s) # vs" for vs])

lemma members_encode_strings:
  assumes "valid_text 0 k" "\<forall>s \<in> set (elems ss). valid_text 0 s" "\<exists>vs. members_encode 1 ms vs"
  shows "\<exists>vs. members_encode 1 ((k, enc_strings ss) # ms) vs"
proof -
  obtain v vs where "encodes 1 (enc_strings ss) v" "members_encode 1 ms vs" using encodes_strings [OF assms(2)] assms(3) by blast
  then have "members_encode 1 ((k, enc_strings ss) # ms) ((k, v) # vs)" using assms(1) by (simp add: members_encode_def)
  then show ?thesis ..
qed

lemma members_encode_int:
  "valid_text 0 k \<Longrightarrow> \<exists>vs. members_encode 1 ms vs \<Longrightarrow> \<exists>vs. members_encode 1 ((k, enc_int i) # ms) vs"
  unfolding members_encode_def using encodes_weaken [OF encodes_int [of i], of 1]
  by (force intro: exI [of _ "(k, JNum (enc_int i)) # vs" for vs])

lemma members_encode_Nil: "\<exists>vs. members_encode 1 [] vs"
  by (simp add: members_encode_def)

lemmas members_encode_rules = members_encode_string members_encode_strings members_encode_int members_encode_Nil

lemma field_names_valid:
  "list_all (valid_text 0) [''access_token'', ''credential_id'', ''expires_at'', ''scopes'', ''token_type'', ''api_key'',
     ''header'', ''password'', ''realm'', ''username'']"
  by code_simp

lemmas field_lookup = field_named_def equal_fold_def upper_ascii_def is_lower_def in_range_def on_field_def

lemma members_encode_value:
  assumes "members_encode 1 ms vs" and "(k, v) \<in> set vs"
  shows "\<exists>t. (k, t) \<in> set ms \<and> json_parse t = Some v"
  using assms unfolding members_encode_def
proof (induction ms vs rule: list_all2_induct)
  case (Cons x xs y ys)
  then show ?case using json_parse_encodes [of 1 "snd x" "snd y", OF _ nesting(1)] by (cases x; cases y) auto
qed simp

lemma dec_struct_encoded:
  "\<exists>vs. members_encode 1 (m # ms) vs \<Longrightarrow> dec_struct fs (enc_object (m # ms)) old = dec_members fs (m # ms) old"
  by (elim exE, rule dec_struct_object) simp_all

lemma oauth_round_trip:
  assumes "\<forall>s \<in> set (credential_strings (OAuthBearer v)). valid_text 0 s"
  shows "dec_struct fields_oauth (enc_oauth v) zero_oauth = Some v"
proof -
  have "\<exists>vs. members_encode 1 [(''access_token'', enc_string (oauth_AccessToken v)),
    (''credential_id'', enc_string (oauth_CredentialID v)), (''expires_at'', enc_string (oauth_ExpiresAt v)),
    (''scopes'', enc_strings (oauth_Scopes v)), (''token_type'', enc_string (oauth_TokenType v))] vs"
    by (intro members_encode_rules) (use field_names_valid assms in \<open>simp_all add: credential_strings_def\<close>)
  note decoded = dec_struct_encoded [OF this]
  show ?thesis
    unfolding enc_oauth_def decoded using assms
    by (simp add: fields_oauth_def field_lookup zero_oauth_def credential_strings_def)
qed

lemma key_round_trip:
  assumes "\<forall>s \<in> set (credential_strings (APIKey v)). valid_text 0 s"
  shows "dec_struct fields_key (enc_key v) zero_key = Some v"
proof -
  have "\<exists>vs. members_encode 1 [(''api_key'', enc_string (key_APIKey v)), (''credential_id'', enc_string (key_CredentialID v)),
    (''expires_at'', enc_string (key_ExpiresAt v)), (''header'', enc_string (key_Header v)),
    (''scopes'', enc_strings (key_Scopes v))] vs"
    by (intro members_encode_rules) (use field_names_valid assms in \<open>simp_all add: credential_strings_def\<close>)
  note decoded = dec_struct_encoded [OF this]
  show ?thesis
    unfolding enc_key_def decoded using assms
    by (simp add: fields_key_def field_lookup zero_key_def credential_strings_def)
qed

text \<open>The realm is left out when it is nil, and never null.\<close>

lemma basic_round_trip:
  assumes "\<forall>s \<in> set (credential_strings (Basic v)). valid_text 0 s"
  shows "dec_struct fields_basic (enc_basic v) zero_basic = Some v"
    and "rejectNullPaths (enc_basic v) t [''/realm''] = None"
proof -
  let ?head = "\<lambda>ms. (''credential_id'', enc_string (basic_CredentialID v)) # (''expires_at'', enc_string (basic_ExpiresAt v)) #
    (''password'', enc_string (basic_Password v)) # ms"
  let ?tail = "[(''scopes'', enc_strings (basic_Scopes v)), (''username'', enc_string (basic_Username v))]"
  let ?ms = "?head (omit_nil ''realm'' enc_string (basic_Realm v) @ ?tail)"
  have whole: "enc_basic v = enc_object ?ms" by (simp add: enc_basic_def)
  have ms: "\<exists>vs. members_encode 1 ?ms vs"
  proof (cases "basic_Realm v")
    case None
    show ?thesis unfolding None omit_nil_def option.case append_Nil
      by (intro members_encode_rules) (use field_names_valid assms in \<open>simp_all add: credential_strings_def\<close>)
  next
    case (Some r)
    show ?thesis unfolding Some omit_nil_def option.case append_Cons append_Nil
      by (intro members_encode_rules) (use field_names_valid assms Some in \<open>simp_all add: credential_strings_def\<close>)
  qed
  show "dec_struct fields_basic (enc_basic v) zero_basic = Some v"
    unfolding whole dec_struct_encoded [OF ms] using assms
    by (cases "basic_Realm v") (simp_all add: fields_basic_def field_lookup zero_basic_def credential_strings_def omit_nil_def)
  obtain vs where vs: "members_encode 1 ?ms vs" using ms ..
  have "json_parse (enc_basic v) = Some (JObj vs)"
    unfolding whole using json_parse_encodes [OF encodes_object [OF vs]] nesting by simp
  moreover have "json_walk (JObj vs) [''realm''] \<noteq> Some JNull"
  proof
    assume "json_walk (JObj vs) [''realm''] = Some JNull"
    then have "(''realm'', JNull) \<in> set vs" by (auto simp: json_member_def split: option.splits dest: map_of_SomeD)
    then obtain raw where "(''realm'', raw) \<in> set ?ms" and null: "json_parse raw = Some JNull"
      using members_encode_value [OF vs] by blast
    then obtain r where "raw = enc_string r" "valid_text 0 r"
      using assms by (auto simp: omit_nil_def credential_strings_def split: option.splits)
    then show False using null json_parse_encodes [OF encodes_string] nesting by simp
  qed
  ultimately show "rejectNullPaths (enc_basic v) t [''/realm''] = None"
    by (simp add: rejectNullPaths_def validationResult_None trim_prefix_def)
qed

lemma rejectNullPaths_Nil [simp]: "rejectNullPaths data t [] = None"
  by (simp add: rejectNullPaths_def validationResult_None split: option.splits)

text \<open>A credential that validates and whose strings are valid UTF-8 is read back as it was.\<close>

lemma credential_round_trip:
  assumes "ValidateBuiltInGrantResponse g (Some c) = None" and "\<forall>s \<in> set (credential_strings c). valid_text 0 s"
  shows "ParseBuiltInGrantResponse g (enc_grant_response c) = Inr (dereferenced c)"
proof -
  have kinds:
    "g = GrantTypeOAuthBearer \<and> ValidateOAuthBearerGrantResponse v = None \<Longrightarrow>
       \<forall>s \<in> set (credential_strings (OAuthBearer v)). valid_text 0 s \<Longrightarrow>
       ParseBuiltInGrantResponse g (enc_oauth v) = Inr (OAuthBearer v)"
    "g = GrantTypeAPIKey \<and> ValidateAPIKeyGrantResponse k = None \<Longrightarrow>
       \<forall>s \<in> set (credential_strings (APIKey k)). valid_text 0 s \<Longrightarrow>
       ParseBuiltInGrantResponse g (enc_key k) = Inr (APIKey k)"
    "g = GrantTypeBasic \<and> ValidateBasicGrantResponse b = None \<Longrightarrow>
       \<forall>s \<in> set (credential_strings (Basic b)). valid_text 0 s \<Longrightarrow>
       ParseBuiltInGrantResponse g (enc_basic b) = Inr (Basic b)" for v k b
    using oauth_round_trip [of v] key_round_trip [of k] basic_round_trip [of b]
    by (simp_all add: ParseBuiltInGrantResponse_def ParseOAuthBearerGrantResponse_def ParseAPIKeyGrantResponse_def
        ParseBasicGrantResponse_def parseAndValidate_def decodeOne_def)
  show ?thesis
    using assms kinds
    by (cases "(g, Some c)" rule: ValidateBuiltInGrantResponse.cases)
      (auto simp: credential_strings_def split: if_splits option.splits)
qed

end
