(* ===== verification/Agent_Credentials.thy ===== *)
theory Agent_Credentials
  imports Agent_Sessions Service_Credentials Json_Texts
begin

text \<open>
  A credential from end to end: issued and stored by a Service, sent as JSON, kept by an Agent, presented
  in a header field and recognised by the Service again.
\<close>

section \<open>Canonical header names\<close>

fun canonical :: "bool \<Rightarrow> string \<Rightarrow> string" where
  "canonical up [] = []"
| "canonical up (c # s) = (if up then upper_ascii c else lower_ascii c) # canonical (c = CHR ''-'') s"

lemma canonical_from: "canonical_from up s = canonical up s"
proof -
  have "rev (snd (foldl (\<lambda>(up, acc) c. (c = CHR ''-'', (if up then upper_ascii c else lower_ascii c) # acc)) (up, acc) s)) =
      rev acc @ canonical up s" for acc
    by (induction s arbitrary: up acc) simp_all
  then show ?thesis by (simp add: canonical_from_def)
qed

lemma byte_case:
  "byte (upper_ascii c) = (if is_lower c then byte c - 32 else byte c)"
  "byte (lower_ascii c) = (if is_upper c then byte c + 32 else byte c)"
  by (simp_all add: upper_ascii_def lower_ascii_def byte_class_defs)

lemma byte_dash: "c = CHR ''-'' \<longleftrightarrow> byte c = 45"
  using of_char_eq_iff [where ?'a = int, of c "CHR ''-''"] by simp

lemma upper_cases:
  "upper_ascii (lower_ascii c) = upper_ascii c" "lower_ascii (upper_ascii c) = lower_ascii c"
  "upper_ascii c = CHR ''-'' \<longleftrightarrow> c = CHR ''-''" "lower_ascii c = CHR ''-'' \<longleftrightarrow> c = CHR ''-''"
  "lower_ascii (lower_ascii c) = lower_ascii c"
  unfolding byte_dash of_char_eq_iff [where ?'a = int, symmetric] byte_case byte_class_defs by simp_all

lemma upper_canonical: "map upper_ascii (canonical up s) = map upper_ascii s"
  by (induction s arbitrary: up) (simp_all add: upper_cases)

lemma canonical_upper: "canonical up (map upper_ascii s) = canonical up s"
  by (induction s arbitrary: up) (simp_all add: upper_cases)

lemma canonical_idem: "canonical up (canonical up s) = canonical up s"
  by (metis canonical_upper upper_canonical)

lemma field_name_ascii: "field_name_char c \<Longrightarrow> byte c < 128"
  by (auto simp: field_name_char_def is_alnum_def byte_class_defs)

lemma field_name_case: "field_name_char (upper_ascii c) = field_name_char c" "field_name_char (lower_ascii c) = field_name_char c"
proof -
  have "is_alnum (upper_ascii c)" "is_alnum c" if "is_lower c"
    using that unfolding is_alnum_def byte_class_defs byte_case by simp_all
  moreover have "is_alnum (lower_ascii c)" "is_alnum c" if "is_upper c"
    using that unfolding is_alnum_def byte_class_defs byte_case by simp_all
  ultimately show "field_name_char (upper_ascii c) = field_name_char c" "field_name_char (lower_ascii c) = field_name_char c"
    by (auto simp: field_name_char_def upper_ascii_def lower_ascii_def)
qed

lemma canonical_field_name: "list_all field_name_char (canonical up s) \<longleftrightarrow> list_all field_name_char s"
  by (induction s arbitrary: up) (simp_all add: field_name_case)

lemma fold_ascii: "\<forall>c \<in> set s. byte c < 128 \<Longrightarrow> fold_case s = map upper_ascii s"
  by (induction s) auto

lemma IsHTTPFieldName_iff: "IsHTTPFieldName h \<longleftrightarrow> h \<noteq> [] \<and> list_all field_name_char h"
  by (auto simp: IsHTTPFieldName_def list_ex_iff list_all_iff)

lemma canonical_key_idem [simp]: "IsHTTPFieldName h \<Longrightarrow> CanonicalHeaderKey (CanonicalHeaderKey h) = CanonicalHeaderKey h"
  by (simp add: CanonicalHeaderKey_def IsHTTPFieldName_iff canonical_from canonical_field_name canonical_idem)

lemma fold_canonical_key: "IsHTTPFieldName h \<Longrightarrow> fold_case (CanonicalHeaderKey h) = map upper_ascii h"
proof -
  assume h: "IsHTTPFieldName h"
  then have "list_all field_name_char (canonical True h)" by (simp add: canonical_field_name IsHTTPFieldName_iff)
  then have "fold_case (canonical True h) = map upper_ascii h"
    using fold_ascii [of "canonical True h"] field_name_ascii by (auto simp: list_all_iff upper_canonical)
  then show ?thesis using h by (simp add: CanonicalHeaderKey_def IsHTTPFieldName_iff canonical_from)
qed

text \<open>Two canonical names that differ at all differ in more than case.\<close>

lemma canonical_keys_differ:
  assumes "IsHTTPFieldName h" and "IsHTTPFieldName k"
  shows "equal_fold (CanonicalHeaderKey h) (CanonicalHeaderKey k) \<longleftrightarrow> CanonicalHeaderKey h = CanonicalHeaderKey k"
proof
  assume "equal_fold (CanonicalHeaderKey h) (CanonicalHeaderKey k)"
  then have "map upper_ascii h = map upper_ascii k" using assms by (simp add: equal_fold_def fold_canonical_key)
  then have "canonical True h = canonical True k" by (metis canonical_upper)
  then show "CanonicalHeaderKey h = CanonicalHeaderKey k"
    using assms by (simp add: CanonicalHeaderKey_def IsHTTPFieldName_iff canonical_from)
qed simp

section \<open>The memory store of a Service\<close>

definition named_headers :: "memoryServiceCredentialStore \<Rightarrow> bool" where
  "named_headers s \<longleftrightarrow> (\<forall>(c, r) \<in> set s. mcr_grantType r = GrantTypeAPIKey \<longrightarrow>
     (\<exists>h. IsHTTPFieldName h \<and> mcr_header r = CanonicalHeaderKey h))"

lemma parsed_key_header:
  "ParseBuiltInGrantResponse g data = Inr (APIKey v) \<Longrightarrow> IsHTTPFieldName (key_Header v)"
  by (auto simp: ParseBuiltInGrantResponse_def ParseAPIKeyGrantResponse_def ValidateAPIKey_None
      dest: parseAndValidate_valid split: if_splits sum.splits)

lemma stored_key_header:
  assumes "memoryCredentialRecord sha256 r = Inr stored" and "mcr_grantType stored = GrantTypeAPIKey"
  shows "\<exists>h. IsHTTPFieldName h \<and> mcr_header stored = CanonicalHeaderKey h"
proof -
  obtain credential secret scopes where
    c: "ParseBuiltInGrantResponse (scr_GrantType r) (enc_grant_response (the (scr_Credential r))) = Inr credential"
    "credentialSecret credential = Inr (secret, mcr_header stored, scopes)"
    using assms(1) by (auto simp: memoryCredentialRecord_def split: if_splits option.splits sum.splits)
  moreover have "scr_GrantType r = GrantTypeAPIKey" using memory_record_fields [OF assms(1)] assms(2) by simp
  ultimately obtain v where "credential = APIKey v" by (auto simp: ParseBuiltInGrantResponse_def split: sum.splits)
  moreover from this have "IsHTTPFieldName (key_Header v)" using c(1) parsed_key_header by blast
  ultimately show ?thesis using c(2) by (auto simp: credentialSecret_def)
qed

lemma named_headers_revoke: "named_headers s \<Longrightarrow> named_headers (revoke_where P t s)"
  by (induction s) (auto simp: named_headers_def revoke_where_def split: if_splits)

lemma named_headers_kept:
  assumes "credentials_ok s" and "named_headers s"
  shows "named_headers (run_credential_op (NewMemoryServiceCredentialStore sha256 ctxDone whole) op s)"
proof -
  let ?store = "NewMemoryServiceCredentialStore sha256 ctxDone whole"
  have keys: "keys_distinct (part_get whole s)" using assms(1) by (simp add: credentials_ok_def whole_def)
  note revoke_simps = named_headers_revoke [OF assms(2)] assms(2)
  show ?thesis
  proof (cases op)
    case (Save r)
    obtain x s' where run: "memoryServiceCredentialStore_SaveCredential sha256 ctxDone whole r s = (x, s')"
      by (cases "memoryServiceCredentialStore_SaveCredential sha256 ctxDone whole r s")
    have "named_headers s'"
      using save_cases [OF run] assms(2) stored_key_header [of sha256 r] by (auto simp: named_headers_def whole_def)
    then show ?thesis using run Save by (simp add: NewMemoryServiceCredentialStore_def)
  next
    case (RevokeOne a g c t)
    obtain x s' where run: "memoryServiceCredentialStore_RevokeCredential ctxDone whole a g c t s = (x, s')"
      by (cases "memoryServiceCredentialStore_RevokeCredential ctxDone whole a g c t s")
    have "named_headers s'" using revoke_one_cases [OF run keys] revoke_simps by (auto simp: whole_def)
    then show ?thesis using run RevokeOne by (simp add: NewMemoryServiceCredentialStore_def)
  next
    case (RevokeAll a g t)
    obtain x s' where run: "memoryServiceCredentialStore_RevokeGrantType ctxDone whole a g t s = (x, s')"
      by (cases "memoryServiceCredentialStore_RevokeGrantType ctxDone whole a g t s")
    have "named_headers s'" using revoke_all_cases [OF run] revoke_simps by (auto simp: whole_def)
    then show ?thesis using run RevokeAll by (simp add: NewMemoryServiceCredentialStore_def)
  next
    case (Authenticate g i)
    obtain x s' where run: "memoryServiceCredentialStore_AuthenticateCredential sha256 ctxDone whole g i s = (x, s')"
      by (cases "memoryServiceCredentialStore_AuthenticateCredential sha256 ctxDone whole g i s")
    then show ?thesis using reads_nothing(1) [OF run] assms(2) Authenticate by (simp add: NewMemoryServiceCredentialStore_def)
  next
    case (HasPresentation g i)
    obtain x s' where run: "memoryServiceCredentialStore_HasCredentialPresentation ctxDone whole g i s = (x, s')"
      by (cases "memoryServiceCredentialStore_HasCredentialPresentation ctxDone whole g i s")
    then show ?thesis using reads_nothing(2) [OF run] assms(2) HasPresentation by (simp add: NewMemoryServiceCredentialStore_def)
  qed
qed

lemma reachable_store:
  defines "store \<equiv> \<lambda>sha256 ctxDone. NewMemoryServiceCredentialStore sha256 ctxDone whole"
  shows "credentials_ok (fold (run_credential_op (store sha256 ctxDone)) ops []) \<and>
    named_headers (fold (run_credential_op (store sha256 ctxDone)) ops [])"
proof -
  have ok: "credentials_ok s \<Longrightarrow> credentials_ok (run_credential_op (store sha256 ctxDone) op s)" for op s
    using memory_credential_store.credentials.keeps_inv [of s sha256 ctxDone op] by (simp add: store_def whole_def)
  have "credentials_ok s \<and> named_headers s \<Longrightarrow>
      credentials_ok (fold (run_credential_op (store sha256 ctxDone)) ops s) \<and>
      named_headers (fold (run_credential_op (store sha256 ctxDone)) ops s)" for s
    by (induction ops arbitrary: s) (use ok named_headers_kept in \<open>auto simp: store_def\<close>)
  moreover have "credentials_ok []" "named_headers []" by (simp_all add: credentials_ok_def named_headers_def)
  ultimately show ?thesis by blast
qed

text \<open>A record that the presentation fits is the one found, since no other has its secret.\<close>

lemma matchRecord_unique:
  assumes "distinct (map (\<lambda>(c, r). (mcr_grantType r, mcr_header r, mcr_verifier r)) s)" and "(c, r) \<in> set s"
    and "mcr_grantType r = g" and "mcr_header r = cp_header pr" and "time_IsZero (mcr_revokedAt r)"
    and "now < mcr_expiresAt r" and "sha256 (cp_value pr) = mcr_verifier r"
  shows "matchRecord sha256 g now pr s = Some \<lparr>cm_AgentDID = mcr_agentDID r, cm_CredentialID = mcr_credentialID r,
    cm_ExpiresAt = mcr_expiresAt r, cm_GrantType = g, cm_Scopes = append_nil (elems (mcr_scopes r))\<rparr>"
  using assms(1,2)
proof (induction s)
  case (Cons e s)
  obtain c' x where e: "e = (c', x)" by (cases e)
  show ?case
  proof (cases "(c, r) = e")
    case True
    then show ?thesis using assms(3-) e by simp
  next
    case False
    then have m: "(c, r) \<in> set s" using Cons.prems(2) by auto
    then have "(mcr_grantType r, mcr_header r, mcr_verifier r) \<in> set (map (\<lambda>(c, r). (mcr_grantType r, mcr_header r, mcr_verifier r)) s)"
      by force
    then have "(mcr_grantType x, mcr_header x, mcr_verifier x) \<noteq> (mcr_grantType r, mcr_header r, mcr_verifier r)"
      using Cons.prems(1) e by auto
    then show ?thesis using Cons.IH [OF _ m] Cons.prems(1) assms(3,4,7) e by auto
  qed
qed simp

section \<open>Presenting a credential\<close>

lemma standard_header: "CanonicalHeaderKey ''Authorization'' = ''Authorization''" "equal_fold ''Authorization'' ''Authorization''"
  by code_simp+

text \<open>The field the Agent sends is the one presentation the store finds.\<close>

lemma rendered_presentation:
  assumes "authorizationHeaders scheme token carrier = Inr headers" and "carrier \<in> {[], ProtectedResourceStandard}"
    and "g \<noteq> GrantTypeAPIKey" and "scheme = (if g = GrantTypeBasic then CredentialSchemeBasic else CredentialSchemeBearer)"
  shows "storePresentations s g headers = [\<lparr>cp_header = ''Authorization'', cp_value = token\<rparr>]"
proof -
  let ?v = "\<lparr>pra_Carrier = carrier, pra_Scheme = scheme, pra_Credentials = token\<rparr>"
  have valid: "ValidateProtectedResourceAuthorization ?v = None"
    and h: "headers = Some [(''Authorization'', [scheme @ '' '' @ token])]"
    using assms(1,2) standard_header(1)
    by (auto simp: authorizationHeaders_def RenderProtectedResourceAuthorization_def ProtectedResourceAuthorizationHeader_def
        header_Set_def split: option.splits)
  then have "ValidateProtectedResourceAuthorization (?v\<lparr>pra_Carrier := ProtectedResourceStandard\<rparr>) = None"
    by (simp add: ValidateProtectedResourceAuthorization_None)
  from Parse_rendered [OF this]
  have "ParseProtectedResourceAuthorization (scheme @ '' '' @ token) ProtectedResourceStandard =
      Inr (?v\<lparr>pra_Carrier := ProtectedResourceStandard\<rparr>)" by simp
  then show ?thesis
    using assms(3,4) h standard_header(2) by (simp add: storePresentations_def credentialPresentations_def headerValues_def)
qed

lemma concat_single:
  "distinct xs \<Longrightarrow> a \<in> set xs \<Longrightarrow> concat (map (\<lambda>x. if x = a then [y] else []) xs) = [y]"
  by (induction xs) (auto simp: concat_eq_Nil_conv)

lemma key_presentation:
  assumes "IsHTTPFieldName h" and "named_headers s"
    and "(c, r) \<in> set s" and "mcr_grantType r = GrantTypeAPIKey" and "mcr_header r = CanonicalHeaderKey h"
  shows "storePresentations s GrantTypeAPIKey (header_Set h key (Some [])) = [\<lparr>cp_header = CanonicalHeaderKey h, cp_value = key\<rparr>]"
proof -
  let ?names = "remdups (map (\<lambda>(_, stored_record). mcr_header stored_record) (filter (\<lambda>(_, stored_record). mcr_grantType stored_record = GrantTypeAPIKey) s))"
  have "apiKeyPresentations (header_Set h key (Some [])) n =
      (if n = CanonicalHeaderKey h then [\<lparr>cp_header = CanonicalHeaderKey h, cp_value = key\<rparr>] else [])" if named: "n \<in> set ?names" for n
  proof -
    obtain k where "IsHTTPFieldName k" "n = CanonicalHeaderKey k"
      using named assms(2) by (auto simp: named_headers_def)
    then show ?thesis using canonical_keys_differ [OF assms(1)] assms(1)
      by (auto simp: apiKeyPresentations_def headerValues_def header_Set_def)
  qed
  then have names: "map (apiKeyPresentations (header_Set h key (Some []))) ?names =
      map (\<lambda>n. if n = CanonicalHeaderKey h then [\<lparr>cp_header = CanonicalHeaderKey h, cp_value = key\<rparr>] else []) ?names"
    by (rule map_cong [OF refl])
  have "CanonicalHeaderKey h \<in> set ?names" using assms(3-5) by force
  then have "concat (map (apiKeyPresentations (header_Set h key (Some []))) ?names) = [\<lparr>cp_header = CanonicalHeaderKey h, cp_value = key\<rparr>]"
    unfolding names by (rule concat_single [OF distinct_remdups])
  then show ?thesis by (simp add: storePresentations_def credentialPresentations_def)
qed

lemma parsed_kinds:
  assumes "ParseBuiltInGrantResponse g data = Inr p"
  shows "(\<exists>v. p = OAuthBearer v \<and> g = GrantTypeOAuthBearer) \<or>
    (\<exists>v. p = APIKey v \<and> g = GrantTypeAPIKey \<and> IsHTTPFieldName (key_Header v)) \<or> (\<exists>v. p = Basic v \<and> g = GrantTypeBasic)"
proof -
  have "(\<exists>v. p = OAuthBearer v \<and> g = GrantTypeOAuthBearer) \<or> (\<exists>v. p = APIKey v \<and> g = GrantTypeAPIKey) \<or>
      (\<exists>v. p = Basic v \<and> g = GrantTypeBasic)"
    using assms by (auto simp: ParseBuiltInGrantResponse_def split: if_splits sum.splits)
  then show ?thesis using assms parsed_key_header by blast
qed

lemma presented:
  assumes "credentialHeaders stored_record carrier = Inr headers" and "carrier \<in> {[], ProtectedResourceStandard}"
    and "ParseBuiltInGrantResponse (cr_GrantType stored_record) (cr_Payload stored_record) = Inr p"
    and "credentialSecret p = Inr (secret, header, scopes)"
    and "named_headers s" and "(c, r) \<in> set s" and "mcr_grantType r = cr_GrantType stored_record" and "mcr_header r = header"
  shows "storePresentations s (cr_GrantType stored_record) headers = [\<lparr>cp_header = header, cp_value = secret\<rparr>]"
  using parsed_kinds [OF assms(3)]
proof (elim disjE exE conjE)
  fix v
  assume p: "p = OAuthBearer v" and g: "cr_GrantType stored_record = GrantTypeOAuthBearer"
  then have "authorizationHeaders CredentialSchemeBearer secret carrier = Inr headers" "header = ''Authorization''"
    using assms(1,3,4) by (auto simp: credentialHeaders_def credentialSecret_def split: if_splits)
  then show ?thesis using rendered_presentation [OF _ assms(2), of CredentialSchemeBearer secret headers GrantTypeOAuthBearer s] g
    by simp
next
  fix v
  assume p: "p = APIKey v" and g: "cr_GrantType stored_record = GrantTypeAPIKey" and name: "IsHTTPFieldName (key_Header v)"
  then have "headers = header_Set (key_Header v) secret (Some [])" "header = CanonicalHeaderKey (key_Header v)"
    using assms(1,3,4) by (auto simp: credentialHeaders_def credentialSecret_def split: if_splits)
  then show ?thesis using key_presentation [OF name assms(5,6), of secret] assms(7,8) g by simp
next
  fix v
  assume p: "p = Basic v" and g: "cr_GrantType stored_record = GrantTypeBasic"
  then have "authorizationHeaders CredentialSchemeBasic secret carrier = Inr headers" "header = ''Authorization''"
    using assms(1,3,4) by (auto simp: credentialHeaders_def credentialSecret_def split: if_splits)
  then show ?thesis using rendered_presentation [OF _ assms(2), of CredentialSchemeBasic secret headers GrantTypeBasic s] g
    by simp
qed

section \<open>Issuing and keeping\<close>

lemma dereferenced_idem [simp]: "dereferenced (dereferenced c) = dereferenced c"
  by (cases c rule: dereferenced.cases) simp_all

lemma credential_strings_dereferenced [simp]: "credential_strings (dereferenced c) = credential_strings c"
  by (simp add: credential_strings_def)

text \<open>What a stored-credential grant of a well-encoded credential leaves in the store.\<close>

lemma grant_stores:
  assumes run: "storedCredentialHandler_Grant wrap h req gctx w = (Inr body, w')"
    and store: "sch_store h = NewMemoryServiceCredentialStore sha256 ctxDone whole"
    and issuer: "\<And>c v. sch_issue h req gctx w = (Inr c, v) \<Longrightarrow> v = w \<and> (\<forall>s \<in> set (credential_strings (wrap c)). valid_utf8 s)"
  obtains p r stored secret header scopes where
    "ParseBuiltInGrantResponse (sch_grantType h) body = Inr p"
    "serviceCredentialRecord (gc_AgentDID gctx) p (gc_Now gctx) = Inr r"
    "credentialSecret p = Inr (secret, header, scopes)"
    "memoryCredentialRecord sha256 r = Inr stored" "mcr_header stored = header" "mcr_verifier stored = sha256 secret"
    "(scr_CredentialID r, stored) \<in> set w'"
    "w' = run_credential_op (NewMemoryServiceCredentialStore sha256 ctxDone whole) (Save r) w"
proof -
  let ?g = "sch_grantType h"
  obtain issued w1 p r where
    issued: "sch_issue h req gctx w = (Inr issued, w1)" and valid: "ValidateBuiltInGrantResponse ?g (Some (wrap issued)) = None"
    and p: "ParseBuiltInGrantResponse ?g body = Inr p" and body: "body = enc_grant_response (wrap issued)"
    and r: "serviceCredentialRecord (gc_AgentDID gctx) p (gc_Now gctx) = Inr r"
    and save: "scs_SaveCredential (sch_store h) r w1 = (Inr (), w')"
    using run by (auto simp: storedCredentialHandler_Grant_def Let_def run_simps)
  have w1: "w1 = w" and utf8: "\<forall>s \<in> set (credential_strings (wrap issued)). valid_text 0 s"
    using issuer [OF issued] valid_utf8_text by auto
  have p_is: "p = dereferenced (wrap issued)"
    using credential_round_trip [OF valid utf8] p body by simp
  have save': "memoryServiceCredentialStore_SaveCredential sha256 ctxDone whole r w = (Inr (), w')"
    using save store w1 by (simp add: NewMemoryServiceCredentialStore_def)
  from save_cases [OF this] obtain stored where stored: "memoryCredentialRecord sha256 r = Inr stored"
    and w': "w' = w @ [(scr_CredentialID r, stored)]" by (auto simp: whole_def)
  have rp: "scr_Credential r = Some p" using r by (auto simp: serviceCredentialRecord_def split: if_splits sum.splits option.splits)
  obtain credential secret header scopes where
    again: "ValidateBuiltInGrantResponse (scr_GrantType r) (Some p) = None"
      "ParseBuiltInGrantResponse (scr_GrantType r) (enc_grant_response p) = Inr credential"
    and kept: "credentialSecret credential = Inr (secret, header, scopes)" "mcr_header stored = header" "mcr_verifier stored = sha256 secret"
    using stored rp by (auto simp: memoryCredentialRecord_def split: if_splits option.splits sum.splits)
  have "credential = p" using credential_round_trip [OF again(1)] again(2) utf8 p_is by simp
  then show ?thesis
    using that [OF p r _ stored kept(2,3)] kept(1) w' save' by (simp add: NewMemoryServiceCredentialStore_def)
qed

lemma agent_keeps:
  assumes "ParseBuiltInGrantResponse g body = Inr p" and "serviceCredentialRecord a p now = Inr r"
  shows "parse_granted g body = Inr \<lparr>grr_Credential = Some p, grr_GrantType = g, grr_Raw = body\<rparr>"
    and "credentialRecord p body inspection issuedAt = Inr \<lparr>cr_CredentialID = scr_CredentialID r, cr_ExpiresAt = scr_ExpiresAt r,
      cr_GrantType = g, cr_IssuedAt = issuedAt, cr_Payload = body, cr_ServiceDID = insn_ServiceDID inspection,
      cr_ServiceURL = url_String (insn_ServiceURL inspection)\<rparr>"
  using assms parsed_kinds [OF assms(1)]
  by (auto simp: parse_granted_def credentialRecord_def serviceCredentialRecord_def builtInCredentialMetadata_def
      split: if_splits option.splits)

lemma stored_named:
  assumes "memoryCredentialRecord sha256 r = Inr stored"
  shows "mcr_agentDID stored \<noteq> [] \<and> mcr_credentialID stored \<noteq> []"
  using assms by (auto simp: memoryCredentialRecord_def split: if_splits option.splits sum.splits)

lemma presentation_recognised:
  assumes "credentials_ok w" and "(c, stored) \<in> set w" and "memoryCredentialRecord sha256 r = Inr stored"
    and "mcr_grantType stored = sch_grantType h" and "cai_Now input < mcr_expiresAt stored"
    and "storePresentations w (sch_grantType h) (cai_Headers input) = [\<lparr>cp_header = mcr_header stored, cp_value = secret\<rparr>]"
    and "mcr_verifier stored = sha256 secret" and "\<not> ctxDone w"
    and "sch_store h = NewMemoryServiceCredentialStore sha256 ctxDone whole"
  shows "\<exists>principal. storedCredentialHandler_AuthenticateCredential h input w = (Inr (Some principal), w) \<and>
    apr_AgentDID principal = mcr_agentDID stored \<and> apr_CredentialID principal = mcr_credentialID stored \<and>
    apr_GrantType principal = sch_grantType h \<and> apr_AuthenticationKind principal = AuthenticationKindSessionCredential"
proof -
  let ?p = "\<lparr>cp_header = mcr_header stored, cp_value = secret\<rparr>"
  have "time_IsZero (mcr_revokedAt stored)" using memory_record_fields [OF assms(3)] by blast
  then have "matchRecord sha256 (sch_grantType h) (cai_Now input) ?p w =
      Some \<lparr>cm_AgentDID = mcr_agentDID stored, cm_CredentialID = mcr_credentialID stored, cm_ExpiresAt = mcr_expiresAt stored,
        cm_GrantType = sch_grantType h, cm_Scopes = append_nil (elems (mcr_scopes stored))\<rparr>"
    using matchRecord_unique [of w c stored "sch_grantType h" ?p "cai_Now input" sha256] assms(1,2,4,5,7)
    by (simp add: credentials_ok_def)
  then have "scs_AuthenticateCredential (sch_store h) (sch_grantType h) input w =
      (Inr (Some \<lparr>cm_AgentDID = mcr_agentDID stored, cm_CredentialID = mcr_credentialID stored, cm_ExpiresAt = mcr_expiresAt stored,
        cm_GrantType = sch_grantType h, cm_Scopes = append_nil (elems (mcr_scopes stored))\<rparr>), w)"
    using assms(6,8,9)
    by (simp add: NewMemoryServiceCredentialStore_def memoryServiceCredentialStore_AuthenticateCredential_def unless_done_def
        whole_def observe_def)
  then show ?thesis
    using stored_named [OF assms(3)] assms(5)
    by (simp add: storedCredentialHandler_AuthenticateCredential_def and_then_def ok_def)
qed

section \<open>Properties\<close>

text \<open>
  A credential that validates and is valid UTF-8 survives JSON: what the Service encodes is what the
  Agent parses, whatever its strings hold.
\<close>

theorem issued_credential_survives:
  assumes "ValidateBuiltInGrantResponse g (Some c) = None" and "\<forall>s \<in> set (credential_strings c). valid_utf8 s"
  shows "ParseBuiltInGrantResponse g (enc_grant_response c) = Inr (dereferenced c)"
  using credential_round_trip [OF assms(1)] assms(2) valid_utf8_text by blast

text \<open>
  C35. A granted credential works. Over every history of its memory store, when a Service grants a credential
  that is valid UTF-8, the Agent that receives the response parses it and makes a record of it, and the
  header field the Agent renders from that record authenticates at the Service, until it expires, as the
  Agent it was granted to.
\<close>

theorem granted_credential_authenticates:
  assumes "w = fold (run_credential_op (NewMemoryServiceCredentialStore sha256 ctxDone whole)) ops []"
    and "sch_store h = NewMemoryServiceCredentialStore sha256 ctxDone whole"
    and "\<forall>c v. sch_issue h req gctx w = (Inr c, v) \<longrightarrow> v = w \<and> (\<forall>s \<in> set (credential_strings (wrap c)). valid_utf8 s)"
    and "storedCredentialHandler_Grant wrap h req gctx w = (Inr body, w')" and "\<not> ctxDone w'"
  shows "\<exists>granted p stored_record. parse_granted (sch_grantType h) body = Inr granted \<and> grr_Credential granted = Some p \<and>
    credentialRecord p (grr_Raw granted) inspection issuedAt = Inr stored_record \<and>
    (\<forall>carrier input. carrier \<in> {[], ProtectedResourceStandard} \<and> cai_Now input < cr_ExpiresAt stored_record \<and>
       credentialHeaders stored_record carrier = Inr (cai_Headers input) \<longrightarrow>
       (\<exists>principal. storedCredentialHandler_AuthenticateCredential h input w' = (Inr (Some principal), w') \<and>
          apr_AgentDID principal = gc_AgentDID gctx \<and> apr_CredentialID principal = cr_CredentialID stored_record \<and>
          apr_GrantType principal = sch_grantType h \<and> apr_AuthenticationKind principal = AuthenticationKindSessionCredential))"
proof -
  obtain p r stored secret header scopes where
    p: "ParseBuiltInGrantResponse (sch_grantType h) body = Inr p"
    and r: "serviceCredentialRecord (gc_AgentDID gctx) p (gc_Now gctx) = Inr r"
    and secret: "credentialSecret p = Inr (secret, header, scopes)"
    and stored: "memoryCredentialRecord sha256 r = Inr stored" "mcr_header stored = header" "mcr_verifier stored = sha256 secret"
    and m: "(scr_CredentialID r, stored) \<in> set w'"
    and w': "w' = run_credential_op (NewMemoryServiceCredentialStore sha256 ctxDone whole) (Save r) w"
    by (rule grant_stores [OF assms(4,2)]) (use assms(3) in blast)
  have ok: "credentials_ok w'" "named_headers w'"
    using reachable_store [of sha256 ctxDone "ops @ [Save r]"] w' assms(1) by simp_all
  have g: "GrantType_of p = sch_grantType h" using parsed_kinds [OF p] by auto
  then have f: "mcr_grantType stored = sch_grantType h" "mcr_agentDID stored = gc_AgentDID gctx"
    "mcr_credentialID stored = scr_CredentialID r" "mcr_expiresAt stored = scr_ExpiresAt r"
    using memory_record_fields [OF stored(1)] serviceCredentialRecord_sound [OF r] by simp_all
  let ?stored_record = "\<lparr>cr_CredentialID = scr_CredentialID r, cr_ExpiresAt = scr_ExpiresAt r,
      cr_GrantType = sch_grantType h, cr_IssuedAt = issuedAt, cr_Payload = body, cr_ServiceDID = insn_ServiceDID inspection,
      cr_ServiceURL = url_String (insn_ServiceURL inspection)\<rparr>"
  have works: "\<exists>principal. storedCredentialHandler_AuthenticateCredential h input w' = (Inr (Some principal), w') \<and>
      apr_AgentDID principal = gc_AgentDID gctx \<and> apr_CredentialID principal = scr_CredentialID r \<and>
      apr_GrantType principal = sch_grantType h \<and> apr_AuthenticationKind principal = AuthenticationKindSessionCredential"
    if "carrier \<in> {[], ProtectedResourceStandard}" "credentialHeaders ?stored_record carrier = Inr (cai_Headers input)"
      "cai_Now input < scr_ExpiresAt r" for carrier input
  proof -
    have "storePresentations w' (sch_grantType h) (cai_Headers input) = [\<lparr>cp_header = mcr_header stored, cp_value = secret\<rparr>]"
      using presented [OF that(2,1) _ secret ok(2) m] p f(1) stored(2) by simp
    from presentation_recognised [OF ok(1) m stored(1) f(1) _ this stored(3) assms(5,2)] show ?thesis
      using that(3) f by simp
  qed
  then have "\<forall>carrier input. carrier \<in> {[], ProtectedResourceStandard} \<and> cai_Now input < cr_ExpiresAt ?stored_record \<and>
      credentialHeaders ?stored_record carrier = Inr (cai_Headers input) \<longrightarrow>
      (\<exists>principal. storedCredentialHandler_AuthenticateCredential h input w' = (Inr (Some principal), w') \<and>
         apr_AgentDID principal = gc_AgentDID gctx \<and> apr_CredentialID principal = cr_CredentialID ?stored_record \<and>
         apr_GrantType principal = sch_grantType h \<and> apr_AuthenticationKind principal = AuthenticationKindSessionCredential)"
    by (simp only: CredentialRecord.simps) blast
  then show ?thesis using agent_keeps(1) [OF p r] agent_keeps(2) [OF p r, of inspection issuedAt] by fastforce
qed

lemma issued_example_granted:
  "fst (storedCredentialHandler_Grant OAuthBearer issuer_example issued_request request_example []) =
     Inr (enc_grant_response (OAuthBearer issued_example))"
  "list_all valid_utf8 (credential_strings (OAuthBearer issued_example))"
  "ParseBuiltInGrantResponse GrantTypeOAuthBearer (enc_grant_response (OAuthBearer issued_example)) = Inr (OAuthBearer issued_example)"
  "parse_rfc3339 (oauth_ExpiresAt issued_example) = Some (1767225600 * Second)"
  "authorizationHeaders CredentialSchemeBearer ''tok'' [] = Inr (cai_Headers (presented_example ''tok''))"
  by code_simp+

theorem issued_credential_survives_witness:
  "ParseBuiltInGrantResponse GrantTypeOAuthBearer (enc_grant_response (OAuthBearerPtr (Some issued_example))) =
     Inr (OAuthBearer issued_example)"
proof -
  have "ValidateBuiltInGrantResponse GrantTypeOAuthBearer (Some (OAuthBearerPtr (Some issued_example))) = None" by code_simp
  from issued_credential_survives [OF this] show ?thesis
    using issued_example_granted(2) by (simp add: credential_strings_def list_all_iff)
qed

theorem granted_credential_authenticates_witness:
  "\<exists>body w' principal. storedCredentialHandler_Grant OAuthBearer issuer_example issued_request request_example [] = (Inr body, w') \<and>
     storedCredentialHandler_AuthenticateCredential issuer_example (presented_example ''tok'') w' = (Inr (Some principal), w') \<and>
     apr_AgentDID principal = ''did:web:a'' \<and> apr_CredentialID principal = ''one''"
proof -
  let ?body = "enc_grant_response (OAuthBearer issued_example)"
  obtain w' where run: "storedCredentialHandler_Grant OAuthBearer issuer_example issued_request request_example [] = (Inr ?body, w')"
    using issued_example_granted(1) by (metis prod.collapse)
  have start: "[] = fold (run_credential_op (NewMemoryServiceCredentialStore id (\<lambda>_. False) whole)) [] []"
    and no_ctx: "\<not> (\<lambda>_. False) w'" by simp_all
  have h: "sch_store issuer_example = NewMemoryServiceCredentialStore id (\<lambda>_. False) whole"
    "sch_grantType issuer_example = GrantTypeOAuthBearer"
    "\<forall>c v. sch_issue issuer_example issued_request request_example [] = (Inr c, v) \<longrightarrow>
       v = [] \<and> (\<forall>s \<in> set (credential_strings (OAuthBearer c)). valid_utf8 s)"
    using issued_example_granted(2) by (auto simp: issuer_example_def list_all_iff)
  from granted_credential_authenticates [OF start h(1,3) run no_ctx, of undefined 0]
  obtain granted p kept where g: "parse_granted (sch_grantType issuer_example) ?body = Inr granted" "grr_Credential granted = Some p"
      "credentialRecord p (grr_Raw granted) undefined 0 = Inr kept"
    and works: "\<forall>carrier input. carrier \<in> {[], ProtectedResourceStandard} \<and> cai_Now input < cr_ExpiresAt kept \<and>
       credentialHeaders kept carrier = Inr (cai_Headers input) \<longrightarrow>
       (\<exists>principal. storedCredentialHandler_AuthenticateCredential issuer_example input w' = (Inr (Some principal), w') \<and>
         apr_AgentDID principal = gc_AgentDID request_example \<and> apr_CredentialID principal = cr_CredentialID kept \<and>
         apr_GrantType principal = sch_grantType issuer_example \<and>
         apr_AuthenticationKind principal = AuthenticationKindSessionCredential)"
    by (elim exE conjE)
  have "granted = \<lparr>grr_Credential = Some (OAuthBearer issued_example), grr_GrantType = GrantTypeOAuthBearer, grr_Raw = ?body\<rparr>"
    using g(1) issued_example_granted(3) h(2) by (simp add: parse_granted_def)
  then have r: "cr_CredentialID kept = ''one''" "cr_ExpiresAt kept = 1767225600 * Second" "cr_GrantType kept = GrantTypeOAuthBearer"
    "cr_Payload kept = ?body"
    using g(2,3) issued_example_granted(4) by (auto simp: credentialRecord_def) (auto simp: issued_example_def)
  then have "credentialHeaders kept [] = Inr (cai_Headers (presented_example ''tok''))"
    using issued_example_granted(3,5) by (simp add: credentialHeaders_def) (simp add: issued_example_def)
  then obtain principal where "storedCredentialHandler_AuthenticateCredential issuer_example (presented_example ''tok'') w' = (Inr (Some principal), w')"
    "apr_AgentDID principal = gc_AgentDID request_example" "apr_CredentialID principal = cr_CredentialID kept"
    using works [rule_format, of "[]" "presented_example ''tok''"] r(2) by (auto simp: presented_example_def)
  then show ?thesis using run r(1) by (auto simp: request_example_def)
qed

end
