(* ===== verification/Agent_Assertions.thy ===== *)
theory Agent_Assertions
  imports Agent_Sessions Service_Assertions
begin

text \<open>
  The assertions an Agent sends and the Services that receive them: what a session has signed is valid at
  the Service it inspected for the whole life of the assertion.
\<close>

section \<open>Lemmas\<close>

lemma identityMethod_web: "has_prefix did ''did:web:'' \<Longrightarrow> identityMethod did = IdentityMethodDIDWeb"
  by (auto simp: has_prefix_append identityMethod_def numeral_3_eq_3)

lemma valid_identity:
  assumes "validateIdentityForInspection identity inspection = None"
  shows "has_prefix (sid_AgentDID identity) ''did:web:''" "sid_ServiceDID identity = insn_ServiceDID inspection"
    "IdentityMethodDIDWeb \<in> set (elems (idy_Methods (insp_Identity (insn_Document inspection))))"
  using assms
  by (auto simp: validateIdentityForInspection_def validateServiceIdentityRecord_def containsIdentityMethod_def list_ex_iff
      split: if_splits option.splits)

lemma intersectAlgorithms_set: "set (intersectAlgorithms first second) = set first \<inter> set second"
  by (auto simp: intersectAlgorithms_def list_ex_iff)

lemma new_client_lifetime:
  assumes "New world options = Inr client"
  shows "Second \<le> cl_assertionLifetime client" "cl_assertionLifetime client \<le> MaxAssertionLifetime"
    "go_rem (cl_assertionLifetime client) Second = 0"
proof -
  have "Second \<le> cl_assertionLifetime client \<and> cl_assertionLifetime client \<le> MaxAssertionLifetime \<and>
      go_rem (cl_assertionLifetime client) Second = 0"
    using assms unfolding New_def Let_def result_simps by (elim exE conjE) (simp only: de_Morgan_disj not_less not_not, force)
  then show "Second \<le> cl_assertionLifetime client" "cl_assertionLifetime client \<le> MaxAssertionLifetime"
    "go_rem (cl_assertionLifetime client) Second = 0" by blast+
qed

text \<open>What a signer is asked for.\<close>

lemma signed_assertion:
  assumes "Client_signAssertion client c inspection identity (Some sign) operation resource w = (Inr token, w')"
  obtains jti w1 claims where
    "claims = assertion_claims client inspection identity operation resource (fst (cl_clock client w)) jti"
    "sign c claims (intersectAlgorithms (sid_SigningAlgorithms identity) (insn_Algorithms inspection)) w1 = (Inr token, w')"
    "ValidateClientAssertionClaimsWithOptions claims (cl_allowInsecureLoopback client) = None"
    "validateIdentityForInspection identity inspection = None"
    "time_Unix (fst (cl_clock client w)) \<le> max_i64 - go_div (cl_assertionLifetime client) Second"
  using assms unfolding Client_signAssertion_def Let_def
  by (auto simp: run_simps call_eq not_less)

section \<open>Properties\<close>

text \<open>What a Service reads from the header of a token that was signed for claims with one of some algorithms.\<close>

definition headed :: "string \<Rightarrow> ClientAssertionClaims \<Rightarrow> SigningAlgorithm list \<Rightarrow> bool" where
  "headed token claims algorithms \<longleftrightarrow>
     (case DecodeJWTUnverified token of
        Inl _ \<Rightarrow> False
      | Inr decoded \<Rightarrow>
          header_string (jwt_Header decoded) ''alg'' \<in> Some ` set algorithms \<and>
          header_string (jwt_Header decoded) ''typ'' = Some ''JWT'' \<and>
          map_option (before CHR ''#'') (header_string (jwt_Header decoded) ''kid'') = Some (cac_Subject claims))"

text \<open>
  C34. What an Agent has signed, the Service accepts. When a client that \<open>New\<close> made gets a token for a command
  or a resource of the Service it inspected, from a signer that signs under an algorithm it is offered and
  names a key of the subject, then from the second of issue until the second of expiry the Service finds the
  token valid for that operation and resource, if it allows lifetimes as long as those of the client.
\<close>

theorem agent_assertion_accepted:
  assumes "New world options = Inr client"
    and "Client_signAssertion client c inspection identity (Some sign) operation resource w = (Inr token, w')"
    and "\<forall>claims algorithms v v'. sign c claims algorithms v = (Inr token, v') \<longrightarrow> headed token claims algorithms"
    and "insn_Document inspection = svc_document service"
    and "caos_AllowInsecureLoopback (svc_clientAssertion service) = cl_allowInsecureLoopback client"
    and "times_configured (svc_clientAssertion service)"
    and "cl_assertionLifetime client \<le> caos_MaximumLifetime (svc_clientAssertion service)"
    and "in_i64 (time_Unix (fst (cl_clock client w)))" and "time_Unix (fst (cl_clock client w)) + 300 \<le> max_i64"
  shows "\<exists>claims algorithms v. sign c claims algorithms v = (Inr token, w') \<and> cac_Subject claims = sid_AgentDID identity \<and>
    cac_IssuedAt claims = time_Unix (fst (cl_clock client w)) \<and>
    cac_ExpiresAt claims = cac_IssuedAt claims + cl_assertionLifetime client div Second \<and>
    (\<forall>t. cac_IssuedAt claims \<le> time_Unix t \<and> time_Unix t < cac_ExpiresAt claims \<longrightarrow>
       validAssertion service token claims operation (case resource of None \<Rightarrow> [] | Some u \<Rightarrow> url_String u) t)"
proof -
  let ?now = "fst (cl_clock client w)" and ?opts = "svc_clientAssertion service"
  obtain jti w1 claims where claims: "claims = assertion_claims client inspection identity operation resource ?now jti"
    and sign: "sign c claims (intersectAlgorithms (sid_SigningAlgorithms identity) (insn_Algorithms inspection)) w1 = (Inr token, w')"
    and valid: "ValidateClientAssertionClaimsWithOptions claims (cl_allowInsecureLoopback client) = None"
    and identity: "validateIdentityForInspection identity inspection = None"
    by (rule signed_assertion [OF assms(2)])
  note life = new_client_lifetime [OF assms(1)]
  have l: "go_div (cl_assertionLifetime client) Second = cl_assertionLifetime client div Second"
    using life(1) by (simp add: go_div_nonneg)
  have fields: "cac_IssuedAt claims = time_Unix ?now" "cac_Subject claims = sid_AgentDID identity"
    "cac_ExpiresAt claims = time_Unix ?now + cl_assertionLifetime client div Second"
    "cac_Issuer claims = sid_AgentDID identity" "cac_Audience claims = insn_ServiceDID inspection"
    "cac_Operation claims = operation" "cac_Resource claims = (case resource of None \<Rightarrow> [] | Some u \<Rightarrow> url_String u)"
    by (simp_all add: claims assertion_claims_def l)
  have header: "\<exists>decoded. DecodeJWTUnverified token = Inr decoded \<and> assertionHeaderValid service decoded claims"
    using assms(3) [rule_format, OF sign] assms(4) intersectAlgorithms_set
    by (auto simp: headed_def assertionHeaderValid_def split: sum.splits option.splits)
  have timely: "assertionTimesValid ?opts claims t"
    if t: "cac_IssuedAt claims \<le> time_Unix t" "time_Unix t < cac_ExpiresAt claims" for t
  proof -
    have b: "1 \<le> cl_assertionLifetime client div Second" "cl_assertionLifetime client div Second \<le> caos_MaximumLifetime ?opts div Second"
      "caos_MaximumLifetime ?opts div Second \<le> 300" "0 \<le> caos_ClockSkew ?opts div Second"
      using life assms(6,7) zdiv_mono1 [of "caos_MaximumLifetime ?opts" "300 * Second" Second]
      by (simp_all add: times_configured_def zdiv_mono1 pos_imp_zdiv_nonneg_iff)
    then have i: "in_i64 (cac_IssuedAt claims)" "in_i64 (cac_ExpiresAt claims)" "in_i64 (time_Unix t)"
      using assms(8,9) t fields by (auto simp: in_i64_def)
    show ?thesis
      using assertionTimesValid_exact [of ?opts claims t] assms(6) i t b fields assms(9) by (auto simp: times_configured_def)
  qed
  have "validAssertion service token claims operation (case resource of None \<Rightarrow> [] | Some u \<Rightarrow> url_String u) t"
    if "cac_IssuedAt claims \<le> time_Unix t" "time_Unix t < cac_ExpiresAt claims" for t
    using valid fields header timely [OF that] valid_identity [OF identity] identityMethod_web assms(4,5)
    unfolding validAssertion_def by auto
  then show ?thesis using sign fields
    by (intro exI [of _ claims] exI [of _ "intersectAlgorithms (sid_SigningAlgorithms identity) (insn_Algorithms inspection)"]
        exI [of _ w1]) simp
qed

section \<open>An example\<close>

definition signer_example :: "unit AssertionSigner" where
  "signer_example c claims algorithms =
     (if headed assertion_example claims algorithms then ok assertion_example else fail (failure ''other claims''))"

definition provider_example :: "unit IdentityProvider" where
  "provider_example = \<lparr>idp_GetOrCreateIdentity = (\<lambda>_ _. fail (failure ''none'')), idp_SignerFor = (\<lambda>_ _. ok (Some signer_example)),
     idp_FindIdentityByServiceDID = None\<rparr>"

definition agent_options_example :: "unit Agent_Types.Options" where
  "agent_options_example = \<lparr>ago_AllowInsecureLoopback = False, ago_AssertionLifetime = 60 * Second,
     ago_Clock = Some (\<lambda>w. (1000 * Second, w)), ago_CommandHTTPClient = None, ago_CredentialStore = None, ago_HTTPClient = None,
     ago_IdentityProvider = Some provider_example, ago_IdentityStore = None, ago_IdempotencyKeys = None, ago_InspectCache = None,
     ago_InspectHTTPClient = None, ago_JTI = Some (ok ''j1''), ago_MaximumResponseBytes = 0, ago_RequestTimeout = 0\<rparr>"

definition allocation_example :: "unit Allocation" where
  "allocation_example = \<lparr>all_identities = \<lparr>part_get = (\<lambda>_. Map.empty), part_put = (\<lambda>_ w. w)\<rparr>,
     all_credentials = \<lparr>part_get = (\<lambda>_. []), part_put = (\<lambda>_ w. w)\<rparr>,
     all_inspects = \<lparr>part_get = (\<lambda>_. Map.empty), part_put = (\<lambda>_ w. w)\<rparr>,
     all_openAPI = \<lparr>part_get = (\<lambda>_. []), part_put = (\<lambda>_ w. w)\<rparr>,
     all_runtime = \<lparr>rt_Now = (\<lambda>_. 0), rt_Cancelled = (\<lambda>_. False), rt_Sleep = (\<lambda>_ _ w. (True, w))\<rparr>,
     all_now = (\<lambda>w. (0, w)), all_random = ok ''r'', all_DefaultClient = (\<lambda>_ _. fail (failure ''offline''))\<rparr>"

definition agent_example :: ServiceIdentity where
  "agent_example = \<lparr>sid_AgentDID = ''did:web:a.example'', sid_IdentityMethod = IdentityMethodDIDWeb,
     sid_ServiceDID = ''did:web:s.example'', sid_SigningAlgorithms = [SigningAlgorithmEdDSA], sid_Metadata = None\<rparr>"

definition inspection_example :: Inspection where
  "inspection_example = \<lparr>insn_CacheControl = [], insn_Document = document_example, insn_ETag = [], insn_FinalURL = empty_url,
     insn_InspectURL = empty_url, insn_LastModified = [], insn_ServiceURL = empty_url\<rparr>"

lemma example_client:
  "case New allocation_example agent_options_example of
     Inl e \<Rightarrow> False
   | Inr client \<Rightarrow> \<not> cl_allowInsecureLoopback client \<and> cl_assertionLifetime client = 60 * Second \<and>
       fst (cl_clock client ()) = 1000 * Second \<and>
       fst (Client_signAssertion client None inspection_example agent_example (Some signer_example) AssertionStatus None ()) =
         Inr assertion_example"
  by code_simp

theorem agent_assertion_accepted_witness:
  "\<exists>claims. cac_Subject claims = ''did:web:a.example'' \<and> cac_IssuedAt claims = 1000 \<and>
     validAssertion service_example assertion_example claims AssertionStatus [] (1059 * Second)"
proof -
  obtain client where client: "New allocation_example agent_options_example = Inr client"
    and c: "\<not> cl_allowInsecureLoopback client" "cl_assertionLifetime client = 60 * Second"
      "fst (cl_clock client ()) = 1000 * Second"
      "fst (Client_signAssertion client None inspection_example agent_example (Some signer_example) AssertionStatus None ()) =
         Inr assertion_example"
    using example_client by (auto split: sum.splits)
  have run: "Client_signAssertion client None inspection_example agent_example (Some signer_example) AssertionStatus None () =
      (Inr assertion_example, ())"
    using c(4) by (simp add: prod_eq_iff)
  have signer: "\<forall>claims algorithms v v'. signer_example None claims algorithms v = (Inr assertion_example, v') \<longrightarrow>
      headed assertion_example claims algorithms"
    by (simp add: signer_example_def ok_def fail_def)
  have now: "time_Unix (fst (cl_clock client ())) = 1000" using c(3) by (simp add: time_Unix_def)
  have svc: "insn_Document inspection_example = svc_document service_example"
    "caos_AllowInsecureLoopback (svc_clientAssertion service_example) = cl_allowInsecureLoopback client"
    "cl_assertionLifetime client \<le> caos_MaximumLifetime (svc_clientAssertion service_example)"
    using c(1,2) by (simp_all add: inspection_example_def service_example_def)
  have "in_i64 (time_Unix (fst (cl_clock client ())))" "time_Unix (fst (cl_clock client ())) + 300 \<le> max_i64"
    by (simp_all add: now in_i64_def i64_limits)
  from agent_assertion_accepted [OF client run signer svc(1,2) example_times(1) svc(3) this]
  obtain claims where claims: "cac_Subject claims = sid_AgentDID agent_example"
    "cac_IssuedAt claims = 1000" "cac_ExpiresAt claims = cac_IssuedAt claims + 60 * Second div Second"
    "\<forall>t. cac_IssuedAt claims \<le> time_Unix t \<and> time_Unix t < cac_ExpiresAt claims \<longrightarrow>
       validAssertion service_example assertion_example claims AssertionStatus [] t"
    using now c(2) by auto
  show ?thesis
    using claims(4) [rule_format, of "1059 * Second"] claims(1-3)
    by (intro exI [of _ claims]) (simp add: agent_example_def time_Unix_def)
qed

end
