(* ===== verification/Agent_Platform.thy ===== *)
theory Agent_Platform
  imports Agent_Sessions Platform_Documents
begin

text \<open>
  \<open>agent/platform_provider.go\<close>: an identity provider that keeps its identities, and signs, at a Platform. Its
  discovery document is a part of the world. The rounds of a pending signature recurse on fuel, since the
  Platform and the resolver may go on for ever.
\<close>

section \<open>Options and state\<close>

type_synonym raw_messages = "(string \<times> RawMessage) slice"

record platformDiscoveryEntry =
  pde_cacheControl :: string
  pde_cachedAt :: time
  pde_document :: DiscoveryDocument
  pde_etag :: string
  pde_finalURL :: URL
  pde_lastModified :: string

record 'w PlatformIdentityProviderOptions =
  pio_AllowInsecureLoopback :: bool
  pio_AuthenticationHeaders :: "(ctx \<Rightarrow> ('w, Header) agent_act) option"
  pio_Authorization :: string
  pio_Clock :: "('w \<Rightarrow> time \<times> 'w) option"
  pio_HTTPClient :: "'w HTTPClient option"
  pio_IdempotencyKey :: "('w, string) agent_act option"
  pio_MaximumResponseBytes :: int
  pio_PendingSignResolver :: "(ctx \<Rightarrow> PlatformPendingSign \<Rightarrow> ('w, raw_messages) agent_act) option"
  pio_PlatformContext :: "(ctx \<Rightarrow> ServiceIdentity \<Rightarrow> ClientAssertionClaims \<Rightarrow> ('w, raw_messages) agent_act) option"
  pio_PlatformURL :: string
  pio_RequestTimeout :: duration

record 'w PlatformIdentityProvider =
  pip_allowInsecureLoopback :: bool
  pip_authenticationHeaders :: "(ctx \<Rightarrow> ('w, Header) agent_act) option"
  pip_authorization :: string
  pip_clock :: "'w \<Rightarrow> time \<times> 'w"
  pip_discovery :: "(platformDiscoveryEntry option, 'w) part"
  pip_httpClient :: "'w HTTPClient"
  pip_idempotencyKey :: "('w, string) agent_act"
  pip_maximumResponseBytes :: int
  pip_pendingSignResolver :: "(ctx \<Rightarrow> PlatformPendingSign \<Rightarrow> ('w, raw_messages) agent_act) option"
  pip_platformContext :: "(ctx \<Rightarrow> ServiceIdentity \<Rightarrow> ClientAssertionClaims \<Rightarrow> ('w, raw_messages) agent_act) option"
  pip_platformURL :: URL
  pip_requestTimeout :: duration
  pip_runtime :: "'w Runtime"

definition NewPlatformIdentityProvider ::
  "'w Allocation \<Rightarrow> (platformDiscoveryEntry option, 'w) part \<Rightarrow> 'w PlatformIdentityProviderOptions \<Rightarrow>
   agent_error + 'w PlatformIdentityProvider" where
  "NewPlatformIdentityProvider world discovery options =
     (case resolveServiceReference (pio_PlatformURL options) (pio_AllowInsecureLoopback options) of
        Inl err \<Rightarrow> Inl (failure ''invalid AEP Platform URL'')
      | Inr platformURL \<Rightarrow>
          let maximum = (if pio_MaximumResponseBytes options = 0 then defaultMaximumResponseBytes
                         else pio_MaximumResponseBytes options);
              timeout = (if pio_RequestTimeout options = 0 then defaultRequestTimeout else pio_RequestTimeout options) in
          if maximum < 1 \<or> maximum = max_i64
          then Inl (failure ''AEP Platform maximum response bytes are outside the supported range'')
          else if timeout \<le> 0 then Inl (failure ''AEP Platform request timeout must be positive'')
          else Inr
            \<lparr>pip_allowInsecureLoopback = pio_AllowInsecureLoopback options,
             pip_authenticationHeaders = pio_AuthenticationHeaders options,
             pip_authorization = pio_Authorization options,
             pip_clock = or_default (pio_Clock options) (all_now world),
             pip_discovery = discovery,
             pip_httpClient = or_default (pio_HTTPClient options) (all_DefaultClient world),
             pip_idempotencyKey = or_default (pio_IdempotencyKey options) (randomIdentifier (all_random world)),
             pip_maximumResponseBytes = maximum,
             pip_pendingSignResolver = pio_PendingSignResolver options,
             pip_platformContext = pio_PlatformContext options,
             pip_platformURL = platformURL,
             pip_requestTimeout = timeout,
             pip_runtime = all_runtime world\<rparr>)"

section \<open>Decoding\<close>

definition decodePlatformJSON :: "'a decoder \<Rightarrow> 'a \<Rightarrow> string \<Rightarrow> 'a option" where
  "decodePlatformJSON target zero data = (case decodeOne target zero data of Inl _ \<Rightarrow> None | Inr v \<Rightarrow> Some v)"

definition zero_discovery_document :: DiscoveryDocument where
  "zero_discovery_document = \<lparr>ddc_AEPVersion = [],
     ddc_Endpoints = \<lparr>dep_HostedVerification = [], dep_Lifecycle = [], dep_List = [], dep_Provision = [], dep_Sign = []\<rparr>,
     ddc_HTTP = \<lparr>dht_EndpointBase = []\<rparr>, ddc_Identity = \<lparr>did_DIDMethods = None, did_DIDURLTemplate = []\<rparr>,
     ddc_Platform = \<lparr>dpl_DID = [], dpl_HostedVerification = False, dpl_Name = []\<rparr>,
     ddc_Signing = \<lparr>dsg_Algorithms = None, dsg_DefaultLifetimeSeconds = []\<rparr>\<rparr>"

definition fields_endpoints :: "DiscoveryEndpoints fields" where
  "fields_endpoints =
     [(''hosted_verification'', on_field dec_string dep_HostedVerification (\<lambda>x. dep_HostedVerification_update (\<lambda>_. x))),
      (''lifecycle'', on_field dec_string dep_Lifecycle (\<lambda>x. dep_Lifecycle_update (\<lambda>_. x))),
      (''list'', on_field dec_string dep_List (\<lambda>x. dep_List_update (\<lambda>_. x))),
      (''provision'', on_field dec_string dep_Provision (\<lambda>x. dep_Provision_update (\<lambda>_. x))),
      (''sign'', on_field dec_string dep_Sign (\<lambda>x. dep_Sign_update (\<lambda>_. x)))]"

definition fields_discovery :: "DiscoveryDocument fields" where
  "fields_discovery =
     [(''aep_version'', on_field dec_string ddc_AEPVersion (\<lambda>x. ddc_AEPVersion_update (\<lambda>_. x))),
      (''endpoints'', on_field (dec_struct fields_endpoints) ddc_Endpoints (\<lambda>x. ddc_Endpoints_update (\<lambda>_. x))),
      (''http'', on_field (dec_struct
         [(''endpoint_base'', on_field dec_string dht_EndpointBase (\<lambda>x. dht_EndpointBase_update (\<lambda>_. x)))])
         ddc_HTTP (\<lambda>x. ddc_HTTP_update (\<lambda>_. x))),
      (''identity'', on_field (dec_struct
         [(''did_methods'', on_field (dec_slice dec_string []) did_DIDMethods (\<lambda>x. did_DIDMethods_update (\<lambda>_. x))),
          (''did_url_template'', on_field dec_string did_DIDURLTemplate (\<lambda>x. did_DIDURLTemplate_update (\<lambda>_. x)))])
         ddc_Identity (\<lambda>x. ddc_Identity_update (\<lambda>_. x))),
      (''platform'', on_field (dec_struct
         [(''did'', on_field dec_string dpl_DID (\<lambda>x. dpl_DID_update (\<lambda>_. x))),
          (''hosted_verification'', on_field dec_bool dpl_HostedVerification (\<lambda>x. dpl_HostedVerification_update (\<lambda>_. x))),
          (''name'', on_field dec_string dpl_Name (\<lambda>x. dpl_Name_update (\<lambda>_. x)))])
         ddc_Platform (\<lambda>x. ddc_Platform_update (\<lambda>_. x))),
      (''signing'', on_field (dec_struct
         [(''algorithms'', on_field (dec_slice dec_string []) dsg_Algorithms (\<lambda>x. dsg_Algorithms_update (\<lambda>_. x))),
          (''default_lifetime_seconds'', on_field dec_string dsg_DefaultLifetimeSeconds
             (\<lambda>x. dsg_DefaultLifetimeSeconds_update (\<lambda>_. x)))])
         ddc_Signing (\<lambda>x. ddc_Signing_update (\<lambda>_. x)))]"

definition fields_list_response :: "AgentIdentityListResponse fields" where
  "fields_list_response =
     [(''count'', on_field dec_string alr_Count (\<lambda>x. alr_Count_update (\<lambda>_. x))),
      (''data'', on_field (dec_slice (dec_struct fields_agent_identity) zero_agent_identity) alr_Data
         (\<lambda>x. alr_Data_update (\<lambda>_. x))),
      (''total'', on_field dec_string alr_Total (\<lambda>x. alr_Total_update (\<lambda>_. x)))]"

section \<open>Checking what a Platform says\<close>

definition path_error :: "string \<Rightarrow> agent_error" where
  "path_error name = failure (''AEP Platform '' @ name @ '' must be an absolute path'')"

definition validatePlatformEndpointPath :: "string \<Rightarrow> string \<Rightarrow> agent_error option" where
  "validatePlatformEndpointPath name path =
     (case url_Parse path of
        None \<Rightarrow> Some (path_error name)
      | Some parsed \<Rightarrow>
          if \<not> has_prefix path ''/'' \<or> has_prefix path ''//'' \<or> url_IsAbs parsed \<or> url_Host parsed \<noteq> [] \<or>
             url_User parsed \<noteq> None \<or> url_RawQuery parsed \<noteq> [] \<or> url_Fragment parsed \<noteq> []
          then Some (path_error name) else None)"

text \<open>The map of paths is ranged over in some order; here it is that of the source.\<close>

definition discovery_paths :: "DiscoveryDocument \<Rightarrow> (string \<times> string) list" where
  "discovery_paths document =
     (let e = ddc_Endpoints document in
      [(''endpoint base'', dht_EndpointBase (ddc_HTTP document)), (''lifecycle'', dep_Lifecycle e), (''list'', dep_List e),
       (''provision'', dep_Provision e), (''sign'', dep_Sign e), (''hosted verification'', dep_HostedVerification e)])"

fun first_path_error :: "(string \<times> string) list \<Rightarrow> agent_error option" where
  "first_path_error [] = None"
| "first_path_error ((name, path) # paths) =
     (if path = [] then first_path_error paths
      else case validatePlatformEndpointPath name path of Some err \<Rightarrow> Some err | None \<Rightarrow> first_path_error paths)"

abbreviation identity_placeholder :: string where "identity_placeholder \<equiv> ''{agent_identity_id}''"

definition did_template_ok :: "string \<Rightarrow> bool" where
  "did_template_ok template \<longleftrightarrow> count_str template platformDIDPlaceholder = 1 \<and>
     (case url_Parse (replace_first template platformDIDPlaceholder ''validation'') of
        None \<Rightarrow> False
      | Some u \<Rightarrow> url_Scheme u = ''https'' \<and> url_Hostname u \<noteq> [] \<and> url_User u = None \<and> url_Fragment u = [])"

definition platform_algorithm :: "SigningAlgorithm \<Rightarrow> bool" where
  "platform_algorithm a \<longleftrightarrow> a = SigningAlgorithmEdDSA \<or> a = SigningAlgorithmES256"

definition validatePlatformDiscovery :: "DiscoveryDocument \<Rightarrow> agent_error option" where
  "validatePlatformDiscovery document =
     (let e = ddc_Endpoints document; base = dht_EndpointBase (ddc_HTTP document);
          algorithms = elems (dsg_Algorithms (ddc_Signing document)); template = did_DIDURLTemplate (ddc_Identity document);
          p = ddc_Platform document in
      if \<not> IsVersionCompatible (ddc_AEPVersion document) Version \<or> dpl_Name p = [] \<or> base = [] \<or> algorithms = [] \<or>
         dep_Lifecycle e = [] \<or> dep_List e = [] \<or> dep_Provision e = [] \<or> dep_Sign e = [] \<or> template = [] \<or>
         (case parse_int (dsg_DefaultLifetimeSeconds (ddc_Signing document)) of
            None \<Rightarrow> True | Some lifetime \<Rightarrow> lifetime < 1 \<or> 300 < lifetime)
      then Some (failure ''invalid AEP Platform discovery document'')
      else if dpl_DID p \<noteq> [] \<and> \<not> has_prefix (dpl_DID p) ''did:''
      then Some (failure ''AEP Platform discovery contains an invalid Platform DID'')
      else if dpl_HostedVerification p \<noteq> (dep_HostedVerification e \<noteq> [])
      then Some (failure ''AEP Platform hosted verification advertisement is inconsistent'')
      else case first_path_error (discovery_paths document) of
        Some err \<Rightarrow> Some err
      | None \<Rightarrow>
          if count_str (dep_Lifecycle e) identity_placeholder \<noteq> 1 \<or> count_str (dep_Sign e) identity_placeholder \<noteq> 1 \<or>
             CHR ''{'' \<in> set (dep_List e) \<or> CHR ''{'' \<in> set (dep_Provision e) \<or> CHR ''{'' \<in> set base \<or>
             CHR ''{'' \<in> set (dep_HostedVerification e)
          then Some (failure ''AEP Platform discovery endpoint templates are invalid'')
          else if \<not> did_template_ok template then Some (failure ''AEP Platform DID URL template is invalid'')
          else if ''did:web'' \<notin> set (elems (did_DIDMethods (ddc_Identity document)))
          then Some (failure ''AEP Platform does not advertise did:web'')
          else if \<not> list_all platform_algorithm algorithms
          then Some (failure ''AEP Platform advertises an unsupported signing algorithm'')
          else None)"

definition managedAgentStatus :: "ManagedAgentStatus \<Rightarrow> bool" where
  "managedAgentStatus status \<longleftrightarrow> status = ManagedAgentActive \<or> status = ManagedAgentRevoked \<or>
     status = ManagedAgentSuspended \<or> status = ManagedAgentTerminated"

definition document_url_ok :: "bool \<Rightarrow> URL \<Rightarrow> bool" where
  "document_url_ok allowInsecureLoopback u \<longleftrightarrow> url_Host u \<noteq> [] \<and>
     (url_Scheme u = ''https'' \<or> (allowInsecureLoopback \<and> url_Scheme u = ''http'' \<and> isLoopback (url_Hostname u)))"

definition did_mismatch :: agent_error where
  "did_mismatch = failure ''AEP Platform DID document URL does not match the Agent DID''"

definition validatePlatformAgentIdentity :: "AgentIdentity \<Rightarrow> bool \<Rightarrow> agent_error option" where
  "validatePlatformAgentIdentity identity allowInsecureLoopback =
     (if ai_AgentIdentityID identity = [] \<or> \<not> has_prefix (ai_AgentDID identity) ''did:web:'' \<or>
         ai_KeyID identity \<noteq> ai_AgentDID identity \<or> \<not> has_prefix (ai_ServiceDID identity) ''did:'' \<or>
         elems (ai_SigningAlgorithms identity) = [] \<or> \<not> managedAgentStatus (ai_Status identity)
      then Some (failure ''AEP Platform returned an invalid identity'')
      else if \<not> list_all platform_algorithm (elems (ai_SigningAlgorithms identity))
      then Some (failure ''AEP Platform returned an unsupported signing algorithm'')
      else if parse_rfc3339 (ai_CreatedAt identity) = None
      then Some (failure ''AEP Platform returned an invalid identity creation time'')
      else if parse_rfc3339 (ai_UpdatedAt identity) = None
      then Some (failure ''AEP Platform returned an invalid identity update time'')
      else case url_Parse (ai_DIDDocumentURL identity) of
        None \<Rightarrow> Some (failure ''AEP Platform returned an invalid DID document URL'')
      | Some documentURL \<Rightarrow>
          if \<not> document_url_ok allowInsecureLoopback documentURL
          then Some (failure ''AEP Platform returned an invalid DID document URL'')
          else case DIDWebDocumentURL (ai_AgentDID identity) of
            Inl err \<Rightarrow> Some did_mismatch
          | Inr expected \<Rightarrow>
              if url_String expected = url_String documentURL then None
              else if allowInsecureLoopback then
                (case DIDWebDocumentURLWithOptions (ai_AgentDID identity) True of
                   Inl err \<Rightarrow> Some did_mismatch
                 | Inr loopback \<Rightarrow> if url_String loopback = url_String documentURL then None else Some did_mismatch)
              else Some did_mismatch)"

fun first_identity_error :: "AgentIdentity list \<Rightarrow> bool \<Rightarrow> agent_error option" where
  "first_identity_error [] allow = None"
| "first_identity_error (identity # rest) allow =
     (case validatePlatformAgentIdentity identity allow of Some err \<Rightarrow> Some err | None \<Rightarrow> first_identity_error rest allow)"

definition validatePlatformIdentityList :: "AgentIdentityListResponse \<Rightarrow> bool \<Rightarrow> agent_error option" where
  "validatePlatformIdentityList listing allowInsecureLoopback =
     (let size_ok = (case (parse_int (alr_Count listing), parse_int (alr_Total listing)) of
            (Some n, Some whole_count) \<Rightarrow> n = int (length (elems (alr_Data listing))) \<and> 0 \<le> n \<and> n \<le> whole_count
          | _ \<Rightarrow> False) in
      if \<not> size_ok then Some (failure ''AEP Platform returned an invalid identity list'')
      else first_identity_error (elems (alr_Data listing)) allowInsecureLoopback)"

definition platformDiscoveryFresh :: "platformDiscoveryEntry \<Rightarrow> time \<Rightarrow> bool" where
  "platformDiscoveryFresh e now =
     (if cacheDirective (pde_cacheControl e) ''no-cache'' \<or> cacheDirective (pde_cacheControl e) ''no-store'' then False
      else case max_age (pde_cacheControl e) (300 * Second) of
             None \<Rightarrow> False
           | Some age \<Rightarrow> now < pde_cachedAt e + age)"

lemmas agent_platform_check_defs [go_defs] =
  NewPlatformIdentityProvider_def decodePlatformJSON_def zero_discovery_document_def fields_endpoints_def
  fields_discovery_def fields_list_response_def path_error_def validatePlatformEndpointPath_def discovery_paths_def
  did_template_ok_def platform_algorithm_def validatePlatformDiscovery_def managedAgentStatus_def document_url_ok_def
  did_mismatch_def validatePlatformAgentIdentity_def validatePlatformIdentityList_def platformDiscoveryFresh_def

end
