(* ===== verification/Agent_Provider.thy ===== *)
theory Agent_Provider
  imports Agent_Platform
begin

text \<open>
  The operations of \<open>agent/platform_provider.go\<close>: discovery, the commands it sends to the Platform, and the
  methods of the identity provider.
\<close>

section \<open>Discovery\<close>

definition discovery_response ::
  "'w PlatformIdentityProvider \<Rightarrow> agent_error http_in \<Rightarrow> URL \<Rightarrow> platformDiscoveryEntry option \<Rightarrow> time \<Rightarrow>
   agent_error + platformDiscoveryEntry" where
  "discovery_response provider response finalURL cached now =
     (let status = in_StatusCode response; headers = in_Header response;
          keep = (\<lambda>name old. if header_Get headers name \<noteq> [] then header_Get headers name else old) in
      if status = 304 then
        (case cached of
           None \<Rightarrow> Inl (failure ''AEP Platform discovery returned 304 without a cached document'')
         | Some e \<Rightarrow>
             Inr (e\<lparr>pde_cachedAt := now, pde_finalURL := cloneURL finalURL,
               pde_cacheControl := keep ''Cache-Control'' (pde_cacheControl e), pde_etag := keep ''ETag'' (pde_etag e),
               pde_lastModified := keep ''Last-Modified'' (pde_lastModified e)\<rparr>))
      else if status < 200 \<or> 300 \<le> status
      then Inl (failure (''AEP Platform discovery failed with HTTP '' @ enc_int status))
      else if \<not> mediaTypeMatches (header_Get headers ''Content-Type'') MediaType
      then Inl (failure ''AEP Platform discovery response media type is invalid'')
      else case readBounded response (pip_maximumResponseBytes provider) of
        Inl err \<Rightarrow> Inl err
      | Inr data \<Rightarrow>
          (case decodePlatformJSON (dec_struct fields_discovery) zero_discovery_document data of
             None \<Rightarrow> Inl (failure ''AEP Platform discovery document is invalid'')
           | Some document \<Rightarrow>
               if validatePlatformDiscovery document \<noteq> None
               then Inl (failure ''AEP Platform discovery document is invalid'')
               else Inr \<lparr>pde_cacheControl = header_Get headers ''Cache-Control'', pde_cachedAt = now,
                 pde_document = document, pde_etag = header_Get headers ''ETag'', pde_finalURL = cloneURL finalURL,
                 pde_lastModified = header_Get headers ''Last-Modified''\<rparr>))"

text \<open>The clock is read only for an entry that is kept.\<close>

definition Provider_discoveryResponse ::
  "'w PlatformIdentityProvider \<Rightarrow> agent_error http_in \<Rightarrow> URL \<Rightarrow> platformDiscoveryEntry option \<Rightarrow>
   ('w, platformDiscoveryEntry) agent_act" where
  "Provider_discoveryResponse provider response finalURL cached =
     (case discovery_response provider response finalURL cached 0 of
        Inl err \<Rightarrow> fail err
      | Inr _ \<Rightarrow>
          and_then (call (pip_clock provider)) (\<lambda>now.
          of_result (discovery_response provider response finalURL cached now)))"

definition discovery_request :: "URL \<Rightarrow> platformDiscoveryEntry option \<Rightarrow> http_out option" where
  "discovery_request current cached =
     map_option (\<lambda>r0. let r = request_set ''Accept'' MediaType r0 in
       case cached of
         None \<Rightarrow> r
       | Some e \<Rightarrow>
           let r1 = (if pde_etag e \<noteq> [] then request_set ''If-None-Match'' (pde_etag e) r else r) in
           if pde_lastModified e \<noteq> [] then request_set ''If-Modified-Since'' (pde_lastModified e) r1 else r1)
       (new_request ''GET'' (url_String current) [])"

definition discovery_next :: "URL \<Rightarrow> string \<Rightarrow> agent_error + URL" where
  "discovery_next current location =
     (let changed = Inl (failure ''AEP Platform discovery redirect changed origin or scheme'') in
      case url_Relative current location of
        None \<Rightarrow> changed
      | Some next \<Rightarrow>
          if location = [] \<or> \<not> validInspectTarget next \<or> url_Scheme next \<noteq> url_Scheme current \<or> \<not> sameOrigin next current
          then changed else Inr next)"

definition discovery_keep ::
  "'w PlatformIdentityProvider \<Rightarrow> platformDiscoveryEntry \<Rightarrow> ('w, platformDiscoveryEntry) agent_act" where
  "discovery_keep provider e =
     at (pip_discovery provider) (\<lambda>_. (Inr e, if cacheDirective (pde_cacheControl e) ''no-store'' then None else Some e))"

fun discovery_loop ::
  "'w PlatformIdentityProvider \<Rightarrow> ctx \<Rightarrow> platformDiscoveryEntry option \<Rightarrow> nat \<Rightarrow> URL \<Rightarrow>
   ('w, platformDiscoveryEntry) agent_act" where
  "discovery_loop provider rc cached left current =
     (case discovery_request current cached of
        None \<Rightarrow> fail (Plain (Library ''net/url''))
      | Some request \<Rightarrow>
     and_then (doWithoutRedirects (pip_httpClient provider) rc request) (\<lambda>response.
     if isRedirect (in_StatusCode response) then
       (case left of
          0 \<Rightarrow> fail (failure ''AEP Platform discovery exceeded five redirects'')
        | Suc n \<Rightarrow>
            (case discovery_next current (header_Get (in_Header response) ''Location'') of
               Inl err \<Rightarrow> fail err
             | Inr next \<Rightarrow> discovery_loop provider rc cached n next))
     else and_then (Provider_discoveryResponse provider response current cached) (\<lambda>e. discovery_keep provider e)))"

declare discovery_loop.simps [simp del]

definition Provider_discover :: "'w PlatformIdentityProvider \<Rightarrow> ctx \<Rightarrow> ('w, platformDiscoveryEntry) agent_act" where
  "Provider_discover provider c =
     (let refresh = (\<lambda>cached.
            and_then (observe (with_timeout (pip_runtime provider) c (pip_requestTimeout provider))) (\<lambda>rc.
            discovery_loop provider rc cached maximumInspectRedirects
              (case cached of
                 None \<Rightarrow> url_ResolveReference (pip_platformURL provider) (empty_url\<lparr>url_Path := PlatformWellKnownPath\<rparr>)
               | Some e \<Rightarrow> pde_finalURL e))) in
      and_then (observe (part_get (pip_discovery provider))) (\<lambda>cached.
      case cached of
        None \<Rightarrow> refresh None
      | Some e \<Rightarrow>
          and_then (call (pip_clock provider)) (\<lambda>now.
          if platformDiscoveryFresh e now then ok e else refresh (Some e))))"

section \<open>Commands\<close>

text \<open>\<open>strings.ReplaceAll\<close> of a text that is not empty.\<close>

fun replace_all :: "nat \<Rightarrow> string \<Rightarrow> string \<Rightarrow> string \<Rightarrow> string" where
  "replace_all 0 s sep val = s"
| "replace_all (Suc fuel) s sep val =
     (case s of
        [] \<Rightarrow> []
      | ch # t \<Rightarrow> if has_prefix s sep then val @ replace_all fuel (drop (length sep) s) sep val
                  else ch # replace_all fuel t sep val)"

definition PathEscape :: "string \<Rightarrow> string" where
  "PathEscape s = escape encodePathSegment s"

definition Provider_endpoint :: "'w PlatformIdentityProvider \<Rightarrow> string \<Rightarrow> string \<Rightarrow> agent_error + URL" where
  "Provider_endpoint provider template identityID =
     (let path = (if identityID \<noteq> [] then replace_all (length template) template identity_placeholder (PathEscape identityID)
                  else template);
          bad = Inl (failure ''AEP Platform advertised an invalid endpoint'') in
      if \<not> has_prefix path ''/'' \<or> has_prefix path ''//'' \<or> CHR ''{'' \<in> set path then bad
      else case url_Parse path of
        None \<Rightarrow> bad
      | Some reference \<Rightarrow>
          if url_RawQuery reference \<noteq> [] \<or> url_Fragment reference \<noteq> [] \<or> url_User reference \<noteq> None then bad
          else
          let endpoint = url_ResolveReference (pip_platformURL provider) reference in
          if \<not> sameOrigin endpoint (pip_platformURL provider)
          then Inl (failure ''AEP Platform endpoint changed origin'') else Inr endpoint)"

text \<open>The caller's fields replace those of the provider, but for three that it sets itself.\<close>

definition own_header :: "string \<Rightarrow> bool" where
  "own_header name \<longleftrightarrow> to_lower name \<in> {''accept'', ''content-type'', ''idempotency-key''}"

definition add_supplied :: "(string \<times> string list) list \<Rightarrow> Header \<Rightarrow> Header" where
  "add_supplied supplied headers =
     foldl (\<lambda>h (name, vals). if own_header name then h else Some (AList.update (CanonicalHeaderKey name) vals (elems h)))
       headers supplied"

definition Provider_headers :: "'w PlatformIdentityProvider \<Rightarrow> ctx \<Rightarrow> ('w, Header) agent_act" where
  "Provider_headers provider c =
     (let headers = (if pip_authorization provider \<noteq> [] then header_Set ''Authorization'' (pip_authorization provider) (Some [])
                     else Some []) in
      case pip_authenticationHeaders provider of
        None \<Rightarrow> ok headers
      | Some supply \<Rightarrow> and_then (supply c) (\<lambda>supplied. ok (add_supplied (elems supplied) headers)))"

definition platform_problem :: "agent_error http_in \<Rightarrow> string \<Rightarrow> ProblemDetails option" where
  "platform_problem response data =
     (if \<not> mediaTypeMatches (header_Get (in_Header response) ''Content-Type'') ProblemMediaType then None
      else case ParseProblemDetails data of
        Inl _ \<Rightarrow> None
      | Inr problem \<Rightarrow> if pd_Status problem = in_StatusCode response then Some problem else None)"

definition platform_outcome ::
  "'w PlatformIdentityProvider \<Rightarrow> (string \<Rightarrow> 'a option) \<Rightarrow> agent_error http_in \<Rightarrow> agent_error + int \<times> Header \<times> 'a" where
  "platform_outcome provider decode response =
     (let status = in_StatusCode response in
      case readBounded response (pip_maximumResponseBytes provider) of
        Inl err \<Rightarrow> Inl err
      | Inr data \<Rightarrow>
          if status < 200 \<or> 300 \<le> status then Inl (PlatformCommandError (platform_problem response data) status)
          else if \<not> mediaTypeMatches (header_Get (in_Header response) ''Content-Type'') MediaType
          then Inl (failure ''AEP Platform response media type is invalid'')
          else case decode data of
                 None \<Rightarrow> Inl (failure ''AEP Platform response is invalid JSON'')
               | Some v \<Rightarrow> Inr (status, in_Header response, v))"

text \<open>A body is there when it is not nil, and may fail to encode; \<open>decode\<close> fills the target.\<close>

definition Provider_command ::
  "'w PlatformIdentityProvider \<Rightarrow> ctx \<Rightarrow> string \<Rightarrow> URL \<Rightarrow> string \<Rightarrow> string option option \<Rightarrow> (string \<Rightarrow> 'a option) \<Rightarrow>
   ('w, int \<times> Header \<times> 'a) agent_act" where
  "Provider_command provider c verb endpoint idempotencyKey body decode =
     (case (case body of None \<Rightarrow> Some [] | Some encoded \<Rightarrow> encoded) of
        None \<Rightarrow> fail (Plain (Library ''encoding/json''))
      | Some encoded \<Rightarrow>
     and_then (observe (with_timeout (pip_runtime provider) c (pip_requestTimeout provider))) (\<lambda>rc.
     case new_request verb (url_String endpoint) encoded of
       None \<Rightarrow> fail (Plain (Library ''net/url''))
     | Some request \<Rightarrow>
     and_then (Provider_headers provider rc) (\<lambda>headers.
     let r = request_set ''Accept'' MediaType (request\<lparr>out_Header := headers\<rparr>);
         r1 = (if body \<noteq> None then request_set ''Content-Type'' MediaType r else r);
         r2 = (if idempotencyKey \<noteq> [] then request_set ''Idempotency-Key'' idempotencyKey r1 else r1) in
     and_then (doWithoutRedirects (pip_httpClient provider) rc r2) (\<lambda>response.
     of_result (platform_outcome provider decode response)))))"

definition Provider_newIdempotencyKey :: "'w PlatformIdentityProvider \<Rightarrow> ('w, string) agent_act" where
  "Provider_newIdempotencyKey provider =
     and_then (attempt (pip_idempotencyKey provider)) (\<lambda>made.
     case made of
       Inl _ \<Rightarrow> fail (failure ''AEP Platform idempotency key generation failed'')
     | Inr key \<Rightarrow>
         if validIdempotencyKey key then ok key
         else fail (failure ''AEP Platform idempotency key generation failed''))"

section \<open>Identities\<close>

definition Provider_serviceIdentity :: "'w PlatformIdentityProvider \<Rightarrow> AgentIdentity \<Rightarrow> agent_error + ServiceIdentity" where
  "Provider_serviceIdentity provider identity =
     (case validatePlatformAgentIdentity identity (pip_allowInsecureLoopback provider) of
        Some err \<Rightarrow> Inl err
      | None \<Rightarrow>
          Inr \<lparr>sid_AgentDID = ai_AgentDID identity, sid_IdentityMethod = IdentityMethodDIDWeb,
               sid_ServiceDID = ai_ServiceDID identity, sid_SigningAlgorithms = elems (ai_SigningAlgorithms identity),
               sid_Metadata = Some
                 [(''agent_identity_id'', ai_AgentIdentityID identity), (''created_at'', ai_CreatedAt identity),
                  (''did_document_url'', ai_DIDDocumentURL identity), (''key_id'', ai_KeyID identity),
                  (''platform_url'', url_String (pip_platformURL provider)), (''status'', ai_Status identity),
                  (''updated_at'', ai_UpdatedAt identity)]\<rparr>)"

text \<open>Indexing the metadata without the key yields the empty string.\<close>

definition metadata :: "ServiceIdentity \<Rightarrow> string \<Rightarrow> string" where
  "metadata identity key = (case map_of (elems (sid_Metadata identity)) key of None \<Rightarrow> [] | Some v \<Rightarrow> v)"

definition Provider_validatePlatformIdentity :: "'w PlatformIdentityProvider \<Rightarrow> ServiceIdentity \<Rightarrow> agent_error option" where
  "Provider_validatePlatformIdentity provider identity =
     (if metadata identity ''platform_url'' \<noteq> url_String (pip_platformURL provider) \<or>
         metadata identity ''agent_identity_id'' = [] \<or> metadata identity ''status'' \<noteq> ManagedAgentActive
      then Some (failure ''AEP identity is not an active identity from this Platform'')
      else validateServiceIdentityRecord identity (sid_ServiceDID identity))"

text \<open>The query, encoded by name; that of an endpoint is empty before.\<close>

definition list_query :: "string \<Rightarrow> string" where
  "list_query serviceDID = ''descending=true&limit=100&service_did='' @ QueryEscape serviceDID"

definition Provider_FindIdentityByServiceDID ::
  "'w PlatformIdentityProvider \<Rightarrow> ctx \<Rightarrow> string \<Rightarrow> ('w, ServiceIdentity option) agent_act" where
  "Provider_FindIdentityByServiceDID provider c serviceDID =
     (if \<not> has_prefix serviceDID ''did:'' then fail (failure ''invalid AEP Service DID'')
      else
      and_then (Provider_discover provider c) (\<lambda>discovery.
      case Provider_endpoint provider (dep_List (ddc_Endpoints (pde_document discovery))) [] of
        Inl err \<Rightarrow> fail err
      | Inr endpoint \<Rightarrow>
      and_then (Provider_command provider c ''GET'' (endpoint\<lparr>url_RawQuery := list_query serviceDID\<rparr>) [] None
        (decodePlatformJSON (dec_struct fields_list_response) \<lparr>alr_Count = [], alr_Data = None, alr_Total = []\<rparr>))
        (\<lambda>(_, _, listing).
      case validatePlatformIdentityList listing (pip_allowInsecureLoopback provider) of
        Some err \<Rightarrow> fail err
      | None \<Rightarrow>
          (case find (\<lambda>candidate. ai_ServiceDID candidate = serviceDID \<and> ai_Status candidate = ManagedAgentActive)
                  (elems (alr_Data listing)) of
             None \<Rightarrow> ok None
           | Some candidate \<Rightarrow>
               (case Provider_serviceIdentity provider candidate of
                  Inl err \<Rightarrow> fail err
                | Inr identity \<Rightarrow> ok (Some identity))))))"

definition Provider_GetOrCreateIdentity ::
  "'w PlatformIdentityProvider \<Rightarrow> ctx \<Rightarrow> IdentityRequest \<Rightarrow> ('w, ServiceIdentity) agent_act" where
  "Provider_GetOrCreateIdentity provider c request =
     and_then (Provider_FindIdentityByServiceDID provider c (ireq_ServiceDID request)) (\<lambda>existing.
     case existing of
       Some identity \<Rightarrow> ok identity
     | None \<Rightarrow>
         and_then (Provider_discover provider c) (\<lambda>discovery.
         case Provider_endpoint provider (dep_Provision (ddc_Endpoints (pde_document discovery))) [] of
           Inl err \<Rightarrow> fail err
         | Inr endpoint \<Rightarrow>
             and_then (Provider_newIdempotencyKey provider) (\<lambda>key.
             and_then (Provider_command provider c ''POST'' endpoint key
               (Some (Some (enc_provision_request \<lparr>prq_ServiceDID = ireq_ServiceDID request\<rparr>)))
               (decodePlatformJSON (dec_struct fields_agent_identity) zero_agent_identity)) (\<lambda>(_, _, provisioned).
             if ai_ServiceDID provisioned \<noteq> ireq_ServiceDID request \<or> ai_Status provisioned \<noteq> ManagedAgentActive
             then fail (failure ''AEP Platform provisioned an identity outside the requested Service scope'')
             else of_result (Provider_serviceIdentity provider provisioned)))))"

section \<open>Signing\<close>

text \<open>\<open>Time.Sub\<close> saturates; the requested lifetime wraps as \<open>int64\<close> does.\<close>

definition time_Sub :: "time \<Rightarrow> time \<Rightarrow> duration" where
  "time_Sub t u = max min_i64 (min max_i64 (t - u))"

definition validCompletedSignResponse ::
  "int \<Rightarrow> SignResponse \<Rightarrow> ServiceIdentity \<Rightarrow> ClientAssertionClaims \<Rightarrow> bool" where
  "validCompletedSignResponse status response identity claims =
     (case (parse_rfc3339 (sgr_IssuedAt response), parse_rfc3339 (sgr_ExpiresAt response)) of
        (Some issuedAt, Some expiresAt) \<Rightarrow>
          status = 200 \<and> sgr_Status response = SignCompleted \<and> sgr_ClientAssertion response \<noteq> [] \<and>
          sgr_AgentDID response = sid_AgentDID identity \<and> sgr_ServiceDID response = sid_ServiceDID identity \<and>
          sgr_JWTID response = cac_JWTID claims \<and>
          time_Sub expiresAt issuedAt = i64 (i64 (cac_ExpiresAt claims - cac_IssuedAt claims) * Second)
      | _ \<Rightarrow> False)"

definition cloneRawMessages :: "raw_messages \<Rightarrow> raw_messages" where
  "cloneRawMessages v = map_option (map (\<lambda>(name, raw). (name, raw))) v"

definition sign_request :: "ClientAssertionClaims \<Rightarrow> raw_messages \<Rightarrow> SignRequest" where
  "sign_request claims platformContext =
     \<lparr>sgq_JWTID = cac_JWTID claims, sgq_LifetimeSeconds = enc_int (i64 (cac_ExpiresAt claims - cac_IssuedAt claims)),
      sgq_Operation = cac_Operation claims, sgq_PlatformContext = cloneRawMessages platformContext,
      sgq_Resource = cac_Resource claims, sgq_ServiceDID = cac_Audience claims\<rparr>"

definition Provider_sign ::
  "'w PlatformIdentityProvider \<Rightarrow> ctx \<Rightarrow> ServiceIdentity \<Rightarrow> ClientAssertionClaims \<Rightarrow> raw_messages \<Rightarrow> string \<Rightarrow>
   ('w, SignResponse) agent_act" where
  "Provider_sign provider c identity claims platformContext idempotencyKey =
     and_then (Provider_discover provider c) (\<lambda>discovery.
     case Provider_endpoint provider (dep_Sign (ddc_Endpoints (pde_document discovery))) (metadata identity ''agent_identity_id'') of
       Inl err \<Rightarrow> fail err
     | Inr endpoint \<Rightarrow>
         and_then (Provider_command provider c ''POST'' endpoint idempotencyKey
           (Some (enc_sign_request (sign_request claims platformContext)))
           (decodePlatformJSON (dec_struct fields_sign_response) zero_sign_response)) (\<lambda>(status, headers, response).
         if sgr_Status response = SignCompleted then
           (if validCompletedSignResponse status response identity claims then ok response
            else fail (failure ''AEP Platform returned an invalid completed Sign response''))
         else if sgr_Status response \<noteq> SignPending \<or> status \<noteq> 202 \<or> header_Get headers ''Retry-After'' \<noteq> []
         then fail (failure ''AEP Platform returned an invalid Sign status'')
         else ok response))"

definition pending_sign :: "ServiceIdentity \<Rightarrow> SignResponse \<Rightarrow> PlatformPendingSign option" where
  "pending_sign identity response =
     (case parse_int (sgr_RetryAfterSeconds response) of
        None \<Rightarrow> None
      | Some seconds \<Rightarrow>
          if seconds < 1 \<or> 300 < seconds then None
          else Some \<lparr>pps_Identity = cloneIdentity identity,
                     pps_PlatformContext = cloneRawMessages (sgr_PlatformContext response), pps_RetryAfterSeconds = seconds\<rparr>)"

fun sign_rounds ::
  "nat \<Rightarrow> 'w PlatformIdentityProvider \<Rightarrow> ctx \<Rightarrow> ServiceIdentity \<Rightarrow> ClientAssertionClaims \<Rightarrow> raw_messages \<Rightarrow> string \<Rightarrow>
   ('w, string) agent_act" where
  "sign_rounds 0 provider c identity claims platformContext previous = fail Unfinished"
| "sign_rounds (Suc fuel) provider c identity claims platformContext previous =
     and_then (Provider_newIdempotencyKey provider) (\<lambda>key.
     if key = previous then fail (failure ''AEP Platform pending Sign stages require distinct idempotency keys'')
     else
     and_then (Provider_sign provider c identity claims platformContext key) (\<lambda>result.
     if sgr_Status result = SignCompleted then ok (sgr_ClientAssertion result)
     else case pending_sign identity result of
       None \<Rightarrow> fail (failure ''AEP Platform returned an invalid pending Sign response'')
     | Some pending \<Rightarrow>
         (case pip_pendingSignResolver provider of
            None \<Rightarrow> fail (PlatformSignPendingError pending)
          | Some resolve \<Rightarrow>
              and_then (resolve c pending) (\<lambda>next_context.
              sign_rounds fuel provider c identity claims next_context key))))"

definition platform_signer :: "nat \<Rightarrow> 'w PlatformIdentityProvider \<Rightarrow> ServiceIdentity \<Rightarrow> 'w AssertionSigner" where
  "platform_signer fuel provider identity c claims algorithms =
     (if cac_Issuer claims \<noteq> sid_AgentDID identity \<or> cac_Subject claims \<noteq> sid_AgentDID identity \<or>
         cac_Audience claims \<noteq> sid_ServiceDID identity
      then fail (failure ''AEP Platform signer received claims for another identity'')
      else if intersectAlgorithms (sid_SigningAlgorithms identity) algorithms = []
      then fail (failure ''AEP Platform and Service have no compatible signing algorithm'')
      else
      and_then (case pip_platformContext provider of
                  None \<Rightarrow> ok None
                | Some provide \<Rightarrow> provide c (cloneIdentity identity) claims) (\<lambda>platformContext.
      sign_rounds fuel provider c identity claims platformContext []))"

definition Provider_SignerFor ::
  "nat \<Rightarrow> 'w PlatformIdentityProvider \<Rightarrow> ctx \<Rightarrow> ServiceIdentity \<Rightarrow> ('w, 'w AssertionSigner option) agent_act" where
  "Provider_SignerFor fuel provider c identity =
     (case Provider_validatePlatformIdentity provider (cloneIdentity identity) of
        Some err \<Rightarrow> fail err
      | None \<Rightarrow> ok (Some (platform_signer fuel provider (cloneIdentity identity))))"

text \<open>The provider as the interface of a client.\<close>

definition platform_provider :: "nat \<Rightarrow> 'w PlatformIdentityProvider \<Rightarrow> 'w IdentityProvider" where
  "platform_provider fuel provider =
     \<lparr>idp_GetOrCreateIdentity = Provider_GetOrCreateIdentity provider, idp_SignerFor = Provider_SignerFor fuel provider,
      idp_FindIdentityByServiceDID = Some (Provider_FindIdentityByServiceDID provider)\<rparr>"

lemmas agent_provider_defs [go_defs] =
  discovery_response_def Provider_discoveryResponse_def discovery_request_def discovery_next_def discovery_keep_def
  Provider_discover_def PathEscape_def Provider_endpoint_def own_header_def add_supplied_def Provider_headers_def
  platform_problem_def platform_outcome_def Provider_command_def Provider_newIdempotencyKey_def
  Provider_serviceIdentity_def metadata_def Provider_validatePlatformIdentity_def list_query_def
  Provider_FindIdentityByServiceDID_def Provider_GetOrCreateIdentity_def time_Sub_def validCompletedSignResponse_def
  cloneRawMessages_def sign_request_def Provider_sign_def pending_sign_def platform_signer_def Provider_SignerFor_def
  platform_provider_def

end
