(* ===== verification/Calendar.thy ===== *)
theory Calendar
  imports Times
begin

text \<open>
  The calendar of \<open>Times\<close>: dates and day numbers are inverse to each other in the years 0 to 9999, and an
  instant that is formatted as RFC 3339 parses to itself, but for the fraction of its second.
\<close>

section \<open>Years of an era\<close>

text \<open>The first day of a year that starts in March, in an era of 400 years.\<close>

definition year_start :: "int \<Rightarrow> int" where
  "year_start y = 365 * y + y div 4 - y div 100"

definition year_of_era :: "int \<Rightarrow> int" where
  "year_of_era doe = (doe - doe div 1460 + doe div 36524 - doe div 146096) div 365"

lemma year_table:
  "list_all (\<lambda>y. year_of_era (year_start y) = y \<and> year_of_era (year_start (y + 1) - 1) = y \<and> year_start (y + 1) \<le> 146096)
     [0..399]"
  by code_simp

lemma year_found: "0 \<le> doe \<Longrightarrow> doe < year_start (int n) \<Longrightarrow> \<exists>y. 0 \<le> y \<and> y < int n \<and> year_start y \<le> doe \<and> doe < year_start (y + 1)"
proof (induction n)
  case 0
  then show ?case by (simp add: year_start_def)
next
  case (Suc n)
  show ?case
  proof (cases "doe < year_start (int n)")
    case True
    then show ?thesis using Suc.IH Suc.prems(1) by (metis less_Suc_eq_le int_ops(4) linorder_not_less order_less_le_trans of_nat_less_iff lessI less_trans)
  next
    case False
    then show ?thesis using Suc.prems by (intro exI [of _ "int n"]) (simp add: algebra_simps)
  qed
qed

lemma year_of_era_mono: "0 \<le> a \<Longrightarrow> a \<le> b \<Longrightarrow> b < 146096 \<Longrightarrow> year_of_era a \<le> year_of_era b"
proof -
  assume a: "0 \<le> a" "a \<le> b" "b < 146096"
  have "a - a div 1460 \<le> b - b div 1460" using a by linarith
  moreover have "a div 36524 \<le> b div 36524" "a div 146096 = 0" "b div 146096 = 0" using a by (simp_all add: zdiv_mono1)
  ultimately show ?thesis unfolding year_of_era_def by (intro zdiv_mono1) linarith+
qed

lemma year_of_era_range:
  assumes "0 \<le> doe" and "doe < 146097"
  shows "0 \<le> year_of_era doe \<and> year_of_era doe \<le> 399 \<and> year_start (year_of_era doe) \<le> doe \<and>
    (doe < year_start (year_of_era doe + 1) \<or> doe = 146096 \<and> year_of_era doe = 399)"
proof (cases "doe = 146096")
  case True
  moreover have "year_of_era 146096 = 399" "year_start 399 \<le> 146096" by code_simp+
  ultimately show ?thesis by simp
next
  case False
  moreover have "year_start (int 400) = 146096" by code_simp
  ultimately have "doe < year_start (int 400)" using assms(2) by linarith
  then obtain y where y: "0 \<le> y" "y < 400" "year_start y \<le> doe" "doe < year_start (y + 1)"
    using year_found [OF assms(1), of 400] by auto
  then have "y \<in> set [0..399]" by simp
  then have t: "year_of_era (year_start y) = y" "year_of_era (year_start (y + 1) - 1) = y" "year_start (y + 1) \<le> 146096"
    using year_table unfolding list_all_iff by auto
  have "0 \<le> year_start y" using y(1) by (simp add: year_start_def)
  then have "year_of_era doe = y"
    using year_of_era_mono [of "year_start y" doe] year_of_era_mono [of doe "year_start (y + 1) - 1"] y t by simp
  then show ?thesis using y by simp
qed

section \<open>Days of a year\<close>

definition month_of :: "int \<Rightarrow> int" where
  "month_of doy = (5 * doy + 2) div 153"

lemma month_table:
  "list_all (\<lambda>doy. let mp = month_of doy; d = doy - (153 * mp + 2) div 5 + 1; m = (if mp < 10 then mp + 3 else mp - 9) in
     0 \<le> mp \<and> mp \<le> 11 \<and> 1 \<le> d \<and> d \<le> (if m = 2 then 28 else days_in m 1) \<and> (mp < 10 \<longleftrightarrow> doy < 306)) [0..364]"
  by code_simp


lemma month_day:
  assumes "0 \<le> doy" and "doy \<le> 365" and "doy = 365 \<Longrightarrow> is_leap y"
    and "mp = month_of doy" and "d = doy - (153 * mp + 2) div 5 + 1" and "m = (if mp < 10 then mp + 3 else mp - 9)"
  shows "0 \<le> mp \<and> mp \<le> 11 \<and> 1 \<le> d \<and> d \<le> days_in m y \<and> (mp < 10 \<longleftrightarrow> doy < 306)"
proof (cases "doy = 365")
  case True
  have "month_of 365 = 11" by code_simp
  then show ?thesis using assms(3-6) True by (simp add: days_in_def)
next
  case False
  then have "doy \<in> set [0..364]" using assms(1,2) by simp
  then have t: "0 \<le> mp \<and> mp \<le> 11 \<and> 1 \<le> d \<and> d \<le> (if m = 2 then 28 else days_in m 1) \<and> (mp < 10 \<longleftrightarrow> doy < 306)"
    using month_table assms(4-6) unfolding list_all_iff Let_def by blast
  then show ?thesis by (auto simp: days_in_def split: if_splits)
qed

lemma era_days:
  assumes "0 \<le> y" and "y \<le> 399"
  shows "365 * (y + era * 400) + (y + era * 400) div 4 - (y + era * 400) div 100 + (y + era * 400) div 400 =
    era * 146097 + year_start y"
proof -
  have "(y + era * 400) div 4 = y div 4 + era * 100" "(y + era * 400) div 100 = y div 100 + era * 4"
    using div_mult_self1 [of 4 y "era * 100"] div_mult_self1 [of 100 y "era * 4"] by (simp_all add: algebra_simps)
  moreover have "(y + era * 400) div 400 = era" using assms by simp
  ultimately show ?thesis by (simp add: year_start_def)
qed

lemma div_step:
  fixes y n :: int
  assumes "0 < n"
  shows "(y + 1) div n = y div n + (if (y + 1) mod n = 0 then 1 else 0)"
proof (cases "y mod n = n - 1")
  case True
  then have "y + 1 = (y div n + 1) * n" using div_mult_mod_eq [of y n] by (simp only: distrib_right)
  then show ?thesis using assms by simp
next
  case False
  then have r: "0 \<le> y mod n + 1 \<and> y mod n + 1 < n" using assms pos_mod_bound [of n y] pos_mod_sign [of n y] by linarith
  have s: "y + 1 = y mod n + 1 + y div n * n" by (simp add: algebra_simps)
  have "n \<noteq> 0" using assms by simp
  have "(y mod n + 1 + y div n * n) mod n = y mod n + 1" "(y mod n + 1 + y div n * n) div n = y div n"
    using r by (simp_all only: mod_mult_self1 div_mult_self1 [OF \<open>n \<noteq> 0\<close>] mod_pos_pos_trivial div_pos_pos_trivial add_0_right)
  then have "(y + 1) mod n = y mod n + 1" "(y + 1) div n = y div n" unfolding s [symmetric] .
  then show ?thesis using r pos_mod_sign [OF assms, of y] by simp
qed

lemma leap_era: "is_leap (y + era * 400) \<longleftrightarrow> is_leap y"
proof -
  have "(y + era * 400) mod 4 = y mod 4" "(y + era * 400) mod 100 = y mod 100" "(y + era * 400) mod 400 = y mod 400"
    using mod_mult_self1 [of y "era * 100" 4] mod_mult_self1 [of y "era * 4" 100] by (simp_all add: algebra_simps)
  then show ?thesis by (simp add: is_leap_def)
qed

lemma year_length:
  "(y + 1) mod 400 \<noteq> 0 \<Longrightarrow> year_start (y + 1) = year_start y + (if is_leap (y + 1) then 366 else 365)"
proof -
  assume h: "(y + 1) mod 400 \<noteq> 0"
  have "(y + 1) mod 4 = 0" if "(y + 1) mod 100 = 0" using that by presburger
  then show ?thesis using h by (auto simp: year_start_def is_leap_def div_step)
qed

lemma late_days:
  assumes "146037 \<le> doe" and "doe < 146097"
  shows "year_of_era doe = 399 \<and> 306 \<le> doe - year_start (year_of_era doe)"
proof -
  have "year_start 399 = 145731" "year_of_era 145731 = 399" "year_of_era 146095 = 399" "year_of_era 146096 = 399" by code_simp+
  moreover from this have "year_of_era doe = 399"
    using assms year_of_era_mono [of 145731 doe] year_of_era_mono [of doe 146095] by (cases "doe = 146096") auto
  ultimately show ?thesis using assms by simp
qed

lemma civil_parts:
  "civil_from_days z =
     (let era = (z + 719468) div 146097; doe = z + 719468 - era * 146097; yoe = year_of_era doe; doy = doe - year_start yoe;
          mp = month_of doy; m = (if mp < 10 then mp + 3 else mp - 9) in
      (yoe + era * 400 + (if m \<le> 2 then 1 else 0), m, doy - (153 * mp + 2) div 5 + 1))"
  unfolding civil_from_days_def year_start_def year_of_era_def month_of_def Let_def by (rule refl)

text \<open>The date of a day: it exists, it is that day's, and its year lies in the range of the days.\<close>

lemma civil_from_days_exact:
  assumes "civil_from_days z = (y, m, d)"
  shows "days_from_civil y m d = z \<and> 1 \<le> m \<and> m \<le> 12 \<and> 1 \<le> d \<and> d \<le> days_in m y \<and>
    (-719528 \<le> z \<longrightarrow> 0 \<le> y) \<and> (z \<le> 2932896 \<longrightarrow> y \<le> 9999)"
proof -
  define era where "era = (z + 719468) div 146097"
  define doe where "doe = z + 719468 - era * 146097"
  define yoe where "yoe = year_of_era doe"
  define doy where "doy = doe - year_start yoe"
  define mp where "mp = month_of doy"
  have f: "d = doy - (153 * mp + 2) div 5 + 1" "m = (if mp < 10 then mp + 3 else mp - 9)"
    "y = yoe + era * 400 + (if m \<le> 2 then 1 else 0)"
    using assms unfolding civil_parts Let_def era_def [symmetric] doe_def [symmetric] yoe_def [symmetric]
      doy_def [symmetric] mp_def [symmetric] prod.inject by blast+
  have doe: "0 \<le> doe" "doe < 146097" unfolding doe_def era_def by linarith+
  note yr = year_of_era_range [OF doe, folded yoe_def]
  have long: "doy \<le> 365 \<and> (doy = 365 \<longrightarrow> is_leap (yoe + 1 + era * 400))"
  proof (cases "yoe = 399")
    case True
    have "year_start 399 = 145731" "is_leap (399 + 1)" by code_simp+
    then show ?thesis unfolding leap_era doy_def using doe True by simp
  next
    case False
    then have "(yoe + 1) mod 400 \<noteq> 0" using yr by simp
    then show ?thesis unfolding leap_era doy_def using yr False year_length [of yoe] by (auto split: if_splits)
  qed
  have doy: "0 \<le> doy" using yr by (simp add: doy_def)
  have md: "0 \<le> mp \<and> mp \<le> 11 \<and> 1 \<le> d \<and> d \<le> days_in m (yoe + 1 + era * 400) \<and> (mp < 10 \<longleftrightarrow> doy < 306)"
    using month_day [OF doy _ _ mp_def f(1,2)] long by blast
  have "d \<le> days_in m y" using md f(3) by (cases "m = 2") (auto simp: days_in_def algebra_simps)
  moreover have "1 \<le> m" "m \<le> 12" using md f(2) by auto
  moreover have "days_from_civil y m d = z"
  proof -
    have "(if m \<le> 2 then y - 1 else y) = yoe + era * 400" "(if m \<le> 2 then m + 9 else m - 3) = mp"
      using f(2,3) md by auto
    then have "days_from_civil y m d = era * 146097 + year_start yoe + (153 * mp + 2) div 5 + d - 1 - 719468"
      using era_days [of yoe era] yr unfolding days_from_civil_def Let_def by simp
    then show ?thesis using f(1) by (simp add: doy_def doe_def)
  qed
  moreover have "0 \<le> y" if "-719528 \<le> z"
  proof (cases "0 \<le> era")
    case True
    then show ?thesis using f(3) yr by simp
  next
    case False
    then have "era = -1" "146037 \<le> doe" using that unfolding era_def doe_def by linarith+
    then show ?thesis using f(2,3) md late_days [OF _ doe(2)] yr by (auto simp: doy_def yoe_def)
  qed
  moreover have "y \<le> 9999" if "z \<le> 2932896"
  proof (cases "era \<le> 23")
    case True
    then show ?thesis using f(3) yr by simp
  next
    case False
    then have "era = 24" "doe \<le> 146036" using that doe unfolding era_def doe_def by linarith+
    moreover have "year_start 399 = 145731" by code_simp
    ultimately show ?thesis using f(2,3) md yr by (cases "yoe = 399") (auto simp: doy_def)
  qed
  ultimately show ?thesis using md by blast
qed

section \<open>Texts of numbers\<close>

definition digit :: "int \<Rightarrow> char" where "digit n = char_of (48 + n)"

lemma zero_digit: "CHR ''0'' = digit 0"
  unfolding digit_def by code_simp

lemma digits_small: "0 \<le> n \<Longrightarrow> n < 10 \<Longrightarrow> digits_of n = [digit n]"
  "10 \<le> n \<Longrightarrow> digits_of n = digits_of (n div 10) @ [digit (n mod 10)]"
  by (simp_all add: digits_of.simps [of n] digit_def)

lemma digit_facts: "0 \<le> n \<Longrightarrow> n < 10 \<Longrightarrow> is_digit (digit n) \<and> digit_val (digit n) = n"
  by (simp add: digit_def is_digit_def in_range_def digit_val_def)

lemma pad_two: "0 \<le> n \<Longrightarrow> n < 100 \<Longrightarrow> pad 2 n = [digit (n div 10), digit (n mod 10)]"
  by (cases "n < 10") (simp_all add: pad_def digits_small zero_digit numeral_2_eq_2)

lemma pad_four:
  assumes "0 \<le> n" and "n < 10000"
  shows "pad 4 n = pad 2 (n div 100) @ pad 2 (n mod 100)"
proof -
  have "pad 4 n = [digit (n div 1000), digit (n div 100 mod 10), digit (n div 10 mod 10), digit (n mod 10)]"
  proof -
    have d: "n div 10 div 10 = n div 100" "n div 100 div 10 = n div 1000" by (simp_all add: zdiv_zmult2_eq [symmetric])
    consider "n < 10" | "10 \<le> n" "n < 100" | "100 \<le> n" "n < 1000" | "1000 \<le> n" by linarith
    then show ?thesis
    proof cases
      case 1
      then have "digits_of n = [digit n]" using assms digits_small(1) by simp
      then show ?thesis using 1 assms by (simp add: pad_def zero_digit numeral_3_eq_3)
    next
      case 2
      then have "digits_of n = [digit (n div 10), digit (n mod 10)]" using digits_small by simp
      then show ?thesis using 2 d by (simp add: pad_def zero_digit numeral_2_eq_2)
    next
      case 3
      then have "digits_of n = [digit (n div 100), digit (n div 10 mod 10), digit (n mod 10)]"
        using digits_small(2) [of n] digits_small(2) [of "n div 10"] digits_small(1) [of "n div 100"] d by simp
      then show ?thesis using 3 d by (simp add: pad_def zero_digit)
    next
      case 4
      then have "digits_of n = [digit (n div 1000), digit (n div 100 mod 10), digit (n div 10 mod 10), digit (n mod 10)]"
      proof -
        have b: "10 \<le> n" "10 \<le> n div 10" "10 \<le> n div 100" "0 \<le> n div 1000" "n div 1000 < 10" using 4 assms by linarith+
        show ?thesis
          by (simp only: digits_small(2) [OF b(1)] digits_small(2) [OF b(2)] d digits_small(2) [OF b(3)]
              digits_small(1) [OF b(4,5)] append.simps)
      qed
      then show ?thesis using 4 by (simp add: pad_def)
    qed
  qed
  moreover have "n div 100 div 10 = n div 1000" "n mod 100 div 10 = n div 10 mod 10" "n mod 100 mod 10 = n mod 10"
    using mod_mult2_eq' [of n 10 10] by (simp_all add: zdiv_zmult2_eq [symmetric] mod_mod_cancel)
  moreover have "0 \<le> n div 100" "n div 100 < 100" "0 \<le> n mod 100" "n mod 100 < 100" using assms by linarith+
  then have "pad 2 (n div 100) = [digit (n div 100 div 10), digit (n div 100 mod 10)]"
    "pad 2 (n mod 100) = [digit (n mod 100 div 10), digit (n mod 100 mod 10)]" by (simp_all only: pad_two)
  ultimately show ?thesis by (simp only: append.simps)
qed

lemma get2_pad: "0 \<le> n \<Longrightarrow> n < 100 \<Longrightarrow> get2 (pad 2 n @ s) = Some (n, s)"
  using digit_facts [of "n div 10"] digit_facts [of "n mod 10"] by (simp add: pad_two get2_def)

lemma get12_pad: "0 \<le> n \<Longrightarrow> n < 100 \<Longrightarrow> get12 (pad 2 n @ s) = Some (n, s)"
  by (simp add: get12_def get2_pad)

lemma get4_pad: "0 \<le> n \<Longrightarrow> n < 10000 \<Longrightarrow> get4 (pad 4 n @ s) = Some (n, s)"
  by (simp add: get4_def pad_four get2_pad)

lemma skip_char_Cons [simp]: "skip_char c (c # s) = Some s"
  by (simp add: skip_char_def)

text \<open>
  What \<open>Format\<close> writes with the layout of RFC 3339, \<open>Parse\<close> reads back: an instant of the years 0 to 9999
  parses to itself, rounded down to its second.
\<close>

lemma rfc3339_parsed:
  assumes "-62167219200 \<le> time_Unix t" and "time_Unix t \<le> 253402300799"
  shows "parse_rfc3339 (format_rfc3339 t) = Some (time_Unix t * Second)"
proof -
  define sod where "sod = time_Unix t mod 86400"
  obtain y m d where c: "civil_from_days (time_Unix t div 86400) = (y, m, d)" by (metis prod_cases3)
  have z: "-719528 \<le> time_Unix t div 86400" "time_Unix t div 86400 \<le> 2932896" using assms by linarith+
  note e = civil_from_days_exact [OF c]
  have days: "days_in m y \<le> 31" by (simp add: days_in_def)
  have sod: "0 \<le> sod" "sod < 86400" by (simp_all add: sod_def)
  have parts: "sod div 3600 = sod div 60 div 60" by (simp add: zdiv_zmult2_eq [symmetric])
  have clock: "0 \<le> sod div 3600" "sod div 3600 < 24" "0 \<le> sod div 60 mod 60" "sod div 60 mod 60 < 60" "0 \<le> sod mod 60"
    "sod mod 60 < 60" "(sod div 3600 * 60 + sod div 60 mod 60) * 60 + sod mod 60 = sod"
    using sod by (simp_all add: parts)
  have fmt: "format_rfc3339 t = pad 4 y @ ''-'' @ pad 2 m @ ''-'' @ pad 2 d @ ''T'' @
      pad 2 (sod div 3600) @ '':'' @ pad 2 (sod div 60 mod 60) @ '':'' @ pad 2 (sod mod 60) @ ''Z''"
    by (simp add: format_rfc3339_def c sod_def Let_def)
  have ymd: "parse_ymd (pad 4 y @ ''-'' @ pad 2 m @ ''-'' @ pad 2 d @ s) = Some ((y, m, d), s)" for s
    using e z days by (simp add: parse_ymd_def get4_pad get2_pad not_less)
  have read: "parse_clock (pad 2 (sod div 3600) @ '':'' @ pad 2 (sod div 60 mod 60) @ '':'' @ pad 2 (sod mod 60) @ s) = Some (sod, s)" for s
  proof -
    have colon: "skip_char CHR '':'' ('':'' @ u) = Some u" for u by simp
    have b: "\<not> 24 \<le> sod div 3600" "\<not> 60 \<le> sod div 60 mod 60" "\<not> 60 \<le> sod mod 60" using clock by linarith+
    have n: "sod div 3600 < 100" "sod div 60 mod 60 < 100" "sod mod 60 < 100" using clock by linarith+
    show ?thesis
      unfolding parse_clock_def get12_pad [OF clock(1) n(1)] get2_pad [OF clock(3) n(2)] get2_pad [OF clock(5) n(3)]
        option.case prod.case colon if_not_P [OF b(1)] if_not_P [OF b(2)] if_not_P [OF b(3)] clock(7) by (rule refl)
  qed
  have day: "days_from_civil y m d * 86400 + sod = time_Unix t" using e by (simp add: sod_def)
  have zone: "parse_fraction ''Z'' = (0, ''Z'')" "parse_zone ''Z'' = Some (0, [])"
    by (simp_all add: parse_fraction_def parse_zone_def)
  have mark: "skip_char CHR ''T'' (''T'' @ s) = Some s" for s by simp
  show ?thesis
    unfolding fmt parse_rfc3339_def ymd option.case prod.case mark read zone by (simp add: day)
qed

end
