(* ===== verification/Agent_Hosted.thy ===== *)
theory Agent_Hosted
  imports Agent_Assertions Agent_Provider Platform_Hosting Calendar
begin

text \<open>
  An Agent whose identities a Platform hosts: the identities its provider returns, the signatures it lets
  through, and the two sides of a Sign request, the provider's and the Platform's, together.
\<close>

section \<open>Identities\<close>

lemma cloneIdentity_id [simp]: "cloneIdentity identity = identity"
  by (cases "sid_Metadata identity") (simp_all add: cloneIdentity_def)

text \<open>An active identity of the provider's Platform, made for a Service.\<close>

definition hosted_for :: "'w PlatformIdentityProvider \<Rightarrow> string \<Rightarrow> ServiceIdentity \<Rightarrow> bool" where
  "hosted_for provider serviceDID identity \<longleftrightarrow>
     sid_ServiceDID identity = serviceDID \<and> Provider_validatePlatformIdentity provider identity = None"

lemma valid_agent_identity:
  assumes "validatePlatformAgentIdentity a loopback = None"
  shows "ai_AgentIdentityID a \<noteq> []" "has_prefix (ai_AgentDID a) ''did:web:''" "elems (ai_SigningAlgorithms a) \<noteq> []"
  using assms by (auto simp: validatePlatformAgentIdentity_def split: if_splits)

lemma did_web_did: "has_prefix s ''did:web:'' \<Longrightarrow> has_prefix s ''did:''"
  by (auto simp: has_prefix_append)

lemma service_identity_hosted:
  assumes "Provider_serviceIdentity provider a = Inr identity" and "ai_Status a = ManagedAgentActive"
    and "ai_ServiceDID a = serviceDID"
  shows "hosted_for provider serviceDID identity"
proof -
  have v: "validatePlatformAgentIdentity a (pip_allowInsecureLoopback provider) = None"
    using assms(1) by (auto simp: Provider_serviceIdentity_def split: option.splits)
  then show ?thesis
    using assms valid_agent_identity [OF v] did_web_did
    by (auto simp: Provider_serviceIdentity_def hosted_for_def Provider_validatePlatformIdentity_def metadata_def
        validateServiceIdentityRecord_def)
qed

lemma found_hosted:
  "yields (\<lambda>r. \<forall>identity. r = Some identity \<longrightarrow> hosted_for provider serviceDID identity)
     (Provider_FindIdentityByServiceDID provider c serviceDID)"
  unfolding Provider_FindIdentityByServiceDID_def
  by (intro yields_intros) (auto simp: find_Some_iff intro!: service_identity_hosted)

lemma created_hosted:
  "yields (hosted_for provider (ireq_ServiceDID request)) (Provider_GetOrCreateIdentity provider c request)"
  unfolding Provider_GetOrCreateIdentity_def
  apply (rule yields_then [OF found_hosted])
  subgoal for r by (cases r) (auto intro!: yields_intros intro: service_identity_hosted)
  done

section \<open>Signatures\<close>

text \<open>
  The rounds of a signature that the Platform left pending: each drew a fresh idempotency key, got an
  answer that is not completed, and had the context of the next round resolved.
\<close>

inductive pending_rounds ::
  "'w PlatformIdentityProvider \<Rightarrow> ctx \<Rightarrow> ServiceIdentity \<Rightarrow> ClientAssertionClaims \<Rightarrow>
   raw_messages \<times> string \<times> 'w \<Rightarrow> raw_messages \<times> string \<times> 'w \<Rightarrow> bool"
  for provider c identity claims where
  none: "pending_rounds provider c identity claims s s"
| round: "\<lbrakk>Provider_newIdempotencyKey provider w = (Inr key, w1); key \<noteq> previous;
    Provider_sign provider c identity claims platformContext key w1 = (Inr result, w2); sgr_Status result \<noteq> SignCompleted;
    pending_sign identity result = Some pending; pip_pendingSignResolver provider = Some resolve;
    resolve c pending w2 = (Inr next_context, w3); pending_rounds provider c identity claims (next_context, key, w3) s\<rbrakk> \<Longrightarrow>
    pending_rounds provider c identity claims (platformContext, previous, w) s"

text \<open>
  The Platform's answer to a signature that starts in one world and returns in another: after the
  context is provided and the pending rounds, the answer with status 200 to the Sign request for the
  claims, at the endpoint of the identity, under a fresh idempotency key, which is the last thing that
  happens.
\<close>

definition completed_by ::
  "'w PlatformIdentityProvider \<Rightarrow> ctx \<Rightarrow> ServiceIdentity \<Rightarrow> ClientAssertionClaims \<Rightarrow> 'w \<Rightarrow> SignResponse \<Rightarrow> 'w \<Rightarrow> bool" where
  "completed_by provider c identity claims w response w' \<longleftrightarrow>
     (\<exists>provided w1 platformContext previous w2 key w3 discovery w4 endpoint headers.
        (case pip_platformContext provider of None \<Rightarrow> provided = None \<and> w1 = w
         | Some provide \<Rightarrow> provide c identity claims w = (Inr provided, w1)) \<and>
        pending_rounds provider c identity claims (provided, [], w1) (platformContext, previous, w2) \<and>
        Provider_newIdempotencyKey provider w2 = (Inr key, w3) \<and> key \<noteq> previous \<and>
        Provider_discover provider c w3 = (Inr discovery, w4) \<and>
        Provider_endpoint provider (dep_Sign (ddc_Endpoints (pde_document discovery)))
          (metadata identity ''agent_identity_id'') = Inr endpoint \<and>
        Provider_command provider c ''POST'' endpoint key (Some (enc_sign_request (sign_request claims platformContext)))
          (decodePlatformJSON (dec_struct fields_sign_response) zero_sign_response) w4 = (Inr (200, headers, response), w') \<and>
        sgr_Status response = SignCompleted)"

lemma sign_completed:
  assumes "Provider_sign provider c identity claims platformContext key w = (Inr response, w')"
    and "sgr_Status response = SignCompleted"
  obtains discovery w1 endpoint headers where "Provider_discover provider c w = (Inr discovery, w1)"
    "Provider_endpoint provider (dep_Sign (ddc_Endpoints (pde_document discovery)))
       (metadata identity ''agent_identity_id'') = Inr endpoint"
    "Provider_command provider c ''POST'' endpoint key (Some (enc_sign_request (sign_request claims platformContext)))
       (decodePlatformJSON (dec_struct fields_sign_response) zero_sign_response) w1 = (Inr (200, headers, response), w')"
    "validCompletedSignResponse 200 response identity claims"
proof -
  obtain discovery w1 endpoint status headers answer where run: "Provider_discover provider c w = (Inr discovery, w1)"
    "Provider_endpoint provider (dep_Sign (ddc_Endpoints (pde_document discovery)))
       (metadata identity ''agent_identity_id'') = Inr endpoint"
    "Provider_command provider c ''POST'' endpoint key (Some (enc_sign_request (sign_request claims platformContext)))
       (decodePlatformJSON (dec_struct fields_sign_response) zero_sign_response) w1 = (Inr (status, headers, answer), w')"
    "answer = response" "validCompletedSignResponse status response identity claims"
    using assms by (auto simp: Provider_sign_def run_simps split: sum.splits if_splits prod.splits)
  have "status = 200" using run(5) by (auto simp: validCompletedSignResponse_def split: option.splits)
  then show thesis using that run by blast
qed

text \<open>A token the rounds return is the assertion of the completed answer that ends them.\<close>

lemma rounds_complete:
  assumes "sign_rounds fuel provider c identity claims platformContext previous w = (Inr token, w')"
  shows "\<exists>context' previous' w1 key w2 response.
    pending_rounds provider c identity claims (platformContext, previous, w) (context', previous', w1) \<and>
    Provider_newIdempotencyKey provider w1 = (Inr key, w2) \<and> key \<noteq> previous' \<and>
    Provider_sign provider c identity claims context' key w2 = (Inr response, w') \<and>
    sgr_Status response = SignCompleted \<and> token = sgr_ClientAssertion response"
  using assms
proof (induction fuel arbitrary: platformContext previous w)
  case (Suc fuel)
  obtain key w1 result w2 where key: "Provider_newIdempotencyKey provider w = (Inr key, w1)" "key \<noteq> previous"
    and sign: "Provider_sign provider c identity claims platformContext key w1 = (Inr result, w2)"
    using Suc.prems by (auto simp: run_simps split: if_splits)
  show ?case
  proof (cases "sgr_Status result = SignCompleted")
    case True
    then have "token = sgr_ClientAssertion result" "w2 = w'" using Suc.prems key sign by (auto simp: run_simps)
    then show ?thesis using key sign True pending_rounds.none by blast
  next
    case False
    obtain pending resolve next_context w3 where p: "pending_sign identity result = Some pending"
      "pip_pendingSignResolver provider = Some resolve" "resolve c pending w2 = (Inr next_context, w3)"
      "sign_rounds fuel provider c identity claims next_context key w3 = (Inr token, w')"
      using Suc.prems key sign False by (auto simp: run_simps split: option.splits)
    show ?thesis using Suc.IH [OF p(4)] pending_rounds.round [OF key sign False p(1-3)] by blast
  qed
qed simp

lemma signer_completes:
  assumes "platform_signer fuel provider identity c claims algorithms w = (Inr token, w')"
  obtains response where "cac_Issuer claims = sid_AgentDID identity" "cac_Subject claims = sid_AgentDID identity"
    "cac_Audience claims = sid_ServiceDID identity" "completed_by provider c identity claims w response w'"
    "validCompletedSignResponse 200 response identity claims" "token = sgr_ClientAssertion response"
proof -
  have who: "cac_Issuer claims = sid_AgentDID identity" "cac_Subject claims = sid_AgentDID identity"
    "cac_Audience claims = sid_ServiceDID identity"
    using assms by (auto simp: platform_signer_def split: if_splits)
  obtain provided w1 where provided: "case pip_platformContext provider of None \<Rightarrow> provided = None \<and> w1 = w
      | Some provide \<Rightarrow> provide c identity claims w = (Inr provided, w1)"
    and rounds: "sign_rounds fuel provider c identity claims provided [] w1 = (Inr token, w')"
    using assms by (auto simp: platform_signer_def run_simps split: if_splits option.splits)
  obtain context' previous w2 key w3 response where r:
    "pending_rounds provider c identity claims (provided, [], w1) (context', previous, w2)"
    "Provider_newIdempotencyKey provider w2 = (Inr key, w3)" "key \<noteq> previous"
    "Provider_sign provider c identity claims context' key w3 = (Inr response, w')"
    "sgr_Status response = SignCompleted" "token = sgr_ClientAssertion response"
    using rounds_complete [OF rounds] by blast
  obtain discovery w4 endpoint headers where s: "Provider_discover provider c w3 = (Inr discovery, w4)"
    "Provider_endpoint provider (dep_Sign (ddc_Endpoints (pde_document discovery)))
       (metadata identity ''agent_identity_id'') = Inr endpoint"
    "Provider_command provider c ''POST'' endpoint key (Some (enc_sign_request (sign_request claims context')))
       (decodePlatformJSON (dec_struct fields_sign_response) zero_sign_response) w4 = (Inr (200, headers, response), w')"
    and valid: "validCompletedSignResponse 200 response identity claims"
    by (rule sign_completed [OF r(4,5)])
  have "completed_by provider c identity claims w response w'"
    unfolding completed_by_def using provided r(1-3,5) s by blast
  then show thesis using that who valid r(6) by blast
qed

text \<open>
  C37. An Agent that has its identity from a Platform signs only as that identity. What the provider finds or
  makes for a Service is an active identity of its Platform for that Service, it has a signer for it at once,
  and that signer returns a token only for claims that name the identity as issuer and subject and the Service
  as audience; the token is the assertion in the answer that ends its run, the Platform's completed answer to
  the Sign request for these claims at the endpoint of this identity, and that answer names the identity, the
  Service and the claims' token identifier, with times exactly the requested lifetime apart.
\<close>

theorem hosted_identity_signs_as_itself:
  assumes "Provider_GetOrCreateIdentity provider c request w = (Inr identity, w')"
  shows "sid_ServiceDID identity = ireq_ServiceDID request \<and>
    validateServiceIdentityRecord identity (ireq_ServiceDID request) = None \<and>
    metadata identity ''status'' = ManagedAgentActive \<and>
    metadata identity ''platform_url'' = url_String (pip_platformURL provider) \<and>
    (\<exists>sign. (\<forall>d v. Provider_SignerFor fuel provider d identity v = (Inr (Some sign), v)) \<and>
      (\<forall>d claims algorithms v token v'. sign d claims algorithms v = (Inr token, v') \<longrightarrow>
         cac_Issuer claims = sid_AgentDID identity \<and> cac_Subject claims = sid_AgentDID identity \<and>
         cac_Audience claims = ireq_ServiceDID request \<and>
         (\<exists>response issuedAt expiresAt. completed_by provider d identity claims v response v' \<and>
            token = sgr_ClientAssertion response \<and> token \<noteq> [] \<and>
            sgr_AgentDID response = sid_AgentDID identity \<and> sgr_ServiceDID response = ireq_ServiceDID request \<and>
            sgr_JWTID response = cac_JWTID claims \<and>
            parse_rfc3339 (sgr_IssuedAt response) = Some issuedAt \<and>
            parse_rfc3339 (sgr_ExpiresAt response) = Some expiresAt \<and>
            time_Sub expiresAt issuedAt = i64 (i64 (cac_ExpiresAt claims - cac_IssuedAt claims) * Second))))"
proof -
  have h: "hosted_for provider (ireq_ServiceDID request) identity" by (rule yieldsD [OF created_hosted assms])
  then have s: "sid_ServiceDID identity = ireq_ServiceDID request"
    and v: "Provider_validatePlatformIdentity provider identity = None" by (simp_all add: hosted_for_def)
  have signer: "Provider_SignerFor fuel provider d identity u = (Inr (Some (platform_signer fuel provider identity)), u)" for d u
    by (simp add: Provider_SignerFor_def v ok_def)
  have signs: "cac_Issuer claims = sid_AgentDID identity \<and> cac_Subject claims = sid_AgentDID identity \<and>
      cac_Audience claims = ireq_ServiceDID request \<and>
      (\<exists>response issuedAt expiresAt. completed_by provider d identity claims u response u' \<and>
         token = sgr_ClientAssertion response \<and> token \<noteq> [] \<and>
         sgr_AgentDID response = sid_AgentDID identity \<and> sgr_ServiceDID response = ireq_ServiceDID request \<and>
         sgr_JWTID response = cac_JWTID claims \<and>
         parse_rfc3339 (sgr_IssuedAt response) = Some issuedAt \<and>
         parse_rfc3339 (sgr_ExpiresAt response) = Some expiresAt \<and>
         time_Sub expiresAt issuedAt = i64 (i64 (cac_ExpiresAt claims - cac_IssuedAt claims) * Second))"
    if "platform_signer fuel provider identity d claims algorithms u = (Inr token, u')" for d claims algorithms u token u'
    using that by (rule signer_completes) (use s in \<open>auto simp: validCompletedSignResponse_def split: option.splits\<close>)
  have "validateServiceIdentityRecord identity (ireq_ServiceDID request) = None" "metadata identity ''status'' = ManagedAgentActive"
    "metadata identity ''platform_url'' = url_String (pip_platformURL provider)"
    using v s by (auto simp: Provider_validatePlatformIdentity_def split: if_splits)
  then show ?thesis using s signer signs by blast
qed

section \<open>A Sign request, from the Agent to the Platform and back\<close>

lemma asked_lifetime:
  assumes "New world options = Inr client"
    and "claims = assertion_claims client inspection identity operation resource now jti"
  shows "i64 (cac_ExpiresAt claims - cac_IssuedAt claims) = cl_assertionLifetime client div Second"
    "1 \<le> cl_assertionLifetime client div Second" "cl_assertionLifetime client div Second \<le> 300"
    "cl_assertionLifetime client = cl_assertionLifetime client div Second * Second"
proof -
  note life = new_client_lifetime [OF assms(1)]
  show b: "1 \<le> cl_assertionLifetime client div Second" "cl_assertionLifetime client div Second \<le> 300"
    using life(1,2) zdiv_mono1 [of "cl_assertionLifetime client" "300 * Second" Second] zdiv_mono1 [of Second _ Second]
    by auto
  show "cl_assertionLifetime client = cl_assertionLifetime client div Second * Second"
    using life(1,3) go_rem_zero [of "cl_assertionLifetime client" Second] by simp
  show "i64 (cac_ExpiresAt claims - cac_IssuedAt claims) = cl_assertionLifetime client div Second"
    using b life(1) by (simp add: assms(2) assertion_claims_def go_div_nonneg i64_limits i64_id in_i64_def)
qed

lemma asked_valid:
  assumes "New world options = Inr client"
    and "claims = assertion_claims client inspection identity operation resource now jti"
    and "ValidateClientAssertionClaimsWithOptions claims (cl_allowInsecureLoopback client) = None"
    and "isDID (cac_Audience claims)" and "operation = AssertionAuthenticate \<Longrightarrow> isAbsoluteHTTPSURL (cac_Resource claims)"
    and "cl_assertionLifetime client \<le> plt_maximumLifetime platform"
  shows "Platform_validateSignRequest platform (sign_request claims context) = Inr (cl_assertionLifetime client)"
proof -
  note n = asked_lifetime [OF assms(1,2)]
  have op: "cac_Operation claims = operation" by (simp add: assms(2) assertion_claims_def)
  have v: "cac_JWTID claims \<noteq> []" "isAssertionOperation operation"
    "operation \<noteq> AssertionAuthenticate \<Longrightarrow> cac_Resource claims = []"
    using assms(3) unfolding ValidateClientAssertionClaimsWithOptions_def validationResult_None append_is_Nil_conv
    by (auto simp: requireNonEmpty_Nil isAssertionOperation_def assertion_operations_def op split: if_splits)
  have "canonicalPositiveInteger (enc_int (cl_assertionLifetime client div Second)) = Some (cl_assertionLifetime client div Second)"
    using n by (simp add: canonical_iff i64_limits)
  moreover have "enc_int (cl_assertionLifetime client div Second) \<noteq> []"
    using calculation by (auto simp: canonicalPositiveInteger_def)
  moreover have "\<not> go_div (plt_maximumLifetime platform) Second < cl_assertionLifetime client div Second"
    using n assms(6) zdiv_mono1 [OF assms(6), of Second] by (simp add: go_div_nonneg)
  moreover have "\<not> go_div MaxAssertionLifetime Second < cl_assertionLifetime client div Second"
    using n by (simp add: go_div_nonneg)
  ultimately show ?thesis
    using assms(4,5) v n(4)
    by (cases "operation = AssertionAuthenticate") (simp_all add: Platform_validateSignRequest_def sign_request_def n(1) op)
qed

lemma time_Sub_lifetime:
  assumes "in_i64 lifetime" and "lifetime = n * Second"
  shows "time_Sub (time_Unix (now + lifetime) * Second) (time_Unix now * Second) = lifetime"
  using assms Unix_shift [of now n] by (simp add: time_Sub_def in_i64_def algebra_simps)

text \<open>The instants at which the Platform may sign for a request.\<close>

definition signing_times :: "('w, 'key) Platform \<Rightarrow> RequestContext \<Rightarrow> time set" where
  "signing_times platform context =
     (if time_IsZero (rqc_Now context) then range (\<lambda>w. fst (plt_clock platform w)) else {rqc_Now context})"

text \<open>
  C36. What an Agent asks a Platform to sign, the Platform signs, and the Agent takes the answer. For the claims
  of a client that \<open>New\<close> made, when the Service has a well-formed DID and the lifetime of the client is within
  the maximum of the Platform, the request of the provider passes the checks of \<open>Sign\<close> with exactly that
  lifetime; the Platform asks its key store to sign those claims, moved to its own clock; and if the key store
  returns a token, on a clock of the years 1970 to 9999, the answer is one that the provider accepts for these
  claims.
\<close>

theorem platform_serves_agent:
  assumes "New world options = Inr client"
    and "claims = assertion_claims client inspection identity operation resource now jti"
    and "ValidateClientAssertionClaimsWithOptions claims (cl_allowInsecureLoopback client) = None"
    and "isDID (cac_Audience claims)" and "operation = AssertionAuthenticate \<Longrightarrow> isAbsoluteHTTPSURL (cac_Resource claims)"
    and "cl_assertionLifetime client \<le> plt_maximumLifetime platform"
    and "idr_AgentDID r = sid_AgentDID identity" and "sid_ServiceDID identity = insn_ServiceDID inspection"
    and "\<forall>t \<in> signing_times platform context. 0 \<le> time_Unix t \<and> time_Unix t + 300 \<le> 253402300799"
  shows "Platform_validateSignRequest platform (sign_request claims platformContext) = Inr (cl_assertionLifetime client) \<and>
    (\<forall>w answer w'. signAssertion platform r (sign_request claims platformContext) (cl_assertionLifetime client) context w =
         (Inr answer, w') \<longrightarrow>
       (\<exists>t \<in> signing_times platform context. \<exists>v.
          ks_Sign (plt_keyStore platform) r
            (claims\<lparr>cac_IssuedAt := time_Unix t, cac_ExpiresAt := time_Unix t + (cac_ExpiresAt claims - cac_IssuedAt claims)\<rparr>) v =
            (Inr (sgr_ClientAssertion (plr_Body answer)), w')) \<and>
       (sgr_ClientAssertion (plr_Body answer) \<noteq> [] \<longrightarrow>
          validCompletedSignResponse (plr_Status answer) (plr_Body answer) identity claims))"
proof -
  let ?l = "cl_assertionLifetime client" and ?q = "sign_request claims platformContext"
  note n = asked_lifetime [OF assms(1,2)]
  have valid: "Platform_validateSignRequest platform ?q = Inr ?l"
    by (rule asked_valid [OF assms(1-6)])
  have c: "cac_ExpiresAt claims - cac_IssuedAt claims = ?l div Second" "cac_Additional claims = []"
    "cac_Issuer claims = idr_AgentDID r" "cac_Subject claims = idr_AgentDID r" "cac_Audience claims = sid_ServiceDID identity"
    using n assms(7,8) new_client_lifetime(1) [OF assms(1)] by (simp_all add: assms(2) assertion_claims_def go_div_nonneg)
  have moved: "assertionClaims r ?q ?l t =
      claims\<lparr>cac_IssuedAt := time_Unix t, cac_ExpiresAt := time_Unix t + (cac_ExpiresAt claims - cac_IssuedAt claims)\<rparr>" for t
    using c Unix_shift [of t "?l div Second"] n(4) by (cases claims) (simp add: assertionClaims_def sign_request_def)
  have "(\<exists>t \<in> signing_times platform context. \<exists>v.
        ks_Sign (plt_keyStore platform) r (assertionClaims r ?q ?l t) v = (Inr (sgr_ClientAssertion (plr_Body answer)), w')) \<and>
      (sgr_ClientAssertion (plr_Body answer) \<noteq> [] \<longrightarrow>
        validCompletedSignResponse (plr_Status answer) (plr_Body answer) identity claims)"
    if run: "signAssertion platform r ?q ?l context w = (Inr answer, w')" for w answer w'
  proof -
    obtain t v token where t: "t \<in> signing_times platform context"
      and k: "ks_Sign (plt_keyStore platform) r (assertionClaims r ?q ?l t) v = (Inr token, w')"
      and a: "plr_Status answer = 200" "sgr_ClientAssertion (plr_Body answer) = token" "sgr_Status (plr_Body answer) = SignCompleted"
        "sgr_AgentDID (plr_Body answer) = idr_AgentDID r" "sgr_ServiceDID (plr_Body answer) = cac_Audience claims"
        "sgr_JWTID (plr_Body answer) = cac_JWTID claims" "sgr_IssuedAt (plr_Body answer) = format_rfc3339 t"
        "sgr_ExpiresAt (plr_Body answer) = format_rfc3339 (t + ?l)"
      using run
      by (auto simp: signAssertion_def run_simps signing_times_def successResult_def sign_request_def split: if_splits) (metis fst_conv rangeI)
    have s: "time_Unix (t + ?l) = time_Unix t + ?l div Second" using Unix_shift [of t "?l div Second"] n(4) by simp
    have b: "0 \<le> time_Unix t" "time_Unix t + 300 \<le> 253402300799" using assms(9) t by blast+
    have p: "parse_rfc3339 (format_rfc3339 t) = Some (time_Unix t * Second)"
      "parse_rfc3339 (format_rfc3339 (t + ?l)) = Some (time_Unix (t + ?l) * Second)"
      using b n(2,3) s by (intro rfc3339_parsed; linarith)+
    have i: "in_i64 ?l" "i64 (i64 (cac_ExpiresAt claims - cac_IssuedAt claims) * Second) = ?l"
      using n new_client_lifetime(1,2) [OF assms(1)] by (simp_all add: in_i64_def i64_limits)
    have "token \<noteq> [] \<longrightarrow> validCompletedSignResponse (plr_Status answer) (plr_Body answer) identity claims"
      using assms(7) c(5) i(2) time_Sub_lifetime [OF i(1) n(4), of t] by (simp add: validCompletedSignResponse_def a p)
    then show ?thesis using t k unfolding a(2) by blast
  qed
  then show ?thesis using valid unfolding moved by blast
qed

section \<open>A provisioned identity, at the Agent\<close>

lemma minted_web:
  "CreateServiceScopedAgentDID host pathPrefix agentDIDID = Inr did \<Longrightarrow> has_prefix did ''did:web:''"
  unfolding CreateServiceScopedAgentDID_def result_simps by (auto simp: has_prefix_append)

text \<open>
  The Agent takes the identities that a Platform provisions: of all its checks, the identifiers, the status,
  the algorithms, the two times and the DID, none can fail for an identity that \<open>createIdentity\<close> has made, but the
  last one, that the DID resolves to the document URL which the template of the Platform renders.
\<close>

theorem provisioned_identity_accepted:
  assumes "Platform_createIdentity platform owner serviceDID w = (Inr r, w')"
    and "list_all platform_algorithm (elems (plt_signingAlgorithms platform))" and "isDID serviceDID"
    and "\<forall>v. 0 \<le> time_Unix (fst (plt_clock platform v)) \<and> time_Unix (fst (plt_clock platform v)) \<le> 253402300799"
  shows "validatePlatformAgentIdentity (agentIdentityFromRecord r) False = None \<longleftrightarrow>
    (\<exists>u e. url_Parse (idr_DIDDocumentURL r) = Some u \<and> url_Scheme u = ''https'' \<and> url_Host u \<noteq> [] \<and>
      DIDWebDocumentURL (idr_AgentDID r) = Inr e \<and> url_String e = url_String u)"
proof -
  obtain v where r: "idr_AgentIdentityID r \<noteq> []" "has_prefix (idr_AgentDID r) ''did:web:''" "idr_KeyID r = idr_AgentDID r"
    "idr_ServiceDID r = serviceDID" "idr_SigningAlgorithms r = plt_signingAlgorithms platform"
    "idr_Status r = ManagedAgentActive" "idr_CreatedAt r = fst (plt_clock platform v)" "idr_UpdatedAt r = fst (plt_clock platform v)"
    "elems (plt_signingAlgorithms platform) \<noteq> []"
    using assms(1) minted_web
    by (auto simp: Platform_createIdentity_def run_simps Let_def call_eq validateIdentityRecord_def split: if_splits) (metis fst_conv)+
  have "parse_rfc3339 (format_rfc3339 (fst (plt_clock platform v))) \<noteq> None"
  proof -
    have "0 \<le> time_Unix (fst (plt_clock platform v))" "time_Unix (fst (plt_clock platform v)) \<le> 253402300799"
      using assms(4) by blast+
    then show ?thesis using rfc3339_parsed [of "fst (plt_clock platform v)"] by simp
  qed
  moreover have "has_prefix serviceDID ''did:''" using assms(3) by (simp add: isDID_def split: if_splits)
  ultimately show ?thesis
    using r assms(2)
    by (auto simp: validatePlatformAgentIdentity_def agentIdentityFromRecord_def managedAgentStatus_def document_url_ok_def
        split: option.splits sum.splits)
qed

section \<open>An example\<close>

text \<open>A Platform that hosts one identity, and a world that is the provider's discovery cache.\<close>

definition hosting_example :: "platformDiscoveryEntry option HTTPClient" where
  "hosting_example c request =
     ok \<lparr>in_StatusCode = 200, in_Header = Some [(''Content-Type'', [MediaType])],
         in_Body = quote_tildes
             ''{~count~:~1~,~data~:[{~agent_did~:~did:web:p.example:agents:7f~,~agent_identity_id~:~pai_1~,~created_at~:~2026-01-01T00:00:00Z~,~did_document_url~:~https://p.example/agents/7f/did.json~,~key_id~:~did:web:p.example:agents:7f~,~service_did~:~did:web:s.example~,~signing_algorithms~:[~EdDSA~],~status~:~active~,~updated_at~:~2026-01-01T00:00:00Z~}],~total~:~1~}'',
         in_Failure = None\<rparr>"

definition discovered_example :: platformDiscoveryEntry where
  "discovered_example = \<lparr>pde_cacheControl = [], pde_cachedAt = 0,
     pde_document = zero_discovery_document\<lparr>ddc_Endpoints := \<lparr>dep_HostedVerification = [], dep_Lifecycle = ''/a/{agent_identity_id}'',
       dep_List = ''/a'', dep_Provision = ''/a'', dep_Sign = ''/a/{agent_identity_id}/sign''\<rparr>\<rparr>,
     pde_etag = [], pde_finalURL = empty_url, pde_lastModified = []\<rparr>"

definition hosting_provider :: "platformDiscoveryEntry option PlatformIdentityProvider" where
  "hosting_provider = \<lparr>pip_allowInsecureLoopback = False, pip_authenticationHeaders = None, pip_authorization = [],
     pip_clock = (\<lambda>w. (0, w)), pip_discovery = whole, pip_httpClient = hosting_example, pip_idempotencyKey = ok ''key-1'',
     pip_maximumResponseBytes = 2000, pip_pendingSignResolver = None, pip_platformContext = None,
     pip_platformURL = empty_url\<lparr>url_Scheme := ''https'', url_Host := ''p.example''\<rparr>, pip_requestTimeout = Second,
     pip_runtime = \<lparr>rt_Now = (\<lambda>_. 0), rt_Cancelled = (\<lambda>_. False), rt_Sleep = (\<lambda>_ _ w. (True, w))\<rparr>\<rparr>"

definition hosting_request :: IdentityRequest where
  "hosting_request = \<lparr>ireq_Inspect = zero_inspect, ireq_ServiceDID = ''did:web:s.example'', ireq_ServiceURL = empty_url\<rparr>"

lemma hosted_found:
  "case Provider_GetOrCreateIdentity hosting_provider None hosting_request (Some discovered_example) of (Inr i, _) \<Rightarrow> True | _ \<Rightarrow> False"
  by code_simp

theorem hosted_identity_signs_as_itself_witness:
  "\<exists>identity w' sign. Provider_GetOrCreateIdentity hosting_provider None hosting_request (Some discovered_example) = (Inr identity, w') \<and>
     sid_ServiceDID identity = ''did:web:s.example'' \<and>
     Provider_SignerFor 9 hosting_provider None identity w' = (Inr (Some sign), w')"
proof -
  obtain identity w' where run: "Provider_GetOrCreateIdentity hosting_provider None hosting_request (Some discovered_example) = (Inr identity, w')"
    using hosted_found by (auto split: prod.splits sum.splits)
  obtain sign where "sid_ServiceDID identity = ireq_ServiceDID hosting_request"
    "\<forall>d v. Provider_SignerFor 9 hosting_provider d identity v = (Inr (Some sign), v)"
    using hosted_identity_signs_as_itself [OF run, of 9] by (elim conjE exE)
  then show ?thesis using run by (auto simp: hosting_request_def)
qed

theorem platform_serves_agent_witness:
  "\<exists>client claims answer w'. New allocation_example agent_options_example = Inr client \<and>
     claims = assertion_claims client inspection_example (agent_example\<lparr>sid_AgentDID := idr_AgentDID identity_example\<rparr>)
       AssertionStatus None (1000 * Second) ''j1'' \<and>
     Platform_validateSignRequest platform_example (sign_request claims None) = Inr (60 * Second) \<and>
     signAssertion platform_example identity_example (sign_request claims None) (60 * Second) request_context_example () =
       (Inr answer, w') \<and>
     validCompletedSignResponse (plr_Status answer) (plr_Body answer)
       (agent_example\<lparr>sid_AgentDID := idr_AgentDID identity_example\<rparr>) claims"
proof -
  let ?agent = "agent_example\<lparr>sid_AgentDID := idr_AgentDID identity_example\<rparr>"
  obtain client where client: "New allocation_example agent_options_example = Inr client"
    and c: "\<not> cl_allowInsecureLoopback client" "cl_assertionLifetime client = 60 * Second"
    using example_client by (auto split: sum.splits)
  define claims where "claims = assertion_claims client inspection_example ?agent AssertionStatus None (1000 * Second) ''j1''"
  have cl: "claims = \<lparr>cac_Audience = ''did:web:s.example'', cac_ExpiresAt = 1060, cac_IssuedAt = 1000,
      cac_Issuer = ''did:web:p.example:agents:7f'', cac_JWTID = ''j1'', cac_Operation = AssertionStatus, cac_Resource = [],
      cac_Subject = ''did:web:p.example:agents:7f'', cac_Additional = []\<rparr>"
    by (simp add: claims_def assertion_claims_def c(2) inspection_example_def document_example_def identity_example_def
        go_div_nonneg time_Unix_def)
  have v: "ValidateClientAssertionClaimsWithOptions claims (cl_allowInsecureLoopback client) = None"
    unfolding cl using c(1) by simp code_simp
  have d: "isDID (cac_Audience claims)" unfolding cl by simp code_simp
  have m: "cl_assertionLifetime client \<le> plt_maximumLifetime platform_example"
    using c(2) by (simp add: platform_example_def)
  have s: "idr_AgentDID identity_example = sid_AgentDID ?agent" "sid_ServiceDID ?agent = insn_ServiceDID inspection_example"
    by (simp_all add: agent_example_def inspection_example_def document_example_def)
  have t: "\<forall>t \<in> signing_times platform_example request_context_example. 0 \<le> time_Unix t \<and> time_Unix t + 300 \<le> 253402300799"
    by (simp add: signing_times_def platform_example_def request_context_example_def time_Unix_def time_IsZero_def zero_time_def)
  obtain answer w' where run: "signAssertion platform_example identity_example (sign_request claims None) (60 * Second)
      request_context_example () = (Inr answer, w')" and token: "sgr_ClientAssertion (plr_Body answer) \<noteq> []"
    by (simp add: signAssertion_def platform_example_def request_context_example_def key_store_example_def run_simps
        successResult_def and_then_def ok_def time_IsZero_def zero_time_def)
  have "AssertionStatus = AssertionAuthenticate \<Longrightarrow> isAbsoluteHTTPSURL (cac_Resource claims)" by simp
  from platform_serves_agent [OF client claims_def v d this m s t, of None] run token
  show ?thesis using client c(2) claims_def by auto
qed

theorem provisioned_identity_accepted_witness:
  "\<exists>r w'. Platform_createIdentity platform_example ''alice'' ''did:web:s.example'' () = (Inr r, w') \<and>
     validatePlatformAgentIdentity (agentIdentityFromRecord r) False = None"
proof -
  let ?r = "identity_example\<lparr>idr_CreatedAt := 1000 * Second, idr_UpdatedAt := 1000 * Second\<rparr>"
  have run: "Platform_createIdentity platform_example ''alice'' ''did:web:s.example'' () = (Inr ?r, ())" by code_simp
  have "list_all platform_algorithm (elems (plt_signingAlgorithms platform_example))" "isDID ''did:web:s.example''" by code_simp+
  moreover have "\<forall>v. 0 \<le> time_Unix (fst (plt_clock platform_example v)) \<and> time_Unix (fst (plt_clock platform_example v)) \<le> 253402300799"
    by (simp add: platform_example_def time_Unix_def)
  ultimately have iff: "validatePlatformAgentIdentity (agentIdentityFromRecord ?r) False = None \<longleftrightarrow>
      (\<exists>u e. url_Parse (idr_DIDDocumentURL ?r) = Some u \<and> url_Scheme u = ''https'' \<and> url_Host u \<noteq> [] \<and>
        DIDWebDocumentURL (idr_AgentDID ?r) = Inr e \<and> url_String e = url_String u)"
    by (rule provisioned_identity_accepted [OF run])
  have "case (url_Parse ''https://p.example/agents/7f/did.json'', DIDWebDocumentURL ''did:web:p.example:agents:7f'') of
      (Some u, Inr e) \<Rightarrow> url_Scheme u = ''https'' \<and> url_Host u \<noteq> [] \<and> url_String e = url_String u | _ \<Rightarrow> False"
    by code_simp
  then have "validatePlatformAgentIdentity (agentIdentityFromRecord ?r) False = None"
    unfolding iff by (simp add: identity_example_def split: option.splits sum.splits)
  then show ?thesis using run by blast
qed

end
