(* ===== verification/Jwt_Signatures.thy ===== *)
theory Jwt_Signatures
  imports Json_Texts Jwt
begin

text \<open>
  Client assertions between their signer and their verifier: the claims survive their JSON text, so what
  \<open>SignClientAssertion\<close> signs is what \<open>VerifyClientAssertion\<close> reads, and the verifier accepts it exactly when it is what
  it expects.
\<close>

section \<open>The text of the claims\<close>

text \<open>Claims whose text says all of them: valid UTF-8, 64-bit times, and no additional members.\<close>

definition plain_claims :: "ClientAssertionClaims \<Rightarrow> bool" where
  "plain_claims c \<longleftrightarrow> list_all (valid_text 0)
       [cac_Audience c, cac_Issuer c, cac_JWTID c, cac_Operation c, cac_Resource c, cac_Subject c] \<and>
     in_i64 (cac_ExpiresAt c) \<and> in_i64 (cac_IssuedAt c) \<and> cac_Additional c = []"

definition claim_members :: "ClientAssertionClaims \<Rightarrow> (string \<times> string) list" where
  "claim_members c =
     [(''aud'', enc_string (cac_Audience c)), (''exp'', enc_int (cac_ExpiresAt c)), (''iat'', enc_int (cac_IssuedAt c)),
      (''iss'', enc_string (cac_Issuer c)), (''jti'', enc_string (cac_JWTID c)), (''op'', enc_string (cac_Operation c))] @
     omit_empty ''resource'' (cac_Resource c) @ [(''sub'', enc_string (cac_Subject c))]"

lemma dec_raw_entries:
  assumes "members_encode 1 ms vs"
  shows "\<exists>es. dec_entries dec_raw [] ms m = Some es \<and> fst ` set es = fst ` set m \<union> fst ` set ms"
  using assms
proof (induction ms arbitrary: vs m)
  case (Cons e ms)
  obtain k t where e: "e = (k, t)" by (cases e)
  then obtain v ws where v: "encodes 1 t v" and ws: "members_encode 1 ms ws"
    using Cons.prems by (cases vs) (auto simp: members_encode_def)
  have "dec_raw t [] = Some t" using json_parse_encodes [OF v] nesting by (simp add: dec_raw_def)
  then show ?case using Cons.IH [OF ws, of "AList.update k t m"] e by (auto simp: dom_update)
qed simp

text \<open>An object that holds only members of the struct leaves nothing over.\<close>

lemma unmarshal_known:
  assumes ms: "members_encode 1 ms vs" and ne: "ms \<noteq> []" and known: "fst ` set ms \<subseteq> set (jsonFieldNames fs)"
    and dec: "dec_members fs ms zero = Some v"
  shows "unmarshalAdditional fs zero put (enc_object ms) old = Some (put [] v)"
proof -
  obtain es where es: "dec_entries dec_raw [] ms [] = Some es" "fst ` set es = fst ` set ms"
    using dec_raw_entries [OF ms, of "[]"] by auto
  have object: "dec_object (enc_object ms) = Some (Some es)"
    using json_parse_encodes [OF encodes_object [OF ms ne]] raw_members_object [OF ms ne] es(1) nesting
    by (simp add: dec_map_def)
  have "filter (\<lambda>(name, _). name \<notin> set (jsonFieldNames fs)) es = []"
  proof (intro filter_False ballI)
    fix e
    assume "e \<in> set es"
    then have "fst e \<in> set (jsonFieldNames fs)" using es(2) known by blast
    then show "\<not> (case e of (name, _) \<Rightarrow> name \<notin> set (jsonFieldNames fs))" by (cases e) simp
  qed
  then show ?thesis
    using object dec dec_struct_object [OF ms ne, of fs zero] by (simp add: unmarshalAdditional_def decodeAdditional_def)
qed

lemma claims_round_trip:
  assumes "plain_claims c"
  shows "\<exists>body. ClientAssertionClaims_MarshalJSON c = Some body \<and>
    ClientAssertionClaims_UnmarshalJSON body zero_assertion_claims = Some c"
proof -
  have names: "list_all (valid_text 0) [''aud'', ''exp'', ''iat'', ''iss'', ''jti'', ''op'', ''resource'', ''sub'']"
    by code_simp
  have ms: "\<exists>vs. members_encode 1 (claim_members c) vs"
  proof (cases "cac_Resource c = []")
    case True
    show ?thesis unfolding claim_members_def omit_empty_def if_P [OF True] append_Cons append_Nil
      by (intro members_encode_rules) (use names assms in \<open>simp_all add: plain_claims_def\<close>)
  next
    case False
    show ?thesis unfolding claim_members_def omit_empty_def if_not_P [OF False] append_Cons append_Nil
      by (intro members_encode_rules) (use names assms in \<open>simp_all add: plain_claims_def\<close>)
  qed
  then obtain vs where vs: "members_encode 1 (claim_members c) vs" ..
  have "ClientAssertionClaims_MarshalJSON c = Some (enc_object (claim_members c))"
    using assms by (simp add: ClientAssertionClaims_MarshalJSON_def encodeAdditional_def claim_members_def plain_claims_def)
  moreover have "dec_members fields_assertion_claims (claim_members c) zero_assertion_claims = Some c"
    using assms
    by (cases "cac_Resource c = []")
      (simp_all add: claim_members_def omit_empty_def plain_claims_def fields_assertion_claims_def field_lookup zero_assertion_claims_def)
  then have "ClientAssertionClaims_UnmarshalJSON (enc_object (claim_members c)) zero_assertion_claims = Some (c\<lparr>cac_Additional := []\<rparr>)"
    unfolding ClientAssertionClaims_UnmarshalJSON_def
    by (intro unmarshal_known [OF vs, THEN trans])
      (auto simp: claim_members_def omit_empty_def jsonFieldNames_def fields_assertion_claims_def)
  ultimately show ?thesis using assms by (simp add: plain_claims_def)
qed

section \<open>Signing and verifying\<close>

text \<open>
  What is relied on of go-jose: a token a signer serializes under an algorithm parses wherever that algorithm is
  allowed, with the one header the signer was given, and gives its payload back under the public key of the signer.
\<close>

definition signatures_verify :: "'key jose \<Rightarrow> ('key \<Rightarrow> 'key) \<Rightarrow> bool" where
  "signatures_verify jose public \<longleftrightarrow>
     (\<forall>algorithm key signer kid payload text. jose_NewSigner jose algorithm key = Some signer \<and> signer kid payload = Some text \<longrightarrow>
       (\<forall>allowed. algorithm \<in> set allowed \<longrightarrow>
         (\<exists>token. jose_ParseSigned jose text allowed = Some token \<and>
            tok_Headers token = [\<lparr>hdr_KeyID = kid, hdr_typ = Some (JStr ''JWT'')\<rparr>] \<and>
            tok_verify token (public key) = Some payload)))"

definition expects :: "('w, 'key) VerifyClientAssertionOptions \<Rightarrow> ClientAssertionClaims \<Rightarrow> bool" where
  "expects options c \<longleftrightarrow> vo_Audience options \<in> {[], cac_Audience c} \<and> vo_Issuer options \<in> {[], cac_Issuer c} \<and>
     vo_Subject options \<in> {[], cac_Subject c} \<and> vo_Operation options \<in> {[], cac_Operation c} \<and>
     vo_Resource options \<in> {[], cac_Resource c}"

definition timely :: "('w, 'key) VerifyClientAssertionOptions \<Rightarrow> ClientAssertionClaims \<Rightarrow> bool" where
  "timely options c \<longleftrightarrow> 0 \<le> vo_ClockTolerance options \<and>
     cac_IssuedAt c \<le> time_Unix (vo_CurrentTime options) + vo_ClockTolerance options div Second \<and>
     time_Unix (vo_CurrentTime options) - vo_ClockTolerance options div Second < cac_ExpiresAt c"

definition algorithms_of :: "('w, 'key) VerifyClientAssertionOptions \<Rightarrow> SigningAlgorithm list" where
  "algorithms_of options =
     (if vo_Algorithms options = [] then [SigningAlgorithmEdDSA, SigningAlgorithmES256] else vo_Algorithms options)"

lemma allowed_registered:
  "set as \<subseteq> {SigningAlgorithmEdDSA, SigningAlgorithmES256} \<Longrightarrow> allowedAlgorithms as = Inr as"
  by (induction as) (auto simp: joseAlgorithm_def)

lemma signed_parts:
  assumes "SignClientAssertion jose claims options = Inr text"
  obtains key signer body where
    "ValidateClientAssertionClaimsWithOptions claims (sgo_AllowInsecureLoopback options) = None"
    "sgo_Algorithm options \<in> {SigningAlgorithmEdDSA, SigningAlgorithmES256}"
    "sgo_Key options = Some key" "sgo_KeyID options \<noteq> []"
    "before CHR ''#'' (sgo_KeyID options) = cac_Issuer claims" "before CHR ''#'' (sgo_KeyID options) = cac_Subject claims"
    "jose_NewSigner jose (sgo_Algorithm options) key = Some signer"
    "ClientAssertionClaims_MarshalJSON claims = Some body" "signer (sgo_KeyID options) body = Some text"
  using assms
  by (auto simp: SignClientAssertion_def joseAlgorithm_def validateAssertionKeyID_def split: option.splits if_splits sum.splits)

lemma agreed_assertion:
  assumes signed: "SignClientAssertion jose claims signing = Inr text" and key: "sgo_Key signing = Some key"
    and jose: "signatures_verify jose public" and plain: "plain_claims claims"
    and verifier: "vo_Key options = Some (public key)" "vo_KeyResolver options = None"
      "vo_AllowInsecureLoopback options = sgo_AllowInsecureLoopback signing"
    and algorithms: "sgo_Algorithm signing \<in> set (algorithms_of options)"
      "set (algorithms_of options) \<subseteq> {SigningAlgorithmEdDSA, SigningAlgorithmES256}"
    and clock: "\<not> time_IsZero (vo_CurrentTime options)" "in_i64 (time_Unix (vo_CurrentTime options))"
      "in_i64 (vo_ClockTolerance options)"
  shows "VerifyClientAssertion jose time_Now text options w = (Inr claims, w) \<longleftrightarrow> expects options claims \<and> timely options claims"
proof -
  obtain signer body where s:
    "ValidateClientAssertionClaimsWithOptions claims (sgo_AllowInsecureLoopback signing) = None" "sgo_KeyID signing \<noteq> []"
    "before CHR ''#'' (sgo_KeyID signing) = cac_Issuer claims" "before CHR ''#'' (sgo_KeyID signing) = cac_Subject claims"
    "jose_NewSigner jose (sgo_Algorithm signing) key = Some signer"
    "ClientAssertionClaims_MarshalJSON claims = Some body" "signer (sgo_KeyID signing) body = Some text"
    using signed_parts [OF signed] key by (metis option.inject)
  obtain token where token: "jose_ParseSigned jose text (algorithms_of options) = Some token"
    "tok_Headers token = [\<lparr>hdr_KeyID = sgo_KeyID signing, hdr_typ = Some (JStr ''JWT'')\<rparr>]"
    "tok_verify token (public key) = Some body"
    using jose s(5,7) algorithms(1) unfolding signatures_verify_def by blast
  have body: "ClientAssertionClaims_UnmarshalJSON body zero_assertion_claims = Some claims"
    using claims_round_trip [OF plain] s(6) by auto
  have checks: "checkAssertionClaims options (sgo_KeyID signing) claims = None \<longleftrightarrow> expects options claims"
    using s(1-4) verifier(3) unfolding checkAssertionClaims_None expects_def by simp
  have window: "Inr claims = checkAssertionWindow options claims (vo_CurrentTime options) \<longleftrightarrow> timely options claims"
    unfolding timely_def eq_commute [of "Inr claims"]
    by (rule window_exact) (use clock plain valid_claims_positive [OF s(1)] in \<open>simp_all add: plain_claims_def\<close>)
  have run: "VerifyClientAssertion jose time_Now text options =
      verifyUnderKey time_Now options token \<lparr>hdr_KeyID = sgo_KeyID signing, hdr_typ = Some (JStr ''JWT'')\<rparr> (Some (public key))"
    using token s(2) verifier allowed_registered [OF algorithms(2)]
    by (simp add: VerifyClientAssertion_def algorithms_of_def [symmetric] assertionKey_def)
  show ?thesis
    unfolding run using token(3) body checks window clock(1)
    by (cases "checkAssertionClaims options (sgo_KeyID signing) claims") (simp_all add: verifyUnderKey_def)
qed

text \<open>
  C38. Signing and verifying agree. For a verifier with the public key of the signer that allows its algorithm, at a
  time that is set, the token of plain claims verifies, as exactly those claims and without an effect, if and only if
  every value the verifier expects is the one of the claims and its time is in their window, in exact arithmetic.
\<close>

theorem signed_assertion_verifies:
  assumes signed: "SignClientAssertion jose claims signing = Inr text" and key: "sgo_Key signing = Some key"
    and jose: "signatures_verify jose public" and plain: "plain_claims claims"
    and verifier: "vo_Key options = Some (public key)" "vo_KeyResolver options = None"
      "vo_AllowInsecureLoopback options = sgo_AllowInsecureLoopback signing"
    and algorithms: "sgo_Algorithm signing \<in> set (algorithms_of options)"
      "set (algorithms_of options) \<subseteq> {SigningAlgorithmEdDSA, SigningAlgorithmES256}"
    and clock: "\<not> time_IsZero (vo_CurrentTime options)" "in_i64 (time_Unix (vo_CurrentTime options))"
      "in_i64 (vo_ClockTolerance options)"
  shows "VerifyClientAssertion jose time_Now text options w = (Inr claims, w) \<longleftrightarrow> expects options claims \<and> timely options claims"
  using assms by (rule agreed_assertion)

text \<open>
  An instance of go-jose for the examples: a token is its algorithm, key, key identifier and payload, each after its
  length in unary, and it verifies under the key it was made with.
\<close>

definition piece :: "string \<Rightarrow> string" where
  "piece s = replicate (length s) CHR ''|'' @ CHR '':'' # s"

definition take_piece :: "string \<Rightarrow> string \<times> string" where
  "take_piece s = (let n = length (takeWhile (\<lambda>c. c = CHR ''|'') s) in (take n (drop (Suc n) s), drop (Suc (2 * n)) s))"

lemma take_piece [simp]: "take_piece (piece s @ rest) = (s, rest)"
proof -
  have "takeWhile (\<lambda>c. c = CHR ''|'') (piece s @ rest) = replicate (length s) CHR ''|''"
    by (simp add: piece_def takeWhile_append)
  then show ?thesis by (simp add: take_piece_def piece_def)
qed

definition paper_jose :: "string jose" where
  "paper_jose = \<lparr>
     jose_ParseSigned = (\<lambda>text allowed.
       case take_piece text of (algorithm, s1) \<Rightarrow>
       case take_piece s1 of (made, s2) \<Rightarrow>
       case take_piece s2 of (kid, payload) \<Rightarrow>
         if algorithm \<in> set allowed
         then Some \<lparr>tok_Headers = [\<lparr>hdr_KeyID = kid, hdr_typ = Some (JStr ''JWT'')\<rparr>],
           tok_verify = (\<lambda>key. if key = made then Some payload else None)\<rparr>
         else None),
     jose_NewSigner = (\<lambda>algorithm key. Some (\<lambda>kid payload. Some (piece algorithm @ piece key @ piece kid @ payload)))\<rparr>"

lemma paper_jose_verifies: "signatures_verify paper_jose (\<lambda>key. key)"
  unfolding signatures_verify_def by (auto simp: paper_jose_def)

definition signing_example :: "string SignClientAssertionOptions" where
  "signing_example = \<lparr>sgo_Algorithm = SigningAlgorithmEdDSA, sgo_AllowInsecureLoopback = False, sgo_Key = Some ''k'',
     sgo_KeyID = ''did:web:a.example#k1''\<rparr>"

definition signed_claims_example :: ClientAssertionClaims where
  "signed_claims_example = \<lparr>cac_Audience = ''did:web:s.example'', cac_ExpiresAt = 1300, cac_IssuedAt = 1000,
     cac_Issuer = ''did:web:a.example'', cac_JWTID = ''j1'', cac_Operation = ''status'', cac_Resource = [],
     cac_Subject = ''did:web:a.example'', cac_Additional = []\<rparr>"

lemma signed_example:
  "case SignClientAssertion paper_jose signed_claims_example signing_example of Inl _ \<Rightarrow> False | Inr _ \<Rightarrow> True"
  "plain_claims signed_claims_example"
  by code_simp+

theorem signed_assertion_verifies_witness:
  "\<exists>text. SignClientAssertion paper_jose signed_claims_example signing_example = Inr text \<and>
     VerifyClientAssertion paper_jose (\<lambda>w. (0, w)) text verify_options_example () = (Inr signed_claims_example, ())"
proof -
  obtain token where s: "SignClientAssertion paper_jose signed_claims_example signing_example = Inr token"
    using signed_example(1) by (auto split: sum.splits)
  have "VerifyClientAssertion paper_jose (\<lambda>w. (0, w)) token verify_options_example () = (Inr signed_claims_example, ()) \<longleftrightarrow>
      expects verify_options_example signed_claims_example \<and> timely verify_options_example signed_claims_example"
    by (rule signed_assertion_verifies [OF s _ paper_jose_verifies signed_example(2)])
      (simp_all add: verify_options_example_def signing_example_def algorithms_of_def time_IsZero_def zero_time_def time_Unix_def in_i64_def i64_limits)
  moreover have "expects verify_options_example signed_claims_example \<and> timely verify_options_example signed_claims_example"
    by code_simp
  ultimately show ?thesis using s by blast
qed

end
