(* ===== verification/Interop_Platform.thy ===== *)
theory Interop_Platform
  imports Jwt_Signatures Agent_Hosted Service_Http
begin

text \<open>
  The Platform that \<open>cmd/aep-interop\<close> serves: its key store, its authorizer and resolver, what it reads of a request
  and writes of a result. The key store is the one provider of that interface in the repository; the contract of the
  interface is the locale \<open>platform_keys\<close>. Generating a key, the public half of a key, and the JSON Web Key of a public
  key are parameters.
\<close>

section \<open>The contract of a key store\<close>

text \<open>
  A token an identity signs is one \<open>SignClientAssertion\<close> makes under the key of the identity, whose public half the
  store gives and documents for as long as it exists; a key is created once and never replaced.
\<close>

definition genuine :: "'key jose \<Rightarrow> ('key \<Rightarrow> 'key) \<Rightarrow> SigningAlgorithm \<Rightarrow> 'key \<Rightarrow> IdentityRecord \<Rightarrow> ClientAssertionClaims \<Rightarrow> string \<Rightarrow> bool" where
  "genuine jose public algorithm key r claims token \<longleftrightarrow>
     (\<exists>made. public made = key \<and> SignClientAssertion jose claims \<lparr>sgo_Algorithm = algorithm, sgo_AllowInsecureLoopback = False,
        sgo_Key = Some made, sgo_KeyID = idr_KeyID r\<rparr> = Inr token)"

locale platform_keys =
  fixes keys :: "('w, 'key) KeyStore" and held :: "'w \<Rightarrow> string \<Rightarrow> 'key option" and step :: "'w \<Rightarrow> 'w \<Rightarrow> bool"
    and jose :: "'key jose" and public :: "'key \<Rightarrow> 'key" and jwk :: "'key \<Rightarrow> RawMessage result"
    and algorithm :: SigningAlgorithm
  assumes step_refl: "reflp step" and step_trans: "transp step"
    and kept: "step w w' \<Longrightarrow> held w k = Some key \<Longrightarrow> held w' k = Some key"
    and create: "ks_CreateKey keys r w = (y, w') \<Longrightarrow> step w w' \<and>
      (y = Inr () \<longrightarrow> held w (idr_AgentIdentityID r) = None \<and> held w' (idr_AgentIdentityID r) \<noteq> None)"
    and sign: "ks_Sign keys r claims w = (z, w') \<Longrightarrow> step w w' \<and>
      (\<forall>token. z = Inr token \<longrightarrow> (\<exists>key. held w' (idr_AgentIdentityID r) = Some key \<and> genuine jose public algorithm key r claims token))"
    and verification: "ks_VerificationKey keys r w = (v, w') \<Longrightarrow> w' = w \<and>
      (case held w (idr_AgentIdentityID r) of None \<Rightarrow> \<exists>e. v = Inl e | Some key \<Rightarrow> v = Inr (Some key))"
    and documented: "ks_DIDVerificationMethod keys r w = (Inr vm, w') \<Longrightarrow> dvm_ID vm = idr_KeyID r \<and>
      (\<exists>key. held w (idr_AgentIdentityID r) = Some key \<and> jwk key = Inr (dvm_PublicKeyJWK vm))"

context platform_keys
begin

lemma signature_outlives:
  assumes "ks_Sign keys r claims w = (Inr token, w1)" and "step w1 w2"
  shows "\<exists>key. ks_VerificationKey keys r w2 = (Inr (Some key), w2) \<and> genuine jose public algorithm key r claims token"
proof -
  obtain key where key: "held w1 (idr_AgentIdentityID r) = Some key" "genuine jose public algorithm key r claims token"
    using sign [OF assms(1)] by blast
  obtain y w3 where run: "ks_VerificationKey keys r w2 = (y, w3)" by (cases "ks_VerificationKey keys r w2")
  then show ?thesis using verification [OF run] kept [OF assms(2) key(1)] key(2) by auto
qed

lemma signature_documented:
  assumes "ks_Sign keys r claims w = (Inr token, w1)" and "step w1 w2"
    and "ks_DIDVerificationMethod keys r' w2 = (Inr vm, w3)" and "idr_AgentIdentityID r' = idr_AgentIdentityID r"
  shows "dvm_ID vm = idr_KeyID r' \<and>
    (\<exists>made. jwk (public made) = Inr (dvm_PublicKeyJWK vm) \<and> SignClientAssertion jose claims
       \<lparr>sgo_Algorithm = algorithm, sgo_AllowInsecureLoopback = False, sgo_Key = Some made, sgo_KeyID = idr_KeyID r\<rparr> = Inr token)"
proof -
  obtain key where key: "held w1 (idr_AgentIdentityID r) = Some key" "genuine jose public algorithm key r claims token"
    using sign [OF assms(1)] by blast
  then show ?thesis
    using documented [OF assms(3)] kept [OF assms(2) key(1)] assms(4) by (auto simp: genuine_def)
qed

text \<open>A key is created once, whatever happens in between.\<close>

lemma created_once:
  assumes "ks_CreateKey keys r w = (Inr (), w1)" and "step w1 w2" and "idr_AgentIdentityID r' = idr_AgentIdentityID r"
  shows "fst (ks_CreateKey keys r' w2) \<noteq> Inr ()"
proof -
  obtain key where "held w1 (idr_AgentIdentityID r) = Some key" using create [OF assms(1)] by blast
  then have "held w2 (idr_AgentIdentityID r') = Some key" using kept [OF assms(2)] assms(3) by simp
  moreover obtain y w3 where run: "ks_CreateKey keys r' w2 = (y, w3)" by (cases "ks_CreateKey keys r' w2")
  ultimately show ?thesis using create [OF run] by auto
qed

end

section \<open>Signing and vouching\<close>

text \<open>The request to verify a token for the Service, the operation and the resource it was signed for.\<close>

definition own_request :: "SignRequest \<Rightarrow> string \<Rightarrow> VerificationRequest" where
  "own_request request token = \<lparr>vrq_ClientAssertion = token, vrq_Operation = sgq_Operation request,
     vrq_Resource = sgq_Resource request, vrq_ServiceDID = sgq_ServiceDID request\<rparr>"

lemma signAssertion_ran:
  assumes "signAssertion platform r request lifetime context w = (Inr answer, w')"
  obtains t v where "t \<in> signing_times platform context"
    "ks_Sign (plt_keyStore platform) r (assertionClaims r request lifetime t) v = (Inr (sgr_ClientAssertion (plr_Body answer)), w')"
    "sgr_IssuedAt (plr_Body answer) = format_rfc3339 t" "sgr_ExpiresAt (plr_Body answer) = format_rfc3339 (t + lifetime)"
proof -
  obtain now v token where
    now: "(if time_IsZero (rqc_Now context) then call (plt_clock platform) else ok (rqc_Now context)) w = (Inr now :: go_error + time, v)"
    and run: "ks_Sign (plt_keyStore platform) r (assertionClaims r request lifetime now) v = (Inr token, w')"
    and answer: "sgr_ClientAssertion (plr_Body answer) = token" "sgr_IssuedAt (plr_Body answer) = format_rfc3339 now"
      "sgr_ExpiresAt (plr_Body answer) = format_rfc3339 (now + lifetime)"
    using assms unfolding signAssertion_def and_then_Inr by (auto simp: Platform_Core.successResult_def)
  have "now \<in> signing_times platform context"
  proof (cases "time_IsZero (rqc_Now context)")
    case True
    then have "now = fst (plt_clock platform w)" using now by (simp add: call_eq)
    then show ?thesis using True by (simp add: signing_times_def)
  next
    case False
    then show ?thesis using now by (simp add: signing_times_def)
  qed
  then show ?thesis using run answer that by blast
qed

lemma signed_claims_plain:
  assumes "Platform_validateSignRequest platform request = Inr lifetime"
    and "resolveLifetimes a b = Inr (plt_maximumLifetime platform, plt_defaultLifetime platform)"
    and "list_all (valid_text 0) [idr_AgentDID r, sgq_JWTID request, sgq_Operation request, sgq_Resource request, sgq_ServiceDID request]"
    and "0 \<le> time_Unix now" and "time_Unix now + 300 \<le> max_i64"
  shows "plain_claims (assertionClaims r request lifetime now)"
    "cac_ExpiresAt (assertionClaims r request lifetime now) = time_Unix now + lifetime div Second"
proof -
  note s = signed_request [OF assms(1,2)]
  have l: "1 \<le> lifetime div Second" "lifetime div Second \<le> 300"
    using s(5,6) resolved_lifetimes(2) [OF assms(2)] by simp_all
  show e: "cac_ExpiresAt (assertionClaims r request lifetime now) = time_Unix now + lifetime div Second"
    using lifetime_claims [OF s(7), of r request now] by (simp add: assertionClaims_def)
  show "plain_claims (assertionClaims r request lifetime now)"
    using assms(3-5) l e by (simp add: plain_claims_def assertionClaims_def in_i64_def i64_limits)
qed

context platform_keys
begin

text \<open>
  Where a Platform has hosted verification, which the one below does not, all that is left to decide about a token it has
  signed itself is whether it was seen before.
\<close>

lemma platform_vouches:
  assumes keys: "plt_keyStore platform = keys" and jose: "signatures_verify jose public"
    and request: "Platform_validateSignRequest platform request = Inr lifetime"
      "resolveLifetimes a b = Inr (plt_maximumLifetime platform, plt_defaultLifetime platform)"
    and texts: "list_all (valid_text 0)
      [idr_AgentDID r, sgq_JWTID request, sgq_Operation request, sgq_Resource request, sgq_ServiceDID request]"
    and times: "\<forall>t \<in> signing_times platform context. 0 \<le> time_Unix t \<and> time_Unix t + 300 \<le> max_i64"
    and signed: "signAssertion platform r request lifetime context w = (Inr answer, w1)" and later: "step w1 w2"
    and allowed: "lp_CanVerify (plt_lifecyclePolicy platform) r vcontext w2 = (Inr True, w2)" "idr_Status r = ManagedAgentActive"
    and algorithms: "algorithm \<in> set (elems (idr_SigningAlgorithms r))"
      "set (elems (idr_SigningAlgorithms r)) \<subseteq> {SigningAlgorithmEdDSA, SigningAlgorithmES256}"
    and clock: "\<not> time_IsZero (rqc_Now vcontext)" "in_i64 (time_Unix (rqc_Now vcontext))"
    and replays: "plt_replayStore platform = Some consume"
  shows "\<exists>t \<in> signing_times platform context. \<forall>agentDID.
    time_Unix t \<le> time_Unix (rqc_Now vcontext) \<and> time_Unix (rqc_Now vcontext) < time_Unix t + lifetime div Second \<longrightarrow>
    (let q = own_request request (sgr_ClientAssertion (plr_Body answer)) in
     verifyForIdentity jose time_Now platform r agentDID q vcontext w2 =
       and_then (consume (replayKey q agentDID (sgq_JWTID request)) ((time_Unix t + lifetime div Second) * Second))
         (\<lambda>consumed. ok (if \<not> consumed then unrecognizedResult q else verifiedResult q r)) w2)"
proof -
  obtain t v where t: "t \<in> signing_times platform context"
    and ran: "ks_Sign keys r (assertionClaims r request lifetime t) v = (Inr (sgr_ClientAssertion (plr_Body answer)), w1)"
    using signAssertion_ran [OF signed] keys by metis
  let ?claims = "assertionClaims r request lifetime t" and ?token = "sgr_ClientAssertion (plr_Body answer)"
  let ?q = "own_request request ?token"
  obtain key where key: "ks_VerificationKey keys r w2 = (Inr (Some key), w2)" and g: "genuine jose public algorithm key r ?claims ?token"
    using signature_outlives [OF ran later] by blast
  then obtain made where made: "public made = key"
    and sg: "SignClientAssertion jose ?claims \<lparr>sgo_Algorithm = algorithm, sgo_AllowInsecureLoopback = False, sgo_Key = Some made,
       sgo_KeyID = idr_KeyID r\<rparr> = Inr ?token"
    unfolding genuine_def by blast
  have b: "0 \<le> time_Unix t" "time_Unix t + 300 \<le> max_i64" using times t by blast+
  note plain = signed_claims_plain [OF request texts b]
  let ?o = "verifyOptions ?q r (Some key) (rqc_Now vcontext)"
  have o: "algorithms_of ?o = elems (idr_SigningAlgorithms r)"
    using algorithms(1) by (auto simp: algorithms_of_def verifyOptions_def)
  have verifies: "VerifyClientAssertion jose time_Now ?token ?o w2 = (Inr ?claims, w2)"
    if "time_Unix t \<le> time_Unix (rqc_Now vcontext)" "time_Unix (rqc_Now vcontext) < time_Unix t + lifetime div Second"
  proof (rule agreed_assertion [where options = ?o and key = made, THEN iffD2, OF sg _ jose plain(1)])
    show "expects ?o ?claims \<and> timely ?o ?claims"
      using that plain(2) by (simp add: expects_def timely_def verifyOptions_def own_request_def assertionClaims_def)
  qed (use algorithms clock in \<open>simp_all add: o [unfolded verifyOptions_def] made verifyOptions_def in_i64_def i64_limits\<close>)
  have resource: "sgq_Operation request \<noteq> AssertionAuthenticate \<longrightarrow> sgq_Resource request = []"
    using signed_request(4) [OF request] by (auto split: if_splits)
  have "verifyForIdentity jose time_Now platform r agentDID ?q vcontext w2 =
       and_then (consume (replayKey ?q agentDID (sgq_JWTID request)) ((time_Unix t + lifetime div Second) * Second))
         (\<lambda>consumed. ok (if \<not> consumed then unrecognizedResult ?q else verifiedResult ?q r)) w2"
    if "time_Unix t \<le> time_Unix (rqc_Now vcontext)" "time_Unix (rqc_Now vcontext) < time_Unix t + lifetime div Second" for agentDID
  proof -
    have claims: "cac_Resource ?claims = sgq_Resource request" "cac_JWTID ?claims = sgq_JWTID request"
      by (simp_all add: assertionClaims_def)
    have q: "vrq_ClientAssertion ?q = ?token" "vrq_Operation ?q = sgq_Operation request" by (simp_all add: own_request_def)
    show ?thesis
      unfolding verifyForIdentity_def cloneIdentityRecord_id keys
      using allowed key verifies [OF that] clock(1) resource replays plain(2) claims q
      by (simp add: and_then_def [of "lp_CanVerify _ _ _"] and_then_def [of "ks_VerificationKey _ _"] and_then_def [of "attempt _"] attempt_def) blast
  qed
  then show ?thesis using t by (auto simp: Let_def)
qed

end

section \<open>The key store\<close>

type_synonym 'key keyring = "(string \<times> 'key) list"

definition newInteropKeyStore :: "'key keyring" where
  "newInteropKeyStore = []"

definition interopKeyStore_key :: "('key keyring, 'w) part \<Rightarrow> string \<Rightarrow> (go_error, 'w, 'key) act" where
  "interopKeyStore_key p identityID =
     at p (\<lambda>keys. (case map_of keys identityID of None \<Rightarrow> Inl (Text ''identity key not found'') | Some key \<Rightarrow> Inr key, keys))"

definition interopKeyStore_CreateKey ::
  "(go_error, 'w, 'key) act \<Rightarrow> ('key keyring, 'w) part \<Rightarrow> IdentityRecord \<Rightarrow> (go_error, 'w, unit) act" where
  "interopKeyStore_CreateKey generate p identity =
     and_then generate (\<lambda>key. at p (\<lambda>keys.
       case map_of keys (idr_AgentIdentityID identity) of
         Some _ \<Rightarrow> (Inl (Text ''identity key already exists''), keys)
       | None \<Rightarrow> (Inr (), AList.update (idr_AgentIdentityID identity) key keys)))"

definition interopKeyStore_DIDVerificationMethod ::
  "('key \<Rightarrow> RawMessage result) \<Rightarrow> ('key \<Rightarrow> 'key) \<Rightarrow> ('key keyring, 'w) part \<Rightarrow> IdentityRecord \<Rightarrow>
   (go_error, 'w, DIDVerificationMethod) act" where
  "interopKeyStore_DIDVerificationMethod jwk public p identity =
     and_then (interopKeyStore_key p (idr_AgentIdentityID identity)) (\<lambda>key.
     case jwk (public key) of
       Inl err \<Rightarrow> fail err
     | Inr encoded \<Rightarrow> ok \<lparr>dvm_Controller = idr_AgentDID identity, dvm_ID = idr_KeyID identity, dvm_PublicKeyJWK = encoded,
         dvm_Type = ''JsonWebKey2020''\<rparr>)"

definition interopKeyStore_Sign ::
  "'key jose \<Rightarrow> ('key keyring, 'w) part \<Rightarrow> IdentityRecord \<Rightarrow> ClientAssertionClaims \<Rightarrow> (go_error, 'w, string) act" where
  "interopKeyStore_Sign jose p identity claims =
     and_then (interopKeyStore_key p (idr_AgentIdentityID identity)) (\<lambda>key.
     of_result (SignClientAssertion jose claims \<lparr>sgo_Algorithm = SigningAlgorithmES256, sgo_AllowInsecureLoopback = False,
       sgo_Key = Some key, sgo_KeyID = idr_KeyID identity\<rparr>))"

definition interopKeyStore_VerificationKey ::
  "('key \<Rightarrow> 'key) \<Rightarrow> ('key keyring, 'w) part \<Rightarrow> IdentityRecord \<Rightarrow> (go_error, 'w, 'key option) act" where
  "interopKeyStore_VerificationKey public p identity =
     and_then (interopKeyStore_key p (idr_AgentIdentityID identity)) (\<lambda>key. ok (Some (public key)))"

definition interopKeyStore ::
  "'key jose \<Rightarrow> (go_error, 'w, 'key) act \<Rightarrow> ('key \<Rightarrow> 'key) \<Rightarrow> ('key \<Rightarrow> RawMessage result) \<Rightarrow> ('key keyring, 'w) part \<Rightarrow>
   ('w, 'key) KeyStore" where
  "interopKeyStore jose generate public jwk p =
     \<lparr>ks_CreateKey = interopKeyStore_CreateKey generate p,
      ks_DIDVerificationMethod = interopKeyStore_DIDVerificationMethod jwk public p,
      ks_Sign = interopKeyStore_Sign jose p, ks_VerificationKey = interopKeyStore_VerificationKey public p\<rparr>"

text \<open>Generating a key does not touch the store.\<close>

definition keys_kept :: "'key keyring \<Rightarrow> 'key keyring \<Rightarrow> bool" where
  "keys_kept s s' \<longleftrightarrow> (\<forall>k key. map_of s k = Some key \<longrightarrow> map_of s' k = Some key)"

locale interop_keys = world_part p for p :: "('key keyring, 'w) part" +
  fixes jose :: "'key jose" and generate :: "(go_error, 'w, 'key) act" and public :: "'key \<Rightarrow> 'key"
    and jwk :: "'key \<Rightarrow> RawMessage result"
  assumes generate: "generate w = (y, w') \<Longrightarrow> part_get p w' = part_get p w"

lemma key_of:
  assumes "\<And>s w. part_get p (part_put p s w) = s" and "\<And>w. part_put p (part_get p w) w = w"
  shows "interopKeyStore_key p k w =
    (case map_of (part_get p w) k of None \<Rightarrow> Inl (Text ''identity key not found'') | Some key \<Rightarrow> Inr key, w)"
  using assms by (simp add: interopKeyStore_key_def on_part_def)

sublocale interop_keys \<subseteq> store: platform_keys "interopKeyStore jose generate public jwk p"
  "\<lambda>w k. map_option public (map_of (part_get p w) k)" "\<lambda>w w'. keys_kept (part_get p w) (part_get p w')"
  jose public jwk SigningAlgorithmES256
proof
  note key = key_of [OF get_put put_get]
  show "reflp (\<lambda>w w'. keys_kept (part_get p w) (part_get p w'))" by (simp add: reflp_def keys_kept_def)
  show "transp (\<lambda>w w'. keys_kept (part_get p w) (part_get p w'))" by (simp add: transp_def keys_kept_def)
  fix w w' k key0
  show "keys_kept (part_get p w) (part_get p w') \<Longrightarrow> map_option public (map_of (part_get p w) k) = Some key0 \<Longrightarrow>
      map_option public (map_of (part_get p w') k) = Some key0"
    by (auto simp: keys_kept_def)
  fix r y claims z v
  show "keys_kept (part_get p w) (part_get p w') \<and>
      (y = Inr () \<longrightarrow> map_option public (map_of (part_get p w) (idr_AgentIdentityID r)) = None \<and>
        map_option public (map_of (part_get p w') (idr_AgentIdentityID r)) \<noteq> None)"
    if "ks_CreateKey (interopKeyStore jose generate public jwk p) r w = (y, w')"
    using that generate
    by (auto simp: interopKeyStore_def interopKeyStore_CreateKey_def and_then_def on_part_def keys_kept_def
        split: prod.splits sum.splits option.splits)
  show "keys_kept (part_get p w) (part_get p w') \<and> (\<forall>token. z = Inr token \<longrightarrow>
      (\<exists>key. map_option public (map_of (part_get p w') (idr_AgentIdentityID r)) = Some key \<and>
         genuine jose public SigningAlgorithmES256 key r claims token))"
    if "ks_Sign (interopKeyStore jose generate public jwk p) r claims w = (z, w')"
    using that
    by (auto simp: interopKeyStore_def interopKeyStore_Sign_def and_then_def key keys_kept_def genuine_def
        split: option.splits)
  show "w' = w \<and> (case map_option public (map_of (part_get p w) (idr_AgentIdentityID r)) of
      None \<Rightarrow> \<exists>e. v = Inl e | Some key \<Rightarrow> v = Inr (Some key))"
    if "ks_VerificationKey (interopKeyStore jose generate public jwk p) r w = (v, w')"
    using that
    by (auto simp: interopKeyStore_def interopKeyStore_VerificationKey_def and_then_def key split: option.splits)
  show "dvm_ID vm = idr_KeyID r \<and>
      (\<exists>key. map_option public (map_of (part_get p w) (idr_AgentIdentityID r)) = Some key \<and> jwk key = Inr (dvm_PublicKeyJWK vm))"
    if "ks_DIDVerificationMethod (interopKeyStore jose generate public jwk p) r w = (Inr vm, w')" for vm
    using that
    by (auto simp: interopKeyStore_def interopKeyStore_DIDVerificationMethod_def and_then_def key split: option.splits sum.splits)
qed

context interop_keys
begin

lemmas signature_documented = store.signature_documented

end

interpretation interop_store: interop_keys first_part jose "on_part snd (\<lambda>v w. (fst w, v)) generate" public jwk
  for jose :: "'key jose" and generate :: "(go_error, 'v, 'key) act" and public jwk
  by unfold_locales (auto simp: first_part_def on_part_eq)

section \<open>Callers of the Platform\<close>

definition platformAuthorization :: string where
  "platformAuthorization = ''Bearer demo-agent''"

definition interopAuthorizer_Authorize :: "'w Authorizer" where
  "interopAuthorizer_Authorize _ request =
     ok (rqc_Authorization request = platformAuthorization \<and> rqc_Principal request = ''interop-agent'')"

definition interopServiceResolver_ResolveServiceDID :: "string \<Rightarrow> 'w ServiceDIDResolver" where
  "interopServiceResolver_ResolveServiceDID serviceDID candidate = ok (candidate = serviceDID)"

definition platformRequestContext :: "http_request \<Rightarrow> RequestContext" where
  "platformRequestContext request =
     (let authorization = header_Get (hrq_Header request) ''Authorization'' in
      \<lparr>rqc_Authorization = authorization, rqc_IdempotencyKey = header_Get (hrq_Header request) ''Idempotency-Key'',
       rqc_Now = zero_time, rqc_Principal = (if authorization = platformAuthorization then ''interop-agent'' else []),
       rqc_RequestID = []\<rparr>)"

text \<open>\<open>strconv.Atoi\<close> with its error ignored: a syntax error gives zero, a number out of range the nearest one.\<close>

definition atoi_ignored :: "string \<Rightarrow> int" where
  "atoi_ignored s =
     (let negative = has_prefix s ''-''; digits = (if negative \<or> has_prefix s ''+'' then drop 1 s else s) in
      if digits = [] \<or> \<not> list_all is_digit digits then 0
      else max min_i64 (min max_i64 (if negative then - decimal digits else decimal digits)))"

definition values_Get :: "(string \<times> string list) list \<Rightarrow> string \<Rightarrow> string" where
  "values_Get values name = (case map_of values name of Some (v # _) \<Rightarrow> v | _ \<Rightarrow> [])"

definition platformListQuery :: "(string \<times> string list) list \<Rightarrow> IdentityListQuery" where
  "platformListQuery values =
     \<lparr>ilq_Descending = (values_Get values ''descending'' = ''true''), ilq_Limit = atoi_ignored (values_Get values ''limit''),
      ilq_Offset = atoi_ignored (values_Get values ''offset''), ilq_ServiceDID = values_Get values ''service_did'',
      ilq_Status = values_Get values ''status''\<rparr>"

text \<open>
  Writing a response. An encoding that fails leaves the body empty, after the header; \<open>http.Error\<close> writes a line of
  plain text.
\<close>

definition writeJSON :: "Header \<Rightarrow> int \<Rightarrow> string \<Rightarrow> string option \<Rightarrow> response" where
  "writeJSON h status contentType encoded =
     \<lparr>rw_Header = header_Set ''Content-Type'' contentType h, rw_Status = status,
      rw_Body = (case encoded of None \<Rightarrow> [] | Some t \<Rightarrow> t @ [CHR 0x0A])\<rparr>"

definition http_Error :: "Header \<Rightarrow> string \<Rightarrow> int \<Rightarrow> response" where
  "http_Error h message code =
     \<lparr>rw_Header = header_Set ''X-Content-Type-Options'' ''nosniff'' (header_Set ''Content-Type'' ''text/plain; charset=utf-8''
        (header_Del ''Content-Length'' h)),
      rw_Status = code, rw_Body = message @ [CHR 0x0A]\<rparr>"

definition writePlatformResult :: "('body \<Rightarrow> string option) \<Rightarrow> Header \<Rightarrow> 'body Platform_Types.Result result \<Rightarrow> response" where
  "writePlatformResult encode h outcome =
     (case outcome of
        Inl err \<Rightarrow> http_Error h ''internal error'' 500
      | Inr result \<Rightarrow>
          let h' = foldl (\<lambda>h (name, values). foldl (\<lambda>h v. header_Add name v h) h values) h (elems (plr_Headers result)) in
          (case plr_Problem result of
             Some problem \<Rightarrow> writeJSON h' (plr_Status result) ProblemMediaType (ProblemDetails_MarshalJSON problem)
           | None \<Rightarrow> writeJSON h' (plr_Status result) (plr_ContentType result) (encode (plr_Body result))))"

definition newPlatform ::
  "(string \<Rightarrow> string) \<Rightarrow> 'w Platform_New.runtime \<Rightarrow> 'key jose \<Rightarrow> (go_error, 'w, 'key) act \<Rightarrow> ('key \<Rightarrow> 'key) \<Rightarrow>
   ('key \<Rightarrow> RawMessage result) \<Rightarrow> ('key keyring, 'w) part \<Rightarrow> string \<Rightarrow> string \<Rightarrow> (go_error, 'w, ('w, 'key) Platform) act" where
  "newPlatform sha256 rt jose generate public jwk p host serviceDID =
     Platform_New sha256 rt
       \<lparr>pop_AgentDIDIDGenerator = None, pop_Authorizer = Some interopAuthorizer_Authorize, pop_Clock = None,
        pop_DefaultLifetime = 0, pop_DIDHost = host, pop_DIDPathPrefix = ''agents'',
        pop_DIDURLTemplate = ''https://'' @ host @ ''/agents/{agent_did_id}/did.json'',
        pop_Discovery = \<lparr>dso_EndpointBase = ''/platform/'', dso_HostedVerificationEndpoint = [],
          dso_LifecycleEndpoint = ''/platform/agent-identities/{agent_identity_id}'', dso_ListEndpoint = ''/platform/agent-identities'',
          dso_PlatformDID = ''did:web:'' @ replace_byte CHR '':'' ''%3A'' host,
          dso_PlatformName = ''Go Interoperability Platform'', dso_ProvisionEndpoint = ''/platform/agent-identities'',
          dso_SignEndpoint = ''/platform/agent-identities/{agent_identity_id}/sign''\<rparr>,
        pop_HostedVerification = False, pop_Identifier = None, pop_IdempotencyStore = None, pop_IdentityStore = None,
        pop_KeyStore = Some (interopKeyStore jose generate public jwk p), pop_LifecyclePolicy = None, pop_MaximumLifetime = 0,
        pop_ReplayStore = None, pop_ServiceDIDResolver = Some (interopServiceResolver_ResolveServiceDID serviceDID),
        pop_SignHandler = None, pop_SigningAlgorithms = Some [SigningAlgorithmES256]\<rparr>"

lemmas interop_platform_defs [go_defs] =
  newInteropKeyStore_def interopKeyStore_key_def interopKeyStore_CreateKey_def interopKeyStore_DIDVerificationMethod_def
  interopKeyStore_Sign_def interopKeyStore_VerificationKey_def interopKeyStore_def platformAuthorization_def
  interopAuthorizer_Authorize_def interopServiceResolver_ResolveServiceDID_def platformRequestContext_def
  atoi_ignored_def values_Get_def platformListQuery_def writeJSON_def http_Error_def writePlatformResult_def

text \<open>Only the holder of the token is anyone to the Platform: every other request is refused without an effect.\<close>

lemma stranger:
  assumes "header_Get (hrq_Header request) ''Authorization'' \<noteq> platformAuthorization"
  shows "rqc_Principal (platformRequestContext request) = []"
    and "interopAuthorizer_Authorize q (platformRequestContext request) = ok False"
  using assms by (simp_all add: platformRequestContext_def interopAuthorizer_Authorize_def Let_def)

lemma stranger_refused:
  assumes "header_Get (hrq_Header request) ''Authorization'' \<noteq> platformAuthorization" and "isDID (prq_ServiceDID q)"
    and "Platform_validateSignRequest platform s = Inr lifetime"
  shows "Platform_Provision sha256 platform q (platformRequestContext request) = ok (keyRequired zero_agent_identity)"
    "Platform_Sign sha256 platform k s (platformRequestContext request) = ok (keyRequired zero_sign_response)"
  using stranger(1) [OF assms(1)] assms(2,3) by (simp_all add: Platform_Provision_def Platform_Sign_def)

section \<open>Properties\<close>

text \<open>What \<open>newPlatform\<close> configures.\<close>

lemma newPlatform_parts:
  assumes "newPlatform sha256 prt jose generate public jwk keys host serviceDID w = (Inr platform, w')"
  shows "plt_authorizer platform = interopAuthorizer_Authorize"
    "plt_identityStore platform = NewMemoryIdentityStore (prt_ctxDone prt) (prt_identities prt)"
    "plt_keyStore platform = interopKeyStore jose generate public jwk keys"
    "plt_lifecyclePolicy platform = defaultLifecyclePolicy" "plt_signHandler platform = None"
    "resolveLifetimes 0 0 = Inr (plt_maximumLifetime platform, plt_defaultLifetime platform)"
  using assms
  by (auto simp: newPlatform_def Platform_New_def assemblePlatform_def Let_def and_then_def
      split: if_splits sum.splits option.splits prod.splits)

text \<open>An answer of the closure of \<open>Sign\<close> that is not a refusal is a signature of the key store.\<close>

lemma newPlatform_signs:
  assumes "plt_lifecyclePolicy platform = defaultLifecyclePolicy" "plt_signHandler platform = None"
    and "signForIdentity platform r request lifetime context w = (Inr answer, w')" "plr_Status answer = 200"
  shows "signAssertion platform r request lifetime context w = (Inr answer, w')"
  using assms
  by (auto simp: signForIdentity_def defaultLifecyclePolicy_def cloneIdentityRecord_id Platform_Core.problemResult_def
      split: if_splits)

lemma memory_find_keeps:
  "ids_FindIdentityByAgentDIDID (NewMemoryIdentityStore ctxDone p) k w = (Inr x, w') \<Longrightarrow> w' = w"
  by (auto simp: NewMemoryIdentityStore_def memoryIdentityStore_FindIdentityByAgentDIDID_def memoryIdentityStore_find_def
      unless_done_Inr observe_def)

lemma served_document:
  assumes "Platform_GetDIDDocument sha256 platform k w = (Inr served, w')"
    and "ids_FindIdentityByAgentDIDID (plt_identityStore platform) k w = (Inr (Some r), w1)"
  shows "\<exists>vm w2. ks_DIDVerificationMethod (plt_keyStore platform) r w1 = (Inr vm, w2) \<and>
    elems (ddoc_VerificationMethod (plr_Body served)) = [vm]"
  using assms
  by (auto simp: Platform_GetDIDDocument_def run_simps cloneIdentityRecord_id CreateDIDDocument_def cloneVerificationMethod_def
      Platform_Core.successResult_def split: sum.splits option.splits if_splits)

text \<open>
  C39. The key in the DID document that the interoperability Platform serves verifies what the Platform signs. Once the
  closure of \<open>Sign\<close> has returned a token for an identity, then for as long as the key store only gains keys, the document
  served for that identity has one verification method, named by the key ID of the token, and a verifier that takes its
  key from there and allows ES256 accepts the token, as exactly the claims that were asked for at the time the answer
  shows, if and only if they are the ones it expects and its time is in their window.
\<close>

theorem interop_document_verifies:
  assumes platform: "newPlatform sha256 rt jose generate public jwk p host serviceDID w0 = (Inr platform, w00)"
    and parts: "world_part p" "\<And>w y w'. generate w = (y, w') \<Longrightarrow> part_get p w' = part_get p w"
    and jose: "signatures_verify jose public"
    and parse: "\<And>key encoded. jwk (public key) = Inr encoded \<Longrightarrow> parse encoded = Some (public key)"
    and request: "Platform_validateSignRequest platform request = Inr lifetime"
    and texts: "list_all (valid_text 0)
      [idr_AgentDID r, sgq_JWTID request, sgq_Operation request, sgq_Resource request, sgq_ServiceDID request]"
    and times: "\<forall>t \<in> signing_times platform context. 0 \<le> time_Unix t \<and> time_Unix t + 300 \<le> max_i64"
    and signed: "signForIdentity platform r request lifetime context w = (Inr answer, w1)" "plr_Status answer = 200"
    and later: "keys_kept (part_get p w1) (part_get p w2)"
    and found: "ids_FindIdentityByAgentDIDID (plt_identityStore platform) agentDIDID w2 = (Inr (Some r'), w3)"
      "idr_AgentIdentityID r' = idr_AgentIdentityID r" "idr_KeyID r' = idr_KeyID r"
    and served: "Platform_GetDIDDocument sha256 platform agentDIDID w2 = (Inr document, w4)"
    and verifier: "vo_Key options = parse (dvm_PublicKeyJWK (hd (elems (ddoc_VerificationMethod (plr_Body document)))))"
      "vo_KeyResolver options = None" "\<not> vo_AllowInsecureLoopback options"
    and algorithms: "SigningAlgorithmES256 \<in> set (algorithms_of options)"
      "set (algorithms_of options) \<subseteq> {SigningAlgorithmEdDSA, SigningAlgorithmES256}"
    and clock: "\<not> time_IsZero (vo_CurrentTime options)" "in_i64 (time_Unix (vo_CurrentTime options))"
      "in_i64 (vo_ClockTolerance options)"
  shows "(\<exists>vm. elems (ddoc_VerificationMethod (plr_Body document)) = [vm] \<and> dvm_ID vm = idr_KeyID r) \<and>
    (\<exists>t \<in> signing_times platform context.
       sgr_IssuedAt (plr_Body answer) = format_rfc3339 t \<and> sgr_ExpiresAt (plr_Body answer) = format_rfc3339 (t + lifetime) \<and>
       (let claims = assertionClaims r request lifetime t in
        VerifyClientAssertion jose time_Now (sgr_ClientAssertion (plr_Body answer)) options v = (Inr claims, v) \<longleftrightarrow>
        expects options claims \<and> timely options claims))"
proof -
  note n = newPlatform_parts [OF platform]
  have w3: "w3 = w2" by (rule memory_find_keeps [OF found(1) [unfolded n(2)]])
  obtain t u where t: "t \<in> signing_times platform context"
    and ran: "ks_Sign (interopKeyStore jose generate public jwk p) r (assertionClaims r request lifetime t) u =
      (Inr (sgr_ClientAssertion (plr_Body answer)), w1)"
    and stamped: "sgr_IssuedAt (plr_Body answer) = format_rfc3339 t" "sgr_ExpiresAt (plr_Body answer) = format_rfc3339 (t + lifetime)"
    using signAssertion_ran [OF newPlatform_signs [OF n(4,5) signed]] n(3) by metis
  obtain vm w5 where vm: "ks_DIDVerificationMethod (interopKeyStore jose generate public jwk p) r' w2 = (Inr vm, w5)"
    and only: "elems (ddoc_VerificationMethod (plr_Body document)) = [vm]"
    using served_document [OF served found(1)] unfolding w3 n(3) by blast
  have "interop_keys p generate" using parts by (simp add: interop_keys_def interop_keys_axioms_def)
  from interop_keys.signature_documented [OF this ran later vm found(2)]
  obtain made where id: "dvm_ID vm = idr_KeyID r'" and published: "jwk (public made) = Inr (dvm_PublicKeyJWK vm)"
    and sg: "SignClientAssertion jose (assertionClaims r request lifetime t) \<lparr>sgo_Algorithm = SigningAlgorithmES256,
       sgo_AllowInsecureLoopback = False, sgo_Key = Some made, sgo_KeyID = idr_KeyID r\<rparr> = Inr (sgr_ClientAssertion (plr_Body answer))"
    by blast
  have b: "0 \<le> time_Unix t" "time_Unix t + 300 \<le> max_i64" using times t by blast+
  note plain = signed_claims_plain(1) [OF request n(6) texts b]
  have "vo_Key options = Some (public made)" using verifier(1) only parse [OF published] by simp
  then have "VerifyClientAssertion jose time_Now (sgr_ClientAssertion (plr_Body answer)) options v =
      (Inr (assertionClaims r request lifetime t), v) \<longleftrightarrow>
    expects options (assertionClaims r request lifetime t) \<and> timely options (assertionClaims r request lifetime t)"
    by (intro agreed_assertion [OF sg _ jose plain]) (use verifier algorithms clock in simp_all)
  then show ?thesis using t stamped only id found(3) by (auto simp: Let_def)
qed

definition interop_identity :: IdentityRecord where
  "interop_identity = identity_example\<lparr>idr_SigningAlgorithms := Some [SigningAlgorithmES256]\<rparr>"

text \<open>A world of the keys and the identities, with one of each; the JSON Web Key of a key holds it as a member.\<close>

definition interop_world :: "string keyring \<times> memoryIdentityStore" where
  "interop_world = ([(''pai_1'', ''k'')], empty_identities\<lparr>mid_records := [(''pai_1'', interop_identity)],
     mid_byAgentDIDID := [''7f'' \<mapsto> ''pai_1'']\<rparr>)"

definition interop_runtime :: "(string keyring \<times> memoryIdentityStore) Platform_New.runtime" where
  "interop_runtime = \<lparr>prt_time_Now = (\<lambda>w. (1000 * Second, w)), prt_rand_Read = ok ''7f'', prt_ctxDone = (\<lambda>_. False),
     prt_identities = \<lparr>part_get = snd, part_put = (\<lambda>s w. (fst w, s))\<rparr>,
     prt_idempotency = \<lparr>part_get = (\<lambda>_. Platform_Stores.empty_idempotency), part_put = (\<lambda>_ w. w)\<rparr>\<rparr>"

definition interop_jwk :: "string \<Rightarrow> RawMessage result" where
  "interop_jwk key = Inr (quote_tildes ''{~k~:~'' @ key @ quote_tildes ''~}'')"

definition interop_jwk_parse :: "RawMessage \<Rightarrow> string option" where
  "interop_jwk_parse t = Some (take (length t - 8) (drop 6 t))"

lemma interop_jwk_parses: "interop_jwk key = Inr t \<Longrightarrow> interop_jwk_parse t = Some key"
proof -
  assume t: "interop_jwk key = Inr t"
  have "length (quote_tildes ''{~k~:~'') = 6" "length (quote_tildes ''~}'') = 2" by code_simp+
  then show ?thesis using t by (auto simp: interop_jwk_def interop_jwk_parse_def)
qed

abbreviation interop_example_new ::
  "(go_error, string keyring \<times> memoryIdentityStore, (string keyring \<times> memoryIdentityStore, string) Platform) act" where
  "interop_example_new \<equiv> newPlatform (\<lambda>_. []) interop_runtime paper_jose (ok ''k'') (\<lambda>key. key) interop_jwk first_part
     ''p.example'' ''did:web:s.example''"

lemma interop_example_made:
  "case interop_example_new interop_world of (Inl e, _) \<Rightarrow> False | (Inr p, _) \<Rightarrow> True"
  by code_simp

lemma interop_example_token:
  "case SignClientAssertion paper_jose (assertionClaims interop_identity sign_request_example (60 * Second) (1000 * Second))
     \<lparr>sgo_Algorithm = SigningAlgorithmES256, sgo_AllowInsecureLoopback = False, sgo_Key = Some ''k'',
       sgo_KeyID = idr_KeyID interop_identity\<rparr> of Inl _ \<Rightarrow> False | Inr _ \<Rightarrow> True"
  by code_simp

lemma interop_example_document:
  "case CreateDIDDocument interop_identity \<lparr>dvm_Controller = idr_AgentDID interop_identity, dvm_ID = idr_KeyID interop_identity,
     dvm_PublicKeyJWK = quote_tildes ''{~k~:~'' @ ''k'' @ quote_tildes ''~}'', dvm_Type = ''JsonWebKey2020''\<rparr> of
     Inl _ \<Rightarrow> False | Inr d \<Rightarrow> enc_did_document d \<noteq> None"
  by code_simp

lemma interop_example_key: "interopKeyStore_key first_part (idr_AgentIdentityID interop_identity) interop_world = (Inr ''k'', interop_world)"
  by (simp add: interopKeyStore_key_def on_part_def first_part_def interop_world_def interop_identity_def identity_example_def)

lemma interop_example_signs:
  assumes "plt_keyStore platform = interopKeyStore paper_jose (ok ''k'') (\<lambda>key. key) interop_jwk first_part"
    and "plt_lifecyclePolicy platform = defaultLifecyclePolicy" "plt_signHandler platform = None"
  shows "\<exists>answer. signForIdentity platform interop_identity sign_request_example (60 * Second) request_context_example
     interop_world = (Inr answer, interop_world) \<and> plr_Status answer = 200"
proof -
  have now: "rqc_Now request_context_example = 1000 * Second" "\<not> time_IsZero 1000000000000"
    by (simp_all add: request_context_example_def time_IsZero_def zero_time_def)
  obtain token where "SignClientAssertion paper_jose (assertionClaims interop_identity sign_request_example (60 * Second) (1000 * Second))
     \<lparr>sgo_Algorithm = SigningAlgorithmES256, sgo_AllowInsecureLoopback = False, sgo_Key = Some ''k'',
       sgo_KeyID = idr_KeyID interop_identity\<rparr> = Inr token"
    using interop_example_token by (auto split: sum.splits)
  then have "ks_Sign (plt_keyStore platform) interop_identity
      (assertionClaims interop_identity sign_request_example (60 * Second) (1000 * Second)) interop_world = (Inr token, interop_world)"
    using interop_example_key
    by (simp add: assms(1) interopKeyStore_def interopKeyStore_Sign_def and_then_def [of "interopKeyStore_key _ _"])
  moreover have "idr_Status interop_identity = ManagedAgentActive" by (simp add: interop_identity_def identity_example_def)
  ultimately show ?thesis
    using assms(2,3)
    by (simp add: signForIdentity_def signAssertion_def cloneIdentityRecord_id now defaultLifecyclePolicy_def
        Platform_Core.successResult_def and_then_def [of "ks_Sign _ _ _"])
qed

lemma interop_example_serves:
  assumes "plt_keyStore platform = interopKeyStore paper_jose (ok ''k'') (\<lambda>key. key) interop_jwk first_part"
    and "plt_identityStore platform = NewMemoryIdentityStore (prt_ctxDone interop_runtime) (prt_identities interop_runtime)"
  shows "ids_FindIdentityByAgentDIDID (plt_identityStore platform) ''7f'' interop_world = (Inr (Some interop_identity), interop_world)"
    "\<exists>document. Platform_GetDIDDocument (\<lambda>_. []) platform ''7f'' interop_world = (Inr document, interop_world)"
proof -
  show found: "ids_FindIdentityByAgentDIDID (plt_identityStore platform) ''7f'' interop_world = (Inr (Some interop_identity), interop_world)"
    by (simp add: assms(2) NewMemoryIdentityStore_def memoryIdentityStore_FindIdentityByAgentDIDID_def memoryIdentityStore_find_def
        unless_done_def observe_def index_of_def interop_runtime_def interop_world_def cloneIdentityRecord_id)
  have "ks_DIDVerificationMethod (plt_keyStore platform) interop_identity interop_world =
      (Inr \<lparr>dvm_Controller = idr_AgentDID interop_identity, dvm_ID = idr_KeyID interop_identity,
         dvm_PublicKeyJWK = quote_tildes ''{~k~:~'' @ ''k'' @ quote_tildes ''~}'', dvm_Type = ''JsonWebKey2020''\<rparr>, interop_world)"
    using interop_example_key
    by (simp add: assms(1) interopKeyStore_def interopKeyStore_DIDVerificationMethod_def interop_jwk_def
        and_then_def [of "interopKeyStore_key _ _"])
  then show "\<exists>document. Platform_GetDIDDocument (\<lambda>_. []) platform ''7f'' interop_world = (Inr document, interop_world)"
    using found interop_example_document
    by (auto simp: Platform_GetDIDDocument_def cloneIdentityRecord_id and_then_def [of "ids_FindIdentityByAgentDIDID _ _"]
        and_then_def [of "ks_DIDVerificationMethod _ _"] split: sum.splits option.splits)
qed

lemma interop_example_request:
  assumes "resolveLifetimes 0 0 = Inr (plt_maximumLifetime platform, plt_defaultLifetime platform)"
  shows "Platform_validateSignRequest platform sign_request_example = Inr (60 * Second)"
proof -
  have "plt_maximumLifetime platform = MaxAssertionLifetime" using assms by (simp add: resolveLifetimes_def Let_def split: if_splits)
  moreover have "canonicalPositiveInteger ''60'' = Some 60" "isDID ''did:web:s.example''" "isAssertionOperation AssertionStatus"
    "go_div MaxAssertionLifetime Second = 300" "AssertionStatus \<noteq> AssertionAuthenticate"
    by code_simp+
  ultimately show ?thesis by (simp add: Platform_validateSignRequest_def sign_request_example_def)
qed

theorem interop_document_verifies_witness:
  "\<exists>platform w answer document vm. interop_example_new interop_world = (Inr platform, w) \<and>
     signForIdentity platform interop_identity sign_request_example (60 * Second) request_context_example interop_world =
       (Inr answer, interop_world) \<and>
     Platform_GetDIDDocument (\<lambda>_. []) platform ''7f'' interop_world = (Inr document, interop_world) \<and>
     elems (ddoc_VerificationMethod (plr_Body document)) = [vm] \<and> interop_jwk_parse (dvm_PublicKeyJWK vm) = Some ''k'' \<and>
     VerifyClientAssertion paper_jose (\<lambda>w. (0, w)) (sgr_ClientAssertion (plr_Body answer))
       (verify_options_example\<lparr>vo_CurrentTime := 1030 * Second\<rparr>) () =
       (Inr (assertionClaims interop_identity sign_request_example (60 * Second) (1000 * Second)), ())"
proof -
  obtain platform w where new: "interop_example_new interop_world = (Inr platform, w)"
    using interop_example_made by (auto split: prod.splits sum.splits)
  let ?c = request_context_example and ?claims = "assertionClaims interop_identity sign_request_example (60 * Second) (1000 * Second)"
  note n = newPlatform_parts [OF new]
  obtain answer where signed: "signForIdentity platform interop_identity sign_request_example (60 * Second) ?c interop_world =
      (Inr answer, interop_world)" "plr_Status answer = 200"
    using interop_example_signs [OF n(3-5)] by blast
  obtain document where served: "Platform_GetDIDDocument (\<lambda>_. []) platform ''7f'' interop_world = (Inr document, interop_world)"
    using interop_example_serves(2) [OF n(3,2)] ..
  have times: "signing_times platform ?c = {1000 * Second}"
    by (simp add: signing_times_def request_context_example_def time_IsZero_def zero_time_def)
  have parts: "world_part (first_part :: (string keyring, string keyring \<times> memoryIdentityStore) part)"
    by unfold_locales (simp_all add: first_part_def)
  have texts: "list_all (valid_text 0) [idr_AgentDID interop_identity, sgq_JWTID sign_request_example,
      sgq_Operation sign_request_example, sgq_Resource sign_request_example, sgq_ServiceDID sign_request_example]"
    by code_simp
  have kept: "keys_kept (part_get first_part interop_world) (part_get first_part interop_world)" by (simp add: keys_kept_def)
  have range: "\<forall>t \<in> signing_times platform ?c. 0 \<le> time_Unix t \<and> time_Unix t + 300 \<le> max_i64"
    unfolding times by code_simp
  have "\<exists>vm. elems (ddoc_VerificationMethod (plr_Body document)) = [vm] \<and>
      interop_jwk_parse (dvm_PublicKeyJWK vm) = Some ''k''"
    using served_document [OF served interop_example_serves(1) [OF n(3,2)]] interop_example_key
    by (auto simp: n(3) interopKeyStore_def interopKeyStore_DIDVerificationMethod_def and_then_def [of "interopKeyStore_key _ _"]
        interop_jwk_parses interop_jwk_def)
  then obtain vm where m: "elems (ddoc_VerificationMethod (plr_Body document)) = [vm]"
      "interop_jwk_parse (dvm_PublicKeyJWK vm) = Some ''k''"
    by blast
  let ?o = "verify_options_example\<lparr>vo_CurrentTime := 1030 * Second\<rparr>"
  have o: "vo_Key ?o = Some ''k''" "vo_KeyResolver ?o = None" "\<not> vo_AllowInsecureLoopback ?o"
    "SigningAlgorithmES256 \<in> set (algorithms_of ?o)" "set (algorithms_of ?o) \<subseteq> {SigningAlgorithmEdDSA, SigningAlgorithmES256}"
    "\<not> time_IsZero (vo_CurrentTime ?o)" "in_i64 (time_Unix (vo_CurrentTime ?o))" "in_i64 (vo_ClockTolerance ?o)"
    "expects ?o ?claims" "timely ?o ?claims"
    by code_simp+
  have key: "vo_Key ?o = interop_jwk_parse (dvm_PublicKeyJWK (hd (elems (ddoc_VerificationMethod (plr_Body document)))))"
    using m o(1) by simp
  have "\<exists>t \<in> signing_times platform ?c.
      sgr_IssuedAt (plr_Body answer) = format_rfc3339 t \<and> sgr_ExpiresAt (plr_Body answer) = format_rfc3339 (t + 60 * Second) \<and>
      (let claims = assertionClaims interop_identity sign_request_example (60 * Second) t in
      VerifyClientAssertion paper_jose (\<lambda>w. (0, w)) (sgr_ClientAssertion (plr_Body answer)) ?o () = (Inr claims, ()) \<longleftrightarrow>
      expects ?o claims \<and> timely ?o claims)"
    by (rule interop_document_verifies [where parse = interop_jwk_parse, OF new parts _ paper_jose_verifies _ interop_example_request [OF n(6)]
          texts range signed kept interop_example_serves(1) [OF n(3,2)] refl refl served key o(2-8), THEN conjunct2])
      (simp_all add: interop_jwk_parses)
  then have "VerifyClientAssertion paper_jose (\<lambda>w. (0, w)) (sgr_ClientAssertion (plr_Body answer)) ?o () = (Inr ?claims, ())"
    using o(9,10) by (simp add: times Let_def)
  then show ?thesis using new signed(1) served m by blast
qed

end
