(* ===== verification/Interop_Server.thy ===== *)
theory Interop_Server
  imports Interop_Platform Service_New
begin

text \<open>
  The server of \<open>cmd/aep-interop\<close>: the Service it runs beside its Platform, its routes, and the handler of each. What
  \<open>http.ServeMux\<close> answers by itself (a path that is not clean or that no pattern matches, another method) is a
  parameter; listening and shutting down are left out.
\<close>

section \<open>Reading requests\<close>

text \<open>
  \<open>json.NewDecoder(body).Decode\<close> reads the first value of the body and leaves the rest. A value that ends only with
  the next byte needs one, or the end of the body.
\<close>

definition first_value :: "string \<times> go_error option \<Rightarrow> RawMessage option" where
  "first_value body =
     (let text = skip_ws (fst body) in
      case p_value (parse_fuel text) max_nesting text of
        None \<Rightarrow> None
      | Some (v, rest) \<Rightarrow>
          if snd body = None \<or> rest \<noteq> [] \<or> (case v of JObj _ \<Rightarrow> True | JArr _ \<Rightarrow> True | _ \<Rightarrow> False)
          then Some (span text rest) else None)"

definition decodeJSON :: "'a decoder \<Rightarrow> 'a \<Rightarrow> Header \<Rightarrow> http_request \<Rightarrow> response + 'a" where
  "decodeJSON target zero h request =
     (case (case first_value (case hrq_Body request of None \<Rightarrow> ([], None) | Some body \<Rightarrow> body) of
              None \<Rightarrow> None | Some raw \<Rightarrow> target raw zero) of
        None \<Rightarrow> Inl (http_Error h ''invalid JSON'' 400)
      | Some v \<Rightarrow> Inr v)"

definition fields_provision_request :: "ProvisionRequest fields" where
  "fields_provision_request = [(''service_did'', on_field dec_string prq_ServiceDID (\<lambda>x. prq_ServiceDID_update (\<lambda>_. x)))]"

definition fields_lifecycle_request :: "LifecycleRequest fields" where
  "fields_lifecycle_request = [(''status'', on_field dec_string lrq_Status (\<lambda>x. lrq_Status_update (\<lambda>_. x)))]"

definition fields_sign_request :: "SignRequest fields" where
  "fields_sign_request =
     [(''jti'', on_field dec_string sgq_JWTID (\<lambda>x. sgq_JWTID_update (\<lambda>_. x))),
      (''lifetime_seconds'', on_field dec_string sgq_LifetimeSeconds (\<lambda>x. sgq_LifetimeSeconds_update (\<lambda>_. x))),
      (''op'', on_field dec_string sgq_Operation (\<lambda>x. sgq_Operation_update (\<lambda>_. x))),
      (''platform_context'', on_field (dec_map dec_raw []) sgq_PlatformContext (\<lambda>x. sgq_PlatformContext_update (\<lambda>_. x))),
      (''resource'', on_field dec_string sgq_Resource (\<lambda>x. sgq_Resource_update (\<lambda>_. x))),
      (''service_did'', on_field dec_string sgq_ServiceDID (\<lambda>x. sgq_ServiceDID_update (\<lambda>_. x)))]"

definition zero_sign_request :: SignRequest where
  "zero_sign_request = \<lparr>sgq_JWTID = [], sgq_LifetimeSeconds = [], sgq_Operation = [], sgq_PlatformContext = None,
     sgq_Resource = [], sgq_ServiceDID = []\<rparr>"

text \<open>\<open>URL.Query\<close>: a pair that does not decode is left out.\<close>

definition query_pair :: "string \<Rightarrow> (string \<times> string) option" where
  "query_pair part =
     (if part = [] \<or> CHR '';'' \<in> set part then None
      else case cut_at CHR ''='' part of (key, val, _) \<Rightarrow>
        (case (unescape encodeQueryComponent key, unescape encodeQueryComponent val) of
           (Some k, Some v) \<Rightarrow> Some (k, v)
         | _ \<Rightarrow> None))"

fun query_values :: "string list \<Rightarrow> (string \<times> string list) list \<Rightarrow> (string \<times> string list) list" where
  "query_values [] values = values"
| "query_values (part # parts) values =
     (case query_pair part of
        None \<Rightarrow> query_values parts values
      | Some (k, v) \<Rightarrow> query_values parts (AList.update k ((case map_of values k of None \<Rightarrow> [] | Some vs \<Rightarrow> vs) @ [v]) values))"

definition url_Query :: "URL \<Rightarrow> (string \<times> string list) list" where
  "url_Query u = query_values (split_on CHR ''&'' (url_RawQuery u)) []"

section \<open>The Service\<close>

definition interop_issue :: "('w, APIKeyGrantResponse) BuiltInCredentialIssuer" where
  "interop_issue request grant =
     ok \<lparr>key_APIKey = ''interop-secret'', key_CredentialID = ''interop-credential'',
         key_ExpiresAt = format_rfc3339 (gc_Now grant + 3600 * Second), key_Header = ''x-api-key'',
         key_Scopes = append_nil (elems (grq_RequestedScopes request))\<rparr>"

definition newService ::
  "'w Service_New.runtime \<Rightarrow> (string \<Rightarrow> string) \<Rightarrow> (memoryServiceCredentialStore, 'w) part \<Rightarrow>
   (string \<Rightarrow> (go_error, 'w, http_response) act) \<Rightarrow> (RawMessage \<Rightarrow> 'key option) \<Rightarrow> ('key \<Rightarrow> bool) \<Rightarrow> 'key jose \<Rightarrow>
   string \<Rightarrow> string \<Rightarrow> 'w Service result" where
  "newService rt sha256 credentials do_get key_of_jwk valid jose baseURL serviceDID =
     (case StoredAPIKeyGrantType
            \<lparr>gtc_SupportsPerCredentialRevoke = [], gtc_Additional = [(''header_names'', quote_tildes ''[~x-api-key~]'')]\<rparr>
            (Some interop_issue) (Some (NewMemoryServiceCredentialStore sha256 (rt_ctxDone rt) credentials)) of
        Inl err \<Rightarrow> Inl err
      | Inr apiKey \<Rightarrow>
     (case url_Parse (baseURL @ WellKnownPath) of
        None \<Rightarrow> Inl (Library ''net/url'')
      | Some inspectURL \<Rightarrow>
          Service_New rt
            \<lparr>opt_ServiceDocuments = None, opt_AuthenticationMethods = [GrantTypeAPIKey],
             opt_ClientAssertion = \<lparr>cao_AllowInsecureLoopback = True, cao_ClockSkew = None, cao_MaximumLifetime = 0\<rparr>,
             opt_ClaimValueLimits = None, opt_Clock = None, opt_Claims = None, opt_EndpointBase = ''/aep/'',
             opt_EnrollmentPolicy = None, opt_EnrollmentStore = None, opt_Extensions = [], opt_GrantTypes = [apiKey],
             opt_Identifier = None, opt_IdempotencyStore = None, opt_IdentityMethods = [IdentityMethodDIDWeb],
             opt_InspectURL = Some inspectURL, opt_OpenAPI = None, opt_ReplayStore = None, opt_ServiceDID = serviceDID,
             opt_SigningAlgorithms = [], opt_Verifier = Some (NewDIDWebAssertionVerifier do_get key_of_jwk valid jose (rt_time_Now rt))\<rparr>))"

section \<open>Routes\<close>

definition enc_list_response :: "AgentIdentityListResponse \<Rightarrow> string" where
  "enc_list_response v =
     enc_object [(''count'', enc_string (alr_Count v)), (''data'', enc_slice enc_agent_identity (alr_Data v)),
       (''total'', enc_string (alr_Total v))]"

text \<open>
  The routes with the segment each takes from the path. A pattern for GET is one for HEAD too; a segment is compared
  unescaped, where it unescapes.
\<close>

datatype route =
  ServiceRoute
| ResourceRoute
| ProfileRoute
| DiscoveryRoute
| ListRoute
| ProvisionRoute
| IdentityRoute string
| LifecycleRoute string
| SignRoute string
| DocumentRoute string
| StoreRoute
| HealthRoute

definition clean_path :: "string \<Rightarrow> bool" where
  "clean_path path \<longleftrightarrow>
     (case split_on CHR ''/'' path of
        [] # segments \<Rightarrow> segments \<noteq> [] \<and> list_all (\<lambda>s. s \<notin> {[], ''.'', ''..''}) (butlast segments) \<and> last segments \<notin> {''.'', ''..''}
      | _ \<Rightarrow> False)"

definition segment_text :: "string \<Rightarrow> string" where
  "segment_text s = (case PathUnescape s of None \<Rightarrow> s | Some t \<Rightarrow> t)"

definition route_of :: "string \<Rightarrow> string list \<Rightarrow> route option" where
  "route_of verb segments =
     (let get = verb \<in> {''GET'', ''HEAD''}; post = (verb = ''POST'') in
      case segments of
        [a, b] \<Rightarrow>
          if [a, b] = [''.well-known'', ''aep''] \<or> a = ''aep'' then Some ServiceRoute
          else if [a, b] = [''api'', ''resource''] \<and> get then Some ResourceRoute
          else if [a, b] = [''api'', ''profile''] \<and> post then Some ProfileRoute
          else if [a, b] = [''.well-known'', ''aep-platform''] \<and> get then Some DiscoveryRoute
          else if [a, b] = [''platform'', ''agent-identities''] \<and> get then Some ListRoute
          else if [a, b] = [''platform'', ''agent-identities''] \<and> post then Some ProvisionRoute
          else None
      | [a] \<Rightarrow> if a = ''health'' \<and> get then Some HealthRoute else None
      | a # b # c # rest \<Rightarrow>
          if a = ''aep'' then Some ServiceRoute
          else if [a, b] = [''platform'', ''agent-identities''] \<and> c \<noteq> [] \<and> rest = [] then
            (if get then Some (IdentityRoute c) else if verb = ''PATCH'' then Some (LifecycleRoute c) else None)
          else if [a, b] = [''platform'', ''agent-identities''] \<and> rest = [''sign''] \<and> post then Some (SignRoute c)
          else if a = ''services'' \<and> [b, c] = [''store'', ''did.json''] \<and> rest = [] \<and> get then Some StoreRoute
          else if a = ''agents'' \<and> c = ''did.json'' \<and> rest = [] \<and> get then Some (DocumentRoute b)
          else None
      | [] \<Rightarrow> None)"

definition mux_route :: "http_request \<Rightarrow> route option" where
  "mux_route request =
     (let path = url_EscapedPath (hrq_URL request) in
      if hrq_Method request = ''CONNECT'' \<or> \<not> clean_path path then None
      else route_of (hrq_Method request) (map segment_text (drop 1 (split_on CHR ''/'' path))))"

definition answered ::
  "('body \<Rightarrow> string option) \<Rightarrow> Header \<Rightarrow> (go_error, 'w, 'body Platform_Types.Result) act \<Rightarrow> (go_error, 'w, response) act" where
  "answered encode h m = and_then (attempt m) (\<lambda>outcome. ok (writePlatformResult encode h outcome))"

definition flag_json :: "string \<Rightarrow> Header \<Rightarrow> response" where
  "flag_json name h = writeJSON h 200 ''application/json'' (Some (enc_object [(name, enc_bool True)]))"

record ('w, 'key) interop_server =
  ins_hosted :: "('w, 'key) Platform"
  ins_service :: "'w http_handler"
  ins_protected :: "'w http_handler option \<Rightarrow> 'w http_handler"
  ins_serviceDID :: string

definition storeDocument :: "string \<Rightarrow> string" where
  "storeDocument serviceDID =
     enc_object [(''@context'', enc_array [enc_string ''https://www.w3.org/ns/did/v1'']), (''id'', enc_string serviceDID)]"

fun serve_route :: "(string \<Rightarrow> string) \<Rightarrow> ('w, 'key) interop_server \<Rightarrow> route \<Rightarrow> 'w http_handler" where
  "serve_route sha256 server ServiceRoute h request = ins_service server h request"
| "serve_route sha256 server ResourceRoute h request =
     ins_protected server (Some (\<lambda>h _. ok (flag_json ''available'' h))) h request"
| "serve_route sha256 server ProfileRoute h request =
     ins_protected server (Some (\<lambda>h _. ok (flag_json ''updated'' h))) h request"
| "serve_route sha256 server DiscoveryRoute h request =
     ok (writePlatformResult (Some \<circ> enc_discovery) h (Inr (Platform_Discovery (ins_hosted server))))"
| "serve_route sha256 server ListRoute h request =
     answered (Some \<circ> enc_list_response) h
       (Platform_List (ins_hosted server) (platformListQuery (url_Query (hrq_URL request))) (platformRequestContext request))"
| "serve_route sha256 server ProvisionRoute h request =
     (case decodeJSON (dec_struct fields_provision_request) \<lparr>prq_ServiceDID = []\<rparr> h request of
        Inl refused \<Rightarrow> ok refused
      | Inr body \<Rightarrow>
          answered (Some \<circ> enc_agent_identity) h
            (Platform_Provision sha256 (ins_hosted server) body (platformRequestContext request)))"
| "serve_route sha256 server (IdentityRoute identity) h request =
     answered (Some \<circ> enc_agent_identity) h
       (Platform_GetIdentity (ins_hosted server) identity (platformRequestContext request))"
| "serve_route sha256 server (LifecycleRoute identity) h request =
     (case decodeJSON (dec_struct fields_lifecycle_request) \<lparr>lrq_Status = []\<rparr> h request of
        Inl refused \<Rightarrow> ok refused
      | Inr body \<Rightarrow>
          answered (Some \<circ> enc_agent_identity) h
            (Platform_UpdateIdentity (ins_hosted server) identity body (platformRequestContext request)))"
| "serve_route sha256 server (SignRoute identity) h request =
     (case decodeJSON (dec_struct fields_sign_request) zero_sign_request h request of
        Inl refused \<Rightarrow> ok refused
      | Inr body \<Rightarrow>
          answered enc_sign_response h
            (Platform_Sign sha256 (ins_hosted server) identity body (platformRequestContext request)))"
| "serve_route sha256 server (DocumentRoute agent) h request =
     answered enc_did_document h (Platform_GetDIDDocument sha256 (ins_hosted server) agent)"
| "serve_route sha256 server StoreRoute h request =
     ok (writeJSON h 200 DIDMediaType (Some (storeDocument (ins_serviceDID server))))"
| "serve_route sha256 server HealthRoute h request = ok (flag_json ''ok'' h)"

definition interop_handler :: "(string \<Rightarrow> string) \<Rightarrow> 'w http_handler \<Rightarrow> ('w, 'key) interop_server \<Rightarrow> 'w http_handler" where
  "interop_handler sha256 net_http server h request =
     (case mux_route request of None \<Rightarrow> net_http h request | Some route \<Rightarrow> serve_route sha256 server route h request)"

text \<open>The server of an address; the environment may name another Service for the Platform to resolve.\<close>

definition newServer ::
  "(string \<Rightarrow> string) \<Rightarrow> 'w Platform_New.runtime \<Rightarrow> 'w Service_New.runtime \<Rightarrow> 'key jose \<Rightarrow> (go_error, 'w, 'key) act \<Rightarrow>
   ('key \<Rightarrow> 'key) \<Rightarrow> ('key \<Rightarrow> RawMessage result) \<Rightarrow> ('key keyring, 'w) part \<Rightarrow> (memoryServiceCredentialStore, 'w) part \<Rightarrow>
   (string \<Rightarrow> (go_error, 'w, http_response) act) \<Rightarrow> (RawMessage \<Rightarrow> 'key option) \<Rightarrow> ('key \<Rightarrow> bool) \<Rightarrow> (int \<Rightarrow> bool) \<Rightarrow>
   string \<Rightarrow> string \<Rightarrow> (go_error, 'w, ('w, 'key) interop_server) act" where
  "newServer sha256 prt rt jose generate public jwk keys credentials do_get key_of_jwk valid isPrint listen environment =
     (let baseURL = ''http://'' @ listen;
          serviceDID = ''did:web:'' @ replace_byte CHR '':'' ''%3A'' listen @ '':services:store'';
          platformServiceDID = (if environment = [] then serviceDID else environment) in
      and_then (newPlatform sha256 prt jose generate public jwk keys listen platformServiceDID) (\<lambda>hosted.
      case newService rt sha256 credentials do_get key_of_jwk valid jose baseURL serviceDID of
        Inl err \<Rightarrow> fail err
      | Inr protocol \<Rightarrow>
     (case NewHTTPHandler sha256 (Some protocol) \<lparr>hho_InspectCacheControl = [], hho_MaximumRequestBodyBytes = 0\<rparr> of
        Inl err \<Rightarrow> fail err
      | Inr handler \<Rightarrow>
     (case NewProtectedResourceMiddleware isPrint (Some protocol) baseURL of
        Inl err \<Rightarrow> fail err
      | Inr protected \<Rightarrow>
          ok \<lparr>ins_hosted = hosted, ins_service = HTTPHandler_ServeHTTP sha256 (Some handler), ins_protected = protected,
              ins_serviceDID = serviceDID\<rparr>))))"

section \<open>Requests over the wire\<close>

lemma first_value_encoded:
  assumes "encodes D t v" and "D \<le> max_nesting"
  shows "first_value (t, None) = Some t"
proof -
  have "skip_ws t = t" using skip_ws_head [of t "[]"] assms(1) by (simp add: encodes_def)
  moreover have "p_value (parse_fuel t) max_nesting (t @ []) = Some (v, [])"
    using assms by (simp add: encodes_def del: p_value.simps append_Nil2)
  ultimately show ?thesis by (simp add: first_value_def del: p_value.simps)
qed

text \<open>What an Agent asks a Platform for is what the server hands to its Platform.\<close>

lemma decode_request:
  assumes "members_encode 1 ms vs" and "ms \<noteq> []" and "dec_members fs ms zero = Some v" and "hrq_Body request = Some (enc_object ms, None)"
  shows "decodeJSON (dec_struct fs) zero h request = Inr v"
  using first_value_encoded [OF encodes_object [OF assms(1,2)]] dec_struct_object [OF assms(1,2), of fs zero] assms(3,4) nesting
  by (simp add: decodeJSON_def)

lemma provision_over_wire:
  assumes "valid_text 0 (prq_ServiceDID q)" and "hrq_Body request = Some (enc_provision_request q, None)"
  shows "serve_route sha256 server ProvisionRoute h request = answered (Some \<circ> enc_agent_identity) h
    (Platform_Provision sha256 (ins_hosted server) q (platformRequestContext request))"
proof -
  have "valid_text 0 ''service_did''" by code_simp
  then obtain vs where vs: "members_encode 1 [(''service_did'', enc_string (prq_ServiceDID q))] vs"
    using assms(1) by (metis members_encode_rules(1,4))
  have "decodeJSON (dec_struct fields_provision_request) \<lparr>prq_ServiceDID = []\<rparr> h request = Inr q"
    using assms by (intro decode_request [OF vs]) (simp_all add: enc_provision_request_def fields_provision_request_def field_lookup)
  then show ?thesis by simp
qed

lemma sign_over_wire:
  assumes texts: "list_all (valid_text 0) [sgq_JWTID q, sgq_LifetimeSeconds q, sgq_Operation q, sgq_Resource q, sgq_ServiceDID q]"
    and "sgq_PlatformContext q = None" and "enc_sign_request q = Some body" and "hrq_Body request = Some (body, None)"
  shows "serve_route sha256 server (SignRoute k) h request = answered enc_sign_response h
    (Platform_Sign sha256 (ins_hosted server) k q (platformRequestContext request))"
proof -
  let ?ms = "[(''jti'', enc_string (sgq_JWTID q))] @ omit_empty ''lifetime_seconds'' (sgq_LifetimeSeconds q) @
    [(''op'', enc_string (sgq_Operation q))] @ omit_empty ''resource'' (sgq_Resource q) @ [(''service_did'', enc_string (sgq_ServiceDID q))]"
  have names: "list_all (valid_text 0) [''jti'', ''lifetime_seconds'', ''op'', ''resource'', ''service_did'']" by code_simp
  have "\<exists>vs. members_encode 1 ?ms vs"
    by (cases "sgq_LifetimeSeconds q = []"; cases "sgq_Resource q = []"; simp only: omit_empty_def if_True if_False append_Cons append_Nil)
      (intro members_encode_rules; use names texts in simp)+
  then obtain vs where vs: "members_encode 1 ?ms vs" ..
  have "dec_members fields_sign_request ?ms zero_sign_request = Some q"
    using texts assms(2) by (cases "sgq_LifetimeSeconds q = []"; cases "sgq_Resource q = []")
      (simp_all add: omit_empty_def fields_sign_request_def field_lookup zero_sign_request_def)
  then have "decodeJSON (dec_struct fields_sign_request) zero_sign_request h request = Inr q"
    using assms(2-4) by (intro decode_request [OF vs]) (simp_all add: enc_sign_request_def omit_empty_raw_def)
  then show ?thesis by simp
qed

section \<open>Strangers\<close>

fun managing :: "route \<Rightarrow> bool" where
  "managing ListRoute = True"
| "managing ProvisionRoute = True"
| "managing (IdentityRoute k) = True"
| "managing (LifecycleRoute k) = True"
| "managing (SignRoute k) = True"
| "managing _ = False"

text \<open>A call that answers the same problem in every world whose context stands, and changes none.\<close>

definition refuses :: "('w \<Rightarrow> bool) \<Rightarrow> (go_error, 'w, response) act \<Rightarrow> bool" where
  "refuses ctxDone m \<longleftrightarrow>
     (\<exists>refusal. 400 \<le> rw_Status refusal \<and> (\<forall>w. \<not> ctxDone w \<longrightarrow> m w = (Inr refusal, w)))"

lemma refuses_problem:
  assumes "\<And>w. \<not> ctxDone w \<Longrightarrow> m w = (Inr (Platform_Core.problemResult zero status code title), w)" and "400 \<le> status"
  shows "refuses ctxDone (answered encode h m)"
proof -
  have "400 \<le> rw_Status (writePlatformResult encode h (Inr (Platform_Core.problemResult zero status code title)))"
    using assms(2) by (simp add: writePlatformResult_def Platform_Core.problemResult_def writeJSON_def Let_def)
  moreover have "answered encode h m w = (Inr (writePlatformResult encode h (Inr (Platform_Core.problemResult zero status code title))), w)"
    if "\<not> ctxDone w" for w
    using assms(1) [OF that] by (simp add: answered_def and_then_def attempt_def)
  ultimately show ?thesis by (auto simp: refuses_def)
qed

lemma refuses_branches:
  "(b \<Longrightarrow> refuses ctxDone (answered encode h m)) \<Longrightarrow> (\<not> b \<Longrightarrow> refuses ctxDone (answered encode h n)) \<Longrightarrow>
   refuses ctxDone (answered encode h (if b then m else n))"
  "(\<And>e. x = Inl e \<Longrightarrow> refuses ctxDone (answered encode h (f e))) \<Longrightarrow>
   (\<And>y. x = Inr y \<Longrightarrow> refuses ctxDone (answered encode h (g y))) \<Longrightarrow>
   refuses ctxDone (answered encode h (case x of Inl e \<Rightarrow> f e | Inr y \<Rightarrow> g y))"
  by (simp_all split: sum.split)

lemma refuses_undecoded:
  assumes "\<And>v. decodeJSON target zero h request = Inr v \<Longrightarrow> refuses ctxDone (m v)"
  shows "refuses ctxDone (case decodeJSON target zero h request of Inl refused \<Rightarrow> ok refused | Inr v \<Rightarrow> m v)"
proof (cases "decodeJSON target zero h request")
  case (Inl refused)
  then have "rw_Status refused = 400" by (auto simp: decodeJSON_def http_Error_def split: option.splits)
  then show ?thesis using Inl by (simp add: refuses_def) (rule exI [of _ refused], simp)
next
  case (Inr v)
  then show ?thesis using assms by simp
qed

lemma authorized_stranger:
  assumes "rqc_Principal context = []" and "plt_authorizer platform = interopAuthorizer_Authorize"
    and "plt_identityStore platform = NewMemoryIdentityStore ctxDone p" and "\<not> ctxDone w"
  shows "Platform_authorizedIdentity platform k q context w = (Inr None, w)"
  using assms
  by (simp add: Platform_authorizedIdentity_def NewMemoryIdentityStore_def memoryIdentityStore_GetIdentity_def unless_done_def
      and_then_def observe_def interopAuthorizer_Authorize_def split: option.splits)

lemma stranger_refuses:
  assumes hosted: "newPlatform sha256 prt jose generate public jwk keys host serviceDID w0 = (Inr (ins_hosted server), w1)"
    and absent: "header_Get (hrq_Header request) ''Authorization'' \<noteq> platformAuthorization"
    and managing: "managing route"
  shows "refuses (prt_ctxDone prt) (serve_route sha256 server route h request)"
proof -
  note s = stranger(1) [OF absent] newPlatform_parts(1,2) [OF hosted]
  note authorized = authorized_stranger [OF s]
  show ?thesis
  proof (cases route)
    case ListRoute
    then show ?thesis
      using s unfolding ListRoute serve_route.simps Platform_List_def
      by (intro refuses_branches) (auto intro!: refuses_problem simp: Let_def interopAuthorizer_Authorize_def)
  next
    case ProvisionRoute
    then show ?thesis
      using s unfolding ProvisionRoute serve_route.simps Platform_Provision_def
      by (intro refuses_undecoded refuses_branches) (auto intro!: refuses_problem)
  next
    case (IdentityRoute k)
    then show ?thesis
      using authorized by (auto intro!: refuses_problem simp: Platform_GetIdentity_def and_then_def)
  next
    case (LifecycleRoute k)
    then show ?thesis
      using authorized unfolding LifecycleRoute serve_route.simps Platform_UpdateIdentity_def
      by (intro refuses_undecoded refuses_branches) (auto intro!: refuses_problem simp: and_then_def)
  next
    case (SignRoute k)
    then show ?thesis
      using s unfolding SignRoute serve_route.simps Platform_Sign_def
      by (intro refuses_undecoded refuses_branches) (auto intro!: refuses_problem)
  qed (use managing in simp_all)
qed

section \<open>Properties\<close>

text \<open>
  C40. Whoever does not hold the token changes nothing at the server's Platform and learns nothing of its identities. A
  request without it, on every route that lists, makes, shows, updates or signs for identities, gets one refusal that
  is the same in every world whose context stands, whatever identities there are, and leaves that world as it was.
\<close>

theorem stranger_changes_nothing:
  assumes "newPlatform sha256 prt jose generate public jwk keys host serviceDID w0 = (Inr (ins_hosted server), w1)"
    and "header_Get (hrq_Header request) ''Authorization'' \<noteq> platformAuthorization"
    and "mux_route request = Some route" and "managing route"
  shows "\<exists>refusal. 400 \<le> rw_Status refusal \<and>
    (\<forall>w. \<not> prt_ctxDone prt w \<longrightarrow> interop_handler sha256 net_http server h request w = (Inr refusal, w))"
  using stranger_refuses [OF assms(1,2,4)] assms(3) by (simp add: refuses_def interop_handler_def)

definition stranger_example :: http_request where
  "stranger_example = \<lparr>hrq_Method = ''GET'', hrq_URL = empty_url\<lparr>url_Path := ''/platform/agent-identities''\<rparr>,
     hrq_Header = Some [(''Authorization'', [''Bearer other''])], hrq_Body = None, hrq_Principal = None\<rparr>"

lemma interop_example_platform:
  "case newPlatform (\<lambda>_. []) platform_runtime_example paper_jose (ok ''k'') (\<lambda>key. key) Inr
     \<lparr>part_get = (\<lambda>_. []), part_put = (\<lambda>_ w. w)\<rparr> ''p.example'' ''did:web:s.example'' () of
     (Inl e, _) \<Rightarrow> False | (Inr p, _) \<Rightarrow> True"
  by code_simp

lemma stranger_example_route: "mux_route stranger_example = Some ListRoute"
  by code_simp

theorem stranger_changes_nothing_witness:
  "\<exists>(server :: (unit, string) interop_server) refusal. 400 \<le> rw_Status refusal \<and>
     interop_handler (\<lambda>_. []) (\<lambda>_ _. fail (External [])) server (Some []) stranger_example () = (Inr refusal, ())"
proof -
  obtain platform where p: "newPlatform (\<lambda>_. []) platform_runtime_example paper_jose (ok ''k'') (\<lambda>key. key) Inr
     \<lparr>part_get = (\<lambda>_. []), part_put = (\<lambda>_ w. w)\<rparr> ''p.example'' ''did:web:s.example'' () = (Inr platform, ())"
    using run_ok [OF interop_example_platform] by auto
  define server :: "(unit, string) interop_server" where
    "server = \<lparr>ins_hosted = platform, ins_service = (\<lambda>_ _. fail (External [])), ins_protected = (\<lambda>_ _ _. fail (External [])),
       ins_serviceDID = []\<rparr>"
  have "header_Get (hrq_Header stranger_example) ''Authorization'' \<noteq> platformAuthorization" by code_simp
  moreover have "ins_hosted server = platform" by (simp add: server_def)
  ultimately have "\<exists>refusal. 400 \<le> rw_Status refusal \<and> (\<forall>w. \<not> prt_ctxDone platform_runtime_example w \<longrightarrow>
      interop_handler (\<lambda>_. []) (\<lambda>_ _. fail (External [])) server (Some []) stranger_example w = (Inr refusal, w))"
    using p by (intro stranger_changes_nothing [OF _ _ stranger_example_route]) simp_all
  then show ?thesis by (auto simp: platform_runtime_example_def)
qed

end
