(* ===== verification/Interop_Agent.thy ===== *)
theory Interop_Agent
  imports Interop_Platform Agent_Provider Agent_Polling
begin

text \<open>
  The Agent that \<open>cmd/aep-interop\<close> runs against a Platform and a Service: it inspects, enrolls, is granted an API key,
  fetches a resource with it, revokes it, and reports only if no way to authenticate is left. Parsing the flags is
  left out; what the process allocates is the argument of \<open>New\<close>, and the context has no deadline. The quoted values
  in the texts of errors are left out.
\<close>

record agentResult =
  agr_Agent :: string
  agr_CredentialMode :: string
  agr_Enrollment :: string
  agr_Platform :: string
  agr_ProtectedResourceStatus :: int
  agr_Revoked :: bool
  agr_Service :: string

definition enc_agent_result :: "agentResult \<Rightarrow> string" where
  "enc_agent_result v =
     enc_object [(''agent'', enc_string (agr_Agent v)), (''credential_mode'', enc_string (agr_CredentialMode v)),
       (''enrollment'', enc_string (agr_Enrollment v)), (''platform'', enc_string (agr_Platform v)),
       (''protected_resource_status'', enc_int (agr_ProtectedResourceStatus v)), (''revoked'', enc_bool (agr_Revoked v)),
       (''service'', enc_string (agr_Service v))]"

definition no_authentication_options :: AuthenticationOptions where
  "no_authentication_options = \<lparr>aho_AllowedMethods = None, aho_Carrier = [], aho_ClientAssertionOnly = False,
     aho_CredentialID = [], aho_GrantType = [], aho_Resource = None\<rparr>"

text \<open>The identity provider and the client.\<close>

definition interop_client ::
  "'w Allocation \<Rightarrow> (platformDiscoveryEntry option, 'w) part \<Rightarrow> nat \<Rightarrow> string \<Rightarrow> agent_error + 'w Client" where
  "interop_client world discovery fuel platformURL =
     (case NewPlatformIdentityProvider world discovery
             \<lparr>pio_AllowInsecureLoopback = True, pio_AuthenticationHeaders = None, pio_Authorization = platformAuthorization,
              pio_Clock = None, pio_HTTPClient = None, pio_IdempotencyKey = None, pio_MaximumResponseBytes = 0,
              pio_PendingSignResolver = None, pio_PlatformContext = None, pio_PlatformURL = platformURL,
              pio_RequestTimeout = 0\<rparr> of
        Inl err \<Rightarrow> Inl err
      | Inr provider \<Rightarrow>
          New world
            \<lparr>ago_AllowInsecureLoopback = True, ago_AssertionLifetime = 0, ago_Clock = None, ago_CommandHTTPClient = None,
             ago_CredentialStore = None, ago_HTTPClient = None, ago_IdentityProvider = Some (platform_provider fuel provider),
             ago_IdentityStore = None, ago_IdempotencyKeys = None, ago_InspectCache = None, ago_InspectHTTPClient = None,
             ago_JTI = None, ago_MaximumResponseBytes = 0, ago_RequestTimeout = 0\<rparr>)"

text \<open>The credential of a Grant, if it is an API key.\<close>

definition granted_key :: "GrantResult CommandResult \<Rightarrow> APIKeyGrantResponse option" where
  "granted_key granted = (case grr_Credential (cmr_Body granted) of Some (APIKey key) \<Rightarrow> Some key | _ \<Rightarrow> None)"

text \<open>The request for the resource, from \<open>http.NewRequestWithContext\<close>.\<close>

definition resource_request :: "URL \<Rightarrow> 'w ResourceRequest option" where
  "resource_request resource =
     map_option (\<lambda>out. \<lparr>rsq_Method = out_Method out, rsq_URL = Some (out_URL out), rsq_Header = out_Header out, rsq_Trailer = None,
       rsq_Body = False, rsq_GetBody = None\<rparr>) (new_request ''GET'' (url_String resource) [])"

text \<open>From the granted key to the report.\<close>

definition use_key ::
  "'w Client \<Rightarrow> 'w Session \<Rightarrow> URL \<Rightarrow> 'w ResourceRequest \<Rightarrow> APIKeyGrantResponse \<Rightarrow> ('w \<times> SessionState, int) agent_act" where
  "use_key client session resource request credential =
     and_then (in_world (Client_FetchProtectedResource client None (Some request)
        \<lparr>pro_Authentication = no_authentication_options\<lparr>aho_CredentialID := key_CredentialID credential, aho_GrantType := GrantTypeAPIKey\<rparr>,
         pro_AdditionalAuthenticationHeaders = None, pro_MaximumRedirects = 0\<rparr>)) (\<lambda>response.
     if in_StatusCode response \<noteq> 200 then fail (failure ''Node protected resource returned HTTP'')
     else
     and_then (Session_Revoke session None \<lparr>rvo_AllGrantTypes = False, rvo_CredentialID = key_CredentialID credential,
        rvo_GrantType = GrantTypeAPIKey, rvo_IdempotencyKey = []\<rparr>) (\<lambda>_.
     and_then (attempt (Session_AuthenticationHeaders session None (no_authentication_options\<lparr>aho_Resource := Some resource\<rparr>))) (\<lambda>left.
     if (case left of Inl err \<Rightarrow> errors_Is err NoAuthenticationMethod | Inr _ \<Rightarrow> False) then ok (in_StatusCode response)
     else fail (failure ''revoked Node credential remained selectable''))))"

definition run_session :: "'w Client \<Rightarrow> 'w Session \<Rightarrow> string \<Rightarrow> ('w \<times> SessionState, agentResult) agent_act" where
  "run_session client session serviceURL =
     and_then (in_world (Session_Inspect session None)) (\<lambda>inspection.
     if \<not> has_prefix (si_DID (insp_Service (insn_Document inspection))) ''did:web:''
     then fail (failure ''Node Service did not advertise a did:web Service DID'')
     else
     and_then (Session_Enroll session None \<lparr>eno_AcknowledgedDocumentIDs = None, eno_Claims = None, eno_IdempotencyKey = []\<rparr>) (\<lambda>enrolled.
     if ers_Status (cmr_Body enrolled) \<noteq> AgentActive then fail (failure ''Node Service enrollment returned'')
     else
     and_then (Session_Grant session None \<lparr>gro_GrantType = GrantTypeAPIKey, gro_IdempotencyKey = [], gro_PreferredGrantTypes = [],
        gro_RequestedScopes = [''read:resource'', ''write:profile'']\<rparr>) (\<lambda>granted.
     case granted_key granted of
       None \<Rightarrow> fail (failure ''Node Service Grant returned'')
     | Some credential \<Rightarrow>
     (case url_Parse (serviceURL @ ''/api/resource'') of
        None \<Rightarrow> fail (Plain (Library ''net/url''))
      | Some resource \<Rightarrow>
     (case resource_request resource of
        None \<Rightarrow> fail (Plain (Library ''net/http''))
      | Some request \<Rightarrow>
     and_then (use_key client session resource request credential) (\<lambda>status.
     ok \<lparr>agr_Agent = ''go'', agr_CredentialMode = grr_GrantType (cmr_Body granted),
         agr_Enrollment = ers_Status (cmr_Body enrolled), agr_Platform = ''node'', agr_ProtectedResourceStatus = status,
         agr_Revoked = True, agr_Service = ''node''\<rparr>))))))"

definition runAgent ::
  "'w Allocation \<Rightarrow> (platformDiscoveryEntry option, 'w) part \<Rightarrow> nat \<Rightarrow> string \<Rightarrow> string \<Rightarrow> ('w, string) agent_act" where
  "runAgent world discovery fuel platformURL serviceURL =
     (if platformURL = [] \<or> serviceURL = [] then fail (failure ''agent requires platform-url and service-url'')
      else case interop_client world discovery fuel platformURL of
        Inl err \<Rightarrow> fail err
      | Inr client \<Rightarrow>
     (case Client_Service client serviceURL of
        Inl err \<Rightarrow> fail err
      | Inr session \<Rightarrow>
          and_then (in_new_session (run_session client session serviceURL)) (\<lambda>result.
          ok (enc_agent_result result @ [CHR 0x0A]))))"

section \<open>What a report says\<close>

lemma yields_weaken: "yields P m \<Longrightarrow> (\<And>x. P x \<Longrightarrow> Q x) \<Longrightarrow> yields Q m"
  unfolding yields_def by blast

lemma executed_parses:
  "yields (\<lambda>result. \<exists>data. parse data = Inr (cmr_Body result)) (executeCommand session c called command verb body key parse)"
  unfolding executeCommand_def Let_def
  by (intro yields_intros) (auto simp: command_outcome_def Let_def split: sum.splits if_splits)

lemma parsed_type: "parse_granted grantType data = Inr granted \<Longrightarrow> grr_GrantType granted = grantType"
  unfolding parse_granted_def
  by (cases "ParseBuiltInGrantResponse grantType data") (auto split: if_splits option.splits)

lemma yields_in_new_session:
  assumes "yields P m"
  shows "yields P (in_new_session m)"
  unfolding yields_def in_new_session_def
proof (intro allI impI)
  fix w x w'
  assume "(case m (w, new_session_state) of (r, w') \<Rightarrow> (r, fst w')) = (Inr x, w')"
  then have "m (w, new_session_state) = (Inr x, snd (m (w, new_session_state)))" by (auto split: prod.splits)
  then show "P x" by (rule yieldsD [OF assms])
qed

lemma granted_type:
  assumes "gro_GrantType options \<noteq> []"
  shows "yields (\<lambda>granted. grr_GrantType (cmr_Body granted) = gro_GrantType options) (Session_Grant session c options)"
proof -
  have "yields (\<lambda>granted. grr_GrantType (cmr_Body granted) = grantType)
      (in_world (executeCommand session c called CommandGrant verb body key (parse_granted grantType)))" for called verb body key grantType
    by (intro yields_in_world yields_weaken [OF executed_parses]) (auto dest: parsed_type)
  note granted = yields_then [OF this]
  have selected: "selectGrantType document (gro_GrantType options) preferred = Inr grantType \<Longrightarrow> grantType = gro_GrantType options"
    for document preferred grantType
    using assms by (auto simp: selectGrantType_def Let_def split: if_splits)
  show ?thesis
    unfolding Session_Grant_def Let_def
    by (intro yields_and_then yields_fail yields_case_sum yields_case_option yields_case_prod granted) (auto intro!: yields_intros dest: selected)
qed

text \<open>There is one report: an Agent that prints it was enrolled, used an API key once, revoked it, and has no other.\<close>

lemma one_report:
  "yields (\<lambda>out. out = enc_agent_result \<lparr>agr_Agent = ''go'', agr_CredentialMode = GrantTypeAPIKey, agr_Enrollment = AgentActive,
       agr_Platform = ''node'', agr_ProtectedResourceStatus = 200, agr_Revoked = True, agr_Service = ''node''\<rparr> @ [CHR 0x0A])
     (runAgent world discovery fuel platformURL serviceURL)"
proof -
  let ?report = "\<lparr>agr_Agent = ''go'', agr_CredentialMode = GrantTypeAPIKey, agr_Enrollment = AgentActive,
       agr_Platform = ''node'', agr_ProtectedResourceStatus = 200, agr_Revoked = True, agr_Service = ''node''\<rparr>"
  have used: "yields (\<lambda>status. status = 200) (use_key client session resource request credential)"
    for client :: "'a Client" and session resource request credential
    unfolding use_key_def by (intro yields_intros) simp
  have "yields (\<lambda>result. result = ?report) (run_session client session serviceURL)"
    for client :: "'a Client" and session
    unfolding run_session_def
    by (intro yields_and_then yields_if yields_fail yields_then [OF granted_type] yields_case_option
        yields_then [OF used] yields_ok) simp_all
  note one = yields_then [OF yields_in_new_session [OF this]]
  show ?thesis unfolding runAgent_def by (intro yields_if yields_fail yields_case_sum one yields_ok) simp
qed

end
