(* ===== verification/Conformance.thy ===== *)
theory Conformance
  imports Agent_Openapi Platform_Types
begin

text \<open>
  The conformance adapter (cmd/aep-conformance-adapter): its loop over the requests of a test suite, the
  decoding of their fields, and the vectors it decides by calling the protocol package alone. A vector is
  decided by a Boolean or an error.
\<close>

section \<open>Requests and responses\<close>

type_synonym raw_object = "(string \<times> RawMessage) slice"

record adapterRequest =
  adr_Expected :: raw_object
  adr_Input :: raw_object
  adr_Expectation :: string
  adr_Profile :: string
  adr_Role :: string
  adr_Sequence :: int
  adr_Category :: string
  adr_ID :: string

definition zero_adapter_request :: adapterRequest where
  "zero_adapter_request = \<lparr>adr_Expected = None, adr_Input = None, adr_Expectation = [], adr_Profile = [], adr_Role = [],
     adr_Sequence = 0, adr_Category = [], adr_ID = []\<rparr>"

definition fields_adapter_request :: "adapterRequest fields" where
  "fields_adapter_request =
     [(''case'', dec_struct
         [(''expected'', on_field (dec_map dec_raw []) adr_Expected (\<lambda>x. adr_Expected_update (\<lambda>_. x))),
          (''input'', on_field (dec_map dec_raw []) adr_Input (\<lambda>x. adr_Input_update (\<lambda>_. x)))]),
      (''expectation'', on_field dec_string adr_Expectation (\<lambda>x. adr_Expectation_update (\<lambda>_. x))),
      (''profile'', on_field dec_string adr_Profile (\<lambda>x. adr_Profile_update (\<lambda>_. x))),
      (''role'', on_field dec_string adr_Role (\<lambda>x. adr_Role_update (\<lambda>_. x))),
      (''sequence'', on_field dec_int adr_Sequence (\<lambda>x. adr_Sequence_update (\<lambda>_. x))),
      (''vector'', dec_struct
         [(''category'', on_field dec_string adr_Category (\<lambda>x. adr_Category_update (\<lambda>_. x))),
          (''id'', on_field dec_string adr_ID (\<lambda>x. adr_ID_update (\<lambda>_. x)))])]"

record adapterResponse =
  ars_Message :: string
  ars_ProtocolVersion :: string
  ars_Sequence :: int
  ars_Status :: string

definition enc_adapter_response :: "adapterResponse \<Rightarrow> string" where
  "enc_adapter_response v =
     enc_object (omit_empty ''message'' (ars_Message v) @
       [(''protocol_version'', enc_string (ars_ProtocolVersion v)), (''sequence'', enc_int (ars_Sequence v)),
        (''status'', enc_string (ars_Status v))])"

definition truncate_text :: "string \<Rightarrow> int \<Rightarrow> string" where
  "truncate_text val maximum = (if int (length val) \<le> maximum then val else take (nat maximum) val)"

text \<open>The response to a request, from what its role decided; an error is its message.\<close>

definition respond :: "adapterRequest \<Rightarrow> string + bool \<Rightarrow> adapterResponse" where
  "respond request decided =
     (let response = \<lparr>ars_Message = [], ars_ProtocolVersion = ''1'', ars_Sequence = adr_Sequence request, ars_Status = []\<rparr> in
      case decided of
        Inl message \<Rightarrow> response\<lparr>ars_Status := ''failed'', ars_Message := truncate_text message 1024\<rparr>
      | Inr passed \<Rightarrow>
          if passed then response\<lparr>ars_Status := ''passed''\<rparr>
          else response\<lparr>ars_Status := ''failed'', ars_Message := ''Public Go API result did not match the vector''\<rparr>)"

text \<open>
  The lines of the standard input: what is written for them, and what ends the process if something does.
  The text of a decoding error is left open.
\<close>

fun serve :: "string \<Rightarrow> (adapterRequest \<Rightarrow> string + bool) \<Rightarrow> string list \<Rightarrow> string list \<times> string option" where
  "serve role decide [] = ([], None)"
| "serve role decide (line # lines) =
     (if trim_space line = [] then serve role decide lines
      else case dec_struct fields_adapter_request line zero_adapter_request of
        None \<Rightarrow> ([], Some ''encoding/json'')
      | Some request \<Rightarrow>
          if adr_Role request \<noteq> role then ([], Some ''adapter request role does not match process role'')
          else apfst (Cons (enc_adapter_response (respond request (decide request)))) (serve role decide lines))"

section \<open>Fields of a vector\<close>

definition quoted :: "string \<Rightarrow> string" where
  "quoted name = CHR 0x22 # name @ [CHR 0x22]"

definition requiredField :: "'a decoder \<Rightarrow> 'a \<Rightarrow> raw_object \<Rightarrow> string \<Rightarrow> 'a result" where
  "requiredField target zero object name =
     (case map_of (elems object) name of
        None \<Rightarrow> Inl (Text (''required field '' @ quoted name @ '' is missing''))
      | Some raw \<Rightarrow>
          (case target raw zero of
             None \<Rightarrow> Inl (Wrapped (''decode field '' @ quoted name) (Library ''encoding/json''))
           | Some v \<Rightarrow> Inr v))"

text \<open>A value, and whether there is one.\<close>

definition optionalField :: "'a decoder \<Rightarrow> 'a \<Rightarrow> raw_object \<Rightarrow> string \<Rightarrow> ('a \<times> bool) result" where
  "optionalField target zero object name =
     (case map_of (elems object) name of
        None \<Rightarrow> Inr (zero, False)
      | Some raw \<Rightarrow>
          (case target raw zero of
             None \<Rightarrow> Inl (Wrapped (''decode field '' @ quoted name) (Library ''encoding/json''))
           | Some v \<Rightarrow> Inr (v, True)))"

definition rawField :: "raw_object \<Rightarrow> string \<Rightarrow> RawMessage result" where
  "rawField object name =
     (case map_of (elems object) name of
        None \<Rightarrow> Inl (Text (''required field '' @ quoted name @ '' is missing''))
      | Some raw \<Rightarrow> Inr raw)"

text \<open>An early return of the error; and a field of the map that may be missing, decoded without a check.\<close>

definition demand :: "'a result \<Rightarrow> ('a \<Rightarrow> 'b result) \<Rightarrow> 'b result" where
  "demand r f = (case r of Inl err \<Rightarrow> Inl err | Inr v \<Rightarrow> f v)"

definition member :: "raw_object \<Rightarrow> string \<Rightarrow> RawMessage" where
  "member object name = (case map_of (elems object) name of None \<Rightarrow> [] | Some raw \<Rightarrow> raw)"

definition unmarshal :: "'a decoder \<Rightarrow> 'a \<Rightarrow> RawMessage \<Rightarrow> 'a result" where
  "unmarshal target zero raw = (case target raw zero of None \<Rightarrow> Inl (Library ''encoding/json'') | Some v \<Rightarrow> Inr v)"

definition validExpectation :: "adapterRequest \<Rightarrow> bool result" where
  "validExpectation request = requiredField dec_bool False (adr_Expected request) ''valid''"

abbreviation succeeds :: "'a result \<Rightarrow> bool" where
  "succeeds r \<equiv> (case r of Inl _ \<Rightarrow> False | Inr _ \<Rightarrow> True)"

definition parseValidity :: "adapterRequest \<Rightarrow> string \<Rightarrow> (string \<Rightarrow> 'a result) \<Rightarrow> bool result" where
  "parseValidity request name parse =
     demand (rawField (adr_Input request) name) (\<lambda>raw.
     demand (validExpectation request) (\<lambda>expected.
       Inr (succeeds (parse raw) = expected)))"

text \<open>\<open>json.Marshal\<close> of the members of a vector; a nil map is null.\<close>

definition marshal_object :: "raw_object \<Rightarrow> string option" where
  "marshal_object object = (case object of None \<Rightarrow> Some ''null'' | Some ms \<Rightarrow> enc_raw_map ms)"

section \<open>Vectors of the parsers\<close>

definition claimValueVectors :: "string list" where
  "claimValueVectors = [''forward-compatible-address'', ''invalid-address'', ''invalid-birthdate'', ''invalid-country-shape'',
     ''invalid-email-domain'', ''invalid-email-dot-string'', ''invalid-email-format'', ''invalid-empty-email'',
     ''invalid-mobile'', ''invalid-value-type'', ''minimal-email'', ''quoted-email'']"

definition inspectVectors :: "string list" where
  "inspectVectors = [''authenticate-command-prohibited'', ''authenticated-command-without-identity-method'',
     ''authentication-method-limit'', ''command-without-inspect'', ''forward-compatible-advertisements'',
     ''grant-without-grant-types'', ''invalid-advertisement-identifiers'', ''invalid-openapi-reference'',
     ''missing-signing-algorithm'']"

text \<open>Whether a vector is one of these, and what is decided if it is.\<close>

definition evaluateParsers :: "adapterRequest \<Rightarrow> bool result option" where
  "evaluateParsers request =
     (if adr_ID request \<in> set claimValueVectors then Some (parseValidity request ''claim_values'' ParseClaimValues)
      else if adr_ID request \<in> set inspectVectors then Some (parseValidity request ''document'' ParseInspectDocument)
      else None)"

definition dec_case :: "string \<Rightarrow> (string \<times> bool) decoder" where
  "dec_case name =
     dec_struct [(name, on_field dec_raw fst (\<lambda>x p. (x, snd p))), (''valid'', on_field dec_bool snd (\<lambda>x p. (fst p, x)))]"

definition evaluateProblemDetailsValidation :: "adapterRequest \<Rightarrow> bool result" where
  "evaluateProblemDetailsValidation request =
     demand (requiredField (dec_slice (dec_case ''body'') ([], False)) None (adr_Input request) ''cases'') (\<lambda>cases.
       Inr (list_all (\<lambda>(body, valid). succeeds (ParseProblemDetails body) = valid) (elems cases)))"

definition evaluateExpectedDocument :: "adapterRequest \<Rightarrow> bool result" where
  "evaluateExpectedDocument request =
     (case marshal_object (adr_Expected request) of
        None \<Rightarrow> Inl (Library ''encoding/json'')
      | Some raw \<Rightarrow> Inr (succeeds (ParseInspectDocument raw)))"

definition evaluateDefaultEndpointBase :: "adapterRequest \<Rightarrow> bool result" where
  "evaluateDefaultEndpointBase request =
     demand (rawField (adr_Expected request) ''document'') (\<lambda>raw.
       case ParseInspectDocument raw of
         Inl _ \<Rightarrow> Inr False
       | Inr document \<Rightarrow>
           demand (requiredField dec_string [] (adr_Expected request) ''endpoint_base'') (\<lambda>expected.
             Inr (case NormalizeEndpointBase (http_EndpointBase (insp_HTTP document)) of
                    Inl _ \<Rightarrow> False
                  | Inr endpointBase \<Rightarrow> endpointBase = expected)))"

record versionCase =
  vc_Compatible :: bool
  vc_Received :: string
  vc_Supported :: string
  vc_Valid :: bool

definition dec_version_case :: "versionCase decoder" where
  "dec_version_case = dec_struct
     [(''compatible'', on_field dec_bool vc_Compatible (\<lambda>x. vc_Compatible_update (\<lambda>_. x))),
      (''received'', on_field dec_string vc_Received (\<lambda>x. vc_Received_update (\<lambda>_. x))),
      (''supported'', on_field dec_string vc_Supported (\<lambda>x. vc_Supported_update (\<lambda>_. x))),
      (''valid'', on_field dec_bool vc_Valid (\<lambda>x. vc_Valid_update (\<lambda>_. x)))]"

text \<open>The adapter's own pattern of a version.\<close>

definition received_pattern :: rx where
  "received_pattern = Seq (Class (in_range 49 57)) (Seq (Many (Class is_digit)) (Seq (lit ''.'') (plus_rx (Class is_digit))))"

definition version_case_holds :: "versionCase \<Rightarrow> bool" where
  "version_case_holds item \<longleftrightarrow>
     (let supported = (if vc_Supported item = [] then Version else vc_Supported item);
          valid = full_match received_pattern (vc_Received item);
          compatible = (valid \<and> IsVersionCompatible (vc_Received item) supported) in
      compatible = vc_Compatible item \<and> valid = vc_Valid item)"

definition evaluateProtocolVersion :: "adapterRequest \<Rightarrow> bool result" where
  "evaluateProtocolVersion request =
     demand (requiredField (dec_slice dec_version_case \<lparr>vc_Compatible = False, vc_Received = [], vc_Supported = [], vc_Valid = False\<rparr>)
               None (adr_Expected request) ''cases'') (\<lambda>cases.
       Inr (list_all version_case_holds (elems cases)))"

definition evaluateServiceDIDResolution :: "adapterRequest \<Rightarrow> bool result" where
  "evaluateServiceDIDResolution request =
     demand (requiredField dec_string [] (adr_Input request) ''did'') (\<lambda>did.
     demand (requiredField dec_string [] (adr_Expected request) ''document_url'') (\<lambda>expected.
     demand (DIDWebDocumentURL did) (\<lambda>resolved.
       Inr (url_String resolved = expected))))"

definition evaluateUnknownRequiredClaim :: "adapterRequest \<Rightarrow> bool result" where
  "evaluateUnknownRequiredClaim request =
     demand (requiredField (dec_slice dec_string []) None (adr_Input request) ''required'') (\<lambda>required.
     demand (requiredField (dec_slice dec_string []) None (adr_Input request) ''understood'') (\<lambda>understood.
     demand (requiredField dec_bool False (adr_Expected request) ''can_satisfy'') (\<lambda>expected.
       Inr (cse_CanSatisfyRequired (EvaluateClaimSupport
              (Some \<lparr>ic_Required = required, ic_Preferred = None, ic_Optional = None\<rparr>) (elems understood)) = expected))))"

section \<open>Vectors of the operations\<close>

text \<open>The part of \<open>evaluateRevokeRequest\<close> that decides a vector with an expected validity.\<close>

definition revoke_request_validity :: "adapterRequest \<Rightarrow> bool result" where
  "revoke_request_validity request =
     (case marshal_object (adr_Input request) of
        None \<Rightarrow> Inl (Library ''encoding/json'')
      | Some encoded \<Rightarrow>
          demand (unmarshal dec_bool True (member (adr_Expected request) ''valid'')) (\<lambda>expectedValid.
            Inr (succeeds (ParseRevokeRequest encoded) = expectedValid)))"

record expectedCarrier =
  ec_Carrier :: string
  ec_Credentials :: string
  ec_Scheme :: string

definition dec_carrier :: "expectedCarrier decoder" where
  "dec_carrier = dec_struct
     [(''carrier'', on_field dec_string ec_Carrier (\<lambda>x. ec_Carrier_update (\<lambda>_. x))),
      (''credentials'', on_field dec_string ec_Credentials (\<lambda>x. ec_Credentials_update (\<lambda>_. x))),
      (''scheme'', on_field dec_string ec_Scheme (\<lambda>x. ec_Scheme_update (\<lambda>_. x)))]"

definition carrier_round_trip :: "expectedCarrier \<Rightarrow> bool" where
  "carrier_round_trip expected \<longleftrightarrow>
     (let carrier = (if ec_Carrier expected = AuthorizationHeader then ProtectedResourceDedicated else ProtectedResourceStandard);
          val = ec_Scheme expected @ '' '' @ ec_Credentials expected in
      case ParseProtectedResourceAuthorization val carrier of
        Inl _ \<Rightarrow> False
      | Inr parsed \<Rightarrow> RenderProtectedResourceAuthorization parsed = Inr (ec_Carrier expected, val))"

fun carriers_round_trip :: "raw_object \<Rightarrow> string list \<Rightarrow> bool result" where
  "carriers_round_trip expected [] = Inr True"
| "carriers_round_trip expected (name # names) =
     demand (requiredField dec_carrier \<lparr>ec_Carrier = [], ec_Credentials = [], ec_Scheme = []\<rparr> expected name) (\<lambda>carrier.
       if carrier_round_trip carrier then carriers_round_trip expected names else Inr False)"

definition evaluateAuthorizationCarriers :: "adapterRequest \<Rightarrow> bool result" where
  "evaluateAuthorizationCarriers request =
     carriers_round_trip (adr_Expected request)
       [''standard_jwt'', ''dedicated_jwt'', ''standard_bearer'', ''dedicated_bearer'', ''standard_basic'', ''dedicated_basic'']"

text \<open>
  The scenarios of \<open>security-inheritance\<close>. The error of a scenario that fails ends with the text of the
  interpreter's error, which is left out.
\<close>

record scenario =
  sc_field :: string
  sc_meaning :: string
  sc_security :: string
  sc_operation :: string
  sc_state :: string
  sc_methods :: "AuthenticationMethod list"

definition security_scenarios :: "scenario list" where
  "security_scenarios =
     [\<lparr>sc_field = ''root_inherited'', sc_meaning = ''required'', sc_security = quote_tildes ''[{~a~:[]}]'', sc_operation = ''{}'',
        sc_state = ''required'', sc_methods = [''aep-jwt'']\<rparr>,
      \<lparr>sc_field = ''operation_empty_array'', sc_meaning = ''public'', sc_security = quote_tildes ''[{~a~:[]}]'',
        sc_operation = quote_tildes ''{~security~:[]}'', sc_state = ''public'', sc_methods = []\<rparr>,
      \<lparr>sc_field = ''empty_requirement_alternative'', sc_meaning = ''optional-anonymous'',
        sc_security = quote_tildes ''[{~a~:[]},{}]'', sc_operation = ''{}'', sc_state = ''public'', sc_methods = []\<rparr>,
      \<lparr>sc_field = ''multiple_objects'', sc_meaning = ''alternatives'', sc_security = quote_tildes ''[{~a~:[]},{~b~:[]}]'',
        sc_operation = ''{}'', sc_state = ''required'', sc_methods = [''aep-jwt'', ''api-key'']\<rparr>,
      \<lparr>sc_field = ''multiple_schemes_one_object'', sc_meaning = ''all-required'', sc_security = quote_tildes ''[{~a~:[],~b~:[]}]'',
        sc_operation = ''{}'', sc_state = ''fallback'', sc_methods = []\<rparr>,
      \<lparr>sc_field = ''unsupported_compound'', sc_meaning = ''fallback-live-challenge'',
        sc_security = quote_tildes ''[{~a~:[],~unknown~:[]}]'', sc_operation = ''{}'', sc_state = ''fallback'', sc_methods = []\<rparr>]"

definition scenario_document :: "RawMessage \<Rightarrow> scenario \<Rightarrow> string" where
  "scenario_document raw s =
     quote_tildes ''{~openapi~:~3.1.0~,~security~:'' @ sc_security s @
     quote_tildes '',~paths~:{~/resource~:{~get~:'' @ sc_operation s @
     quote_tildes ''}},~components~:{~securitySchemes~:{~a~:'' @ raw @
     quote_tildes '',~b~:{~type~:~apiKey~,~in~:~header~,~name~:~X-API-Key~,~x-aep-authentication-method~:~api-key~}}}}''"

definition scenario_holds :: "RawMessage \<Rightarrow> scenario \<Rightarrow> bool" where
  "scenario_holds raw s \<longleftrightarrow>
     (case InterpretOpenAPIOperation (scenario_document raw s)
             \<lparr>opmo_Method = ''GET'', opmo_Path = ''/resource'', opmo_TrailingSlash = ''strict''\<rparr> of
        Inl _ \<Rightarrow> False
      | Inr policy \<Rightarrow> oop_State policy = sc_state s \<and> oop_Methods policy = sc_methods s)"

fun scenarios_hold :: "raw_object \<Rightarrow> RawMessage \<Rightarrow> scenario list \<Rightarrow> bool result" where
  "scenarios_hold wanted raw [] = Inr True"
| "scenarios_hold wanted raw (s # ss) =
     demand (requiredField dec_string [] wanted (sc_field s)) (\<lambda>expected.
       if expected \<noteq> sc_meaning s then Inr False
       else if \<not> scenario_holds raw s then Inl (Text (sc_field s @ '' security mapping mismatch''))
       else scenarios_hold wanted raw ss)"

definition evaluateOpenAPISecurity :: "adapterRequest \<Rightarrow> bool result" where
  "evaluateOpenAPISecurity request =
     demand (rawField (adr_Input request) ''security_scheme'') (\<lambda>raw.
       case ParseOpenAPIAEPSecurityScheme raw of
         Inl _ \<Rightarrow> Inr False
       | Inr scheme \<Rightarrow>
           if oss_AuthenticationMethod scheme \<noteq> AuthenticationMethodJWT then Inr False
           else scenarios_hold (adr_Expected request) raw security_scenarios)"

section \<open>Vectors of the Service documents\<close>

definition minimalInspectDocument :: "string \<Rightarrow> InspectDocument" where
  "minimalInspectDocument serviceDID = zero_inspect\<lparr>
     insp_AEPVersion := Version,
     insp_Bindings := \<lparr>bind_Supported = Some [BindingHTTP]\<rparr>,
     insp_Commands := \<lparr>cmds_Supported = Some [CommandInspect], cmds_GrantTypes = None, cmds_GrantTypesConfig = []\<rparr>,
     insp_Core := \<lparr>core_SigningAlgorithms = Some [SigningAlgorithmEdDSA, SigningAlgorithmES256]\<rparr>,
     insp_Identity := \<lparr>idy_Methods = Some []\<rparr>,
     insp_Service := \<lparr>si_DID = serviceDID\<rparr>\<rparr>"

text \<open>The members of the minimal document; an error of the encoder or the decoder leaves nil.\<close>

definition minimal_members :: raw_object where
  "minimal_members =
     (case InspectDocument_MarshalJSON (minimalInspectDocument ''did:example:service'') of
        None \<Rightarrow> None
      | Some base \<Rightarrow> (case dec_object base of None \<Rightarrow> None | Some ms \<Rightarrow> ms))"

definition documentWireValid :: "string \<Rightarrow> string \<Rightarrow> bool" where
  "documentWireValid schema data =
     (if schema = ''service-documents.schema.json'' then
        (case dec_map dec_raw [] data minimal_members of
           None \<Rightarrow> False
         | Some combined \<Rightarrow>
             (case marshal_object combined of None \<Rightarrow> False | Some raw \<Rightarrow> succeeds (ParseInspectDocument raw)))
      else if schema = ''inspect-document.schema.json'' then succeeds (ParseInspectDocument data)
      else if schema = ''enroll-request.schema.json'' then succeeds (ParseEnrollRequest data)
      else if schema = ''enroll-response.schema.json'' then succeeds (ParseEnrollResponse data)
      else if schema = ''problem.schema.json'' then succeeds (ParseProblemDetails data)
      else if schema = ''portable-service-document.schema.json'' then
        (case dec_struct [(''ID'', on_field dec_string (\<lambda>m. m) (\<lambda>x m. x))] data [] of
           None \<Rightarrow> False
         | Some identity \<Rightarrow> succeeds (ParsePortableServiceDocument data identity))
      else False)"

record wireCase =
  wc_Name :: string
  wc_Schema :: string
  wc_Value :: RawMessage

definition dec_wire_case :: "wireCase decoder" where
  "dec_wire_case = dec_struct
     [(''Name'', on_field dec_string wc_Name (\<lambda>x. wc_Name_update (\<lambda>_. x))),
      (''Schema'', on_field dec_string wc_Schema (\<lambda>x. wc_Schema_update (\<lambda>_. x))),
      (''Value'', on_field dec_raw wc_Value (\<lambda>x. wc_Value_update (\<lambda>_. x)))]"

definition dec_outcome :: "(string \<times> bool) decoder" where
  "dec_outcome = dec_struct
     [(''Name'', on_field dec_string fst (\<lambda>x p. (x, snd p))), (''Valid'', on_field dec_bool snd (\<lambda>x p. (fst p, x)))]"

fun wire_cases :: "wireCase list \<Rightarrow> (string \<times> bool) list \<Rightarrow> bool result" where
  "wire_cases (item # items) ((name, valid) # expected) =
     (if wc_Name item \<noteq> name \<or> documentWireValid (wc_Schema item) (wc_Value item) \<noteq> valid
      then Inl (Text (''wire case: '' @ wc_Name item))
      else wire_cases items expected)"
| "wire_cases _ _ = Inr True"

definition evaluateWireShapes :: "adapterRequest \<Rightarrow> bool result" where
  "evaluateWireShapes request =
     demand (unmarshal (dec_slice dec_wire_case \<lparr>wc_Name = [], wc_Schema = [], wc_Value = []\<rparr>) None
               (member (adr_Input request) ''cases'')) (\<lambda>cases.
     demand (unmarshal (dec_slice dec_outcome ([], False)) None (member (adr_Expected request) ''cases'')) (\<lambda>expected.
       if elems cases = [] \<or> length (elems cases) \<noteq> length (elems expected) then Inl (Text ''invalid document cases'')
       else wire_cases (elems cases) (elems expected)))"

section \<open>The limits of documents\<close>

text \<open>\<open>json.Marshal\<close> of a portable document; a nil slice of blocks or items is left out.\<close>

fun enc_block :: "DocumentBlock \<Rightarrow> string" where
  "enc_block (DocumentBlock kind txt title blocks items) =
     enc_object ([(''type'', enc_string kind)] @ omit_empty ''text'' txt @ omit_empty ''title'' title @
       (case blocks of None \<Rightarrow> [] | Some bs \<Rightarrow> [(''blocks'', enc_array (map enc_block bs))]) @
       omit_nil ''items'' (enc_array \<circ> map enc_string) items)"

definition enc_portable :: "PortableServiceDocument \<Rightarrow> string" where
  "enc_portable d =
     enc_object ([(''format'', enc_string (psd_Format d)), (''version'', enc_string (psd_Version d)), (''id'', enc_string (psd_ID d))] @
       omit_nil ''summary'' (enc_array \<circ> map enc_block) (psd_Summary d) @
       [(''content'', enc_slice enc_block (psd_Content d))])"

record structuralCase =
  st_Name :: string
  st_Kind :: string
  st_Count :: int
  st_Length :: int
  st_Depth :: int
  st_ContentCount :: int
  st_SummaryCount :: int

definition dec_structural_case :: "structuralCase decoder" where
  "dec_structural_case = dec_struct
     [(''Name'', on_field dec_string st_Name (\<lambda>x. st_Name_update (\<lambda>_. x))),
      (''Kind'', on_field dec_string st_Kind (\<lambda>x. st_Kind_update (\<lambda>_. x))),
      (''Count'', on_field dec_int st_Count (\<lambda>x. st_Count_update (\<lambda>_. x))),
      (''Length'', on_field dec_int st_Length (\<lambda>x. st_Length_update (\<lambda>_. x))),
      (''Depth'', on_field dec_int st_Depth (\<lambda>x. st_Depth_update (\<lambda>_. x))),
      (''content_count'', on_field dec_int st_ContentCount (\<lambda>x. st_ContentCount_update (\<lambda>_. x))),
      (''summary_count'', on_field dec_int st_SummaryCount (\<lambda>x. st_SummaryCount_update (\<lambda>_. x)))]"

definition zero_structural_case :: structuralCase where
  "zero_structural_case = \<lparr>st_Name = [], st_Kind = [], st_Count = 0, st_Length = 0, st_Depth = 0, st_ContentCount = 0, st_SummaryCount = 0\<rparr>"

text \<open>The loop that wraps the content in sections, outermost last.\<close>

fun in_sections :: "nat \<Rightarrow> DocumentBlock slice \<Rightarrow> DocumentBlock slice" where
  "in_sections 0 content = content"
| "in_sections (Suc n) content = in_sections n (Some [DocumentBlock ''section'' [] ''Title'' content None])"

definition with_text :: "string \<Rightarrow> DocumentBlock \<Rightarrow> DocumentBlock" where
  "with_text t block = (case block of DocumentBlock kind _ title blocks items \<Rightarrow> DocumentBlock kind t title blocks items)"

text \<open>
  What a case is about: a catalog, or the document if the catalog is nil. \<open>None\<close> is a panic, of an index
  out of range or a negative count; the memory of the machine is not bounded.
\<close>

datatype generated = Catalog "ServiceDocument list" | Portable PortableServiceDocument

definition catalog_or :: "PortableServiceDocument \<Rightarrow> ServiceDocument list \<Rightarrow> generated" where
  "catalog_or document catalog = (if catalog = [] then Portable document else Catalog catalog)"

definition structural_variant :: "structuralCase \<Rightarrow> ServiceDocument \<Rightarrow> PortableServiceDocument \<Rightarrow> generated result option" where
  "structural_variant item descriptor document =
     (let kind = st_Kind item; content = elems (psd_Content document); representations = elems (sd_Representations descriptor) in
      if kind = ''catalog'' then
        Some (Inr (catalog_or document
          (map (\<lambda>i. descriptor\<lparr>sd_ID := ''doc-'' @ digits_of (int i)\<rparr>) [0..<nat (st_Count item)])))
      else if kind = ''duplicate-ids'' then Some (Inr (Catalog [descriptor, descriptor]))
      else if kind = ''duplicate-media'' then
        (case representations of
           [] \<Rightarrow> None
         | first # _ \<Rightarrow> Some (Inr (Catalog [descriptor\<lparr>sd_Representations := Some (representations @ [first])\<rparr>])))
      else if kind = ''blocks'' then
        (case content of
           [] \<Rightarrow> None
         | block # _ \<Rightarrow>
             if st_ContentCount item < 0 \<or> st_SummaryCount item < 0 then None
             else Some (Inr (Portable (document\<lparr>psd_Content := Some (replicate (nat (st_ContentCount item)) block),
                                              psd_Summary := Some (replicate (nat (st_SummaryCount item)) block)\<rparr>))))
      else if kind = ''sections'' then
        Some (Inr (Portable (document\<lparr>psd_Content := in_sections (nat (st_Depth item)) (psd_Content document)\<rparr>)))
      else if kind = ''text'' then
        (case content of
           [] \<Rightarrow> None
         | block # rest \<Rightarrow>
             if st_Length item < 0 then None
             else Some (Inr (Portable (document\<lparr>psd_Content :=
                    Some (with_text (replicate (nat (st_Length item)) CHR ''a'') block # rest)\<rparr>))))
      else if kind = ''list'' then
        (if st_Count item < 0 then None
         else Some (Inr (Portable (document\<lparr>psd_Content :=
                Some [DocumentBlock ''bulleted_list'' [] [] None (Some (replicate (nat (st_Count item)) ''Item''))]\<rparr>))))
      else if kind = ''title'' then
        (if st_Length item < 0 then None
         else Some (Inr (Catalog [descriptor\<lparr>sd_Title := replicate (nat (st_Length item)) CHR ''a''\<rparr>])))
      else if kind = ''url'' then
        (let prefix = ''https://example.com/'' in
         if st_Length item < int (length prefix) then Some (Inl (Text ''invalid generated URL bound''))
         else (case representations of
                 [] \<Rightarrow> None
               | first # rest \<Rightarrow>
                   Some (Inr (Catalog [descriptor\<lparr>sd_Representations :=
                     Some (first\<lparr>rep_URL := prefix @ replicate (nat (st_Length item - int (length prefix))) CHR ''a''\<rparr> # rest)\<rparr>]))))
      else Some (Inl (Text (''unknown structural kind: '' @ kind))))"

definition generated_valid :: "string \<Rightarrow> generated \<Rightarrow> bool" where
  "generated_valid documentID g =
     (case g of
        Catalog catalog \<Rightarrow> ValidateServiceDocuments catalog = None
      | Portable document \<Rightarrow> succeeds (ParsePortableServiceDocument (enc_portable document) documentID))"

fun structural_cases :: "raw_object \<Rightarrow> structuralCase list \<Rightarrow> (string \<times> bool) list \<Rightarrow> bool result option" where
  "structural_cases input (item # items) ((name, valid) # expected) =
     (case demand (unmarshal ServiceDocument_UnmarshalJSON zero_service_document (member input ''descriptor'')) (\<lambda>descriptor.
           demand (ParsePortableServiceDocument (member input ''document'') (sd_ID descriptor)) (\<lambda>document.
             Inr (descriptor, document))) of
        Inl err \<Rightarrow> Some (Inl err)
      | Inr (descriptor, document) \<Rightarrow>
          (case structural_variant item descriptor document of
             None \<Rightarrow> None
           | Some (Inl err) \<Rightarrow> Some (Inl err)
           | Some (Inr g) \<Rightarrow>
               if st_Name item \<noteq> name \<or> generated_valid (sd_ID descriptor) g \<noteq> valid
               then Some (Inl (Text (''structural case: '' @ st_Name item)))
               else structural_cases input items expected))"
| "structural_cases _ _ _ = Some (Inr True)"

definition documentStructuralLimits :: "adapterRequest \<Rightarrow> bool result option" where
  "documentStructuralLimits request =
     (case demand (unmarshal (dec_slice dec_structural_case zero_structural_case) None (member (adr_Input request) ''cases'')) (\<lambda>cases.
           demand (unmarshal (dec_slice dec_outcome ([], False)) None (member (adr_Expected request) ''cases'')) (\<lambda>expected.
             if elems cases = [] \<or> length (elems cases) \<noteq> length (elems expected) then Inl (Text ''invalid structural cases'')
             else Inr (elems cases, elems expected))) of
        Inl err \<Rightarrow> Some (Inl err)
      | Inr (cases, expected) \<Rightarrow> structural_cases (adr_Input request) cases expected)"

section \<open>Lemmas\<close>

lemma truncate_text_length: "0 \<le> maximum \<Longrightarrow> int (length (truncate_text val maximum)) \<le> maximum"
  by (auto simp: truncate_text_def)

text \<open>The status says what was decided, the sequence is the request's, and the message stays within its bound.\<close>

lemma respond_faithful:
  "(ars_Status (respond request decided) = ''passed'' \<longleftrightarrow> decided = Inr True) \<and>
   ars_Sequence (respond request decided) = adr_Sequence request \<and> length (ars_Message (respond request decided)) \<le> 1024"
  using truncate_text_length [of 1024] by (cases decided) (auto simp: respond_def Let_def)

text \<open>The adapter answers every request it was sent, in order, unless it ends before.\<close>

lemma serve_answers:
  assumes "serve role decide lines = (out, None)"
  shows "\<exists>requests. map (\<lambda>line. dec_struct fields_adapter_request line zero_adapter_request)
      (filter (\<lambda>line. trim_space line \<noteq> []) lines) = map Some requests \<and>
    (\<forall>request \<in> set requests. adr_Role request = role) \<and>
    out = map (\<lambda>request. enc_adapter_response (respond request (decide request))) requests"
  using assms
proof (induction lines arbitrary: out)
  case (Cons line lines)
  show ?case
  proof (cases "trim_space line = []")
    case True
    then show ?thesis using Cons by simp
  next
    case False
    with Cons.prems obtain request out' where one: "dec_struct fields_adapter_request line zero_adapter_request = Some request"
      "adr_Role request = role" "serve role decide lines = (out', None)"
      "out = enc_adapter_response (respond request (decide request)) # out'"
      by (cases "serve role decide lines") (auto split: option.splits if_splits)
    from Cons.IH [OF one(3)] obtain requests where
      "map (\<lambda>line. dec_struct fields_adapter_request line zero_adapter_request)
        (filter (\<lambda>line. trim_space line \<noteq> []) lines) = map Some requests"
      "\<forall>request \<in> set requests. adr_Role request = role"
      "out' = map (\<lambda>request. enc_adapter_response (respond request (decide request))) requests"
      by blast
    with one False show ?thesis by (intro exI [of _ "request # requests"]) simp
  qed
qed simp

definition first_digits :: "string list" where
  "first_digits = [''0'', ''1'', ''2'', ''3'', ''4'', ''5'', ''6'']"

lemma digits_upto_7: "i < 7 \<Longrightarrow> digits_of (int i) = first_digits ! i"
proof -
  have digits: "digits_of 0 = ''0''" "digits_of 1 = ''1''" "digits_of 2 = ''2''" "digits_of 3 = ''3''" "digits_of 4 = ''4''"
    "digits_of 5 = ''5''" "digits_of 6 = ''6''" by code_simp+
  assume "i < 7"
  then have "i = 0 \<or> i = 1 \<or> i = 2 \<or> i = 3 \<or> i = 4 \<or> i = 5 \<or> i = 6" by linarith
  then show ?thesis by (elim disjE) (simp_all add: digits first_digits_def)
qed

lemma generated_ids:
  "i < 7 \<Longrightarrow> full_match documentIDPattern (''doc-'' @ digits_of (int i))"
  "i < 7 \<Longrightarrow> j < 7 \<Longrightarrow> digits_of (int i) = digits_of (int j) \<Longrightarrow> i = j"
proof -
  have "list_all (\<lambda>s. full_match documentIDPattern (''doc-'' @ s)) first_digits \<and> distinct first_digits \<and> length first_digits = 7"
    by code_simp
  then show "i < 7 \<Longrightarrow> full_match documentIDPattern (''doc-'' @ digits_of (int i))"
    "i < 7 \<Longrightarrow> j < 7 \<Longrightarrow> digits_of (int i) = digits_of (int j) \<Longrightarrow> i = j"
    by (simp_all add: digits_upto_7 list_all_length nth_eq_iff_index_eq)
qed

lemma document_renamed:
  assumes "ValidateServiceDocument d = None" and "full_match documentIDPattern k"
  shows "ValidateServiceDocument (d\<lparr>sd_ID := k\<rparr>) = None"
  using assms ValidateDocumentIDs_None [of "[k]"] unfolding ValidateServiceDocument_def
  by (simp split: option.splits if_splits sum.splits)

text \<open>The limit the vectors look for: of the catalogs generated from a valid descriptor, those of one to seven documents.\<close>

lemma catalog_limit:
  assumes "ValidateServiceDocument descriptor = None" and "st_Kind item = ''catalog''" and "0 < st_Count item"
  shows "\<exists>g. structural_variant item descriptor document = Some (Inr g) \<and> (generated_valid k g \<longleftrightarrow> st_Count item \<le> 7)"
proof -
  let ?n = "nat (st_Count item)"
  let ?catalog = "map (\<lambda>i. descriptor\<lparr>sd_ID := ''doc-'' @ digits_of (int i)\<rparr>) [0..<?n]"
  have n: "?n \<noteq> 0" using assms(3) by simp
  have "ValidateServiceDocuments ?catalog = None \<longleftrightarrow> ?n \<le> 7"
  proof
    show "ValidateServiceDocuments ?catalog = None \<Longrightarrow> ?n \<le> 7" by (simp add: service_documents_accept)
  next
    assume n7: "?n \<le> 7"
    then have "inj_on (\<lambda>i. ''doc-'' @ digits_of (int i)) (set [0..<?n])" by (intro inj_onI) (simp add: generated_ids(2))
    then have "distinct (map sd_ID ?catalog)" by (simp add: distinct_map comp_def)
    then show "ValidateServiceDocuments ?catalog = None"
      using n7 n document_renamed [OF assms(1) generated_ids(1)] by (auto simp: service_documents_accept)
  qed
  then show ?thesis
    using assms(2) n by (simp add: structural_variant_def Let_def catalog_or_def generated_valid_def) linarith
qed

end
