(* ===== verification/Spec2Isabelle.thy ===== *)
theory Spec2Isabelle
  imports Http_Auth Openapi Grants Did_Web Jwt Single_Flight Service_Limits Service_Http Platform_Hosting Platform_Registry
    Agent_Documents Agent_Confinement Agent_Polling Agent_Credentials Agent_Hosted Jwt_Signatures Interop_Server Interop_Agent Conformance
begin

text \<open>
  A model of aep-go, the Go library of the Agent Enrollment Protocol. An Agent enrolls with a Service under
  a did:web identity, presents short-lived client assertions, and may exchange them for session credentials;
  a Platform hosts identities and signs for Agents. The library has four packages: the protocol at the root
  of the repository, \<open>service\<close>, \<open>platform\<close> and \<open>agent\<close>. Each has its theories here, in the order of its calls.

  \<^bold>\<open>Foundations.\<close> \<open>Prelude\<close>: Go strings as byte lists with the functions of the package strings, nil and
  empty slices, 64-bit integers with their wrap-around, effectful calls as functions from a world to an error
  or a value and a world, and the rules for what such calls keep and yield. \<open>Regexp\<close>, \<open>Json\<close>, \<open>Times\<close>, \<open>Urls\<close>,
  \<open>Media_Types\<close>, \<open>Worlds\<close> and \<open>Http_Client\<close> model what the code uses of the standard library: regular
  expressions by derivatives, encoding/json, RFC 3339 times, net/url, mime, header fields and requests.

  \<^bold>\<open>The protocol\<close> (files of the root). \<open>Wire_Types\<close>: constants, types and errors. \<open>Validation\<close>, \<open>Decoding\<close>:
  validation.go and additional.go. \<open>Documents\<close>: service\_documents.go. \<open>Claims\<close>: claims.go. \<open>Inspect\<close>:
  inspect.go. \<open>Protocol\<close>, \<open>Grants\<close>: protocol.go. \<open>Http_Auth\<close>: http.go. \<open>Openapi\<close>: openapi.go. \<open>Did_Web\<close>:
  did\_web.go. \<open>Jwt\<close>: jwt.go. Their lemmas say what parsing and validation accept, that the path match finds
  the most specific template, that a rendered authorization parses back, that a verified assertion is signed
  by the key its identifier names and timely, by the clock it was checked at, in exact 64-bit arithmetic, and that resolution stays on the
  host a DID names.

  \<^bold>\<open>The Service.\<close> \<open>Service_Types\<close>, \<open>Service_New\<close>: types.go and service.go, with the invariant of a Service.
  \<open>Service_Stores\<close>: the memory stores of stores.go, each critical section a definition; \<open>Single_Flight\<close>
  interleaves those of the idempotency store, with the channels its callers block on, as a step relation and
  proves at-most-once execution, that every fair run releases the calls that block, and that a callback that
  panics keeps its key for good. \<open>Service_Limits\<close>: claims.go. \<open>Service_Credentials\<close>: credentials.go, whose memory store
  satisfies the contract \<open>credential_store\<close>. \<open>Service_Assertions\<close>, \<open>Service_Commands\<close>: commands.go, documents.go
  and assertion.go, the recognition of assertions, Enroll, Status, Grant and Revoke. \<open>Service_Access\<close>:
  authentication.go. \<open>Service_Http\<close>: http.go, the handler and the middleware.

  \<^bold>\<open>The Platform.\<close> \<open>Platform_Types\<close>, \<open>Platform_Documents\<close>, \<open>Platform_New\<close>: types.go, document.go and the
  constructor. \<open>Platform_Stores\<close>: stores.go; \<open>Platform_Registry\<close> is the abstract registry its identity store
  refines. \<open>Platform_Core\<close>: platform.go, the operations. \<open>Platform_Verify\<close>: verification.go. \<open>Platform_Signing\<close>
  and \<open>Platform_Hosting\<close> hold the properties: what the key store is asked to sign, that Services accept it, what
  hosted verification vouches for, and that the identities of others are hidden.

  \<^bold>\<open>The Agent.\<close> \<open>Agent_Types\<close>: types.go, stores.go and the interfaces. \<open>Agent_Client\<close>: client.go. \<open>Agent_Inspect\<close>:
  inspect.go, fetching and caching the Inspect document. \<open>Agent_Commands\<close>, \<open>Agent_Sessions\<close>: commands.go.
  \<open>Agent_Authentication\<close>, \<open>Agent_Openapi\<close>, \<open>Agent_Resource\<close>, \<open>Agent_Documents\<close>: the files of those names, with
  resource.go in \<open>Agent_Resource\<close>. \<open>Agent_Platform\<close>, \<open>Agent_Provider\<close>: platform\_provider.go. A method of a session
  acts on the world and the state of the session; a context is its deadline. \<open>Agent_Binding\<close> proves that an
  accepted Inspect document is bound to the origin of the Service, \<open>Agent_Confinement\<close> that header fields of the
  caller do not leave the origin of the request (a redirect that comes back to it gets them again), \<open>Agent_Polling\<close> that waiting for activation ends.

  \<^bold>\<open>The packages together.\<close> \<open>Agent_Assertions\<close>: what a session has signed is valid at the Service it inspected.
  \<open>Json_Texts\<close> and \<open>Agent_Credentials\<close>: a granted credential survives its encoding, and the header the Agent makes of
  it authenticates at the Service. \<open>Calendar\<close> and \<open>Agent_Hosted\<close>: an instant survives its RFC 3339 text, an
  Agent takes the identities a Platform provisions and signs only as them, with the assertion in the completed answer
  that ends the run of its signer, and the Platform signs what the provider
  asks, with an answer the provider takes. \<open>Jwt_Signatures\<close>: an assertion that is signed verifies, exactly when it is
  expected and timely.

  \<^bold>\<open>The programs\<close> under cmd. \<open>Interop_Platform\<close>: what a Platform owes to its key store, as the locale
  \<open>platform_keys\<close>, and the Platform of cmd/aep-interop, whose key store keeps that contract, so that what it signs
  verifies under the key in the DID document it serves. \<open>Interop_Server\<close>: its server, which hands on what an Agent asks for and refuses strangers the same
  way in every world; \<open>Interop_Agent\<close>: its Agent run. \<open>Conformance\<close>: the adapter of cmd/aep-conformance-adapter, with the vectors that the parsers, the path
  of a DID, the authorization carriers, OpenAPI security and the limits of documents decide by themselves.

  \<^bold>\<open>Interfaces.\<close> A Go interface is a record of its methods, a function field a function. Stores are parts of
  the world, given by \<open>part\<close> with a getter and a setter. The contracts are locales: \<open>world_part\<close>,
  \<open>credential_store\<close> and the others declared beside their providers, each interpreted on the model's stores.

  \<^bold>\<open>Parameters.\<close> go-jose and the JSON Web Key codec, SHA-256, the HTTP transport, the clock, timers and
  randomness, the table of printable runes, and the stores and policies a caller supplies are arguments. What
  a theorem relies on of them is in its hypotheses.

  \<^bold>\<open>Bounds and fuel.\<close> The JSON parser takes fuel beyond twice the length of its text, which every nesting
  within Go's limit of 10000 containers stays below; scanners over a text take its length, and consume a byte
  per step. Redirects are counted down from the limit of the code, so those loops are total. Two loops of the
  code have no bound of their own: polling takes fuel and returns \<open>None\<close> when it runs out, which is proved not to
  happen with fuel for every interval of the timeout; the rounds of a pending signature take fuel and fail with
  \<open>Unfinished\<close>, since only the Platform and the resolver of the caller end them. A time is an integer of nanoseconds.

  \<^bold>\<open>Not modelled.\<close> The text of an error that quotes its input or wraps the text of a library error is left
  out where no code reads it; a result returned beside an error is dropped. Mutexes make the methods of the memory
  stores and of a session atomic, so outside \<open>Single_Flight\<close> and the enrollment and identity stores, whose
  callbacks run unlocked, calls are sequential; the channels on which callers of the enrollment store and of the
  stores of the Platform block are left out, as nobody blocks there. A callback that panics is a step of
  \<open>Single_Flight\<close> only. Closing a body and cancelling a context that has ended have no effect.
  Of cmd/aep-conformance-adapter the vectors are left out that need fixtures of their own (generated keys, HTTP test
  servers, transports in memory, clocks) or compare values through jsonEqual; they call the packages modelled here. Of
  cmd/aep-interop the flags, what \<open>http.ServeMux\<close> answers by itself, and listening are left out, and examples and
  scripts altogether.
\<close>

end
